(* ===== verification/Prelude.thy ===== *)
theory Prelude
  imports Complex_Main "HOL-Library.Sublist"
begin

text \<open>
  Shared vocabulary of the development: the theorem collections the component proofs draw on,
  the names of the model's basic types, the Python string operations the backend uses, and the
  two \<open>Decimal.quantize\<close> rounding modes that fix every stored amount of money.

  Conventions. A Python \<open>float\<close> or \<open>Decimal\<close> is an exact \<^typ>\<open>rat\<close> (binary rounding and the
  28-digit decimal context are not modelled; every \<open>quantize\<close> call is). An \<open>int\<close> is an
  \<^typ>\<open>int\<close>. A \<open>str\<close> is a \<^typ>\<open>string\<close> whose characters are the Latin-1 code points. A UUID is
  its canonical text, so that \<open>str(id)\<close> is the identity. An aware \<open>datetime\<close> is the \<^typ>\<open>int\<close>
  number of microseconds since the Unix epoch.
\<close>

named_theorems store_laws \<open>laws of the shared key-value store\<close>
named_theorems money \<open>facts about rounding of money\<close>
named_theorems gate_defs \<open>definitions of the gates on the apply path\<close>

text \<open>\<open>HTTPException(status_code, detail)\<close>.\<close>

datatype http_error = Http_Error int string

type_synonym uuid = string
type_synonym datetime = int
type_synonym seconds = rat
type_synonym decimal = rat

section \<open>Time\<close>

definition microseconds_per_day :: int where
  "microseconds_per_day = 86400000000"

definition timedelta_days :: "int \<Rightarrow> int" where
  "timedelta_days d = d * microseconds_per_day"

lemma timedelta_days_mono [simp]: "timedelta_days a \<le> timedelta_days b \<longleftrightarrow> a \<le> b"
  by (simp add: timedelta_days_def microseconds_per_day_def)

lemma timedelta_days_nonneg [simp]: "0 \<le> timedelta_days d \<longleftrightarrow> 0 \<le> d"
  by (simp add: timedelta_days_def microseconds_per_day_def)

lemma timedelta_days_pos [simp]: "0 < timedelta_days d \<longleftrightarrow> 0 < d"
  by (simp add: timedelta_days_def microseconds_per_day_def)

section \<open>Python strings\<close>

text \<open>\<open>str.isspace\<close> on Latin-1; the regular expression class \<open>\s\<close> is the same set.\<close>

definition py_isspace :: "char \<Rightarrow> bool" where
  "py_isspace c = (let n = (of_char c :: nat) in
     (9 \<le> n \<and> n \<le> 13) \<or> (28 \<le> n \<and> n \<le> 32) \<or> n = 133 \<or> n = 160)"

definition py_lower_char :: "char \<Rightarrow> char" where
  "py_lower_char c = (let n = (of_char c :: nat) in
     if (65 \<le> n \<and> n \<le> 90) \<or> (192 \<le> n \<and> n \<le> 222 \<and> n \<noteq> 215) then char_of (n + 32) else c)"

definition py_lower :: "string \<Rightarrow> string" where
  "py_lower s = map py_lower_char s"

definition py_lstrip :: "string \<Rightarrow> string" where
  "py_lstrip s = dropWhile py_isspace s"

definition py_strip :: "string \<Rightarrow> string" where
  "py_strip s = rev (py_lstrip (rev (py_lstrip s)))"

text \<open>\<open>needle in haystack\<close>\<close>

fun py_contains :: "string \<Rightarrow> string \<Rightarrow> bool" where
  "py_contains needle [] = (needle = [])"
| "py_contains needle (c # cs) = (prefix needle (c # cs) \<or> py_contains needle cs)"

text \<open>\<open>re.sub(r"\s+", rep, s)\<close>: every maximal run of white space becomes \<open>rep\<close>.\<close>

fun collapse_spaces :: "bool \<Rightarrow> string \<Rightarrow> string \<Rightarrow> string" where
  "collapse_spaces in_run rep [] = []"
| "collapse_spaces in_run rep (c # cs) =
     (if py_isspace c then (if in_run then [] else rep) @ collapse_spaces True rep cs
      else c # collapse_spaces False rep cs)"

definition re_sub_spaces :: "string \<Rightarrow> string \<Rightarrow> string" where
  "re_sub_spaces rep s = collapse_spaces False rep s"

lemma length_py_lower [simp]: "length (py_lower s) = length s"
  by (simp add: py_lower_def)

lemma py_lower_char_ascii:
  "py_lower_char c = c" if "of_char c < (65::nat) \<or> (90 < (of_char c :: nat) \<and> of_char c < (192::nat))"
  using that by (auto simp: py_lower_char_def Let_def)

lemma of_char_lower:
  "(of_char (py_lower_char c) :: nat) =
     (let n = (of_char c :: nat) in
      if (65 \<le> n \<and> n \<le> 90) \<or> (192 \<le> n \<and> n \<le> 222 \<and> n \<noteq> 215) then n + 32 else n)"
  by (auto simp: py_lower_char_def Let_def)

lemma py_lower_char_idem [simp]: "py_lower_char (py_lower_char c) = py_lower_char c"
proof -
  let ?n = "of_char c :: nat"
  have "of_char (py_lower_char (py_lower_char c)) = (of_char (py_lower_char c) :: nat)"
    unfolding of_char_lower Let_def by (auto split: if_splits)
  then show ?thesis by (simp only: of_char_eq_iff)
qed

lemma py_isspace_lower [simp]: "py_isspace (py_lower_char c) = py_isspace c"
  unfolding py_isspace_def of_char_lower Let_def by auto

lemma py_lower_idem [simp]: "py_lower (py_lower s) = py_lower s"
  by (simp add: py_lower_def comp_def)

lemma py_lower_Nil [simp]: "py_lower s = [] \<longleftrightarrow> s = []"
  by (simp add: py_lower_def)

lemma py_strip_no_leading: "py_strip s \<noteq> [] \<Longrightarrow> \<not> py_isspace (hd (py_strip s))"
proof -
  assume ne: "py_strip s \<noteq> []"
  let ?t = "py_lstrip s"
  obtain us where us: "?t = rev (dropWhile py_isspace (rev ?t)) @ us"
    by (metis rev_append rev_rev_ident takeWhile_dropWhile_id)
  have strip: "py_strip s = rev (dropWhile py_isspace (rev ?t))"
    by (simp add: py_strip_def py_lstrip_def)
  then have "hd (py_strip s) = hd ?t"
    using ne us by (metis hd_append2)
  moreover have "?t \<noteq> []"
    using ne strip by auto
  ultimately show ?thesis
    by (simp add: py_lstrip_def hd_dropWhile)
qed

lemma set_dropWhile_subset: "set (dropWhile P xs) \<subseteq> set xs"
  by (auto dest: set_dropWhileD)

lemma set_py_strip: "set (py_strip s) \<subseteq> set s"
  using set_dropWhile_subset by (fastforce simp: py_strip_def py_lstrip_def dest: set_dropWhileD)

lemma py_contains_iff: "py_contains needle s \<longleftrightarrow> sublist needle s"
  by (induction s) (auto simp: sublist_Cons_right)

lemma collapse_spaces_no_space:
  "\<forall>c \<in> set rep. \<not> py_isspace c \<Longrightarrow> c \<in> set (collapse_spaces b rep s) \<Longrightarrow> \<not> py_isspace c"
  by (induction b rep s rule: collapse_spaces.induct) (auto split: if_splits)

lemma collapse_spaces_id: "\<forall>c \<in> set s. \<not> py_isspace c \<Longrightarrow> collapse_spaces b rep s = s"
  by (induction s arbitrary: b) auto

section \<open>Decimal.quantize\<close>

text \<open>
  \<open>quantize(10 ** -p, rounding=ROUND_HALF_UP)\<close> rounds ties away from zero; the default context
  rounds ties to even.
\<close>

definition quantize_half_up :: "nat \<Rightarrow> decimal \<Rightarrow> decimal" where
  "quantize_half_up p x =
     (let m = \<lfloor>\<bar>x\<bar> * 10 ^ p + 1 / 2\<rfloor>
      in (if x < 0 then - of_int m else of_int m) / 10 ^ p)"

definition quantize_half_even :: "nat \<Rightarrow> decimal \<Rightarrow> decimal" where
  "quantize_half_even p x =
     (let y = \<bar>x\<bar> * 10 ^ p; f = \<lfloor>y\<rfloor>; r = y - of_int f;
          m = (if r < 1 / 2 then f else if 1 / 2 < r then f + 1 else if even f then f else f + 1)
      in (if x < 0 then - of_int m else of_int m) / 10 ^ p)"

text \<open>\<open>on_grid p x\<close>: the amount \<open>x\<close> has at most \<open>p\<close> decimal places.\<close>

definition on_grid :: "nat \<Rightarrow> decimal \<Rightarrow> bool" where
  "on_grid p x = (x * 10 ^ p \<in> \<int>)"

lemma floor_half [simp]: "\<lfloor>1 / 2 :: rat\<rfloor> = 0"
  by (simp add: floor_eq_iff)

lemma quantize_half_up_0 [simp]: "quantize_half_up p 0 = 0"
  by (simp add: quantize_half_up_def Let_def)

lemma quantize_half_even_0 [simp]: "quantize_half_even p 0 = 0"
  by (simp add: quantize_half_even_def Let_def)

lemma quantize_half_up_nonneg_eq:
  "0 \<le> x \<Longrightarrow> quantize_half_up p x = of_int \<lfloor>x * 10 ^ p + 1 / 2\<rfloor> / 10 ^ p"
  by (simp add: quantize_half_up_def Let_def)

lemma quantize_half_up_minus: "quantize_half_up p (- x) = - quantize_half_up p x"
  by (cases x "0 :: rat" rule: linorder_cases) (simp_all add: quantize_half_up_def Let_def)

lemma quantize_half_up_nonneg [money]: "0 \<le> x \<Longrightarrow> 0 \<le> quantize_half_up p x"
  by (simp add: quantize_half_up_nonneg_eq)

lemma quantize_half_up_error_nonneg:
  assumes "0 \<le> x"
  shows "\<bar>quantize_half_up p x - x\<bar> \<le> 1 / (2 * 10 ^ p)"
proof -
  define s :: rat where "s = 10 ^ p"
  have s: "0 < s" by (simp add: s_def)
  define m where "m = \<lfloor>x * s + 1 / 2\<rfloor>"
  have q: "quantize_half_up p x = of_int m / s"
    using assms by (simp add: quantize_half_up_nonneg_eq m_def s_def)
  have "of_int m \<le> x * s + 1 / 2" "x * s + 1 / 2 < of_int m + 1"
    unfolding m_def by linarith+
  then have "\<bar>of_int m - x * s\<bar> \<le> 1 / 2" by linarith
  moreover have "\<bar>of_int m / s - x\<bar> = \<bar>of_int m - x * s\<bar> / s"
    using s by (simp add: field_simps abs_if)
  ultimately have "\<bar>of_int m / s - x\<bar> \<le> (1 / 2) / s"
    using s by (metis divide_right_mono less_imp_le)
  then show ?thesis by (simp add: q s_def)
qed

lemma quantize_half_up_error [money]: "\<bar>quantize_half_up p x - x\<bar> \<le> 1 / (2 * 10 ^ p)"
proof (cases "0 \<le> x")
  case True
  then show ?thesis by (rule quantize_half_up_error_nonneg)
next
  case False
  then show ?thesis
    using quantize_half_up_error_nonneg [of "- x" p] by (simp add: quantize_half_up_minus abs_minus_commute)
qed

lemma quantize_half_up_mono_nonneg:
  assumes "0 \<le> x" "x \<le> y"
  shows "quantize_half_up p x \<le> quantize_half_up p y"
proof -
  have "x * 10 ^ p + 1 / 2 \<le> y * 10 ^ p + 1 / 2"
    using assms by (simp add: mult_right_mono)
  then have "\<lfloor>x * 10 ^ p + 1 / 2\<rfloor> \<le> \<lfloor>y * 10 ^ p + 1 / 2\<rfloor>"
    by (rule floor_mono)
  then show ?thesis
    using assms by (simp add: quantize_half_up_nonneg_eq divide_right_mono)
qed

lemma quantize_half_up_mono [money]:
  assumes "x \<le> y"
  shows "quantize_half_up p x \<le> quantize_half_up p y"
proof -
  consider "0 \<le> x" | "x < 0" "0 \<le> y" | "y < 0" using assms by linarith
  then show ?thesis
  proof cases
    case 1
    then show ?thesis using assms by (rule quantize_half_up_mono_nonneg)
  next
    case 2
    then have "quantize_half_up p x \<le> 0"
      using quantize_half_up_nonneg [of "- x" p] by (simp add: quantize_half_up_minus)
    with 2 show ?thesis using quantize_half_up_nonneg [of y p] by linarith
  next
    case 3
    then show ?thesis
      using quantize_half_up_mono_nonneg [of "- y" "- x" p] assms by (simp add: quantize_half_up_minus)
  qed
qed

lemma on_grid_quantize_half_up [simp, money]: "on_grid p (quantize_half_up p x)"
  by (simp add: on_grid_def quantize_half_up_def Let_def)

lemma on_grid_quantize_half_even [simp, money]: "on_grid p (quantize_half_even p x)"
  by (simp add: on_grid_def quantize_half_even_def Let_def)

lemma on_grid_0 [simp]: "on_grid p 0"
  by (simp add: on_grid_def)

lemma on_grid_max [simp]: "on_grid p x \<Longrightarrow> on_grid p y \<Longrightarrow> on_grid p (max x y)"
  by (simp add: max_def)

lemma on_grid_min [simp]: "on_grid p x \<Longrightarrow> on_grid p y \<Longrightarrow> on_grid p (min x y)"
  by (simp add: min_def)

lemma on_grid_diff [simp]: "on_grid p x \<Longrightarrow> on_grid p y \<Longrightarrow> on_grid p (x - y)"
  by (simp add: on_grid_def left_diff_distrib)

lemma quantize_half_up_grid_id [simp]:
  assumes "on_grid p x"
  shows "quantize_half_up p x = x"
proof -
  have pos: "quantize_half_up p y = y" if "on_grid p y" "0 \<le> y" for y
  proof -
    have "y * 10 ^ p \<in> \<int>" using that(1) by (simp add: on_grid_def)
    then obtain k :: int where k: "y * 10 ^ p = of_int k" by (rule Ints_cases)
    have "\<lfloor>y * 10 ^ p + 1 / 2\<rfloor> = k"
      unfolding k by (simp add: floor_unique)
    then have "quantize_half_up p y = of_int k / 10 ^ p"
      using that(2) by (simp add: quantize_half_up_nonneg_eq)
    also have "\<dots> = y" using k by (simp add: field_simps)
    finally show ?thesis .
  qed
  show ?thesis
  proof (cases "0 \<le> x")
    case True
    with assms show ?thesis by (rule pos)
  next
    case False
    moreover have "on_grid p (- x)" using assms by (simp add: on_grid_def)
    ultimately show ?thesis using pos [of "- x"] by (simp add: quantize_half_up_minus)
  qed
qed

section \<open>Lists\<close>

lemma find_Some_prop: "find P xs = Some x \<Longrightarrow> x \<in> set xs \<and> P x"
  by (induction xs) (auto split: if_splits)

section \<open>float(text)\<close>

text \<open>
  The grammar of Python's \<open>float\<close> constructor on a string: optional surrounding white space and
  sign, then \<open>nan\<close>, \<open>inf\<close>, \<open>infinity\<close> in any case, or decimal digits (single underscores between
  digits allowed) with an optional fraction and exponent. \<open>None\<close> is \<open>ValueError\<close>.
\<close>

datatype py_float = Fin rat | PosInf | NegInf | NaN

definition digit_value :: "char \<Rightarrow> nat option" where
  "digit_value c = (let n = (of_char c :: nat) in if 48 \<le> n \<and> n \<le> 57 then Some (n - 48) else None)"

text \<open>Digits read so far (value and how many), whether a digit may be preceded by an underscore.\<close>

fun scan_digits :: "nat \<Rightarrow> nat \<Rightarrow> string \<Rightarrow> nat \<times> nat \<times> string" where
  "scan_digits v n [] = (v, n, [])"
| "scan_digits v n (c # cs) =
     (case digit_value c of
        Some d \<Rightarrow> scan_digits (10 * v + d) (n + 1) cs
      | None \<Rightarrow>
          (case cs of
             [] \<Rightarrow> (v, n, c # cs)
           | c' # cs' \<Rightarrow>
               (case digit_value c' of
                  Some d \<Rightarrow> if c = CHR ''_'' \<and> 0 < n then scan_digits (10 * v + d) (n + 1) cs'
                            else (v, n, c # cs)
                | None \<Rightarrow> (v, n, c # cs))))"

definition scan_sign :: "string \<Rightarrow> bool \<times> string" where
  "scan_sign s =
     (case s of
        [] \<Rightarrow> (False, [])
      | c # cs \<Rightarrow> if c = CHR ''-'' then (True, cs) else if c = CHR ''+'' then (False, cs) else (False, s))"

definition scan_exponent :: "string \<Rightarrow> int option" where
  "scan_exponent s =
     (case s of
        [] \<Rightarrow> Some 0
      | c # cs \<Rightarrow>
          if c = CHR ''e'' then
            (case scan_sign cs of (neg, ds) \<Rightarrow>
             case scan_digits 0 0 ds of (v, n, rest) \<Rightarrow>
               if 0 < n \<and> rest = [] then Some (if neg then - int v else int v) else None)
          else None)"

definition scan_fraction :: "string \<Rightarrow> nat \<times> nat \<times> string" where
  "scan_fraction s =
     (case s of
        [] \<Rightarrow> (0, 0, [])
      | c # cs \<Rightarrow> if c = CHR ''.'' then scan_digits 0 0 cs else (0, 0, s))"

definition parse_decimal :: "string \<Rightarrow> rat option" where
  "parse_decimal s =
     (case scan_digits 0 0 s of (i, ni, rest) \<Rightarrow>
      case scan_fraction rest of (f, nf, rest') \<Rightarrow>
        if ni + nf = 0 then None
        else map_option (\<lambda>e. (of_nat i + of_nat f / 10 ^ nf) * (10 powi e)) (scan_exponent rest'))"

definition py_float_of_string :: "string \<Rightarrow> py_float option" where
  "py_float_of_string s =
     (case scan_sign (py_lower (py_strip s)) of (neg, t) \<Rightarrow>
        if t = ''nan'' then Some NaN
        else if t = ''inf'' \<or> t = ''infinity'' then Some (if neg then NegInf else PosInf)
        else map_option (\<lambda>x. Fin (if neg then - x else x)) (parse_decimal t))"

section \<open>Lists\<close>

text \<open>\<open>list(dict.fromkeys(xs))\<close>: the first occurrence of every element, in order.\<close>

fun dict_fromkeys :: "'a list \<Rightarrow> 'a list" where
  "dict_fromkeys [] = []"
| "dict_fromkeys (x # xs) = x # filter (\<lambda>y. y \<noteq> x) (dict_fromkeys xs)"

lemma set_dict_fromkeys [simp]: "set (dict_fromkeys xs) = set xs"
  by (induction xs) auto

lemma distinct_dict_fromkeys [simp]: "distinct (dict_fromkeys xs)"
  by (induction xs) auto

lemma dict_fromkeys_Nil [simp]: "dict_fromkeys xs = [] \<longleftrightarrow> xs = []"
  by (cases xs) auto

lemma dict_fromkeys_id [simp]: "distinct xs \<Longrightarrow> dict_fromkeys xs = xs"
proof (induction xs)
  case (Cons x xs)
  then have "filter (\<lambda>y. y \<noteq> x) xs = xs" by (auto intro: filter_True)
  with Cons show ?case by simp
qed simp

end
