(* ===== verification/Json.thy ===== *)
theory Json
  imports Prelude
begin

text \<open>
  Request bodies as the proxy sees them after \<open>json.loads\<close>: the value type, Python truthiness and
  \<open>dict.get\<close>. A dictionary is an association list in insertion order; a missing key and a JSON null
  are both \<open>JNull\<close>, which is what \<open>dict.get\<close> returns for them.
\<close>

datatype json =
    JNull
  | JBool bool
  | JInt int
  | JFloat py_float
  | JStr string
  | JList "json list"
  | JObj "(string \<times> json) list"

fun truthy :: "json \<Rightarrow> bool" where
  "truthy JNull = False"
| "truthy (JBool b) = b"
| "truthy (JInt n) = (n \<noteq> 0)"
| "truthy (JFloat x) = (x \<noteq> Fin 0)"
| "truthy (JStr s) = (s \<noteq> [])"
| "truthy (JList xs) = (xs \<noteq> [])"
| "truthy (JObj kvs) = (kvs \<noteq> [])"

definition dict_get :: "(string \<times> json) list \<Rightarrow> string \<Rightarrow> json" where
  "dict_get kvs k = (case map_of kvs k of None \<Rightarrow> JNull | Some v \<Rightarrow> v)"

text \<open>\<open>{**d, k: v}\<close>: an existing key keeps its position.\<close>

fun dict_put :: "(string \<times> json) list \<Rightarrow> string \<Rightarrow> json \<Rightarrow> (string \<times> json) list" where
  "dict_put [] k v = [(k, v)]"
| "dict_put ((k', v') # kvs) k v = (if k' = k then (k, v) # kvs else (k', v') # dict_put kvs k v)"

fun is_dict :: "json \<Rightarrow> bool" where
  "is_dict (JObj kvs) = True"
| "is_dict _ = False"

fun as_str :: "json \<Rightarrow> string option" where
  "as_str (JStr s) = Some s"
| "as_str _ = None"

text \<open>\<open>int(x)\<close>: \<open>Inl True\<close> is \<open>OverflowError\<close>, \<open>Inl False\<close> a \<open>TypeError\<close> or \<open>ValueError\<close>.\<close>

definition py_int_of_string :: "string \<Rightarrow> int option" where
  "py_int_of_string s =
     (case scan_sign (py_strip s) of (neg, t) \<Rightarrow>
      case scan_digits 0 0 t of (v, n, rest) \<Rightarrow>
        if 0 < n \<and> rest = [] then Some (if neg then - int v else int v) else None)"

definition truncate_rat :: "rat \<Rightarrow> int" where
  "truncate_rat x = (if x < 0 then \<lceil>x\<rceil> else \<lfloor>x\<rfloor>)"

fun py_int :: "json \<Rightarrow> bool + int" where
  "py_int (JInt n) = Inr n"
| "py_int (JBool b) = Inr (if b then 1 else 0)"
| "py_int (JFloat (Fin x)) = Inr (truncate_rat x)"
| "py_int (JFloat NaN) = Inl False"
| "py_int (JFloat PosInf) = Inl True"
| "py_int (JFloat NegInf) = Inl True"
| "py_int (JStr s) = (case py_int_of_string s of None \<Rightarrow> Inl False | Some n \<Rightarrow> Inr n)"
| "py_int JNull = Inl False"
| "py_int (JList xs) = Inl False"
| "py_int (JObj kvs) = Inl False"

lemma dict_get_Nil [simp]: "dict_get [] k = JNull"
  by (simp add: dict_get_def)

lemma dict_get_Cons [simp]:
  "dict_get ((k', v) # kvs) k = (if k' = k then v else dict_get kvs k)"
  by (simp add: dict_get_def)

lemma dict_get_put: "dict_get (dict_put kvs k v) k' = (if k' = k then v else dict_get kvs k')"
  by (induction kvs) auto

lemma dict_put_same: "dict_get kvs k = v \<Longrightarrow> v \<noteq> JNull \<Longrightarrow> dict_put kvs k v = kvs"
  by (induction kvs) (auto split: if_splits)

text \<open>\<open>d.get(k, default)\<close>: the default replaces a missing key only, not a stored null.\<close>

definition dict_get_default :: "(string \<times> json) list \<Rightarrow> string \<Rightarrow> json \<Rightarrow> json" where
  "dict_get_default kvs k dflt = (case map_of kvs k of None \<Rightarrow> dflt | Some v \<Rightarrow> v)"

lemma dict_get_default_Nil [simp]: "dict_get_default [] k dflt = dflt"
  by (simp add: dict_get_default_def)

lemma dict_get_default_Cons [simp]:
  "dict_get_default ((k', v) # kvs) k dflt = (if k' = k then v else dict_get_default kvs k dflt)"
  by (simp add: dict_get_default_def)

lemma dict_get_default_put:
  "dict_get_default (dict_put kvs k v) k' dflt = (if k' = k then v else dict_get_default kvs k' dflt)"
  by (induction kvs) auto

end
