(* ===== verification/Settings.thy ===== *)
theory Settings
  imports Prelude
begin

text \<open>
  The configuration object \<open>settings\<close> of \<open>core/config.py\<close>: the fields that the modelled
  components read, with the source's names, and the defaults the class declares. Every operation
  that reads a setting takes the record as its first argument.
\<close>

record settings =
  rate_limit_backend :: string
  rate_limit_redis_url :: string
  free_monthly_request_limit :: int
  free_trial_days :: int
  circuit_breaker_enabled :: bool
  circuit_breaker_fail_threshold :: int
  circuit_breaker_reset_seconds :: seconds
  proxy_retry_enabled :: bool
  proxy_retry_max_attempts :: int
  proxy_retry_base_delay_seconds :: seconds
  proxy_retry_max_delay_seconds :: seconds
  proxy_retry_budget_seconds :: seconds
  proxy_fallback_enabled :: bool
  proxy_fallback_models :: "string \<rightharpoonup> string"
  proxy_policy_cache_enabled :: bool
  governance_change_requests_enabled :: bool
  canary_enabled :: bool
  canary_initial_percent :: int
  canary_stages :: "int list"
  bandit_routing_mode :: string
  bandit_quality_floor :: rat
  bandit_exploration_budget :: rat
  bandit_min_samples :: int
  budget_enforcement_enabled :: bool
  budget_enforcement_cache_ttl_seconds :: int
  redis_url :: string
  proxy_metadata_max_bytes :: int
  sequential_cs_alpha :: rat
  sequential_cs_target_n :: int
  batch_object_ttl_hours :: int
  drift_tolerance :: rat
  drift_auto_rollback_enabled :: bool
  latency_guard_enabled :: bool
  latency_drift_tolerance_ms :: rat
  latency_slo_enabled :: bool
  learning_promotion_window_days :: int
  learning_prior_half_life_days :: int
  recommendations_max_age_seconds :: int
  proxy_default_provider :: string
  proxy_cache_enabled :: bool
  proxy_cache_ttl_seconds :: int
  semantic_cache_enabled :: bool
  semantic_cache_threshold :: rat
  embedding_model :: string
  proxy_capture_detached :: bool
  rate_limit_enabled :: bool
  proxy_rate_limit_per_minute :: int
  proxy_kill_switch :: bool
  eval_capture_enabled :: bool
  eval_sample_rate :: rat
  eval_max_samples_per_route :: int
  eval_sample_ttl_days :: int

definition default_settings :: settings where
  "default_settings =
     \<lparr>rate_limit_backend = ''memory'',
      rate_limit_redis_url = '''',
      free_monthly_request_limit = 100000,
      free_trial_days = 14,
      circuit_breaker_enabled = True,
      circuit_breaker_fail_threshold = 5,
      circuit_breaker_reset_seconds = 30,
      proxy_retry_enabled = True,
      proxy_retry_max_attempts = 2,
      proxy_retry_base_delay_seconds = 1 / 10,
      proxy_retry_max_delay_seconds = 1,
      proxy_retry_budget_seconds = 3,
      proxy_fallback_enabled = True,
      proxy_fallback_models = Map.empty,
      proxy_policy_cache_enabled = False,
      governance_change_requests_enabled = False,
      canary_enabled = False,
      canary_initial_percent = 10,
      canary_stages = [10, 50, 100],
      bandit_routing_mode = ''off'',
      bandit_quality_floor = 95 / 100,
      bandit_exploration_budget = 2 / 100,
      bandit_min_samples = 25,
      budget_enforcement_enabled = True,
      budget_enforcement_cache_ttl_seconds = 30,
      redis_url = '''',
      proxy_metadata_max_bytes = 8192,
      sequential_cs_alpha = 5 / 100,
      sequential_cs_target_n = 300,
      batch_object_ttl_hours = 72,
      drift_tolerance = 5 / 100,
      drift_auto_rollback_enabled = True,
      latency_guard_enabled = True,
      latency_drift_tolerance_ms = 400,
      latency_slo_enabled = True,
      learning_promotion_window_days = 30,
      learning_prior_half_life_days = 14,
      recommendations_max_age_seconds = 600,
      proxy_default_provider = ''openai'',
      proxy_cache_enabled = True,
      proxy_cache_ttl_seconds = 604800,
      semantic_cache_enabled = False,
      semantic_cache_threshold = 8 / 100,
      embedding_model = ''text-embedding-3-small'',
      proxy_capture_detached = False,
      rate_limit_enabled = True,
      proxy_rate_limit_per_minute = 600,
      proxy_kill_switch = False,
      eval_capture_enabled = False,
      eval_sample_rate = 1 / 10,
      eval_max_samples_per_route = 200,
      eval_sample_ttl_days = 14\<rparr>"

lemma default_settings_simps [simp]:
  "rate_limit_backend default_settings = ''memory''"
  "rate_limit_redis_url default_settings = ''''"
  "free_monthly_request_limit default_settings = 100000"
  "free_trial_days default_settings = 14"
  "circuit_breaker_enabled default_settings"
  "circuit_breaker_fail_threshold default_settings = 5"
  "circuit_breaker_reset_seconds default_settings = 30"
  "proxy_retry_enabled default_settings"
  "proxy_retry_max_attempts default_settings = 2"
  "proxy_retry_base_delay_seconds default_settings = 1 / 10"
  "proxy_retry_max_delay_seconds default_settings = 1"
  "proxy_retry_budget_seconds default_settings = 3"
  "proxy_fallback_enabled default_settings"
  "proxy_fallback_models default_settings = Map.empty"
  "\<not> proxy_policy_cache_enabled default_settings"
  "\<not> governance_change_requests_enabled default_settings"
  "\<not> canary_enabled default_settings"
  "canary_initial_percent default_settings = 10"
  "canary_stages default_settings = [10, 50, 100]"
  "bandit_routing_mode default_settings = ''off''"
  "bandit_quality_floor default_settings = 95 / 100"
  "bandit_exploration_budget default_settings = 2 / 100"
  "bandit_min_samples default_settings = 25"
  "budget_enforcement_enabled default_settings"
  "budget_enforcement_cache_ttl_seconds default_settings = 30"
  "redis_url default_settings = ''''"
  "proxy_metadata_max_bytes default_settings = 8192"
  "sequential_cs_alpha default_settings = 5 / 100"
  "sequential_cs_target_n default_settings = 300"
  "batch_object_ttl_hours default_settings = 72"
  "drift_tolerance default_settings = 5 / 100"
  "drift_auto_rollback_enabled default_settings"
  "latency_guard_enabled default_settings"
  "latency_drift_tolerance_ms default_settings = 400"
  "latency_slo_enabled default_settings"
  "learning_promotion_window_days default_settings = 30"
  "learning_prior_half_life_days default_settings = 14"
  "recommendations_max_age_seconds default_settings = 600"
  "proxy_default_provider default_settings = ''openai''"
  "proxy_cache_enabled default_settings"
  "proxy_cache_ttl_seconds default_settings = 604800"
  "\<not> semantic_cache_enabled default_settings"
  "semantic_cache_threshold default_settings = 8 / 100"
  "embedding_model default_settings = ''text-embedding-3-small''"
  "\<not> proxy_capture_detached default_settings"
  "rate_limit_enabled default_settings"
  "proxy_rate_limit_per_minute default_settings = 600"
  "\<not> proxy_kill_switch default_settings"
  "\<not> eval_capture_enabled default_settings"
  "eval_sample_rate default_settings = 1 / 10"
  "eval_max_samples_per_route default_settings = 200"
  "eval_sample_ttl_days default_settings = 14"
  by (simp_all add: default_settings_def)

end
