(* ===== verification/RouteIdentity.thy ===== *)
theory RouteIdentity
  imports Prelude
begin

text \<open>
  \<open>engine/route_identity.py\<close>: the canonical route key that the decision ledger, the policies and
  the change requests attach their evidence to.
\<close>

definition max_route_key_len :: nat where
  "max_route_key_len = 128"

definition default_route :: string where
  "default_route = ''default''"

definition normalize_key :: "string \<Rightarrow> string" where
  "normalize_key v = take max_route_key_len (re_sub_spaces ''_'' (py_lower (py_strip v)))"

fun first_key :: "string option list \<Rightarrow> string" where
  "first_key [] = default_route"
| "first_key (None # vs) = first_key vs"
| "first_key (Some v # vs) = (if v \<noteq> '''' \<and> py_strip v \<noteq> '''' then normalize_key v else first_key vs)"

definition canonical_route_key ::
  "string option \<Rightarrow> string option \<Rightarrow> string option \<Rightarrow> string option \<Rightarrow> string" where
  "canonical_route_key feature workflow request_type task_type =
     first_key [feature, workflow, request_type, task_type]"

text \<open>The context handles that take part in the key: feature, workflow, task type.\<close>

definition route_key_from_context ::
  "(string option \<times> string option \<times> string option) option \<Rightarrow> string option \<Rightarrow> string" where
  "route_key_from_context ctx request_type =
     (case ctx of
        None \<Rightarrow> canonical_route_key None None request_type None
      | Some (feature, workflow, task_type) \<Rightarrow> canonical_route_key feature workflow request_type task_type)"

text \<open>\<open>a or b\<close> on optional strings.\<close>

definition or_str :: "string option \<Rightarrow> string option \<Rightarrow> string option" where
  "or_str a b = (case a of None \<Rightarrow> b | Some s \<Rightarrow> if s = '''' then b else Some s)"

definition route_key_from_recommendation ::
  "string option \<Rightarrow> string option \<Rightarrow> string option \<Rightarrow> string" where
  "route_key_from_recommendation target_type target_key related_feature =
     (if target_type = Some ''feature'' then canonical_route_key (or_str target_key related_feature) None None None
      else if target_type = Some ''route'' then canonical_route_key related_feature None target_key None
      else canonical_route_key related_feature None None None)"

definition model_scoped_route_key :: "string \<Rightarrow> string option \<Rightarrow> string" where
  "model_scoped_route_key route_key model =
     (case model of None \<Rightarrow> route_key | Some m \<Rightarrow> if m = '''' then route_key else route_key @ ''::'' @ m)"

section \<open>Lemmas\<close>

lemma py_isspace_underscore [simp]: "\<not> py_isspace (CHR ''_'')"
  by (simp add: py_isspace_def)

lemma normalize_key_no_space: "c \<in> set (normalize_key v) \<Longrightarrow> \<not> py_isspace c"
  using collapse_spaces_no_space [of "''_''" c False "py_lower (py_strip v)"]
  by (auto simp: normalize_key_def re_sub_spaces_def dest!: in_set_takeD)

lemma collapse_spaces_lower:
  "\<forall>c \<in> set rep. py_lower_char c = c \<Longrightarrow> \<forall>c \<in> set s. py_lower_char c = c \<Longrightarrow>
     c \<in> set (collapse_spaces b rep s) \<Longrightarrow> py_lower_char c = c"
  by (induction b rep s rule: collapse_spaces.induct) (auto split: if_splits)

lemma py_lower_char_underscore [simp]: "py_lower_char (CHR ''_'') = CHR ''_''"
  by (simp add: py_lower_char_def)

lemma normalize_key_lower: "c \<in> set (normalize_key v) \<Longrightarrow> py_lower_char c = c"
  using collapse_spaces_lower [of "''_''" "py_lower (py_strip v)" c False]
  by (auto simp: normalize_key_def re_sub_spaces_def py_lower_def dest!: in_set_takeD)

lemma normalize_key_length: "length (normalize_key v) \<le> max_route_key_len"
  by (simp add: normalize_key_def)

lemma collapse_spaces_not_Nil: "s \<noteq> [] \<Longrightarrow> rep \<noteq> [] \<Longrightarrow> \<not> b \<Longrightarrow> collapse_spaces b rep s \<noteq> []"
  by (cases s) auto

lemma normalize_key_not_Nil: "py_strip v \<noteq> [] \<Longrightarrow> normalize_key v \<noteq> []"
  by (simp add: normalize_key_def re_sub_spaces_def collapse_spaces_not_Nil max_route_key_len_def)

lemma py_strip_id: "\<forall>c \<in> set s. \<not> py_isspace c \<Longrightarrow> py_strip s = s"
  using dropWhile_eq_self_iff [of py_isspace s] dropWhile_eq_self_iff [of py_isspace "rev s"]
  by (cases "s = []") (simp_all add: py_strip_def py_lstrip_def last_in_set hd_rev)

text \<open>Normal form: short, lower case, without white space.\<close>

definition route_key_normal :: "string \<Rightarrow> bool" where
  "route_key_normal k \<longleftrightarrow>
     k \<noteq> [] \<and> length k \<le> max_route_key_len \<and> (\<forall>c \<in> set k. \<not> py_isspace c \<and> py_lower_char c = c)"

lemma normalize_key_id: "route_key_normal k \<Longrightarrow> normalize_key k = k"
proof -
  assume k: "route_key_normal k"
  have "py_lower k = k" using k by (simp add: route_key_normal_def py_lower_def map_idI)
  with k show ?thesis
    by (simp add: normalize_key_def route_key_normal_def re_sub_spaces_def py_strip_id collapse_spaces_id)
qed

lemma default_route_normal: "route_key_normal default_route"
  unfolding default_route_def
  by (simp add: route_key_normal_def max_route_key_len_def py_isspace_def py_lower_char_def)

lemma normalize_key_normal: "py_strip v \<noteq> [] \<Longrightarrow> route_key_normal (normalize_key v)"
  unfolding route_key_normal_def
  using normalize_key_no_space by (intro conjI ballI normalize_key_not_Nil normalize_key_length normalize_key_lower notI) blast+

lemma first_key_normal: "route_key_normal (first_key vs)"
proof (induction vs rule: first_key.induct)
  case 1
  show ?case by (simp only: first_key.simps default_route_normal)
next
  case (2 vs)
  then show ?case by (simp only: first_key.simps)
next
  case (3 v vs)
  then show ?case using normalize_key_normal [of v] unfolding first_key.simps by (auto split: if_split simp del: first_key.simps)
qed

section \<open>Properties\<close>

text \<open>
  A canonical route key is never empty, has at most 128 characters, contains no white space and
  no upper-case letter, and is a fixed point: feeding a route key back as the feature gives the same
  key, so evidence re-keyed through any component stays on its route.
\<close>

theorem canonical_route_key_normal_form:
  "route_key_normal (canonical_route_key f w r t) \<and>
   canonical_route_key (Some (canonical_route_key f w r t)) w' r' t' = canonical_route_key f w r t"
proof -
  let ?k = "canonical_route_key f w r t"
  have k: "route_key_normal ?k" by (simp only: canonical_route_key_def first_key_normal)
  then have "?k \<noteq> ''''" "py_strip ?k \<noteq> ''''" by (simp_all add: route_key_normal_def py_strip_id)
  then have "canonical_route_key (Some ?k) w' r' t' = normalize_key ?k"
    by (simp add: canonical_route_key_def [of "Some ?k"])
  with k show ?thesis by (simp add: normalize_key_id)
qed

end
