(* ===== verification/RequestContext.thy ===== *)
theory RequestContext
  imports Json Settings RouteIdentity
begin

text \<open>
  \<open>proxy/request_context.py\<close>: the optional business context a client attaches to a request, read from
  the \<open>X-Varsten-*\<close> headers. Headers are an association list in arrival order; lower-casing them makes
  a later header win over an earlier one with the same lower-case name, as the dict comprehension does.
  The JSON decoder and the textual form of a Python float are the arguments \<open>loads\<close> and \<open>float_repr\<close>.
\<close>

definition max_value_len :: nat where
  "max_value_len = 256"

definition max_extra_keys :: nat where
  "max_extra_keys = 32"

definition string_fields :: "string list" where
  "string_fields = [''feature'', ''workflow'', ''customer_id'', ''external_user_id'', ''user_id'', ''team'',
     ''department'', ''environment'', ''task_type'', ''risk_level'', ''quality_threshold'', ''trace_id'']"

definition header_fields :: "(string \<times> string) list" where
  "header_fields = [(''x-varsten-feature'', ''feature''), (''x-varsten-workflow'', ''workflow''),
     (''x-varsten-customer-id'', ''customer_id''), (''x-varsten-external-user-id'', ''external_user_id''),
     (''x-varsten-user-id'', ''user_id''), (''x-varsten-team'', ''team''),
     (''x-varsten-department'', ''department''), (''x-varsten-environment'', ''environment''),
     (''x-varsten-task-type'', ''task_type''), (''x-varsten-risk-level'', ''risk_level''),
     (''x-varsten-quality-threshold'', ''quality_threshold''), (''x-varsten-trace-id'', ''trace_id'')]"

record request_context =
  rc_feature :: "string option"
  rc_workflow :: "string option"
  rc_customer_id :: "string option"
  rc_external_user_id :: "string option"
  rc_user_id :: "string option"
  rc_team :: "string option"
  rc_department :: "string option"
  rc_environment :: "string option"
  rc_task_type :: "string option"
  rc_task_confidence :: "rat option"
  rc_risk_level :: "string option"
  rc_quality_threshold :: "string option"
  rc_trace_id :: "string option"
  rc_sdk_client :: "string option"
  rc_extra :: "(string \<times> string) list"

definition empty_context :: request_context where
  "empty_context = \<lparr>rc_feature = None, rc_workflow = None, rc_customer_id = None, rc_external_user_id = None,
     rc_user_id = None, rc_team = None, rc_department = None, rc_environment = None, rc_task_type = None,
     rc_task_confidence = None, rc_risk_level = None, rc_quality_threshold = None, rc_trace_id = None,
     rc_sdk_client = None, rc_extra = []\<rparr>"

definition context_strings :: "request_context \<Rightarrow> string option list" where
  "context_strings c = [rc_feature c, rc_workflow c, rc_customer_id c, rc_external_user_id c, rc_user_id c,
     rc_team c, rc_department c, rc_environment c, rc_task_type c, rc_risk_level c, rc_quality_threshold c,
     rc_trace_id c]"

definition context_is_empty :: "request_context \<Rightarrow> bool" where
  "context_is_empty c \<longleftrightarrow>
     \<not> (list_ex (\<lambda>v. v \<noteq> None) (context_strings c) \<or> rc_task_confidence c \<noteq> None) \<and>
     rc_sdk_client c = None \<and> rc_extra c = []"

definition opt_entry :: "string \<Rightarrow> json option \<Rightarrow> (string \<times> json) list" where
  "opt_entry k v = (case v of None \<Rightarrow> [] | Some j \<Rightarrow> [(k, j)])"

definition task_metadata :: "request_context \<Rightarrow> (string \<times> json) list" where
  "task_metadata c =
     opt_entry ''task_type'' (map_option JStr (rc_task_type c)) @
     opt_entry ''task_confidence'' (map_option (JFloat \<circ> Fin) (rc_task_confidence c)) @
     opt_entry ''risk_level'' (map_option JStr (rc_risk_level c)) @
     opt_entry ''quality_threshold'' (map_option JStr (rc_quality_threshold c)) @
     opt_entry ''sdk_client'' (map_option JStr (rc_sdk_client c)) @
     (if rc_extra c \<noteq> [] then [(''context'', JObj (map (\<lambda>(k, v). (k, JStr v)) (rc_extra c)))] else [])"

text \<open>\<open>str(value)\<close> on an integer.\<close>

function nat_text :: "nat \<Rightarrow> string" where
  "nat_text n = (if n < 10 then [char_of (48 + n)] else nat_text (n div 10) @ [char_of (48 + n mod 10)])"
  by auto
termination by (relation "measure id") auto

declare nat_text.simps [simp del]

definition int_text :: "int \<Rightarrow> string" where
  "int_text n = (if n < 0 then CHR ''-'' # nat_text (nat (- n)) else nat_text (nat n))"

definition bound_text :: "string \<Rightarrow> string option" where
  "bound_text t = (let s = py_strip t in if s = [] then None else Some (take max_value_len s))"

fun sanitize_str :: "(py_float \<Rightarrow> string) \<Rightarrow> json \<Rightarrow> string option" where
  "sanitize_str float_repr JNull = None"
| "sanitize_str float_repr (JObj kvs) = None"
| "sanitize_str float_repr (JList xs) = None"
| "sanitize_str float_repr (JBool b) = bound_text (if b then ''true'' else ''false'')"
| "sanitize_str float_repr (JInt n) = bound_text (int_text n)"
| "sanitize_str float_repr (JFloat x) = bound_text (float_repr x)"
| "sanitize_str float_repr (JStr s) = bound_text s"

text \<open>
  \<open>float(value)\<close>. A \<open>TypeError\<close> or \<open>ValueError\<close> is \<open>Inl False\<close>; an integer whose nearest double would be
  infinite is an \<open>OverflowError\<close>, \<open>Inl True\<close>.
\<close>

definition float_overflow_bound :: int where
  "float_overflow_bound = 2 ^ 1024 - 2 ^ 970"

fun py_float_of :: "json \<Rightarrow> bool + py_float" where
  "py_float_of (JBool b) = Inr (Fin (if b then 1 else 0))"
| "py_float_of (JInt n) = (if float_overflow_bound \<le> \<bar>n\<bar> then Inl True else Inr (Fin (of_int n)))"
| "py_float_of (JFloat x) = Inr x"
| "py_float_of (JStr s) = (case py_float_of_string s of None \<Rightarrow> Inl False | Some x \<Rightarrow> Inr x)"
| "py_float_of _ = Inl False"

text \<open>The handler catches \<open>TypeError\<close> and \<open>ValueError\<close> only: \<open>Inl ()\<close> is the escaping \<open>OverflowError\<close>.\<close>

definition sanitize_confidence :: "json \<Rightarrow> unit + rat option" where
  "sanitize_confidence v =
     (case py_float_of v of
        Inl overflow \<Rightarrow> if overflow then Inl () else Inr None
      | Inr NaN \<Rightarrow> Inr None
      | Inr PosInf \<Rightarrow> Inr (Some 1)
      | Inr NegInf \<Rightarrow> Inr (Some 0)
      | Inr (Fin x) \<Rightarrow> Inr (Some (max 0 (min 1 x))))"

definition utf8_length :: "string \<Rightarrow> nat" where
  "utf8_length s = sum_list (map (\<lambda>c. if of_char c < (128 :: nat) then 1 else 2) s)"

definition parse_metadata_json ::
  "settings \<Rightarrow> (string \<Rightarrow> json option) \<Rightarrow> string option \<Rightarrow> (string \<times> json) list" where
  "parse_metadata_json st loads raw =
     (case raw of
        None \<Rightarrow> []
      | Some t \<Rightarrow>
          if t = [] then []
          else if proxy_metadata_max_bytes st < int (utf8_length t) then []
          else (case loads t of Some (JObj kvs) \<Rightarrow> kvs | _ \<Rightarrow> []))"

definition lower_headers :: "(string \<times> string) list \<Rightarrow> string \<rightharpoonup> string" where
  "lower_headers headers = map_of (rev (map (\<lambda>(k, v). (py_lower k, v)) headers))"

definition header_override ::
  "(py_float \<Rightarrow> string) \<Rightarrow> (string \<rightharpoonup> string) \<Rightarrow> (string \<rightharpoonup> string) \<Rightarrow> string \<times> string \<Rightarrow> (string \<rightharpoonup> string)" where
  "header_override float_repr lower values hf =
     (case lower (fst hf) of
        None \<Rightarrow> values
      | Some raw \<Rightarrow> (case sanitize_str float_repr (JStr raw) of None \<Rightarrow> values | Some s \<Rightarrow> values(snd hf \<mapsto> s)))"

definition context_values ::
  "(py_float \<Rightarrow> string) \<Rightarrow> (string \<rightharpoonup> string) \<Rightarrow> (string \<times> json) list \<Rightarrow> (string \<rightharpoonup> string)" where
  "context_values float_repr lower blob =
     foldl (header_override float_repr lower)
       (\<lambda>f. if f \<in> set string_fields then sanitize_str float_repr (dict_get blob f) else None) header_fields"

text \<open>\<open>extra[k] = v\<close> on the insertion-ordered dictionary of the unknown keys.\<close>

fun extra_put :: "(string \<times> string) list \<Rightarrow> string \<Rightarrow> string \<Rightarrow> (string \<times> string) list" where
  "extra_put [] k v = [(k, v)]"
| "extra_put ((k', v') # kvs) k v = (if k' = k then (k, v) # kvs else (k', v') # extra_put kvs k v)"

fun collect_extra ::
  "(py_float \<Rightarrow> string) \<Rightarrow> (string \<times> string) list \<Rightarrow> (string \<times> json) list \<Rightarrow> (string \<times> string) list" where
  "collect_extra float_repr extra [] = extra"
| "collect_extra float_repr extra ((k, v) # rest) =
     (if k \<in> set string_fields \<or> k = ''task_confidence'' then collect_extra float_repr extra rest
      else (let extra' = (case sanitize_str float_repr v of
                            None \<Rightarrow> extra | Some s \<Rightarrow> extra_put extra (take max_value_len k) s)
            in if max_extra_keys \<le> length extra' then extra' else collect_extra float_repr extra' rest))"

definition context_confidence :: "(string \<rightharpoonup> string) \<Rightarrow> (string \<times> json) list \<Rightarrow> unit + rat option" where
  "context_confidence lower blob =
     (case sanitize_confidence (dict_get blob ''task_confidence'') of
        Inl e \<Rightarrow> Inl e
      | Inr confidence \<Rightarrow>
          (case lower ''x-varsten-task-confidence'' of
             None \<Rightarrow> Inr confidence
           | Some raw \<Rightarrow>
               (case sanitize_confidence (JStr raw) of
                  Inl e \<Rightarrow> Inl e
                | Inr None \<Rightarrow> Inr confidence
                | Inr (Some c) \<Rightarrow> Inr (Some c))))"

definition build_context ::
  "(py_float \<Rightarrow> string) \<Rightarrow> (string \<rightharpoonup> string) \<Rightarrow> (string \<times> json) list \<Rightarrow> rat option \<Rightarrow> request_context" where
  "build_context float_repr lower blob confidence =
     (let values = context_values float_repr lower blob
      in \<lparr>rc_feature = values ''feature'', rc_workflow = values ''workflow'',
          rc_customer_id = values ''customer_id'', rc_external_user_id = values ''external_user_id'',
          rc_user_id = values ''user_id'', rc_team = values ''team'', rc_department = values ''department'',
          rc_environment = values ''environment'', rc_task_type = values ''task_type'',
          rc_task_confidence = confidence, rc_risk_level = values ''risk_level'',
          rc_quality_threshold = values ''quality_threshold'', rc_trace_id = values ''trace_id'',
          rc_sdk_client = (case lower ''x-varsten-client'' of None \<Rightarrow> None
                             | Some raw \<Rightarrow> sanitize_str float_repr (JStr raw)),
          rc_extra = collect_extra float_repr [] blob\<rparr>)"

definition parse_request_context ::
  "settings \<Rightarrow> (string \<Rightarrow> json option) \<Rightarrow> (py_float \<Rightarrow> string) \<Rightarrow> (string \<times> string) list \<Rightarrow> unit + request_context" where
  "parse_request_context st loads float_repr headers =
     (let lower = lower_headers headers;
          blob = parse_metadata_json st loads (lower ''x-varsten-metadata'')
      in map_sum id (build_context float_repr lower blob) (context_confidence lower blob))"

section \<open>Sanitized values\<close>

definition sane_text :: "string \<Rightarrow> bool" where
  "sane_text s \<longleftrightarrow> s \<noteq> [] \<and> length s \<le> max_value_len \<and> \<not> py_isspace (hd s)"

definition sane_opt :: "string option \<Rightarrow> bool" where
  "sane_opt v = (case v of None \<Rightarrow> True | Some s \<Rightarrow> sane_text s)"

text \<open>The invariant of a parsed context.\<close>

definition context_wf :: "request_context \<Rightarrow> bool" where
  "context_wf c \<longleftrightarrow>
     list_all sane_opt (rc_sdk_client c # context_strings c) \<and>
     (case rc_task_confidence c of None \<Rightarrow> True | Some x \<Rightarrow> 0 \<le> x \<and> x \<le> 1) \<and>
     length (rc_extra c) \<le> max_extra_keys \<and> distinct (map fst (rc_extra c)) \<and>
     list_all (\<lambda>(k, v). length k \<le> max_value_len \<and> sane_text v) (rc_extra c)"

lemma bound_text_sane: "bound_text t = Some s \<Longrightarrow> sane_text s"
  using py_strip_no_leading [of t]
  by (auto simp: bound_text_def Let_def sane_text_def max_value_len_def hd_take split: if_splits)

lemma sanitize_str_sane: "sanitize_str fr v = Some s \<Longrightarrow> sane_text s"
  by (cases v) (auto dest: bound_text_sane split: if_splits)

lemma sane_opt_sanitize [simp]: "sane_opt (sanitize_str fr v)"
  by (auto simp: sane_opt_def dest: sanitize_str_sane split: option.split)

lemma sane_opt_Some: "sane_opt (Some s) = sane_text s"
  by (simp add: sane_opt_def)

lemma header_override_sane: "(\<And>f. sane_opt (vals f)) \<Longrightarrow> sane_opt (header_override fr lower vals hf f)"
  by (auto simp: header_override_def sane_opt_Some bound_text_sane split: option.splits)

lemma foldl_header_override_sane:
  "(\<And>f. sane_opt (vals f)) \<Longrightarrow> sane_opt (foldl (header_override fr lower) vals hfs f)"
  by (induction hfs arbitrary: vals) (auto intro: header_override_sane)

lemma context_values_sane [simp]: "sane_opt (context_values fr lower blob f)"
  unfolding context_values_def
  by (rule foldl_header_override_sane) (auto simp: sane_opt_def [of None])

lemma extra_put_keys: "fst ` set (extra_put kvs k v) = insert k (fst ` set kvs)"
proof (induction kvs)
  case (Cons kv kvs)
  then show ?case by (cases kv) (auto simp: insert_commute)
qed simp

definition extra_wf :: "(string \<times> string) list \<Rightarrow> bool" where
  "extra_wf kvs \<longleftrightarrow> distinct (map fst kvs) \<and> list_all (\<lambda>(k, v). length k \<le> max_value_len \<and> sane_text v) kvs"

lemma extra_put_wf:
  assumes "extra_wf kvs" "length k \<le> max_value_len" "sane_text v"
  shows "extra_wf (extra_put kvs k v)"
  using assms
proof (induction kvs)
  case (Cons kv kvs)
  have "fst kv \<notin> fst ` set kvs" using Cons.prems(1) by (auto simp: extra_wf_def)
  with Cons show ?case using extra_put_keys [of kvs k v] by (cases kv) (auto simp: extra_wf_def)
qed (simp add: extra_wf_def)

lemma extra_put_length: "length (extra_put kvs k v) \<le> Suc (length kvs)"
  by (induction kvs) auto

lemma collect_extra_wf:
  "extra_wf extra \<Longrightarrow> length extra < max_extra_keys \<Longrightarrow>
     extra_wf (collect_extra fr extra blob) \<and> length (collect_extra fr extra blob) \<le> max_extra_keys"
proof (induction fr extra blob rule: collect_extra.induct)
  case (2 fr extra k v rest)
  show ?case
  proof (cases "k \<in> set string_fields \<or> k = ''task_confidence''")
    case True
    with 2 show ?thesis by simp
  next
    case False
    define extra' where
      "extra' = (case sanitize_str fr v of None \<Rightarrow> extra | Some s \<Rightarrow> extra_put extra (take max_value_len k) s)"
    have wf: "extra_wf extra'"
      using 2(3) by (auto simp: extra'_def intro!: extra_put_wf dest: sanitize_str_sane split: option.split)
    have len: "length extra' \<le> max_extra_keys"
      using 2(4) extra_put_length [of extra "take max_value_len k"]
      by (auto simp: extra'_def split: option.split) (meson Suc_leI le_trans)
    show ?thesis
      using 2(2) [OF False extra'_def] wf len False by (simp add: Let_def extra'_def [symmetric] not_le)
  qed
qed simp

lemma sanitize_confidence_range:
  "sanitize_confidence v = Inr (Some x) \<Longrightarrow> 0 \<le> x \<and> x \<le> 1"
  by (auto simp: sanitize_confidence_def split: sum.splits py_float.splits if_splits)

lemma context_confidence_range:
  "context_confidence lower blob = Inr (Some x) \<Longrightarrow> 0 \<le> x \<and> x \<le> 1"
  by (auto simp: context_confidence_def dest: sanitize_confidence_range split: sum.splits option.splits)

lemma build_context_wf:
  assumes "\<And>x. confidence = Some x \<Longrightarrow> 0 \<le> x \<and> x \<le> 1"
  shows "context_wf (build_context fr lower blob confidence)"
proof -
  have "extra_wf (collect_extra fr [] blob) \<and> length (collect_extra fr [] blob) \<le> max_extra_keys"
    by (rule collect_extra_wf) (simp_all add: extra_wf_def max_extra_keys_def)
  moreover have "sane_opt (case lower ''x-varsten-client'' of None \<Rightarrow> None | Some raw \<Rightarrow> sanitize_str fr (JStr raw))"
    by (auto simp: sane_opt_def [of None] split: option.split simp del: sanitize_str.simps)
  ultimately show ?thesis
    using assms by (auto simp: context_wf_def build_context_def Let_def context_strings_def extra_wf_def
        simp del: sanitize_str.simps split: option.split)
qed

lemma sanitize_confidence_text: "sanitize_confidence (JStr s) \<noteq> Inl e"
  by (auto simp: sanitize_confidence_def split: sum.splits option.splits py_float.splits)

lemma context_confidence_raises:
  "context_confidence lower blob = Inl e \<longleftrightarrow>
     (case dict_get blob ''task_confidence'' of JInt n \<Rightarrow> float_overflow_bound \<le> \<bar>n\<bar> | _ \<Rightarrow> False)"
  by (cases "dict_get blob ''task_confidence''")
    (auto simp: context_confidence_def sanitize_confidence_text sanitize_confidence_def
      split: sum.splits option.splits py_float.splits json.splits)

section \<open>Property\<close>

text \<open>
  C39. Parsing a client's context: every context returned is sane (each string field is non-empty, starts
  with no white space and has at most 256 characters, the confidence lies between 0 and 1, at most 32
  extra keys are kept and their keys are distinct and bounded), whatever the headers and the JSON
  decoder's answer are. It fails in exactly one case, which the documented fail-open contract excludes:
  \<open>task_confidence\<close> is a JSON integer too large for a double, whose \<open>OverflowError\<close> escapes.
\<close>

theorem parse_request_context_sane:
  "(case parse_request_context st loads float_repr headers of
      Inr c \<Rightarrow> context_wf c
    | Inl e \<Rightarrow>
        (\<exists>n. dict_get (parse_metadata_json st loads (lower_headers headers ''x-varsten-metadata''))
               ''task_confidence'' = JInt n \<and> float_overflow_bound \<le> \<bar>n\<bar>)) \<and>
   parse_request_context default_settings (\<lambda>raw. Some (JObj [(''task_confidence'', JInt (10 ^ 309))])) float_repr
     [(''X-Varsten-Metadata'', ''{...}'')] = Inl ()"
proof (rule conjI)
  let ?lower = "lower_headers headers"
  let ?blob = "parse_metadata_json st loads (?lower ''x-varsten-metadata'')"
  show "case parse_request_context st loads float_repr headers of
      Inr c \<Rightarrow> context_wf c
    | Inl e \<Rightarrow> (\<exists>n. dict_get ?blob ''task_confidence'' = JInt n \<and> float_overflow_bound \<le> \<bar>n\<bar>)"
  proof (cases "context_confidence ?lower ?blob")
    case (Inl e)
    with context_confidence_raises [of ?lower ?blob e] show ?thesis
      by (auto simp: parse_request_context_def Let_def split: json.splits)
  next
    case (Inr confidence)
    then have "context_wf (build_context float_repr ?lower ?blob confidence)"
      by (intro build_context_wf context_confidence_range) simp
    with Inr show ?thesis by (simp add: parse_request_context_def Let_def)
  qed
  have "utf8_length ''{...}'' = 5" by (simp add: utf8_length_def)
  moreover have "lower_headers [(''X-Varsten-Metadata'', ''{...}'')] ''x-varsten-metadata'' = Some ''{...}''"
    by code_simp
  ultimately show "parse_request_context default_settings (\<lambda>raw. Some (JObj [(''task_confidence'', JInt (10 ^ 309))]))
      float_repr [(''X-Varsten-Metadata'', ''{...}'')] = Inl ()"
    by (simp add: parse_request_context_def Let_def parse_metadata_json_def context_confidence_def
        sanitize_confidence_def float_overflow_bound_def)
qed

end
