(* ===== verification/RequestFacts.thy ===== *)
theory RequestFacts
  imports RequestContext
begin

text \<open>
  \<open>engine/request_facts.py\<close>, \<open>engine/classification.py\<close>, \<open>engine/cache_policy.py\<close> and
  \<open>engine/runtime_trace.py\<close>: the content-free facts the planner works on, the conservative
  classification of a request, the cache safety gate, and the sanitizer of trace details. A body is a
  decoded JSON object; the sanitizer is modelled on JSON values (its last resort \<open>str(value)\<close> concerns
  other Python objects).
\<close>

section \<open>engine/request_facts.py\<close>

definition freshness_terms :: "string list" where
  "freshness_terms = [''as of '', ''breaking'', ''current'', ''latest'', ''live'', ''now'', ''recent'', ''right now'',
     ''stock price'', ''this month'', ''this week'', ''today'', ''weather'', ''yesterday'']"

definition personalized_terms :: "string list" where
  "personalized_terms = [''account number'', ''billing address'', ''customer id'', ''for my account'', ''my account'',
     ''patient'', ''policy number'', ''ssn'', ''social security'']"

definition high_risk_terms :: "string list" where
  "high_risk_terms = [''diagnose'', ''dosage'', ''financial advice'', ''legal advice'', ''medical advice'',
     ''prescription'', ''security vulnerability'', ''trade stock'']"

definition text_container_keys :: "string list" where
  "text_container_keys = [''content'', ''contents'', ''input'', ''message'', ''messages'', ''parts'', ''prompt'',
     ''system'', ''systemInstruction'', ''text'']"

definition multimodal_part_types :: "string list" where
  "multimodal_part_types = [''audio'', ''file'', ''image'', ''image_url'', ''input_audio'', ''input_file'',
     ''input_image'', ''video'']"

definition multimodal_fields :: "string list" where
  "multimodal_fields = [''audio'', ''file'', ''file_data'', ''fileData'', ''image'', ''image_url'', ''inline_data'',
     ''inlineData'', ''input_audio'', ''input_file'', ''input_image'', ''video'']"

record request_facts =
  rf_prompt_chars :: nat
  rf_message_count :: nat
  rf_has_tools :: bool
  rf_wants_json :: bool
  rf_has_multimodal :: bool
  rf_freshness_signal :: bool
  rf_personalized_signal :: bool
  rf_high_risk_signal :: bool

fun iter_text_fragments :: "json \<Rightarrow> string list" where
  "iter_text_fragments (JStr s) = (if py_strip s \<noteq> [] then [s] else [])"
| "iter_text_fragments (JObj kvs) =
     concat (map (\<lambda>(k, v). if k \<in> set text_container_keys then iter_text_fragments v else []) kvs)"
| "iter_text_fragments (JList vs) = concat (map iter_text_fragments vs)"
| "iter_text_fragments _ = []"

definition message_count :: "(string \<times> json) list \<Rightarrow> nat" where
  "message_count body =
     (case dict_get body ''messages'' of
        JList xs \<Rightarrow> length xs
      | _ \<Rightarrow> (case dict_get body ''contents'' of
          JList xs \<Rightarrow> length xs
        | _ \<Rightarrow> (case dict_get body ''input'' of JList xs \<Rightarrow> length xs | _ \<Rightarrow> 0)))"

definition facts_has_tools :: "(string \<times> json) list \<Rightarrow> bool" where
  "facts_has_tools body \<longleftrightarrow>
     truthy (dict_get body ''tools'') \<or> truthy (dict_get body ''functions'') \<or>
     truthy (dict_get body ''tool_config'') \<or> truthy (dict_get body ''toolConfig'')"

definition wants_json :: "(string \<times> json) list \<Rightarrow> bool" where
  "wants_json body \<longleftrightarrow>
     (case dict_get body ''response_format'' of
        JObj rf \<Rightarrow> dict_get rf ''type'' \<in> {JStr ''json_object'', JStr ''json_schema''} | _ \<Rightarrow> False) \<or>
     (case dict_get body ''generationConfig'' of
        JObj gc \<Rightarrow> dict_get gc ''responseMimeType'' = JStr ''application/json'' | _ \<Rightarrow> False) \<or>
     (if truthy (dict_get body ''response_mime_type'') then dict_get body ''response_mime_type''
      else dict_get body ''responseMimeType'') = JStr ''application/json''"

lemma map_of_size: "map_of kvs k = Some v \<Longrightarrow> size v \<le> size_list (size_prod (\<lambda>_. 0) size) kvs"
  by (induction kvs) (auto split: if_splits)

text \<open>\<open>_has_multimodal\<close>; a missing field is null, which has no multimodal part.\<close>

function has_multimodal :: "json \<Rightarrow> bool" where
  "has_multimodal (JObj kvs) =
     ((case dict_get kvs ''type'' of
        JStr t \<Rightarrow> py_lower t \<in> set multimodal_part_types
      | _ \<Rightarrow> False) \<or>
     list_ex (\<lambda>f. map_of kvs f \<noteq> None) multimodal_fields \<or>
     list_ex (\<lambda>f. case map_of kvs f of None \<Rightarrow> False | Some v \<Rightarrow> has_multimodal v)
       [''content'', ''contents'', ''messages'', ''input'', ''parts''])"
| "has_multimodal (JList vs) = list_ex has_multimodal vs"
| "has_multimodal JNull = False"
| "has_multimodal (JBool b) = False"
| "has_multimodal (JInt n) = False"
| "has_multimodal (JFloat x) = False"
| "has_multimodal (JStr s) = False"
  by pat_completeness auto
termination
  by (relation "measure size") (auto dest: map_of_size simp: less_Suc_eq_le size_list_estimation')

definition body_has_multimodal :: "(string \<times> json) list \<Rightarrow> bool" where
  "body_has_multimodal body =
     list_ex (\<lambda>f. has_multimodal (dict_get body f)) [''messages'', ''input'', ''content'', ''contents'']"

definition contains_any :: "string \<Rightarrow> string list \<Rightarrow> bool" where
  "contains_any text terms = list_ex (\<lambda>t. py_contains t text) terms"

text \<open>\<open>"\n".join(fragments)\<close>\<close>

fun join_lines :: "string list \<Rightarrow> string" where
  "join_lines [] = []"
| "join_lines [x] = x"
| "join_lines (x # xs) = x @ CHR ''\<newline>'' # join_lines xs"

text \<open>
  \<open>normalize_request_facts\<close> raises \<open>TypeError\<close> when the type of the response format is a list or an object,
  which cannot be looked up in a set; \<open>facts_raise\<close> says so, and \<open>normalize_request_facts\<close> is the result
  otherwise.
\<close>

definition facts_raise :: "(string \<times> json) list \<Rightarrow> bool" where
  "facts_raise body =
     (case dict_get body ''response_format'' of
        JObj rf \<Rightarrow> (case dict_get rf ''type'' of JList _ \<Rightarrow> True | JObj _ \<Rightarrow> True | _ \<Rightarrow> False)
      | _ \<Rightarrow> False)"

definition normalize_request_facts :: "(string \<times> json) list \<Rightarrow> request_facts" where
  "normalize_request_facts body =
     (let fragments = iter_text_fragments (JObj body); text = py_lower (join_lines fragments)
      in \<lparr>rf_prompt_chars = sum_list (map length fragments), rf_message_count = message_count body,
          rf_has_tools = facts_has_tools body, rf_wants_json = wants_json body,
          rf_has_multimodal = body_has_multimodal body, rf_freshness_signal = contains_any text freshness_terms,
          rf_personalized_signal = contains_any text personalized_terms,
          rf_high_risk_signal = contains_any text high_risk_terms\<rparr>)"

section \<open>engine/classification.py\<close>

datatype optimization_risk = Risk_Low | Risk_Medium | Risk_High | Risk_Unknown

record request_classification =
  rq_task_type :: "string option"
  rq_task_confidence :: "rat option"
  rq_risk_level :: optimization_risk
  rq_prompt_chars :: nat
  rq_message_count :: nat
  rq_has_tools :: bool
  rq_wants_json :: bool
  rq_has_multimodal :: bool
  rq_personalized :: bool
  rq_freshness_sensitive :: bool
  rq_unknown_task :: bool
  rq_reason_codes :: "string list"

definition risky_or_unknown :: "request_classification \<Rightarrow> bool" where
  "risky_or_unknown c \<longleftrightarrow> rq_risk_level c \<in> {Risk_High, Risk_Unknown} \<or> rq_unknown_task c"

definition high_risk_task_fragments :: "string list" where
  "high_risk_task_fragments = [''compliance'', ''financial'', ''health'', ''hr'', ''legal'', ''medical'', ''policy'', ''security'']"

definition str_or_empty :: "string option \<Rightarrow> string" where
  "str_or_empty v = (case v of None \<Rightarrow> [] | Some s \<Rightarrow> s)"

definition risk_from_context :: "string option \<Rightarrow> optimization_risk" where
  "risk_from_context raw =
     (let normalized = py_lower (py_strip (str_or_empty raw))
      in if normalized = ''low'' then Risk_Low else if normalized = ''medium'' then Risk_Medium
         else if normalized = ''high'' then Risk_High else Risk_Unknown)"

definition str_truthy :: "string option \<Rightarrow> bool" where
  "str_truthy v = (str_or_empty v \<noteq> [])"

definition has_personal_context :: "request_context \<Rightarrow> bool" where
  "has_personal_context c = list_ex str_truthy [rc_customer_id c, rc_external_user_id c, rc_user_id c]"

definition has_high_risk_signal :: "string option \<Rightarrow> request_facts \<Rightarrow> bool" where
  "has_high_risk_signal task_type facts \<longleftrightarrow>
     contains_any (py_lower (str_or_empty task_type)) high_risk_task_fragments \<or> rf_high_risk_signal facts"

definition classify_request :: "request_facts \<Rightarrow> request_context \<Rightarrow> request_classification" where
  "classify_request facts ctx =
     (let task_type = rc_task_type ctx; conf = rc_task_confidence ctx;
          personalized = (has_personal_context ctx \<or> rf_personalized_signal facts);
          low_confidence = (case conf of None \<Rightarrow> False | Some x \<Rightarrow> x < 1 / 2);
          unknown_task = (\<not> str_truthy task_type \<or> low_confidence);
          high = has_high_risk_signal task_type facts;
          risk = (if high then Risk_High else risk_from_context (rc_risk_level ctx));
          code = (\<lambda>b s. if b then [s] else [])
      in \<lparr>rq_task_type = task_type, rq_task_confidence = conf, rq_risk_level = risk,
          rq_prompt_chars = rf_prompt_chars facts, rq_message_count = rf_message_count facts,
          rq_has_tools = rf_has_tools facts, rq_wants_json = rf_wants_json facts,
          rq_has_multimodal = rf_has_multimodal facts, rq_personalized = personalized,
          rq_freshness_sensitive = rf_freshness_signal facts, rq_unknown_task = unknown_task,
          rq_reason_codes = dict_fromkeys
            (code unknown_task ''unknown_task'' @ code low_confidence ''low_task_confidence'' @
             (if risk = Risk_High then [''risk_high''] else if risk = Risk_Unknown then [''risk_unknown''] else []) @
             code (rf_has_tools facts) ''tools_present'' @ code (rf_wants_json facts) ''json_output'' @
             code (rf_has_multimodal facts) ''multimodal_content'' @ code personalized ''personalized_request'' @
             code (rf_freshness_signal facts) ''freshness_sensitive'' @ code high ''high_risk_signal'')\<rparr>)"

section \<open>engine/cache_policy.py\<close>

record cache_eligibility =
  ce_lever :: string
  ce_allowed :: bool
  ce_reason_code :: string
  ce_blockers :: "string list"

definition blocker :: "bool \<Rightarrow> string \<Rightarrow> string list" where
  "blocker b s = (if b then [s] else [])"

definition cache_blockers :: "request_classification \<Rightarrow> string list" where
  "cache_blockers c =
     blocker (risky_or_unknown c) ''risky_or_unknown'' @ blocker (rq_personalized c) ''personalized_request'' @
     blocker (rq_freshness_sensitive c) ''freshness_sensitive'' @ blocker (rq_has_tools c) ''tools_present'' @
     blocker (rq_has_multimodal c) ''multimodal_content''"

definition semantic_only_blockers :: "request_classification \<Rightarrow> string list" where
  "semantic_only_blockers c = blocker (rq_wants_json c) ''json_output''"

definition evaluate_cache_eligibility :: "string \<Rightarrow> request_classification \<Rightarrow> cache_eligibility" where
  "evaluate_cache_eligibility lever c =
     (let blockers = cache_blockers c @ (if lever = ''semantic_cache'' then semantic_only_blockers c else [])
      in if blockers \<noteq> []
         then \<lparr>ce_lever = lever, ce_allowed = False, ce_reason_code = ''cache_gate_shadow_reject'',
               ce_blockers = dict_fromkeys blockers\<rparr>
         else \<lparr>ce_lever = lever, ce_allowed = True, ce_reason_code = ''cache_gate_shadow_allow'', ce_blockers = []\<rparr>)"

definition gate_metadata :: "cache_eligibility \<Rightarrow> (string \<times> json) list" where
  "gate_metadata g =
     [(''cache_gate'', JObj [(''mode'', JStr ''shadow''), (''decision'', JStr (if ce_allowed g then ''allow'' else ''reject'')),
        (''enforced'', JBool False), (''reason_code'', JStr (ce_reason_code g)),
        (''blockers'', JList (map JStr (ce_blockers g)))])]"

section \<open>engine/runtime_trace.py\<close>

definition max_detail_string :: nat where
  "max_detail_string = 256"

definition max_detail_list :: nat where
  "max_detail_list = 32"

definition denylisted_detail_keys :: "string list" where
  "denylisted_detail_keys = [''arguments'', ''body'', ''completion'', ''content'', ''messages'', ''prompt'', ''request'',
     ''request_body'', ''response'', ''response_payload'', ''tool_arguments'']"

definition put_clean :: "(string \<times> json) list \<Rightarrow> string \<times> json \<Rightarrow> (string \<times> json) list" where
  "put_clean out kv =
     (if py_lower (fst kv) \<in> set denylisted_detail_keys \<or> snd kv = JNull then out
      else dict_put out (take max_detail_string (fst kv)) (snd kv))"

fun clean_detail :: "json \<Rightarrow> json" where
  "clean_detail (JObj kvs) = JObj (foldl put_clean [] (map (\<lambda>(k, v). (k, clean_detail v)) kvs))"
| "clean_detail (JList vs) = JList (filter (\<lambda>v. v \<noteq> JNull) (take max_detail_list (map clean_detail vs)))"
| "clean_detail (JStr s) = (let t = py_strip s in if t = [] then JNull else JStr (take max_detail_string t))"
| "clean_detail v = v"

definition runtime_trace_event ::
  "string \<Rightarrow> string \<Rightarrow> string \<Rightarrow> string \<Rightarrow> bool \<Rightarrow> string option \<Rightarrow> string option \<Rightarrow> (string \<times> json) list \<Rightarrow> (string \<times> json) list" where
  "runtime_trace_event stage lever action reason_code enforced policy_id source_id detail =
     [(''stage'', JStr stage), (''lever'', JStr lever), (''action'', JStr action), (''reason_code'', JStr reason_code),
      (''enforced'', JBool enforced)] @
     (if str_truthy policy_id then [(''policy_id'', JStr (str_or_empty policy_id))] else []) @
     (if str_truthy source_id then [(''source_recommendation_id'', JStr (str_or_empty source_id))] else []) @
     (if truthy (clean_detail (JObj detail)) then [(''detail'', clean_detail (JObj detail))] else [])"

section \<open>Content-free traces\<close>

text \<open>
  No key of a content field (in any case), no null entry, bounded keys, strings and lists, at every
  depth.
\<close>

fun content_free :: "json \<Rightarrow> bool" where
  "content_free (JObj kvs) =
     list_all (\<lambda>(k, v). py_lower k \<notin> set denylisted_detail_keys \<and> length k \<le> max_detail_string \<and> v \<noteq> JNull \<and> content_free v) kvs"
| "content_free (JList vs) \<longleftrightarrow> length vs \<le> max_detail_list \<and> list_all (\<lambda>v. v \<noteq> JNull \<and> content_free v) vs"
| "content_free (JStr s) \<longleftrightarrow> s \<noteq> [] \<and> length s \<le> max_detail_string"
| "content_free v = True"

lemma denylisted_short: "k \<in> set denylisted_detail_keys \<Longrightarrow> length k < max_detail_string"
  by (auto simp: denylisted_detail_keys_def max_detail_string_def)

lemma truncated_key_allowed:
  assumes "py_lower k \<notin> set denylisted_detail_keys"
  shows "py_lower (take max_detail_string k) \<notin> set denylisted_detail_keys"
proof (cases "length k \<le> max_detail_string")
  case False
  then have "length (py_lower (take max_detail_string k)) = max_detail_string" by simp
  then show ?thesis using denylisted_short by force
qed (use assms in simp)

lemma dict_put_entries:
  "(k', v') \<in> set (dict_put kvs k v) \<Longrightarrow> (k', v') = (k, v) \<or> (k', v') \<in> set kvs"
  by (induction kvs) (auto split: if_splits)

lemma put_clean_content_free:
  assumes "content_free (JObj out)" "content_free (snd kv)"
  shows "content_free (JObj (put_clean out kv))"
  using assms truncated_key_allowed [of "fst kv"]
  by (auto simp: put_clean_def list_all_iff dest!: dict_put_entries)

lemma foldl_put_clean_content_free:
  "list_all (\<lambda>kv. content_free (snd kv)) kvs \<Longrightarrow> content_free (JObj out) \<Longrightarrow> content_free (JObj (foldl put_clean out kvs))"
  by (induction kvs arbitrary: out) (simp_all add: put_clean_content_free del: content_free.simps)

lemma clean_detail_content_free: "content_free (clean_detail v)"
proof (induction v rule: clean_detail.induct)
  case (1 kvs)
  have "list_all (\<lambda>kv. content_free (snd kv)) (map (\<lambda>(k, v). (k, clean_detail v)) kvs)"
    using 1 by (auto simp: list_all_iff)
  moreover have "content_free (JObj [])" by simp
  ultimately show ?case by (simp only: clean_detail.simps foldl_put_clean_content_free)
next
  case (2 vs)
  have "length (filter (\<lambda>v. v \<noteq> JNull) (take max_detail_list (map clean_detail vs))) \<le> max_detail_list"
    by (rule order_trans [OF length_filter_le]) simp
  then show ?case using 2 by (auto simp: list_all_iff dest!: in_set_takeD)
qed (auto simp: Let_def max_detail_string_def)

section \<open>Signals\<close>

lemma prefix_append_sep: "prefix t (x @ c # r) \<Longrightarrow> c \<notin> set t \<Longrightarrow> prefix t x"
proof (induction x arbitrary: t)
  case Nil
  then show ?case by (cases t) auto
next
  case (Cons a x)
  then show ?case by (cases t) auto
qed

lemma py_contains_append_sep:
  assumes "c \<notin> set t" "t \<noteq> []"
  shows "py_contains t (x @ c # r) \<longleftrightarrow> py_contains t x \<or> py_contains t r"
proof (induction x)
  case Nil
  have "\<not> prefix t (c # r)" using assms by (cases t) auto
  then show ?case using assms by simp
next
  case (Cons a x)
  have "prefix t ((a # x) @ c # r) \<longleftrightarrow> prefix t (a # x)"
    using prefix_append_sep [of t "a # x" c r] assms(1) by (auto intro: prefix_order.trans)
  then show ?case using Cons by simp
qed

lemma py_lower_append [simp]: "py_lower (a @ b) = py_lower a @ py_lower b"
  by (simp add: py_lower_def)

lemma py_contains_join:
  assumes "CHR ''\<newline>'' \<notin> set t" "t \<noteq> []"
  shows "py_contains t (py_lower (join_lines xs)) \<longleftrightarrow> (\<exists>x \<in> set xs. py_contains t (py_lower x))"
proof (induction xs rule: join_lines.induct)
  case (3 x y ys)
  have "py_lower (join_lines (x # y # ys)) = py_lower x @ CHR ''\<newline>'' # py_lower (join_lines (y # ys))"
    by (simp add: py_lower_def py_lower_char_def)
  then show ?case using 3 py_contains_append_sep [OF assms] by simp
qed (use assms in \<open>simp_all add: py_lower_def\<close>)

lemma contains_any_join:
  assumes "\<forall>t \<in> set terms. CHR ''\<newline>'' \<notin> set t \<and> t \<noteq> []"
  shows "contains_any (py_lower (join_lines xs)) terms \<longleftrightarrow> (\<exists>x \<in> set xs. contains_any (py_lower x) terms)"
  using assms by (auto simp: contains_any_def list_ex_iff py_contains_join)

section \<open>Properties\<close>

text \<open>
  Runtime traces are content-free: whatever detail a caller passes, the event's detail contains, at
  every depth, no prompt, message, completion, request, response or tool-argument field in any spelling
  of its case, no string or key over 256 characters and no list over 32 entries.
\<close>

theorem runtime_trace_content_free:
  "case dict_get (runtime_trace_event stage lever action reason enforced pid sid detail) ''detail'' of
     JNull \<Rightarrow> clean_detail (JObj detail) = JObj []
   | d \<Rightarrow> content_free d"
proof -
  have "dict_get (runtime_trace_event stage lever action reason enforced pid sid detail) ''detail'' =
      (if truthy (clean_detail (JObj detail)) then clean_detail (JObj detail) else JNull)"
    by (simp add: runtime_trace_event_def dict_get_def)
  moreover have "\<not> truthy (clean_detail (JObj detail)) \<Longrightarrow> clean_detail (JObj detail) = JObj []" by simp
  ultimately show ?thesis
    using clean_detail_content_free [of "JObj detail"]
    by (cases "truthy (clean_detail (JObj detail))") (auto split: json.split simp del: content_free.simps)
qed

text \<open>
  A risk, freshness or personal-data signal is raised exactly when some text fragment of the body,
  however deeply it is nested in message containers, contains one of the terms in any case: joining the
  fragments neither hides a term nor creates one across two fragments.
\<close>

theorem request_signals_exact:
  "let facts = normalize_request_facts body; fragments = set (iter_text_fragments (JObj body))
   in (rf_freshness_signal facts \<longleftrightarrow> (\<exists>x \<in> fragments. contains_any (py_lower x) freshness_terms)) \<and>
      (rf_personalized_signal facts \<longleftrightarrow> (\<exists>x \<in> fragments. contains_any (py_lower x) personalized_terms)) \<and>
      (rf_high_risk_signal facts \<longleftrightarrow> (\<exists>x \<in> fragments. contains_any (py_lower x) high_risk_terms))"
  unfolding normalize_request_facts_def Let_def
  by (simp only: request_facts.simps)
     (intro conjI contains_any_join; simp add: freshness_terms_def personalized_terms_def high_risk_terms_def)

end
