(* ===== verification/Planner.thy ===== *)
theory Planner
  imports RequestFacts
begin

text \<open>
  \<open>engine/planner.py\<close> with its types (\<open>engine/types.py\<close>): one candidate per lever, lifted by measured
  priors, and the action the planner authorizes. Amounts in priors are the strings the code carries.
\<close>

datatype candidate_status = Eligible | Recommendable | Rejected | Shadow_Only | Unavailable

datatype quality_gate = Gate_Passed | Gate_Not_Required | Gate_Required | Gate_Blocked | Gate_Unknown

record outcome_prior =
  op_lever :: string
  op_readiness_status :: string
  op_sample_count :: int
  op_measured_savings_count :: int
  op_total_gross_savings_usd :: "string option"
  op_average_gross_savings_usd :: "string option"
  op_quality_pass_rate :: "string option"
  op_feedback_acceptance_rate :: "string option"
  op_reason_codes :: "string list"

record planner_input =
  pi_request_id :: string
  pi_provider :: string
  pi_model :: string
  pi_body :: "(string \<times> json) list"
  pi_request_facts :: "request_facts option"
  pi_context :: request_context
  pi_optimize_enabled :: bool
  pi_exact_cache_enabled :: bool
  pi_semantic_cache_enabled :: bool
  pi_routing_policy_present :: bool
  pi_routing_policy_id :: "string option"
  pi_trim_policy_present :: bool
  pi_trim_policy_id :: "string option"
  pi_compression_policy_present :: bool
  pi_compression_policy_id :: "string option"
  pi_outcome_priors :: "outcome_prior list"

record candidate_optimization =
  co_lever :: string
  co_status :: candidate_status
  co_quality_gate :: quality_gate
  co_risk :: optimization_risk
  co_reason_code :: string
  co_reason_detail :: "(string \<times> json) list"
  co_policy_id :: "string option"
  co_estimated_savings_usd :: "string option"

record selected_action =
  sa_action :: string
  sa_mode :: string
  sa_reason_code :: string

record optimization_plan =
  pn_request_id :: string
  pn_provider :: string
  pn_model :: string
  pn_classification :: request_classification
  pn_candidates :: "candidate_optimization list"
  pn_selected :: selected_action

definition selection_priority :: "string list" where
  "selection_priority = [''exact_cache'', ''semantic_cache'', ''model_routing'', ''token_trim'', ''prompt_compression'']"

definition routing_alias :: "string \<Rightarrow> string" where
  "routing_alias lever = (if lever \<in> {''model_downshift'', ''smart_routing''} then ''model_routing'' else lever)"

definition candidate_for :: "optimization_plan \<Rightarrow> string \<Rightarrow> candidate_optimization option" where
  "candidate_for plan lever = find (\<lambda>c. routing_alias (co_lever c) = routing_alias lever) (pn_candidates plan)"

definition unavailable :: "string \<Rightarrow> request_classification \<Rightarrow> string \<Rightarrow> candidate_optimization" where
  "unavailable lever c reason_code =
     \<lparr>co_lever = lever, co_status = Unavailable, co_quality_gate = Gate_Blocked, co_risk = rq_risk_level c,
      co_reason_code = reason_code, co_reason_detail = [], co_policy_id = None, co_estimated_savings_usd = None\<rparr>"

definition exact_cache_candidate :: "planner_input \<Rightarrow> request_classification \<Rightarrow> candidate_optimization" where
  "exact_cache_candidate inp c =
     (if \<not> pi_optimize_enabled inp then unavailable ''exact_cache'' c ''optimization_disabled''
      else if \<not> pi_exact_cache_enabled inp then unavailable ''exact_cache'' c ''exact_cache_disabled''
      else (let gate = evaluate_cache_eligibility ''exact_cache'' c
            in if \<not> ce_allowed gate
               then \<lparr>co_lever = ''exact_cache'', co_status = Rejected, co_quality_gate = Gate_Blocked,
                     co_risk = rq_risk_level c, co_reason_code = ''cache_requires_explicit_policy'',
                     co_reason_detail = gate_metadata gate, co_policy_id = None, co_estimated_savings_usd = None\<rparr>
               else \<lparr>co_lever = ''exact_cache'', co_status = Eligible, co_quality_gate = Gate_Not_Required,
                     co_risk = Risk_Low, co_reason_code = ''exact_cache_candidate'',
                     co_reason_detail = gate_metadata gate, co_policy_id = None, co_estimated_savings_usd = None\<rparr>))"

definition semantic_cache_candidate :: "planner_input \<Rightarrow> request_classification \<Rightarrow> candidate_optimization" where
  "semantic_cache_candidate inp c =
     (if \<not> pi_optimize_enabled inp then unavailable ''semantic_cache'' c ''optimization_disabled''
      else if \<not> pi_semantic_cache_enabled inp then unavailable ''semantic_cache'' c ''semantic_cache_disabled''
      else (let gate = evaluate_cache_eligibility ''semantic_cache'' c
            in if \<not> ce_allowed gate
               then \<lparr>co_lever = ''semantic_cache'', co_status = Rejected, co_quality_gate = Gate_Blocked,
                     co_risk = rq_risk_level c, co_reason_code = ''semantic_cache_blocked_by_risk'',
                     co_reason_detail = gate_metadata gate, co_policy_id = None, co_estimated_savings_usd = None\<rparr>
               else \<lparr>co_lever = ''semantic_cache'', co_status = Shadow_Only, co_quality_gate = Gate_Required,
                     co_risk = Risk_Medium, co_reason_code = ''semantic_cache_requires_quality_gate'',
                     co_reason_detail = gate_metadata gate, co_policy_id = None, co_estimated_savings_usd = None\<rparr>))"

definition routing_blockers :: "request_classification \<Rightarrow> string list" where
  "routing_blockers c =
     blocker (risky_or_unknown c) ''risky_or_unknown'' @ blocker (rq_personalized c) ''personalized_request'' @
     blocker (rq_has_multimodal c) ''multimodal_content''"

definition trim_blockers :: "request_classification \<Rightarrow> string list" where
  "trim_blockers c =
     blocker (risky_or_unknown c) ''risky_or_unknown'' @ blocker (rq_has_tools c) ''tools_present'' @
     blocker (rq_wants_json c) ''json_output'' @ blocker (rq_has_multimodal c) ''multimodal_content''"

text \<open>The common shape of the three policy levers: rejected by blockers, else shadowed until a gate.\<close>

definition policy_candidate ::
  "string \<Rightarrow> string list \<Rightarrow> string \<Rightarrow> string \<Rightarrow> string option \<Rightarrow> request_classification \<Rightarrow> candidate_optimization" where
  "policy_candidate lever blockers rejected_code shadow_code policy_id c =
     (if blockers \<noteq> []
      then \<lparr>co_lever = lever, co_status = Rejected, co_quality_gate = Gate_Blocked, co_risk = rq_risk_level c,
            co_reason_code = rejected_code, co_reason_detail = [(''blockers'', JList (map JStr blockers))],
            co_policy_id = policy_id, co_estimated_savings_usd = None\<rparr>
      else \<lparr>co_lever = lever, co_status = Shadow_Only, co_quality_gate = Gate_Required, co_risk = Risk_Medium,
            co_reason_code = shadow_code, co_reason_detail = [], co_policy_id = policy_id,
            co_estimated_savings_usd = None\<rparr>)"

definition model_routing_candidate :: "planner_input \<Rightarrow> request_classification \<Rightarrow> candidate_optimization" where
  "model_routing_candidate inp c =
     (if \<not> pi_optimize_enabled inp then unavailable ''model_routing'' c ''optimization_disabled''
      else if \<not> pi_routing_policy_present inp then unavailable ''model_routing'' c ''routing_policy_missing''
      else policy_candidate ''model_routing'' (routing_blockers c) ''routing_blocked_by_risk''
             ''routing_requires_eval_gate'' (pi_routing_policy_id inp) c)"

definition token_trim_candidate :: "planner_input \<Rightarrow> request_classification \<Rightarrow> candidate_optimization" where
  "token_trim_candidate inp c =
     (if \<not> pi_optimize_enabled inp then unavailable ''token_trim'' c ''optimization_disabled''
      else if \<not> pi_trim_policy_present inp then unavailable ''token_trim'' c ''trim_policy_missing''
      else policy_candidate ''token_trim'' (trim_blockers c) ''trim_blocked_by_context_risk''
             ''trim_requires_quality_gate'' (pi_trim_policy_id inp) c)"

definition prompt_compression_candidate :: "planner_input \<Rightarrow> request_classification \<Rightarrow> candidate_optimization" where
  "prompt_compression_candidate inp c =
     (if \<not> pi_optimize_enabled inp then unavailable ''prompt_compression'' c ''optimization_disabled''
      else if \<not> pi_compression_policy_present inp then unavailable ''prompt_compression'' c ''compression_policy_missing''
      else policy_candidate ''prompt_compression'' (trim_blockers c) ''compression_blocked_by_context_risk''
             ''compression_requires_quality_gate'' (pi_compression_policy_id inp) c)"

definition normalize_lever :: "string \<Rightarrow> string" where
  "normalize_lever lever = (if lever = ''model_downshift'' then ''model_routing'' else lever)"

definition prior_for :: "string \<Rightarrow> outcome_prior list \<Rightarrow> outcome_prior option" where
  "prior_for lever priors = find (\<lambda>p. normalize_lever (op_lever p) = normalize_lever lever) priors"

definition opt_json :: "string option \<Rightarrow> json" where
  "opt_json v = (case v of None \<Rightarrow> JNull | Some s \<Rightarrow> JStr s)"

definition prior_metadata :: "outcome_prior \<Rightarrow> json" where
  "prior_metadata p =
     JObj [(''readiness_status'', JStr (op_readiness_status p)), (''sample_count'', JInt (op_sample_count p)),
       (''measured_savings_count'', JInt (op_measured_savings_count p)),
       (''total_gross_savings_usd'', opt_json (op_total_gross_savings_usd p)),
       (''average_gross_savings_usd'', opt_json (op_average_gross_savings_usd p)),
       (''quality_pass_rate'', opt_json (op_quality_pass_rate p)),
       (''feedback_acceptance_rate'', opt_json (op_feedback_acceptance_rate p)),
       (''reason_codes'', JList (map JStr (op_reason_codes p)))]"

definition with_outcome_prior :: "outcome_prior list \<Rightarrow> candidate_optimization \<Rightarrow> candidate_optimization" where
  "with_outcome_prior priors cand =
     (case prior_for (co_lever cand) priors of
        None \<Rightarrow> cand
      | Some prior \<Rightarrow>
          (let detailed = cand\<lparr>co_reason_detail := dict_put (co_reason_detail cand) ''outcome_prior'' (prior_metadata prior)\<rparr>
           in if co_status cand = Rejected then detailed
              else if co_status cand = Unavailable \<and>
                      co_reason_code cand \<notin> {''routing_policy_missing'', ''trim_policy_missing''} then detailed
              else if op_readiness_status prior \<notin> {''recommendable'', ''auto_apply_candidate''} then detailed
              else detailed\<lparr>co_status := Recommendable, co_quality_gate := Gate_Passed, co_risk := Risk_Low,
                            co_reason_code := ''outcome_prior_recommendable'',
                            co_estimated_savings_usd := op_average_gross_savings_usd prior\<rparr>))"

definition enforceable_status :: "candidate_status \<Rightarrow> bool" where
  "enforceable_status s \<longleftrightarrow> s \<in> {Eligible, Recommendable}"

text \<open>\<open>by_lever\<close> is a dictionary: the last candidate of a lever.\<close>

fun walk_priority :: "candidate_optimization list \<Rightarrow> candidate_optimization option \<Rightarrow> string list \<Rightarrow> selected_action" where
  "walk_priority cands (Some s) [] =
     \<lparr>sa_action = co_lever s, sa_mode = ''shadow'', sa_reason_code = co_reason_code s\<rparr>"
| "walk_priority cands None [] =
     \<lparr>sa_action = ''observe'', sa_mode = ''observe_only'', sa_reason_code = ''no_actionable_candidate''\<rparr>"
| "walk_priority cands shadow (l # ls) =
     (case find (\<lambda>c. co_lever c = l) (rev cands) of
        None \<Rightarrow> walk_priority cands shadow ls
      | Some c \<Rightarrow>
          if enforceable_status (co_status c)
          then \<lparr>sa_action = l, sa_mode = ''enforce'', sa_reason_code = co_reason_code c\<rparr>
          else walk_priority cands (if shadow = None \<and> co_status c = Shadow_Only then Some c else shadow) ls)"

definition select_action :: "candidate_optimization list \<Rightarrow> bool \<Rightarrow> selected_action" where
  "select_action cands optimize_enabled =
     (if \<not> optimize_enabled
      then \<lparr>sa_action = ''observe'', sa_mode = ''observe_only'', sa_reason_code = ''optimization_disabled''\<rparr>
      else walk_priority cands None selection_priority)"

definition plan_classification :: "planner_input \<Rightarrow> request_classification" where
  "plan_classification inp =
     classify_request (case pi_request_facts inp of Some f \<Rightarrow> f | None \<Rightarrow> normalize_request_facts (pi_body inp)) (pi_context inp)"

definition build_optimization_plan :: "planner_input \<Rightarrow> optimization_plan" where
  "build_optimization_plan inp =
     (let c = plan_classification inp;
          candidates = map (with_outcome_prior (pi_outcome_priors inp))
            [exact_cache_candidate inp c, semantic_cache_candidate inp c, model_routing_candidate inp c,
             token_trim_candidate inp c, prompt_compression_candidate inp c]
      in \<lparr>pn_request_id = pi_request_id inp, pn_provider = pi_provider inp, pn_model = pi_model inp,
          pn_classification = c, pn_candidates = candidates,
          pn_selected = select_action candidates (pi_optimize_enabled inp)\<rparr>)"

section \<open>What the planner authorizes\<close>

text \<open>
  The specification of enforcement, per lever: the exact cache needs only its safety gate; every other
  lever needs a ready prior, and the absence of blockers, which the code checks for model routing and
  trimming only when their policy is present.
\<close>

definition prior_ready :: "string \<Rightarrow> outcome_prior list \<Rightarrow> bool" where
  "prior_ready lever priors =
     (case prior_for lever priors of None \<Rightarrow> False
      | Some p \<Rightarrow> op_readiness_status p \<in> {''recommendable'', ''auto_apply_candidate''})"

definition authorized :: "planner_input \<Rightarrow> string \<Rightarrow> bool" where
  "authorized inp lever \<longleftrightarrow>
     (let c = plan_classification inp; ready = prior_ready lever (pi_outcome_priors inp)
      in if lever = ''exact_cache'' then pi_exact_cache_enabled inp \<and> cache_blockers c = []
         else if lever = ''semantic_cache''
         then pi_semantic_cache_enabled inp \<and> cache_blockers c = [] \<and> semantic_only_blockers c = [] \<and> ready
         else if lever = ''model_routing'' then ready \<and> (\<not> pi_routing_policy_present inp \<or> routing_blockers c = [])
         else if lever = ''token_trim'' then ready \<and> (\<not> pi_trim_policy_present inp \<or> trim_blockers c = [])
         else if lever = ''prompt_compression'' then ready \<and> pi_compression_policy_present inp \<and> trim_blockers c = []
         else False)"

lemma cache_gate_allowed:
  "ce_allowed (evaluate_cache_eligibility lever c) \<longleftrightarrow>
     cache_blockers c = [] \<and> (lever = ''semantic_cache'' \<longrightarrow> semantic_only_blockers c = [])"
  by (simp add: evaluate_cache_eligibility_def Let_def)

lemma with_outcome_prior_lever [simp]: "co_lever (with_outcome_prior priors cand) = co_lever cand"
  by (simp add: with_outcome_prior_def Let_def split: option.split)

lemma with_outcome_prior_enforceable:
  "enforceable_status (co_status (with_outcome_prior priors cand)) \<longleftrightarrow>
     enforceable_status (co_status cand) \<or>
     prior_ready (co_lever cand) priors \<and>
       (co_status cand = Shadow_Only \<or>
        co_status cand = Unavailable \<and> co_reason_code cand \<in> {''routing_policy_missing'', ''trim_policy_missing''})"
  by (cases "co_status cand")
     (auto simp: with_outcome_prior_def prior_ready_def enforceable_status_def Let_def split: option.splits)

lemmas candidate_defs = exact_cache_candidate_def semantic_cache_candidate_def model_routing_candidate_def
  token_trim_candidate_def prompt_compression_candidate_def policy_candidate_def unavailable_def

lemma candidate_levers [simp]:
  "co_lever (exact_cache_candidate inp c) = ''exact_cache''" "co_lever (semantic_cache_candidate inp c) = ''semantic_cache''"
  "co_lever (model_routing_candidate inp c) = ''model_routing''" "co_lever (token_trim_candidate inp c) = ''token_trim''"
  "co_lever (prompt_compression_candidate inp c) = ''prompt_compression''"
  by (simp_all add: candidate_defs Let_def)

lemma candidate_enforceable:
  assumes "pi_optimize_enabled inp" "c = plan_classification inp"
  shows "enforceable_status (co_status (with_outcome_prior (pi_outcome_priors inp) (exact_cache_candidate inp c))) \<longleftrightarrow> authorized inp ''exact_cache''"
    "enforceable_status (co_status (with_outcome_prior (pi_outcome_priors inp) (semantic_cache_candidate inp c))) \<longleftrightarrow> authorized inp ''semantic_cache''"
    "enforceable_status (co_status (with_outcome_prior (pi_outcome_priors inp) (model_routing_candidate inp c))) \<longleftrightarrow> authorized inp ''model_routing''"
    "enforceable_status (co_status (with_outcome_prior (pi_outcome_priors inp) (token_trim_candidate inp c))) \<longleftrightarrow> authorized inp ''token_trim''"
    "enforceable_status (co_status (with_outcome_prior (pi_outcome_priors inp) (prompt_compression_candidate inp c))) \<longleftrightarrow> authorized inp ''prompt_compression''"
  using assms
  by (simp_all add: with_outcome_prior_enforceable authorized_def Let_def cache_gate_allowed)
     (auto simp: candidate_defs enforceable_status_def Let_def cache_gate_allowed)

text \<open>The walk over the priorities.\<close>

definition lever_enforceable :: "candidate_optimization list \<Rightarrow> string \<Rightarrow> bool" where
  "lever_enforceable cands l =
     (case find (\<lambda>c. co_lever c = l) (rev cands) of None \<Rightarrow> False | Some c \<Rightarrow> enforceable_status (co_status c))"

lemma walk_priority_enforce:
  "sa_mode (walk_priority cands sh ls) = ''enforce'' \<and> sa_action (walk_priority cands sh ls) = l \<longleftrightarrow>
     find (lever_enforceable cands) ls = Some l"
  by (induction cands sh ls rule: walk_priority.induct)
     (auto simp: lever_enforceable_def split: option.splits)

lemma plan_lever_enforceable:
  assumes "pi_optimize_enabled inp" "l \<in> set selection_priority"
  shows "lever_enforceable (pn_candidates (build_optimization_plan inp)) l = authorized inp l"
  using assms candidate_enforceable [OF assms(1) refl]
  by (auto simp: selection_priority_def lever_enforceable_def build_optimization_plan_def Let_def)

lemma find_set_cong: "(\<And>x. x \<in> set xs \<Longrightarrow> P x = Q x) \<Longrightarrow> find P xs = find Q xs"
  by (induction xs) auto

lemma plan_enforces:
  "sa_mode (pn_selected (build_optimization_plan inp)) = ''enforce'' \<and> sa_action (pn_selected (build_optimization_plan inp)) = l \<longleftrightarrow>
     pi_optimize_enabled inp \<and> find (authorized inp) selection_priority = Some l"
proof (cases "pi_optimize_enabled inp")
  case True
  have "pn_selected (build_optimization_plan inp) = walk_priority (pn_candidates (build_optimization_plan inp)) None selection_priority"
    using True by (simp add: build_optimization_plan_def select_action_def Let_def)
  moreover have "find (lever_enforceable (pn_candidates (build_optimization_plan inp))) selection_priority = find (authorized inp) selection_priority"
    by (rule find_set_cong) (simp add: plan_lever_enforceable True)
  ultimately show ?thesis using True by (simp add: walk_priority_enforce)
qed (simp add: build_optimization_plan_def select_action_def Let_def)

section \<open>Properties\<close>


text \<open>
  A risky or unknown request is enforced in one situation only, where it should not be: a lever whose
  policy is missing is never tested for blockers, so a ready prior for model routing or trimming lifts it
  to an authorized action. With both policies present a risky request is never enforced.
\<close>

theorem risky_request_enforced_without_policy:
  assumes "risky_or_unknown (plan_classification inp)"
  shows "sa_mode (pn_selected (build_optimization_plan inp)) = ''enforce'' \<longleftrightarrow>
    pi_optimize_enabled inp \<and>
    (\<not> pi_routing_policy_present inp \<and> prior_ready ''model_routing'' (pi_outcome_priors inp) \<or>
     \<not> pi_trim_policy_present inp \<and> prior_ready ''token_trim'' (pi_outcome_priors inp))"
proof -
  have "sa_mode (pn_selected (build_optimization_plan inp)) = ''enforce'' \<longleftrightarrow>
      pi_optimize_enabled inp \<and> (\<exists>l. find (authorized inp) selection_priority = Some l)"
    using plan_enforces [of inp] by blast
  also have "(\<exists>l. find (authorized inp) selection_priority = Some l) \<longleftrightarrow> (\<exists>l \<in> set selection_priority. authorized inp l)"
    by (metis find_None_iff not_Some_eq)
  also have "\<dots> \<longleftrightarrow> \<not> pi_routing_policy_present inp \<and> prior_ready ''model_routing'' (pi_outcome_priors inp) \<or>
     \<not> pi_trim_policy_present inp \<and> prior_ready ''token_trim'' (pi_outcome_priors inp)"
    using assms
    by (auto simp: selection_priority_def authorized_def Let_def cache_blockers_def routing_blockers_def trim_blockers_def blocker_def)
  finally show ?thesis .
qed

definition sample_planner_input :: planner_input where
  "sample_planner_input =
     \<lparr>pi_request_id = ''r'', pi_provider = ''openai'', pi_model = ''a'', pi_body = [], pi_request_facts = None,
      pi_context = empty_context, pi_optimize_enabled = True, pi_exact_cache_enabled = True,
      pi_semantic_cache_enabled = False, pi_routing_policy_present = False, pi_routing_policy_id = None,
      pi_trim_policy_present = False, pi_trim_policy_id = None, pi_compression_policy_present = False,
      pi_compression_policy_id = None,
      pi_outcome_priors = [\<lparr>op_lever = ''model_downshift'', op_readiness_status = ''recommendable'', op_sample_count = 100,
        op_measured_savings_count = 100, op_total_gross_savings_usd = None, op_average_gross_savings_usd = None,
        op_quality_pass_rate = None, op_feedback_acceptance_rate = None, op_reason_codes = []\<rparr>]\<rparr>"

theorem risky_request_enforced_without_policy_witness:
  "risky_or_unknown (plan_classification sample_planner_input) \<and>
   sa_mode (pn_selected (build_optimization_plan sample_planner_input)) = ''enforce''"
proof -
  have "risky_or_unknown (plan_classification sample_planner_input)"
    by (simp add: risky_or_unknown_def plan_classification_def sample_planner_input_def classify_request_def Let_def
        empty_context_def str_truthy_def str_or_empty_def)
  with risky_request_enforced_without_policy [of sample_planner_input] show ?thesis
    by (simp add: sample_planner_input_def prior_ready_def prior_for_def normalize_lever_def)
qed

text \<open>
  Evidence for smart routing never reaches the routing candidate: the planner's lookup of priors knows
  one alias of model routing only, although the plan's own lookup treats both lever names as model
  routing.
\<close>

theorem smart_routing_prior_ignored:
  "prior_for ''model_routing'' [prior\<lparr>op_lever := ''smart_routing''\<rparr>] = None \<and>
   routing_alias ''smart_routing'' = ''model_routing'' \<and> normalize_lever ''smart_routing'' \<noteq> routing_alias ''smart_routing''"
  by (simp add: prior_for_def normalize_lever_def routing_alias_def)

end
