(* ===== verification/Calendar.thy ===== *)
theory Calendar
  imports Prelude
begin

text \<open>
  The part of \<open>datetime\<close> the backend uses to cut time into months, quarters and years: the civil date
  of an instant and the \<open>replace(day=1, hour=0, ...)\<close> idiom. An instant is the number of
  microseconds since 1970-01-01T00:00Z; the civil calendar is defined for instants from then on.
\<close>

definition is_leap :: "nat \<Rightarrow> bool" where
  "is_leap y = (y mod 4 = 0 \<and> (y mod 100 \<noteq> 0 \<or> y mod 400 = 0))"

definition days_in_year :: "nat \<Rightarrow> nat" where
  "days_in_year y = (if is_leap y then 366 else 365)"

definition days_in_month :: "nat \<Rightarrow> nat \<Rightarrow> nat" where
  "days_in_month y m =
     (if m = 2 then (if is_leap y then 29 else 28) else if m \<in> {4, 6, 9, 11} then 30 else 31)"

text \<open>Year and day of the year (from 0) of the \<open>n\<close>-th day after January 1st of year \<open>y\<close>.\<close>

function split_year :: "nat \<Rightarrow> nat \<Rightarrow> nat \<times> nat" where
  "split_year y n = (if n < days_in_year y then (y, n) else split_year (y + 1) (n - days_in_year y))"
  by pat_completeness auto
termination
  by (relation "measure snd") (auto simp: days_in_year_def split: if_splits)

text \<open>Month and day of the month (from 0) of the \<open>n\<close>-th day after the first of month \<open>m\<close>.\<close>

function split_month :: "nat \<Rightarrow> nat \<Rightarrow> nat \<Rightarrow> nat \<times> nat" where
  "split_month y m n =
     (if n < days_in_month y m \<or> 12 \<le> m then (m, n) else split_month y (m + 1) (n - days_in_month y m))"
  by pat_completeness auto
termination
  by (relation "measure (\<lambda>(y, m, n). n)") (auto simp: days_in_month_def split: if_splits)

declare split_year.simps [simp del] split_month.simps [simp del]

definition day_number :: "datetime \<Rightarrow> nat" where
  "day_number t = nat (t div microseconds_per_day)"

definition year_of :: "datetime \<Rightarrow> nat" where
  "year_of t = fst (split_year 1970 (day_number t))"

definition day_of_year :: "datetime \<Rightarrow> nat" where
  "day_of_year t = snd (split_year 1970 (day_number t))"

definition month_of :: "datetime \<Rightarrow> nat" where
  "month_of t = fst (split_month (year_of t) 1 (day_of_year t))"

definition day_of_month :: "datetime \<Rightarrow> nat" where
  "day_of_month t = snd (split_month (year_of t) 1 (day_of_year t))"

definition midnight_of_day :: "nat \<Rightarrow> datetime" where
  "midnight_of_day d = int d * microseconds_per_day"

definition year_start :: "datetime \<Rightarrow> datetime" where
  "year_start t = midnight_of_day (day_number t - day_of_year t)"

definition month_start :: "datetime \<Rightarrow> datetime" where
  "month_start t = midnight_of_day (day_number t - day_of_month t)"

text \<open>First instant of the following month.\<close>

definition next_month_start :: "datetime \<Rightarrow> datetime" where
  "next_month_start t = month_start t + timedelta_days (int (days_in_month (year_of t) (month_of t)))"

section \<open>Splitting\<close>

lemma days_in_year_pos [simp]: "0 < days_in_year y"
  by (simp add: days_in_year_def)

lemma days_in_month_pos [simp]: "0 < days_in_month y m"
  by (simp add: days_in_month_def)

lemma split_year_bound: "snd (split_year y n) < days_in_year (fst (split_year y n)) \<and> snd (split_year y n) \<le> n"
proof (induction y n rule: split_year.induct)
  case (1 y n)
  show ?case
  proof (cases "n < days_in_year y")
    case True
    then show ?thesis by (simp add: split_year.simps [of y n])
  next
    case False
    with 1 show ?thesis by (auto simp: split_year.simps [of y n])
  qed
qed

text \<open>Days of the same year: only the day of the year differs.\<close>

lemma split_year_same:
  "r < days_in_year (fst (split_year y n)) \<Longrightarrow>
     split_year y (n - snd (split_year y n) + r) = (fst (split_year y n), r)"
proof (induction y n rule: split_year.induct)
  case (1 y n)
  show ?case
  proof (cases "n < days_in_year y")
    case True
    with "1.prems" show ?thesis by (simp add: split_year.simps [of y n] split_year.simps [of y r])
  next
    case False
    let ?s = "split_year (y + 1) (n - days_in_year y)"
    have eq: "split_year y n = ?s" using False by (simp add: split_year.simps [of y n])
    have le: "snd ?s \<le> n - days_in_year y" using split_year_bound [of "y + 1" "n - days_in_year y"] by simp
    then have "n - snd ?s + r - days_in_year y = n - days_in_year y - snd ?s + r"
      "\<not> n - snd ?s + r < days_in_year y" using False by simp_all
    then have "split_year y (n - snd ?s + r) = split_year (y + 1) (n - days_in_year y - snd ?s + r)"
      by (subst split_year.simps) simp
    with "1.IH" [OF False] "1.prems" eq show ?thesis by simp
  qed
qed

lemma split_month_bound:
  "snd (split_month y m n) \<le> n \<and> m \<le> fst (split_month y m n) \<and>
   (m \<le> 12 \<longrightarrow> fst (split_month y m n) \<le> 12) \<and>
   (fst (split_month y m n) < 12 \<longrightarrow> snd (split_month y m n) < days_in_month y (fst (split_month y m n)))"
proof (induction y m n rule: split_month.induct)
  case (1 y m n)
  show ?case
  proof (cases "n < days_in_month y m \<or> 12 \<le> m")
    case True
    then show ?thesis by (auto simp: split_month.simps [of y m n])
  next
    case False
    with 1 [OF False] show ?thesis by (auto simp: split_month.simps [of y m n])
  qed
qed

lemma split_month_same:
  "r < days_in_month y (fst (split_month y m n)) \<Longrightarrow>
     split_month y m (n - snd (split_month y m n) + r) = (fst (split_month y m n), r)"
proof (induction y m n rule: split_month.induct)
  case (1 y m n)
  show ?case
  proof (cases "n < days_in_month y m \<or> 12 \<le> m")
    case True
    with "1.prems" show ?thesis by (auto simp: split_month.simps [of y m n] split_month.simps [of y m r])
  next
    case False
    let ?s = "split_month y (m + 1) (n - days_in_month y m)"
    have eq: "split_month y m n = ?s" using False by (simp add: split_month.simps [of y m n])
    have nd: "days_in_month y m \<le> n" using False by simp
    have "snd ?s \<le> n - days_in_month y m" using split_month_bound [of y "m + 1" "n - days_in_month y m"] by simp
    with nd have "n - snd ?s + r - days_in_month y m = n - days_in_month y m - snd ?s + r"
      "\<not> n - snd ?s + r < days_in_month y m" by linarith+
    then have "split_month y m (n - snd ?s + r) = split_month y (m + 1) (n - days_in_month y m - snd ?s + r)"
      using False by (subst split_month.simps) simp
    with "1.IH" [OF False] "1.prems" eq show ?thesis by simp
  qed
qed

section \<open>Month starts\<close>

lemma day_number_midnight [simp]: "day_number (midnight_of_day d) = d"
  by (simp add: day_number_def midnight_of_day_def microseconds_per_day_def)

lemma day_of_year_le: "day_of_year t \<le> day_number t"
  using split_year_bound by (simp add: day_of_year_def)

lemma day_of_month_le: "day_of_month t \<le> day_of_year t"
  using split_month_bound by (simp add: day_of_month_def)

lemma midnight_le: "0 \<le> t \<Longrightarrow> d \<le> day_number t \<Longrightarrow> midnight_of_day d \<le> t"
proof -
  assume t: "0 \<le> t" and d: "d \<le> day_number t"
  have "int d \<le> t div microseconds_per_day"
    using d t by (simp add: day_number_def pos_imp_zdiv_nonneg_iff microseconds_per_day_def)
  then have "int d * microseconds_per_day \<le> t div microseconds_per_day * microseconds_per_day"
    by (simp add: microseconds_per_day_def)
  also have "\<dots> \<le> t" by (simp add: microseconds_per_day_def)
  finally show ?thesis by (simp add: midnight_of_day_def)
qed

lemma month_start_le: "0 \<le> t \<Longrightarrow> month_start t \<le> t"
  by (simp add: month_start_def midnight_le)

lemma month_start_nonneg [simp]: "0 \<le> month_start t"
  by (simp add: month_start_def midnight_of_day_def microseconds_per_day_def)

text \<open>The civil date of the first instant of the month.\<close>

lemma month_start_civil:
  "year_of (month_start t) = year_of t" "month_of (month_start t) = month_of t"
  "day_of_month (month_start t) = 0"
proof -
  let ?y = "split_year 1970 (day_number t)"
  have le: "day_of_month t \<le> snd ?y" using day_of_month_le [of t] by (simp add: day_of_year_def)
  have "day_number t - day_of_month t = day_number t - snd ?y + (snd ?y - day_of_month t)"
    using le day_of_year_le [of t] by (simp add: day_of_year_def)
  moreover have "snd ?y - day_of_month t < days_in_year (fst ?y)"
    using split_year_bound [of 1970 "day_number t"] by linarith
  ultimately have sy: "split_year 1970 (day_number t - day_of_month t) = (fst ?y, snd ?y - day_of_month t)"
    using split_year_same by simp
  then show y: "year_of (month_start t) = year_of t" by (simp add: year_of_def month_start_def)
  have "day_of_year (month_start t) = day_of_year t - day_of_month t"
    using sy by (simp add: day_of_year_def month_start_def)
  moreover have "split_month (year_of t) 1 (day_of_year t - day_of_month t + 0) = (month_of t, 0)"
    unfolding day_of_month_def month_of_def by (rule split_month_same) simp
  ultimately show "month_of (month_start t) = month_of t" "day_of_month (month_start t) = 0"
    using y by (simp_all add: month_of_def day_of_month_def)
qed

lemma month_start_idem [simp]: "month_start (month_start t) = month_start t"
  unfolding month_start_def [of "month_start t"] month_start_civil(3)
  by (simp add: month_start_def)

end
