(* ===== verification/Pricing.thy ===== *)
theory Pricing
  imports Prelude
begin

text \<open>
  \<open>pricing/service.py\<close>: resolving the price row that was in effect at an event's time, the cache in
  front of it, and the authoritative cost of an event. Tables are lists of rows; \<open>ORDER BY
  effective_at DESC LIMIT 1\<close> takes a latest row, the first one in table order among equals. The
  cache may lose entries at any time; that is the caller's cache argument.
\<close>

record override_row =
  ov_organization_id :: uuid
  ov_model_key :: string
  ov_provider :: "string option"
  ov_effective_at :: datetime
  ov_input :: decimal
  ov_output :: decimal
  ov_cache_read :: "decimal option"

record price_row =
  pr_id :: uuid
  pr_model_key :: string
  pr_provider :: string
  pr_effective_at :: datetime
  pr_input :: decimal
  pr_output :: decimal
  pr_cache_read :: "decimal option"
  pr_input_batch :: "decimal option"
  pr_output_batch :: "decimal option"

datatype price_source = Override | Catalog

record resolved_price =
  input_cost_per_token :: decimal
  output_cost_per_token :: decimal
  cache_read_input_token_cost :: "decimal option"
  rp_source :: price_source
  price_version_id :: "uuid option"

fun latest_by :: "('a \<Rightarrow> datetime) \<Rightarrow> 'a list \<Rightarrow> 'a option" where
  "latest_by key [] = None"
| "latest_by key (x # xs) =
     (case latest_by key xs of
        None \<Rightarrow> Some x
      | Some y \<Rightarrow> if key x < key y then Some y else Some x)"

definition override_for ::
  "override_row list \<Rightarrow> uuid \<Rightarrow> string \<Rightarrow> string \<Rightarrow> datetime \<Rightarrow> resolved_price option" where
  "override_for rows org model_key provider t_at =
     map_option (\<lambda>r. \<lparr>input_cost_per_token = ov_input r, output_cost_per_token = ov_output r,
         cache_read_input_token_cost = ov_cache_read r, rp_source = Override, price_version_id = None\<rparr>)
       (latest_by ov_effective_at
          (filter (\<lambda>r. ov_organization_id r = org \<and> ov_model_key r = model_key \<and>
                       (ov_provider r = Some provider \<or> ov_provider r = None) \<and> ov_effective_at r \<le> t_at) rows))"

definition catalog_price :: "price_row \<Rightarrow> resolved_price" where
  "catalog_price r =
     \<lparr>input_cost_per_token = pr_input r, output_cost_per_token = pr_output r,
      cache_read_input_token_cost = pr_cache_read r, rp_source = Catalog, price_version_id = Some (pr_id r)\<rparr>"

definition catalog_price_for ::
  "price_row list \<Rightarrow> string \<Rightarrow> string \<Rightarrow> datetime \<Rightarrow> resolved_price option" where
  "catalog_price_for rows model_key provider t_at =
     (let base = filter (\<lambda>r. pr_model_key r = model_key \<and> pr_effective_at r \<le> t_at) rows
      in (case latest_by pr_effective_at (filter (\<lambda>r. pr_provider r = provider) base) of
            Some r \<Rightarrow> Some (catalog_price r)
          | None \<Rightarrow> map_option catalog_price (latest_by pr_effective_at base)))"

definition price_cache_ttl :: int where
  "price_cache_ttl = 3600 * 1000000"

type_synonym price_cache = "(uuid \<times> string \<times> string) \<rightharpoonup> resolved_price option"

definition clear_price_cache :: "price_cache \<Rightarrow> price_cache" where
  "clear_price_cache cache = Map.empty"

definition lookup_price ::
  "override_row list \<Rightarrow> price_row list \<Rightarrow> uuid \<Rightarrow> string \<Rightarrow> string \<Rightarrow> datetime \<Rightarrow> resolved_price option" where
  "lookup_price ovs prs org model_key provider t_at =
     (case override_for ovs org model_key provider t_at of
        Some p \<Rightarrow> Some p
      | None \<Rightarrow> catalog_price_for prs model_key provider t_at)"

definition resolve_price ::
  "override_row list \<Rightarrow> price_row list \<Rightarrow> datetime \<Rightarrow> uuid \<Rightarrow> string \<Rightarrow> string \<Rightarrow> datetime \<Rightarrow> price_cache
    \<Rightarrow> resolved_price option \<times> price_cache" where
  "resolve_price ovs prs now org model_key provider t_at cache =
     (let cacheable = (now - price_cache_ttl \<le> t_at); key = (org, model_key, provider)
      in if cacheable \<and> cache key \<noteq> None then (the (cache key), cache)
         else (let price = lookup_price ovs prs org model_key provider t_at
               in (price, if cacheable then cache(key \<mapsto> price) else cache)))"

definition compute_cost :: "resolved_price \<Rightarrow> int \<Rightarrow> int \<Rightarrow> int \<Rightarrow> decimal" where
  "compute_cost price input_tokens output_tokens cached_input_tokens =
     (let cached = min (max cached_input_tokens 0) input_tokens;
          uncached = input_tokens - cached;
          cache_rate = (case cache_read_input_token_cost price of
                          Some c \<Rightarrow> c | None \<Rightarrow> input_cost_per_token price);
          raw = of_int uncached * input_cost_per_token price + of_int cached * cache_rate
                + of_int output_tokens * output_cost_per_token price
      in quantize_half_up 8 raw)"

datatype cost_source = Unknown_Cost | From_Price price_source | Reported

datatype pricing_status = Missing_Token_Counts | Priced | Model_Not_In_Catalog

definition price_usage_event ::
  "override_row list \<Rightarrow> price_row list \<Rightarrow> datetime \<Rightarrow> uuid \<Rightarrow> string \<Rightarrow> string \<Rightarrow> int \<Rightarrow> int \<Rightarrow> int
    \<Rightarrow> decimal option \<Rightarrow> datetime \<Rightarrow> price_cache
    \<Rightarrow> (decimal option \<times> cost_source \<times> pricing_status \<times> uuid option) \<times> price_cache" where
  "price_usage_event ovs prs now org model_key provider input_tokens output_tokens cached_input_tokens
     reported_cost_usd t_at cache =
     (if input_tokens = 0 \<and> output_tokens = 0 \<and> reported_cost_usd = None
      then ((None, Unknown_Cost, Missing_Token_Counts, None), cache)
      else (case resolve_price ovs prs now org model_key provider t_at cache of (price, cache') \<Rightarrow>
        (case price of
           Some p \<Rightarrow>
             ((Some (compute_cost p input_tokens output_tokens cached_input_tokens),
               From_Price (rp_source p), Priced, price_version_id p), cache')
         | None \<Rightarrow>
             (case reported_cost_usd of
                Some c \<Rightarrow> ((Some c, Reported, Model_Not_In_Catalog, None), cache')
              | None \<Rightarrow> ((None, Unknown_Cost, Model_Not_In_Catalog, None), cache')))))"

section \<open>Latest row\<close>

lemma latest_by_None [simp]: "latest_by key xs = None \<longleftrightarrow> xs = []"
  by (cases xs) (auto split: option.splits)

lemma latest_by_Some: "latest_by key xs = Some r \<Longrightarrow> r \<in> set xs \<and> (\<forall>x \<in> set xs. key x \<le> key r)"
  by (induction xs arbitrary: r) (fastforce split: option.splits if_splits)+

text \<open>Rows that the filter rejects do not influence the choice.\<close>

lemma override_for_stable:
  assumes "\<forall>r \<in> set new. t_at < ov_effective_at r"
  shows "override_for (new @ rows) org model_key provider t_at = override_for rows org model_key provider t_at"
proof -
  have "filter (\<lambda>r. ov_organization_id r = org \<and> ov_model_key r = model_key \<and>
      (ov_provider r = Some provider \<or> ov_provider r = None) \<and> ov_effective_at r \<le> t_at) new = []"
    using assms by (auto simp: filter_empty_conv)
  then show ?thesis by (simp add: override_for_def)
qed

lemma catalog_price_for_stable:
  assumes "\<forall>r \<in> set new. t_at < pr_effective_at r"
  shows "catalog_price_for (new @ rows) model_key provider t_at = catalog_price_for rows model_key provider t_at"
proof -
  have "filter (\<lambda>r. pr_model_key r = model_key \<and> pr_effective_at r \<le> t_at) new = []"
    using assms by (auto simp: filter_empty_conv)
  then show ?thesis by (simp add: catalog_price_for_def Let_def)
qed

section \<open>The cache\<close>

text \<open>
  A cache is coherent with the tables at \<open>t_at\<close> when every entry is what the tables would answer there.
\<close>

definition cache_coherent ::
  "override_row list \<Rightarrow> price_row list \<Rightarrow> datetime \<Rightarrow> price_cache \<Rightarrow> bool" where
  "cache_coherent ovs prs t_at cache \<longleftrightarrow>
     (\<forall>org mk pv p. cache (org, mk, pv) = Some p \<longrightarrow> p = lookup_price ovs prs org mk pv t_at)"

lemma resolve_price_coherent:
  assumes "cache_coherent ovs prs t_at cache"
  shows "fst (resolve_price ovs prs now org mk pv t_at cache) = lookup_price ovs prs org mk pv t_at \<and>
    cache_coherent ovs prs t_at (snd (resolve_price ovs prs now org mk pv t_at cache))"
  using assms by (auto simp: resolve_price_def cache_coherent_def Let_def)

section \<open>Cost bounds\<close>

lemma of_int_split: "of_int (b - a) * x + of_int a * x = (of_int b * x :: rat)"
  by (simp add: left_diff_distrib)

lemma compute_cost_le_full_price:
  assumes "0 \<le> input_tokens" "\<forall>c. cache_read_input_token_cost p = Some c \<longrightarrow> c \<le> input_cost_per_token p"
  shows "compute_cost p input_tokens output_tokens cached
     \<le> quantize_half_up 8 (of_int input_tokens * input_cost_per_token p + of_int output_tokens * output_cost_per_token p)"
proof -
  define c where "c = min (max cached 0) input_tokens"
  define rate where "rate = (case cache_read_input_token_cost p of Some c \<Rightarrow> c | None \<Rightarrow> input_cost_per_token p)"
  have c: "0 \<le> c" using assms(1) by (simp add: c_def)
  have "rate \<le> input_cost_per_token p" using assms(2) by (simp add: rate_def split: option.split)
  then have "of_int c * rate \<le> of_int c * input_cost_per_token p"
    using c by (intro mult_left_mono) simp_all
  then have "of_int (input_tokens - c) * input_cost_per_token p + of_int c * rate
      \<le> of_int input_tokens * input_cost_per_token p"
    using of_int_split [of input_tokens c "input_cost_per_token p"] by linarith
  then show ?thesis
    unfolding compute_cost_def Let_def c_def [symmetric] rate_def [symmetric]
    by (intro quantize_half_up_mono) linarith
qed

lemma compute_cost_nonneg:
  assumes "0 \<le> input_tokens" "0 \<le> output_tokens" "0 \<le> input_cost_per_token p" "0 \<le> output_cost_per_token p"
    and "\<forall>c. cache_read_input_token_cost p = Some c \<longrightarrow> 0 \<le> c"
  shows "0 \<le> compute_cost p input_tokens output_tokens cached"
  unfolding compute_cost_def Let_def
  using assms by (intro quantize_half_up_nonneg add_nonneg_nonneg mult_nonneg_nonneg) (auto split: option.split)

section \<open>Properties\<close>

text \<open>
  History is stable: adding override or catalog rows that take effect after an event's time does
  not change the price of that event, and therefore neither its cost, its source nor the price
  version it is pinned to, when the event is priced without the cache (a backfilled event older than
  the cache's lifetime).
\<close>

theorem historical_price_stable:
  assumes "\<forall>r \<in> set new_ovs. t_at < ov_effective_at r" "\<forall>r \<in> set new_prs. t_at < pr_effective_at r"
    and "t_at < now - price_cache_ttl"
  shows "price_usage_event (new_ovs @ ovs) (new_prs @ prs) now org mk pv it ot ct rep t_at cache =
    price_usage_event ovs prs now org mk pv it ot ct rep t_at cache"
proof -
  have "lookup_price (new_ovs @ ovs) (new_prs @ prs) org mk pv t_at = lookup_price ovs prs org mk pv t_at"
    unfolding lookup_price_def override_for_stable [OF assms(1)] catalog_price_for_stable [OF assms(2)] ..
  then have "resolve_price (new_ovs @ ovs) (new_prs @ prs) now org mk pv t_at cache =
      resolve_price ovs prs now org mk pv t_at cache"
    using assms(3) by (simp add: resolve_price_def Let_def)
  then show ?thesis by (simp add: price_usage_event_def)
qed

definition sample_price_row :: price_row where
  "sample_price_row = \<lparr>pr_id = ''v1'', pr_model_key = ''m'', pr_provider = ''openai'', pr_effective_at = 10,
     pr_input = 1, pr_output = 2, pr_cache_read = None, pr_input_batch = None, pr_output_batch = None\<rparr>"

theorem historical_price_stable_witness:
  "price_usage_event [] ([sample_price_row\<lparr>pr_effective_at := 30, pr_input := 5\<rparr>] @ [sample_price_row])
     (price_cache_ttl + 100) ''o'' ''m'' ''openai'' 3 4 0 None 20 Map.empty =
   price_usage_event [] [sample_price_row] (price_cache_ttl + 100) ''o'' ''m'' ''openai'' 3 4 0 None 20 Map.empty"
  using historical_price_stable [of "[]" 20 "[sample_price_row\<lparr>pr_effective_at := 30, pr_input := 5\<rparr>]"
      "price_cache_ttl + 100" "[]" "[sample_price_row]"]
  by simp

definition override_applies :: "uuid \<Rightarrow> string \<Rightarrow> string \<Rightarrow> datetime \<Rightarrow> override_row \<Rightarrow> bool" where
  "override_applies org mk pv t r \<longleftrightarrow> ov_organization_id r = org \<and> ov_model_key r = mk \<and>
     (ov_provider r = Some pv \<or> ov_provider r = None) \<and> ov_effective_at r \<le> t"

text \<open>The specification: which price is a right answer for a model at a time.\<close>

definition right_price ::
  "override_row list \<Rightarrow> price_row list \<Rightarrow> uuid \<Rightarrow> string \<Rightarrow> string \<Rightarrow> datetime \<Rightarrow> resolved_price \<Rightarrow> bool" where
  "right_price ovs prs org mk pv t p \<longleftrightarrow>
     (if \<exists>r \<in> set ovs. override_applies org mk pv t r
      then rp_source p = Override \<and> price_version_id p = None \<and>
        (\<exists>r \<in> set ovs. override_applies org mk pv t r \<and> ov_input r = input_cost_per_token p \<and>
           ov_output r = output_cost_per_token p \<and> ov_cache_read r = cache_read_input_token_cost p \<and>
           (\<forall>q \<in> set ovs. override_applies org mk pv t q \<longrightarrow> ov_effective_at q \<le> ov_effective_at r))
      else (\<exists>r \<in> set prs. p = catalog_price r \<and> pr_model_key r = mk \<and> pr_effective_at r \<le> t \<and>
             ((\<exists>q \<in> set prs. pr_model_key q = mk \<and> pr_effective_at q \<le> t \<and> pr_provider q = pv) \<longrightarrow> pr_provider r = pv) \<and>
             (\<forall>q \<in> set prs. pr_model_key q = mk \<and> pr_effective_at q \<le> t \<and> (pr_provider r = pv \<longrightarrow> pr_provider q = pv)
                \<longrightarrow> pr_effective_at q \<le> pr_effective_at r)))"

lemma lookup_price_override:
  assumes "\<exists>r \<in> set ovs. override_applies org mk pv t r"
  obtains p where "lookup_price ovs prs org mk pv t = Some p" "right_price ovs prs org mk pv t p"
proof -
  let ?O = "filter (\<lambda>r. ov_organization_id r = org \<and> ov_model_key r = mk \<and>
      (ov_provider r = Some pv \<or> ov_provider r = None) \<and> ov_effective_at r \<le> t) ovs"
  have "?O \<noteq> []" using assms unfolding filter_empty_conv by (auto simp: override_applies_def)
  then obtain r where r: "latest_by ov_effective_at ?O = Some r"
    by (cases "latest_by ov_effective_at ?O") auto
  note l = latest_by_Some [OF r]
  have in_effect: "r \<in> set ovs" "override_applies org mk pv t r"
    using l by (auto simp: override_applies_def)
  have latest: "\<forall>q \<in> set ovs. override_applies org mk pv t q \<longrightarrow> ov_effective_at q \<le> ov_effective_at r"
    using l by (simp add: override_applies_def)
  let ?p = "\<lparr>input_cost_per_token = ov_input r, output_cost_per_token = ov_output r,
      cache_read_input_token_cost = ov_cache_read r, rp_source = Override, price_version_id = None\<rparr>"
  have "lookup_price ovs prs org mk pv t = Some ?p"
    using r by (simp add: lookup_price_def override_for_def)
  moreover have "right_price ovs prs org mk pv t ?p"
    unfolding right_price_def if_P [OF assms] using in_effect latest
    by (intro conjI bexI [of _ r]) simp_all
  ultimately show ?thesis by (rule that)
qed

lemma lookup_price_catalog:
  assumes none: "\<not> (\<exists>r \<in> set ovs. override_applies org mk pv t r)"
    and base: "\<exists>r \<in> set prs. pr_model_key r = mk \<and> pr_effective_at r \<le> t"
  obtains p where "lookup_price ovs prs org mk pv t = Some p" "right_price ovs prs org mk pv t p"
proof -
  let ?B = "filter (\<lambda>r. pr_model_key r = mk \<and> pr_effective_at r \<le> t) prs"
  let ?M = "filter (\<lambda>r. pr_provider r = pv) ?B"
  have lk: "lookup_price ovs prs org mk pv t = catalog_price_for prs mk pv t"
    using none by (auto simp: lookup_price_def override_for_def override_applies_def filter_empty_conv)
  show ?thesis
  proof (cases "latest_by pr_effective_at ?M")
    case (Some r)
    have "right_price ovs prs org mk pv t (catalog_price r)"
      unfolding right_price_def if_not_P [OF none] using latest_by_Some [OF Some]
      by (intro bexI [of _ r]) auto
    with Some lk show ?thesis by (intro that) (auto simp: catalog_price_for_def Let_def)
  next
    case None
    have "?B \<noteq> []" using base by (auto simp: filter_empty_conv)
    then obtain r where r: "latest_by pr_effective_at ?B = Some r"
      by (cases "latest_by pr_effective_at ?B") auto
    have np: "\<not> (\<exists>q \<in> set prs. pr_model_key q = mk \<and> pr_effective_at q \<le> t \<and> pr_provider q = pv)"
      using None by (auto simp: filter_empty_conv)
    have "right_price ovs prs org mk pv t (catalog_price r)"
      unfolding right_price_def if_not_P [OF none] using latest_by_Some [OF r] np
      by (intro bexI [of _ r]) auto
    with None r lk show ?thesis by (intro that) (auto simp: catalog_price_for_def Let_def)
  qed
qed

lemma lookup_price_none:
  assumes "\<not> (\<exists>r \<in> set ovs. override_applies org mk pv t r)"
    and "\<not> (\<exists>r \<in> set prs. pr_model_key r = mk \<and> pr_effective_at r \<le> t)"
  shows "lookup_price ovs prs org mk pv t = None"
  using assms by (auto simp: lookup_price_def override_for_def override_applies_def catalog_price_for_def
      Let_def filter_empty_conv)

text \<open>
  The resolved price is taken from a row in effect and a latest such row; a per-organization
  override comes before the public catalog, and a catalog row of the caller's provider before one of
  another provider. Nothing is returned exactly when no override and no catalog row of any provider is
  in effect.
\<close>

theorem lookup_price_precedence:
  "case lookup_price ovs prs org mk pv t of
      Some p \<Rightarrow> right_price ovs prs org mk pv t p
    | None \<Rightarrow> \<not> (\<exists>r \<in> set ovs. override_applies org mk pv t r) \<and>
              \<not> (\<exists>r \<in> set prs. pr_model_key r = mk \<and> pr_effective_at r \<le> t)"
proof (cases "\<exists>r \<in> set ovs. override_applies org mk pv t r")
  case True
  then show ?thesis by (rule lookup_price_override [of ovs org mk pv t prs]) simp
next
  case none: False
  show ?thesis
  proof (cases "\<exists>r \<in> set prs. pr_model_key r = mk \<and> pr_effective_at r \<le> t")
    case True
    with none show ?thesis by (rule lookup_price_catalog [of ovs org mk pv t prs]) simp
  next
    case False
    then show ?thesis unfolding lookup_price_none [OF none False] using none by simp
  qed
qed

end
