(* ===== verification/Ledger.thy ===== *)
theory Ledger
  imports Calendar Json Pricing
begin

text \<open>
  The rows of the usage ledger (\<open>models/usage_event.py\<close>) that the modelled queries read, and the two
  aggregate idioms of those queries: a filtered count and \<open>coalesce(sum(...), 0)\<close>, in which SQL
  ignores NULL. A table is the list of its rows.
\<close>

record usage_event =
  ue_organization_id :: uuid
  ue_project_id :: uuid
  ue_source :: string
  ue_provider :: string
  ue_model :: string
  ue_operation :: string
  ue_request_type :: string
  ue_input_tokens :: int
  ue_output_tokens :: int
  ue_cached_input_tokens :: int
  ue_total_tokens :: int
  ue_cost_usd :: "decimal option"
  ue_cost_source :: cost_source
  ue_pricing_status :: pricing_status
  ue_price_version_id :: "uuid option"
  ue_latency_ms :: "int option"
  ue_occurred_at :: datetime
  ue_received_at :: datetime
  ue_feature :: "string option"
  ue_workflow :: "string option"
  ue_customer_id :: "string option"
  ue_external_user_id :: "string option"
  ue_user_id :: "string option"
  ue_team :: "string option"
  ue_department :: "string option"
  ue_environment :: "string option"
  ue_metadata :: "(string \<times> json) list"
  ue_naive_cost_usd :: "decimal option"
  ue_saved_usd :: "decimal option"
  ue_idempotency_key :: "string option"
  ue_success :: bool

text \<open>
  \<open>event_metadata[k].astext\<close>. Numbers and containers equal none of the tag texts that the modelled
  queries compare with, and no modelled query reads them otherwise. The two amounts that the metadata
  carries as decimal text, \<open>naive_cost_usd\<close> and \<open>saved_usd\<close>, are fields of the record: the decimal that
  the text denotes.
\<close>

definition meta_text :: "usage_event \<Rightarrow> string \<Rightarrow> string option" where
  "meta_text e k =
     (case dict_get (ue_metadata e) k of
        JStr s \<Rightarrow> Some s
      | JBool b \<Rightarrow> Some (if b then ''true'' else ''false'')
      | _ \<Rightarrow> None)"

text \<open>A row with every optional column NULL, from which sample rows are built.\<close>

definition blank_event :: usage_event where
  "blank_event =
     \<lparr>ue_organization_id = ''org'', ue_project_id = ''project'', ue_source = ''proxy'', ue_provider = ''openai'',
      ue_model = ''model'', ue_operation = ''chat_completion'', ue_request_type = ''chat_completion'',
      ue_input_tokens = 0, ue_output_tokens = 0, ue_cached_input_tokens = 0, ue_total_tokens = 0,
      ue_cost_usd = None, ue_cost_source = Unknown_Cost, ue_pricing_status = Missing_Token_Counts,
      ue_price_version_id = None, ue_latency_ms = None, ue_occurred_at = 0, ue_received_at = 0,
      ue_feature = None, ue_workflow = None, ue_customer_id = None, ue_external_user_id = None,
      ue_user_id = None, ue_team = None, ue_department = None, ue_environment = None, ue_metadata = [],
      ue_naive_cost_usd = None, ue_saved_usd = None, ue_idempotency_key = None, ue_success = True\<rparr>"

definition coalesce_sum :: "('a \<Rightarrow> decimal option) \<Rightarrow> ('a \<Rightarrow> bool) \<Rightarrow> 'a list \<Rightarrow> decimal" where
  "coalesce_sum col cond rows =
     sum_list (map (\<lambda>r. case col r of None \<Rightarrow> 0 | Some v \<Rightarrow> v) (filter cond rows))"

definition count_rows :: "('a \<Rightarrow> bool) \<Rightarrow> 'a list \<Rightarrow> nat" where
  "count_rows cond rows = length (filter cond rows)"

lemma coalesce_sum_Nil [simp]: "coalesce_sum col cond [] = 0"
  by (simp add: coalesce_sum_def)

lemma coalesce_sum_Cons:
  "coalesce_sum col cond (r # rows) =
     (if cond r then (case col r of None \<Rightarrow> 0 | Some v \<Rightarrow> v) else 0) + coalesce_sum col cond rows"
  by (simp add: coalesce_sum_def)

lemma coalesce_sum_append [simp]:
  "coalesce_sum col cond (xs @ ys) = coalesce_sum col cond xs + coalesce_sum col cond ys"
  by (simp add: coalesce_sum_def)

lemma coalesce_sum_nonneg:
  "(\<And>r v. r \<in> set rows \<Longrightarrow> col r = Some v \<Longrightarrow> 0 \<le> v) \<Longrightarrow> 0 \<le> coalesce_sum col cond rows"
  by (induction rows) (auto simp: coalesce_sum_Cons intro!: add_nonneg_nonneg split: option.splits)

text \<open>Disjoint conditions: the sum over either is the sum of the two.\<close>

lemma coalesce_sum_disj:
  "(\<And>r. r \<in> set rows \<Longrightarrow> \<not> (p r \<and> q r)) \<Longrightarrow>
     coalesce_sum col (\<lambda>r. p r \<or> q r) rows = coalesce_sum col p rows + coalesce_sum col q rows"
  by (induction rows) (auto simp: coalesce_sum_Cons)

lemma coalesce_sum_cong:
  "(\<And>r. r \<in> set rows \<Longrightarrow> p r = q r) \<Longrightarrow> coalesce_sum col p rows = coalesce_sum col q rows"
  by (simp add: coalesce_sum_def cong: filter_cong)

lemma coalesce_sum_mono:
  "(\<And>r v. r \<in> set rows \<Longrightarrow> col r = Some v \<Longrightarrow> 0 \<le> v) \<Longrightarrow> (\<And>r. r \<in> set rows \<Longrightarrow> p r \<Longrightarrow> q r) \<Longrightarrow>
     coalesce_sum col p rows \<le> coalesce_sum col q rows"
proof (induction rows)
  case (Cons r rows)
  have "coalesce_sum col p rows \<le> coalesce_sum col q rows"
    by (rule Cons.IH) (use Cons.prems in auto)
  moreover have "(if p r then (case col r of None \<Rightarrow> 0 | Some v \<Rightarrow> v) else 0)
      \<le> (if q r then (case col r of None \<Rightarrow> 0 | Some v \<Rightarrow> v) else 0)"
    using Cons.prems(1) [of r] Cons.prems(2) [of r] by (auto split: option.splits)
  ultimately show ?case by (simp add: coalesce_sum_Cons)
qed simp

end
