(* ===== verification/LedgerWrite.thy ===== *)
theory LedgerWrite
  imports Ledger RequestContext
begin

text \<open>
  \<open>proxy/ledger.py\<close>, and the ledger write of \<open>api/v1/usage_events.py\<close>: the functions that add rows to
  the usage ledger. Each takes the price tables, the price cache and the ledger and returns the new
  cache and the ledger with its row added in front. \<open>received_at\<close> is the database's clock at the
  insert.
\<close>

record price_tables =
  pt_overrides :: "override_row list"
  pt_prices :: "price_row list"

record proxy_call =
  pc_model :: string
  pc_provider :: string
  pc_input_tokens :: int
  pc_output_tokens :: int
  pc_cached_input_tokens :: int
  pc_cache_hit :: bool
  pc_naive_model :: "string option"
  pc_naive_provider :: "string option"
  pc_arm :: "string option"
  pc_experiment_from :: "string option"
  pc_experiment_to :: "string option"
  pc_quality_ok :: "bool option"
  pc_latency_ms :: "int option"
  pc_context :: "request_context option"

definition truthy_str :: "string option \<Rightarrow> bool" where
  "truthy_str v = (case v of None \<Rightarrow> False | Some s \<Rightarrow> s \<noteq> [])"

definition json_str :: "string option \<Rightarrow> json" where
  "json_str v = (case v of None \<Rightarrow> JNull | Some s \<Rightarrow> JStr s)"

definition opt_diff :: "decimal option \<Rightarrow> decimal option \<Rightarrow> decimal option" where
  "opt_diff a b = (case (a, b) of (Some x, Some y) \<Rightarrow> Some (x - y) | _ \<Rightarrow> None)"

text \<open>
  \<open>_cost_and_base_metadata\<close>: the cost, the metadata, its two amounts (naive cost, saved) and the cache.
\<close>

definition cost_and_base_metadata ::
  "price_tables \<Rightarrow> datetime \<Rightarrow> uuid \<Rightarrow> datetime \<Rightarrow> proxy_call \<Rightarrow> decimal option \<Rightarrow> price_cache
    \<Rightarrow> decimal \<times> (string \<times> json) list \<times> decimal option \<times> decimal option \<times> price_cache" where
  "cost_and_base_metadata pt now org t c used_cost cache =
     (if pc_cache_hit c
      then (0, [(''proxy'', JBool True), (''cache'', JStr ''hit'')], used_cost, used_cost, cache)
      else if truthy_str (pc_naive_model c) \<and>
          (pc_naive_model c \<noteq> Some (pc_model c) \<or>
           (pc_naive_provider c \<noteq> None \<and> pc_naive_provider c \<noteq> Some (pc_provider c)))
      then (let naive_provider = (case or_str (pc_naive_provider c) None of None \<Rightarrow> pc_provider c | Some p \<Rightarrow> p)
            in (case price_usage_event (pt_overrides pt) (pt_prices pt) now org (the (pc_naive_model c)) naive_provider
                       (pc_input_tokens c) (pc_output_tokens c) (pc_cached_input_tokens c) None t cache of
                  ((naive_cost, _, _, _), cache') \<Rightarrow>
                    (case used_cost of None \<Rightarrow> 0 | Some u \<Rightarrow> u,
                     [(''proxy'', JBool True), (''cache'', JStr ''miss''), (''routed'', JBool True),
                      (''routed_from'', json_str (pc_naive_model c)), (''routed_to'', JStr (pc_model c)),
                      (''routed_from_provider'', JStr naive_provider), (''routed_to_provider'', JStr (pc_provider c))],
                     naive_cost, opt_diff naive_cost used_cost, cache')))
      else (case used_cost of None \<Rightarrow> 0 | Some u \<Rightarrow> u,
            [(''proxy'', JBool True), (''cache'', JStr ''miss'')], None, None, cache))"

fun dict_update :: "(string \<times> json) list \<Rightarrow> (string \<times> json) list \<Rightarrow> (string \<times> json) list" where
  "dict_update d [] = d"
| "dict_update d ((k, v) # kvs) = dict_update (dict_put d k v) kvs"

definition context_handles :: "request_context option \<Rightarrow> (string option \<times> string option \<times> string option) option" where
  "context_handles ctx = map_option (\<lambda>c. (rc_feature c, rc_workflow c, rc_task_type c)) ctx"

definition holdback_tags :: "proxy_call \<Rightarrow> (string \<times> json) list" where
  "holdback_tags c =
     [(''holdback'', JBool True), (''arm'', json_str (pc_arm c)),
      (''experiment_from'', json_str (pc_experiment_from c)),
      (''experiment_to'', json_str (pc_experiment_to c)),
      (''route_key'', JStr (route_key_from_context (context_handles (pc_context c)) (Some ''chat_completion'')))] @
     (case pc_quality_ok c of None \<Rightarrow> [] | Some q \<Rightarrow> [(''quality_ok'', JBool q)])"

definition augment_metadata :: "(string \<times> json) list \<Rightarrow> proxy_call \<Rightarrow> (string \<times> json) list" where
  "augment_metadata metadata c =
     (let m1 = (if pc_cached_input_tokens c \<noteq> 0
                then dict_put metadata ''provider_cached_input_tokens'' (JInt (pc_cached_input_tokens c)) else metadata);
          m2 = (if truthy_str (pc_arm c) then dict_update m1 (holdback_tags c) else m1)
      in (case pc_context c of
            None \<Rightarrow> m2
          | Some ctx \<Rightarrow> if context_is_empty ctx then m2 else dict_update m2 (task_metadata ctx)))"

definition context_fields :: "request_context option \<Rightarrow> usage_event \<Rightarrow> usage_event" where
  "context_fields ctx e =
     (case ctx of
        None \<Rightarrow> e\<lparr>ue_environment := Some ''production''\<rparr>
      | Some c \<Rightarrow>
          e\<lparr>ue_feature := rc_feature c, ue_workflow := rc_workflow c, ue_customer_id := rc_customer_id c,
            ue_external_user_id := rc_external_user_id c, ue_user_id := rc_user_id c, ue_team := rc_team c,
            ue_department := rc_department c,
            ue_environment := or_str (rc_environment c) (Some ''production'')\<rparr>)"

definition record_proxy_usage ::
  "price_tables \<Rightarrow> datetime \<Rightarrow> datetime \<Rightarrow> uuid \<Rightarrow> uuid \<Rightarrow> proxy_call \<Rightarrow> price_cache \<times> usage_event list
    \<Rightarrow> usage_event \<times> price_cache \<times> usage_event list" where
  "record_proxy_usage pt now received_at org project c = (\<lambda>(cache, ledger).
     (case price_usage_event (pt_overrides pt) (pt_prices pt) now org (pc_model c) (pc_provider c)
             (pc_input_tokens c) (pc_output_tokens c) (pc_cached_input_tokens c) None now cache of
        ((used_cost, src, status, version), cache1) \<Rightarrow>
          (case cost_and_base_metadata pt now org now c used_cost cache1 of
             (cost_usd, metadata, naive, saved, cache2) \<Rightarrow>
               (let event = context_fields (pc_context c)
                      \<lparr>ue_organization_id = org, ue_project_id = project, ue_source = ''proxy'',
                       ue_provider = pc_provider c, ue_model = pc_model c, ue_operation = ''chat_completion'',
                       ue_request_type = ''chat_completion'', ue_input_tokens = pc_input_tokens c,
                       ue_output_tokens = pc_output_tokens c, ue_cached_input_tokens = pc_cached_input_tokens c,
                       ue_total_tokens = pc_input_tokens c + pc_output_tokens c, ue_cost_usd = Some cost_usd,
                       ue_cost_source = src, ue_pricing_status = status, ue_price_version_id = version,
                       ue_latency_ms = pc_latency_ms c, ue_occurred_at = now, ue_received_at = received_at,
                       ue_feature = None, ue_workflow = None, ue_customer_id = None, ue_external_user_id = None,
                       ue_user_id = None, ue_team = None, ue_department = None, ue_environment = None,
                       ue_metadata = augment_metadata metadata c,
                       ue_naive_cost_usd = naive, ue_saved_usd = saved, ue_idempotency_key = None, ue_success = True\<rparr>
                in (event, cache2, event # ledger)))))"

text \<open>
  \<open>record_overhead_usage\<close> is best effort: \<open>write_ok\<close> says whether pricing and the commit succeeded.
\<close>

definition record_overhead_usage ::
  "price_tables \<Rightarrow> bool \<Rightarrow> datetime \<Rightarrow> datetime \<Rightarrow> uuid \<Rightarrow> uuid \<Rightarrow> string \<Rightarrow> string \<Rightarrow> string \<Rightarrow> int \<Rightarrow> int \<Rightarrow> string
    \<Rightarrow> price_cache \<times> usage_event list \<Rightarrow> usage_event option \<times> price_cache \<times> usage_event list" where
  "record_overhead_usage pt write_ok now received_at org project provider model operation input_tokens output_tokens
     overhead = (\<lambda>(cache, ledger).
     (if \<not> write_ok then (None, cache, ledger)
      else (case price_usage_event (pt_overrides pt) (pt_prices pt) now org model provider
                   input_tokens output_tokens 0 None now cache of
        ((cost, src, status, version), cache') \<Rightarrow>
          (let event =
                 \<lparr>ue_organization_id = org, ue_project_id = project, ue_source = ''overhead'', ue_provider = provider,
                  ue_model = model, ue_operation = operation, ue_request_type = operation,
                  ue_input_tokens = input_tokens, ue_output_tokens = output_tokens, ue_cached_input_tokens = 0,
                  ue_total_tokens = input_tokens + output_tokens, ue_cost_usd = cost, ue_cost_source = src,
                  ue_pricing_status = status, ue_price_version_id = version, ue_latency_ms = None,
                  ue_occurred_at = now, ue_received_at = received_at, ue_feature = None, ue_workflow = None,
                  ue_customer_id = None, ue_external_user_id = None, ue_user_id = None, ue_team = None,
                  ue_department = None, ue_environment = Some ''production'',
                  ue_metadata = [(''overhead'', JStr overhead)], ue_naive_cost_usd = None, ue_saved_usd = None,
                  ue_idempotency_key = None, ue_success = True\<rparr>
           in (Some event, cache', event # ledger)))))"

definition record_batch_usage ::
  "datetime \<Rightarrow> datetime \<Rightarrow> uuid \<Rightarrow> uuid \<Rightarrow> string \<Rightarrow> int \<Rightarrow> int \<Rightarrow> decimal option \<Rightarrow> decimal option \<Rightarrow> int
    \<Rightarrow> usage_event list \<Rightarrow> usage_event list" where
  "record_batch_usage now received_at org project model input_tokens output_tokens actual_cost_usd naive_cost_usd
     request_count ledger =
     \<lparr>ue_organization_id = org, ue_project_id = project, ue_source = ''proxy'', ue_provider = ''openai'',
      ue_model = model, ue_operation = ''batch'', ue_request_type = ''batch'', ue_input_tokens = input_tokens,
      ue_output_tokens = output_tokens, ue_cached_input_tokens = 0, ue_total_tokens = input_tokens + output_tokens,
      ue_cost_usd = actual_cost_usd,
      ue_cost_source = (if actual_cost_usd \<noteq> None then From_Price Catalog else Unknown_Cost),
      ue_pricing_status = (if actual_cost_usd \<noteq> None then Priced else Model_Not_In_Catalog),
      ue_price_version_id = None, ue_latency_ms = None, ue_occurred_at = now, ue_received_at = received_at,
      ue_feature = None, ue_workflow = None, ue_customer_id = None, ue_external_user_id = None, ue_user_id = None,
      ue_team = None, ue_department = None, ue_environment = Some ''production'',
      ue_metadata = [(''proxy'', JBool True), (''batch'', JBool True), (''lever'', JStr ''batching''),
                     (''request_count'', JInt request_count)],
      ue_naive_cost_usd = naive_cost_usd, ue_saved_usd = opt_diff naive_cost_usd actual_cost_usd,
      ue_idempotency_key = None, ue_success = True\<rparr> # ledger"

text \<open>
  \<open>create_usage_event\<close> of the ingest API. The payload is the validated request body; the amounts that its
  metadata carries as text are fields. A row that repeats a project's idempotency key violates the
  unique constraint: the stored row is returned with status 200 instead.
\<close>

record ingest_payload =
  ip_provider :: string
  ip_model :: string
  ip_request_type :: string
  ip_feature :: "string option"
  ip_customer_id :: "string option"
  ip_user_id :: "string option"
  ip_team :: "string option"
  ip_department :: "string option"
  ip_environment :: "string option"
  ip_input_tokens :: int
  ip_output_tokens :: int
  ip_cached_input_tokens :: int
  ip_cost_usd :: "decimal option"
  ip_currency :: string
  ip_occurred_at :: "datetime option"
  ip_idempotency_key :: "string option"
  ip_success :: bool
  ip_latency_ms :: "int option"
  ip_metadata :: "(string \<times> json) list"
  ip_naive_cost_usd :: "decimal option"
  ip_saved_usd :: "decimal option"

definition ingest_row ::
  "price_tables \<Rightarrow> datetime \<Rightarrow> datetime \<Rightarrow> uuid \<Rightarrow> uuid \<Rightarrow> ingest_payload \<Rightarrow> price_cache \<Rightarrow> usage_event \<times> price_cache" where
  "ingest_row pt now received_at org project p cache =
     (let t = (case ip_occurred_at p of None \<Rightarrow> now | Some t' \<Rightarrow> t')
      in case price_usage_event (pt_overrides pt) (pt_prices pt) now org (ip_model p) (ip_provider p)
                (ip_input_tokens p) (ip_output_tokens p) (ip_cached_input_tokens p) (ip_cost_usd p) t cache of
           ((cost, src, status, version), cache') \<Rightarrow>
             (\<lparr>ue_organization_id = org, ue_project_id = project, ue_source = ''ingest'',
               ue_provider = ip_provider p, ue_model = ip_model p, ue_operation = ip_request_type p,
               ue_request_type = ip_request_type p, ue_input_tokens = ip_input_tokens p,
               ue_output_tokens = ip_output_tokens p, ue_cached_input_tokens = ip_cached_input_tokens p,
               ue_total_tokens = ip_input_tokens p + ip_output_tokens p, ue_cost_usd = cost, ue_cost_source = src,
               ue_pricing_status = status, ue_price_version_id = version, ue_latency_ms = ip_latency_ms p,
               ue_occurred_at = t, ue_received_at = received_at, ue_feature = ip_feature p,
               ue_workflow = ip_feature p, ue_customer_id = ip_customer_id p, ue_external_user_id = ip_user_id p,
               ue_user_id = ip_user_id p, ue_team = ip_team p, ue_department = ip_department p,
               ue_environment = or_str (ip_environment p) (Some ''unknown''), ue_metadata = ip_metadata p,
               ue_naive_cost_usd = ip_naive_cost_usd p, ue_saved_usd = ip_saved_usd p,
               ue_idempotency_key = ip_idempotency_key p, ue_success = ip_success p\<rparr>, cache'))"

definition create_usage_event ::
  "price_tables \<Rightarrow> datetime \<Rightarrow> datetime \<Rightarrow> uuid \<Rightarrow> uuid \<Rightarrow> ingest_payload \<Rightarrow> price_cache \<times> usage_event list
    \<Rightarrow> (http_error + int \<times> usage_event) \<times> price_cache \<times> usage_event list" where
  "create_usage_event pt now received_at org project p = (\<lambda>(cache, ledger).
     (if map py_lower_char (ip_currency p) \<noteq> ''usd''
      then (Inl (Http_Error 422 ''only USD is supported in v1''), cache, ledger)
      else (case ingest_row pt now received_at org project p cache of (event, cache') \<Rightarrow>
        (case find (\<lambda>e. ue_project_id e = project \<and> ip_idempotency_key p \<noteq> None \<and>
                        ue_idempotency_key e = ip_idempotency_key p) ledger of
           Some existing \<Rightarrow> (Inr (200, existing), cache', ledger)
         | None \<Rightarrow> (Inr (201, event), cache', event # ledger)))))"

section \<open>Savings tags\<close>

definition is_cache_hit :: "usage_event \<Rightarrow> bool" where
  "is_cache_hit e \<longleftrightarrow> meta_text e ''cache'' = Some ''hit''"

definition is_batch :: "usage_event \<Rightarrow> bool" where
  "is_batch e \<longleftrightarrow> meta_text e ''batch'' = Some ''true''"

definition is_routed :: "usage_event \<Rightarrow> bool" where
  "is_routed e \<longleftrightarrow> meta_text e ''routed'' = Some ''true''"

definition is_holdback :: "usage_event \<Rightarrow> bool" where
  "is_holdback e \<longleftrightarrow> meta_text e ''holdback'' = Some ''true''"

text \<open>
  What every row of the proxy's own writers satisfies: at most one of the savings tags, and an amount
  saved only under a tag.
\<close>

definition exclusive_savings :: "usage_event \<Rightarrow> bool" where
  "exclusive_savings e \<longleftrightarrow>
     \<not> (is_cache_hit e \<and> is_batch e) \<and> \<not> (is_cache_hit e \<and> is_routed e) \<and> \<not> (is_batch e \<and> is_routed e) \<and>
     (ue_saved_usd e = None \<or> is_cache_hit e \<or> is_batch e \<or> is_routed e)"

lemmas tag_defs = is_cache_hit_def is_batch_def is_routed_def is_holdback_def meta_text_def

definition accounting_keys :: "string list" where
  "accounting_keys = [''cache'', ''routed'', ''batch'', ''holdback'', ''arm'', ''experiment_from'',
     ''experiment_to'', ''overhead'']"

lemma dict_get_update:
  "k \<notin> fst ` set kvs \<Longrightarrow> dict_get (dict_update d kvs) k = dict_get d k"
  by (induction d kvs rule: dict_update.induct) (auto simp: dict_get_put)

lemma task_metadata_keys:
  "fst ` set (task_metadata c) \<subseteq>
     {''task_type'', ''task_confidence'', ''risk_level'', ''quality_threshold'', ''sdk_client'', ''context''}"
  by (auto simp: task_metadata_def opt_entry_def split: option.splits if_splits)

text \<open>The client's context reaches none of the accounting keys.\<close>

definition accounting_value :: "(string \<times> json) list \<Rightarrow> proxy_call \<Rightarrow> string \<Rightarrow> json" where
  "accounting_value md c k =
     (if truthy_str (pc_arm c) then
        (if k = ''holdback'' then JBool True else if k = ''arm'' then json_str (pc_arm c)
         else if k = ''experiment_from'' then json_str (pc_experiment_from c)
         else if k = ''experiment_to'' then json_str (pc_experiment_to c) else dict_get md k)
      else dict_get md k)"

lemma holdback_tags_value:
  assumes "k \<in> set accounting_keys" "truthy_str (pc_arm c)"
  shows "dict_get (dict_update md (holdback_tags c)) k = accounting_value md c k"
  using assms by (auto simp: holdback_tags_def dict_get_put accounting_value_def accounting_keys_def split: option.split)

lemma augment_metadata_value:
  assumes k: "k \<in> set accounting_keys"
  shows "dict_get (augment_metadata md c) k = accounting_value md c k"
proof -
  have upd: "dict_get (dict_update d (task_metadata ctx)) k = dict_get d k" for d ctx
    using k task_metadata_keys [of ctx] by (intro dict_get_update) (auto simp: accounting_keys_def)
  have put: "dict_get (dict_put d ''provider_cached_input_tokens'' v) k = dict_get d k" for d v
    using k by (auto simp: dict_get_put accounting_keys_def)
  have put_value: "accounting_value (dict_put d ''provider_cached_input_tokens'' v) c k = accounting_value d c k" for d v
    by (simp only: accounting_value_def put)
  show ?thesis
  proof (cases "truthy_str (pc_arm c)")
    case True
    then show ?thesis
      by (simp add: augment_metadata_def Let_def upd holdback_tags_value [OF k True] put_value split: option.split)
  next
    case False
    then show ?thesis
      by (simp add: augment_metadata_def Let_def upd put accounting_value_def split: option.split)
  qed
qed

lemma context_fields_sel [simp]:
  "ue_metadata (context_fields ctx e) = ue_metadata e" "ue_saved_usd (context_fields ctx e) = ue_saved_usd e"
  "ue_cost_usd (context_fields ctx e) = ue_cost_usd e" "ue_received_at (context_fields ctx e) = ue_received_at e"
  "ue_project_id (context_fields ctx e) = ue_project_id e"
  by (simp_all add: context_fields_def split: option.split)

text \<open>The row that a proxied call adds, and its savings tags.\<close>

lemma base_metadata_exclusive:
  assumes "cost_and_base_metadata pt now org t c used cache = (cost, md, naive, saved, cache')"
    and "ue_metadata e = augment_metadata md c" "ue_saved_usd e = saved"
  shows "exclusive_savings e"
proof -
  have get: "dict_get (ue_metadata e) k = dict_get md k" if "k \<in> {''cache'', ''batch'', ''routed''}" for k
    using that assms(2) augment_metadata_value [of k md c] by (auto simp: accounting_value_def accounting_keys_def)
  show ?thesis
    using assms(1,3) unfolding exclusive_savings_def tag_defs
    by (auto simp: get cost_and_base_metadata_def Let_def split: if_splits prod.splits)
qed

lemma record_proxy_usage_cases:
  obtains e cost md naive saved cache1 cache2 used where
    "record_proxy_usage pt now r org project c (cache, ledger) = (e, cache2, e # ledger)"
    "cost_and_base_metadata pt now org now c used cache1 = (cost, md, naive, saved, cache2)"
    "ue_metadata e = augment_metadata md c" "ue_saved_usd e = saved" "ue_cost_usd e = Some cost"
    "ue_received_at e = r" "ue_project_id e = project"
    "(used, cache1) = (case price_usage_event (pt_overrides pt) (pt_prices pt) now org (pc_model c) (pc_provider c)
        (pc_input_tokens c) (pc_output_tokens c) (pc_cached_input_tokens c) None now cache of ((u, _), c1) \<Rightarrow> (u, c1))"
proof -
  obtain used src status version cache1 where p: "price_usage_event (pt_overrides pt) (pt_prices pt) now org
      (pc_model c) (pc_provider c) (pc_input_tokens c) (pc_output_tokens c) (pc_cached_input_tokens c) None now cache
      = ((used, src, status, version), cache1)"
    by (metis surj_pair)
  obtain cost md naive saved cache2 where b: "cost_and_base_metadata pt now org now c used cache1 = (cost, md, naive, saved, cache2)"
    by (metis surj_pair)
  show ?thesis
    by (rule that [OF _ b, of "fst (record_proxy_usage pt now r org project c (cache, ledger))"])
      (simp_all add: record_proxy_usage_def p b Let_def)
qed

lemma record_proxy_usage_exclusive:
  "exclusive_savings (fst (record_proxy_usage pt now r org project c s)) \<and>
   snd (snd (record_proxy_usage pt now r org project c s)) = fst (record_proxy_usage pt now r org project c s) # snd s"
proof -
  obtain cache ledger where s: "s = (cache, ledger)" by (cases s)
  show ?thesis
    unfolding s by (rule record_proxy_usage_cases [of pt now r org project c cache ledger])
      (auto intro: base_metadata_exclusive)
qed

lemma record_overhead_usage_exclusive:
  "list_all exclusive_savings ledger \<Longrightarrow>
     list_all exclusive_savings (snd (snd (record_overhead_usage pt ok now r org project prov model op it ot tag (cache, ledger))))"
  by (simp add: record_overhead_usage_def Let_def exclusive_savings_def tag_defs split: prod.split)

lemma record_batch_usage_exclusive:
  "list_all exclusive_savings ledger \<Longrightarrow>
     list_all exclusive_savings (record_batch_usage now r org project model it ot actual naive n ledger)"
  by (simp add: record_batch_usage_def exclusive_savings_def tag_defs)

section \<open>Properties\<close>

lemma cost_and_base_metadata_context:
  "cost_and_base_metadata pt now org t (c\<lparr>pc_context := ctx\<rparr>) used cache = cost_and_base_metadata pt now org t c used cache"
  by (cases c) (simp only: cost_and_base_metadata_def proxy_call.simps cong: option.case_cong)


text \<open>
  Ingestion is idempotent: when an event carries an idempotency key, sending it again (at any later
  time, with any payload that has the same key) returns the row stored first with status 200 and adds
  nothing to the ledger, so a client's retry never counts spend twice.
\<close>

theorem ingest_idempotent:
  assumes "create_usage_event pt now r org project p s = (Inr (status, e), cache', ledger')"
    and "ip_idempotency_key p = Some key"
    and "ip_idempotency_key p' = Some key" "map py_lower_char (ip_currency p') = ''usd''"
  shows "fst (create_usage_event pt' now' r' org project p' (cache', ledger')) = Inr (200, e) \<and>
    snd (snd (create_usage_event pt' now' r' org project p' (cache', ledger'))) = ledger'"
proof -
  obtain cache ledger where s: "s = (cache, ledger)" by (cases s)
  obtain e0 c1 where row: "ingest_row pt now r org project p cache = (e0, c1)" by (metis surj_pair)
  have e0: "ue_project_id e0 = project" "ue_idempotency_key e0 = Some key"
    using row assms(2) by (auto simp: ingest_row_def Let_def split: prod.splits)
  let ?P = "\<lambda>e. ue_project_id e = project \<and> ue_idempotency_key e = Some key"
  have "find ?P ledger' = Some e"
  proof (cases "find ?P ledger")
    case None
    then show ?thesis using assms(1,2) row e0 by (auto simp: create_usage_event_def s split: if_splits)
  next
    case (Some x)
    then show ?thesis using assms(1,2) row by (auto simp: create_usage_event_def s split: if_splits)
  qed
  then show ?thesis
    using assms(3,4) by (simp add: create_usage_event_def split: prod.split)
qed

definition sample_payload :: ingest_payload where
  "sample_payload = \<lparr>ip_provider = ''openai'', ip_model = ''m'', ip_request_type = ''chat'', ip_feature = None,
     ip_customer_id = None, ip_user_id = None, ip_team = None, ip_department = None, ip_environment = None,
     ip_input_tokens = 3, ip_output_tokens = 4, ip_cached_input_tokens = 0, ip_cost_usd = Some 1, ip_currency = ''USD'',
     ip_occurred_at = Some 5, ip_idempotency_key = Some ''k'', ip_success = True, ip_latency_ms = None, ip_metadata = [],
     ip_naive_cost_usd = None, ip_saved_usd = None\<rparr>"

definition no_prices :: price_tables where
  "no_prices = \<lparr>pt_overrides = [], pt_prices = []\<rparr>"

lemma sample_ingest:
  "create_usage_event no_prices 10 11 ''o'' ''p'' sample_payload (Map.empty, []) =
     (Inr (201, fst (ingest_row no_prices 10 11 ''o'' ''p'' sample_payload Map.empty)),
      snd (ingest_row no_prices 10 11 ''o'' ''p'' sample_payload Map.empty),
      [fst (ingest_row no_prices 10 11 ''o'' ''p'' sample_payload Map.empty)])"
proof -
  have "map py_lower_char ''USD'' = ''usd''" by code_simp
  then show ?thesis by (simp add: create_usage_event_def sample_payload_def split: prod.split)
qed

theorem ingest_idempotent_witness:
  "let (_, s1) = create_usage_event no_prices 10 11 ''o'' ''p'' sample_payload (Map.empty, [])
   in length (snd s1) = 1 \<and>
      snd (snd (create_usage_event no_prices 20 21 ''o'' ''p'' (sample_payload\<lparr>ip_input_tokens := 9\<rparr>) s1)) = snd s1"
proof -
  have lower: "map py_lower_char ''USD'' = ''usd''" by code_simp
  have "snd (snd (create_usage_event no_prices 20 21 ''o'' ''p'' (sample_payload\<lparr>ip_input_tokens := 9\<rparr>)
     (snd (ingest_row no_prices 10 11 ''o'' ''p'' sample_payload Map.empty),
      [fst (ingest_row no_prices 10 11 ''o'' ''p'' sample_payload Map.empty)]))) =
      [fst (ingest_row no_prices 10 11 ''o'' ''p'' sample_payload Map.empty)]"
    by (rule conjunct2 [OF ingest_idempotent [OF sample_ingest, where key = "''k''"]])
      (simp_all add: sample_payload_def lower del: list.map)
  then show ?thesis unfolding sample_ingest by simp
qed

end
