(* ===== verification/Evidence.thy ===== *)
theory Evidence
  imports Planner LedgerWrite
begin

text \<open>
  \<open>proxy/evidence.py\<close>, the decision draft of a request and the evidence row it becomes, \<open>proxy/quality.py\<close>,
  the objective health of a response, and \<open>proxy/prompt_prefix.py\<close>, the fingerprints. Amounts that the code
  prints to text in the savings proof are kept as decimals. \<open>digest\<close> is the hash of a JSON text.
\<close>

section \<open>proxy/quality.py\<close>

text \<open>\<open>None\<close> is an exception the function does not handle (a value of an unexpected type).\<close>

definition quality_wants_json :: "(string \<times> json) list \<Rightarrow> bool" where
  "quality_wants_json body =
     (case dict_get body ''response_format'' of
        JObj fmt \<Rightarrow> dict_get fmt ''type'' \<in> {JStr ''json_object'', JStr ''json_schema''}
      | _ \<Rightarrow> False)"

definition first_choice :: "(string \<times> json) list \<Rightarrow> json option" where
  "first_choice payload =
     (case map_of payload ''choices'' of
        Some (JList (c # cs)) \<Rightarrow> Some c
      | Some (JStr (ch # s)) \<Rightarrow> Some (JStr [ch])
      | _ \<Rightarrow> None)"

fun text_block :: "json \<Rightarrow> json option" where
  "text_block (JObj b) =
     (if dict_get b ''type'' = JStr ''text'' then Some (dict_get_default b ''text'' (JStr '''')) else None)"
| "text_block _ = None"

fun join_spaces :: "string list \<Rightarrow> string" where
  "join_spaces [] = []"
| "join_spaces [x] = x"
| "join_spaces (x # xs) = x @ '' '' @ join_spaces xs"

definition join_texts :: "json list \<Rightarrow> string option" where
  "join_texts blocks =
     (let ts = List.map_filter text_block blocks
      in if list_all (\<lambda>t. as_str t \<noteq> None) ts then Some (join_spaces (map (\<lambda>t. the (as_str t)) ts)) else None)"

definition content_ok :: "(string \<Rightarrow> json option) \<Rightarrow> bool \<Rightarrow> string \<Rightarrow> bool" where
  "content_ok loads json_expected content \<longleftrightarrow>
     content \<noteq> [] \<and> py_strip content \<noteq> [] \<and> (json_expected \<longrightarrow> loads content \<noteq> None)"

definition response_quality_ok :: "(string \<Rightarrow> json option) \<Rightarrow> (string \<times> json) list \<Rightarrow> bool \<Rightarrow> bool option" where
  "response_quality_ok loads payload json_expected =
     (if payload = [] then Some False
      else (case first_choice payload of
        None \<Rightarrow> Some False
      | Some (JObj choice) \<Rightarrow>
          (case dict_get choice ''finish_reason'' of
             JList _ \<Rightarrow> None
           | JObj _ \<Rightarrow> None
           | fr \<Rightarrow>
               if fr \<in> {JStr ''length'', JStr ''content_filter''} then Some False
               else (case (if truthy (dict_get choice ''message'') then dict_get choice ''message'' else JObj []) of
                 JObj message \<Rightarrow>
                   if truthy (dict_get message ''tool_calls'') then Some True
                   else (case dict_get message ''content'' of
                     JList blocks \<Rightarrow> map_option (content_ok loads json_expected) (join_texts blocks)
                   | JStr s \<Rightarrow> Some (content_ok loads json_expected s)
                   | v \<Rightarrow> if truthy v then None else Some False)
               | _ \<Rightarrow> None))
      | _ \<Rightarrow> None))"

section \<open>proxy/prompt_prefix.py\<close>

fun prefix_contents :: "json list \<Rightarrow> json list" where
  "prefix_contents (JObj m # ms) =
     (if dict_get m ''role'' \<in> {JStr ''system'', JStr ''developer''} then dict_get m ''content'' # prefix_contents ms else [])"
| "prefix_contents _ = []"

definition prefix_parts :: "(string \<times> json) list \<Rightarrow> json list" where
  "prefix_parts body =
     (case dict_get body ''messages'' of JList ms \<Rightarrow> prefix_contents ms | _ \<Rightarrow> []) @
     (if dict_get body ''system'' \<noteq> JNull then [dict_get body ''system''] else []) @
     (let si = (if truthy (dict_get body ''systemInstruction'') then dict_get body ''systemInstruction''
                else dict_get body ''system_instruction'')
      in if si \<noteq> JNull then [si] else []) @
     (if truthy (dict_get body ''tools'') then [dict_get body ''tools''] else [])"

definition stable_prefix_hash :: "(json \<Rightarrow> string) \<Rightarrow> (string \<times> json) list \<Rightarrow> string option" where
  "stable_prefix_hash digest body =
     (if prefix_parts body = [] then None else Some (take 16 (digest (JList (prefix_parts body)))))"

definition full_request_fingerprint :: "(json \<Rightarrow> string) \<Rightarrow> (string \<times> json) list \<Rightarrow> string option" where
  "full_request_fingerprint digest body = (if body = [] then None else Some (take 16 (digest (JObj body))))"

section \<open>The decision draft\<close>

record decision_draft =
  dd_request_id :: string
  dd_client_dialect :: string
  dd_provider_requested :: string
  dd_model_requested :: string
  dd_api_key_id :: uuid
  dd_request_type :: "string option"
  dd_ctx :: request_context
  dd_bypassed :: bool
  dd_bypass_reason :: "string option"
  dd_lever :: "string option"
  dd_policy_id :: "uuid option"
  dd_source_recommendation_id :: "uuid option"
  dd_trim_applied :: bool
  dd_compression_applied :: bool
  dd_route_eligible :: "bool option"
  dd_route_ineligible_reason :: "string option"
  dd_prefix_hash :: "string option"
  dd_request_fingerprint :: "string option"
  dd_optimization_plan :: "optimization_plan option"
  dd_runtime_trace :: "(string \<times> json) list list"

definition new_draft ::
  "string \<Rightarrow> string \<Rightarrow> string \<Rightarrow> string \<Rightarrow> uuid \<Rightarrow> string option \<Rightarrow> request_context \<Rightarrow> bool \<Rightarrow> string option \<Rightarrow> decision_draft" where
  "new_draft request_id dialect provider model api_key request_type ctx bypassed bypass_reason =
     \<lparr>dd_request_id = request_id, dd_client_dialect = dialect, dd_provider_requested = provider,
      dd_model_requested = model, dd_api_key_id = api_key, dd_request_type = request_type, dd_ctx = ctx,
      dd_bypassed = bypassed, dd_bypass_reason = bypass_reason, dd_lever = None, dd_policy_id = None,
      dd_source_recommendation_id = None, dd_trim_applied = False, dd_compression_applied = False,
      dd_route_eligible = None, dd_route_ineligible_reason = None, dd_prefix_hash = None,
      dd_request_fingerprint = None, dd_optimization_plan = None, dd_runtime_trace = []\<rparr>"

definition add_runtime_trace ::
  "string \<Rightarrow> string \<Rightarrow> string \<Rightarrow> string \<Rightarrow> bool \<Rightarrow> uuid option \<Rightarrow> uuid option \<Rightarrow> (string \<times> json) list
    \<Rightarrow> decision_draft \<Rightarrow> decision_draft" where
  "add_runtime_trace stage lever action reason_code enforced policy_id source_id detail d =
     d\<lparr>dd_runtime_trace := dd_runtime_trace d @
         [runtime_trace_event stage lever action reason_code enforced policy_id source_id detail]\<rparr>"

definition draft_route_key :: "decision_draft \<Rightarrow> string" where
  "draft_route_key d = route_key_from_context (context_handles (Some (dd_ctx d))) (dd_request_type d)"

section \<open>What was decided\<close>

definition is_cache_status :: "string option \<Rightarrow> bool" where
  "is_cache_status s \<longleftrightarrow> s \<in> {Some ''hit'', Some ''semantic''}"

definition decision_type :: "string option \<Rightarrow> bool \<Rightarrow> string option \<Rightarrow> bool \<Rightarrow> bool \<Rightarrow> bool \<Rightarrow> string" where
  "decision_type cache_status bypassed arm trim_applied routed compression_applied =
     (if is_cache_status cache_status then ''cache''
      else if bypassed then ''bypass''
      else if str_truthy arm then ''experiment_'' @ str_or_empty arm
      else if trim_applied then ''trim''
      else if compression_applied then ''compression''
      else if routed then ''route''
      else ''passthrough'')"

definition applied_lever :: "string option \<Rightarrow> string option \<Rightarrow> bool \<Rightarrow> bool \<Rightarrow> bool \<Rightarrow> string option" where
  "applied_lever cache_status arm trim_applied routed compression_applied =
     (if cache_status = Some ''hit'' then Some ''exact_cache''
      else if cache_status = Some ''semantic'' then Some ''semantic_cache''
      else if routed then Some ''model_routing''
      else if trim_applied then Some ''token_trim''
      else if compression_applied then Some ''prompt_compression''
      else if arm = Some ''treatment'' then Some ''model_routing''
      else None)"

fun status_value :: "candidate_status \<Rightarrow> string" where
  "status_value Eligible = ''eligible''"
| "status_value Recommendable = ''recommendable''"
| "status_value Rejected = ''rejected''"
| "status_value Shadow_Only = ''shadow_only''"
| "status_value Unavailable = ''unavailable''"

definition parity_verdict :: "optimization_plan \<Rightarrow> string \<Rightarrow> string \<times> string" where
  "parity_verdict plan applied =
     (case candidate_for plan applied of
        None \<Rightarrow> (''mismatch'', ''no_candidate'')
      | Some c \<Rightarrow>
          if co_status c \<in> {Rejected, Unavailable} then (''mismatch'', ''applied_'' @ status_value (co_status c))
          else (''match'', status_value (co_status c)))"

definition add_planner_parity_trace ::
  "string option \<Rightarrow> string option \<Rightarrow> bool \<Rightarrow> bool \<Rightarrow> bool \<Rightarrow> decision_draft \<Rightarrow> decision_draft" where
  "add_planner_parity_trace cache_status arm trim_applied routed compression_applied d =
     (case dd_optimization_plan d of
        None \<Rightarrow> d
      | Some plan \<Rightarrow>
          if dd_bypassed d then d
          else (case applied_lever cache_status arm trim_applied routed compression_applied of
            None \<Rightarrow> add_runtime_trace ''planner_parity'' ''none'' ''match'' ''passthrough'' False None None
                      [(''planner_selected'', JStr (sa_action (pn_selected plan))), (''applied'', JNull)] d
          | Some applied \<Rightarrow>
              (case parity_verdict plan applied of (action, reason) \<Rightarrow>
                 add_runtime_trace ''planner_parity'' applied action reason False None None
                   [(''planner_selected'', JStr (sa_action (pn_selected plan))), (''applied'', JStr applied)] d)))"

definition savings_method :: "string option \<Rightarrow> bool \<Rightarrow> string option \<Rightarrow> bool \<Rightarrow> bool \<Rightarrow> bool \<Rightarrow> string" where
  "savings_method cache_status bypassed arm trim_applied routed compression_applied =
     (if is_cache_status cache_status then ''cache_avoidance''
      else if routed then ''route_counterfactual''
      else if str_truthy arm \<and> trim_applied then ''trim_holdback_observation''
      else if str_truthy arm \<and> compression_applied then ''compression_holdback_observation''
      else if str_truthy arm then ''holdback_observation''
      else if bypassed then ''bypass''
      else ''none'')"

definition savings_confidence :: "decimal option \<Rightarrow> decimal option \<Rightarrow> bool \<Rightarrow> string option \<Rightarrow> bool \<Rightarrow> string" where
  "savings_confidence naive savings priced arm optimization_applied =
     (if naive \<noteq> None \<and> savings \<noteq> None \<and> priced then ''measured_priced''
      else if naive \<noteq> None \<and> savings \<noteq> None then ''measured_pricing_uncertain''
      else if str_truthy arm then ''requires_aggregate_holdback''
      else if optimization_applied then ''unmeasured''
      else ''not_applicable'')"

definition savings_reason_codes ::
  "decimal option \<Rightarrow> decimal option \<Rightarrow> decimal option \<Rightarrow> bool option \<Rightarrow> string option \<Rightarrow> bool \<Rightarrow> string list" where
  "savings_reason_codes naive actual savings quality_ok arm optimization_applied =
     blocker (naive = None) ''baseline_unavailable'' @
     blocker (actual = None) ''actual_cost_unavailable'' @
     blocker (savings = None \<and> optimization_applied) ''savings_unavailable'' @
     blocker (str_truthy arm \<and> savings = None) ''aggregate_holdback_required'' @
     [''optimization_overhead_not_measured''] @
     blocker (quality_ok = None) ''quality_not_measured''"


section \<open>The evidence row\<close>

record savings_proof =
  sp_method :: string
  sp_baseline_cost :: "decimal option"
  sp_actual_cost :: "decimal option"
  sp_gross_savings :: "decimal option"
  sp_overhead_cost :: "decimal option"
  sp_net_savings :: "decimal option"
  sp_confidence :: string
  sp_quality_status :: string
  sp_pricing_status :: pricing_status
  sp_cost_source :: cost_source
  sp_price_version_id :: "uuid option"
  sp_reason_codes :: "string list"

definition quality_status :: "bool option \<Rightarrow> string" where
  "quality_status q = (case q of None \<Rightarrow> ''not_measured'' | Some True \<Rightarrow> ''passed'' | Some False \<Rightarrow> ''failed'')"

definition savings_proof_of ::
  "usage_event \<Rightarrow> string option \<Rightarrow> bool \<Rightarrow> string option \<Rightarrow> bool \<Rightarrow> bool \<Rightarrow> bool \<Rightarrow> decimal option \<Rightarrow> decimal option
    \<Rightarrow> decimal option \<Rightarrow> bool option \<Rightarrow> bool \<Rightarrow> savings_proof" where
  "savings_proof_of e cache_status bypassed arm trim_applied routed optimization_applied naive actual savings quality_ok
     compression_applied =
     \<lparr>sp_method = savings_method cache_status bypassed arm trim_applied routed compression_applied,
      sp_baseline_cost = naive, sp_actual_cost = actual, sp_gross_savings = savings, sp_overhead_cost = None,
      sp_net_savings = None,
      sp_confidence = savings_confidence naive savings (ue_pricing_status e = Priced) arm optimization_applied,
      sp_quality_status = quality_status quality_ok, sp_pricing_status = ue_pricing_status e,
      sp_cost_source = ue_cost_source e, sp_price_version_id = ue_price_version_id e,
      sp_reason_codes = savings_reason_codes naive actual savings quality_ok arm optimization_applied\<rparr>"

text \<open>
  The columns of a decision row; the request context is kept whole, and the metadata is split into its
  parts (the context's own entries are a function of the context).
\<close>

record decision_event =
  de_organization_id :: uuid
  de_project_id :: uuid
  de_usage_event :: usage_event
  de_api_key_id :: uuid
  de_request_id :: string
  de_provider_requested :: string
  de_model_requested :: string
  de_client_dialect :: string
  de_request_type :: "string option"
  de_ctx :: request_context
  de_route_key :: string
  de_prefix_hash :: "string option"
  de_request_fingerprint :: "string option"
  de_decision_type :: string
  de_lever :: "string option"
  de_policy_id :: "uuid option"
  de_source_recommendation_id :: "uuid option"
  de_arm :: "string option"
  de_optimization_applied :: bool
  de_bypassed :: bool
  de_bypass_reason :: "string option"
  de_cache_status :: "string option"
  de_fallback_used :: bool
  de_fallback_reason :: "string option"
  de_route_eligible :: "bool option"
  de_route_ineligible_reason :: "string option"
  de_provider_chosen :: string
  de_model_chosen :: string
  de_provider_counterfactual :: "string option"
  de_model_counterfactual :: "string option"
  de_realized_naive_cost_usd :: "decimal option"
  de_realized_actual_cost_usd :: "decimal option"
  de_realized_savings_usd :: "decimal option"
  de_quality_ok :: "bool option"
  de_latency_ms :: "int option"
  de_plan :: "optimization_plan option"
  de_runtime_trace :: "(string \<times> json) list list"
  de_savings_proof :: savings_proof
  de_created_at :: datetime

text \<open>
  What \<open>_capture\<close> and \<open>_meter_cache_hit\<close> pass about the outcome.
\<close>

record outcome_facts =
  of_provider_chosen :: string
  of_model_chosen :: string
  of_cache_status :: "string option"
  of_arm :: "string option"
  of_routed_from :: "string option"
  of_routed_from_provider :: "string option"
  of_trim_applied :: bool
  of_latency_ms :: "int option"
  of_quality_ok :: "bool option"
  of_fallback_used :: bool
  of_fallback_reason :: "string option"

definition metadata_quality :: "usage_event \<Rightarrow> bool option" where
  "metadata_quality e = (case dict_get (ue_metadata e) ''quality_ok'' of JBool b \<Rightarrow> Some b | _ \<Rightarrow> None)"

text \<open>\<open>write_ok\<close> says whether the commit succeeded; a failed write is dropped.\<close>

definition record_request_decision ::
  "bool \<Rightarrow> datetime \<Rightarrow> decision_draft \<Rightarrow> usage_event \<Rightarrow> outcome_facts \<Rightarrow> decision_event list \<Rightarrow> decision_event list" where
  "record_request_decision write_ok now draft e f rows =
     (if \<not> write_ok then rows
      else (let routed = of_routed_from f \<noteq> None;
                compression_applied = dd_compression_applied draft;
                d = add_planner_parity_trace (of_cache_status f) (of_arm f) (of_trim_applied f) routed compression_applied draft;
                applied = (is_cache_status (of_cache_status f) \<or> of_trim_applied f \<or> routed \<or> compression_applied);
                quality = (if of_quality_ok f \<noteq> None then of_quality_ok f else metadata_quality e);
                cf_model = or_str (of_routed_from f)
                  (if is_cache_status (of_cache_status f) then Some (of_model_chosen f) else None);
                cf_provider = or_str (of_routed_from_provider f) (if str_truthy cf_model then Some (of_provider_chosen f) else None)
            in \<lparr>de_organization_id = ue_organization_id e, de_project_id = ue_project_id e, de_usage_event = e,
                de_api_key_id = dd_api_key_id d, de_request_id = dd_request_id d,
                de_provider_requested = dd_provider_requested d, de_model_requested = dd_model_requested d,
                de_client_dialect = dd_client_dialect d, de_request_type = dd_request_type d, de_ctx = dd_ctx d,
                de_route_key = draft_route_key d, de_prefix_hash = dd_prefix_hash d,
                de_request_fingerprint = dd_request_fingerprint d,
                de_decision_type = decision_type (of_cache_status f) (dd_bypassed d) (of_arm f) (of_trim_applied f) routed
                  compression_applied,
                de_lever = dd_lever d, de_policy_id = dd_policy_id d,
                de_source_recommendation_id = dd_source_recommendation_id d, de_arm = of_arm f,
                de_optimization_applied = applied, de_bypassed = dd_bypassed d, de_bypass_reason = dd_bypass_reason d,
                de_cache_status = of_cache_status f, de_fallback_used = of_fallback_used f,
                de_fallback_reason = of_fallback_reason f, de_route_eligible = dd_route_eligible d,
                de_route_ineligible_reason = dd_route_ineligible_reason d, de_provider_chosen = of_provider_chosen f,
                de_model_chosen = of_model_chosen f, de_provider_counterfactual = cf_provider,
                de_model_counterfactual = cf_model, de_realized_naive_cost_usd = ue_naive_cost_usd e,
                de_realized_actual_cost_usd = ue_cost_usd e, de_realized_savings_usd = ue_saved_usd e,
                de_quality_ok = quality, de_latency_ms = of_latency_ms f, de_plan = dd_optimization_plan d,
                de_runtime_trace = dd_runtime_trace d,
                de_savings_proof = savings_proof_of e (of_cache_status f) (dd_bypassed d) (of_arm f) (of_trim_applied f) routed
                  applied (ue_naive_cost_usd e) (ue_cost_usd e) (ue_saved_usd e) quality compression_applied,
                de_created_at = now\<rparr> # rows))"

section \<open>Lemmas\<close>

lemma add_runtime_trace_simps [simp]:
  "dd_optimization_plan (add_runtime_trace s l a r e p sr dt d) = dd_optimization_plan d"
  "dd_bypassed (add_runtime_trace s l a r e p sr dt d) = dd_bypassed d"
  "dd_lever (add_runtime_trace s l a r e p sr dt d) = dd_lever d"
  "dd_policy_id (add_runtime_trace s l a r e p sr dt d) = dd_policy_id d"
  "dd_source_recommendation_id (add_runtime_trace s l a r e p sr dt d) = dd_source_recommendation_id d"
  "dd_trim_applied (add_runtime_trace s l a r e p sr dt d) = dd_trim_applied d"
  "dd_compression_applied (add_runtime_trace s l a r e p sr dt d) = dd_compression_applied d"
  "dd_ctx (add_runtime_trace s l a r e p sr dt d) = dd_ctx d"
  "dd_request_type (add_runtime_trace s l a r e p sr dt d) = dd_request_type d"
  "dd_request_id (add_runtime_trace s l a r e p sr dt d) = dd_request_id d"
  "dd_route_eligible (add_runtime_trace s l a r e p sr dt d) = dd_route_eligible d"
  by (simp_all add: add_runtime_trace_def)

end
