(* ===== verification/Dialects.thy ===== *)
theory Dialects
  imports RequestFacts
begin

text \<open>
  \<open>proxy/client_dialects.py\<close>, the request shapes the proxy accepts, and \<open>proxy/routing_eligibility.py\<close>,
  whether a request can be translated to another provider. An exception is the \<open>Inl\<close> of a sum. The path
  is that of an ASGI request, which starts with a slash, so \<open>urlsplit\<close> finds no scheme in it.
\<close>

section \<open>proxy/client_dialects.py\<close>

datatype client_dialect = OpenAI | Anthropic | Gemini_Native

datatype parse_error = Unsupported_Client_Dialect string | Attribute_Error | Type_Error

record parsed_request =
  pr_dialect :: client_dialect
  pr_operation :: string
  pr_method :: string
  pr_path :: string
  pr_headers :: "string \<rightharpoonup> string"
  pr_body :: "(string \<times> json) list"
  pr_request_facts :: request_facts
  pr_model :: "string option"
  pr_models :: "string list"
  pr_stream :: bool

fun dialect_value :: "client_dialect \<Rightarrow> string" where
  "dialect_value OpenAI = ''openai''"
| "dialect_value Anthropic = ''anthropic''"
| "dialect_value Gemini_Native = ''gemini_native''"

definition urlsplit_path :: "string \<Rightarrow> string" where
  "urlsplit_path url =
     (let rest = (if take 2 url = ''//'' then dropWhile (\<lambda>c. c \<notin> set ''/?#'') (drop 2 url) else url)
      in takeWhile (\<lambda>c. c \<noteq> CHR ''?'') (takeWhile (\<lambda>c. c \<noteq> CHR ''#'') rest))"

definition path_only :: "string \<Rightarrow> string" where
  "path_only path =
     (let clean = (if urlsplit_path path \<noteq> [] then urlsplit_path path else path);
          stripped = rev (dropWhile (\<lambda>c. c = CHR ''/'') (rev clean))
      in if stripped \<noteq> [] then stripped else ''/'')"

definition body_model :: "(string \<times> json) list \<Rightarrow> string option" where
  "body_model body = (case dict_get body ''model'' of JStr m \<Rightarrow> if m \<noteq> [] then Some m else None | _ \<Rightarrow> None)"

definition single_model_tuple :: "string option \<Rightarrow> string list" where
  "single_model_tuple model = (case model of None \<Rightarrow> [] | Some m \<Rightarrow> if m \<noteq> [] then [m] else [])"

definition normalize_gemini_model :: "string option \<Rightarrow> string option" where
  "normalize_gemini_model =
     map_option (\<lambda>m. if take 7 m = ''models/'' then drop 7 m else m)"

text \<open>The values a \<open>for\<close> loop sees; \<open>None\<close> when the value is not iterable.\<close>

fun iterate :: "json \<Rightarrow> json list option" where
  "iterate (JList xs) = Some xs"
| "iterate (JObj kvs) = Some (map (\<lambda>kv. JStr (fst kv)) kvs)"
| "iterate (JStr s) = Some (map (\<lambda>c. JStr [c]) s)"
| "iterate _ = None"

definition iterate_or_empty :: "json \<Rightarrow> json list option" where
  "iterate_or_empty v = (if truthy v then iterate v else Some [])"

definition request_model :: "json \<Rightarrow> string option" where
  "request_model r =
     (case r of
        JObj kvs \<Rightarrow>
          (case dict_get kvs ''params'' of
             JObj ps \<Rightarrow> (case dict_get ps ''model'' of JStr m \<Rightarrow> if m \<noteq> [] then Some m else None | _ \<Rightarrow> None)
           | _ \<Rightarrow> None)
      | _ \<Rightarrow> None)"

definition anthropic_batch_models :: "(string \<times> json) list \<Rightarrow> string list option" where
  "anthropic_batch_models body =
     map_option (\<lambda>rs. dict_fromkeys (List.map_filter request_model rs)) (iterate_or_empty (dict_get body ''requests''))"

text \<open>
  The regular expression for a Gemini model action: a prefix, a model without colon, a colon, letters.
  The end anchor also matches before a final newline.
\<close>

definition ascii_letter :: "char \<Rightarrow> bool" where
  "ascii_letter c \<longleftrightarrow> (65 \<le> (of_char c :: nat) \<and> (of_char c :: nat) \<le> 90) \<or> (97 \<le> (of_char c :: nat) \<and> (of_char c :: nat) \<le> 122)"

definition after_prefix :: "string \<Rightarrow> string \<Rightarrow> string option" where
  "after_prefix p s = (if take (length p) s = p then Some (drop (length p) s) else None)"

definition match_model_action :: "string \<Rightarrow> (string \<times> string) option" where
  "match_model_action path =
     (case (case after_prefix ''/v1/models/'' path of Some r \<Rightarrow> Some r | None \<Rightarrow> after_prefix ''/v1beta/models/'' path) of
        None \<Rightarrow> None
      | Some r \<Rightarrow>
          (let model = takeWhile (\<lambda>c. c \<noteq> CHR '':'') r; tail = drop (length model) r;
               action = takeWhile ascii_letter (drop 1 tail); rest = drop (length action) (drop 1 tail)
           in if model \<noteq> [] \<and> tail \<noteq> [] \<and> action \<noteq> [] \<and> rest \<in> {[], [CHR ''\<newline>'']} then Some (model, action)
              else None))"

definition build_parsed ::
  "client_dialect \<Rightarrow> string \<Rightarrow> string \<Rightarrow> string \<Rightarrow> (string \<rightharpoonup> string) \<Rightarrow> (string \<times> json) list \<Rightarrow> string option \<Rightarrow> string list
    \<Rightarrow> bool \<Rightarrow> parse_error + parsed_request option" where
  "build_parsed dialect operation method path headers body model models stream =
     (if facts_raise body then Inl Type_Error
      else Inr (Some \<lparr>pr_dialect = dialect, pr_operation = operation, pr_method = method, pr_path = path,
        pr_headers = headers, pr_body = body, pr_request_facts = normalize_request_facts body, pr_model = model,
        pr_models = models, pr_stream = stream\<rparr>))"

definition parse_openai_compatible ::
  "string \<Rightarrow> string \<Rightarrow> (string \<rightharpoonup> string) \<Rightarrow> (string \<times> json) list \<Rightarrow> parse_error + parsed_request option" where
  "parse_openai_compatible method path headers body =
     (if path \<notin> {''/v1/chat/completions'', ''/v1beta/openai/chat/completions'', ''/v1/openai/chat/completions''}
      then Inr None
      else build_parsed OpenAI ''chat_completions'' method path headers body (body_model body)
             (single_model_tuple (body_model body)) (truthy (dict_get body ''stream'')))"

definition parse_anthropic ::
  "string \<Rightarrow> string \<Rightarrow> (string \<rightharpoonup> string) \<Rightarrow> (string \<times> json) list \<Rightarrow> parse_error + parsed_request option" where
  "parse_anthropic method path headers body =
     (let stream = truthy (dict_get body ''stream'')
      in if path = ''/v1/messages'' then
           build_parsed Anthropic ''messages'' method path headers body (body_model body)
             (single_model_tuple (body_model body)) stream
         else if path = ''/v1/messages/count_tokens'' then
           build_parsed Anthropic ''count_tokens'' method path headers body (body_model body)
             (single_model_tuple (body_model body)) stream
         else if path = ''/v1/messages/batches'' then
           (case anthropic_batch_models body of
              None \<Rightarrow> Inl Type_Error
            | Some models \<Rightarrow>
                build_parsed Anthropic ''message_batch_create'' method path headers body
                  (if length models = 1 then Some (hd models) else None) models stream)
         else Inr None)"

definition gemini_operation :: "string \<Rightarrow> string option" where
  "gemini_operation action =
     (if action = ''generateContent'' then Some ''generate_content''
      else if action = ''streamGenerateContent'' then Some ''stream_generate_content''
      else if action = ''countTokens'' then Some ''count_tokens'' else None)"

definition parse_gemini_native ::
  "string \<Rightarrow> string \<Rightarrow> (string \<rightharpoonup> string) \<Rightarrow> (string \<times> json) list \<Rightarrow> parse_error + parsed_request option" where
  "parse_gemini_native method path headers body =
     (if path \<in> {''/v1beta/batches'', ''/v1/batches''} then
        (let model = normalize_gemini_model (body_model body)
         in build_parsed Gemini_Native ''batch_create'' method path headers body model (single_model_tuple model) False)
      else (case match_model_action path of
        None \<Rightarrow> Inr None
      | Some (raw_model, action) \<Rightarrow>
          (case gemini_operation action of
             None \<Rightarrow> Inr None
           | Some operation \<Rightarrow>
               (let model = normalize_gemini_model (Some raw_model)
                in build_parsed Gemini_Native operation method path headers body model (single_model_tuple model)
                     (operation = ''stream_generate_content'')))))"

text \<open>\<open>a or b\<close> of two parsers: the second runs when the first finds nothing.\<close>

definition or_parse ::
  "parse_error + 'a option \<Rightarrow> parse_error + 'a option \<Rightarrow> parse_error + 'a option" where
  "or_parse a b = (case a of Inr None \<Rightarrow> b | r \<Rightarrow> r)"

definition py_upper_ascii :: "string \<Rightarrow> string" where
  "py_upper_ascii s = map (\<lambda>c. if 97 \<le> (of_char c :: nat) \<and> (of_char c :: nat) \<le> 122 then char_of ((of_char c :: nat) - 32) else c) s"

definition parse_dialects ::
  "string \<Rightarrow> string \<Rightarrow> (string \<rightharpoonup> string) \<Rightarrow> (string \<times> json) list \<Rightarrow> parse_error + parsed_request option" where
  "parse_dialects method path headers body =
     or_parse (parse_openai_compatible method path headers body)
       (or_parse (parse_anthropic method path headers body) (parse_gemini_native method path headers body))"

text \<open>Every parser that accepts a path reads the body, which raises when the body is not an object.\<close>

definition classify_client_dialect ::
  "string \<Rightarrow> string \<Rightarrow> (string \<times> string) list \<Rightarrow> json \<Rightarrow> parse_error + parsed_request" where
  "classify_client_dialect method path headers body =
     (let clean_method = py_upper_ascii method; clean_path = path_only path; hs = lower_headers headers
      in if clean_method \<noteq> ''POST'' then Inl (Unsupported_Client_Dialect clean_method)
         else (case body of
           JObj kvs \<Rightarrow>
             (case parse_dialects clean_method clean_path hs kvs of
                Inl e \<Rightarrow> Inl e
              | Inr None \<Rightarrow> Inl (Unsupported_Client_Dialect clean_path)
              | Inr (Some p) \<Rightarrow> Inr p)
         | _ \<Rightarrow>
             (case parse_dialects clean_method clean_path hs [] of
                Inr None \<Rightarrow> Inl (Unsupported_Client_Dialect clean_path)
              | _ \<Rightarrow> Inl Attribute_Error)))"

section \<open>proxy/routing_eligibility.py\<close>

record ineligibility =
  ri_reason_code :: string
  ri_reason_detail :: "(string \<times> json) list"

definition anthropic_server_tool_types :: "string list" where
  "anthropic_server_tool_types =
     [''bash_20250124'', ''computer_20250124'', ''text_editor_20250124'', ''web_search_20250305'']"

definition safe_gemini_part_keys :: "string list" where
  "safe_gemini_part_keys = [''text'', ''functionCall'', ''functionResponse'']"

fun iter_dicts :: "json \<Rightarrow> (string \<times> json) list list" where
  "iter_dicts (JObj kvs) = kvs # concat (map (\<lambda>kv. iter_dicts (snd kv)) kvs)"
| "iter_dicts (JList vs) = concat (map iter_dicts vs)"
| "iter_dicts _ = []"

definition has_key :: "(string \<times> json) list \<Rightarrow> string \<Rightarrow> bool" where
  "has_key kvs k \<longleftrightarrow> map_of kvs k \<noteq> None"

definition find_key :: "json \<Rightarrow> string \<Rightarrow> bool" where
  "find_key v k = list_ex (\<lambda>d. has_key d k) (iter_dicts v)"

definition tool_type :: "json \<Rightarrow> string option" where
  "tool_type tool = (case tool of JObj kvs \<Rightarrow> as_str (dict_get kvs ''type'') | _ \<Rightarrow> None)"

definition has_anthropic_server_tool :: "(string \<times> json) list \<Rightarrow> bool option" where
  "has_anthropic_server_tool body =
     map_option (list_ex (\<lambda>t. case tool_type t of None \<Rightarrow> False | Some ty \<Rightarrow> ty \<in> set anthropic_server_tool_types))
       (iterate_or_empty (dict_get body ''tools''))"

definition unmapped_gemini_part :: "json \<Rightarrow> bool" where
  "unmapped_gemini_part part =
     (case part of
        JObj kvs \<Rightarrow> \<not> list_ex (has_key kvs) safe_gemini_part_keys \<or> has_key kvs ''inlineData'' \<or> has_key kvs ''fileData''
      | _ \<Rightarrow> False)"

definition has_unmapped_gemini_part :: "(string \<times> json) list \<Rightarrow> bool" where
  "has_unmapped_gemini_part body =
     list_ex (\<lambda>d. case dict_get d ''parts'' of JList ps \<Rightarrow> list_ex unmapped_gemini_part ps | _ \<Rightarrow> False)
       (iter_dicts (dict_get body ''contents''))"

definition openai_server_side_tool :: "(string \<times> json) list \<Rightarrow> string option option" where
  "openai_server_side_tool body =
     map_option (\<lambda>ts. find (\<lambda>ty. ty \<noteq> ''function'') (List.map_filter tool_type ts))
       (iterate_or_empty (dict_get body ''tools''))"

text \<open>The walk over the content parts of one message, then of all; \<open>None\<close> is a \<open>TypeError\<close>.\<close>

fun unmapped_part :: "json list \<Rightarrow> bool option" where
  "unmapped_part [] = Some False"
| "unmapped_part (JObj kvs # ps) =
     (case dict_get kvs ''type'' of
        JList _ \<Rightarrow> None
      | JObj _ \<Rightarrow> None
      | ty \<Rightarrow> if ty \<noteq> JStr ''text'' then Some True else unmapped_part ps)"
| "unmapped_part (_ # ps) = unmapped_part ps"

fun unmapped_content :: "json list \<Rightarrow> bool option" where
  "unmapped_content [] = Some False"
| "unmapped_content (m # ms) =
     (case m of
        JObj kvs \<Rightarrow>
          (case dict_get kvs ''content'' of
             JList parts \<Rightarrow>
               (case unmapped_part parts of None \<Rightarrow> None | Some True \<Rightarrow> Some True | Some False \<Rightarrow> unmapped_content ms)
           | _ \<Rightarrow> unmapped_content ms)
      | _ \<Rightarrow> unmapped_content ms)"

definition has_unmapped_openai_content_part :: "(string \<times> json) list \<Rightarrow> bool option" where
  "has_unmapped_openai_content_part body =
     Option.bind (iterate_or_empty (dict_get body ''messages'')) unmapped_content"

definition anthropic_ineligibility :: "parsed_request \<Rightarrow> ineligibility option option" where
  "anthropic_ineligibility parsed =
     (if find_key (JObj (pr_body parsed)) ''cache_control'' then
        Some (Some \<lparr>ri_reason_code = ''anthropic_cache_control'',
          ri_reason_detail = [(''path'', JStr (pr_path parsed)), (''field'', JStr ''cache_control'')]\<rparr>)
      else (case or_str (pr_headers parsed ''anthropic-beta'') None of
        Some v \<Rightarrow>
          Some (Some \<lparr>ri_reason_code = ''anthropic_beta_unsupported'',
            ri_reason_detail = [(''path'', JStr (pr_path parsed)), (''header'', JStr ''anthropic-beta''), (''value'', JStr v)]\<rparr>)
      | None \<Rightarrow>
          (case has_anthropic_server_tool (pr_body parsed) of
            None \<Rightarrow> None
          | Some b \<Rightarrow> Some (if b then Some \<lparr>ri_reason_code = ''server_side_tool'',
              ri_reason_detail = [(''path'', JStr (pr_path parsed)), (''field'', JStr ''tools'')]\<rparr> else None))))"

definition gemini_native_ineligibility :: "parsed_request \<Rightarrow> ineligibility option" where
  "gemini_native_ineligibility parsed =
     (if truthy (dict_get (pr_body parsed) ''safetySettings'') then
        Some \<lparr>ri_reason_code = ''gemini_safety_settings'',
          ri_reason_detail = [(''path'', JStr (pr_path parsed)), (''field'', JStr ''safetySettings'')]\<rparr>
      else if has_unmapped_gemini_part (pr_body parsed) then
        Some \<lparr>ri_reason_code = ''native_multimodal_unmapped'',
          ri_reason_detail = [(''path'', JStr (pr_path parsed)), (''field'', JStr ''contents.parts'')]\<rparr>
      else None)"

definition openai_ineligibility :: "parsed_request \<Rightarrow> ineligibility option option" where
  "openai_ineligibility parsed =
     (case openai_server_side_tool (pr_body parsed) of
        None \<Rightarrow> None
      | Some tool \<Rightarrow>
          if or_str tool None \<noteq> None then
            Some (Some \<lparr>ri_reason_code = ''server_side_tool'',
              ri_reason_detail = [(''path'', JStr (pr_path parsed)), (''field'', JStr ''tools''), (''tool_type'', JStr (the tool))]\<rparr>)
          else (case has_unmapped_openai_content_part (pr_body parsed) of
            None \<Rightarrow> None
          | Some b \<Rightarrow> Some (if b then Some \<lparr>ri_reason_code = ''native_multimodal_unmapped'',
              ri_reason_detail = [(''path'', JStr (pr_path parsed)), (''field'', JStr ''messages.content'')]\<rparr> else None)))"

text \<open>\<open>None\<close> is a \<open>TypeError\<close>, \<open>Some None\<close> an eligible request.\<close>

definition cross_provider_ineligibility :: "parsed_request \<Rightarrow> string \<Rightarrow> string \<Rightarrow> ineligibility option option" where
  "cross_provider_ineligibility parsed requested_provider candidate_provider =
     (if requested_provider = candidate_provider then Some None
      else (case pr_dialect parsed of
        Anthropic \<Rightarrow> anthropic_ineligibility parsed
      | Gemini_Native \<Rightarrow> Some (gemini_native_ineligibility parsed)
      | OpenAI \<Rightarrow> openai_ineligibility parsed))"


section \<open>Lemmas\<close>

lemma unmapped_part_mapped:
  "unmapped_part ps = Some False \<Longrightarrow> JObj kvs \<in> set ps \<Longrightarrow> dict_get kvs ''type'' = JStr ''text''"
proof (induction ps rule: unmapped_part.induct)
  case (2 kvs' ps)
  then show ?case by (cases "dict_get kvs' ''type''") (auto split: if_splits)
qed auto

lemma unmapped_content_mapped:
  "unmapped_content ms = Some False \<Longrightarrow> JObj m \<in> set ms \<Longrightarrow> dict_get m ''content'' = JList ps \<Longrightarrow>
     JObj kvs \<in> set ps \<Longrightarrow> dict_get kvs ''type'' = JStr ''text''"
proof (induction ms)
  case (Cons x ms)
  then show ?case
    by (auto split: json.splits option.splits bool.splits dest: unmapped_part_mapped)
qed simp

lemma or_str_None: "or_str v None = None \<Longrightarrow> v = None \<or> v = Some []"
  by (auto simp: or_str_def split: option.splits if_splits)

lemma find_key_iff: "find_key v k \<longleftrightarrow> (\<exists>d \<in> set (iter_dicts v). map_of d k \<noteq> None)"
  by (auto simp: find_key_def has_key_def list_ex_iff)

lemma build_parsed_Some:
  "build_parsed d op method path headers body model models stream = Inr (Some p) \<longleftrightarrow>
     \<not> facts_raise body \<and> p = \<lparr>pr_dialect = d, pr_operation = op, pr_method = method, pr_path = path,
        pr_headers = headers, pr_body = body, pr_request_facts = normalize_request_facts body, pr_model = model,
        pr_models = models, pr_stream = stream\<rparr>"
  by (auto simp: build_parsed_def)

lemma single_model_tuple_set: "set (single_model_tuple m) \<subseteq> set_option m"
  by (auto simp: single_model_tuple_def split: option.splits)

lemma or_parse_Some:
  "or_parse a b = Inr (Some p) \<longleftrightarrow> a = Inr (Some p) \<or> (a = Inr None \<and> b = Inr (Some p))"
  by (auto simp: or_parse_def split: sum.splits option.splits)

definition parsed_from ::
  "client_dialect \<Rightarrow> string \<Rightarrow> string \<Rightarrow> (string \<rightharpoonup> string) \<Rightarrow> (string \<times> json) list \<Rightarrow> parsed_request \<Rightarrow> bool" where
  "parsed_from d method path headers body p \<longleftrightarrow>
     pr_dialect p = d \<and> pr_method p = method \<and> pr_path p = path \<and> pr_headers p = headers \<and> pr_body p = body \<and>
     pr_request_facts p = normalize_request_facts body"

lemma parsed_from_build:
  "build_parsed d op method path headers body model models stream = Inr (Some p) \<Longrightarrow> parsed_from d method path headers body p"
  by (simp add: build_parsed_Some parsed_from_def)

lemma if_resultE: "(if c then a else b) = x \<Longrightarrow> (a = x \<Longrightarrow> P) \<Longrightarrow> (b = x \<Longrightarrow> P) \<Longrightarrow> P"
  by (split if_split_asm)

lemma case_option_resultE:
  "(case v of None \<Rightarrow> a | Some y \<Rightarrow> f y) = x \<Longrightarrow> (a = x \<Longrightarrow> P) \<Longrightarrow> (\<And>y. f y = x \<Longrightarrow> P) \<Longrightarrow> P"
  by (cases v) simp_all

lemmas resultE = if_resultE case_option_resultE

lemma parse_failures [simp]:
  "(Inr None :: parse_error + parsed_request option) \<noteq> Inr (Some p)"
  "(Inl e :: parse_error + parsed_request option) \<noteq> Inr (Some p)"
  by simp_all

abbreviation openai_paths :: "string set" where
  "openai_paths \<equiv> {''/v1/chat/completions'', ''/v1beta/openai/chat/completions'', ''/v1/openai/chat/completions''}"

lemma parse_openai_from:
  "parse_openai_compatible method path headers body = Inr (Some p) \<Longrightarrow>
     path \<in> openai_paths \<and> parsed_from OpenAI method path headers body p"
  unfolding parse_openai_compatible_def
  by (cases "path \<in> openai_paths") (simp_all only: not_True_eq_False not_False_eq_True if_True if_False parse_failures simp_thms parsed_from_build)

lemma parse_openai_None:
  "parse_openai_compatible method path headers body = Inr None \<Longrightarrow> path \<notin> openai_paths"
  unfolding parse_openai_compatible_def build_parsed_def
  by (cases "path \<in> openai_paths"; cases "facts_raise body")
     (simp_all only: not_True_eq_False not_False_eq_True if_True if_False simp_thms sum.distinct sum.inject option.distinct)

lemma parse_anthropic_from:
  "parse_anthropic method path headers body = Inr (Some p) \<Longrightarrow> parsed_from Anthropic method path headers body p"
  unfolding parse_anthropic_def Let_def by (elim resultE) (simp_all only: parse_failures parsed_from_build)

lemma parse_gemini_from:
  "parse_gemini_native method path headers body = Inr (Some p) \<Longrightarrow> parsed_from Gemini_Native method path headers body p"
  unfolding parse_gemini_native_def Let_def
  by (elim resultE; (split prod.splits)?; (elim allE exE conjE resultE)?; (simp only: parse_failures parsed_from_build)?)

lemma parse_dialects_from:
  assumes "parse_dialects method path headers body = Inr (Some p)"
  shows "parsed_from (pr_dialect p) method path headers body p \<and> (pr_dialect p = OpenAI \<longleftrightarrow> path \<in> openai_paths)"
  using assms unfolding parse_dialects_def or_parse_Some
proof (elim disjE conjE)
  assume "parse_openai_compatible method path headers body = Inr (Some p)"
  from parse_openai_from [OF this] show ?thesis by (auto simp only: parsed_from_def)
next
  assume "parse_openai_compatible method path headers body = Inr None" "parse_anthropic method path headers body = Inr (Some p)"
  with parse_openai_None parse_anthropic_from show ?thesis by (metis client_dialect.distinct(1) parsed_from_def)
next
  assume "parse_openai_compatible method path headers body = Inr None" "parse_gemini_native method path headers body = Inr (Some p)"
  with parse_openai_None parse_gemini_from show ?thesis by (metis client_dialect.distinct(3) parsed_from_def)
qed

lemma classify_is_request:
  assumes "classify_client_dialect method path headers body = Inr p"
  shows "body = JObj (pr_body p) \<and> pr_method p = ''POST'' \<and> pr_headers p = lower_headers headers \<and>
    pr_path p = path_only path \<and>
    (pr_dialect p = OpenAI \<longleftrightarrow> path_only path \<in>
       {''/v1/chat/completions'', ''/v1beta/openai/chat/completions'', ''/v1/openai/chat/completions''})"
proof -
  obtain kvs where k: "body = JObj kvs" "parse_dialects ''POST'' (path_only path) (lower_headers headers) kvs = Inr (Some p)"
    using assms by (auto simp: classify_client_dialect_def Let_def split: if_splits json.splits sum.splits option.splits)
  then show ?thesis using parse_dialects_from [OF k(2)] by (simp only: parsed_from_def)
qed

section \<open>Properties\<close>

text \<open>
  Parsing keeps the request: a request the proxy accepts was a POST with an object as body, is passed on
  with exactly that body and its lower-cased headers, and is of the OpenAI dialect exactly on the three
  chat-completions paths (the two Gemini-compatible ones included).
\<close>

theorem classified_request_is_the_request:
  assumes "classify_client_dialect method path headers body = Inr p"
  shows "body = JObj (pr_body p) \<and> pr_method p = ''POST'' \<and> pr_headers p = lower_headers headers \<and>
    pr_path p = path_only path \<and>
    (pr_dialect p = OpenAI \<longleftrightarrow> path_only path \<in>
       {''/v1/chat/completions'', ''/v1beta/openai/chat/completions'', ''/v1/openai/chat/completions''})"
  using assms by (rule classify_is_request)

theorem classified_request_is_the_request_witness:
  "\<exists>p. classify_client_dialect ''POST'' ''/v1/chat/completions/'' [] (JObj [(''model'', JStr ''m'')]) = Inr p \<and>
     pr_dialect p = OpenAI"
proof -
  have "\<exists>p. classify_client_dialect ''POST'' ''/v1/chat/completions/'' [] (JObj [(''model'', JStr ''m'')]) = Inr p"
    by (simp add: classify_client_dialect_def Let_def path_only_def urlsplit_path_def py_upper_ascii_def
        parse_dialects_def or_parse_def parse_openai_compatible_def build_parsed_def facts_raise_def)
  then obtain p where p: "classify_client_dialect ''POST'' ''/v1/chat/completions/'' [] (JObj [(''model'', JStr ''m'')]) = Inr p"
    by blast
  have "path_only ''/v1/chat/completions/'' = ''/v1/chat/completions''"
    by (simp add: path_only_def urlsplit_path_def)
  with p classified_request_is_the_request [OF p] show ?thesis by auto
qed

text \<open>
  Only translatable requests cross providers: an OpenAI-shaped request found eligible for another provider
  has text parts only in every message, and every tool with a type is a function (unless some tool has the
  empty type, after which the code stops looking).
\<close>

theorem eligible_request_is_translatable:
  assumes "cross_provider_ineligibility parsed requested_provider candidate_provider = Some None"
    and "requested_provider \<noteq> candidate_provider" "pr_dialect parsed = OpenAI"
    and "dict_get (pr_body parsed) ''messages'' = JList messages"
    and "dict_get (pr_body parsed) ''tools'' = JList tools"
  shows "(\<forall>m parts part. JObj m \<in> set messages \<longrightarrow> dict_get m ''content'' = JList parts \<longrightarrow> JObj part \<in> set parts \<longrightarrow>
      dict_get part ''type'' = JStr ''text'') \<and>
    ((\<forall>t \<in> set tools. \<forall>ty. tool_type t = Some ty \<longrightarrow> ty = ''function'') \<or> (\<exists>t \<in> set tools. tool_type t = Some []))"
proof -
  have el: "openai_ineligibility parsed = Some None"
    using assms(1-3) by (simp add: cross_provider_ineligibility_def)
  obtain tool where tool: "openai_server_side_tool (pr_body parsed) = Some tool" "or_str tool None = None"
    "has_unmapped_openai_content_part (pr_body parsed) = Some False"
    using el by (auto simp: openai_ineligibility_def split: option.splits if_splits)
  have "unmapped_content messages = Some False"
    using tool(3) assms(4)
    by (cases "messages = []") (auto simp: has_unmapped_openai_content_part_def iterate_or_empty_def)
  note parts = unmapped_content_mapped [OF this]
  have "or_str (find (\<lambda>ty. ty \<noteq> ''function'') (List.map_filter tool_type tools)) None = None"
    using tool(1,2) assms(5)
    by (cases "tools = []") (auto simp: openai_server_side_tool_def iterate_or_empty_def)
  from or_str_None [OF this]
  have "(\<forall>t \<in> set tools. \<forall>ty. tool_type t = Some ty \<longrightarrow> ty = ''function'') \<or> (\<exists>t \<in> set tools. tool_type t = Some [])"
  proof
    assume "find (\<lambda>ty. ty \<noteq> ''function'') (List.map_filter tool_type tools) = None"
    then show ?thesis by (auto simp: find_None_iff List.map_filter_def)
  next
    assume "find (\<lambda>ty. ty \<noteq> ''function'') (List.map_filter tool_type tools) = Some []"
    then have "[] \<in> set (List.map_filter tool_type tools)" by (rule find_Some_prop [THEN conjunct1])
    then show ?thesis by (auto simp: List.map_filter_def)
  qed
  with parts show ?thesis by blast
qed

definition sample_parsed :: parsed_request where
  "sample_parsed = \<lparr>pr_dialect = OpenAI, pr_operation = ''chat_completions'', pr_method = ''POST'', pr_path = ''/v1/chat/completions'',
     pr_headers = Map.empty, pr_body = [(''messages'', JList [JObj [(''content'', JList [JObj [(''type'', JStr ''text'')]])]]), (''tools'', JList [])],
     pr_request_facts = normalize_request_facts [], pr_model = Some ''m'', pr_models = [''m''], pr_stream = False\<rparr>"

theorem eligible_request_is_translatable_witness:
  "cross_provider_ineligibility sample_parsed ''openai'' ''anthropic'' = Some None \<and>
   dict_get [(''type'', JStr ''text'')] ''type'' = JStr ''text''"
proof -
  have e: "cross_provider_ineligibility sample_parsed ''openai'' ''anthropic'' = Some None"
    by (simp add: cross_provider_ineligibility_def sample_parsed_def openai_ineligibility_def openai_server_side_tool_def
        iterate_or_empty_def List.map_filter_def or_str_def has_unmapped_openai_content_part_def)
  from eligible_request_is_translatable [OF e, of "[JObj [(''content'', JList [JObj [(''type'', JStr ''text'')]])]]" "[]"]
  have "dict_get [(''type'', JStr ''text'')] ''type'' = JStr ''text''" by (simp add: sample_parsed_def)
  with e show ?thesis by blast
qed

end
