(* ===== verification/Providers.thy ===== *)
theory Providers
  imports Dialects "HOL-Library.Monad_Syntax"
begin

text \<open>
  \<open>proxy/providers\<close>: the canonical completion and its OpenAI rendering (\<open>canonical.py\<close>), the adapter interface
  and registry (\<open>base.py\<close>, \<open>__init__.py\<close>), and the three adapters' translation of a request and of a
  non-streaming response. \<open>None\<close> is an exception (a value of an unexpected type). The JSON decoder \<open>loads\<close> and
  encoder \<open>dumps\<close> are parameters. The stream translators are not modelled.
\<close>

section \<open>canonical.py\<close>

record canonical_usage =
  cu_input_tokens :: int
  cu_output_tokens :: int
  cu_cached_tokens :: int

record canonical_completion =
  cc_model :: json
  cc_content :: json
  cc_tool_calls :: json
  cc_finish_reason :: json
  cc_usage :: canonical_usage
  cc_raw :: "(string \<times> json) list option"

definition usage_dict :: "canonical_usage \<Rightarrow> json" where
  "usage_dict u =
     JObj ([(''prompt_tokens'', JInt (cu_input_tokens u)), (''completion_tokens'', JInt (cu_output_tokens u)),
            (''total_tokens'', JInt (cu_input_tokens u + cu_output_tokens u))] @
           (if cu_cached_tokens u \<noteq> 0
            then [(''prompt_tokens_details'', JObj [(''cached_tokens'', JInt (cu_cached_tokens u))])] else []))"

definition or_json :: "json \<Rightarrow> json \<Rightarrow> json" where
  "or_json a b = (if truthy a then a else b)"

text \<open>\<open>now_ms\<close> is \<open>int(time.time() * 1000)\<close>.\<close>

definition completion_payload :: "int \<Rightarrow> canonical_completion \<Rightarrow> (string \<times> json) list" where
  "completion_payload now_ms c =
     (case cc_raw c of
        Some raw \<Rightarrow> raw
      | None \<Rightarrow>
          [(''id'', JStr (''chatcmpl-varsten-'' @ int_text now_ms)), (''object'', JStr ''chat.completion''),
           (''created'', JInt (now_ms div 1000)), (''model'', cc_model c),
           (''choices'', JList [JObj [(''index'', JInt 0),
              (''message'', JObj ([(''role'', JStr ''assistant''), (''content'', or_json (cc_content c) JNull)] @
                 (if truthy (cc_tool_calls c) then [(''tool_calls'', cc_tool_calls c)] else []))),
              (''finish_reason'', cc_finish_reason c)]]),
           (''usage'', usage_dict (cc_usage c)), (''varsten'', JObj [(''cache'', JStr ''hit'')])])"

definition sse_line :: "string \<Rightarrow> string" where
  "sse_line data = ''data: '' @ data @ [CHR ''\<newline>'', CHR ''\<newline>'']"

definition to_openai_sse :: "(json \<Rightarrow> string) \<Rightarrow> (string \<times> json) list \<Rightarrow> string list option" where
  "to_openai_sse dumps payload =
     (case map_of payload ''choices'' of
        Some (JList (JObj choice # _)) \<Rightarrow>
          (case or_json (dict_get choice ''message'') (JObj []) of
             JObj message \<Rightarrow>
               (let content = dict_get message ''content''; tool_calls = dict_get message ''tool_calls'';
                    finish = or_json (dict_get choice ''finish_reason'')
                      (JStr (if truthy tool_calls then ''tool_calls'' else ''stop''));
                    base = [(''id'', dict_get_default payload ''id'' (JStr '''')), (''object'', JStr ''chat.completion.chunk''),
                            (''created'', dict_get_default payload ''created'' (JInt 0)),
                            (''model'', dict_get_default payload ''model'' (JStr ''''))];
                    delta = [(''role'', JStr ''assistant'')] @
                      (if truthy content then [(''content'', content)] else []) @
                      (if truthy tool_calls then [(''tool_calls'', tool_calls)] else []);
                    chunk = (\<lambda>d fr. JObj (base @ [(''choices'', JList [JObj [(''index'', JInt 0), (''delta'', JObj d), (''finish_reason'', fr)]])]))
                in Some [sse_line (dumps (chunk delta JNull)), sse_line (dumps (chunk [] finish)), sse_line ''[DONE]''])
           | _ \<Rightarrow> None)
      | _ \<Rightarrow> None)"

section \<open>Adapters\<close>

record llm_adapter =
  ad_provider :: string
  ad_prepare_request :: "(string \<times> json) list \<Rightarrow> string \<Rightarrow> bool \<Rightarrow> (string \<times> json) list option"
  ad_parse_completion :: "json \<Rightarrow> canonical_completion option"

definition int_or_zero :: "json \<Rightarrow> int option" where
  "int_or_zero v = (case py_int (or_json v (JInt 0)) of Inl _ \<Rightarrow> None | Inr n \<Rightarrow> Some n)"

definition as_dict_or_empty :: "json \<Rightarrow> (string \<times> json) list option" where
  "as_dict_or_empty v = (if truthy v then (case v of JObj kvs \<Rightarrow> Some kvs | _ \<Rightarrow> None) else Some [])"

definition join_strs :: "string \<Rightarrow> json list \<Rightarrow> string option" where
  "join_strs sep vs =
     map_option (\<lambda>ts. case ts of [] \<Rightarrow> [] | t # ts \<Rightarrow> t @ concat (map (\<lambda>x. sep @ x) ts)) (those (map as_str vs))"

definition text_parts :: "json list \<Rightarrow> json list" where
  "text_parts ps = List.map_filter (\<lambda>p. case p of
     JObj b \<Rightarrow> if dict_get b ''type'' = JStr ''text'' then Some (dict_get_default b ''text'' (JStr '''')) else None
   | _ \<Rightarrow> None) ps"

section \<open>openai.py\<close>

definition usage_from :: "(string \<times> json) list \<Rightarrow> canonical_usage option" where
  "usage_from usage =
     do { details \<leftarrow> as_dict_or_empty (dict_get usage ''prompt_tokens_details'');
          i \<leftarrow> int_or_zero (dict_get usage ''prompt_tokens'');
          out_tokens \<leftarrow> int_or_zero (dict_get usage ''completion_tokens'');
          c \<leftarrow> int_or_zero (dict_get details ''cached_tokens'');
          Some \<lparr>cu_input_tokens = i, cu_output_tokens = out_tokens, cu_cached_tokens = c\<rparr> }"

definition message_content :: "(string \<times> json) list \<Rightarrow> json option" where
  "message_content message =
     (case dict_get message ''content'' of
        JList ps \<Rightarrow> map_option JStr (join_strs '' '' (text_parts ps))
      | v \<Rightarrow> Some (or_json v (JStr '''')))"

definition openai_prepare_request :: "(string \<times> json) list \<Rightarrow> string \<Rightarrow> bool \<Rightarrow> (string \<times> json) list option" where
  "openai_prepare_request body model stream =
     (let wire = dict_put (dict_put body ''model'' (JStr model)) ''stream'' (JBool stream)
      in Some (if stream then dict_put wire ''stream_options'' (JObj [(''include_usage'', JBool True)]) else wire))"

definition openai_parse_completion :: "json \<Rightarrow> canonical_completion option" where
  "openai_parse_completion r =
     (case r of
        JObj raw \<Rightarrow>
          (case or_json (dict_get raw ''choices'') (JList [JObj []]) of
             JList (JObj choice # _) \<Rightarrow>
               do { message \<leftarrow> as_dict_or_empty (dict_get choice ''message'');
                    content \<leftarrow> message_content message;
                    usage_block \<leftarrow> as_dict_or_empty (dict_get raw ''usage'');
                    usage \<leftarrow> usage_from usage_block;
                    Some \<lparr>cc_model = or_json (dict_get raw ''model'') (JStr ''''), cc_content = content,
                          cc_tool_calls = dict_get message ''tool_calls'',
                          cc_finish_reason = or_json (dict_get choice ''finish_reason'') (JStr ''stop''),
                          cc_usage = usage, cc_raw = Some raw\<rparr> }
           | _ \<Rightarrow> None)
      | _ \<Rightarrow> None)"

definition openai_adapter :: llm_adapter where
  "openai_adapter = \<lparr>ad_provider = ''openai'', ad_prepare_request = openai_prepare_request,
     ad_parse_completion = openai_parse_completion\<rparr>"


section \<open>anthropic.py\<close>

definition usage_from_anthropic :: "json \<Rightarrow> canonical_usage \<Rightarrow> canonical_usage option" where
  "usage_from_anthropic usage previous =
     (if \<not> truthy usage then Some previous
      else (case usage of
        JObj u \<Rightarrow>
          do { cache_read \<leftarrow> int_or_zero (or_json (dict_get u ''cache_read_input_tokens'') (JInt (cu_cached_tokens previous)));
               cache_creation \<leftarrow> int_or_zero (dict_get u ''cache_creation_input_tokens'');
               input_tokens \<leftarrow> (if has_key u ''input_tokens''
                 then map_option (\<lambda>n. n + cache_creation + cache_read) (int_or_zero (dict_get u ''input_tokens''))
                 else Some (cu_input_tokens previous));
               output_tokens \<leftarrow> (if has_key u ''output_tokens'' then int_or_zero (dict_get u ''output_tokens'')
                 else Some (cu_output_tokens previous));
               Some \<lparr>cu_input_tokens = input_tokens, cu_output_tokens = output_tokens, cu_cached_tokens = cache_read\<rparr> }
      | _ \<Rightarrow> None))"

definition no_usage :: canonical_usage where
  "no_usage = \<lparr>cu_input_tokens = 0, cu_output_tokens = 0, cu_cached_tokens = 0\<rparr>"

definition openai_finish_reason :: "json \<Rightarrow> json option" where
  "openai_finish_reason stop_reason =
     (case or_json stop_reason (JStr '''') of
        JList _ \<Rightarrow> None
      | JObj _ \<Rightarrow> None
      | key \<Rightarrow> Some (if key \<in> {JStr ''end_turn'', JStr ''stop_sequence''} then JStr ''stop''
                  else if key = JStr ''max_tokens'' then JStr ''length''
                  else if key = JStr ''tool_use'' then JStr ''tool_calls''
                  else or_json stop_reason (JStr ''stop'')))"

definition content_text :: "json \<Rightarrow> string option" where
  "content_text content =
     (case content of
        JStr s \<Rightarrow> Some s
      | JList ps \<Rightarrow> join_strs '''' (text_parts ps)
      | _ \<Rightarrow> Some '''')"

definition openai_tool_call :: "(json \<Rightarrow> string) \<Rightarrow> (string \<times> json) list \<Rightarrow> json" where
  "openai_tool_call dumps block =
     JObj [(''id'', or_json (dict_get block ''id'') (JStr '''')), (''type'', JStr ''function''),
           (''function'', JObj [(''name'', or_json (dict_get block ''name'') (JStr '''')),
              (''arguments'', JStr (dumps (or_json (dict_get block ''input'') (JObj []))))])]"

text \<open>The messages of a body: a value that is not a list of objects raises on its first element.\<close>

definition body_messages :: "(string \<times> json) list \<Rightarrow> (string \<times> json) list list option" where
  "body_messages body =
     (if truthy (dict_get body ''messages'')
      then (case dict_get body ''messages'' of
              JList ms \<Rightarrow> those (map (\<lambda>m. case m of JObj kvs \<Rightarrow> Some kvs | _ \<Rightarrow> None) ms)
            | _ \<Rightarrow> None)
      else Some [])"

text \<open>The arguments of an OpenAI tool call; text that is not JSON gives an empty object.\<close>

definition call_arguments :: "(string \<Rightarrow> json option) \<Rightarrow> (string \<times> json) list \<Rightarrow> json option" where
  "call_arguments loads fn =
     (case or_json (dict_get fn ''arguments'') (JStr ''{}'') of
        JStr s \<Rightarrow> Some (case loads s of None \<Rightarrow> JObj [] | Some v \<Rightarrow> v)
      | _ \<Rightarrow> None)"

definition call_function :: "json \<Rightarrow> ((string \<times> json) list \<times> (string \<times> json) list) option" where
  "call_function call =
     (case call of
        JObj c \<Rightarrow> map_option (Pair c) (as_dict_or_empty (dict_get c ''function''))
      | _ \<Rightarrow> None)"

definition anthropic_tool_use :: "(string \<Rightarrow> json option) \<Rightarrow> json \<Rightarrow> json option" where
  "anthropic_tool_use loads call =
     do { (c, fn) \<leftarrow> call_function call;
          args \<leftarrow> call_arguments loads fn;
          Some (JObj [(''type'', JStr ''tool_use''), (''id'', or_json (dict_get c ''id'') (JStr '''')),
                      (''name'', or_json (dict_get fn ''name'') (JStr '''')), (''input'', args)]) }"

definition text_block_of :: "json \<Rightarrow> json" where
  "text_block_of t = JObj [(''type'', JStr ''text''), (''text'', t)]"

text \<open>One message: the system text it gives and the wire messages it becomes.\<close>

definition anthropic_message ::
  "(string \<Rightarrow> json option) \<Rightarrow> (string \<times> json) list \<Rightarrow> (string list \<times> json list) option" where
  "anthropic_message loads m =
     (let role = dict_get m ''role''; content = dict_get m ''content''
      in if role = JStr ''system'' then map_option (\<lambda>t. (if t \<noteq> [] then [t] else [], [])) (content_text content)
         else if role = JStr ''tool'' then
           map_option (\<lambda>t. ([], [JObj [(''role'', JStr ''user''), (''content'', JList [JObj [(''type'', JStr ''tool_result''),
             (''tool_use_id'', or_json (dict_get m ''tool_call_id'') (JStr '''')), (''content'', JStr t)]])]]))
             (content_text content)
         else
           do { blocks \<leftarrow> (case content of
                  JStr s \<Rightarrow> Some (Inl s)
                | v \<Rightarrow> map_option (\<lambda>ps. Inr (map text_block_of (text_parts ps))) (iterate_or_empty v));
                calls \<leftarrow> iterate_or_empty (dict_get m ''tool_calls'');
                uses \<leftarrow> those (map (anthropic_tool_use loads) calls);
                _ \<leftarrow> (case role of JList _ \<Rightarrow> None | JObj _ \<Rightarrow> None | _ \<Rightarrow> Some ());
                Some ([], if role \<in> {JStr ''user'', JStr ''assistant''}
                  then [JObj [(''role'', role),
                    (''content'', if truthy (dict_get m ''tool_calls'')
                       then JList ((case blocks of Inl s \<Rightarrow> [text_block_of (JStr s)] | Inr bs \<Rightarrow> bs) @ uses)
                       else (case blocks of Inl s \<Rightarrow> JStr s | Inr bs \<Rightarrow> JList bs))]]
                  else []) })"

definition anthropic_messages_from_openai ::
  "(string \<Rightarrow> json option) \<Rightarrow> (string \<times> json) list list \<Rightarrow> (json list \<times> string option) option" where
  "anthropic_messages_from_openai loads messages =
     do { parts \<leftarrow> those (map (anthropic_message loads) messages);
          system \<leftarrow> join_strs [CHR ''\<newline>'', CHR ''\<newline>''] (map JStr (concat (map fst parts)));
          Some (concat (map snd parts), if system \<noteq> [] then Some system else None) }"

definition tool_declaration :: "string \<Rightarrow> json \<Rightarrow> json option" where
  "tool_declaration schema_key tool =
     (case (case tool of JObj t \<Rightarrow> dict_get t ''function'' | _ \<Rightarrow> JNull) of
        JObj fn \<Rightarrow> Some (JObj [(''name'', or_json (dict_get fn ''name'') (JStr '''')),
           (''description'', or_json (dict_get fn ''description'') (JStr '''')),
           (schema_key, or_json (dict_get fn ''parameters'') (JObj [(''type'', JStr ''object'')]))])
      | _ \<Rightarrow> None)"

definition anthropic_tools_from_openai :: "json list \<Rightarrow> json list" where
  "anthropic_tools_from_openai tools = List.map_filter (tool_declaration ''input_schema'') tools"

definition anthropic_wire ::
  "string \<Rightarrow> int \<Rightarrow> json list \<Rightarrow> bool \<Rightarrow> string option \<Rightarrow> json option \<Rightarrow> json list \<Rightarrow> (string \<times> json) list" where
  "anthropic_wire model max_tokens messages stream system temperature tools =
     [(''model'', JStr model), (''max_tokens'', JInt max_tokens), (''messages'', JList messages), (''stream'', JBool stream)] @
     (case system of None \<Rightarrow> [] | Some s \<Rightarrow> [(''system'', JStr s)]) @
     (case temperature of None \<Rightarrow> [] | Some t \<Rightarrow> [(''temperature'', t)]) @
     (if tools \<noteq> [] then [(''tools'', JList tools)] else [])"

definition anthropic_prepare_request ::
  "(string \<Rightarrow> json option) \<Rightarrow> (string \<times> json) list \<Rightarrow> string \<Rightarrow> bool \<Rightarrow> (string \<times> json) list option" where
  "anthropic_prepare_request loads body model stream =
     do { ms \<leftarrow> body_messages body;
          (messages, system) \<leftarrow> anthropic_messages_from_openai loads ms;
          max_tokens \<leftarrow> (case py_int (or_json (or_json (dict_get body ''max_tokens'') (dict_get body ''max_completion_tokens''))
                                         (JInt 1024)) of Inl _ \<Rightarrow> None | Inr n \<Rightarrow> Some n);
          raw_tools \<leftarrow> iterate_or_empty (dict_get body ''tools'');
          Some (anthropic_wire model max_tokens messages stream system (map_of body ''temperature'')
                  (anthropic_tools_from_openai raw_tools)) }"

text \<open>\<open>py_str\<close> is \<open>str\<close> on a value that is not a string.\<close>

definition text_of :: "(json \<Rightarrow> string) \<Rightarrow> json \<Rightarrow> string" where
  "text_of py_str v = (case v of JStr s \<Rightarrow> s | _ \<Rightarrow> py_str v)"

definition anthropic_parse_completion :: "(json \<Rightarrow> string) \<Rightarrow> (json \<Rightarrow> string) \<Rightarrow> json \<Rightarrow> canonical_completion option" where
  "anthropic_parse_completion dumps py_str r =
     (case r of
        JObj raw \<Rightarrow>
          do { blocks \<leftarrow> iterate_or_empty (dict_get raw ''content'');
               finish \<leftarrow> openai_finish_reason (dict_get raw ''stop_reason'');
               usage \<leftarrow> usage_from_anthropic (dict_get raw ''usage'') no_usage;
               (let dicts = List.map_filter (\<lambda>b. case b of JObj d \<Rightarrow> Some d | _ \<Rightarrow> None) blocks;
                    texts = map (\<lambda>d. text_of py_str (or_json (dict_get d ''text'') (JStr '''')))
                              (filter (\<lambda>d. dict_get d ''type'' = JStr ''text'') dicts);
                    calls = map (openai_tool_call dumps) (filter (\<lambda>d. dict_get d ''type'' = JStr ''tool_use'') dicts)
                in Some \<lparr>cc_model = or_json (dict_get raw ''model'') (JStr ''''), cc_content = JStr (concat texts),
                         cc_tool_calls = (if calls = [] then JNull else JList calls), cc_finish_reason = finish,
                         cc_usage = usage, cc_raw = None\<rparr>) }
      | _ \<Rightarrow> None)"

definition anthropic_adapter ::
  "(string \<Rightarrow> json option) \<Rightarrow> (json \<Rightarrow> string) \<Rightarrow> (json \<Rightarrow> string) \<Rightarrow> llm_adapter" where
  "anthropic_adapter loads dumps py_str =
     \<lparr>ad_provider = ''anthropic'', ad_prepare_request = anthropic_prepare_request loads,
      ad_parse_completion = anthropic_parse_completion dumps py_str\<rparr>"


section \<open>gemini.py\<close>

definition usage_from_metadata :: "json \<Rightarrow> canonical_usage \<Rightarrow> canonical_usage option" where
  "usage_from_metadata metadata previous =
     (if \<not> truthy metadata then Some previous
      else (case metadata of
        JObj u \<Rightarrow>
          do { cached_input \<leftarrow> int_or_zero (or_json (dict_get u ''cachedContentTokenCount'') (JInt (cu_cached_tokens previous)));
               i \<leftarrow> int_or_zero (or_json (dict_get u ''promptTokenCount'') (JInt (cu_input_tokens previous)));
               out_tokens \<leftarrow> int_or_zero (or_json (dict_get u ''candidatesTokenCount'') (JInt (cu_output_tokens previous)));
               Some \<lparr>cu_input_tokens = i, cu_output_tokens = out_tokens, cu_cached_tokens = cached_input\<rparr> }
      | _ \<Rightarrow> None))"

definition gemini_finish_reason :: "json \<Rightarrow> json option" where
  "gemini_finish_reason reason =
     (case or_json reason (JStr '''') of
        JList _ \<Rightarrow> None
      | JObj _ \<Rightarrow> None
      | key \<Rightarrow> Some (if key = JStr ''STOP'' then JStr ''stop''
                  else if key = JStr ''MAX_TOKENS'' then JStr ''length''
                  else if key \<in> {JStr ''SAFETY'', JStr ''RECITATION''} then JStr ''content_filter''
                  else JStr ''stop''))"

definition gemini_model_name :: "json \<Rightarrow> string option" where
  "gemini_model_name raw =
     (case or_json raw (JStr '''') of JStr m \<Rightarrow> normalize_gemini_model (Some m) | _ \<Rightarrow> None)"

definition gemini_tool_call :: "(json \<Rightarrow> string) \<Rightarrow> (json \<Rightarrow> string) \<Rightarrow> json \<Rightarrow> json option" where
  "gemini_tool_call dumps py_str fc =
     (case fc of
        JObj c \<Rightarrow> Some (JObj [(''id'', JStr (''call_'' @ text_of py_str (or_json (dict_get c ''name'') (JStr ''gemini'')))),
           (''type'', JStr ''function''),
           (''function'', JObj [(''name'', or_json (dict_get c ''name'') (JStr '''')),
              (''arguments'', JStr (dumps (or_json (dict_get c ''args'') (JObj []))))])])
      | _ \<Rightarrow> None)"

definition gemini_call_part :: "(string \<Rightarrow> json option) \<Rightarrow> json \<Rightarrow> json option" where
  "gemini_call_part loads call =
     do { (c, fn) \<leftarrow> call_function call;
          args \<leftarrow> call_arguments loads fn;
          Some (JObj [(''functionCall'', JObj [(''name'', or_json (dict_get fn ''name'') (JStr '''')), (''args'', args)])]) }"

definition gemini_message ::
  "(string \<Rightarrow> json option) \<Rightarrow> (string \<times> json) list \<Rightarrow> (string list \<times> json list) option" where
  "gemini_message loads m =
     (let role = dict_get m ''role''
      in do { text \<leftarrow> content_text (dict_get m ''content'');
              (if role = JStr ''system'' then Some (if text \<noteq> [] then [text] else [], [])
               else if role = JStr ''tool'' then
                 Some ([], [JObj [(''role'', JStr ''user''), (''parts'', JList [JObj [(''functionResponse'',
                   JObj [(''name'', or_json (or_json (dict_get m ''name'') (dict_get m ''tool_call_id'')) (JStr ''tool'')),
                         (''response'', JObj [(''content'', JStr text)])])]])]])
               else (case role of
                   JList _ \<Rightarrow> None
                 | JObj _ \<Rightarrow> None
                 | _ \<Rightarrow>
                   if role \<in> {JStr ''user'', JStr ''assistant''} then
                     do { calls \<leftarrow> iterate_or_empty (dict_get m ''tool_calls'');
                          call_parts \<leftarrow> those (map (gemini_call_part loads) calls);
                          (let parts = (if text \<noteq> [] then [JObj [(''text'', JStr text)]] else []) @ call_parts
                           in Some ([], [JObj [(''role'', JStr (if role = JStr ''assistant'' then ''model'' else ''user'')),
                                (''parts'', JList (if parts \<noteq> [] then parts else [JObj [(''text'', JStr '''')]]))]])) }
                   else Some ([], []))) })"

definition gemini_contents_from_openai ::
  "(string \<Rightarrow> json option) \<Rightarrow> (string \<times> json) list list \<Rightarrow> (string option \<times> json list) option" where
  "gemini_contents_from_openai loads messages =
     do { parts \<leftarrow> those (map (gemini_message loads) messages);
          system \<leftarrow> join_strs [CHR ''\<newline>'', CHR ''\<newline>''] (map JStr (concat (map fst parts)));
          Some (if system \<noteq> [] then Some system else None, concat (map snd parts)) }"

definition gemini_tools_from_openai :: "json list \<Rightarrow> json list" where
  "gemini_tools_from_openai tools = List.map_filter (tool_declaration ''parameters'') tools"

definition generation_config :: "(string \<times> json) list \<Rightarrow> (string \<times> json) list" where
  "generation_config body =
     (let max_tokens = or_json (dict_get body ''max_tokens'') (dict_get body ''max_completion_tokens'')
      in (case map_of body ''temperature'' of None \<Rightarrow> [] | Some t \<Rightarrow> [(''temperature'', t)]) @
         (if max_tokens \<noteq> JNull then [(''maxOutputTokens'', max_tokens)] else []))"

definition gemini_wire :: "json list \<Rightarrow> string option \<Rightarrow> (string \<times> json) list \<Rightarrow> json list \<Rightarrow> (string \<times> json) list" where
  "gemini_wire contents system config tools =
     [(''contents'', JList contents)] @
     (case system of None \<Rightarrow> [] | Some s \<Rightarrow> [(''systemInstruction'', JObj [(''parts'', JList [JObj [(''text'', JStr s)]])])]) @
     (if config \<noteq> [] then [(''generationConfig'', JObj config)] else []) @
     (if tools \<noteq> [] then [(''tools'', JList [JObj [(''functionDeclarations'', JList tools)]])] else [])"

definition gemini_prepare_request ::
  "(string \<Rightarrow> json option) \<Rightarrow> (string \<times> json) list \<Rightarrow> string \<Rightarrow> bool \<Rightarrow> (string \<times> json) list option" where
  "gemini_prepare_request loads body model stream =
     do { ms \<leftarrow> body_messages body;
          (system, contents) \<leftarrow> gemini_contents_from_openai loads ms;
          raw_tools \<leftarrow> iterate_or_empty (dict_get body ''tools'');
          Some (gemini_wire contents system (generation_config body) (gemini_tools_from_openai raw_tools)) }"

definition candidate_parts :: "(string \<times> json) list \<Rightarrow> json list option" where
  "candidate_parts candidate =
     do { content \<leftarrow> as_dict_or_empty (dict_get candidate ''content'');
          iterate_or_empty (dict_get content ''parts'') }"

text \<open>One part of a candidate: a text (\<open>Inl\<close>), a tool call (\<open>Inr\<close>), or neither.\<close>

definition gemini_part :: "(json \<Rightarrow> string) \<Rightarrow> (json \<Rightarrow> string) \<Rightarrow> json \<Rightarrow> (string + json) list option" where
  "gemini_part dumps py_str part =
     (case part of
        JObj p \<Rightarrow>
          if truthy (dict_get p ''text'') then Some [Inl (text_of py_str (dict_get p ''text''))]
          else if truthy (dict_get p ''functionCall'')
          then map_option (\<lambda>c. [Inr c]) (gemini_tool_call dumps py_str (dict_get p ''functionCall''))
          else Some []
      | _ \<Rightarrow> Some [])"

definition gemini_candidate :: "(json \<Rightarrow> string) \<Rightarrow> (json \<Rightarrow> string) \<Rightarrow> (string \<times> json) list \<Rightarrow> (json \<times> (string + json) list) option" where
  "gemini_candidate dumps py_str candidate =
     do { finish \<leftarrow> gemini_finish_reason (dict_get candidate ''finishReason'');
          parts \<leftarrow> candidate_parts candidate;
          items \<leftarrow> those (map (gemini_part dumps py_str) parts);
          Some (finish, concat items) }"

definition gemini_parse_completion :: "(json \<Rightarrow> string) \<Rightarrow> (json \<Rightarrow> string) \<Rightarrow> json \<Rightarrow> canonical_completion option" where
  "gemini_parse_completion dumps py_str r =
     (case r of
        JObj raw \<Rightarrow>
          do { candidates \<leftarrow> iterate_or_empty (dict_get raw ''candidates'');
               parsed \<leftarrow> those (map (gemini_candidate dumps py_str)
                 (List.map_filter (\<lambda>c. case c of JObj d \<Rightarrow> Some d | _ \<Rightarrow> None) candidates));
               model \<leftarrow> gemini_model_name (dict_get raw ''modelVersion'');
               usage \<leftarrow> usage_from_metadata (dict_get raw ''usageMetadata'') no_usage;
               (let items = concat (map snd parsed);
                    texts = List.map_filter (case_sum Some (\<lambda>_. None)) items;
                    calls = List.map_filter (case_sum (\<lambda>_. None) Some) items
                in Some \<lparr>cc_model = JStr model, cc_content = JStr (concat texts),
                         cc_tool_calls = (if calls = [] then JNull else JList calls),
                         cc_finish_reason = (if parsed = [] then JStr ''stop'' else fst (last parsed)),
                         cc_usage = usage, cc_raw = None\<rparr>) }
      | _ \<Rightarrow> None)"

definition gemini_adapter ::
  "(string \<Rightarrow> json option) \<Rightarrow> (json \<Rightarrow> string) \<Rightarrow> (json \<Rightarrow> string) \<Rightarrow> llm_adapter" where
  "gemini_adapter loads dumps py_str =
     \<lparr>ad_provider = ''gemini'', ad_prepare_request = gemini_prepare_request loads,
      ad_parse_completion = gemini_parse_completion dumps py_str\<rparr>"

section \<open>The registry\<close>

definition get_adapter ::
  "(string \<Rightarrow> json option) \<Rightarrow> (json \<Rightarrow> string) \<Rightarrow> (json \<Rightarrow> string) \<Rightarrow> string \<Rightarrow> llm_adapter option" where
  "get_adapter loads dumps py_str provider =
     (if provider = ''openai'' then Some openai_adapter
      else if provider = ''anthropic'' then Some (anthropic_adapter loads dumps py_str)
      else if provider = ''gemini'' then Some (gemini_adapter loads dumps py_str)
      else None)"


section \<open>Lemmas\<close>

lemma or_json_simps [simp]:
  "or_json (JStr []) d = d" "or_json JNull d = d" "or_json (JList []) d = d" "or_json (JObj []) d = d"
  "or_json (JList (x # xs)) d = JList (x # xs)" "or_json (JObj (kv # kvs)) d = JObj (kv # kvs)"
  by (simp_all add: or_json_def)

lemma or_json_truthy: "truthy a \<Longrightarrow> or_json a b = a"
  by (simp add: or_json_def)

lemma int_or_zero_JInt [simp]: "int_or_zero (JInt n) = Some n"
  by (simp add: int_or_zero_def or_json_def)

lemma int_or_zero_JNull [simp]: "int_or_zero JNull = Some 0"
  by (simp add: int_or_zero_def)

lemma usage_from_rendered: "usage_from (case usage_dict u of JObj kvs \<Rightarrow> kvs) = Some u"
  by (cases u) (auto simp: usage_from_def usage_dict_def as_dict_or_empty_def)

lemma usage_dict_JObj: "\<exists>kv kvs. usage_dict u = JObj (kv # kvs)"
  by (simp add: usage_dict_def)

text \<open>The completions the adapters build themselves: no raw payload, text content, a non-empty reason.\<close>

definition rendered_completion :: "canonical_completion \<Rightarrow> bool" where
  "rendered_completion c \<longleftrightarrow>
     cc_raw c = None \<and> (\<exists>m. cc_model c = JStr m) \<and> (\<exists>t. cc_content c = JStr t) \<and>
     (cc_tool_calls c = JNull \<or> (\<exists>x xs. cc_tool_calls c = JList (x # xs))) \<and> truthy (cc_finish_reason c)"

lemma parse_rendered:
  assumes "rendered_completion c"
  shows "openai_parse_completion (JObj (completion_payload now_ms c)) = Some (c\<lparr>cc_raw := Some (completion_payload now_ms c)\<rparr>)"
proof -
  obtain m t where mt: "cc_model c = JStr m" "cc_content c = JStr t" using assms by (auto simp: rendered_completion_def)
  have raw: "cc_raw c = None" and fin: "truthy (cc_finish_reason c)"
    and calls: "cc_tool_calls c = JNull \<or> (\<exists>x xs. cc_tool_calls c = JList (x # xs))"
    using assms by (auto simp: rendered_completion_def)
  obtain kv kvs where u: "usage_dict (cc_usage c) = JObj (kv # kvs)" using usage_dict_JObj by blast
  have us: "usage_from (kv # kvs) = Some (cc_usage c)" using usage_from_rendered [of "cc_usage c"] u by simp
  have content: "message_content ([(''role'', JStr ''assistant''), (''content'', or_json (cc_content c) JNull)] @ tc) = Some (cc_content c)"
    for tc using mt by (cases t) (simp_all add: message_content_def or_json_def)
  have model: "or_json (cc_model c) (JStr '''') = cc_model c" using mt by (cases m) (simp_all add: or_json_def)
  let ?tc = "if truthy (cc_tool_calls c) then [(''tool_calls'', cc_tool_calls c)] else []"
  have tool: "dict_get ([(''role'', JStr ''assistant''), (''content'', or_json (cc_content c) JNull)] @ ?tc) ''tool_calls'' = cc_tool_calls c"
    using calls by auto
  show ?thesis
    using raw fin u us content [of ?tc] model tool
    by (simp add: openai_parse_completion_def completion_payload_def as_dict_or_empty_def or_json_truthy)
qed

lemma finish_reason_truthy:
  "openai_finish_reason v = Some f \<Longrightarrow> truthy f" "gemini_finish_reason v = Some f \<Longrightarrow> truthy f"
  by (cases v; auto simp: openai_finish_reason_def gemini_finish_reason_def or_json_def split: if_splits)+

lemma anthropic_rendered:
  assumes "anthropic_parse_completion dumps py_str (JObj kvs) = Some c" "dict_get kvs ''model'' = JStr m"
  shows "rendered_completion c"
proof -
  obtain blocks finish usage where p: "openai_finish_reason (dict_get kvs ''stop_reason'') = Some finish"
    "c = (let dicts = List.map_filter (\<lambda>b. case b of JObj d \<Rightarrow> Some d | _ \<Rightarrow> None) blocks;
              texts = map (\<lambda>d. text_of py_str (or_json (dict_get d ''text'') (JStr '''')))
                        (filter (\<lambda>d. dict_get d ''type'' = JStr ''text'') dicts);
              calls = map (openai_tool_call dumps) (filter (\<lambda>d. dict_get d ''type'' = JStr ''tool_use'') dicts)
          in \<lparr>cc_model = or_json (JStr m) (JStr ''''), cc_content = JStr (concat texts),
              cc_tool_calls = (if calls = [] then JNull else JList calls), cc_finish_reason = finish,
              cc_usage = usage, cc_raw = None\<rparr>)"
    using assms by (auto simp: anthropic_parse_completion_def Let_def bind_eq_Some_conv)
  have shape: "(if cs = [] then JNull else JList cs) = JNull \<or> (\<exists>x xs. (if cs = [] then JNull else JList cs) = JList (x # xs))"
    for cs :: "json list" by (cases cs) simp_all
  have model: "\<exists>s. or_json (JStr m) (JStr '''') = JStr s" by (simp add: or_json_def)
  from finish_reason_truthy(1) [OF p(1)] p(2) shape model show ?thesis
    by (simp only: rendered_completion_def Let_def canonical_completion.select_convs) blast
qed

lemma gemini_candidate_finish: "gemini_candidate dumps py_str d = Some p \<Longrightarrow> truthy (fst p)"
  by (auto simp: gemini_candidate_def bind_eq_Some_conv dest: finish_reason_truthy(2))

lemma gemini_candidates_finish:
  "those (map (gemini_candidate dumps py_str) ds) = Some ps \<Longrightarrow> p \<in> set ps \<Longrightarrow> truthy (fst p)"
  by (induction ds arbitrary: ps) (auto split: option.splits dest: gemini_candidate_finish)

lemma gemini_rendered:
  assumes "gemini_parse_completion dumps py_str r = Some c"
  shows "rendered_completion c"
proof -
  obtain kvs candidates parsed model usage where p: "r = JObj kvs"
    "those (map (gemini_candidate dumps py_str) (List.map_filter (\<lambda>c. case c of JObj d \<Rightarrow> Some d | _ \<Rightarrow> None) candidates)) = Some parsed"
    "c = (let items = concat (map snd parsed);
              texts = List.map_filter (case_sum Some (\<lambda>_. None)) items;
              calls = List.map_filter (case_sum (\<lambda>_. None) Some) items
          in \<lparr>cc_model = JStr model, cc_content = JStr (concat texts),
              cc_tool_calls = (if calls = [] then JNull else JList calls),
              cc_finish_reason = (if parsed = [] then JStr ''stop'' else fst (last parsed)),
              cc_usage = usage, cc_raw = None\<rparr>)"
    using assms by (cases r) (auto simp: gemini_parse_completion_def Let_def bind_eq_Some_conv)
  have shape: "(if cs = [] then JNull else JList cs) = JNull \<or> (\<exists>x xs. (if cs = [] then JNull else JList cs) = JList (x # xs))"
    for cs :: "json list" by (cases cs) simp_all
  have "truthy (if parsed = [] then JStr ''stop'' else fst (last parsed))"
    using gemini_candidates_finish [OF p(2)] by simp
  with p(3) shape show ?thesis
    by (simp only: rendered_completion_def Let_def canonical_completion.select_convs) blast
qed


lemma those_filter_silent:
  assumes "those (map f ms) = Some ps" "\<forall>m \<in> set ms. P m \<or> (\<forall>q. f m = Some q \<longrightarrow> q = ([], []))"
  shows "\<exists>qs. those (map f (filter P ms)) = Some qs \<and> concat (map fst qs) = concat (map fst ps) \<and>
    concat (map snd qs) = concat (map snd ps)"
  using assms
proof (induction ms arbitrary: ps)
  case (Cons m ms)
  then obtain p ps' where p: "f m = Some p" "those (map f ms) = Some ps'" "ps = p # ps'"
    by (auto split: option.splits)
  with Cons obtain qs where "those (map f (filter P ms)) = Some qs" "concat (map fst qs) = concat (map fst ps')"
    "concat (map snd qs) = concat (map snd ps')" by auto
  with p Cons(3) show ?case by (cases p; cases "P m") auto
qed simp

definition is_developer :: "json \<Rightarrow> bool" where
  "is_developer m = (case m of JObj kvs \<Rightarrow> dict_get kvs ''role'' = JStr ''developer'' | _ \<Rightarrow> False)"

definition without_developer :: "(string \<times> json) list \<Rightarrow> (string \<times> json) list" where
  "without_developer body =
     (case dict_get body ''messages'' of
        JList ms \<Rightarrow> dict_put body ''messages'' (JList (filter (\<lambda>m. \<not> is_developer m) ms))
      | _ \<Rightarrow> body)"

lemma as_dict_messages_filter:
  "those (map (\<lambda>m. case m of JObj kvs \<Rightarrow> Some kvs | _ \<Rightarrow> None) ms) = Some ds \<Longrightarrow>
   those (map (\<lambda>m. case m of JObj kvs \<Rightarrow> Some kvs | _ \<Rightarrow> None) (filter (\<lambda>m. \<not> is_developer m) ms)) =
     Some (filter (\<lambda>d. dict_get d ''role'' \<noteq> JStr ''developer'') ds)"
  by (induction ms arbitrary: ds) (auto simp: is_developer_def split: option.splits json.splits)

lemma without_developer_messages:
  assumes "body_messages body = Some ds"
  shows "body_messages (without_developer body) = Some (filter (\<lambda>d. dict_get d ''role'' \<noteq> JStr ''developer'') ds)"
proof (cases "truthy (dict_get body ''messages'')")
  case True
  then obtain ms where ms: "dict_get body ''messages'' = JList ms"
    "those (map (\<lambda>m. case m of JObj kvs \<Rightarrow> Some kvs | _ \<Rightarrow> None) ms) = Some ds"
    using assms by (auto simp: body_messages_def split: json.splits)
  from as_dict_messages_filter [OF ms(2)] ms(1) show ?thesis
    by (cases "filter (\<lambda>m. \<not> is_developer m) ms = []")
       (simp_all add: body_messages_def without_developer_def dict_get_put del: filter_empty_conv)
next
  case False
  then show ?thesis using assms
    by (cases "dict_get body ''messages''") (auto simp: body_messages_def without_developer_def dict_get_put)
qed

lemma without_developer_other [simp]:
  "k \<noteq> ''messages'' \<Longrightarrow> dict_get (without_developer body) k = dict_get body k"
  "k \<noteq> ''messages'' \<Longrightarrow> map_of (without_developer body) k = map_of body k"
proof -
  have "k \<noteq> ''messages'' \<Longrightarrow> map_of (dict_put body ''messages'' v) k = map_of body k" for v
    by (induction body) auto
  then show "k \<noteq> ''messages'' \<Longrightarrow> map_of (without_developer body) k = map_of body k"
    by (simp add: without_developer_def split: json.split)
  then show "k \<noteq> ''messages'' \<Longrightarrow> dict_get (without_developer body) k = dict_get body k"
    by (simp add: dict_get_def)
qed

lemma developer_silent:
  assumes "dict_get m ''role'' = JStr ''developer''"
  shows "anthropic_message loads m = Some q \<Longrightarrow> q = ([], [])" "gemini_message loads m = Some q \<Longrightarrow> q = ([], [])"
  using assms by (auto simp: anthropic_message_def gemini_message_def Let_def bind_eq_Some_conv)

lemma anthropic_without_developer:
  assumes "anthropic_messages_from_openai loads ds = Some out"
  shows "anthropic_messages_from_openai loads (filter (\<lambda>d. dict_get d ''role'' \<noteq> JStr ''developer'') ds) = Some out"
proof -
  obtain ps where ps: "those (map (anthropic_message loads) ds) = Some ps"
    using assms by (auto simp: anthropic_messages_from_openai_def bind_eq_Some_conv)
  have "\<forall>d \<in> set ds. dict_get d ''role'' \<noteq> JStr ''developer'' \<or> (\<forall>q. anthropic_message loads d = Some q \<longrightarrow> q = ([], []))"
    using developer_silent(1) by blast
  from those_filter_silent [OF ps this] ps assms show ?thesis
    by (auto simp: anthropic_messages_from_openai_def bind_eq_Some_conv)
qed

lemma gemini_without_developer:
  assumes "gemini_contents_from_openai loads ds = Some out"
  shows "gemini_contents_from_openai loads (filter (\<lambda>d. dict_get d ''role'' \<noteq> JStr ''developer'') ds) = Some out"
proof -
  obtain ps where ps: "those (map (gemini_message loads) ds) = Some ps"
    using assms by (auto simp: gemini_contents_from_openai_def bind_eq_Some_conv)
  have "\<forall>d \<in> set ds. dict_get d ''role'' \<noteq> JStr ''developer'' \<or> (\<forall>q. gemini_message loads d = Some q \<longrightarrow> q = ([], []))"
    using developer_silent(2) by blast
  from those_filter_silent [OF ps this] ps assms show ?thesis
    by (auto simp: gemini_contents_from_openai_def bind_eq_Some_conv)
qed

lemma wire_forgets:
  assumes "k \<in> {''response_format'', ''tool_choice'', ''stop''}"
  shows "map_of (anthropic_wire model mt ms stream system temperature tools) k = None"
    and "map_of (gemini_wire contents system config tools) k = None"
  using assms by (auto simp: anthropic_wire_def gemini_wire_def split: option.split)

lemma prepared_wire:
  "anthropic_prepare_request loads body model stream = Some w \<Longrightarrow>
     \<exists>mt ms system temperature tools. w = anthropic_wire model mt ms stream system temperature tools"
  "gemini_prepare_request loads body model stream = Some w \<Longrightarrow>
     \<exists>contents system config tools. w = gemini_wire contents system config tools"
  by (simp_all only: anthropic_prepare_request_def gemini_prepare_request_def bind_eq_Some_conv split_paired_Ex case_prod_conv option.inject)
     blast+

section \<open>Properties\<close>

text \<open>
  Rendering loses nothing: what an adapter parsed from a provider's answer (Anthropic with a text model
  name, or Gemini), rendered in the OpenAI shape and parsed again as an OpenAI answer, is the same
  completion, with the same content, tool calls, finish reason and token counts; and the answer of an OpenAI
  upstream reaches the client verbatim.
\<close>

theorem rendering_round_trip:
  assumes "(\<exists>kvs m. anthropic_parse_completion dumps py_str (JObj kvs) = Some c \<and> dict_get kvs ''model'' = JStr m) \<or>
      gemini_parse_completion dumps py_str r = Some c"
  shows "openai_parse_completion (JObj (completion_payload now_ms c)) = Some (c\<lparr>cc_raw := Some (completion_payload now_ms c)\<rparr>) \<and>
    (\<forall>raw c'. openai_parse_completion (JObj raw) = Some c' \<longrightarrow> completion_payload now_ms c' = raw)"
proof -
  have "rendered_completion c" using assms anthropic_rendered gemini_rendered by blast
  moreover have "completion_payload now_ms c' = raw" if "openai_parse_completion (JObj raw) = Some c'" for raw c'
    using that by (auto simp: openai_parse_completion_def completion_payload_def bind_eq_Some_conv split: json.splits list.splits)
  ultimately show ?thesis using parse_rendered by blast
qed

theorem rendering_round_trip_witness:
  "\<exists>c. gemini_parse_completion (\<lambda>_. []) (\<lambda>_. []) (JObj []) = Some c \<and>
     openai_parse_completion (JObj (completion_payload 0 c)) = Some (c\<lparr>cc_raw := Some (completion_payload 0 c)\<rparr>)"
proof -
  have "\<exists>c. gemini_parse_completion (\<lambda>_. []) (\<lambda>_. []) (JObj []) = Some c"
    by (simp add: gemini_parse_completion_def iterate_or_empty_def List.map_filter_def gemini_model_name_def or_json_def
        normalize_gemini_model_def usage_from_metadata_def)
  then obtain c where c: "gemini_parse_completion (\<lambda>_. []) (\<lambda>_. []) (JObj []) = Some c" by blast
  from rendering_round_trip [OF disjI2, OF c] c show ?thesis by blast
qed

text \<open>
  Translation to another provider forgets instructions: the wire request for Anthropic and for Gemini is the
  same with and without the developer messages of the conversation, and it has no response format, tool
  choice or stop sequences, although the eligibility check lets such requests cross providers.
\<close>

theorem translation_forgets_instructions:
  assumes "anthropic_prepare_request loads body model stream = Some wa" "gemini_prepare_request loads body model stream = Some wg"
  shows "anthropic_prepare_request loads (without_developer body) model stream = Some wa \<and>
    gemini_prepare_request loads (without_developer body) model stream = Some wg \<and>
    (\<forall>k \<in> {''response_format'', ''tool_choice'', ''stop''}. map_of wa k = None \<and> map_of wg k = None)"
proof -
  obtain ds outa where a: "body_messages body = Some ds" "anthropic_messages_from_openai loads ds = Some outa"
    using assms(1) by (auto simp: anthropic_prepare_request_def bind_eq_Some_conv)
  obtain outg where g: "gemini_contents_from_openai loads ds = Some outg"
    using assms(2) a(1) by (auto simp: gemini_prepare_request_def bind_eq_Some_conv)
  have "anthropic_prepare_request loads (without_developer body) model stream = Some wa"
    using assms(1) a anthropic_without_developer [OF a(2)] without_developer_messages [OF a(1)]
    by (simp add: anthropic_prepare_request_def)
  moreover have "gemini_prepare_request loads (without_developer body) model stream = Some wg"
    using assms(2) a(1) g gemini_without_developer [OF g] without_developer_messages [OF a(1)]
    by (simp add: gemini_prepare_request_def generation_config_def)
  moreover have "map_of wa k = None \<and> map_of wg k = None" if "k \<in> {''response_format'', ''tool_choice'', ''stop''}" for k
    using prepared_wire(1) [OF assms(1)] prepared_wire(2) [OF assms(2)] wire_forgets [OF that] by (elim exE) (simp only:)
  ultimately show ?thesis by simp
qed


definition developer_body :: "(string \<times> json) list" where
  "developer_body =
     [(''messages'', JList [JObj [(''role'', JStr ''developer''), (''content'', JStr ''answer in JSON'')],
                            JObj [(''role'', JStr ''user''), (''content'', JStr ''hi'')]]),
      (''response_format'', JObj [(''type'', JStr ''json_object'')])]"

theorem translation_forgets_instructions_witness:
  "\<exists>wa wg. anthropic_prepare_request (\<lambda>_. None) developer_body ''m'' False = Some wa \<and>
     gemini_prepare_request (\<lambda>_. None) developer_body ''m'' False = Some wg \<and>
     anthropic_prepare_request (\<lambda>_. None) (without_developer developer_body) ''m'' False = Some wa"
proof -
  have "\<exists>wa. anthropic_prepare_request (\<lambda>_. None) developer_body ''m'' False = Some wa"
    by (simp add: anthropic_prepare_request_def developer_body_def body_messages_def anthropic_messages_from_openai_def
        anthropic_message_def Let_def iterate_or_empty_def join_strs_def or_json_def)
  moreover have "\<exists>wg. gemini_prepare_request (\<lambda>_. None) developer_body ''m'' False = Some wg"
    by (simp add: gemini_prepare_request_def developer_body_def body_messages_def gemini_contents_from_openai_def
        gemini_message_def Let_def iterate_or_empty_def join_strs_def content_text_def)
  ultimately obtain wa wg where w: "anthropic_prepare_request (\<lambda>_. None) developer_body ''m'' False = Some wa"
    "gemini_prepare_request (\<lambda>_. None) developer_body ''m'' False = Some wg" by blast
  from translation_forgets_instructions [OF w] w show ?thesis by blast
qed

end
