(* ===== verification/Trim.thy ===== *)
theory Trim
  imports Json
begin

text \<open>
  \<open>proxy/trim.py\<close>, the body transform of the token-trim lever: white-space collapsing, the window
  of recent turns and the removal of repeated blocks. A call that raises (a message that is not an
  object, an unhashable role, a bad \<open>keep_last_turns\<close>) is \<open>None\<close>. The policy side of the lever is in
  theory \<open>Policies\<close>.
\<close>

section \<open>_collapse_text\<close>

text \<open>\<open>re.sub\<close> with a pattern \<open>[class]{n,}\<close>: maximal runs of at least \<open>n\<close> characters become \<open>rep\<close>.\<close>

function sub_runs :: "(char \<Rightarrow> bool) \<Rightarrow> nat \<Rightarrow> string \<Rightarrow> string \<Rightarrow> string" where
  "sub_runs P n rep [] = []"
| "sub_runs P n rep (c # cs) =
     (if P c
      then (let run = c # takeWhile P cs
            in (if n \<le> length run then rep else run) @ sub_runs P n rep (dropWhile P cs))
      else c # sub_runs P n rep cs)"
  by pat_completeness auto
termination
  by (relation "measure (\<lambda>(P, n, rep, s). length s)") (auto simp: le_imp_less_Suc length_dropWhile_le)

definition is_blank :: "char \<Rightarrow> bool" where
  "is_blank c = (c = CHR '' '' \<or> c = CHR 0x09)"

definition is_newline :: "char \<Rightarrow> bool" where
  "is_newline c = (c = CHR 0x0A)"

definition collapse_text :: "string \<Rightarrow> string" where
  "collapse_text text = sub_runs is_newline 3 [CHR 0x0A, CHR 0x0A] (sub_runs is_blank 2 '' '' text)"

section \<open>trim_messages\<close>

definition default_keep_last_turns :: int where
  "default_keep_last_turns = 12"

type_synonym message = "(string \<times> json) list"

fun as_message :: "json \<Rightarrow> message option" where
  "as_message (JObj kvs) = Some kvs"
| "as_message _ = None"

fun as_messages :: "json list \<Rightarrow> message list option" where
  "as_messages [] = Some []"
| "as_messages (m # ms) =
     (case as_message m of None \<Rightarrow> None | Some kvs \<Rightarrow> map_option ((#) kvs) (as_messages ms))"

definition is_system :: "message \<Rightarrow> bool" where
  "is_system m = (dict_get m ''role'' = JStr ''system'')"

fun hashable :: "json \<Rightarrow> bool" where
  "hashable (JList _) = False"
| "hashable (JObj _) = False"
| "hashable _ = True"

definition window_turns :: "int \<Rightarrow> 'a list \<Rightarrow> 'a list" where
  "window_turns keep_last rest =
     (if 0 < keep_last \<and> keep_last < int (length rest)
      then drop (length rest - nat keep_last) rest else rest)"

text \<open>The loop over \<open>system + windowed_rest\<close>, with the set of keys seen so far.\<close>

fun trim_loop ::
  "bool \<Rightarrow> bool \<Rightarrow> (json \<times> string) list \<Rightarrow> message list \<Rightarrow> message list option" where
  "trim_loop do_dedupe do_collapse seen [] = Some []"
| "trim_loop do_dedupe do_collapse seen (m # ms) =
     (case dict_get m ''content'' of
        JStr content \<Rightarrow>
          (let text = (if do_collapse then collapse_text content else content);
               new_m = (if text \<noteq> content then dict_put m ''content'' (JStr text) else m);
               role = dict_get_default m ''role'' (JStr '''')
           in if do_dedupe
              then if \<not> hashable role then None
                   else if (role, text) \<in> set seen then trim_loop do_dedupe do_collapse seen ms
                   else map_option ((#) new_m) (trim_loop do_dedupe do_collapse ((role, text) # seen) ms)
              else map_option ((#) new_m) (trim_loop do_dedupe do_collapse seen ms))
      | _ \<Rightarrow> map_option ((#) m) (trim_loop do_dedupe do_collapse seen ms))"

definition trim_messages ::
  "json list \<Rightarrow> (string \<times> json) list \<Rightarrow> (json list \<times> bool) option" where
  "trim_messages messages params =
     (if messages = [] then Some (messages, False)
      else
        (case py_int (dict_get_default params ''keep_last_turns'' (JInt default_keep_last_turns)) of
           Inl _ \<Rightarrow> None
         | Inr keep_last \<Rightarrow>
             (case as_messages messages of
                None \<Rightarrow> None
              | Some ms \<Rightarrow>
                  (let do_dedupe = truthy (dict_get_default params ''dedupe'' (JBool True));
                       do_collapse = truthy (dict_get_default params ''collapse_whitespace'' (JBool True));
                       system = filter is_system ms;
                       rest = filter (\<lambda>m. \<not> is_system m) ms
                   in map_option (\<lambda>out. (map JObj out, map JObj out \<noteq> messages))
                        (trim_loop do_dedupe do_collapse [] (system @ window_turns keep_last rest))))))"

definition apply_trim ::
  "(string \<times> json) list \<Rightarrow> (string \<times> json) list \<Rightarrow> ((string \<times> json) list \<times> bool) option" where
  "apply_trim body params =
     (case dict_get body ''messages'' of
        JList messages \<Rightarrow>
          (case trim_messages messages params of
             None \<Rightarrow> None
           | Some (trimmed, changed) \<Rightarrow>
               if changed then Some (dict_put body ''messages'' (JList trimmed), True)
               else Some (body, False))
      | _ \<Rightarrow> Some (body, False))"

section \<open>Collapsing is idempotent\<close>

declare sub_runs.simps [simp del]

lemma sub_runs_Nil [simp]: "sub_runs P n rep [] = []"
  by (simp add: sub_runs.simps)

lemma sub_runs_not: "\<not> P c \<Longrightarrow> sub_runs P n rep (c # cs) = c # sub_runs P n rep cs"
  by (simp add: sub_runs.simps)

text \<open>\<open>short_runs\<close>: every maximal run of \<open>P\<close> is shorter than \<open>n\<close>.\<close>

function short_runs :: "(char \<Rightarrow> bool) \<Rightarrow> nat \<Rightarrow> string \<Rightarrow> bool" where
  "short_runs P n [] = True"
| "short_runs P n (c # cs) =
     (if P c then length (c # takeWhile P cs) < n \<and> short_runs P n (dropWhile P cs)
      else short_runs P n cs)"
  by pat_completeness auto
termination
  by (relation "measure (\<lambda>(P, n, s). length s)") (auto simp: le_imp_less_Suc length_dropWhile_le)

declare short_runs.simps [simp del]

lemma short_runs_Nil [simp]: "short_runs P n []"
  by (simp add: short_runs.simps)

lemma sub_runs_short: "short_runs P n s \<Longrightarrow> sub_runs P n rep s = s"
proof (induction P n s rule: short_runs.induct)
  case (2 P n c cs)
  show ?case
  proof (cases "P c")
    case True
    with 2 have "sub_runs P n rep (dropWhile P cs) = dropWhile P cs" "length (c # takeWhile P cs) < n"
      by (simp_all add: short_runs.simps)
    with True show ?thesis by (simp add: sub_runs.simps(2) [of P n rep c cs] Let_def)
  next
    case False
    with 2 show ?thesis by (simp add: short_runs.simps sub_runs_not)
  qed
qed simp

lemma short_runs_append:
  assumes "\<forall>c \<in> set rs. P c" "length rs < n" "\<forall>c cs. ys = c # cs \<longrightarrow> \<not> P c" "short_runs P n ys"
  shows "short_runs P n (rs @ ys)"
proof (cases rs)
  case Nil
  with assms show ?thesis by simp
next
  case (Cons r rs')
  have "takeWhile P (rs' @ ys) = rs'" "dropWhile P (rs' @ ys) = ys"
    using assms(1,3) Cons by (cases ys; auto simp: takeWhile_append dropWhile_append)+
  with assms Cons show ?thesis by (simp add: short_runs.simps)
qed

lemma sub_runs_hd: "\<not> P c \<Longrightarrow> \<exists>cs'. sub_runs P n rep (c # cs) = c # cs'"
  by (simp add: sub_runs_not)

lemma sub_runs_makes_short:
  assumes "\<forall>c \<in> set rep. P c" "length rep < n"
  shows "short_runs P n (sub_runs P n rep s)"
  using assms
proof (induction P n rep s rule: sub_runs.induct)
  case (2 P n rep c cs)
  show ?case
  proof (cases "P c")
    case False
    with 2 show ?thesis by (simp add: sub_runs_not short_runs.simps)
  next
    case True
    let ?run = "c # takeWhile P cs" and ?rest = "sub_runs P n rep (dropWhile P cs)"
    let ?r = "if n \<le> length ?run then rep else ?run"
    have eq: "sub_runs P n rep (c # cs) = ?r @ ?rest"
      using True by (simp add: sub_runs.simps(2) [of P n rep c cs] Let_def)
    have "\<forall>c \<in> set ?r. P c" using True 2 by (auto dest: set_takeWhileD)
    moreover have "length ?r < n" using 2 by auto
    moreover have "\<forall>d ds. ?rest = d # ds \<longrightarrow> \<not> P d"
    proof (cases "dropWhile P cs")
      case Nil
      then show ?thesis by (simp only: sub_runs_Nil) simp
    next
      case (Cons e es)
      then have "\<not> P e" by (metis hd_dropWhile list.distinct(1) list.sel(1))
      then show ?thesis using Cons by (simp add: sub_runs_not)
    qed
    moreover have "short_runs P n ?rest" using True 2 by simp
    ultimately show ?thesis unfolding eq by (rule short_runs_append)
  qed
qed simp

text \<open>Replacing runs of \<open>Q\<close> by characters of \<open>Q\<close> leaves runs of a disjoint class as they are.\<close>

lemma short_runs_sub_runs_disjoint:
  assumes "short_runs P n s" "\<forall>c. P c \<longrightarrow> \<not> Q c" "\<forall>c \<in> set rep. Q c" "rep \<noteq> []"
  shows "short_runs P n (sub_runs Q m rep s)"
proof -
  have skip: "short_runs P n (r @ ys) \<longleftrightarrow> short_runs P n ys" if "\<forall>c \<in> set r. \<not> P c" for r ys
    using that by (induction r) (simp_all add: short_runs.simps)
  have take: "takeWhile P (sub_runs Q m rep t) = takeWhile P t \<and>
      dropWhile P (sub_runs Q m rep t) = sub_runs Q m rep (dropWhile P t)" for t
    using assms(2-4)
    by (induction Q m rep t rule: sub_runs.induct)
      (auto simp: sub_runs.simps Let_def takeWhile_append dropWhile_append neq_Nil_conv)
  show ?thesis using assms(1)
  proof (induction s rule: length_induct)
    case (1 s)
    show ?case
    proof (cases s)
      case (Cons c cs)
      show ?thesis
      proof (cases "Q c")
        case True
        let ?run = "c # takeWhile Q cs"
        have notP: "\<not> P c" using True assms(2) by blast
        have "short_runs P n (?run @ dropWhile Q cs)" using 1(2) Cons by simp
        moreover have "\<forall>d \<in> set ?run. \<not> P d" using True assms(2) by (auto dest: set_takeWhileD)
        ultimately have "short_runs P n (dropWhile Q cs)" by (simp only: skip)
        moreover have "length (dropWhile Q cs) < length s"
          using Cons by (simp add: le_imp_less_Suc length_dropWhile_le)
        ultimately have IH: "short_runs P n (sub_runs Q m rep (dropWhile Q cs))" using 1(1) by blast
        have "\<forall>d \<in> set (if m \<le> length ?run then rep else ?run). \<not> P d"
          using True assms(2,3) by (auto dest: set_takeWhileD)
        with IH show ?thesis
          using True Cons by (simp add: sub_runs.simps(2) [of Q m rep c cs] Let_def skip)
      next
        case notQ: False
        have eq: "sub_runs Q m rep (c # cs) = c # sub_runs Q m rep cs" using notQ by (rule sub_runs_not)
        show ?thesis
        proof (cases "P c")
          case True
          have "length (dropWhile P cs) < length s"
            using Cons by (simp add: le_imp_less_Suc length_dropWhile_le)
          then have "short_runs P n (sub_runs Q m rep (dropWhile P cs))"
            using 1 Cons True by (simp add: short_runs.simps)
          then show ?thesis
            using 1(2) True Cons take [of cs] by (simp add: eq short_runs.simps)
        next
          case False
          then show ?thesis using 1 Cons by (simp add: eq short_runs.simps)
        qed
      qed
    qed simp
  qed
qed

lemma collapse_text_idem: "collapse_text (collapse_text s) = collapse_text s"
proof -
  let ?t = "sub_runs is_blank 2 '' '' s"
  let ?u = "sub_runs is_newline 3 [CHR 0x0A, CHR 0x0A] ?t"
  have "short_runs is_blank 2 ?t"
    by (rule sub_runs_makes_short) (simp_all add: is_blank_def)
  then have "short_runs is_blank 2 ?u"
    by (rule short_runs_sub_runs_disjoint) (auto simp: is_blank_def is_newline_def)
  moreover have "short_runs is_newline 3 ?u"
    by (rule sub_runs_makes_short) (simp_all add: is_newline_def)
  ultimately show ?thesis
    by (simp add: collapse_text_def sub_runs_short)
qed

section \<open>The loop\<close>

definition collapsed :: "bool \<Rightarrow> string \<Rightarrow> string" where
  "collapsed do_collapse content = (if do_collapse then collapse_text content else content)"

text \<open>The rewritten message: only its string content can change, to its collapsed form.\<close>

definition trimmed_message :: "bool \<Rightarrow> message \<Rightarrow> message" where
  "trimmed_message do_collapse m =
     (case dict_get m ''content'' of
        JStr content \<Rightarrow>
          if collapsed do_collapse content \<noteq> content
          then dict_put m ''content'' (JStr (collapsed do_collapse content)) else m
      | _ \<Rightarrow> m)"

lemma collapsed_idem [simp]: "collapsed c (collapsed c s) = collapsed c s"
  by (simp add: collapsed_def collapse_text_idem)

lemma dict_get_trimmed: "k \<noteq> ''content'' \<Longrightarrow> dict_get (trimmed_message c m) k = dict_get m k"
  by (simp add: trimmed_message_def dict_get_put split: json.split)

lemma role_trimmed [simp]:
  "dict_get_default (trimmed_message c m) ''role'' d = dict_get_default m ''role'' d"
  by (simp add: trimmed_message_def dict_get_default_put split: json.split)

lemma is_system_trimmed [simp]: "is_system (trimmed_message c m) = is_system m"
  by (simp add: is_system_def dict_get_trimmed)

lemma content_trimmed:
  "dict_get m ''content'' = JStr s \<Longrightarrow> dict_get (trimmed_message c m) ''content'' = JStr (collapsed c s)"
  by (simp add: trimmed_message_def dict_get_put)

lemma trimmed_message_other:
  "(\<forall>s. dict_get m ''content'' \<noteq> JStr s) \<Longrightarrow> trimmed_message c m = m"
  by (simp add: trimmed_message_def split: json.split)

lemma trimmed_message_idem [simp]: "trimmed_message c (trimmed_message c m) = trimmed_message c m"
proof (cases "\<exists>s. dict_get m ''content'' = JStr s")
  case True
  then obtain s where "dict_get m ''content'' = JStr s" ..
  then have "dict_get (trimmed_message c m) ''content'' = JStr (collapsed c s)" by (rule content_trimmed)
  then show ?thesis by (simp add: trimmed_message_def [of c "trimmed_message c m"])
qed (simp add: trimmed_message_other)

text \<open>One step of the loop, by the kind of the message's content.\<close>

lemma trim_loop_text:
  assumes "dict_get m ''content'' = JStr s"
  shows "trim_loop d c seen (m # ms) =
    (let role = dict_get_default m ''role'' (JStr ''''); text = collapsed c s in
     if d
     then if \<not> hashable role then None
          else if (role, text) \<in> set seen then trim_loop d c seen ms
          else map_option ((#) (trimmed_message c m)) (trim_loop d c ((role, text) # seen) ms)
     else map_option ((#) (trimmed_message c m)) (trim_loop d c seen ms))"
  using assms by (simp add: Let_def collapsed_def trimmed_message_def)

lemma trim_loop_other:
  assumes "\<forall>s. dict_get m ''content'' \<noteq> JStr s"
  shows "trim_loop d c seen (m # ms) = map_option ((#) m) (trim_loop d c seen ms)"
  using assms by (simp split: json.split)

lemmas trim_loop_Cons_simps = trim_loop_text trim_loop_other

declare trim_loop.simps(2) [simp del]

lemma trim_loop_Cons_cases:
  assumes "trim_loop d c seen (m # ms) = Some out"
  obtains (drop) s where "d" "dict_get m ''content'' = JStr s"
      "(dict_get_default m ''role'' (JStr ''''), collapsed c s) \<in> set seen"
      "trim_loop d c seen ms = Some out"
  | (keep) seen' out' where "out = trimmed_message c m # out'" "trim_loop d c seen' ms = Some out'"
      "set seen \<subseteq> set seen'"
      "\<And>out''. trim_loop d c seen' out' = Some out'' \<Longrightarrow>
         trim_loop d c seen (trimmed_message c m # out') = Some (trimmed_message c m # out'')"
proof (cases "\<exists>s. dict_get m ''content'' = JStr s")
  case True
  then obtain s where s: "dict_get m ''content'' = JStr s" ..
  let ?key = "(dict_get_default m ''role'' (JStr ''''), collapsed c s)"
  note again = trim_loop_text [OF content_trimmed [OF s], of d c seen]
  show thesis
  proof (cases "d \<and> ?key \<in> set seen")
    case True
    with assms s show thesis
      by (intro drop [of s]) (auto simp: trim_loop_text Let_def split: if_splits)
  next
    case False
    let ?seen' = "if d then ?key # seen else seen"
    obtain out' where "out = trimmed_message c m # out'" "trim_loop d c ?seen' ms = Some out'"
      using assms s False by (auto simp: trim_loop_text Let_def split: if_splits)
    moreover have "d \<longrightarrow> hashable (dict_get_default m ''role'' (JStr ''''))"
      using assms s False by (auto simp: trim_loop_text Let_def split: if_splits)
    ultimately show thesis
      using False by (intro keep [of out' ?seen']) (auto simp: again Let_def)
  qed
next
  case False
  then have same: "trimmed_message c m = m" by (simp add: trimmed_message_other)
  from False assms obtain out' where "out = m # out'" "trim_loop d c seen ms = Some out'"
    by (auto simp: trim_loop_other)
  then show thesis
    using False by (intro keep [of out' seen]) (simp_all add: same trim_loop_other)
qed

lemma trim_loop_idem: "trim_loop d c seen ms = Some out \<Longrightarrow> trim_loop d c seen out = Some out"
proof (induction ms arbitrary: seen out)
  case (Cons m ms)
  from Cons.prems show ?case
  proof (cases rule: trim_loop_Cons_cases)
    case (drop s)
    then show ?thesis using Cons.IH by blast
  next
    case (keep seen' out')
    then show ?thesis using Cons.IH by blast
  qed
qed simp

lemma trim_loop_length:
  "trim_loop d c seen ms = Some out \<Longrightarrow> length (filter (\<lambda>m. \<not> is_system m) out) \<le> length (filter (\<lambda>m. \<not> is_system m) ms)"
proof (induction ms arbitrary: seen out)
  case (Cons m ms)
  from Cons.prems show ?case
  proof (cases rule: trim_loop_Cons_cases)
    case (drop s)
    then show ?thesis using Cons.IH [of seen out] by simp
  next
    case (keep seen' out')
    then show ?thesis using Cons.IH [OF keep(2)] by simp
  qed
qed simp

lemma trim_loop_from: "trim_loop d c seen ms = Some out \<Longrightarrow> set out \<subseteq> trimmed_message c ` set ms"
proof (induction ms arbitrary: seen out)
  case (Cons m ms)
  from Cons.prems show ?case
  proof (cases rule: trim_loop_Cons_cases)
    case (drop s)
    then show ?thesis using Cons.IH by fastforce
  next
    case (keep seen' out')
    then show ?thesis using Cons.IH by fastforce
  qed
qed simp

definition system_first :: "message list \<Rightarrow> bool" where
  "system_first ms \<longleftrightarrow> filter is_system ms @ filter (\<lambda>m. \<not> is_system m) ms = ms"

lemma system_first_Cons:
  "system_first (m # ms) \<longleftrightarrow> (if is_system m then system_first ms else \<forall>x \<in> set ms. \<not> is_system x)"
proof (cases "is_system m")
  case True
  then show ?thesis by (simp add: system_first_def)
next
  case False
  show ?thesis
  proof
    assume sf: "system_first (m # ms)"
    have "filter is_system ms = []"
    proof (rule ccontr)
      assume "filter is_system ms \<noteq> []"
      then obtain y ys where y: "filter is_system ms = y # ys" by (cases "filter is_system ms") auto
      then have "is_system y" by (metis filter_eq_ConsD)
      moreover have "y = m" using sf False y by (simp add: system_first_def)
      ultimately show False using False by simp
    qed
    then show "if is_system m then system_first ms else \<forall>x \<in> set ms. \<not> is_system x"
      using False by (simp add: filter_empty_conv)
  next
    assume "if is_system m then system_first ms else \<forall>x \<in> set ms. \<not> is_system x"
    then show "system_first (m # ms)"
      using False by (simp add: system_first_def filter_empty_conv [THEN iffD2] filter_id_conv [THEN iffD2])
  qed
qed

lemma trim_loop_system_first:
  "trim_loop d c seen ms = Some out \<Longrightarrow> system_first ms \<Longrightarrow> system_first out"
proof (induction ms arbitrary: seen out)
  case Nil
  then show ?case by (simp add: system_first_def)
next
  case (Cons m ms)
  have ms: "system_first ms"
    using Cons.prems(2) unfolding system_first_Cons
    by (auto simp: system_first_def filter_empty_conv [THEN iffD2] filter_id_conv [THEN iffD2] split: if_splits)
  from Cons.prems(1) show ?case
  proof (cases rule: trim_loop_Cons_cases)
    case (drop s)
    then show ?thesis using Cons.IH ms by blast
  next
    case (keep seen' out')
    then have "system_first out'" using Cons.IH ms by blast
    moreover have "\<forall>x \<in> set out'. \<not> is_system x" if "\<not> is_system m"
      using that Cons.prems(2) trim_loop_from [OF keep(2)] by (fastforce simp: system_first_Cons)
    ultimately show ?thesis by (simp add: keep(1) system_first_Cons)
  qed
qed

section \<open>trim_messages\<close>

lemma as_messages_JObj [simp]: "as_messages (map JObj ms) = Some ms"
  by (induction ms) simp_all

lemma window_turns_length: "0 < k \<Longrightarrow> int (length (window_turns k xs)) \<le> k"
  by (auto simp: window_turns_def)

lemma window_turns_set: "set (window_turns k xs) \<subseteq> set xs"
  by (auto simp: window_turns_def dest: in_set_dropD)

lemma window_turns_id: "k \<le> 0 \<or> int (length xs) \<le> k \<Longrightarrow> window_turns k xs = xs"
  by (auto simp: window_turns_def)

lemma system_first_split:
  "(\<forall>m \<in> set ys. \<not> is_system m) \<Longrightarrow> system_first (filter is_system ms @ ys)"
  by (simp add: system_first_def filter_empty_conv [THEN iffD2] filter_id_conv [THEN iffD2])

text \<open>What a successful call computed.\<close>

lemma trim_messages_SomeE:
  assumes "trim_messages messages params = Some (res, changed)" "messages \<noteq> []"
  obtains keep d c ms out where
    "py_int (dict_get_default params ''keep_last_turns'' (JInt default_keep_last_turns)) = Inr keep"
    "d = truthy (dict_get_default params ''dedupe'' (JBool True))"
    "c = truthy (dict_get_default params ''collapse_whitespace'' (JBool True))"
    "as_messages messages = Some ms" "res = map JObj out" "changed = (res \<noteq> messages)"
    "trim_loop d c [] (filter is_system ms @ window_turns keep (filter (\<lambda>m. \<not> is_system m) ms)) = Some out"
  using assms
  by (fastforce simp: trim_messages_def Let_def split: sum.splits option.splits)

lemma trim_messages_fixpoint:
  assumes keep: "py_int (dict_get_default params ''keep_last_turns'' (JInt default_keep_last_turns)) = Inr k"
    and "trim_loop (truthy (dict_get_default params ''dedupe'' (JBool True)))
           (truthy (dict_get_default params ''collapse_whitespace'' (JBool True))) [] out = Some out"
    and "system_first out" "k \<le> 0 \<or> int (length (filter (\<lambda>m. \<not> is_system m) out)) \<le> k"
  shows "trim_messages (map JObj out) params = Some (map JObj out, False)"
proof -
  have "filter is_system out @ window_turns k (filter (\<lambda>m. \<not> is_system m) out) = out"
    using assms(3,4) by (simp add: window_turns_id system_first_def)
  with assms(1,2) show ?thesis by (simp add: trim_messages_def Let_def)
qed

lemma trim_loop_window:
  assumes "trim_loop d c [] (filter is_system ms @ window_turns k (filter (\<lambda>m. \<not> is_system m) ms)) = Some out"
  shows "k \<le> 0 \<or> int (length (filter (\<lambda>m. \<not> is_system m) out)) \<le> k" and "system_first out"
proof -
  let ?w = "window_turns k (filter (\<lambda>m. \<not> is_system m) ms)"
  have w: "\<forall>m \<in> set ?w. \<not> is_system m"
    using window_turns_set [of k "filter (\<lambda>m. \<not> is_system m) ms"] by auto
  then have eq: "filter (\<lambda>m. \<not> is_system m) ?w = ?w" by (rule filter_True)
  have "length (filter (\<lambda>m. \<not> is_system m) out) \<le> length ?w"
    using trim_loop_length [OF assms] unfolding filter_append eq by simp
  then show "k \<le> 0 \<or> int (length (filter (\<lambda>m. \<not> is_system m) out)) \<le> k"
    using window_turns_length [of k "filter (\<lambda>m. \<not> is_system m) ms"] by linarith
  show "system_first out"
    using trim_loop_system_first [OF assms] system_first_split [OF w] by blast
qed

lemma trim_messages_again:
  assumes "trim_messages messages params = Some (res, changed)"
  shows "trim_messages res params = Some (res, False)"
proof (cases "messages = []")
  case True
  with assms show ?thesis by (simp add: trim_messages_def)
next
  case False
  with assms obtain k d c ms out where
    keep: "py_int (dict_get_default params ''keep_last_turns'' (JInt default_keep_last_turns)) = Inr k"
    and flags: "d = truthy (dict_get_default params ''dedupe'' (JBool True))"
      "c = truthy (dict_get_default params ''collapse_whitespace'' (JBool True))"
    and res: "res = map JObj out"
    and loop: "trim_loop d c [] (filter is_system ms @ window_turns k (filter (\<lambda>m. \<not> is_system m) ms)) = Some out"
    by (elim trim_messages_SomeE)
  show ?thesis
    unfolding res using keep trim_loop_idem [OF loop] flags trim_loop_window [OF loop]
    by (intro trim_messages_fixpoint) simp_all
qed

section \<open>Properties\<close>

text \<open>
  C9. What the transform may do to a conversation: with a positive window it keeps at most
  \<open>keep_last\<close> turns besides the system messages; it puts the system messages first; it only keeps
  messages of the request, all of whose fields except the content are unchanged and whose string
  content is at most white-space collapsed; a message whose content is not a string is kept as it is
  or not at all.
\<close>

theorem trim_messages_sound:
  assumes "trim_messages (map JObj ms) params = Some (map JObj out, changed)" "ms \<noteq> []"
    and "py_int (dict_get_default params ''keep_last_turns'' (JInt default_keep_last_turns)) = Inr k"
  shows "(0 < k \<longrightarrow> int (length (filter (\<lambda>m. \<not> is_system m) out)) \<le> k) \<and> system_first out \<and>
    (\<forall>o' \<in> set out. \<exists>m \<in> set ms.
       (\<forall>f. f \<noteq> ''content'' \<longrightarrow> dict_get o' f = dict_get m f) \<and>
       (case dict_get m ''content'' of
          JStr s \<Rightarrow> dict_get o' ''content'' = JStr s \<or> dict_get o' ''content'' = JStr (collapse_text s)
        | _ \<Rightarrow> o' = m))"
proof -
  from assms obtain d c where
    loop: "trim_loop d c [] (filter is_system ms @ window_turns k (filter (\<lambda>m. \<not> is_system m) ms)) = Some out"
    by (elim trim_messages_SomeE) (auto simp: inj_map_eq_map inj_def)
  have from_ms: "set out \<subseteq> trimmed_message c ` set ms"
    using trim_loop_from [OF loop] window_turns_set by fastforce
  have 3: "(\<forall>f. f \<noteq> ''content'' \<longrightarrow> dict_get (trimmed_message c m) f = dict_get m f) \<and>
      (case dict_get m ''content'' of
         JStr s \<Rightarrow> dict_get (trimmed_message c m) ''content'' = JStr s \<or>
                   dict_get (trimmed_message c m) ''content'' = JStr (collapse_text s)
       | _ \<Rightarrow> trimmed_message c m = m)" for m
    by (auto simp: dict_get_trimmed trimmed_message_def dict_get_put collapsed_def split: json.split)
  from from_ms 3 have "\<forall>o' \<in> set out. \<exists>m \<in> set ms.
       (\<forall>f. f \<noteq> ''content'' \<longrightarrow> dict_get o' f = dict_get m f) \<and>
       (case dict_get m ''content'' of
          JStr s \<Rightarrow> dict_get o' ''content'' = JStr s \<or> dict_get o' ''content'' = JStr (collapse_text s)
        | _ \<Rightarrow> o' = m)"
    by blast
  with trim_loop_window [OF loop] show ?thesis by auto
qed

theorem trim_messages_sound_witness:
  "system_first [[(''role'', JStr ''user''), (''content'', JStr ''a b'')]]"
proof -
  have "trim_messages (map JObj [[(''role'', JStr ''user''), (''content'', JStr ''a  b'')]]) []
     = Some (map JObj [[(''role'', JStr ''user''), (''content'', JStr ''a b'')]], True)"
    by code_simp
  from trim_messages_sound [OF this] show ?thesis by (simp only: dict_get_default_Nil py_int.simps) blast
qed

text \<open>
  The removal of repeats is not limited to context blocks: it compares the role and the text of
  a message only. With the default parameters the last user turn disappears when the user repeats an
  earlier message, so the forwarded conversation ends with the assistant's turn; and of two tool
  results with the same text the second disappears although it answers another tool call.
\<close>

theorem trim_messages_drops_repeated_turns:
  "trim_messages
     [JObj [(''role'', JStr ''user''), (''content'', JStr ''continue'')],
      JObj [(''role'', JStr ''assistant''), (''content'', JStr ''one'')],
      JObj [(''role'', JStr ''user''), (''content'', JStr ''continue'')]] []
   = Some ([JObj [(''role'', JStr ''user''), (''content'', JStr ''continue'')],
            JObj [(''role'', JStr ''assistant''), (''content'', JStr ''one'')]], True) \<and>
   trim_messages
     [JObj [(''role'', JStr ''tool''), (''tool_call_id'', JStr ''c1''), (''content'', JStr ''ok'')],
      JObj [(''role'', JStr ''tool''), (''tool_call_id'', JStr ''c2''), (''content'', JStr ''ok'')]] []
   = Some ([JObj [(''role'', JStr ''tool''), (''tool_call_id'', JStr ''c1''), (''content'', JStr ''ok'')]], True)"
  by code_simp

text \<open>
  \<open>apply_trim\<close> changes nothing but the message list: every other field of the body is the same,
  the body is returned untouched when nothing was trimmed, and trimming a trimmed body is a no-op.
\<close>

theorem apply_trim_frame:
  assumes "apply_trim body params = Some (body', changed)"
  shows "(\<forall>k. k \<noteq> ''messages'' \<longrightarrow> dict_get body' k = dict_get body k) \<and>
    (\<not> changed \<longrightarrow> body' = body) \<and> apply_trim body' params = Some (body', False)"
proof (cases "dict_get body ''messages''")
  case (JList messages)
  show ?thesis
  proof (cases "trim_messages messages params")
    case None
    with assms JList show ?thesis by (simp add: apply_trim_def)
  next
    case (Some rc)
    then obtain trimmed ch where run: "trim_messages messages params = Some (trimmed, ch)" by (cases rc) auto
    note again = trim_messages_again [OF run]
    show ?thesis
    proof (cases ch)
      case True
      then have "body' = dict_put body ''messages'' (JList trimmed)" "changed"
        using assms JList run by (simp_all add: apply_trim_def)
      with again show ?thesis by (auto simp: apply_trim_def dict_get_put)
    next
      case False
      then have "body' = body" "\<not> changed" using assms JList run by (simp_all add: apply_trim_def)
      with JList run False show ?thesis by (simp add: apply_trim_def)
    qed
  qed
qed (use assms in \<open>auto simp: apply_trim_def\<close>)

theorem apply_trim_frame_witness:
  "apply_trim [(''model'', JStr ''m''), (''messages'', JList [JObj [(''role'', JStr ''user''), (''content'', JStr ''a b'')]])] []
   = Some ([(''model'', JStr ''m''), (''messages'', JList [JObj [(''role'', JStr ''user''), (''content'', JStr ''a b'')]])], False)"
proof -
  have "apply_trim [(''model'', JStr ''m''), (''messages'', JList [JObj [(''role'', JStr ''user''), (''content'', JStr ''a  b'')]])] []
   = Some ([(''model'', JStr ''m''), (''messages'', JList [JObj [(''role'', JStr ''user''), (''content'', JStr ''a b'')]])], True)"
    by code_simp
  from apply_trim_frame [OF this] show ?thesis by (elim conjE)
qed

end
