(* ===== verification/Compression.thy ===== *)
theory Compression
  imports Trim
begin

text \<open>
  The request side of prompt compression: the shared helpers of \<open>engine/compression.py\<close> and
  \<open>apply_compression\<close> and \<open>load_artifact\<close> of \<open>proxy/compression.py\<close>. \<open>sha\<close> is the digest of a text; \<open>None\<close> is an
  exception (a role that cannot be looked up in a set).
\<close>

definition extract_system_text :: "json list \<Rightarrow> string option option" where
  "extract_system_text messages =
     (case messages of
        JObj m # _ \<Rightarrow>
          (if \<not> hashable (dict_get m ''role'') then None
           else if dict_get m ''role'' \<in> {JStr ''system'', JStr ''developer''}
           then Some (case dict_get m ''content'' of JStr s \<Rightarrow> if s \<noteq> [] then Some s else None | _ \<Rightarrow> None)
           else Some None)
      | _ \<Rightarrow> Some None)"

definition system_text_hash :: "(string \<Rightarrow> string) \<Rightarrow> string \<Rightarrow> string" where
  "system_text_hash sha text = sha text"

text \<open>The loop that replaces the first system or developer message.\<close>

fun replace_prefix :: "string \<Rightarrow> bool \<Rightarrow> json list \<Rightarrow> (json list \<times> bool) option" where
  "replace_prefix text replaced [] = Some ([], replaced)"
| "replace_prefix text replaced (m # ms) =
     (case m of
        JObj kvs \<Rightarrow>
          if replaced then map_option (apfst ((#) m)) (replace_prefix text True ms)
          else if \<not> hashable (dict_get kvs ''role'') then None
          else if dict_get kvs ''role'' \<in> {JStr ''system'', JStr ''developer''}
          then map_option (apfst ((#) (JObj (dict_put kvs ''content'' (JStr text))))) (replace_prefix text True ms)
          else map_option (apfst ((#) m)) (replace_prefix text False ms)
      | _ \<Rightarrow> map_option (apfst ((#) m)) (replace_prefix text replaced ms))"

definition substitute_system_prompt ::
  "(string \<Rightarrow> string) \<Rightarrow> json list \<Rightarrow> string \<Rightarrow> string \<Rightarrow> (json list \<times> bool) option" where
  "substitute_system_prompt sha messages original_hash compressed_text =
     (case extract_system_text messages of
        None \<Rightarrow> None
      | Some None \<Rightarrow> Some (messages, False)
      | Some (Some current) \<Rightarrow>
          if system_text_hash sha current \<noteq> original_hash then Some (messages, False)
          else replace_prefix compressed_text False messages)"

definition apply_compression ::
  "(string \<Rightarrow> string) \<Rightarrow> (string \<times> json) list \<Rightarrow> string \<Rightarrow> string \<Rightarrow> ((string \<times> json) list \<times> bool) option" where
  "apply_compression sha body original_hash compressed_text =
     (case dict_get body ''messages'' of
        JList messages \<Rightarrow>
          (case substitute_system_prompt sha messages original_hash compressed_text of
             None \<Rightarrow> None
           | Some (substituted, applied) \<Rightarrow>
               if applied then Some (dict_put body ''messages'' (JList substituted), True) else Some (body, False))
      | _ \<Rightarrow> Some (body, False))"

text \<open>
  \<open>load_artifact\<close>: \<open>db\<close> is what reading the artifact gives, \<open>None\<close> when it raises; an artifact is its original
  hash and the rewrite. The cache may have lost entries at any time.
\<close>

type_synonym artifact_cache = "uuid \<rightharpoonup> string \<times> string"

definition load_artifact ::
  "(string \<times> string) option option \<Rightarrow> uuid \<Rightarrow> artifact_cache \<Rightarrow> (string \<times> string) option \<times> artifact_cache" where
  "load_artifact db a cache =
     (case cache a of
        Some v \<Rightarrow> (Some v, cache)
      | None \<Rightarrow> (case db of
          Some (Some v) \<Rightarrow> (Some v, cache(a \<mapsto> v))
        | _ \<Rightarrow> (None, cache)))"

section \<open>Properties\<close>

lemma replace_prefix_done [simp]: "replace_prefix text True ms = Some (ms, True)"
  by (induction ms) (auto split: json.split)

text \<open>
  Compression substitutes exactly what was proven: the rewrite is applied iff the conversation opens with
  a system or developer message whose non-empty text has the evaluated hash; then only the content of that
  one message changes, and otherwise the body is untouched.
\<close>

theorem compression_substitutes_only_the_proven_prompt:
  assumes "apply_compression sha body original_hash compressed_text = Some (body', applied)"
  shows "(applied \<longleftrightarrow> (\<exists>m ms s. dict_get body ''messages'' = JList (JObj m # ms) \<and>
        dict_get m ''role'' \<in> {JStr ''system'', JStr ''developer''} \<and> dict_get m ''content'' = JStr s \<and> s \<noteq> [] \<and>
        sha s = original_hash)) \<and>
    (\<not> applied \<longrightarrow> body' = body) \<and>
    (applied \<longrightarrow> (\<exists>m ms. dict_get body ''messages'' = JList (JObj m # ms) \<and>
        body' = dict_put body ''messages'' (JList (JObj (dict_put m ''content'' (JStr compressed_text)) # ms))))"
  using assms
  by (auto simp: apply_compression_def substitute_system_prompt_def extract_system_text_def system_text_hash_def
      split: json.splits list.splits option.splits if_splits prod.splits)

theorem compression_substitutes_only_the_proven_prompt_witness:
  "\<exists>m ms. dict_get [(''messages'', JList [JObj [(''role'', JStr ''system''), (''content'', JStr ''long'')]])] ''messages'' =
       JList (JObj m # ms) \<and>
     apply_compression id [(''messages'', JList [JObj [(''role'', JStr ''system''), (''content'', JStr ''long'')]])] ''long'' ''l'' =
       Some (dict_put [(''messages'', JList [JObj [(''role'', JStr ''system''), (''content'', JStr ''long'')]])] ''messages''
         (JList (JObj (dict_put m ''content'' (JStr ''l'')) # ms)), True)"
proof -
  let ?b = "[(''messages'', JList [JObj [(''role'', JStr ''system''), (''content'', JStr ''long'')]])]"
  have a: "apply_compression id ?b ''long'' ''l'' =
      Some ([(''messages'', JList [JObj [(''role'', JStr ''system''), (''content'', JStr ''l'')]])], True)"
    by (simp add: apply_compression_def substitute_system_prompt_def extract_system_text_def system_text_hash_def)
  from compression_substitutes_only_the_proven_prompt [OF a] a show ?thesis by auto
qed

end
