(* ===== verification/ResponseCache.thy ===== *)
theory ResponseCache
  imports Json Settings Calendar
begin

text \<open>
  \<open>proxy/cache.py\<close> and its table (\<open>models/proxy_cache.py\<close>): the key of a request, the exact lookup with
  its snapshot cache, the semantic search, storing, hit accounting and the purge. The digest
  (\<open>sha256\<close> of the JSON text) and the cosine distance are parameters; \<open>default=str\<close> never applies, since a
  body comes from a JSON document. The snapshot cache may have lost entries at any time.
\<close>

type_synonym body = "(string \<times> json) list"

record cache_entry =
  ce_id :: uuid
  ce_project_id :: uuid
  ce_cache_key :: string
  ce_model :: string
  ce_embedding :: "rat list option"
  ce_response_payload :: body
  ce_input_tokens :: int
  ce_output_tokens :: int
  ce_hit_count :: int
  ce_last_hit_at :: "datetime option"
  ce_expires_at :: "datetime option"

definition live :: "datetime \<Rightarrow> cache_entry \<Rightarrow> bool" where
  "live now e = (case ce_expires_at e of None \<Rightarrow> True | Some t \<Rightarrow> now < t)"

definition keyed_fields :: "string list" where
  "keyed_fields =
     [''model'', ''messages'', ''temperature'', ''top_p'', ''max_tokens'', ''max_completion_tokens'', ''tools'',
      ''tool_choice'', ''response_format'', ''seed'', ''stop'', ''n'']"

definition keyed_body :: "body \<Rightarrow> body" where
  "keyed_body body = List.map_filter (\<lambda>k. map_option (Pair k) (map_of body k)) keyed_fields"

definition compute_cache_key :: "(json \<Rightarrow> string) \<Rightarrow> body \<Rightarrow> string" where
  "compute_cache_key digest body = digest (JObj (keyed_body body))"

type_synonym snapshot_cache = "uuid \<times> string \<rightharpoonup> cache_entry"

definition clear_exact_snapshot_cache :: "uuid option \<Rightarrow> snapshot_cache \<Rightarrow> snapshot_cache" where
  "clear_exact_snapshot_cache project cache =
     (case project of None \<Rightarrow> Map.empty | Some p \<Rightarrow> (\<lambda>k. if fst k = p then None else cache k))"

definition get_cached :: "datetime \<Rightarrow> uuid \<Rightarrow> string \<Rightarrow> cache_entry list \<Rightarrow> cache_entry option" where
  "get_cached now project key rows =
     find (\<lambda>e. ce_project_id e = project \<and> ce_cache_key e = key \<and> live now e) rows"

text \<open>A snapshot is the entry without its statistics; the model keeps the whole row.\<close>

definition get_cached_snapshot ::
  "datetime \<Rightarrow> uuid \<Rightarrow> string \<Rightarrow> cache_entry list \<Rightarrow> snapshot_cache \<Rightarrow> cache_entry option \<times> snapshot_cache" where
  "get_cached_snapshot now project key rows cache =
     (let from_db = (\<lambda>c. case get_cached now project key rows of
                          None \<Rightarrow> (None, c)
                        | Some e \<Rightarrow> (Some e, c((project, key) \<mapsto> e)))
      in case cache (project, key) of
           Some e \<Rightarrow> if live now e then (Some e, cache) else from_db (cache((project, key) := None))
         | None \<Rightarrow> from_db cache)"

text \<open>\<open>ORDER BY distance LIMIT 1\<close>: the first row of least distance.\<close>

fun nearest :: "(cache_entry \<Rightarrow> rat) \<Rightarrow> cache_entry list \<Rightarrow> cache_entry option" where
  "nearest d [] = None"
| "nearest d (e # es) =
     (case nearest d es of
        None \<Rightarrow> Some e
      | Some f \<Rightarrow> if d e \<le> d f then Some e else Some f)"

definition semantic_search ::
  "(rat list \<Rightarrow> rat list \<Rightarrow> rat) \<Rightarrow> datetime \<Rightarrow> uuid \<Rightarrow> string \<Rightarrow> rat list option \<Rightarrow> rat \<Rightarrow> cache_entry list
    \<Rightarrow> cache_entry option" where
  "semantic_search distance now project model embedding threshold rows =
     (case embedding of
        None \<Rightarrow> None
      | Some v \<Rightarrow>
          (let d = (\<lambda>e. distance (the (ce_embedding e)) v)
           in case nearest d (filter (\<lambda>e. ce_project_id e = project \<and> ce_model e = model \<and>
                                             ce_embedding e \<noteq> None \<and> live now e) rows) of
                None \<Rightarrow> None
              | Some e \<Rightarrow> if d e \<le> threshold then Some e else None))"

definition record_hit :: "datetime \<Rightarrow> uuid \<Rightarrow> cache_entry list \<Rightarrow> cache_entry list" where
  "record_hit now i = map (\<lambda>e. if ce_id e = i
     then e\<lparr>ce_hit_count := ce_hit_count e + 1, ce_last_hit_at := Some now\<rparr> else e)"

text \<open>
  \<open>store\<close>: \<open>None\<close> when the insert violates the unique key of project and cache key, which happens when
  an expired row has not been purged yet.
\<close>

definition cache_store ::
  "settings \<Rightarrow> datetime \<Rightarrow> uuid \<Rightarrow> uuid \<Rightarrow> string \<Rightarrow> string \<Rightarrow> body \<Rightarrow> int \<Rightarrow> int \<Rightarrow> rat list option
    \<Rightarrow> cache_entry list \<times> snapshot_cache \<Rightarrow> (cache_entry \<times> cache_entry list \<times> snapshot_cache) option" where
  "cache_store cfg now new_id project key model payload input_tokens output_tokens embedding = (\<lambda>(rows, cache).
     (case get_cached now project key rows of
        Some e \<Rightarrow> Some (e, rows, cache)
      | None \<Rightarrow>
          if \<exists>e \<in> set rows. ce_project_id e = project \<and> ce_cache_key e = key then None
          else (let e = \<lparr>ce_id = new_id, ce_project_id = project, ce_cache_key = key, ce_model = model,
                         ce_embedding = embedding, ce_response_payload = payload, ce_input_tokens = input_tokens,
                         ce_output_tokens = output_tokens, ce_hit_count = 0, ce_last_hit_at = None,
                         ce_expires_at = Some (now + proxy_cache_ttl_seconds cfg * 1000000)\<rparr>
                in Some (e, e # rows, cache((project, key) \<mapsto> e)))))"

definition purge_expired :: "datetime \<Rightarrow> cache_entry list \<times> snapshot_cache \<Rightarrow> nat \<times> cache_entry list \<times> snapshot_cache" where
  "purge_expired now = (\<lambda>(rows, cache).
     (let due = (\<lambda>e. case ce_expires_at e of None \<Rightarrow> False | Some t \<Rightarrow> t \<le> now)
      in (length (filter due rows), filter (\<lambda>e. \<not> due e) rows, clear_exact_snapshot_cache None cache)))"


section \<open>The snapshot cache and the table\<close>

text \<open>One process's operations, in any order; \<open>forget\<close> is the loss of snapshots by age or size.\<close>

inductive cache_step :: "settings \<Rightarrow> cache_entry list \<times> snapshot_cache \<Rightarrow> cache_entry list \<times> snapshot_cache \<Rightarrow> bool"
  for cfg where
  lookup: "cache_step cfg (rows, c) (rows, snd (get_cached_snapshot now project key rows c))"
| hit: "cache_step cfg (rows, c) (record_hit now i rows, c)"
| store: "cache_store cfg now new_id project key model payload input_tokens output_tokens embedding (rows, c) = Some (e, s)
    \<Longrightarrow> cache_step cfg (rows, c) s"
| purge: "cache_step cfg (rows, c) (snd (purge_expired now (rows, c)))"
| forget: "c' \<subseteq>\<^sub>m c \<Longrightarrow> cache_step cfg (rows, c) (rows, c')"

inductive cache_reachable :: "settings \<Rightarrow> cache_entry list \<times> snapshot_cache \<Rightarrow> bool" for cfg where
  init: "cache_reachable cfg ([], Map.empty)"
| step: "cache_reachable cfg s \<Longrightarrow> cache_step cfg s s' \<Longrightarrow> cache_reachable cfg s'"

definition content :: "cache_entry \<Rightarrow> cache_entry" where
  "content e = e\<lparr>ce_hit_count := 0, ce_last_hit_at := None\<rparr>"

definition entry_key :: "cache_entry \<Rightarrow> uuid \<times> string" where
  "entry_key e = (ce_project_id e, ce_cache_key e)"

fun cache_inv :: "cache_entry list \<times> snapshot_cache \<Rightarrow> bool" where
  "cache_inv (rows, c) \<longleftrightarrow>
     distinct (map entry_key rows) \<and>
     (\<forall>k e. c k = Some e \<longrightarrow> (\<exists>r \<in> set rows. entry_key r = k \<and> content r = content e))"

lemma content_eq:
  "content r = content e \<Longrightarrow> entry_key r = entry_key e \<and> (live now r \<longleftrightarrow> live now e)"
  by (cases r; cases e) (auto simp: content_def entry_key_def live_def)

lemma get_cached_Some:
  "get_cached now project key rows = Some e \<Longrightarrow> e \<in> set rows \<and> entry_key e = (project, key) \<and> live now e"
  by (auto simp: get_cached_def entry_key_def find_Some_iff)

lemma get_cached_None:
  "get_cached now project key rows = None \<longleftrightarrow> (\<forall>e \<in> set rows. entry_key e = (project, key) \<longrightarrow> \<not> live now e)"
  by (auto simp: get_cached_def entry_key_def find_None_iff)

lemma get_cached_unique:
  assumes "distinct (map entry_key rows)" "r \<in> set rows" "entry_key r = (project, key)" "live now r"
  shows "get_cached now project key rows = Some r"
proof (cases "get_cached now project key rows")
  case None
  then show ?thesis using assms(2-4) by (auto simp: get_cached_None)
next
  case (Some e)
  then have "e \<in> set rows" "entry_key e = entry_key r" using get_cached_Some assms(3) by auto
  with assms(1,2) have "e = r" by (auto simp: distinct_map inj_on_def)
  with Some show ?thesis by simp
qed

lemma cache_inv_snapshot:
  "cache_inv (rows, c) \<Longrightarrow> c k = Some e \<Longrightarrow> \<exists>r \<in> set rows. entry_key r = k \<and> content r = content e"
  by (simp del: split_paired_All)

lemma snapshot_inv:
  assumes "cache_inv (rows, c)"
  shows "cache_inv (rows, snd (get_cached_snapshot now project key rows c))"
  using assms by (auto simp: get_cached_snapshot_def Let_def split: option.splits dest!: get_cached_Some)

lemma record_hit_inv:
  assumes "cache_inv (rows, c)"
  shows "cache_inv (record_hit now i rows, c)"
proof -
  have same: "entry_key (if ce_id e = i then e\<lparr>ce_hit_count := ce_hit_count e + 1, ce_last_hit_at := Some now\<rparr> else e) =
      entry_key e" "content (if ce_id e = i then e\<lparr>ce_hit_count := ce_hit_count e + 1, ce_last_hit_at := Some now\<rparr> else e) =
      content e" for e
    by (simp_all add: entry_key_def content_def)
  have "map entry_key (record_hit now i rows) = map entry_key rows"
    using same(1) by (simp add: record_hit_def)
  moreover have "\<exists>r \<in> set (record_hit now i rows). entry_key r = k \<and> content r = content e"
    if ck: "c k = Some e" for k e
  proof -
    obtain r where "r \<in> set rows" "entry_key r = k" "content r = content e" using cache_inv_snapshot [OF assms ck] by blast
    with same [of r] show ?thesis unfolding record_hit_def set_map by (metis (no_types, lifting) imageI)
  qed
  ultimately show ?thesis using assms by simp
qed

lemma store_inv:
  assumes "cache_inv (rows, c)"
    and "cache_store cfg now new_id project key model payload input_tokens output_tokens embedding (rows, c) = Some (e, s)"
  shows "cache_inv s"
  using assms by (auto simp: cache_store_def Let_def entry_key_def split: option.splits if_splits)

lemma purge_inv:
  "cache_inv (rows, c) \<Longrightarrow> cache_inv (snd (purge_expired now (rows, c)))"
  by (auto simp: purge_expired_def Let_def clear_exact_snapshot_cache_def distinct_map_filter)

lemma cache_reachable_inv: "cache_reachable cfg s \<Longrightarrow> cache_inv s"
proof (induction rule: cache_reachable.induct)
  case (step s s')
  from step(2,3) show ?case
  proof (cases rule: cache_step.cases)
    case (lookup rows c now project key)
    then show ?thesis using step(3) snapshot_inv by simp
  next
    case (hit rows c now i)
    then show ?thesis using step(3) record_hit_inv by simp
  next
    case (store now new_id project key model payload input_tokens output_tokens embedding rows c e)
    then show ?thesis using step(3) store_inv by blast
  next
    case (purge rows c now)
    then show ?thesis using step(3) purge_inv by simp
  next
    case (forget c' c rows)
    then have "c' k = Some e \<Longrightarrow> c k = Some e" for k e by (cases k) (auto simp: map_le_def dom_def)
    with forget step(3) show ?thesis by (simp del: split_paired_All)
  qed
qed simp


section \<open>The exact lookup as an interface\<close>

text \<open>
  What the request pipeline relies on, whichever of the two lookups it uses: a hit is a live entry
  stored under the project and the key that were asked for.
\<close>

locale exact_lookup =
  fixes lookup :: "datetime \<Rightarrow> uuid \<Rightarrow> string \<Rightarrow> 's \<Rightarrow> cache_entry option"
    and rows_of :: "'s \<Rightarrow> cache_entry list"
    and inv_of :: "'s \<Rightarrow> bool"
  assumes lookup_sound: "inv_of s \<Longrightarrow> lookup now project key s = Some e \<Longrightarrow>
      live now e \<and> entry_key e = (project, key) \<and> content e \<in> content ` set (rows_of s)"
    and lookup_complete: "inv_of s \<Longrightarrow> lookup now project key s = None \<Longrightarrow> r \<in> set (rows_of s) \<Longrightarrow>
      entry_key r = (project, key) \<Longrightarrow> \<not> live now r"
begin

lemma lookup_isolated:
  assumes "inv_of s" "lookup now project key s = Some e" "\<forall>r \<in> set (rows_of s). ce_project_id r \<noteq> project"
  shows False
proof -
  obtain r where "r \<in> set (rows_of s)" "content r = content e" "entry_key e = (project, key)"
    using lookup_sound [OF assms(1,2)] by auto
  with content_eq [of r e] assms(3) show False by (auto simp: entry_key_def)
qed

lemma lookup_after_purge:
  assumes "inv_of s" "\<forall>r \<in> set (rows_of s). entry_key r = (project, key) \<longrightarrow> \<not> live now r"
  shows "lookup now project key s = None"
proof (cases "lookup now project key s")
  case (Some e)
  then obtain r where "r \<in> set (rows_of s)" "content r = content e" "live now e" "entry_key e = (project, key)"
    using lookup_sound [OF assms(1) Some] by auto
  with content_eq [of r e now] assms(2) show ?thesis by auto
qed simp

end

interpretation table: exact_lookup get_cached id "\<lambda>_. True"
  by unfold_locales (auto dest: get_cached_Some simp: get_cached_None)

lemma snapshot_lookup_content:
  assumes "cache_inv (rows, c)"
  shows "map_option content (fst (get_cached_snapshot now project key rows c)) =
    map_option content (get_cached now project key rows)"
proof (cases "c (project, key)")
  case (Some e)
  then obtain r where r: "r \<in> set rows" "entry_key r = (project, key)" "content r = content e"
    using cache_inv_snapshot [OF assms] by blast
  have "live now e \<Longrightarrow> get_cached now project key rows = Some r"
    using get_cached_unique [OF _ r(1,2)] content_eq [OF r(3)] assms by auto
  with Some r show ?thesis
    by (auto simp: get_cached_snapshot_def Let_def split: option.split)
qed (auto simp: get_cached_snapshot_def Let_def split: option.split)

interpretation snapshot: exact_lookup
  "\<lambda>now project key (rows, c). fst (get_cached_snapshot now project key rows c)" fst cache_inv
proof unfold_locales
  fix s :: "cache_entry list \<times> snapshot_cache" and now project key e
  assume inv: "cache_inv s" and hit: "(case s of (rows, c) \<Rightarrow> fst (get_cached_snapshot now project key rows c)) = Some e"
  obtain rows c where s: "s = (rows, c)" by force
  with snapshot_lookup_content inv hit obtain r where r: "get_cached now project key rows = Some r" "content r = content e"
    by (metis (mono_tags, lifting) case_prod_conv map_option_eq_Some)
  with content_eq [OF r(2)] get_cached_Some [OF r(1)] s
  show "live now e \<and> entry_key e = (project, key) \<and> content e \<in> content ` set (fst s)"
    by (metis fst_conv imageI)
next
  fix s :: "cache_entry list \<times> snapshot_cache" and now project key r
  assume inv: "cache_inv s" and miss: "(case s of (rows, c) \<Rightarrow> fst (get_cached_snapshot now project key rows c)) = None"
    and r: "r \<in> set (fst s)" "entry_key r = (project, key)"
  obtain rows c where s: "s = (rows, c)" by force
  with snapshot_lookup_content inv miss have "get_cached now project key rows = None"
    by (metis (mono_tags, lifting) case_prod_conv map_option_is_None)
  with r s show "\<not> live now r" by (simp add: get_cached_None)
qed

section \<open>Properties\<close>

text \<open>
  C35. In every state the response cache can reach, by lookups, hits, stores, purges and lost snapshots in
  any order: the snapshot path answers exactly as the table does, and a hit is an entry stored for the
  same project under the same key that has not expired.
\<close>

theorem snapshot_lookup_is_table_lookup:
  assumes "cache_reachable cfg (rows, c)"
  shows "map_option content (fst (get_cached_snapshot now project key rows c)) =
      map_option content (get_cached now project key rows) \<and>
    (\<forall>e. fst (get_cached_snapshot now project key rows c) = Some e \<longrightarrow>
       live now e \<and> ce_project_id e = project \<and> ce_cache_key e = key)"
  using snapshot_lookup_content [OF cache_reachable_inv [OF assms]]
    snapshot.lookup_sound [OF cache_reachable_inv [OF assms]]
  by (auto simp: entry_key_def)

theorem snapshot_lookup_is_table_lookup_witness:
  "get_cached 0 ''p'' ''k'' [] = None \<and> fst (get_cached_snapshot 0 ''p'' ''k'' [] Map.empty) = None"
  using snapshot_lookup_is_table_lookup [OF cache_reachable.init, of 0 "''p''" "''k''"]
  by (simp add: get_cached_def)

text \<open>
  What is stored is served until its deadline: after a successful store the exact lookup at any later
  moment within the time to live returns the stored payload, if the key was free before.
\<close>

theorem stored_response_is_served:
  assumes "cache_store cfg now new_id project key model payload input_tokens output_tokens embedding (rows, c) =
      Some (e, rows', c')"
    and "get_cached now project key rows = None" "later < now + proxy_cache_ttl_seconds cfg * 1000000"
  shows "get_cached later project key rows' = Some e \<and> ce_response_payload e = payload \<and> ce_model e = model \<and>
    fst (get_cached_snapshot later project key rows' c') = Some e"
  using assms
  by (auto simp: cache_store_def Let_def get_cached_def get_cached_snapshot_def live_def split: if_splits)

theorem stored_response_is_served_witness:
  "\<exists>e rows' c'. cache_store default_settings 0 ''i'' ''p'' ''k'' ''m'' [] 1 1 None ([], Map.empty) = Some (e, rows', c') \<and>
     get_cached 5 ''p'' ''k'' rows' = Some e"
proof -
  obtain e rows' c' where
    s: "cache_store default_settings 0 ''i'' ''p'' ''k'' ''m'' [] 1 1 None ([], Map.empty) = Some (e, rows', c')"
    by (auto simp: cache_store_def get_cached_def Let_def)
  then show ?thesis
    using stored_response_is_served [OF s, of 5] by (auto simp: get_cached_def)
qed

text \<open>
  An expired entry blocks its own renewal: once the deadline of an entry has passed, and until the purge
  runs, the lookup misses, and storing the fresh response fails on the unique key of project and request.
\<close>

theorem expired_entry_blocks_store:
  assumes "r \<in> set rows" "ce_project_id r = project" "ce_cache_key r = key" "distinct (map entry_key rows)" "\<not> live now r"
  shows "get_cached now project key rows = None \<and>
    cache_store cfg now new_id project key model payload input_tokens output_tokens embedding (rows, c) = None"
proof -
  have "get_cached now project key rows = None"
  proof (cases "get_cached now project key rows")
    case (Some e)
    then have "e \<in> set rows" "entry_key e = entry_key r" "live now e"
      using get_cached_Some assms(2,3) by (auto simp: entry_key_def)
    with assms(1,4,5) show ?thesis by (auto simp: distinct_map inj_on_def)
  qed
  with assms(1-3) show ?thesis by (auto simp: cache_store_def)
qed

definition sample_entry :: cache_entry where
  "sample_entry = \<lparr>ce_id = ''i'', ce_project_id = ''p'', ce_cache_key = ''k'', ce_model = ''m'', ce_embedding = None,
     ce_response_payload = [], ce_input_tokens = 1, ce_output_tokens = 1, ce_hit_count = 0, ce_last_hit_at = None,
     ce_expires_at = Some 10\<rparr>"

theorem expired_entry_blocks_store_witness:
  "cache_store default_settings 10 ''j'' ''p'' ''k'' ''m'' [] 1 1 None ([sample_entry], Map.empty) = None"
  using expired_entry_blocks_store [of sample_entry "[sample_entry]" "''p''" "''k''" 10]
  by (simp add: sample_entry_def live_def)

text \<open>
  Requests that differ only in fields outside the key share one cache entry, although the fields may
  change the completion (\<open>presence_penalty\<close>, \<open>logit_bias\<close>, \<open>reasoning_effort\<close> and others are not among them).
\<close>

theorem unkeyed_fields_collide:
  assumes "k \<notin> set keyed_fields"
  shows "compute_cache_key digest (dict_put body k v) = compute_cache_key digest body"
proof -
  have *: "map_of (dict_put body k v) f = map_of body f" if "f \<noteq> k" for f
    using that by (induction body) auto
  have "List.map_filter (\<lambda>f. map_option (Pair f) (map_of (dict_put body k v) f)) fs =
      List.map_filter (\<lambda>f. map_option (Pair f) (map_of body f)) fs" if "k \<notin> set fs" for fs
    using that by (induction fs) (auto simp: List.map_filter_simps * split: option.split)
  from this [OF assms] show ?thesis by (simp add: compute_cache_key_def keyed_body_def)
qed

theorem unkeyed_fields_collide_witness:
  "\<forall>digest. compute_cache_key digest [(''model'', JStr ''m''), (''presence_penalty'', JInt 2)] =
   compute_cache_key digest [(''model'', JStr ''m'')]"
proof
  fix digest :: "json \<Rightarrow> string"
  show "compute_cache_key digest [(''model'', JStr ''m''), (''presence_penalty'', JInt 2)] =
      compute_cache_key digest [(''model'', JStr ''m'')]"
    using unkeyed_fields_collide [of "''presence_penalty''" digest "[(''model'', JStr ''m'')]" "JInt 2"]
    by (simp add: keyed_fields_def)
qed

end
