(* ===== verification/Levers.thy ===== *)
theory Levers
  imports Json RouteIdentity
begin

text \<open>
  \<open>levers.py\<close>, \<open>lever_controls.py\<close> and the policy rows of \<open>models/proxy_policy.py\<close>: the savings levers,
  the project's switches for them, and the execution policies that applied recommendations activate.
\<close>

definition lever_smart_routing :: string where "lever_smart_routing = ''smart_routing''"
definition lever_semantic_cache :: string where "lever_semantic_cache = ''semantic_cache''"
definition lever_token_trim :: string where "lever_token_trim = ''token_trim''"
definition lever_model_downshift :: string where "lever_model_downshift = ''model_downshift''"
definition lever_batching :: string where "lever_batching = ''batching''"
definition lever_prompt_compression :: string where "lever_prompt_compression = ''prompt_compression''"

lemmas lever_names = lever_smart_routing_def lever_semantic_cache_def lever_token_trim_def
  lever_model_downshift_def lever_batching_def lever_prompt_compression_def

definition routing_levers :: "string list" where
  "routing_levers = [lever_model_downshift, lever_smart_routing]"

definition lever_display_order :: "string list" where
  "lever_display_order = [lever_semantic_cache, lever_model_downshift, lever_batching, lever_token_trim,
     lever_smart_routing, lever_prompt_compression]"

record lever_config =
  lc_project_id :: uuid
  lc_lever :: string
  lc_enabled :: bool
  lc_savings_to_date_usd :: decimal
  lc_automation_mode :: string

text \<open>A missing row, or no lever at all, means enabled.\<close>

definition lever_enabled :: "lever_config list \<Rightarrow> uuid \<Rightarrow> string option \<Rightarrow> bool" where
  "lever_enabled configs project lever =
     (case lever of
        None \<Rightarrow> True
      | Some l \<Rightarrow>
          if l = [] then True
          else (case find (\<lambda>c. lc_project_id c = project \<and> lc_lever c = l) configs of
                  None \<Rightarrow> True | Some c \<Rightarrow> lc_enabled c))"

record proxy_policy =
  pp_id :: uuid
  pp_organization_id :: uuid
  pp_project_id :: uuid
  pp_lever :: string
  pp_target_type :: string
  pp_target_key :: string
  pp_route_key :: string
  pp_enabled :: bool
  pp_holdback_percent :: decimal
  pp_rollout_percent :: int
  pp_params :: "(string \<times> json) list"
  pp_source_recommendation_id :: "uuid option"
  pp_activated_at :: "datetime option"

definition incumbent_model :: "proxy_policy \<Rightarrow> string" where
  "incumbent_model p = pp_target_key p"

definition candidate_model :: "proxy_policy \<Rightarrow> string option" where
  "candidate_model p = as_str (dict_get (pp_params p) ''candidate_model'')"

definition candidate_provider :: "proxy_policy \<Rightarrow> string option" where
  "candidate_provider p = as_str (dict_get (pp_params p) ''candidate_provider'')"

text \<open>
  \<open>ORDER BY activated_at DESC NULLS LAST LIMIT 1\<close>: a most recently activated row, the first in table
  order among equals.
\<close>

definition activated_before :: "proxy_policy \<Rightarrow> proxy_policy \<Rightarrow> bool" where
  "activated_before p q =
     (case (pp_activated_at p, pp_activated_at q) of
        (_, None) \<Rightarrow> False
      | (None, Some _) \<Rightarrow> True
      | (Some a, Some b) \<Rightarrow> a < b)"

fun latest_activated :: "proxy_policy list \<Rightarrow> proxy_policy option" where
  "latest_activated [] = None"
| "latest_activated (p # ps) =
     (case latest_activated ps of
        None \<Rightarrow> Some p
      | Some q \<Rightarrow> if activated_before p q then Some q else Some p)"

lemma latest_activated_None [simp]: "latest_activated ps = None \<longleftrightarrow> ps = []"
  by (cases ps) (auto split: option.splits)

lemma latest_activated_Some: "latest_activated ps = Some p \<Longrightarrow> p \<in> set ps"
  by (induction ps arbitrary: p) (auto split: option.splits if_splits)

lemma activated_before_trans:
  "\<not> activated_before p q \<Longrightarrow> \<not> activated_before q r \<Longrightarrow> \<not> activated_before p r"
  by (auto simp: activated_before_def split: option.splits)

lemma activated_before_asym: "activated_before p q \<Longrightarrow> \<not> activated_before q p"
  by (auto simp: activated_before_def split: option.splits)

lemma latest_activated_latest: "latest_activated ps = Some p \<Longrightarrow> q \<in> set ps \<Longrightarrow> \<not> activated_before p q"
proof (induction ps arbitrary: p)
  case (Cons x ps)
  note irrefl = activated_before_asym [of x x]
  show ?case
  proof (cases "latest_activated ps")
    case None
    then show ?thesis using Cons.prems irrefl by auto
  next
    case (Some y)
    have y: "q \<in> set ps \<Longrightarrow> \<not> activated_before y q" using Cons.IH [OF Some] .
    show ?thesis
    proof (cases "activated_before x y")
      case True
      then have "p = y" using Some Cons.prems(1) by simp
      then show ?thesis using y activated_before_asym [OF True] Cons.prems(2) by auto
    next
      case False
      then have "p = x" using Some Cons.prems(1) by simp
      then show ?thesis
        using y activated_before_trans [OF False, of q] irrefl Cons.prems(2) by auto
    qed
  qed
qed simp

end
