(* ===== verification/BillingLifecycle.thy ===== *)
theory BillingLifecycle
  imports Settings
begin

text \<open>
  \<open>billing_lifecycle.py\<close>: the transitions of an organization's plan and subscription, and the sweep
  over all trialing organizations. Every transition returns the new row and the plan-tier cache of
  \<open>auth/entitlements.py\<close>, from which it drops the organization's entry; \<open>'e\<close> is the type of the cached
  state, which this module does not look at.
\<close>

datatype plan_tier = Plan_Free | Plan_Performance

datatype subscription_status = Trialing | Active | Past_Due | Canceled | Expired

record organization =
  org_id :: "uuid option"
  org_created_at :: datetime
  org_plan_tier :: plan_tier
  org_status :: subscription_status
  org_governance_enforced :: bool
  org_plan_effective_at :: "datetime option"
  org_trial_started_at :: "datetime option"
  org_trial_ends_at :: "datetime option"
  org_stripe_subscription_id :: "string option"
  org_payment_method_ready_at :: "datetime option"
  org_gain_share_percent :: decimal
  org_monthly_fee_floor_usd :: decimal

text \<open>A new row, with the column defaults of \<open>models/tenant.py\<close>.\<close>

definition new_organization :: "uuid \<Rightarrow> datetime \<Rightarrow> organization" where
  "new_organization i created =
     \<lparr>org_id = Some i, org_created_at = created, org_plan_tier = Plan_Free, org_status = Active,
      org_governance_enforced = False, org_plan_effective_at = None, org_trial_started_at = None,
      org_trial_ends_at = None, org_stripe_subscription_id = None, org_payment_method_ready_at = None,
      org_gain_share_percent = 1 / 4, org_monthly_fee_floor_usd = 0\<rparr>"

type_synonym 'e tier_cache = "uuid \<rightharpoonup> 'e"

text \<open>\<open>invalidate_plan_tier\<close>: \<open>None\<close> clears the whole cache.\<close>

definition invalidate_plan_tier :: "uuid option \<Rightarrow> 'e tier_cache \<Rightarrow> 'e tier_cache" where
  "invalidate_plan_tier oid cache = (case oid of None \<Rightarrow> Map.empty | Some i \<Rightarrow> cache(i := None))"

text \<open>\<open>_invalidate\<close> of the lifecycle module: an organization without id is not cached.\<close>

definition lifecycle_invalidate :: "uuid option \<Rightarrow> 'e tier_cache \<Rightarrow> 'e tier_cache" where
  "lifecycle_invalidate oid cache =
     (case oid of None \<Rightarrow> cache | Some i \<Rightarrow> invalidate_plan_tier (Some i) cache)"

type_synonym 'e org_state = "organization \<times> 'e tier_cache"

definition start_trial :: "settings \<Rightarrow> datetime \<Rightarrow> 'e org_state \<Rightarrow> 'e org_state" where
  "start_trial cfg now = (\<lambda>(org, cache).
     (org\<lparr>org_plan_tier := Plan_Performance,
          org_status := Trialing,
          org_trial_started_at := Some now,
          org_trial_ends_at := Some (now + timedelta_days (free_trial_days cfg)),
          org_plan_effective_at := Some now,
          org_payment_method_ready_at := None\<rparr>,
      lifecycle_invalidate (org_id org) cache))"

definition activate_performance :: "string option \<Rightarrow> datetime \<Rightarrow> 'e org_state \<Rightarrow> 'e org_state" where
  "activate_performance stripe_subscription_id now = (\<lambda>(org, cache).
     (org\<lparr>org_plan_tier := Plan_Performance,
          org_status := Active,
          org_stripe_subscription_id :=
            (case stripe_subscription_id of
               None \<Rightarrow> org_stripe_subscription_id org
             | Some s \<Rightarrow> if s = '''' then org_stripe_subscription_id org else Some s),
          org_plan_effective_at := Some now\<rparr>,
      lifecycle_invalidate (org_id org) cache))"

definition has_payment_method_ready :: "organization \<Rightarrow> bool" where
  "has_payment_method_ready org = (org_payment_method_ready_at org \<noteq> None)"

definition is_trial_elapsed :: "datetime \<Rightarrow> organization \<Rightarrow> bool" where
  "is_trial_elapsed now org = (case org_trial_ends_at org of None \<Rightarrow> False | Some e \<Rightarrow> e \<le> now)"

definition is_trial_expired :: "datetime \<Rightarrow> organization \<Rightarrow> bool" where
  "is_trial_expired now org = (if org_status org \<noteq> Trialing then False else is_trial_elapsed now org)"

definition complete_payment_method_setup :: "datetime \<Rightarrow> 'e org_state \<Rightarrow> 'e org_state" where
  "complete_payment_method_setup now = (\<lambda>(org, cache).
     let org1 = (if org_payment_method_ready_at org = None
                 then org\<lparr>org_payment_method_ready_at := Some now\<rparr> else org)
     in if org_status org1 = Trialing \<and> \<not> is_trial_elapsed now org1
        then (org1\<lparr>org_plan_tier := Plan_Performance\<rparr>, lifecycle_invalidate (org_id org1) cache)
        else activate_performance None now (org1, cache))"

definition expire_trial :: "datetime \<Rightarrow> 'e org_state \<Rightarrow> 'e org_state" where
  "expire_trial now = (\<lambda>(org, cache).
     (org\<lparr>org_plan_tier := Plan_Free, org_status := Expired, org_plan_effective_at := Some now\<rparr>,
      lifecycle_invalidate (org_id org) cache))"

definition mark_past_due :: "datetime \<Rightarrow> 'e org_state \<Rightarrow> 'e org_state" where
  "mark_past_due now = (\<lambda>(org, cache).
     (org\<lparr>org_status := Past_Due, org_plan_effective_at := Some now\<rparr>,
      lifecycle_invalidate (org_id org) cache))"

definition cancel_subscription :: "datetime \<Rightarrow> 'e org_state \<Rightarrow> 'e org_state" where
  "cancel_subscription now = (\<lambda>(org, cache).
     (org\<lparr>org_plan_tier := Plan_Free, org_status := Canceled, org_stripe_subscription_id := None,
          org_plan_effective_at := Some now\<rparr>,
      lifecycle_invalidate (org_id org) cache))"

definition maybe_expire :: "datetime \<Rightarrow> 'e org_state \<Rightarrow> bool \<times> 'e org_state" where
  "maybe_expire now = (\<lambda>(org, cache).
     if is_trial_expired now org
     then (True, if has_payment_method_ready org then activate_performance None now (org, cache)
                 else expire_trial now (org, cache))
     else (False, (org, cache)))"

text \<open>
  The sweep: the query selects the trialing rows whose end is set and not after \<open>now\<close>; the loop
  transitions each. The other rows of the table are untouched.
\<close>

definition sweep_selects :: "datetime \<Rightarrow> organization \<Rightarrow> bool" where
  "sweep_selects now org =
     (org_status org = Trialing \<and> (case org_trial_ends_at org of None \<Rightarrow> False | Some e \<Rightarrow> e \<le> now))"

fun sweep_expired_trials ::
  "datetime \<Rightarrow> organization list \<Rightarrow> 'e tier_cache \<Rightarrow> uuid option list \<times> organization list \<times> 'e tier_cache" where
  "sweep_expired_trials now [] cache = ([], [], cache)"
| "sweep_expired_trials now (org # orgs) cache =
     (if sweep_selects now org
      then (case (if has_payment_method_ready org then activate_performance None now (org, cache)
                  else expire_trial now (org, cache)) of (org', cache') \<Rightarrow>
            case sweep_expired_trials now orgs cache' of (ids, orgs', cache'') \<Rightarrow>
              (org_id org # ids, org' # orgs', cache''))
      else (case sweep_expired_trials now orgs cache of (ids, orgs', cache') \<Rightarrow>
              (ids, org # orgs', cache')))"

lemmas lifecycle_defs = start_trial_def activate_performance_def complete_payment_method_setup_def
  expire_trial_def mark_past_due_def cancel_subscription_def maybe_expire_def
  is_trial_expired_def is_trial_elapsed_def has_payment_method_ready_def

section \<open>The lifecycle as a transition system\<close>

inductive lifecycle_step :: "settings \<Rightarrow> 'e org_state \<Rightarrow> 'e org_state \<Rightarrow> bool" for cfg where
  activate: "lifecycle_step cfg x (activate_performance sid now x)"
| payment_setup: "lifecycle_step cfg x (complete_payment_method_setup now x)"
| past_due: "lifecycle_step cfg x (mark_past_due now x)"
| cancel: "lifecycle_step cfg x (cancel_subscription now x)"
| expire: "lifecycle_step cfg x (snd (maybe_expire now x))"
| cache_fill: "lifecycle_step cfg (org, cache) (org, cache')"

inductive_cases lifecycle_stepE: "lifecycle_step cfg x y"

inductive lifecycle_reachable :: "settings \<Rightarrow> 'e org_state \<Rightarrow> bool" for cfg where
  trial_started: "lifecycle_reachable cfg (start_trial cfg now (org, cache))"
| step: "lifecycle_reachable cfg x \<Longrightarrow> lifecycle_step cfg x y \<Longrightarrow> lifecycle_reachable cfg y"

text \<open>Tier and status agree, and a trial always has its end.\<close>

definition lifecycle_inv :: "organization \<Rightarrow> bool" where
  "lifecycle_inv org \<longleftrightarrow>
     (org_status org \<in> {Trialing, Active} \<longrightarrow> org_plan_tier org = Plan_Performance) \<and>
     (org_status org \<in> {Canceled, Expired} \<longrightarrow> org_plan_tier org = Plan_Free) \<and>
     (org_status org = Trialing \<longrightarrow> org_trial_ends_at org \<noteq> None)"

lemma lifecycle_step_inv: "lifecycle_step cfg x y \<Longrightarrow> lifecycle_inv (fst x) \<Longrightarrow> lifecycle_inv (fst y)"
  by (cases x, erule lifecycle_stepE)
    (auto simp: lifecycle_defs lifecycle_inv_def Let_def split: option.splits)

lemma lifecycle_reachable_inv: "lifecycle_reachable cfg x \<Longrightarrow> lifecycle_inv (fst x)"
proof (induction rule: lifecycle_reachable.induct)
  case (trial_started now org cache)
  show ?case by (simp add: start_trial_def lifecycle_inv_def)
next
  case (step x y)
  then show ?case by (blast intro: lifecycle_step_inv)
qed

lemma lifecycle_step_trial_end: "lifecycle_step cfg x y \<Longrightarrow> org_trial_ends_at (fst y) = org_trial_ends_at (fst x)"
  by (cases x, erule lifecycle_stepE) (auto simp: lifecycle_defs Let_def split: option.splits)

text \<open>Every transition drops the organization's cached tier.\<close>

lemma transitions_invalidate:
  assumes "org_id org = Some i"
  shows "snd (start_trial cfg now (org, cache)) i = None"
    "snd (activate_performance sid now (org, cache)) i = None"
    "snd (complete_payment_method_setup now (org, cache)) i = None"
    "snd (expire_trial now (org, cache)) i = None"
    "snd (mark_past_due now (org, cache)) i = None"
    "snd (cancel_subscription now (org, cache)) i = None"
  using assms by (auto simp: lifecycle_defs lifecycle_invalidate_def invalidate_plan_tier_def Let_def)

section \<open>The sweep is the lazy read, everywhere\<close>

lemma sweep_selects_iff: "sweep_selects now org \<longleftrightarrow> is_trial_expired now org"
  by (auto simp: sweep_selects_def is_trial_expired_def is_trial_elapsed_def split: option.splits)

text \<open>The row the trial-end transition leaves, without the cache.\<close>

definition settle_trial :: "datetime \<Rightarrow> organization \<Rightarrow> organization" where
  "settle_trial now org =
     (if is_trial_expired now org
      then if has_payment_method_ready org
           then org\<lparr>org_plan_tier := Plan_Performance, org_status := Active, org_plan_effective_at := Some now\<rparr>
           else org\<lparr>org_plan_tier := Plan_Free, org_status := Expired, org_plan_effective_at := Some now\<rparr>
      else org)"

lemma maybe_expire_org: "fst (snd (maybe_expire now (org, cache))) = settle_trial now org"
  by (cases org) (simp add: settle_trial_def maybe_expire_def activate_performance_def expire_trial_def)

lemma sweep_orgs: "fst (snd (sweep_expired_trials now orgs cache)) = map (settle_trial now) orgs"
proof (induction orgs arbitrary: cache)
  case (Cons org orgs)
  show ?case
  proof (cases "is_trial_expired now org")
    case True
    let ?x = "if has_payment_method_ready org then activate_performance None now (org, cache)
              else expire_trial now (org, cache)"
    have org': "fst ?x = settle_trial now org"
      using maybe_expire_org [of now org cache] True by (simp add: maybe_expire_def)
    obtain ids orgs' c where rest: "sweep_expired_trials now orgs (snd ?x) = (ids, orgs', c)"
      by (metis prod_cases3)
    have "orgs' = map (settle_trial now) orgs" using Cons.IH [of "snd ?x"] rest by simp
    then show ?thesis
      using True org' rest by (simp only: sweep_expired_trials.simps sweep_selects_iff if_True case_prod_unfold) simp
  next
    case False
    then show ?thesis
      using Cons.IH [of cache] by (simp add: sweep_selects_iff settle_trial_def case_prod_unfold)
  qed
qed simp

lemma sweep_ids:
  "fst (sweep_expired_trials now orgs cache) = map org_id (filter (is_trial_expired now) orgs)"
  by (induction orgs arbitrary: cache) (auto simp: sweep_selects_iff case_prod_unfold)

lemma settle_trial_settled [simp]: "\<not> is_trial_expired now (settle_trial now org)"
  by (simp add: settle_trial_def is_trial_expired_def)

section \<open>Properties\<close>



text \<open>
  The sweep and the lazy read apply the same transition: the sweep rewrites every row exactly as
  \<open>maybe_expire\<close> does, reports exactly the organizations whose trial had ended, and a second sweep at
  the same time finds nothing to do.
\<close>

theorem sweep_is_lazy_expiry:
  "fst (snd (sweep_expired_trials now orgs cache)) = map (\<lambda>org. fst (snd (maybe_expire now (org, cache)))) orgs \<and>
   fst (sweep_expired_trials now orgs cache) =
     map org_id (filter (\<lambda>org. fst (maybe_expire now (org, cache))) orgs) \<and>
   fst (sweep_expired_trials now (fst (snd (sweep_expired_trials now orgs cache))) cache) = []"
proof -
  have "(\<lambda>org. fst (maybe_expire now (org, cache))) = is_trial_expired now"
    by (auto simp: maybe_expire_def)
  then show ?thesis
    by (simp add: sweep_orgs sweep_ids maybe_expire_org filter_empty_conv)
qed

text \<open>
  A customer who confirms a payment method before the trial ends is never downgraded by the end
  of the trial: during the trial the plan stays Pro, and the first read or sweep after the end makes
  it an active Pro plan; a customer without a payment method falls back to the free plan.
\<close>

theorem paid_trial_converts:
  assumes "org_status org = Trialing" "org_trial_ends_at org = Some e" "now < e" "e \<le> later"
  shows "org_plan_tier (fst (complete_payment_method_setup now (org, cache))) = Plan_Performance \<and>
    org_status (fst (complete_payment_method_setup now (org, cache))) = Trialing \<and>
    org_status (fst (snd (maybe_expire later (complete_payment_method_setup now (org, cache))))) = Active \<and>
    org_plan_tier (fst (snd (maybe_expire later (complete_payment_method_setup now (org, cache))))) = Plan_Performance \<and>
    (org_payment_method_ready_at org = None \<longrightarrow>
       org_plan_tier (fst (snd (maybe_expire later (org, cache)))) = Plan_Free)"
  using assms by (auto simp: lifecycle_defs Let_def)

theorem paid_trial_converts_witness:
  "org_status (fst (snd (maybe_expire 9 (complete_payment_method_setup 3
     ((new_organization ''o'' 0)\<lparr>org_status := Trialing, org_trial_ends_at := Some 5\<rparr>, Map.empty :: unit tier_cache)))))
   = Active"
  using paid_trial_converts [of "(new_organization ''o'' 0)\<lparr>org_status := Trialing, org_trial_ends_at := Some 5\<rparr>"
      5 3 9 "Map.empty :: unit tier_cache"]
  by simp

end
