(* ===== verification/Governance.thy ===== *)
theory Governance
  imports Levers BillingLifecycle Settings
begin

text \<open>
  \<open>eval/gate.py\<close> and \<open>engine/governance.py\<close>: the shadow-evaluation gate in front of the model-changing
  levers and the change request that wraps a proposed change. Tables are lists of rows; a change
  request is unique per recommendation. The audit log is the list of the events written.
\<close>

datatype run_status = Run_Pending | Run_Running | Run_Completed | Run_Failed

datatype verdict = Safe | Needs_Human | Unsafe | Insufficient

record eval_run =
  er_id :: uuid
  er_project_id :: uuid
  er_recommendation_id :: "uuid option"
  er_created_at :: datetime
  er_status :: run_status
  er_verdict :: "verdict option"
  er_incumbent_model :: "string option"
  er_candidate_model :: "string option"
  er_cost_delta_usd :: "decimal option"
  er_scorer_type :: "string option"
  er_sample_count :: int
  er_win_count :: int
  er_tie_count :: int
  er_loss_count :: int
  er_score_delta :: "decimal option"
  er_score_delta_ci_low :: "decimal option"
  er_score_delta_ci_high :: "decimal option"
  er_objective_pass_rate :: "decimal option"
  er_notes :: "string option"

datatype rec_status = Open | Applied | Dismissed | Rolled_Back

record recommendation =
  rec_id :: uuid
  rec_organization_id :: uuid
  rec_project_id :: uuid
  rec_lever :: "string option"
  rec_target_type :: "string option"
  rec_target_key :: "string option"
  rec_related_model :: "string option"
  rec_related_feature :: "string option"
  rec_status :: rec_status
  rec_resolved_at :: "datetime option"
  rec_updated_at :: datetime
  rec_estimated_monthly_savings_usd :: "decimal option"
  rec_measurement_method :: "string option"
  rec_monthly_request_volume :: "int option"
  rec_risk_level :: string
  rec_title :: string
  rec_dedupe_key :: string
  rec_type :: string
  rec_confidence :: string
  rec_related_provider :: "string option"
  rec_related_environment :: "string option"
  rec_created_at :: datetime

section \<open>eval/gate.py\<close>

definition gated_levers :: "string list" where
  "gated_levers = routing_levers @ [lever_prompt_compression]"

datatype gate_error = No_Completed_Run | Human_Only | Not_Cleared "verdict option"

definition is_gated :: "recommendation \<Rightarrow> bool" where
  "is_gated r = (case rec_lever r of None \<Rightarrow> False | Some l \<Rightarrow> l \<in> set gated_levers)"

text \<open>\<open>ORDER BY created_at DESC LIMIT 1\<close>.\<close>

fun latest_created :: "eval_run list \<Rightarrow> eval_run option" where
  "latest_created [] = None"
| "latest_created (r # rs) =
     (case latest_created rs of
        None \<Rightarrow> Some r
      | Some q \<Rightarrow> if er_created_at r < er_created_at q then Some q else Some r)"

definition latest_run :: "eval_run list \<Rightarrow> uuid \<Rightarrow> eval_run option" where
  "latest_run runs rid = latest_created (filter (\<lambda>r. er_recommendation_id r = Some rid) runs)"

definition assert_appliable :: "eval_run list \<Rightarrow> recommendation \<Rightarrow> bool \<Rightarrow> gate_error + eval_run option" where
  "assert_appliable runs rec automated =
     (if \<not> is_gated rec then Inr None
      else (case latest_run runs (rec_id rec) of
              None \<Rightarrow> Inl No_Completed_Run
            | Some run \<Rightarrow>
                if er_status run \<noteq> Run_Completed then Inl No_Completed_Run
                else if er_verdict run = Some Safe then Inr (Some run)
                else if er_verdict run = Some Needs_Human
                then (if automated then Inl Human_Only else Inr (Some run))
                else Inl (Not_Cleared (er_verdict run))))"

definition apply_measured_savings :: "recommendation \<Rightarrow> eval_run option \<Rightarrow> recommendation" where
  "apply_measured_savings rec run =
     (case run of
        None \<Rightarrow> rec
      | Some r \<Rightarrow>
          (case er_cost_delta_usd r of
             None \<Rightarrow> rec
           | Some d \<Rightarrow>
               if d \<le> 0 then rec
               else rec\<lparr>rec_estimated_monthly_savings_usd := Some d, rec_measurement_method := Some ''replay_measured''\<rparr>))"

section \<open>engine/governance.py\<close>

datatype cr_status = CR_Proposed | CR_Approved | CR_Rejected | CR_Active | CR_Rolled_Back

text \<open>The frozen evidence: the run it rests on and the savings it claims.\<close>

record evidence =
  ev_run_id :: uuid
  ev_verdict :: "verdict option"
  ev_scorer_type :: "string option"
  ev_sample_count :: int
  ev_win_count :: int
  ev_tie_count :: int
  ev_loss_count :: int
  ev_score_delta :: "decimal option"
  ev_score_delta_ci_low :: "decimal option"
  ev_score_delta_ci_high :: "decimal option"
  ev_objective_pass_rate :: "decimal option"
  ev_notes :: "string option"
  ev_estimated_monthly_savings_usd :: "decimal option"
  ev_measurement_method :: "string option"
  ev_monthly_request_volume :: "int option"
  ev_risk_level :: string

record change_request =
  cr_id :: uuid
  cr_organization_id :: uuid
  cr_project_id :: uuid
  cr_recommendation_id :: uuid
  cr_eval_run_id :: uuid
  cr_lever :: string
  cr_route_key :: string
  cr_incumbent_model :: string
  cr_candidate_model :: string
  cr_status :: cr_status
  cr_evidence :: evidence
  cr_decided_by_user_id :: "uuid option"
  cr_decided_at :: "datetime option"
  cr_decision_rationale :: "string option"
  cr_updated_at :: datetime

record audit_event =
  au_action :: string
  au_actor :: uuid
  au_target_id :: uuid
  au_before :: cr_status
  au_after :: cr_status

definition governed_levers :: "string list" where
  "governed_levers = routing_levers @ [lever_prompt_compression]"

definition evidence_bundle :: "eval_run \<Rightarrow> recommendation \<Rightarrow> evidence" where
  "evidence_bundle run rec =
     \<lparr>ev_run_id = er_id run, ev_verdict = er_verdict run, ev_scorer_type = er_scorer_type run,
      ev_sample_count = er_sample_count run, ev_win_count = er_win_count run, ev_tie_count = er_tie_count run,
      ev_loss_count = er_loss_count run, ev_score_delta = er_score_delta run,
      ev_score_delta_ci_low = er_score_delta_ci_low run, ev_score_delta_ci_high = er_score_delta_ci_high run,
      ev_objective_pass_rate = er_objective_pass_rate run, ev_notes = er_notes run,
      ev_estimated_monthly_savings_usd = rec_estimated_monthly_savings_usd rec,
      ev_measurement_method = rec_measurement_method rec,
      ev_monthly_request_volume = rec_monthly_request_volume rec, ev_risk_level = rec_risk_level rec\<rparr>"

definition change_request_for_recommendation :: "change_request list \<Rightarrow> uuid \<Rightarrow> change_request option" where
  "change_request_for_recommendation crs rid = find (\<lambda>c. cr_recommendation_id c = rid) crs"

text \<open>Updating the row of a recommendation in the table.\<close>

definition update_cr :: "uuid \<Rightarrow> (change_request \<Rightarrow> change_request) \<Rightarrow> change_request list \<Rightarrow> change_request list" where
  "update_cr rid f crs = map (\<lambda>c. if cr_recommendation_id c = rid then f c else c) crs"

definition or_empty :: "string option \<Rightarrow> string" where
  "or_empty v = (case v of None \<Rightarrow> [] | Some s \<Rightarrow> s)"

text \<open>\<open>new_id\<close> is the fresh key of the row; \<open>recs\<close> the recommendation table.\<close>

definition ensure_change_request ::
  "recommendation list \<Rightarrow> uuid \<Rightarrow> datetime \<Rightarrow> eval_run \<Rightarrow> change_request list
    \<Rightarrow> change_request option \<times> change_request list" where
  "ensure_change_request recs new_id now run crs =
     (if er_status run \<noteq> Run_Completed \<or> er_verdict run \<notin> {Some Safe, Some Needs_Human} then (None, crs)
      else (case er_recommendation_id run of
        None \<Rightarrow> (None, crs)
      | Some rid \<Rightarrow>
          (case find (\<lambda>r. rec_id r = rid) recs of
             None \<Rightarrow> (None, crs)
           | Some rec \<Rightarrow>
               if (case rec_lever rec of None \<Rightarrow> True | Some l \<Rightarrow> l \<notin> set governed_levers) then (None, crs)
               else (case change_request_for_recommendation crs rid of
                 Some existing \<Rightarrow>
                   if cr_status existing = CR_Proposed
                   then (let f = (\<lambda>c. c\<lparr>cr_eval_run_id := er_id run, cr_evidence := evidence_bundle run rec\<rparr>)
                         in (Some (f existing), update_cr rid f crs))
                   else (Some existing, crs)
               | None \<Rightarrow>
                   (let cr = \<lparr>cr_id = new_id, cr_organization_id = rec_organization_id rec,
                              cr_project_id = rec_project_id rec, cr_recommendation_id = rid,
                              cr_eval_run_id = er_id run, cr_lever = the (rec_lever rec),
                              cr_route_key = canonical_route_key (rec_related_feature rec) None None (rec_target_key rec),
                              cr_incumbent_model = or_empty (or_str (er_incumbent_model run) (rec_related_model rec)),
                              cr_candidate_model = or_empty (er_candidate_model run),
                              cr_status = CR_Proposed, cr_evidence = evidence_bundle run rec,
                              cr_decided_by_user_id = None, cr_decided_at = None, cr_decision_rationale = None,
                              cr_updated_at = now\<rparr>
                    in (Some cr, crs @ [cr]))))))"

definition decide_change_request ::
  "uuid \<Rightarrow> bool \<Rightarrow> string option \<Rightarrow> datetime \<Rightarrow> change_request \<Rightarrow> change_request list \<times> audit_event list
    \<Rightarrow> cr_status + change_request \<times> change_request list \<times> audit_event list" where
  "decide_change_request user approve rationale now cr = (\<lambda>(crs, audit).
     (if cr_status cr \<noteq> CR_Proposed then Inl (cr_status cr)
      else (let f = (\<lambda>c. c\<lparr>cr_status := (if approve then CR_Approved else CR_Rejected),
                           cr_decided_by_user_id := Some user, cr_decided_at := Some now,
                           cr_decision_rationale := rationale\<rparr>)
            in Inr (f cr, update_cr (cr_recommendation_id cr) f crs,
                    audit @ [\<lparr>au_action = (if approve then ''change_request.approved'' else ''change_request.rejected''),
                              au_actor = user, au_target_id = cr_id cr, au_before = CR_Proposed,
                              au_after = (if approve then CR_Approved else CR_Rejected)\<rparr>]))))"

definition governance_enforced_for :: "settings \<Rightarrow> organization option \<Rightarrow> bool" where
  "governance_enforced_for st org =
     (governance_change_requests_enabled st \<or> (case org of None \<Rightarrow> False | Some orga \<Rightarrow> org_governance_enforced orga))"

datatype governance_error = No_Change_Request | Not_Approved cr_status

definition assert_change_request_approved ::
  "settings \<Rightarrow> organization option \<Rightarrow> change_request list \<Rightarrow> recommendation \<Rightarrow> governance_error + unit" where
  "assert_change_request_approved st org crs rec =
     (if (case rec_lever rec of None \<Rightarrow> True | Some l \<Rightarrow> l \<notin> set governed_levers) then Inr ()
      else if \<not> governance_enforced_for st org then Inr ()
      else (case change_request_for_recommendation crs (rec_id rec) of
              None \<Rightarrow> Inl No_Change_Request
            | Some c \<Rightarrow> if cr_status c \<noteq> CR_Approved then Inl (Not_Approved (cr_status c)) else Inr ()))"

definition mark_change_request_active :: "recommendation \<Rightarrow> datetime \<Rightarrow> change_request list \<Rightarrow> change_request list" where
  "mark_change_request_active rec now crs =
     (case change_request_for_recommendation crs (rec_id rec) of
        None \<Rightarrow> crs
      | Some c \<Rightarrow>
          if cr_status c \<in> {CR_Proposed, CR_Approved}
          then update_cr (rec_id rec) (\<lambda>c. c\<lparr>cr_status := CR_Active, cr_updated_at := now\<rparr>) crs else crs)"

definition mark_change_request_rolled_back :: "recommendation \<Rightarrow> datetime \<Rightarrow> change_request list \<Rightarrow> change_request list" where
  "mark_change_request_rolled_back rec now crs =
     (case change_request_for_recommendation crs (rec_id rec) of
        None \<Rightarrow> crs
      | Some c \<Rightarrow>
          if cr_status c = CR_Active
          then update_cr (rec_id rec) (\<lambda>c. c\<lparr>cr_status := CR_Rolled_Back, cr_updated_at := now\<rparr>) crs else crs)"

section \<open>The gate\<close>

lemma latest_created_in: "latest_created rs = Some r \<Longrightarrow> r \<in> set rs"
  by (induction rs arbitrary: r) (auto split: option.splits if_splits)

lemma latest_run_of: "latest_run runs rid = Some r \<Longrightarrow> r \<in> set runs \<and> er_recommendation_id r = Some rid"
  by (auto simp: latest_run_def dest!: latest_created_in)

text \<open>A run that clears a recommendation, for a human and for automation.\<close>

definition run_clears :: "bool \<Rightarrow> eval_run \<Rightarrow> bool" where
  "run_clears automated run \<longleftrightarrow>
     er_status run = Run_Completed \<and>
     (er_verdict run = Some Safe \<or> er_verdict run = Some Needs_Human \<and> \<not> automated)"

lemma assert_appliable_Inr:
  "assert_appliable runs rec automated = Inr g \<longleftrightarrow>
     (if is_gated rec then (\<exists>run. latest_run runs (rec_id rec) = Some run \<and> run_clears automated run \<and> g = Some run)
      else g = None)"
  by (auto simp: assert_appliable_def run_clears_def split: option.splits)

section \<open>The life of a change request\<close>

text \<open>The steps of the module on the table and the audit log.\<close>

inductive gov_step :: "change_request list \<times> audit_event list \<Rightarrow> change_request list \<times> audit_event list \<Rightarrow> bool" where
  propose: "cr_id_fresh \<notin> cr_id ` set crs \<Longrightarrow>
     gov_step (crs, audit) (snd (ensure_change_request recs cr_id_fresh now run crs), audit)"
| decide: "cr \<in> set crs \<Longrightarrow>
     decide_change_request user approve rationale now cr (crs, audit) = Inr (cr', crs', audit') \<Longrightarrow>
     gov_step (crs, audit) (crs', audit')"
| activate: "gov_step (crs, audit) (mark_change_request_active rec now crs, audit)"
| roll_back: "gov_step (crs, audit) (mark_change_request_rolled_back rec now crs, audit)"

definition unique_crs :: "change_request list \<Rightarrow> bool" where
  "unique_crs crs \<longleftrightarrow> distinct (map cr_recommendation_id crs)"

text \<open>How one row may change in one step.\<close>

definition status_step :: "cr_status \<Rightarrow> cr_status \<Rightarrow> bool" where
  "status_step a b \<longleftrightarrow> a = b \<or>
     (a, b) \<in> {(CR_Proposed, CR_Approved), (CR_Proposed, CR_Rejected), (CR_Proposed, CR_Active),
               (CR_Approved, CR_Active), (CR_Active, CR_Rolled_Back)}"

definition row_step :: "change_request \<Rightarrow> change_request \<Rightarrow> bool" where
  "row_step c c' \<longleftrightarrow>
     cr_id c' = cr_id c \<and> cr_recommendation_id c' = cr_recommendation_id c \<and> status_step (cr_status c) (cr_status c') \<and>
     (cr_status c \<noteq> CR_Proposed \<longrightarrow>
        cr_evidence c' = cr_evidence c \<and> cr_eval_run_id c' = cr_eval_run_id c \<and>
        cr_decided_by_user_id c' = cr_decided_by_user_id c \<and> cr_decision_rationale c' = cr_decision_rationale c)"

lemma row_step_refl [simp]: "row_step c c"
  by (simp add: row_step_def status_step_def)

lemma unique_crs_find:
  "unique_crs crs \<Longrightarrow> c \<in> set crs \<Longrightarrow> change_request_for_recommendation crs (cr_recommendation_id c) = Some c"
  by (induction crs) (auto simp: unique_crs_def change_request_for_recommendation_def)

lemma update_cr_keys [simp]:
  "(\<And>c. cr_recommendation_id (f c) = cr_recommendation_id c) \<Longrightarrow>
     map cr_recommendation_id (update_cr rid f crs) = map cr_recommendation_id crs"
  by (simp add: update_cr_def)

lemma update_cr_rows:
  assumes "unique_crs crs" "change_request_for_recommendation crs rid = Some x" "row_step x (f x)"
  shows "list_all2 row_step crs (update_cr rid f crs)"
proof -
  have "row_step c (if cr_recommendation_id c = rid then f c else c)" if "c \<in> set crs" for c
    using unique_crs_find [OF assms(1) that] assms(2,3) by auto
  then show ?thesis by (simp add: update_cr_def list_all2_map2 list_all2_same)
qed

lemma mark_active_rows: "unique_crs crs \<Longrightarrow> list_all2 row_step crs (mark_change_request_active rec now crs)"
  unfolding mark_change_request_active_def
  by (auto simp: list_all2_same row_step_def status_step_def intro!: update_cr_rows split: option.split)

lemma mark_rolled_back_rows: "unique_crs crs \<Longrightarrow> list_all2 row_step crs (mark_change_request_rolled_back rec now crs)"
  unfolding mark_change_request_rolled_back_def
  by (auto simp: list_all2_same row_step_def status_step_def intro!: update_cr_rows split: option.split)

lemma decide_rows:
  assumes "unique_crs crs" "cr \<in> set crs"
    and "decide_change_request user approve rationale now cr (crs, audit) = Inr (cr', crs', audit')"
  shows "list_all2 row_step crs crs'"
proof -
  have "change_request_for_recommendation crs (cr_recommendation_id cr) = Some cr"
    by (rule unique_crs_find [OF assms(1,2)])
  then show ?thesis
    using assms(1,3) by (auto simp: decide_change_request_def Let_def row_step_def status_step_def
        intro!: update_cr_rows split: if_splits)
qed

lemma ensure_rows:
  assumes "unique_crs crs"
  shows "list_all2 row_step crs (snd (ensure_change_request recs i now run crs)) \<or>
    (\<exists>cr. snd (ensure_change_request recs i now run crs) = crs @ [cr] \<and> cr_status cr = CR_Proposed \<and>
          change_request_for_recommendation crs (cr_recommendation_id cr) = None)"
proof -
  have same: "list_all2 row_step crs crs" by (simp add: list_all2_same)
  have upd: "list_all2 row_step crs (update_cr rid (\<lambda>c. c\<lparr>cr_eval_run_id := a, cr_evidence := b\<rparr>) crs)"
    if "change_request_for_recommendation crs rid = Some x" "cr_status x = CR_Proposed" for rid a b x
    using assms that by (intro update_cr_rows) (auto simp: row_step_def status_step_def)
  show ?thesis
    unfolding ensure_change_request_def Let_def
    by (auto simp: same upd split: option.split)
qed

lemma list_all2_row_step_keys: "list_all2 row_step xs ys \<Longrightarrow> map cr_recommendation_id ys = map cr_recommendation_id xs"
  by (induction xs ys rule: list_all2_induct) (auto simp: row_step_def)

lemma list_all2_row_step_mem: "list_all2 row_step xs ys \<Longrightarrow> c \<in> set xs \<Longrightarrow> \<exists>c' \<in> set ys. row_step c c'"
  by (induction xs ys rule: list_all2_induct) auto

lemma find_None_key: "change_request_for_recommendation crs rid = None \<longleftrightarrow> rid \<notin> cr_recommendation_id ` set crs"
  by (auto simp: change_request_for_recommendation_def find_None_iff)

lemma gov_step_rows:
  assumes "gov_step s s'" "unique_crs (fst s)"
  shows "unique_crs (fst s') \<and> (\<forall>c \<in> set (fst s). \<exists>c' \<in> set (fst s'). row_step c c')"
proof -
  have ok: "unique_crs ys \<and> (\<forall>c \<in> set xs. \<exists>c' \<in> set ys. row_step c c')"
    if "list_all2 row_step xs ys" "unique_crs xs" for xs ys
    using that list_all2_row_step_keys [OF that(1)] list_all2_row_step_mem [OF that(1)] by (auto simp: unique_crs_def)
  from assms show ?thesis
  proof (cases rule: gov_step.cases)
    case (propose i crs audit recs now run)
    then have u: "unique_crs crs" using assms(2) by simp
    from ensure_rows [OF u, of recs i now run] show ?thesis
    proof (elim disjE exE conjE)
      assume "list_all2 row_step crs (snd (ensure_change_request recs i now run crs))"
      from ok [OF this u] propose show ?thesis by simp
    next
      fix cr assume "snd (ensure_change_request recs i now run crs) = crs @ [cr]"
        "change_request_for_recommendation crs (cr_recommendation_id cr) = None"
      with u propose show ?thesis
        by (auto simp: unique_crs_def find_None_key) (meson row_step_refl)
    qed
  next
    case (decide cr crs user approve rationale now audit cr' crs' audit')
    with assms(2) ok [OF decide_rows] show ?thesis by simp
  next
    case (activate crs audit rec now)
    with assms(2) ok [OF mark_active_rows] show ?thesis by simp
  next
    case (roll_back crs audit rec now)
    with assms(2) ok [OF mark_rolled_back_rows] show ?thesis by simp
  qed
qed

text \<open>What is left of a decided row after any number of steps.\<close>

definition frozen_from :: "change_request \<Rightarrow> change_request \<Rightarrow> bool" where
  "frozen_from c c' \<longleftrightarrow>
     cr_id c' = cr_id c \<and> cr_recommendation_id c' = cr_recommendation_id c \<and>
     cr_evidence c' = cr_evidence c \<and> cr_eval_run_id c' = cr_eval_run_id c \<and>
     cr_decided_by_user_id c' = cr_decided_by_user_id c \<and> cr_decision_rationale c' = cr_decision_rationale c \<and>
     (case cr_status c of
        CR_Proposed \<Rightarrow> False
      | CR_Approved \<Rightarrow> cr_status c' \<in> {CR_Approved, CR_Active, CR_Rolled_Back}
      | CR_Active \<Rightarrow> cr_status c' \<in> {CR_Active, CR_Rolled_Back}
      | CR_Rejected \<Rightarrow> cr_status c' = CR_Rejected
      | CR_Rolled_Back \<Rightarrow> cr_status c' = CR_Rolled_Back)"

lemma frozen_from_refl: "cr_status c \<noteq> CR_Proposed \<Longrightarrow> frozen_from c c"
  by (cases "cr_status c") (simp_all add: frozen_from_def)

lemma frozen_from_step: "frozen_from c c' \<Longrightarrow> row_step c' c'' \<Longrightarrow> frozen_from c c''"
  by (cases "cr_status c") (auto simp: frozen_from_def row_step_def status_step_def)

lemma gov_steps_rows:
  assumes "gov_step\<^sup>*\<^sup>* s s'" "unique_crs (fst s)" "c \<in> set (fst s)" "cr_status c \<noteq> CR_Proposed"
  shows "unique_crs (fst s') \<and> (\<exists>c' \<in> set (fst s'). frozen_from c c')"
  using assms(1)
proof (induction rule: rtranclp_induct)
  case base
  show ?case using assms frozen_from_refl by blast
next
  case (step y z)
  with gov_step_rows [OF step.hyps(2)] show ?case by (meson frozen_from_step)
qed

lemma cr_found_rolled_back:
  assumes "unique_crs crs" "c \<in> set crs" "cr_recommendation_id c = rec_id rec" "cr_status c \<noteq> CR_Approved"
    and "governance_enforced_for st org" "rec_lever rec = Some l" "l \<in> set governed_levers"
  shows "assert_change_request_approved st org crs rec = Inl (Not_Approved (cr_status c))"
  using unique_crs_find [OF assms(1,2)] assms(3-) by (simp add: assert_change_request_approved_def)

section \<open>Properties\<close>

text \<open>
  The evaluation gate: a recommendation passes exactly when its lever is not gated, or its latest
  shadow evaluation is completed with verdict safe, or with verdict needs-human and a human applies it;
  the run handed on is that latest run. Automation never applies a needs-human change.
\<close>

theorem gate_passes_iff_cleared:
  "(assert_appliable runs rec automated = Inr g \<longleftrightarrow>
      (if is_gated rec
       then (\<exists>run. latest_run runs (rec_id rec) = Some run \<and> run_clears automated run \<and> g = Some run)
       else g = None)) \<and>
   \<not> (run_clears True run' \<and> er_verdict run' \<noteq> Some Safe)"
  using assert_appliable_Inr by (auto simp: run_clears_def)

text \<open>
  C7. What an approver saw stays: over any sequence of proposals, decisions, activations and rollbacks,
  a decided change request keeps its evidence bundle, its run, its decider and the rationale, is never
  proposed again, and a rejected or rolled-back one stays so.
\<close>

theorem decided_change_request_frozen:
  assumes "gov_step\<^sup>*\<^sup>* (crs, audit) (crs', audit')" "unique_crs crs" "c \<in> set crs" "cr_status c \<noteq> CR_Proposed"
  shows "\<exists>c' \<in> set crs'. frozen_from c c'"
  using gov_steps_rows [OF assms(1)] assms(2-) by simp

definition sample_cr :: change_request where
  "sample_cr = \<lparr>cr_id = ''cr'', cr_organization_id = ''o'', cr_project_id = ''p'', cr_recommendation_id = ''rec'',
     cr_eval_run_id = ''run'', cr_lever = lever_smart_routing, cr_route_key = ''default'', cr_incumbent_model = ''a'',
     cr_candidate_model = ''b'', cr_status = CR_Active,
     cr_evidence = \<lparr>ev_run_id = ''run'', ev_verdict = Some Safe, ev_scorer_type = None, ev_sample_count = 40,
       ev_win_count = 10, ev_tie_count = 30, ev_loss_count = 0, ev_score_delta = None, ev_score_delta_ci_low = None,
       ev_score_delta_ci_high = None, ev_objective_pass_rate = None, ev_notes = None,
       ev_estimated_monthly_savings_usd = Some 10, ev_measurement_method = None,
       ev_monthly_request_volume = None, ev_risk_level = ''medium''\<rparr>,
     cr_decided_by_user_id = Some ''u'', cr_decided_at = Some 3, cr_decision_rationale = None, cr_updated_at = 4\<rparr>"

definition sample_rec :: recommendation where
  "sample_rec = \<lparr>rec_id = ''rec'', rec_organization_id = ''o'', rec_project_id = ''p'', rec_lever = Some lever_smart_routing,
     rec_target_type = None, rec_target_key = None, rec_related_model = Some ''a'', rec_related_feature = None,
     rec_status = Applied, rec_resolved_at = None, rec_updated_at = 0, rec_estimated_monthly_savings_usd = None,
     rec_measurement_method = None, rec_monthly_request_volume = None, rec_risk_level = ''medium'', rec_title = [],
     rec_dedupe_key = [], rec_type = ''smart_routing'', rec_confidence = ''medium'', rec_related_provider = None,
     rec_related_environment = None, rec_created_at = 0\<rparr>"

lemma sample_rolled_back:
  "mark_change_request_rolled_back sample_rec 9 [sample_cr] = [sample_cr\<lparr>cr_status := CR_Rolled_Back, cr_updated_at := 9\<rparr>]"
  by (simp add: mark_change_request_rolled_back_def change_request_for_recommendation_def update_cr_def
      sample_cr_def sample_rec_def)

theorem decided_change_request_frozen_witness:
  "\<exists>c' \<in> set (mark_change_request_rolled_back sample_rec 9 [sample_cr]). frozen_from sample_cr c'"
  using decided_change_request_frozen [OF r_into_rtranclp [of gov_step, OF gov_step.roll_back [of "[sample_cr]" "[]" sample_rec 9]], of sample_cr]
  by (simp add: unique_crs_def sample_cr_def)

text \<open>
  With enforcement on, a rollback is final: once the change request of a governed recommendation is
  rejected or rolled back, no sequence of governance steps (a new evaluation included) makes the
  enforcement gate pass for that recommendation again.
\<close>

theorem rolled_back_change_never_reapplied:
  assumes "gov_step\<^sup>*\<^sup>* (crs, audit) (crs', audit')" "unique_crs crs" "c \<in> set crs"
    and "cr_recommendation_id c = rec_id rec" "cr_status c \<in> {CR_Rejected, CR_Rolled_Back}"
    and "governance_enforced_for st org" "rec_lever rec = Some l" "l \<in> set governed_levers"
  shows "assert_change_request_approved st org crs' rec = Inl (Not_Approved (cr_status c))"
proof -
  have "cr_status c \<noteq> CR_Proposed" using assms(5) by auto
  with gov_steps_rows [OF assms(1)] assms(2,3) obtain c' where c': "unique_crs crs'" "c' \<in> set crs'" "frozen_from c c'"
    by auto
  then have "cr_status c' = cr_status c" "cr_recommendation_id c' = rec_id rec"
    using assms(4,5) by (auto simp: frozen_from_def)
  with cr_found_rolled_back [OF c'(1,2)] assms(5-) show ?thesis by auto
qed

theorem rolled_back_change_never_reapplied_witness:
  "assert_change_request_approved (default_settings\<lparr>governance_change_requests_enabled := True\<rparr>) None
     (mark_change_request_active sample_rec 12 [sample_cr\<lparr>cr_status := CR_Rolled_Back\<rparr>]) sample_rec =
   Inl (Not_Approved CR_Rolled_Back)"
  using rolled_back_change_never_reapplied [OF r_into_rtranclp [of gov_step, OF gov_step.activate
      [of "[sample_cr\<lparr>cr_status := CR_Rolled_Back\<rparr>]" "[]" sample_rec 12]], of "sample_cr\<lparr>cr_status := CR_Rolled_Back\<rparr>"
      sample_rec "default_settings\<lparr>governance_change_requests_enabled := True\<rparr>" None lever_smart_routing]
  by (simp add: unique_crs_def sample_cr_def sample_rec_def governance_enforced_for_def governed_levers_def routing_levers_def)

end
