(* ===== verification/Canary.thy ===== *)
theory Canary
  imports Settings
begin

text \<open>
  \<open>proxy/canary.py\<close>: the initial rollout percent of a policy, the per-request rollout draw and the
  next stage of the ramp. \<open>ramp\<close> is the sequence of percents that repeated promotion by the drift
  sweep visits.
\<close>

definition fully_live :: int where
  "fully_live = 100"

definition initial_rollout_percent :: "settings \<Rightarrow> int" where
  "initial_rollout_percent cfg =
     (if \<not> canary_enabled cfg then fully_live
      else max 1 (min fully_live (canary_initial_percent cfg)))"

text \<open>\<open>draw\<close> is the value of \<open>random.random()\<close>, in \<open>[0, 1)\<close>.\<close>

definition in_rollout :: "rat \<Rightarrow> int option \<Rightarrow> bool" where
  "in_rollout draw rollout_percent =
     (let pct = (case rollout_percent of None \<Rightarrow> fully_live | Some p \<Rightarrow> p)
      in if fully_live \<le> pct then True
         else if pct \<le> 0 then False
         else draw * 100 < of_int pct)"

definition next_stage :: "settings \<Rightarrow> int \<Rightarrow> int option" where
  "next_stage cfg current = find (\<lambda>stage. current < stage) (canary_stages cfg)"

section \<open>The ramp\<close>

lemma next_stage_greater: "next_stage cfg current = Some n \<Longrightarrow> current < n \<and> n \<in> set (canary_stages cfg)"
  by (auto simp: next_stage_def find_Some_iff)

lemma next_stage_None: "next_stage cfg current = None \<longleftrightarrow> (\<forall>s \<in> set (canary_stages cfg). s \<le> current)"
  by (auto simp: next_stage_def find_None_iff not_less)

function ramp :: "settings \<Rightarrow> int \<Rightarrow> int list" where
  "ramp cfg p = (case next_stage cfg p of None \<Rightarrow> [p] | Some n \<Rightarrow> p # ramp cfg n)"
  by pat_completeness auto
termination
proof (relation "measure (\<lambda>(cfg, p). card {s \<in> set (canary_stages cfg). p < s})")
  fix cfg p n
  assume "next_stage cfg p = Some n"
  then have n: "p < n" "n \<in> set (canary_stages cfg)" by (auto dest: next_stage_greater)
  then have "{s \<in> set (canary_stages cfg). n < s} \<subset> {s \<in> set (canary_stages cfg). p < s}" by auto
  then show "((cfg, n), (cfg, p)) \<in> measure (\<lambda>(cfg, p). card {s \<in> set (canary_stages cfg). p < s})"
    by (simp add: psubset_card_mono)
qed simp

declare ramp.simps [simp del]

lemma ramp_not_Nil [simp]: "ramp cfg p \<noteq> []"
  by (subst ramp.simps) (simp split: option.split)

lemma hd_ramp [simp]: "hd (ramp cfg p) = p"
  by (subst ramp.simps) (simp split: option.split)

lemma ramp_greater: "q \<in> set (ramp cfg p) \<Longrightarrow> p \<le> q"
proof (induction cfg p rule: ramp.induct)
  case (1 cfg p)
  show ?case
  proof (cases "next_stage cfg p")
    case None
    with "1.prems" show ?thesis by (simp add: ramp.simps [of cfg p])
  next
    case (Some n)
    with "1.prems" "1.IH" [OF Some] next_stage_greater [OF Some] show ?thesis
      by (auto simp: ramp.simps [of cfg p])
  qed
qed

lemma ramp_sorted: "sorted_wrt (<) (ramp cfg p)"
proof (induction cfg p rule: ramp.induct)
  case (1 cfg p)
  show ?case
  proof (cases "next_stage cfg p")
    case None
    then show ?thesis by (simp add: ramp.simps [of cfg p])
  next
    case (Some n)
    moreover have "p < q" if "q \<in> set (ramp cfg n)" for q
      using ramp_greater [OF that] next_stage_greater [OF Some] by simp
    ultimately show ?thesis using "1.IH" [OF Some] by (simp add: ramp.simps [of cfg p])
  qed
qed

lemma last_ramp:
  "next_stage cfg (last (ramp cfg p)) = None \<and>
   (last (ramp cfg p) = p \<or> last (ramp cfg p) \<in> set (canary_stages cfg))"
proof (induction cfg p rule: ramp.induct)
  case (1 cfg p)
  show ?case
  proof (cases "next_stage cfg p")
    case None
    then show ?thesis by (simp add: ramp.simps [of cfg p])
  next
    case (Some n)
    with "1.IH" [OF Some] next_stage_greater [OF Some] show ?thesis
      by (auto simp: ramp.simps [of cfg p])
  qed
qed

lemma initial_rollout_bounds: "1 \<le> initial_rollout_percent cfg \<and> initial_rollout_percent cfg \<le> fully_live"
  by (simp add: initial_rollout_percent_def fully_live_def)

section \<open>Properties\<close>

text \<open>
  C40. A policy's ramp starts between 1 and 100 percent, increases strictly with every promotion and
  is finite; when the configured stages end at 100 it ends fully live, and the rollout only widens:
  a draw that a stage admits is admitted by every later stage.
\<close>

theorem canary_ramp_reaches_full:
  assumes "\<forall>s \<in> set (canary_stages cfg). s \<le> fully_live" "fully_live \<in> set (canary_stages cfg)"
  shows "hd (ramp cfg (initial_rollout_percent cfg)) = initial_rollout_percent cfg \<and>
    1 \<le> initial_rollout_percent cfg \<and>
    sorted_wrt (<) (ramp cfg (initial_rollout_percent cfg)) \<and>
    last (ramp cfg (initial_rollout_percent cfg)) = fully_live \<and>
    (\<forall>p q. p \<le> q \<and> in_rollout draw (Some p) \<longrightarrow> in_rollout draw (Some q))"
proof -
  let ?p = "initial_rollout_percent cfg"
  have "fully_live \<le> last (ramp cfg ?p)"
    using last_ramp [of cfg ?p] assms(2) by (auto simp: next_stage_None)
  moreover have "last (ramp cfg ?p) \<le> fully_live"
    using last_ramp [of cfg ?p] assms(1) initial_rollout_bounds [of cfg] by auto
  moreover have "in_rollout draw (Some q)" if "p \<le> q" "in_rollout draw (Some p)" for p q
  proof -
    have "(of_int p :: rat) \<le> of_int q" using that(1) by simp
    then show ?thesis using that by (auto simp: in_rollout_def Let_def split: if_splits)
  qed
  ultimately show ?thesis
    using ramp_sorted initial_rollout_bounds [of cfg] by auto
qed

theorem canary_ramp_reaches_full_witness:
  "last (ramp (default_settings\<lparr>canary_enabled := True\<rparr>) 10) = 100"
  using canary_ramp_reaches_full [of "default_settings\<lparr>canary_enabled := True\<rparr>" 0]
  by (simp add: initial_rollout_percent_def fully_live_def)

end
