(* ===== verification/Bandit.thy ===== *)
theory Bandit
  imports Settings
begin

text \<open>
  \<open>engine/bandit.py\<close>: choosing per request among a policy's cleared candidates. The random draws are
  arguments: one Beta draw per candidate (used when the candidate has enough evidence), the uniform
  draw \<open>u\<close> of the exploration budget and the index \<open>pick\<close> of the uniform choice.
\<close>

datatype bandit_mode = Mode_Off | Mode_Shadow | Mode_Active

definition mode_of :: "settings \<Rightarrow> bandit_mode" where
  "mode_of st =
     (let v = py_lower (py_strip (if bandit_routing_mode st = [] then ''off'' else bandit_routing_mode st))
      in if v = ''shadow'' then Mode_Shadow else if v = ''active'' then Mode_Active else Mode_Off)"

record candidate_stats =
  cs_model :: string
  cs_provider :: string
  cs_sample_count :: int
  cs_quality_pass_rate :: "rat option"
  cs_average_savings_usd :: "decimal option"

datatype bandit_reason = Exploit | Explore | Fallback_Primary

record bandit_choice =
  bc_model :: string
  bc_provider :: string
  bc_reason :: bandit_reason
  bc_sampled_quality :: "rat option"

definition quality_draw :: "settings \<Rightarrow> candidate_stats \<Rightarrow> rat \<Rightarrow> rat" where
  "quality_draw st stats beta =
     (if cs_quality_pass_rate stats = None \<or> cs_sample_count stats < bandit_min_samples st then 1 else beta)"

definition cleared_candidates ::
  "settings \<Rightarrow> candidate_stats list \<Rightarrow> rat list \<Rightarrow> (candidate_stats \<times> rat) list" where
  "cleared_candidates st candidates betas =
     filter (\<lambda>(s, d). bandit_quality_floor st \<le> d)
       (map (\<lambda>(s, b). (s, quality_draw st s b)) (zip candidates betas))"

text \<open>\<open>max(proven, key=...)\<close>: the first of the largest.\<close>

fun max_savings :: "candidate_stats \<times> rat \<Rightarrow> (candidate_stats \<times> rat) list \<Rightarrow> candidate_stats \<times> rat" where
  "max_savings best [] = best"
| "max_savings best (x # xs) =
     (if the (cs_average_savings_usd (fst best)) < the (cs_average_savings_usd (fst x))
      then max_savings x xs else max_savings best xs)"

definition is_unproven :: "settings \<Rightarrow> candidate_stats \<times> rat \<Rightarrow> bool" where
  "is_unproven st x \<longleftrightarrow> cs_sample_count (fst x) < bandit_min_samples st"

definition is_proven :: "settings \<Rightarrow> candidate_stats \<times> rat \<Rightarrow> bool" where
  "is_proven st x \<longleftrightarrow> bandit_min_samples st \<le> cs_sample_count (fst x) \<and> cs_average_savings_usd (fst x) \<noteq> None"

definition primary_choice :: "string \<Rightarrow> string \<Rightarrow> bandit_choice" where
  "primary_choice m p = \<lparr>bc_model = m, bc_provider = p, bc_reason = Fallback_Primary, bc_sampled_quality = None\<rparr>"

definition candidate_choice :: "bandit_reason \<Rightarrow> candidate_stats \<times> rat \<Rightarrow> bandit_choice" where
  "candidate_choice r x =
     \<lparr>bc_model = cs_model (fst x), bc_provider = cs_provider (fst x), bc_reason = r, bc_sampled_quality = Some (snd x)\<rparr>"

definition select_candidate ::
  "settings \<Rightarrow> string \<Rightarrow> string \<Rightarrow> candidate_stats list \<Rightarrow> rat list \<Rightarrow> rat \<Rightarrow> nat \<Rightarrow> bandit_choice" where
  "select_candidate st primary_model primary_provider candidates betas u pick =
     (let cleared = cleared_candidates st candidates betas;
          unproven = filter (is_unproven st) cleared;
          proven = filter (is_proven st) cleared
      in if cleared = [] then primary_choice primary_model primary_provider
         else if unproven \<noteq> [] \<and> u < bandit_exploration_budget st
         then candidate_choice Explore (unproven ! (pick mod length unproven))
         else (case proven of
                 [] \<Rightarrow> primary_choice primary_model primary_provider
               | x # xs \<Rightarrow> candidate_choice Exploit (max_savings x xs)))"

section \<open>Lemmas\<close>

lemma max_savings_in: "max_savings x xs \<in> set (x # xs)"
  by (induction x xs rule: max_savings.induct) auto

lemma max_savings_max:
  "\<forall>y \<in> set (x # xs).
     the (cs_average_savings_usd (fst y)) \<le> the (cs_average_savings_usd (fst (max_savings x xs)))"
  by (induction x xs rule: max_savings.induct) (auto intro: order.trans)

text \<open>What makes a choice right, by its reason.\<close>

definition choice_justified ::
  "settings \<Rightarrow> string \<Rightarrow> string \<Rightarrow> candidate_stats list \<Rightarrow> rat list \<Rightarrow> rat \<Rightarrow> bandit_choice \<Rightarrow> bool" where
  "choice_justified st pm pp candidates betas u ch =
     (case bc_reason ch of
        Fallback_Primary \<Rightarrow> bc_model ch = pm \<and> bc_provider ch = pp
      | Explore \<Rightarrow>
          u < bandit_exploration_budget st \<and>
          (\<exists>x \<in> set (cleared_candidates st candidates betas). is_unproven st x \<and> ch = candidate_choice Explore x)
      | Exploit \<Rightarrow>
          (\<exists>x \<in> set (cleared_candidates st candidates betas). is_proven st x \<and> ch = candidate_choice Exploit x \<and>
             (\<forall>y \<in> set (cleared_candidates st candidates betas). is_proven st y \<longrightarrow>
                the (cs_average_savings_usd (fst y)) \<le> the (cs_average_savings_usd (fst x)))))"

lemma cleared_candidates_in:
  "x \<in> set (cleared_candidates st candidates betas) \<Longrightarrow> fst x \<in> set candidates \<and> bandit_quality_floor st \<le> snd x"
  by (auto simp: cleared_candidates_def dest: set_zip_leftD)

lemma select_candidate_justified:
  "choice_justified st pm pp candidates betas u (select_candidate st pm pp candidates betas u pick)"
proof -
  let ?cl = "cleared_candidates st candidates betas"
  let ?un = "filter (is_unproven st) ?cl" and ?pr = "filter (is_proven st) ?cl"
  consider (none) "?cl = []" | (explore) "?cl \<noteq> []" "?un \<noteq> [] \<and> u < bandit_exploration_budget st"
    | (rest) "?cl \<noteq> []" "\<not> (?un \<noteq> [] \<and> u < bandit_exploration_budget st)" by blast
  then show ?thesis
  proof cases
    case none
    then show ?thesis by (simp add: select_candidate_def choice_justified_def primary_choice_def)
  next
    case explore
    then have "?un ! (pick mod length ?un) \<in> set ?un" by (intro nth_mem) simp
    with explore show ?thesis
      by (auto simp: select_candidate_def choice_justified_def candidate_choice_def [of Explore] Let_def)
  next
    case rest
    show ?thesis
    proof (cases ?pr)
      case Nil
      with rest show ?thesis by (auto simp: select_candidate_def Let_def choice_justified_def primary_choice_def)
    next
      case (Cons x xs)
      have "max_savings x xs \<in> set ?pr" using max_savings_in [of x xs] Cons by simp
      moreover have "\<forall>y \<in> set ?pr. the (cs_average_savings_usd (fst y)) \<le> the (cs_average_savings_usd (fst (max_savings x xs)))"
        using max_savings_max [of x xs] Cons by simp
      moreover have "select_candidate st pm pp candidates betas u pick = candidate_choice Exploit (max_savings x xs)"
        using rest Cons by (auto simp: select_candidate_def Let_def)
      moreover have "bc_reason (candidate_choice Exploit (max_savings x xs)) = Exploit" by (simp add: candidate_choice_def)
      ultimately show ?thesis
        by (simp only: choice_justified_def bandit_reason.case) (rule bexI [of _ "max_savings x xs"], auto)
    qed
  qed
qed

lemma select_candidate_cases:
  "select_candidate st pm pp candidates betas u pick = primary_choice pm pp \<or>
   (\<exists>r x. select_candidate st pm pp candidates betas u pick = candidate_choice r x \<and>
      x \<in> set (cleared_candidates st candidates betas))"
proof (cases "bc_reason (select_candidate st pm pp candidates betas u pick)")
  case Fallback_Primary
  then show ?thesis
    unfolding select_candidate_def Let_def
    by (auto simp: candidate_choice_def split: if_splits list.splits)
qed (use select_candidate_justified [of st pm pp candidates betas u pick] in \<open>auto simp: choice_justified_def\<close>)

lemma select_candidate_member:
  "(bc_model (select_candidate st pm pp candidates betas u pick), bc_provider (select_candidate st pm pp candidates betas u pick))
     \<in> insert (pm, pp) (set (map (\<lambda>s. (cs_model s, cs_provider s)) candidates))"
  using select_candidate_cases [of st pm pp candidates betas u pick]
  by (auto simp: primary_choice_def candidate_choice_def dest: cleared_candidates_in)

section \<open>Property\<close>

text \<open>
  The bandit only ever routes to a cleared model, for every draw of the random generator: its choice
  is the policy's primary or one of the candidates given to it; it explores only within the exploration
  budget and only a candidate that lacks evidence; it exploits only a candidate with enough evidence
  whose savings are the largest among the proven ones; and a chosen candidate's quality draw reaches
  the floor.
\<close>

theorem bandit_choice_is_justified:
  "choice_justified st pm pp candidates betas u (select_candidate st pm pp candidates betas u pick) \<and>
   (bc_model (select_candidate st pm pp candidates betas u pick),
    bc_provider (select_candidate st pm pp candidates betas u pick))
     \<in> insert (pm, pp) (set (map (\<lambda>s. (cs_model s, cs_provider s)) candidates)) \<and>
   (case bc_sampled_quality (select_candidate st pm pp candidates betas u pick) of
      None \<Rightarrow> bc_reason (select_candidate st pm pp candidates betas u pick) = Fallback_Primary
    | Some d \<Rightarrow> bandit_quality_floor st \<le> d)"
proof (intro conjI)
  show "case bc_sampled_quality (select_candidate st pm pp candidates betas u pick) of
      None \<Rightarrow> bc_reason (select_candidate st pm pp candidates betas u pick) = Fallback_Primary
    | Some d \<Rightarrow> bandit_quality_floor st \<le> d"
    using select_candidate_cases [of st pm pp candidates betas u pick]
    by (auto simp: primary_choice_def candidate_choice_def dest: cleared_candidates_in)
qed (fact select_candidate_justified select_candidate_member)+

end
