(* ===== verification/RoutePredicate.thy ===== *)
theory RoutePredicate
  imports Json
begin

text \<open>
  \<open>proxy/predicate.py\<close>: the deterministic per-request eligibility test of smart routing. A body is a
  decoded JSON object. \<open>None\<close> is an exception (a policy whose predicate has the wrong types, or an
  infinite completion budget), which the caller turns into "do not route".
\<close>

definition default_predicate :: "(string \<times> json) list" where
  "default_predicate =
     [(''max_prompt_chars'', JInt 6000), (''route_when_tools'', JBool False),
      (''route_when_json_schema'', JBool False), (''max_completion_tokens'', JInt 1024)]"

fun block_chars :: "json \<Rightarrow> nat" where
  "block_chars (JObj kvs) = (case dict_get kvs ''text'' of JStr s \<Rightarrow> length s | _ \<Rightarrow> 0)"
| "block_chars _ = 0"

fun content_chars :: "json \<Rightarrow> nat" where
  "content_chars (JStr s) = length s"
| "content_chars (JList blocks) = sum_list (map block_chars blocks)"
| "content_chars _ = 0"

fun message_chars :: "json \<Rightarrow> nat" where
  "message_chars (JObj kvs) = content_chars (dict_get kvs ''content'')"
| "message_chars _ = 0"

fun prompt_chars :: "json \<Rightarrow> nat" where
  "prompt_chars (JList ms) = sum_list (map message_chars ms)"
| "prompt_chars _ = 0"

definition has_tools :: "(string \<times> json) list \<Rightarrow> bool" where
  "has_tools body \<longleftrightarrow> truthy (dict_get body ''tools'') \<or> truthy (dict_get body ''functions'')"

definition wants_structured_output :: "(string \<times> json) list \<Rightarrow> bool" where
  "wants_structured_output body =
     (case dict_get body ''response_format'' of
        JObj rf \<Rightarrow> dict_get rf ''type'' \<in> {JStr ''json_schema'', JStr ''json_object''}
      | _ \<Rightarrow> False)"

text \<open>\<open>Inl ()\<close> is the \<open>OverflowError\<close> of \<open>int(inf)\<close>, which is not caught.\<close>

definition completion_budget :: "(string \<times> json) list \<Rightarrow> unit + int option" where
  "completion_budget body =
     (let mt0 = dict_get body ''max_completion_tokens'';
          mt = (if mt0 = JNull then dict_get body ''max_tokens'' else mt0)
      in if mt = JNull then Inr None
         else (case py_int mt of
                 Inr n \<Rightarrow> Inr (Some n)
               | Inl overflow \<Rightarrow> if overflow then Inl () else Inr None))"

text \<open>\<open>n > limit\<close>; \<open>None\<close> is the \<open>TypeError\<close> of comparing with something that is not a number.\<close>

fun int_exceeds :: "int \<Rightarrow> json \<Rightarrow> bool option" where
  "int_exceeds n (JInt m) = Some (n > m)"
| "int_exceeds n (JBool b) = Some (n > (if b then 1 else 0))"
| "int_exceeds n (JFloat (Fin x)) = Some (of_int n > x)"
| "int_exceeds n (JFloat PosInf) = Some False"
| "int_exceeds n (JFloat NegInf) = Some True"
| "int_exceeds n (JFloat NaN) = Some False"
| "int_exceeds n _ = None"

definition exceeds_limit :: "int \<Rightarrow> json \<Rightarrow> bool option" where
  "exceeds_limit n limit = (if limit = JNull then Some False else int_exceeds n limit)"

definition completion_ok :: "(string \<times> json) list \<Rightarrow> json \<Rightarrow> bool option" where
  "completion_ok body limit =
     (if limit = JNull then Some True
      else (case completion_budget body of
              Inl _ \<Rightarrow> None
            | Inr None \<Rightarrow> Some True
            | Inr (Some budget) \<Rightarrow> map_option Not (int_exceeds budget limit)))"

definition eligible_under :: "(string \<times> json) list \<Rightarrow> (string \<times> json) list \<Rightarrow> bool option" where
  "eligible_under body pred =
     (case exceeds_limit (int (prompt_chars (dict_get body ''messages''))) (dict_get pred ''max_prompt_chars'') of
        None \<Rightarrow> None
      | Some True \<Rightarrow> Some False
      | Some False \<Rightarrow>
          if has_tools body \<and> \<not> truthy (dict_get_default pred ''route_when_tools'' (JBool False)) then Some False
          else if wants_structured_output body \<and>
              \<not> truthy (dict_get_default pred ''route_when_json_schema'' (JBool False)) then Some False
          else completion_ok body (dict_get pred ''max_completion_tokens''))"

definition is_eligible :: "(string \<times> json) list \<Rightarrow> json \<Rightarrow> bool option" where
  "is_eligible body pred =
     (if \<not> truthy pred then Some True
      else (case pred of JObj p \<Rightarrow> eligible_under body p | _ \<Rightarrow> None))"

section \<open>Property\<close>

text \<open>
  Under the default predicate a request is routed exactly when its text has at most 6000 characters,
  it declares no tools and no structured output, and its completion budget is absent, unreadable or at
  most 1024 tokens; the only failing case is an infinite budget. In particular a request without any
  limit on its completion, or with an unreadable one, is routed.
\<close>

theorem default_predicate_eligibility:
  "is_eligible body (JObj default_predicate) =
     (if 6000 < prompt_chars (dict_get body ''messages'') \<or> has_tools body \<or> wants_structured_output body
      then Some False
      else (case completion_budget body of
              Inl _ \<Rightarrow> None
            | Inr None \<Rightarrow> Some True
            | Inr (Some budget) \<Rightarrow> Some (budget \<le> 1024)))"
  by (auto simp: is_eligible_def default_predicate_def eligible_under_def exceeds_limit_def completion_ok_def
      not_less split: sum.splits option.splits bool.splits)

end
