(* ===== verification/Policies.thy ===== *)
theory Policies
  imports Governance Canary Bandit RoutePredicate
begin

text \<open>
  The execution policies on the hot path and on the control plane: \<open>proxy/routing.py\<close>, and the policy
  halves of \<open>proxy/trim.py\<close> and \<open>proxy/compression.py\<close>. The three modules resolve and activate policies
  in the same way; \<open>lookup_policy\<close> and \<open>upsert_policy\<close> are that shared code, used with each module's
  levers. A policy cache maps (project, model, route key) to the policy found, \<open>Some None\<close> being a cached
  miss; it may have lost entries at any time. \<open>db_ok\<close> says that no read raised; every error resolves to
  no policy (fail-open).
\<close>

type_synonym policy_key = "uuid \<times> string \<times> string option"
type_synonym policy_cache = "policy_key \<rightharpoonup> proxy_policy option"

definition clear_policy_cache :: "uuid option \<Rightarrow> policy_cache \<Rightarrow> policy_cache" where
  "clear_policy_cache project cache =
     (case project of None \<Rightarrow> Map.empty | Some p \<Rightarrow> (\<lambda>k. if fst k = p then None else cache k))"

definition select_policy ::
  "string list \<Rightarrow> proxy_policy list \<Rightarrow> uuid \<Rightarrow> string \<Rightarrow> string option \<Rightarrow> proxy_policy option" where
  "select_policy levers policies project model route_key =
     (let base = filter (\<lambda>p. pp_project_id p = project \<and> pp_lever p \<in> set levers \<and> pp_target_key p = model \<and>
                             pp_enabled p) policies
      in case or_str route_key None of
           Some rk \<Rightarrow>
             (case latest_activated (filter (\<lambda>p. pp_route_key p = rk) base) of
                Some p \<Rightarrow> Some p
              | None \<Rightarrow> latest_activated (filter (\<lambda>p. pp_route_key p = default_route) base))
         | None \<Rightarrow> latest_activated base)"

definition lookup_policy ::
  "settings \<Rightarrow> string list \<Rightarrow> proxy_policy list \<Rightarrow> uuid \<Rightarrow> string \<Rightarrow> string option \<Rightarrow> policy_cache
    \<Rightarrow> proxy_policy option \<times> policy_cache" where
  "lookup_policy st levers policies project model route_key cache =
     (let key = (project, model, route_key)
      in if proxy_policy_cache_enabled st \<and> cache key \<noteq> None then (the (cache key), cache)
         else (let p = select_policy levers policies project model route_key
               in (p, if proxy_policy_cache_enabled st then cache(key \<mapsto> p) else cache)))"

section \<open>Routing\<close>

record route_decision =
  rd_candidate_model :: string
  rd_candidate_provider :: string
  rd_holdback_percent :: decimal
  rd_lever :: string
  rd_policy_id :: uuid
  rd_source_recommendation_id :: "uuid option"
  rd_bandit_trace :: "(bandit_mode \<times> bandit_choice) option"

text \<open>
  The additional candidates of a policy, as (model, provider): the entries of \<open>params["bandit_candidates"]\<close>
  with a model.
\<close>

fun bandit_entry :: "json \<Rightarrow> (string \<times> string option) option" where
  "bandit_entry (JObj kvs) =
     (case as_str (dict_get kvs ''model'') of
        None \<Rightarrow> None
      | Some m \<Rightarrow> if m = [] then None else Some (m, as_str (dict_get kvs ''provider'')))"
| "bandit_entry _ = None"

definition bandit_candidate_entries :: "proxy_policy \<Rightarrow> (string \<times> string option) list" where
  "bandit_candidate_entries p =
     (case dict_get (pp_params p) ''bandit_candidates'' of
        JList es \<Rightarrow> List.map_filter bandit_entry es
      | _ \<Rightarrow> [])"

record bandit_draws =
  bd_betas :: "rat list"
  bd_explore :: rat
  bd_pick :: nat

text \<open>\<open>stats\<close> are the rows of \<open>candidate_stats_for_request\<close>, \<open>None\<close> when reading them raises.\<close>

definition maybe_bandit_select ::
  "settings \<Rightarrow> candidate_stats list option \<Rightarrow> bandit_draws \<Rightarrow> proxy_policy \<Rightarrow> string \<Rightarrow> string
    \<Rightarrow> string \<times> string \<times> (bandit_mode \<times> bandit_choice) option" where
  "maybe_bandit_select st stats draws policy primary_model primary_provider =
     (let mode = mode_of st; extra = bandit_candidate_entries policy
      in if mode = Mode_Off \<or> extra = [] then (primary_model, primary_provider, None)
         else (case stats of
           None \<Rightarrow> (primary_model, primary_provider, None)
         | Some rows \<Rightarrow>
             (let allowed = map (\<lambda>(m, p).
                    (case find (\<lambda>s. cs_model s = m) (rev rows) of
                       Some s \<Rightarrow> s
                     | None \<Rightarrow> \<lparr>cs_model = m, cs_provider = (case or_str p None of None \<Rightarrow> primary_provider | Some q \<Rightarrow> q),
                                cs_sample_count = 0, cs_quality_pass_rate = None, cs_average_savings_usd = None\<rparr>))
                    ((primary_model, Some primary_provider) # extra);
                  choice = select_candidate st primary_model primary_provider allowed (bd_betas draws)
                    (bd_explore draws) (bd_pick draws)
              in if mode = Mode_Active then (bc_model choice, bc_provider choice, Some (mode, choice))
                 else (primary_model, primary_provider, Some (mode, choice)))))"

definition predicate_allows :: "proxy_policy \<Rightarrow> (string \<times> json) list \<Rightarrow> bool" where
  "predicate_allows p body \<longleftrightarrow>
     (pp_lever p = lever_smart_routing \<longrightarrow> is_eligible body (dict_get (pp_params p) ''predicate'') = Some True)"

definition resolve_route ::
  "settings \<Rightarrow> bool \<Rightarrow> lever_config list \<Rightarrow> proxy_policy list \<Rightarrow> candidate_stats list option \<Rightarrow> rat \<Rightarrow> bandit_draws
    \<Rightarrow> uuid \<Rightarrow> string \<Rightarrow> (string \<times> json) list \<Rightarrow> string \<Rightarrow> string option \<Rightarrow> policy_cache
    \<Rightarrow> route_decision option \<times> policy_cache" where
  "resolve_route st db_ok configs policies stats canary_draw draws project model body provider route_key cache =
     (if model = [] \<or> \<not> db_ok then (None, cache)
      else (case lookup_policy st routing_levers policies project model route_key cache of (pol, cache') \<Rightarrow>
        ((case pol of
            None \<Rightarrow> None
          | Some p \<Rightarrow>
              (case or_str (candidate_model p) None of
                 None \<Rightarrow> None
               | Some cm \<Rightarrow>
                   if \<not> lever_enabled configs project (Some (pp_lever p)) then None
                   else if \<not> predicate_allows p body then None
                   else if \<not> in_rollout canary_draw (Some (pp_rollout_percent p)) then None
                   else (let cp = (case or_str (candidate_provider p) None of None \<Rightarrow> provider | Some q \<Rightarrow> q)
                         in case maybe_bandit_select st stats draws p cm cp of (m, pr, trace) \<Rightarrow>
                              Some \<lparr>rd_candidate_model = m, rd_candidate_provider = pr,
                                    rd_holdback_percent = pp_holdback_percent p, rd_lever = pp_lever p,
                                    rd_policy_id = pp_id p,
                                    rd_source_recommendation_id = pp_source_recommendation_id p,
                                    rd_bandit_trace = trace\<rparr>))), cache')))"

datatype arm = Control | Treatment

definition assign_arm :: "rat \<Rightarrow> decimal \<Rightarrow> arm" where
  "assign_arm draw holdback_percent = (if draw < holdback_percent then Control else Treatment)"

definition resolve_effective_model ::
  "bool \<Rightarrow> lever_config list \<Rightarrow> proxy_policy list \<Rightarrow> uuid \<Rightarrow> string \<Rightarrow> string option" where
  "resolve_effective_model db_ok configs policies project model =
     (if model = [] \<or> \<not> db_ok then None
      else (case latest_activated (filter (\<lambda>p. pp_project_id p = project \<and> pp_lever p \<in> set routing_levers \<and>
                    pp_target_key p = model \<and> pp_enabled p) policies) of
              None \<Rightarrow> None
            | Some p \<Rightarrow> if \<not> lever_enabled configs project (Some (pp_lever p)) then None else candidate_model p))"

section \<open>Trim and compression\<close>

record trim_decision =
  td_holdback_percent :: decimal
  td_params :: "(string \<times> json) list"
  td_policy_id :: uuid
  td_source_recommendation_id :: "uuid option"

definition resolve_trim ::
  "settings \<Rightarrow> bool \<Rightarrow> lever_config list \<Rightarrow> proxy_policy list \<Rightarrow> rat \<Rightarrow> uuid \<Rightarrow> string \<Rightarrow> string option \<Rightarrow> policy_cache
    \<Rightarrow> trim_decision option \<times> policy_cache" where
  "resolve_trim st db_ok configs policies canary_draw project model route_key cache =
     (if model = [] \<or> \<not> db_ok then (None, cache)
      else (case lookup_policy st [lever_token_trim] policies project model route_key cache of (pol, cache') \<Rightarrow>
        ((case pol of
            None \<Rightarrow> None
          | Some p \<Rightarrow>
              if \<not> lever_enabled configs project (Some lever_token_trim) then None
              else if \<not> in_rollout canary_draw (Some (pp_rollout_percent p)) then None
              else Some \<lparr>td_holdback_percent = pp_holdback_percent p, td_params = pp_params p,
                         td_policy_id = pp_id p, td_source_recommendation_id = pp_source_recommendation_id p\<rparr>), cache')))"

record compression_decision =
  cd_holdback_percent :: decimal
  cd_artifact_id :: uuid
  cd_policy_id :: uuid
  cd_source_recommendation_id :: "uuid option"

definition artifact_id :: "proxy_policy \<Rightarrow> uuid option" where
  "artifact_id p = or_str (as_str (dict_get (pp_params p) ''artifact_id'')) None"

definition resolve_compression ::
  "settings \<Rightarrow> bool \<Rightarrow> lever_config list \<Rightarrow> proxy_policy list \<Rightarrow> rat \<Rightarrow> uuid \<Rightarrow> string \<Rightarrow> string option \<Rightarrow> policy_cache
    \<Rightarrow> compression_decision option \<times> policy_cache" where
  "resolve_compression st db_ok configs policies canary_draw project model route_key cache =
     (if model = [] \<or> \<not> db_ok then (None, cache)
      else (case lookup_policy st [lever_prompt_compression] policies project model route_key cache of (pol, cache') \<Rightarrow>
        ((case pol of
            None \<Rightarrow> None
          | Some p \<Rightarrow>
              if \<not> lever_enabled configs project (Some lever_prompt_compression) then None
              else (case artifact_id p of
                 None \<Rightarrow> None
               | Some a \<Rightarrow>
                   if \<not> in_rollout canary_draw (Some (pp_rollout_percent p)) then None
                   else Some \<lparr>cd_holdback_percent = pp_holdback_percent p, cd_artifact_id = a,
                              cd_policy_id = pp_id p, cd_source_recommendation_id = pp_source_recommendation_id p\<rparr>)), cache')))"

section \<open>The lookup contract\<close>

text \<open>
  What the resolvers rely on: a lookup returns an enabled policy of the table for the project, the model
  and one of the module's levers, and finds nothing only when no enabled default-route policy is there.
\<close>

locale policy_source =
  fixes lookup :: "proxy_policy list \<Rightarrow> uuid \<Rightarrow> string \<Rightarrow> string option \<Rightarrow> proxy_policy option"
    and serves :: "string \<Rightarrow> bool"
  assumes lookup_sound: "lookup ps project model rk = Some p \<Longrightarrow>
      p \<in> set ps \<and> pp_project_id p = project \<and> serves (pp_lever p) \<and> pp_target_key p = model \<and> pp_enabled p"
    and lookup_route: "lookup ps project model (Some k) = Some p \<Longrightarrow> k \<noteq> [] \<Longrightarrow>
      pp_route_key p = k \<or> pp_route_key p = default_route"
    and lookup_complete: "lookup ps project model rk = None \<Longrightarrow> p \<in> set ps \<Longrightarrow> pp_project_id p = project \<Longrightarrow>
      serves (pp_lever p) \<Longrightarrow> pp_target_key p = model \<Longrightarrow> pp_route_key p = default_route \<Longrightarrow> \<not> pp_enabled p"
begin

lemma disabled_source_not_served:
  assumes "\<forall>p \<in> set ps. pp_source_recommendation_id p = Some rid \<longrightarrow> \<not> pp_enabled p"
    and "lookup ps project model rk = Some p"
  shows "pp_source_recommendation_id p \<noteq> Some rid"
  using assms lookup_sound by blast

lemma default_policy_served:
  assumes "p \<in> set ps" "pp_project_id p = project" "serves (pp_lever p)" "pp_target_key p = model"
    and "pp_route_key p = default_route" "pp_enabled p"
  shows "\<exists>q. lookup ps project model rk = Some q"
  using assms lookup_complete by (cases "lookup ps project model rk") auto

end

lemma select_policy_sound:
  assumes "select_policy levers ps project model rk = Some p"
  shows "p \<in> set ps \<and> pp_project_id p = project \<and> pp_lever p \<in> set levers \<and> pp_target_key p = model \<and> pp_enabled p"
  using assms by (auto simp: select_policy_def Let_def dest!: latest_activated_Some split: option.splits)

lemma select_policy_route:
  "select_policy levers ps project model (Some rk) = Some p \<Longrightarrow> rk \<noteq> [] \<Longrightarrow>
     pp_route_key p = rk \<or> pp_route_key p = default_route"
  by (auto simp: select_policy_def Let_def or_str_def dest!: latest_activated_Some split: option.splits)

lemma select_policy_complete:
  assumes "select_policy levers ps project model rk = None" "p \<in> set ps" "pp_project_id p = project"
    and "pp_lever p \<in> set levers" "pp_target_key p = model" "pp_route_key p = default_route"
  shows "\<not> pp_enabled p"
  using assms by (auto simp: select_policy_def Let_def filter_empty_conv split: option.splits)

interpretation routing_source: policy_source "select_policy routing_levers" "\<lambda>l. l \<in> set routing_levers"
  by unfold_locales (fact select_policy_sound select_policy_route select_policy_complete)+

interpretation trim_source: policy_source "select_policy [lever_token_trim]" "\<lambda>l. l \<in> set [lever_token_trim]"
  by unfold_locales (fact select_policy_sound select_policy_route select_policy_complete)+

interpretation compression_source: policy_source "select_policy [lever_prompt_compression]"
    "\<lambda>l. l \<in> set [lever_prompt_compression]"
  by unfold_locales (fact select_policy_sound select_policy_route select_policy_complete)+

lemma lookup_policy_uncached:
  "\<not> proxy_policy_cache_enabled st \<or> cache (project, model, rk) = None \<Longrightarrow>
     fst (lookup_policy st levers ps project model rk cache) = select_policy levers ps project model rk"
  by (auto simp: lookup_policy_def Let_def)

lemma clear_policy_cache_project [simp]: "clear_policy_cache (Some project) cache (project, model, rk) = None"
  by (simp add: clear_policy_cache_def)

text \<open>The resolvers hand on the provenance of the policy looked up.\<close>

lemma resolve_route_source:
  assumes "resolve_route st ok configs ps stats cd draws project model body prov rk cache = (Some d, cache')"
  obtains p where "fst (lookup_policy st routing_levers ps project model rk cache) = Some p"
    "rd_source_recommendation_id d = pp_source_recommendation_id p" "rd_policy_id d = pp_id p"
    "lever_enabled configs project (Some (pp_lever p))" "predicate_allows p body"
    "in_rollout cd (Some (pp_rollout_percent p))" "rd_holdback_percent d = pp_holdback_percent p"
    "\<exists>cm cp. or_str (candidate_model p) None = Some cm \<and>
       (rd_candidate_model d, rd_candidate_provider d, rd_bandit_trace d) = maybe_bandit_select st stats draws p cm cp"
  using assms
  by (auto simp: resolve_route_def Let_def split: if_splits option.splits prod.splits) metis+

lemma resolve_trim_source:
  assumes "resolve_trim st ok configs ps cd project model rk cache = (Some d, cache')"
  obtains p where "fst (lookup_policy st [lever_token_trim] ps project model rk cache) = Some p"
    "td_source_recommendation_id d = pp_source_recommendation_id p"
  using assms by (auto simp: resolve_trim_def split: if_splits option.splits prod.splits)

lemma resolve_compression_source:
  assumes "resolve_compression st ok configs ps cd project model rk cache = (Some d, cache')"
  obtains p where "fst (lookup_policy st [lever_prompt_compression] ps project model rk cache) = Some p"
    "cd_source_recommendation_id d = pp_source_recommendation_id p"
  using assms by (auto simp: resolve_compression_def split: if_splits option.splits prod.splits)

text \<open>The bandit chooses among the primary and the policy's cleared entries.\<close>

lemma maybe_bandit_select_member:
  assumes "maybe_bandit_select st stats draws p cm cp = (m, pr, trace)"
  shows "m \<in> insert cm (set (map fst (bandit_candidate_entries p)))"
proof (cases "mode_of st = Mode_Active \<and> bandit_candidate_entries p \<noteq> [] \<and> stats \<noteq> None")
  case False
  then show ?thesis using assms by (auto simp: maybe_bandit_select_def Let_def split: if_splits option.splits)
next
  case True
  then obtain rows where rows: "stats = Some rows" by auto
  define stat where "stat = (\<lambda>(m, q).
      (case find (\<lambda>s. cs_model s = m) (rev rows) of Some s \<Rightarrow> s
       | None \<Rightarrow> \<lparr>cs_model = m, cs_provider = (case or_str q None of None \<Rightarrow> cp | Some q \<Rightarrow> q),
                  cs_sample_count = 0, cs_quality_pass_rate = None, cs_average_savings_usd = None\<rparr>))"
  let ?es = "(cm, Some cp) # bandit_candidate_entries p"
  have m: "m = bc_model (select_candidate st cm cp (map stat ?es) (bd_betas draws) (bd_explore draws) (bd_pick draws))"
    using assms True rows by (auto simp: maybe_bandit_select_def Let_def stat_def split: if_splits)
  have stat_model: "cs_model (stat e) = fst e" for e
    by (cases e) (auto simp: stat_def dest!: find_Some_prop split: option.split)
  have "(m, bc_provider (select_candidate st cm cp (map stat ?es) (bd_betas draws) (bd_explore draws) (bd_pick draws)))
      \<in> insert (cm, cp) (set (map (\<lambda>s. (cs_model s, cs_provider s)) (map stat ?es)))"
    unfolding m by (rule select_candidate_member)
  then show ?thesis by (auto simp: stat_model)
qed

end
