(* ===== verification/Entitlements.thy ===== *)
theory Entitlements
  imports BillingLifecycle Ledger
begin

text \<open>
  \<open>auth/entitlements.py\<close>: the plan gate. \<open>entitlement_state\<close> is the pure decision,
  \<open>entitlement_state_for_org\<close> the control-plane read with its lazy expiry, \<open>entitlement_state_async\<close>
  the cached read of the proxy's hot path, \<open>require_performance\<close> the check on the apply path. The
  cache may lose entries at any time; that is the caller's cache argument.
\<close>

record entitlement =
  en_plan_tier :: plan_tier
  en_observe_only :: bool
  en_reason :: "string option"
  en_monthly_requests :: int
  en_monthly_request_limit :: int
  en_requests_remaining :: "int option"
  en_trial_ends_at :: "datetime option"
  en_trial_expired :: bool

definition default_trial_end :: "settings \<Rightarrow> organization \<Rightarrow> datetime option" where
  "default_trial_end cfg org =
     (if org_status org \<noteq> Trialing then org_trial_ends_at org
      else (case org_trial_ends_at org of
              Some e \<Rightarrow> Some e
            | None \<Rightarrow> Some (org_created_at org + timedelta_days (free_trial_days cfg))))"

definition requests_remaining :: "int \<Rightarrow> int \<Rightarrow> int" where
  "requests_remaining monthly_requests limit = max 0 (limit - monthly_requests)"

fun status_text :: "subscription_status \<Rightarrow> string" where
  "status_text Trialing = ''trialing''"
| "status_text Active = ''active''"
| "status_text Past_Due = ''past_due''"
| "status_text Canceled = ''canceled''"
| "status_text Expired = ''expired''"

definition entitlement_state :: "settings \<Rightarrow> int \<Rightarrow> datetime \<Rightarrow> organization option \<Rightarrow> entitlement" where
  "entitlement_state cfg monthly_requests now org_opt =
     (let limit = free_monthly_request_limit cfg in
      case org_opt of
        None \<Rightarrow>
          \<lparr>en_plan_tier = Plan_Free, en_observe_only = True, en_reason = Some ''missing_organization'',
           en_monthly_requests = monthly_requests, en_monthly_request_limit = limit,
           en_requests_remaining = Some (requests_remaining monthly_requests limit),
           en_trial_ends_at = None, en_trial_expired = False\<rparr>
      | Some org \<Rightarrow>
          (let trial_ends_at = default_trial_end cfg org;
               trial_expired = (org_status org = Trialing \<and>
                 (case trial_ends_at of None \<Rightarrow> False | Some e \<Rightarrow> e \<le> now));
               quota_exceeded = (org_status org = Trialing \<and> 0 < limit \<and> limit \<le> monthly_requests);
               base = (org_plan_tier org \<noteq> Plan_Performance);
               (observe_only, reason) =
                 (if trial_expired then (True, Some ''trial_expired'')
                  else if org_status org = Past_Due then (True, Some ''past_due'')
                  else if org_status org \<in> {Canceled, Expired} then (True, Some (status_text (org_status org)))
                  else if quota_exceeded then (True, Some ''monthly_request_limit_exceeded'')
                  else if base then (True, Some ''free_plan'')
                  else (False, None))
           in \<lparr>en_plan_tier = org_plan_tier org, en_observe_only = observe_only, en_reason = reason,
               en_monthly_requests = monthly_requests, en_monthly_request_limit = limit,
               en_requests_remaining =
                 (if 0 < limit then Some (requests_remaining monthly_requests limit) else None),
               en_trial_ends_at = trial_ends_at, en_trial_expired = trial_expired\<rparr>))"

definition monthly_proxy_requests :: "usage_event list \<Rightarrow> uuid \<Rightarrow> datetime \<Rightarrow> int" where
  "monthly_proxy_requests events oid now =
     int (count_rows (\<lambda>e. ue_organization_id e = oid \<and> ue_source e = ''proxy'' \<and>
                          month_start now \<le> ue_received_at e) events)"

text \<open>
  The control-plane read: expire an elapsed trial first, then decide. The organization row has an
  id, since it was read from the table.
\<close>

definition entitlement_state_for_org ::
  "settings \<Rightarrow> usage_event list \<Rightarrow> datetime \<Rightarrow> (uuid \<times> organization) option \<Rightarrow> entitlement tier_cache
    \<Rightarrow> entitlement \<times> organization option \<times> entitlement tier_cache" where
  "entitlement_state_for_org cfg events now org_opt cache =
     (case org_opt of
        None \<Rightarrow> (entitlement_state cfg 0 now None, None, cache)
      | Some (oid, org) \<Rightarrow>
          (case maybe_expire now (org, cache) of (_, org', cache') \<Rightarrow>
             (entitlement_state cfg (monthly_proxy_requests events oid now) now (Some org'), Some org', cache')))"

definition is_performance_state :: "entitlement \<Rightarrow> bool" where
  "is_performance_state e = (en_plan_tier e = Plan_Performance \<and> \<not> en_observe_only e)"

definition lookup_failed_state :: "settings \<Rightarrow> entitlement" where
  "lookup_failed_state cfg =
     \<lparr>en_plan_tier = Plan_Free, en_observe_only = True, en_reason = Some ''entitlement_lookup_failed'',
      en_monthly_requests = 0, en_monthly_request_limit = free_monthly_request_limit cfg,
      en_requests_remaining = None, en_trial_ends_at = None, en_trial_expired = False\<rparr>"

text \<open>\<open>db\<close> is what the two queries return together, \<open>None\<close> when one of them raises.\<close>

definition entitlement_state_async ::
  "settings \<Rightarrow> uuid \<Rightarrow> datetime \<Rightarrow> (organization option \<times> int) option \<Rightarrow> entitlement tier_cache
    \<Rightarrow> entitlement \<times> entitlement tier_cache" where
  "entitlement_state_async cfg oid now db cache =
     (case cache oid of
        Some cached \<Rightarrow> (cached, cache)
      | None \<Rightarrow>
          (case db of
             None \<Rightarrow> (lookup_failed_state cfg, cache)
           | Some (org, monthly_requests) \<Rightarrow>
               (let state = entitlement_state cfg monthly_requests now org
                in (state, cache(oid \<mapsto> state)))))"

definition require_performance :: "entitlement \<Rightarrow> string \<Rightarrow> http_error + unit" where
  "require_performance state action =
     (if is_performance_state state then Inr ()
      else Inl (Http_Error 403 ''feature_requires_performance''))"

section \<open>Lemmas\<close>

lemma entitlement_observe_only:
  "en_observe_only (entitlement_state cfg n now (Some org)) \<longleftrightarrow>
     \<not> (org_plan_tier org = Plan_Performance \<and>
        (org_status org = Active \<or>
         (org_status org = Trialing \<and> (\<forall>e. default_trial_end cfg org = Some e \<longrightarrow> now < e) \<and>
          (0 < free_monthly_request_limit cfg \<longrightarrow> n < free_monthly_request_limit cfg))))"
  by (cases "org_status org") (auto simp: entitlement_state_def Let_def not_le split: option.splits)

lemma entitlement_missing: "en_observe_only (entitlement_state cfg n now None)"
  by (simp add: entitlement_state_def Let_def)

lemma entitlement_reason: "en_reason (entitlement_state cfg n now o') = None \<longleftrightarrow> \<not> en_observe_only (entitlement_state cfg n now o')"
  by (auto simp: entitlement_state_def Let_def split: option.splits)

lemma is_performance_iff: "is_performance_state (entitlement_state cfg n now o') \<longleftrightarrow> \<not> en_observe_only (entitlement_state cfg n now o')"
  by (cases o') (auto simp: is_performance_state_def entitlement_state_def Let_def split: if_splits)

lemma async_fresh:
  "cache oid = None \<Longrightarrow> fst (entitlement_state_async cfg oid now db cache) =
     (case db of None \<Rightarrow> lookup_failed_state cfg | Some (org, n) \<Rightarrow> entitlement_state cfg n now org)"
  by (auto simp: entitlement_state_async_def Let_def split: option.splits)

section \<open>Properties\<close>

text \<open>
  C10. The plan gate opens exactly for a paying or validly trialing workspace: an organization may
  change traffic iff it is on the Pro plan and is either active, or in a trial that has not ended and
  has requests left in its monthly allowance. A missing organization, a failed lookup, a past-due,
  canceled or expired subscription and the free plan are all observe-only, and every refusal carries
  a reason.
\<close>

theorem entitlement_gate_spec:
  "(\<not> en_observe_only (entitlement_state cfg n now (Some org)) \<longleftrightarrow>
     org_plan_tier org = Plan_Performance \<and>
     (org_status org = Active \<or>
      (org_status org = Trialing \<and> (\<forall>e. default_trial_end cfg org = Some e \<longrightarrow> now < e) \<and>
       (0 < free_monthly_request_limit cfg \<longrightarrow> n < free_monthly_request_limit cfg)))) \<and>
   en_observe_only (entitlement_state cfg n now None) \<and>
   en_observe_only (lookup_failed_state cfg) \<and>
   (en_reason (entitlement_state cfg n now o') = None \<longleftrightarrow> \<not> en_observe_only (entitlement_state cfg n now o')) \<and>
   (require_performance (entitlement_state cfg n now o') action = Inr () \<longleftrightarrow>
      \<not> en_observe_only (entitlement_state cfg n now o'))"
  using entitlement_observe_only [of cfg n now org]
  by (auto simp: entitlement_missing entitlement_reason require_performance_def is_performance_iff lookup_failed_state_def)

theorem entitlement_gate_spec_witness:
  "let org = (new_organization ''o'' 0)\<lparr>org_plan_tier := Plan_Performance, org_status := Active\<rparr>
   in \<not> en_observe_only (entitlement_state default_settings 0 0 (Some org))"
  using entitlement_gate_spec [of default_settings 0 0 "(new_organization ''o'' 0)\<lparr>org_plan_tier := Plan_Performance, org_status := Active\<rparr>"
      None "[]"]
  by (simp add: Let_def)

text \<open>
  A loss of entitlement reaches the proxy at once although it caches entitlements: after a
  cancellation, a failed payment or an expiry of the organization, the next hot-path read, whatever
  the cache held before and even if the database is down, is observe-only.
\<close>

theorem downgrade_takes_effect_at_once:
  assumes "org_id org = Some i"
    and "(org', cache') \<in> {cancel_subscription now (org, cache), mark_past_due now (org, cache), expire_trial now (org, cache)}"
    and "db = None \<or> (\<exists>n. db = Some (Some org', n))"
  shows "en_observe_only (fst (entitlement_state_async cfg i later db cache'))"
proof -
  have "cache' i = None"
    using assms(2) transitions_invalidate [OF assms(1), where cache = cache] by (metis empty_iff insertE snd_conv)
  moreover have "org_status org' \<in> {Canceled, Past_Due, Expired}"
    using assms(2) by (auto simp: lifecycle_defs)
  ultimately show ?thesis
    using assms(3) by (auto simp: async_fresh lookup_failed_state_def entitlement_observe_only)
qed

theorem downgrade_takes_effect_at_once_witness:
  "en_observe_only (fst (entitlement_state_async default_settings ''o'' 9 None
     (snd (cancel_subscription 5 (new_organization ''o'' 0,
        [''o'' \<mapsto> (lookup_failed_state default_settings)\<lparr>en_observe_only := False\<rparr>])))))"
  by (rule downgrade_takes_effect_at_once
      [of "new_organization ''o'' 0" "''o''" "fst (cancel_subscription 5 (new_organization ''o'' 0,
        [''o'' \<mapsto> (lookup_failed_state default_settings)\<lparr>en_observe_only := False\<rparr>]))" _ 5
        "[''o'' \<mapsto> (lookup_failed_state default_settings)\<lparr>en_observe_only := False\<rparr>]"])
    (simp_all add: new_organization_def)

text \<open>
  At the end of a trial the control plane and the hot path disagree about a workspace that has a
  payment method on file: the control-plane read promotes it to active Pro and opens the gate, while
  the hot-path read of the same row, which does not write, reports it as an expired trial and locks
  every lever until some control-plane read or sweep happens.
\<close>

theorem paid_trial_end_locks_hot_path:
  assumes "org_status org = Trialing" "org_trial_ends_at org = Some e" "e \<le> now"
    and "org_payment_method_ready_at org = Some p" "cache i = None"
  shows "en_observe_only (fst (entitlement_state_async cfg i now (Some (Some org, n)) cache)) \<and>
    en_reason (fst (entitlement_state_async cfg i now (Some (Some org, n)) cache)) = Some ''trial_expired'' \<and>
    \<not> en_observe_only (fst (entitlement_state_for_org cfg events now (Some (i, org)) cache))"
proof -
  have "settle_trial now org = org\<lparr>org_plan_tier := Plan_Performance, org_status := Active, org_plan_effective_at := Some now\<rparr>"
    using assms by (simp add: settle_trial_def lifecycle_defs)
  then have "fst (snd (maybe_expire now (org, cache))) =
      org\<lparr>org_plan_tier := Plan_Performance, org_status := Active, org_plan_effective_at := Some now\<rparr>"
    by (simp add: maybe_expire_org)
  then have "\<not> en_observe_only (fst (entitlement_state_for_org cfg events now (Some (i, org)) cache))"
    by (simp add: entitlement_state_for_org_def entitlement_observe_only case_prod_unfold)
  then show ?thesis
    using assms by (simp add: async_fresh entitlement_state_def default_trial_end_def Let_def)
qed

theorem paid_trial_end_locks_hot_path_witness:
  "en_observe_only (fst (entitlement_state_async default_settings ''o'' 9
     (Some (Some ((new_organization ''o'' 0)\<lparr>org_status := Trialing, org_trial_ends_at := Some 5,
        org_payment_method_ready_at := Some 3\<rparr>), 0)) Map.empty))"
  using paid_trial_end_locks_hot_path [of "(new_organization ''o'' 0)\<lparr>org_status := Trialing,
      org_trial_ends_at := Some 5, org_payment_method_ready_at := Some 3\<rparr>" 5 9 3 Map.empty "''o''" default_settings 0]
  by simp

end
