(* ===== verification/SharedState.thy ===== *)
theory SharedState
  imports Settings
begin

text \<open>
  \<open>proxy/shared_state.py\<close>: the optional key-value store with time-to-live that several proxy
  instances share. \<open>store_ops\<close> is the \<open>SharedStore\<close> protocol; \<open>in_process_store\<close> and
  \<open>redis_store\<close> are its two classes; \<open>get_store\<close>, \<open>set_store\<close> and \<open>reset\<close> manage the
  module-level singleton. The locale \<open>ttl_store\<close> is the contract the circuit breaker and the
  budget cache rely on. An operation runs at one reading \<open>now\<close> of the clock.
\<close>

section \<open>The protocol\<close>

record 's store_ops =
  st_get :: "seconds \<Rightarrow> string \<Rightarrow> 's \<Rightarrow> string option \<times> 's"
  st_set :: "seconds \<Rightarrow> string \<Rightarrow> string \<Rightarrow> seconds option \<Rightarrow> 's \<Rightarrow> 's"
  st_delete :: "string \<Rightarrow> 's \<Rightarrow> 's"
  st_clear_prefix :: "string \<Rightarrow> 's \<Rightarrow> 's"

section \<open>InProcessStore\<close>

type_synonym inproc_data = "string \<rightharpoonup> string \<times> seconds option"

definition inproc_get :: "seconds \<Rightarrow> string \<Rightarrow> inproc_data \<Rightarrow> string option \<times> inproc_data" where
  "inproc_get now key d =
     (case d key of
        None \<Rightarrow> (None, d)
      | Some (v, None) \<Rightarrow> (Some v, d)
      | Some (v, Some expires_at) \<Rightarrow>
          if expires_at \<le> now then (None, d(key := None)) else (Some v, d))"

definition inproc_delete :: "string \<Rightarrow> inproc_data \<Rightarrow> inproc_data" where
  "inproc_delete key d = d(key := None)"

definition inproc_set :: "seconds \<Rightarrow> string \<Rightarrow> string \<Rightarrow> seconds option \<Rightarrow> inproc_data \<Rightarrow> inproc_data" where
  "inproc_set now key v ttl d =
     (case ttl of
        None \<Rightarrow> d(key \<mapsto> (v, None))
      | Some t \<Rightarrow> if t \<le> 0 then inproc_delete key d else d(key \<mapsto> (v, Some (now + t))))"

definition inproc_clear_prefix :: "string \<Rightarrow> inproc_data \<Rightarrow> inproc_data" where
  "inproc_clear_prefix p d = (\<lambda>k. if prefix p k then None else d k)"

definition in_process_store :: "inproc_data store_ops" where
  "in_process_store =
     \<lparr>st_get = inproc_get, st_set = inproc_set, st_delete = inproc_delete,
      st_clear_prefix = inproc_clear_prefix\<rparr>"

text \<open>The value a key has at time \<open>t\<close>: present and not yet expired.\<close>

definition inproc_visible :: "seconds \<Rightarrow> inproc_data \<Rightarrow> string \<Rightarrow> string option" where
  "inproc_visible t d k =
     (case d k of
        None \<Rightarrow> None
      | Some (v, None) \<Rightarrow> Some v
      | Some (v, Some e) \<Rightarrow> if e \<le> t then None else Some v)"

section \<open>RedisStore\<close>

text \<open>
  The client object is third-party code: a record of functions on its own state \<open>'r\<close>. A reply
  says whether the call raised; \<open>rc_scan\<close> is \<open>scan_iter\<close> of a glob pattern, \<open>None\<close> when it raises.
\<close>

datatype redis_value = RNil | RStr string | RBytes string

record 'r redis_client =
  rc_get :: "seconds \<Rightarrow> string \<Rightarrow> 'r \<Rightarrow> redis_value option \<times> 'r"
  rc_set :: "seconds \<Rightarrow> string \<Rightarrow> string \<Rightarrow> int option \<Rightarrow> 'r \<Rightarrow> bool \<times> 'r"
  rc_delete :: "string \<Rightarrow> 'r \<Rightarrow> bool \<times> 'r"
  rc_scan :: "string \<Rightarrow> 'r \<Rightarrow> string list option"

fun redis_decode :: "(string \<Rightarrow> string) \<Rightarrow> redis_value \<Rightarrow> string option" where
  "redis_decode decode RNil = None"
| "redis_decode decode (RStr s) = Some s"
| "redis_decode decode (RBytes b) = Some (decode b)"

definition redis_get ::
  "'r redis_client \<Rightarrow> (string \<Rightarrow> string) \<Rightarrow> seconds \<Rightarrow> string \<Rightarrow> 'r \<Rightarrow> string option \<times> 'r" where
  "redis_get c decode now key r =
     (case rc_get c now key r of
        (None, r') \<Rightarrow> (None, r')
      | (Some v, r') \<Rightarrow> (redis_decode decode v, r'))"

definition redis_delete :: "'r redis_client \<Rightarrow> string \<Rightarrow> 'r \<Rightarrow> 'r" where
  "redis_delete c key r = snd (rc_delete c key r)"

definition redis_set ::
  "'r redis_client \<Rightarrow> seconds \<Rightarrow> string \<Rightarrow> string \<Rightarrow> seconds option \<Rightarrow> 'r \<Rightarrow> 'r" where
  "redis_set c now key v ttl r =
     (case ttl of
        None \<Rightarrow> snd (rc_set c now key v None r)
      | Some t \<Rightarrow> if t \<le> 0 then redis_delete c key r
                  else snd (rc_set c now key v (Some \<lfloor>t * 1000\<rfloor>) r))"

fun redis_delete_all :: "'r redis_client \<Rightarrow> string list \<Rightarrow> 'r \<Rightarrow> 'r" where
  "redis_delete_all c [] r = r"
| "redis_delete_all c (k # ks) r =
     (case rc_delete c k r of (ok, r') \<Rightarrow> if ok then redis_delete_all c ks r' else r')"

definition redis_clear_prefix :: "'r redis_client \<Rightarrow> string \<Rightarrow> 'r \<Rightarrow> 'r" where
  "redis_clear_prefix c p r =
     (case rc_scan c (p @ ''*'') r of None \<Rightarrow> r | Some keys \<Rightarrow> redis_delete_all c keys r)"

definition redis_store :: "'r redis_client \<Rightarrow> (string \<Rightarrow> string) \<Rightarrow> 'r store_ops" where
  "redis_store c decode =
     \<lparr>st_get = redis_get c decode, st_set = redis_set c, st_delete = redis_delete c,
      st_clear_prefix = redis_clear_prefix c\<rparr>"

section \<open>The module-level singleton\<close>

record 'o store_config =
  cfg_store :: "'o option"
  cfg_configured :: bool

text \<open>\<open>mk url\<close> is the \<open>RedisStore\<close> constructor, \<open>None\<close> when it raises.\<close>

definition build_default :: "settings \<Rightarrow> (string \<Rightarrow> 'o option) \<Rightarrow> 'o option" where
  "build_default cfg mk = (if redis_url cfg = '''' then None else mk (redis_url cfg))"

definition get_store ::
  "settings \<Rightarrow> (string \<Rightarrow> 'o option) \<Rightarrow> 'o store_config \<Rightarrow> 'o option \<times> 'o store_config" where
  "get_store cfg mk st =
     (if \<not> cfg_configured st
      then (let s = build_default cfg mk in (s, \<lparr>cfg_store = s, cfg_configured = True\<rparr>))
      else (cfg_store st, st))"

definition set_store :: "'o option \<Rightarrow> 'o store_config \<Rightarrow> 'o store_config" where
  "set_store s st = \<lparr>cfg_store = s, cfg_configured = True\<rparr>"

definition reset_store :: "'o store_config \<Rightarrow> 'o store_config" where
  "reset_store st = \<lparr>cfg_store = None, cfg_configured = False\<rparr>"

section \<open>The contract\<close>

locale ttl_store =
  fixes ops :: "'s store_ops"
    and visible :: "seconds \<Rightarrow> 's \<Rightarrow> string \<Rightarrow> string option"
  assumes get_result: "fst (st_get ops now k s) = visible now s k"
    and get_keeps: "now \<le> t \<Longrightarrow> visible t (snd (st_get ops now k s)) k' = visible t s k'"
    and set_live: "0 < ttl \<Longrightarrow>
      visible t (st_set ops now k v (Some ttl) s) k' =
        (if k' = k then if t < now + ttl then Some v else None else visible t s k')"
    and set_dead: "ttl \<le> 0 \<Longrightarrow> st_set ops now k v (Some ttl) s = st_delete ops k s"
    and set_forever: "visible t (st_set ops now k v None s) k' =
        (if k' = k then Some v else visible t s k')"
    and delete_visible: "visible t (st_delete ops k s) k' = (if k' = k then None else visible t s k')"
    and clear_visible: "visible t (st_clear_prefix ops p s) k' =
        (if prefix p k' then None else visible t s k')"
begin

lemma get_after_set:
  "0 < ttl \<Longrightarrow> fst (st_get ops t k (st_set ops now k v (Some ttl) s)) =
     (if t < now + ttl then Some v else None)"
  by (simp add: get_result set_live)

lemma get_after_delete: "fst (st_get ops t k (st_delete ops k s)) = None"
  by (simp add: get_result delete_visible)

lemma get_after_clear: "prefix p k \<Longrightarrow> fst (st_get ops t k (st_clear_prefix ops p s)) = None"
  by (simp add: get_result clear_visible)

lemma get_frame:
  "k' \<noteq> k \<Longrightarrow> fst (st_get ops t k' (st_set ops now k v (Some ttl) s)) = fst (st_get ops t k' s)"
  by (cases "0 < ttl") (simp_all add: get_result set_live set_dead delete_visible)

lemmas visible_laws = get_result get_keeps set_live set_dead set_forever delete_visible clear_visible

end

lemmas inproc_defs = inproc_get_def inproc_set_def inproc_delete_def inproc_clear_prefix_def
  inproc_visible_def in_process_store_def

interpretation inproc: ttl_store in_process_store inproc_visible
  by unfold_locales
    (auto simp: inproc_defs not_less split: option.splits prod.splits if_splits)

end
