(* ===== verification/Budgets.thy ===== *)
theory Budgets
  imports Ledger RequestContext SharedState
    "HOL-Library.Char_ord" "HOL-Library.List_Lexorder" "HOL-Library.Product_Lexorder"
begin

text \<open>
  \<open>budgets.py\<close> and \<open>proxy/budget_enforcement.py\<close>: month-to-date spend against a budget, and the hard
  caps that block a request on the hot path, read through the shared store or the process cache. A
  frozen set of caps is a list without repetitions. The process cache may have lost entries; the JSON
  text codec is the pair of arguments \<open>dumps\<close>, \<open>loads\<close>.
\<close>

definition owner_column :: "string \<Rightarrow> (usage_event \<Rightarrow> string option) option" where
  "owner_column ty =
     (if ty = ''team'' then Some ue_team
      else if ty = ''feature'' then Some ue_feature
      else if ty = ''customer'' then Some ue_customer_id else None)"

record budget_rule =
  br_id :: uuid
  br_project_id :: uuid
  br_owner_type :: string
  br_owner_key :: string
  br_monthly_budget_usd :: decimal
  br_hard_cap_enabled :: bool
  br_enabled :: bool

record budget_status =
  bs_rule_id :: uuid
  bs_owner_type :: string
  bs_owner_key :: string
  bs_budget_usd :: decimal
  bs_spend_usd :: decimal
  bs_hard_cap_enabled :: bool

definition percent_used :: "budget_status \<Rightarrow> decimal option" where
  "percent_used s =
     (if bs_budget_usd s \<le> 0 then None
      else Some (quantize_half_even 1 (bs_spend_usd s / bs_budget_usd s * 100)))"

definition over_budget :: "budget_status \<Rightarrow> bool" where
  "over_budget s \<longleftrightarrow> 0 < bs_budget_usd s \<and> bs_budget_usd s \<le> bs_spend_usd s"

definition hard_cap_exhausted :: "budget_status \<Rightarrow> bool" where
  "hard_cap_exhausted s \<longleftrightarrow> bs_hard_cap_enabled s \<and> over_budget s"

definition period_spend :: "usage_event list \<Rightarrow> uuid \<Rightarrow> string \<Rightarrow> string \<Rightarrow> datetime \<Rightarrow> decimal" where
  "period_spend ledger project owner_type owner_key start =
     (case owner_column owner_type of
        None \<Rightarrow> 0
      | Some column \<Rightarrow>
          coalesce_sum ue_cost_usd
            (\<lambda>e. ue_project_id e = project \<and> column e = Some owner_key \<and> start \<le> ue_received_at e) ledger)"

definition evaluate_budgets ::
  "budget_rule list \<Rightarrow> usage_event list \<Rightarrow> uuid \<Rightarrow> datetime \<Rightarrow> budget_status list" where
  "evaluate_budgets rules ledger project now =
     map (\<lambda>r. \<lparr>bs_rule_id = br_id r, bs_owner_type = br_owner_type r, bs_owner_key = br_owner_key r,
               bs_budget_usd = br_monthly_budget_usd r,
               bs_spend_usd = period_spend ledger project (br_owner_type r) (br_owner_key r) (month_start now),
               bs_hard_cap_enabled = br_hard_cap_enabled r\<rparr>)
       (filter (\<lambda>r. br_project_id r = project \<and> br_enabled r) rules)"

section \<open>Enforcement\<close>

type_synonym caps = "(string \<times> string) list"

definition budget_prefix :: string where
  "budget_prefix = ''budget:exhausted:''"

definition caps_json :: "caps \<Rightarrow> json" where
  "caps_json cs = JList (map (\<lambda>(t, k). JList [JStr t, JStr k]) (sort cs))"

definition serialize_caps :: "(json \<Rightarrow> string) \<Rightarrow> caps \<Rightarrow> string" where
  "serialize_caps dumps cs = dumps (caps_json cs)"

fun decode_pair :: "json \<Rightarrow> (string \<times> string) option" where
  "decode_pair (JList (JStr t # JStr k # _)) = Some (t, k)"
| "decode_pair _ = None"

text \<open>
  \<open>None\<close> is one of the exceptions that the caller treats as an unreadable value. Only texts of the shape
  that \<open>serialize_caps\<close> writes are read here.
\<close>

fun decode_caps :: "json list \<Rightarrow> caps option" where
  "decode_caps [] = Some []"
| "decode_caps (j # js) =
     (case (decode_pair j, decode_caps js) of (Some p, Some ps) \<Rightarrow> Some (p # ps) | _ \<Rightarrow> None)"

definition deserialize_caps :: "(string \<Rightarrow> json option) \<Rightarrow> string \<Rightarrow> caps option" where
  "deserialize_caps loads raw =
     (case loads raw of Some (JList js) \<Rightarrow> map_option remdups (decode_caps js) | _ \<Rightarrow> None)"

definition exhausted_rule :: "usage_event list \<Rightarrow> uuid \<Rightarrow> datetime \<Rightarrow> budget_rule \<Rightarrow> (string \<times> string) option" where
  "exhausted_rule ledger project start r =
     (case owner_column (br_owner_type r) of
        None \<Rightarrow> None
      | Some column \<Rightarrow>
          if br_monthly_budget_usd r \<le> 0 then None
          else if br_monthly_budget_usd r \<le>
              coalesce_sum ue_cost_usd
                (\<lambda>e. ue_project_id e = project \<and> column e = Some (br_owner_key r) \<and> start \<le> ue_received_at e) ledger
          then Some (br_owner_type r, br_owner_key r) else None)"

definition compute_exhausted :: "budget_rule list \<Rightarrow> usage_event list \<Rightarrow> uuid \<Rightarrow> datetime \<Rightarrow> caps" where
  "compute_exhausted rules ledger project now =
     remdups (List.map_filter (exhausted_rule ledger project (month_start now))
       (filter (\<lambda>r. br_project_id r = project \<and> br_enabled r \<and> br_hard_cap_enabled r) rules))"

text \<open>\<open>db_ok\<close> says whether the ledger could be read.\<close>

definition compute_and_report ::
  "bool \<Rightarrow> budget_rule list \<Rightarrow> usage_event list \<Rightarrow> uuid \<Rightarrow> datetime \<Rightarrow> caps option" where
  "compute_and_report db_ok rules ledger project now =
     (if db_ok then Some (compute_exhausted rules ledger project now) else None)"

definition cache_ttl :: "settings \<Rightarrow> seconds" where
  "cache_ttl st = of_int (max 1 (budget_enforcement_cache_ttl_seconds st))"

text \<open>
  \<open>exhausted_hard_caps\<close>: the state is the shared store's (when one is configured) and the process cache.
  \<open>clock\<close> is the store's clock in seconds, \<open>now\<close> the wall clock.
\<close>

definition exhausted_hard_caps ::
  "settings \<Rightarrow> (json \<Rightarrow> string) \<Rightarrow> (string \<Rightarrow> json option) \<Rightarrow> 's store_ops option \<Rightarrow> seconds \<Rightarrow> datetime \<Rightarrow> bool
    \<Rightarrow> budget_rule list \<Rightarrow> usage_event list \<Rightarrow> uuid \<Rightarrow> 's \<times> (uuid \<rightharpoonup> caps) \<Rightarrow> caps \<times> 's \<times> (uuid \<rightharpoonup> caps)" where
  "exhausted_hard_caps st dumps loads store clock now db_ok rules ledger project = (\<lambda>(s, cache).
     (if \<not> budget_enforcement_enabled st then ([], s, cache)
      else (case store of
        Some ops \<Rightarrow>
          (case st_get ops clock (budget_prefix @ project) s of (raw, s1) \<Rightarrow>
            (case (case raw of None \<Rightarrow> None | Some t \<Rightarrow> deserialize_caps loads t) of
               Some cs \<Rightarrow> (cs, s1, cache)
             | None \<Rightarrow>
                 (case compute_and_report db_ok rules ledger project now of
                    None \<Rightarrow> ([], s1, cache)
                  | Some cs \<Rightarrow>
                      (cs, st_set ops clock (budget_prefix @ project) (serialize_caps dumps cs)
                             (Some (cache_ttl st)) s1, cache))))
      | None \<Rightarrow>
          (case cache project of
             Some cs \<Rightarrow> (cs, s, cache)
           | None \<Rightarrow>
               (case compute_and_report db_ok rules ledger project now of
                  None \<Rightarrow> ([], s, cache)
                | Some cs \<Rightarrow> (cs, s, cache(project \<mapsto> cs)))))))"

definition clear_budget_cache ::
  "'s store_ops option \<Rightarrow> uuid option \<Rightarrow> 's \<times> (uuid \<rightharpoonup> caps) \<Rightarrow> 's \<times> (uuid \<rightharpoonup> caps)" where
  "clear_budget_cache store project = (\<lambda>(s, cache).
     (case project of
        None \<Rightarrow> (case store of None \<Rightarrow> s | Some ops \<Rightarrow> st_clear_prefix ops budget_prefix s, Map.empty)
      | Some p \<Rightarrow> (case store of None \<Rightarrow> s | Some ops \<Rightarrow> st_delete ops (budget_prefix @ p) s, cache(p := None))))"

definition owner_value :: "request_context \<Rightarrow> string \<Rightarrow> string option" where
  "owner_value ctx ty =
     (if ty = ''team'' then rc_team ctx else if ty = ''feature'' then rc_feature ctx
      else if ty = ''customer'' then rc_customer_id ctx else None)"

definition matched_cap :: "caps \<Rightarrow> request_context option \<Rightarrow> (string \<times> string) option" where
  "matched_cap exhausted ctx =
     (case ctx of
        None \<Rightarrow> None
      | Some c \<Rightarrow> find (\<lambda>(ty, key). owner_value c ty = Some key \<and> key \<noteq> []) exhausted)"

section \<open>Lemmas\<close>

lemma decode_serialized: "decode_caps (map (\<lambda>(t, k). JList [JStr t, JStr k]) cs) = Some cs"
  by (induction cs) auto

lemma deserialize_serialize:
  assumes "loads (dumps (caps_json cs)) = Some (caps_json cs)" "distinct cs"
  shows "deserialize_caps loads (serialize_caps dumps cs) = Some (sort cs)"
  using assms by (simp add: deserialize_caps_def serialize_caps_def caps_json_def decode_serialized distinct_remdups_id)

lemma set_map_filter: "set (List.map_filter f xs) = {y. \<exists>x \<in> set xs. f x = Some y}"
  by (force simp: List.map_filter_def)

lemma distinct_compute_exhausted [simp]: "distinct (compute_exhausted rules ledger project now)"
  by (simp add: compute_exhausted_def)

lemma exhausted_rule_Some:
  "exhausted_rule ledger project start r = Some (ty, key) \<longleftrightarrow>
     br_owner_type r = ty \<and> br_owner_key r = key \<and> 0 < br_monthly_budget_usd r \<and>
     br_monthly_budget_usd r \<le> period_spend ledger project ty key start"
proof (cases "owner_column (br_owner_type r)")
  case None
  then show ?thesis by (auto simp: exhausted_rule_def period_spend_def)
next
  case (Some column)
  then show ?thesis by (auto simp: exhausted_rule_def period_spend_def)
qed

lemma in_compute_exhausted:
  "(ty, key) \<in> set (compute_exhausted rules ledger project now) \<longleftrightarrow>
     (\<exists>r \<in> set rules. br_project_id r = project \<and> br_enabled r \<and> br_hard_cap_enabled r \<and>
        br_owner_type r = ty \<and> br_owner_key r = key \<and> 0 < br_monthly_budget_usd r \<and>
        br_monthly_budget_usd r \<le> period_spend ledger project ty key (month_start now))"
  by (auto simp: compute_exhausted_def set_map_filter exhausted_rule_Some)

lemma matched_cap_Some:
  "matched_cap cs (Some c) = Some (ty, key) \<Longrightarrow> (ty, key) \<in> set cs \<and> owner_value c ty = Some key"
  by (auto simp: matched_cap_def dest: find_Some_prop)

section \<open>Properties\<close>

text \<open>
  C37. Enforcement and dashboard agree: the caps that the hot path computes on its own query are exactly
  the owners whose budget the guardrails page shows as an exhausted hard cap, for every rule set, ledger
  and time.
\<close>

theorem enforcement_matches_dashboard:
  "set (compute_exhausted rules ledger project now) =
     (\<lambda>s. (bs_owner_type s, bs_owner_key s)) ` set (filter hard_cap_exhausted (evaluate_budgets rules ledger project now))"
proof (rule set_eqI)
  fix x :: "string \<times> string"
  obtain ty key where "x = (ty, key)" by (cases x)
  then show "x \<in> set (compute_exhausted rules ledger project now) \<longleftrightarrow>
      x \<in> (\<lambda>s. (bs_owner_type s, bs_owner_key s)) ` set (filter hard_cap_exhausted (evaluate_budgets rules ledger project now))"
    by (auto simp: in_compute_exhausted evaluate_budgets_def hard_cap_exhausted_def over_budget_def image_iff)
qed

text \<open>
  A blocked request hits a cap of its own: when the caps come from a computation (no fresher cached
  value) and a request is matched, the matched owner is a tag the request carries, and the project has
  an enabled hard-cap rule for it with a positive budget that the month's spend has reached. If the
  ledger cannot be read, or enforcement is switched off, nothing is matched (fail-open).
\<close>

theorem blocked_request_has_exhausted_cap:
  assumes "fst (exhausted_hard_caps st dumps loads None clock now db_ok rules ledger project (s, Map.empty)) = cs"
    and "matched_cap cs (Some ctx) = Some (ty, key)"
  shows "db_ok \<and> budget_enforcement_enabled st \<and> owner_value ctx ty = Some key \<and>
    (\<exists>r \<in> set rules. br_project_id r = project \<and> br_enabled r \<and> br_hard_cap_enabled r \<and>
       br_owner_type r = ty \<and> br_owner_key r = key \<and> 0 < br_monthly_budget_usd r \<and>
       br_monthly_budget_usd r \<le> period_spend ledger project ty key (month_start now))"
proof -
  have cs: "cs = (if budget_enforcement_enabled st \<and> db_ok then compute_exhausted rules ledger project now else [])"
    using assms(1) by (auto simp: exhausted_hard_caps_def compute_and_report_def)
  have m: "(ty, key) \<in> set cs" "owner_value ctx ty = Some key" using matched_cap_Some [OF assms(2)] by simp_all
  then have "db_ok \<and> budget_enforcement_enabled st" using cs by (cases db_ok) (auto split: if_splits)
  with m cs show ?thesis by (simp add: in_compute_exhausted)
qed

definition sample_rule :: budget_rule where
  "sample_rule = \<lparr>br_id = ''r'', br_project_id = ''project'', br_owner_type = ''team'', br_owner_key = ''ml'',
     br_monthly_budget_usd = 5, br_hard_cap_enabled = True, br_enabled = True\<rparr>"

definition team_spend :: usage_event where
  "team_spend = blank_event\<lparr>ue_team := Some ''ml'', ue_cost_usd := Some 6\<rparr>"

lemma sample_caps: "compute_exhausted [sample_rule] [team_spend] ''project'' 0 = [(''team'', ''ml'')]"
proof -
  have "month_start 0 = 0"
    by (simp add: month_start_def day_number_def midnight_of_day_def)
  then show ?thesis
    by (simp add: compute_exhausted_def List.map_filter_def exhausted_rule_def owner_column_def sample_rule_def
        team_spend_def blank_event_def coalesce_sum_def)
qed

theorem blocked_request_has_exhausted_cap_witness:
  "matched_cap [(''team'', ''ml'')] (Some (empty_context\<lparr>rc_team := Some ''ml''\<rparr>)) = Some (''team'', ''ml'') \<and>
   (\<exists>r \<in> set [sample_rule]. br_hard_cap_enabled r \<and>
      br_monthly_budget_usd r \<le> period_spend [team_spend] ''project'' ''team'' ''ml'' (month_start 0))"
proof -
  have m: "matched_cap [(''team'', ''ml'')] (Some (empty_context\<lparr>rc_team := Some ''ml''\<rparr>)) = Some (''team'', ''ml'')"
    by (simp add: matched_cap_def owner_value_def)
  have "fst (exhausted_hard_caps default_settings (\<lambda>_. []) (\<lambda>_. None) None 0 0 True [sample_rule] [team_spend]
      ''project'' ((), Map.empty)) = [(''team'', ''ml'')]"
    by (simp add: exhausted_hard_caps_def compute_and_report_def sample_caps)
  from blocked_request_has_exhausted_cap [OF this m] m show ?thesis by simp
qed

text \<open>
  The shared cache bounds staleness: after an instance has computed the caps at store time \<open>clock\<close>,
  every instance reading the same store gets those caps (as the sorted set) strictly before
  \<open>clock + ttl\<close>, without touching the ledger, and computes them anew from then on. The store is the
  code's in-process store; the JSON codec is assumed to give back what it has written.
\<close>

theorem shared_caps_live_for_ttl:
  assumes "budget_enforcement_enabled st" "loads (dumps (caps_json cs)) = Some (caps_json cs)" "clock \<le> clock'"
    and "fst (st_get in_process_store clock (budget_prefix @ project) s) = None"
    and "exhausted_hard_caps st dumps loads (Some in_process_store) clock now True rules ledger project (s, cache) = (cs, s', cache)"
  shows "fst (exhausted_hard_caps st dumps loads (Some in_process_store) clock' now' True rules' ledger' project (s', cache')) =
    (if clock' < clock + cache_ttl st then sort cs else compute_exhausted rules' ledger' project now')"
proof -
  have ttl: "0 < cache_ttl st" by (simp add: cache_ttl_def)
  let ?k = "budget_prefix @ project"
  obtain raw s1 where g: "st_get in_process_store clock ?k s = (raw, s1)" by (metis surj_pair)
  have cs: "cs = compute_exhausted rules ledger project now"
    and s': "s' = st_set in_process_store clock ?k (serialize_caps dumps cs) (Some (cache_ttl st)) s1"
    using assms(1,4,5) g by (auto simp: exhausted_hard_caps_def compute_and_report_def)
  have get: "fst (st_get in_process_store clock' ?k s') =
      (if clock' < clock + cache_ttl st then Some (serialize_caps dumps cs) else None)"
    unfolding s' by (rule inproc.get_after_set [OF ttl])
  obtain raw' s1' where g': "st_get in_process_store clock' ?k s' = (raw', s1')" by (metis surj_pair)
  have "deserialize_caps loads (serialize_caps dumps cs) = Some (sort cs)"
    using assms(2) by (rule deserialize_serialize) (simp add: cs)
  then show ?thesis
    using get g' assms(1) by (simp add: exhausted_hard_caps_def compute_and_report_def split: if_splits)
qed

theorem shared_caps_live_for_ttl_witness:
  "let (cs, s', cache) = exhausted_hard_caps default_settings (\<lambda>_. ''x'') (\<lambda>_. Some (caps_json [(''team'', ''ml'')]))
         (Some in_process_store) 0 0 True [sample_rule] [team_spend] ''project'' (Map.empty, Map.empty)
   in cs = [(''team'', ''ml'')] \<and>
      fst (exhausted_hard_caps default_settings (\<lambda>_. ''x'') (\<lambda>_. Some (caps_json [(''team'', ''ml'')]))
         (Some in_process_store) 29 0 True [] [] ''project'' (s', cache)) = [(''team'', ''ml'')]"
proof -
  let ?loads = "\<lambda>_. Some (caps_json [(''team'', ''ml'')])"
  obtain s' where first: "exhausted_hard_caps default_settings (\<lambda>_. ''x'') ?loads (Some in_process_store) 0 0 True
      [sample_rule] [team_spend] ''project'' (Map.empty, Map.empty) = ([(''team'', ''ml'')], s', Map.empty)"
    by (simp add: exhausted_hard_caps_def compute_and_report_def sample_caps in_process_store_def inproc_get_def)
  have "fst (exhausted_hard_caps default_settings (\<lambda>_. ''x'') ?loads (Some in_process_store) 29 0 True [] [] ''project''
      (s', Map.empty)) = sort [(''team'', ''ml'')]"
    using shared_caps_live_for_ttl [OF _ _ _ _ first, of 29 0 "[]" "[]" Map.empty]
    by (simp add: in_process_store_def inproc_get_def cache_ttl_def)
  with first show ?thesis by simp
qed

end
