(* ===== verification/RateLimit.thy ===== *)
theory RateLimit
  imports Settings
begin

text \<open>
  \<open>core/ratelimit.py\<close>: the fixed-window rate limiter. \<open>mem_allow\<close> is the in-memory class with its
  dictionary of \<open>(bucket, count)\<close> pairs, \<open>redis_allow\<close> the shared counter behind the Lua script,
  \<open>build_limiter\<close> the choice between them. The locale \<open>fixed_window\<close> states what a limiter
  promises about one window; the bound on the number of admitted calls is proved once inside it.
\<close>

section \<open>InMemoryFixedWindow\<close>

type_synonym window_counts = "string \<rightharpoonup> int \<times> nat"

definition window_bucket :: "seconds \<Rightarrow> int \<Rightarrow> int" where
  "window_bucket now window_seconds = \<lfloor>now / of_int window_seconds\<rfloor>"

text \<open>The decision is \<open>None\<close> when the call raises: a window of zero seconds divides by zero.\<close>

definition mem_allow ::
  "seconds \<Rightarrow> string \<Rightarrow> int \<Rightarrow> int \<Rightarrow> window_counts \<Rightarrow> bool option \<times> window_counts" where
  "mem_allow now key limit window_seconds counts =
     (if limit \<le> 0 then (Some True, counts)
      else if window_seconds = 0 then (None, counts)
      else let bucket = window_bucket now window_seconds in
        (case counts key of
           None \<Rightarrow> (Some True, counts(key \<mapsto> (bucket, 1)))
         | Some (b, count) \<Rightarrow>
             if b \<noteq> bucket then (Some True, counts(key \<mapsto> (bucket, 1)))
             else if limit \<le> int count then (Some False, counts)
             else (Some True, counts(key \<mapsto> (b, count + 1)))))"

definition mem_reset :: "window_counts \<Rightarrow> window_counts" where
  "mem_reset counts = Map.empty"

section \<open>RedisFixedWindow\<close>

text \<open>
  The script's execution by the server is a parameter: \<open>script keys args\<close> returns the counter
  after \<open>INCR\<close>, or \<open>None\<close> when the client raises. \<open>show_int\<close> is the decimal text of the bucket in
  the key.
\<close>

definition redis_window_key :: "(int \<Rightarrow> string) \<Rightarrow> string \<Rightarrow> int \<Rightarrow> string" where
  "redis_window_key show_int key bucket = ''varsten:rl:'' @ key @ '':'' @ show_int bucket"

definition redis_allow ::
  "(string \<Rightarrow> int \<Rightarrow> 'r \<Rightarrow> int option \<times> 'r) \<Rightarrow> (int \<Rightarrow> string) \<Rightarrow>
   seconds \<Rightarrow> string \<Rightarrow> int \<Rightarrow> int \<Rightarrow> 'r \<Rightarrow> bool option \<times> 'r" where
  "redis_allow script show_int now key limit window_seconds r =
     (if limit \<le> 0 then (Some True, r)
      else if window_seconds = 0 then (None, r)
      else let redis_key = redis_window_key show_int key (window_bucket now window_seconds) in
        (case script redis_key window_seconds r of
           (Some count, r') \<Rightarrow> (Some (count \<le> limit), r')
         | (None, r') \<Rightarrow> (Some True, r')))"

section \<open>Choice of backend\<close>

datatype 'c limiter = InMemory window_counts | Redis 'c

text \<open>\<open>mk url\<close> is the Redis client constructor, \<open>None\<close> when it raises.\<close>

definition build_limiter :: "settings \<Rightarrow> (string \<Rightarrow> 'c option) \<Rightarrow> 'c limiter" where
  "build_limiter cfg mk =
     (if py_lower (py_strip (rate_limit_backend cfg)) = ''redis'' then
        (if rate_limit_redis_url cfg = '''' then InMemory Map.empty
         else (case mk (rate_limit_redis_url cfg) of
                 Some c \<Rightarrow> Redis c
               | None \<Rightarrow> InMemory Map.empty))
      else InMemory Map.empty)"

section \<open>The module-level entry point\<close>

text \<open>\<open>allow\<close> of the module: whatever the active limiter raises admits the call.\<close>

definition ratelimit_allow ::
  "(seconds \<Rightarrow> string \<Rightarrow> int \<Rightarrow> int \<Rightarrow> 's \<Rightarrow> bool option \<times> 's) \<Rightarrow>
   seconds \<Rightarrow> string \<Rightarrow> int \<Rightarrow> int \<Rightarrow> 's \<Rightarrow> bool \<times> 's" where
  "ratelimit_allow limiter_allow now key limit window_seconds s =
     (case limiter_allow now key limit window_seconds s of
        (Some ok, s') \<Rightarrow> (ok, s')
      | (None, s') \<Rightarrow> (True, s'))"

section \<open>What a limiter promises\<close>

text \<open>A sequence of calls for one key, at the given clock readings.\<close>

fun limiter_calls ::
  "(seconds \<Rightarrow> string \<Rightarrow> int \<Rightarrow> int \<Rightarrow> 's \<Rightarrow> bool \<times> 's) \<Rightarrow>
   string \<Rightarrow> int \<Rightarrow> int \<Rightarrow> seconds list \<Rightarrow> 's \<Rightarrow> bool list \<times> 's" where
  "limiter_calls allow k limit w [] s = ([], s)"
| "limiter_calls allow k limit w (t # ts) s =
     (case allow t k limit w s of (ok, s') \<Rightarrow>
      case limiter_calls allow k limit w ts s' of (oks, s'') \<Rightarrow> (ok # oks, s''))"

text \<open>
  \<open>used b k s\<close> is the number of calls for key \<open>k\<close> that the limiter has admitted in bucket \<open>b\<close>, as
  far as state \<open>s\<close> knows. A decision at \<open>now\<close> looks at one bucket and one key only.
\<close>

locale fixed_window =
  fixes allow :: "seconds \<Rightarrow> string \<Rightarrow> int \<Rightarrow> int \<Rightarrow> 's \<Rightarrow> bool \<times> 's"
    and used :: "int \<Rightarrow> string \<Rightarrow> 's \<Rightarrow> int"
  assumes used_nonneg: "0 \<le> used b k s"
    and unlimited: "limit \<le> 0 \<Longrightarrow> allow now k limit w s = (True, s)"
    and decision: "0 < limit \<Longrightarrow> w \<noteq> 0 \<Longrightarrow>
      fst (allow now k limit w s) \<longleftrightarrow> used (window_bucket now w) k s < limit"
    and counted: "0 < limit \<Longrightarrow> w \<noteq> 0 \<Longrightarrow> used (window_bucket now w) k (snd (allow now k limit w s)) =
      used (window_bucket now w) k s + (if fst (allow now k limit w s) then 1 else 0)"
    and other_key: "k' \<noteq> k \<Longrightarrow> used b k' (snd (allow now k limit w s)) = used b k' s"
begin

lemma calls_count:
  assumes "0 < limit" "w \<noteq> 0" "\<forall>t \<in> set ts. window_bucket t w = b"
  shows "used b k (snd (limiter_calls allow k limit w ts s)) =
      used b k s + int (length (filter id (fst (limiter_calls allow k limit w ts s)))) \<and>
    int (length (filter id (fst (limiter_calls allow k limit w ts s)))) =
      min (int (length ts)) (max 0 (limit - used b k s))"
  using assms(3)
proof (induction ts arbitrary: s)
  case Nil
  show ?case by simp
next
  case (Cons t ts)
  obtain ok s' where call: "allow t k limit w s = (ok, s')" by fastforce
  have b: "window_bucket t w = b" using Cons.prems by simp
  have ok: "ok \<longleftrightarrow> used b k s < limit" using decision [OF assms(1,2), of t k s] call b by simp
  have s': "used b k s' = used b k s + (if ok then 1 else 0)"
    using counted [OF assms(1,2), of t k s] call b by simp
  obtain oks s'' where rest: "limiter_calls allow k limit w ts s' = (oks, s'')" by fastforce
  show ?case
    using Cons.IH [of s'] Cons.prems ok s' by (auto simp: call rest)
qed

lemma calls_frame: "k' \<noteq> k \<Longrightarrow> used b k' (snd (limiter_calls allow k limit w ts s)) = used b k' s"
proof (induction ts arbitrary: s)
  case (Cons t ts)
  obtain ok s' where call: "allow t k limit w s = (ok, s')" by fastforce
  have "used b k' s' = used b k' s"
    using other_key [OF Cons.prems, of b t limit w s] call by simp
  then show ?case using Cons.IH [OF Cons.prems, of s'] by (auto simp: call split: prod.splits)
qed simp

end

definition mem_used :: "int \<Rightarrow> string \<Rightarrow> window_counts \<Rightarrow> int" where
  "mem_used b k counts =
     (case counts k of None \<Rightarrow> 0 | Some (b', c) \<Rightarrow> if b' = b then int c else 0)"

lemmas mem_defs = ratelimit_allow_def mem_allow_def mem_used_def Let_def

interpretation mem: fixed_window "ratelimit_allow mem_allow" mem_used
  by unfold_locales (auto simp: mem_defs split: option.splits)

section \<open>Properties\<close>

text \<open>
  In one window the in-memory limiter admits exactly the first \<open>limit\<close> calls for a key: of any
  sequence of calls whose clock readings fall into one bucket, starting with no count for the key
  in that bucket, \<open>min n limit\<close> are admitted, and the calls of other keys are unaffected.
\<close>

theorem ratelimit_admits_exactly_limit:
  assumes "0 < limit" "w \<noteq> 0" "\<forall>t \<in> set ts. window_bucket t w = b" "mem_used b k s = 0"
  shows "int (length (filter id (fst (limiter_calls (ratelimit_allow mem_allow) k limit w ts s)))) = min (int (length ts)) limit \<and>
    (\<forall>k' b'. k' \<noteq> k \<longrightarrow> mem_used b' k' (snd (limiter_calls (ratelimit_allow mem_allow) k limit w ts s)) = mem_used b' k' s)"
  using mem.calls_count [OF assms(1-3), of k s] mem.calls_frame [of _ k _ limit w ts s] assms(1,4)
  by auto

theorem ratelimit_admits_exactly_limit_witness:
  "length (filter id (fst (limiter_calls (ratelimit_allow mem_allow) ''vk'' 2 60 [61, 62, 100] Map.empty))) = 2"
proof -
  have "window_bucket t 60 = 1" if "t \<in> set [61, 62, 100]" for t
    using that by (auto simp: window_bucket_def floor_eq_iff)
  then have "int (length (filter id (fst (limiter_calls (ratelimit_allow mem_allow) ''vk'' 2 60 [61, 62, 100] Map.empty)))) =
      min (int (length [61, 62, 100 :: rat])) 2"
    using ratelimit_admits_exactly_limit [of 2 60 "[61, 62, 100]" 1 "''vk''" Map.empty]
    by (simp add: mem_used_def)
  then show ?thesis by simp
qed

text \<open>
  The shared limiter fails open: whatever the server's script does, the module-level
  \<open>allow\<close> refuses a call only when the limit is positive and the script returned a count above it. A
  server error, a disabled limit and a zero-length window all admit the call.
\<close>

theorem ratelimit_redis_fails_open:
  "\<not> fst (ratelimit_allow (redis_allow script show_int) now key limit w r) \<longleftrightarrow>
     0 < limit \<and> w \<noteq> 0 \<and>
     (\<exists>count. fst (script (redis_window_key show_int key (window_bucket now w)) w r) = Some count \<and> limit < count)"
  by (auto simp: ratelimit_allow_def redis_allow_def Let_def not_le split: prod.split option.split)

end
