(* ===== verification/Circuit.thy ===== *)
theory Circuit
  imports SharedState
begin

text \<open>
  \<open>proxy/circuit.py\<close>: the per-project circuit breaker, its registry, and the open flag it
  publishes to the shared store. A breaker is a record; \<open>allow\<close>, \<open>record_success\<close> and
  \<open>record_failure\<close> thread the breaker and the shared store's state. The step relation
  \<open>circuit_step\<close> is one call by one instance; its invariant and the trip, cool-down and probe
  behaviour are proved over runs of calls.
\<close>

section \<open>Shared open flag\<close>

definition open_prefix :: string where
  "open_prefix = ''circuit:open:''"

definition shared_open :: "'s store_ops option \<Rightarrow> seconds \<Rightarrow> string \<Rightarrow> 's \<Rightarrow> bool \<times> 's" where
  "shared_open store now key s =
     (case store of
        None \<Rightarrow> (False, s)
      | Some ops \<Rightarrow> (case st_get ops now (open_prefix @ key) s of (v, s') \<Rightarrow> (v \<noteq> None, s')))"

definition shared_set_open :: "settings \<Rightarrow> 's store_ops option \<Rightarrow> seconds \<Rightarrow> string \<Rightarrow> 's \<Rightarrow> 's" where
  "shared_set_open cfg store now key s =
     (case store of
        None \<Rightarrow> s
      | Some ops \<Rightarrow> st_set ops now (open_prefix @ key) ''1'' (Some (circuit_breaker_reset_seconds cfg)) s)"

definition shared_clear_open :: "'s store_ops option \<Rightarrow> string \<Rightarrow> 's \<Rightarrow> 's" where
  "shared_clear_open store key s =
     (case store of None \<Rightarrow> s | Some ops \<Rightarrow> st_delete ops (open_prefix @ key) s)"

section \<open>The breaker\<close>

datatype circuit_state = Closed | Open | Half_Open

definition is_upstream_failure :: "int \<Rightarrow> bool" where
  "is_upstream_failure status_code =
     (status_code \<in> {429, 500, 502, 503, 504} \<or> status_code \<ge> 500)"

record breaker =
  b_key :: string
  b_state :: circuit_state
  b_failures :: int
  b_opened_at :: seconds

definition new_breaker :: "string \<Rightarrow> breaker" where
  "new_breaker k = \<lparr>b_key = k, b_state = Closed, b_failures = 0, b_opened_at = 0\<rparr>"

definition circuit_allow ::
  "settings \<Rightarrow> 's store_ops option \<Rightarrow> seconds \<Rightarrow> breaker \<Rightarrow> 's \<Rightarrow> bool \<times> breaker \<times> 's" where
  "circuit_allow cfg store now b s =
     (if \<not> circuit_breaker_enabled cfg then (True, b, s)
      else (case shared_open store now (b_key b) s of (tripped, s') \<Rightarrow>
        if tripped then (False, b, s')
        else if b_state b = Open then
          (if circuit_breaker_reset_seconds cfg \<le> now - b_opened_at b
           then (True, b\<lparr>b_state := Half_Open\<rparr>, s')
           else (False, b, s'))
        else (True, b, s')))"

definition record_success :: "'s store_ops option \<Rightarrow> breaker \<Rightarrow> 's \<Rightarrow> breaker \<times> 's" where
  "record_success store b s =
     (b\<lparr>b_state := Closed, b_failures := 0\<rparr>, shared_clear_open store (b_key b) s)"

definition record_failure ::
  "settings \<Rightarrow> 's store_ops option \<Rightarrow> seconds \<Rightarrow> breaker \<Rightarrow> 's \<Rightarrow> breaker \<times> 's" where
  "record_failure cfg store now b s =
     (let b' = b\<lparr>b_failures := b_failures b + 1\<rparr>
      in if b_state b = Half_Open \<or> circuit_breaker_fail_threshold cfg \<le> b_failures b'
         then (b'\<lparr>b_state := Open, b_opened_at := now\<rparr>, shared_set_open cfg store now (b_key b) s)
         else (b', s))"

section \<open>The registry\<close>

definition get_breaker :: "string \<Rightarrow> (string \<rightharpoonup> breaker) \<Rightarrow> breaker \<times> (string \<rightharpoonup> breaker)" where
  "get_breaker k reg =
     (case reg k of
        Some b \<Rightarrow> (b, reg)
      | None \<Rightarrow> (let b = new_breaker k in (b, reg(k \<mapsto> b))))"

definition circuit_reset_all ::
  "'s store_ops option \<Rightarrow> (string \<rightharpoonup> breaker) \<Rightarrow> 's \<Rightarrow> (string \<rightharpoonup> breaker) \<times> 's" where
  "circuit_reset_all store reg s =
     (Map.empty, case store of None \<Rightarrow> s | Some ops \<Rightarrow> st_clear_prefix ops open_prefix s)"

section \<open>Runs of calls on one breaker\<close>

datatype circuit_event = Allow seconds | Success | Failure seconds

fun circuit_apply ::
  "settings \<Rightarrow> 's store_ops option \<Rightarrow> circuit_event \<Rightarrow> breaker \<times> 's \<Rightarrow> breaker \<times> 's" where
  "circuit_apply cfg store (Allow now) (b, s) = snd (circuit_allow cfg store now b s)"
| "circuit_apply cfg store Success (b, s) = record_success store b s"
| "circuit_apply cfg store (Failure now) (b, s) = record_failure cfg store now b s"

inductive circuit_step :: "settings \<Rightarrow> 's store_ops option \<Rightarrow> breaker \<times> 's \<Rightarrow> breaker \<times> 's \<Rightarrow> bool"
  for cfg store where
  allow_step: "circuit_step cfg store (b, s) (circuit_apply cfg store (Allow now) (b, s))"
| success_step: "circuit_step cfg store (b, s) (circuit_apply cfg store Success (b, s))"
| failure_step: "circuit_step cfg store (b, s) (circuit_apply cfg store (Failure now) (b, s))"
| other_instance_step: "circuit_step cfg store (b, s) (b, s')"

inductive circuit_reachable :: "settings \<Rightarrow> 's store_ops option \<Rightarrow> breaker \<times> 's \<Rightarrow> bool"
  for cfg store where
  init: "circuit_reachable cfg store (new_breaker k, s)"
| step: "circuit_reachable cfg store x \<Longrightarrow> circuit_step cfg store x y \<Longrightarrow> circuit_reachable cfg store y"

inductive_cases circuit_stepE: "circuit_step cfg store (b, s) y"

text \<open>
  The invariant: the failure counter is below the threshold exactly while the breaker is closed.
\<close>

definition breaker_inv :: "settings \<Rightarrow> breaker \<Rightarrow> bool" where
  "breaker_inv cfg b \<longleftrightarrow>
     0 \<le> b_failures b \<and>
     (b_state b = Closed \<longleftrightarrow> b_failures b < circuit_breaker_fail_threshold cfg)"

lemma breaker_inv_new: "0 < circuit_breaker_fail_threshold cfg \<Longrightarrow> breaker_inv cfg (new_breaker k)"
  by (simp add: breaker_inv_def new_breaker_def)

lemma breaker_inv_allow:
  "breaker_inv cfg b \<Longrightarrow> breaker_inv cfg (fst (snd (circuit_allow cfg store now b s)))"
  by (auto simp: breaker_inv_def circuit_allow_def split: prod.splits)

lemma breaker_inv_success:
  "0 < circuit_breaker_fail_threshold cfg \<Longrightarrow> breaker_inv cfg (fst (record_success store b s))"
  by (simp add: breaker_inv_def record_success_def)

lemma breaker_inv_failure:
  "breaker_inv cfg b \<Longrightarrow> breaker_inv cfg (fst (record_failure cfg store now b s))"
  by (cases "b_state b") (auto simp: breaker_inv_def record_failure_def Let_def)

lemma circuit_step_inv:
  assumes "0 < circuit_breaker_fail_threshold cfg" "circuit_step cfg store x y" "breaker_inv cfg (fst x)"
  shows "breaker_inv cfg (fst y)"
  using assms(2,1,3)
  by cases (simp_all add: breaker_inv_allow breaker_inv_success breaker_inv_failure)

lemma circuit_reachable_inv:
  assumes "circuit_reachable cfg store x" "0 < circuit_breaker_fail_threshold cfg"
  shows "breaker_inv cfg (fst x)"
  using assms(1)
proof induction
  case (init k s)
  show ?case using assms(2) by (simp add: breaker_inv_new)
next
  case (step x y)
  then show ?case using assms(2) circuit_step_inv by blast
qed

section \<open>Trip, cool-down, probe\<close>

fun record_failures ::
  "settings \<Rightarrow> 's store_ops option \<Rightarrow> seconds list \<Rightarrow> breaker \<times> 's \<Rightarrow> breaker \<times> 's" where
  "record_failures cfg store [] x = x"
| "record_failures cfg store (t # ts) x =
     record_failures cfg store ts (circuit_apply cfg store (Failure t) x)"

lemma record_failures_snoc:
  "record_failures cfg store (ts @ [t]) x = circuit_apply cfg store (Failure t) (record_failures cfg store ts x)"
  by (induction ts arbitrary: x) simp_all

lemma record_failures_closed:
  assumes "b_state b = Closed" "b_failures b + int (length ts) < circuit_breaker_fail_threshold cfg"
  shows "record_failures cfg store ts (b, s) = (b\<lparr>b_failures := b_failures b + int (length ts)\<rparr>, s)"
  using assms
proof (induction ts arbitrary: b)
  case Nil
  then show ?case by simp
next
  case (Cons t ts)
  let ?b = "b\<lparr>b_failures := b_failures b + 1\<rparr>"
  have "circuit_apply cfg store (Failure t) (b, s) = (?b, s)"
    using Cons.prems by (simp add: record_failure_def Let_def)
  moreover have "record_failures cfg store ts (?b, s) = (?b\<lparr>b_failures := b_failures ?b + int (length ts)\<rparr>, s)"
    using Cons.prems by (intro Cons.IH) simp_all
  ultimately show ?case by (simp add: algebra_simps)
qed

lemma record_failures_trip:
  assumes "b_state b = Closed" "b_failures b + int (length ts) + 1 = circuit_breaker_fail_threshold cfg"
  shows "record_failures cfg store (ts @ [t]) (b, s) =
     (b\<lparr>b_failures := circuit_breaker_fail_threshold cfg, b_state := Open, b_opened_at := t\<rparr>,
      shared_set_open cfg store t (b_key b) s)"
proof -
  have "record_failures cfg store ts (b, s) = (b\<lparr>b_failures := b_failures b + int (length ts)\<rparr>, s)"
    using assms by (intro record_failures_closed) simp_all
  then show ?thesis
    using assms unfolding record_failures_snoc by (simp add: record_failure_def Let_def)
qed

lemma allow_open_blocked:
  assumes "circuit_breaker_enabled cfg" "b_state b = Open"
    and "now < b_opened_at b + circuit_breaker_reset_seconds cfg"
  shows "fst (circuit_allow cfg store now b s) = False"
    and "fst (snd (circuit_allow cfg store now b s)) = b"
  using assms by (auto simp: circuit_allow_def split: prod.splits)

text \<open>While the breaker is open and cooling down, no sequence of \<open>allow\<close> calls gets through.\<close>

fun allow_all ::
  "settings \<Rightarrow> 's store_ops option \<Rightarrow> seconds list \<Rightarrow> breaker \<Rightarrow> 's \<Rightarrow> bool list" where
  "allow_all cfg store [] b s = []"
| "allow_all cfg store (t # ts) b s =
     (case circuit_allow cfg store t b s of (ok, b', s') \<Rightarrow> ok # allow_all cfg store ts b' s')"

lemma allow_all_cooling_down:
  assumes "circuit_breaker_enabled cfg" "b_state b = Open"
    and "\<forall>t \<in> set ts. t < b_opened_at b + circuit_breaker_reset_seconds cfg"
  shows "allow_all cfg store ts b s = replicate (length ts) False"
  using assms(3)
proof (induction ts arbitrary: s)
  case Nil
  then show ?case by simp
next
  case (Cons t ts)
  obtain ok b' s' where call: "circuit_allow cfg store t b s = (ok, b', s')"
    by (metis prod_cases3)
  with allow_open_blocked [OF assms(1,2), of t store s] Cons.prems
  have "\<not> ok" "b' = b" by simp_all
  with call Cons show ?case by simp
qed

lemma allow_probe:
  assumes "circuit_breaker_enabled cfg" "b_state b = Open" "\<not> fst (shared_open store now (b_key b) s)"
    and "b_opened_at b + circuit_breaker_reset_seconds cfg \<le> now"
  shows "fst (circuit_allow cfg store now b s)"
    and "fst (snd (circuit_allow cfg store now b s)) = b\<lparr>b_state := Half_Open\<rparr>"
  using assms by (auto simp: circuit_allow_def split: prod.splits)

lemma half_open_failure:
  "b_state b = Half_Open \<Longrightarrow>
     b_state (fst (record_failure cfg store now b s)) = Open \<and>
     b_opened_at (fst (record_failure cfg store now b s)) = now"
  by (simp add: record_failure_def Let_def)

section \<open>Coordination through the shared store\<close>

context ttl_store
begin

lemma shared_open_visible:
  "fst (shared_open (Some ops) now k s) \<longleftrightarrow> visible now s (open_prefix @ k) \<noteq> None"
  by (simp add: shared_open_def get_result [symmetric] split: prod.split)

lemma trip_blocks_every_instance:
  assumes "circuit_breaker_enabled cfg" "0 < circuit_breaker_reset_seconds cfg"
    and trip: "b_state (fst (record_failure cfg (Some ops) t b s)) = Open" "b_state b \<noteq> Open"
    and now: "now < t + circuit_breaker_reset_seconds cfg"
    and other: "b_key b' = b_key b"
  shows "\<not> fst (circuit_allow cfg (Some ops) now b' (snd (record_failure cfg (Some ops) t b s)))"
proof -
  have flag: "snd (record_failure cfg (Some ops) t b s) =
      st_set ops t (open_prefix @ b_key b) ''1'' (Some (circuit_breaker_reset_seconds cfg)) s"
    using trip by (auto simp: record_failure_def shared_set_open_def Let_def split: if_splits)
  have "fst (shared_open (Some ops) now (b_key b') (snd (record_failure cfg (Some ops) t b s)))"
    unfolding shared_open_visible flag other using assms(2) now by (simp add: set_live)
  then show ?thesis
    using assms(1) by (auto simp: circuit_allow_def split: prod.splits)
qed

lemma success_clears_every_instance:
  assumes "b_state b' \<noteq> Open" "b_key b' = b_key b"
  shows "fst (circuit_allow cfg (Some ops) now b' (snd (record_success (Some ops) b s)))"
proof -
  have "\<not> fst (shared_open (Some ops) now (b_key b') (snd (record_success (Some ops) b s)))"
    unfolding shared_open_visible using assms(2)
    by (simp add: record_success_def shared_clear_open_def delete_visible)
  then show ?thesis
    using assms(1) by (auto simp: circuit_allow_def split: prod.split)
qed

end

section \<open>Properties\<close>



text \<open>
  In every state one breaker can reach, by its own calls and by whatever other instances write
  to the shared store, the failure counter is non-negative and the breaker is closed exactly while
  the counter is below the threshold: the breaker can neither stay closed past the threshold nor be
  open or half-open without having reached it.
\<close>

theorem circuit_reachable_breaker_inv:
  assumes "0 < circuit_breaker_fail_threshold cfg" "circuit_reachable cfg store (b, s)"
  shows "0 \<le> b_failures b \<and> (b_state b = Closed \<longleftrightarrow> b_failures b < circuit_breaker_fail_threshold cfg)"
  using circuit_reachable_inv [OF assms(2,1)] by (simp add: breaker_inv_def)

theorem circuit_reachable_breaker_inv_witness:
  "0 \<le> b_failures (new_breaker ''p'') \<and>
   (b_state (new_breaker ''p'') = Closed \<longleftrightarrow> b_failures (new_breaker ''p'') < 5)"
  using circuit_reachable_breaker_inv [of default_settings "None :: unit store_ops option" "new_breaker ''p''" "()"]
    circuit_reachable.init [of default_settings "None :: unit store_ops option" "''p''" "()"]
  by simp

text \<open>
  With a shared store configured, the failure that trips one instance's breaker makes every
  instance's breaker for the same project refuse requests for the whole reset window, although
  that instance has not seen a single failure itself; a success on any instance lifts the flag for
  every instance whose own breaker is not open.
\<close>

theorem circuit_trip_protects_fleet:
  assumes "circuit_breaker_enabled cfg" "0 < circuit_breaker_reset_seconds cfg"
    and "b_state b \<noteq> Open" "b_key b' = b_key b" "now < t + circuit_breaker_reset_seconds cfg"
  shows "(b_state (fst (record_failure cfg (Some in_process_store) t b s)) = Open \<longrightarrow>
      \<not> fst (circuit_allow cfg (Some in_process_store) now b'
              (snd (record_failure cfg (Some in_process_store) t b s)))) \<and>
    (b_state b' \<noteq> Open \<longrightarrow>
      fst (circuit_allow cfg (Some in_process_store) now b' (snd (record_success (Some in_process_store) b s))))"
  using assms inproc.trip_blocks_every_instance [of cfg t b s now b'] inproc.success_clears_every_instance [of b' b cfg now s]
  by blast

theorem circuit_trip_protects_fleet_witness:
  "\<not> fst (circuit_allow default_settings (Some in_process_store) 20 (new_breaker ''p'')
       (snd (record_failure default_settings (Some in_process_store) 4 ((new_breaker ''p'')\<lparr>b_failures := 4\<rparr>) Map.empty)))"
  using circuit_trip_protects_fleet [of default_settings "(new_breaker ''p'')\<lparr>b_failures := 4\<rparr>" "new_breaker ''p''" 20 4 Map.empty]
  by (simp add: new_breaker_def record_failure_def)

end
