(* ===== verification/Resilience.thy ===== *)
theory Resilience
  imports Circuit Json
begin

text \<open>
  \<open>proxy/resilience.py\<close>: which upstream statuses are retried, the jittered backoff schedule, the
  \<open>Retry-After\<close> header, the fallback model, and \<open>post_with_retry\<close>. The upstream is a parameter
  \<open>post i\<close>, the outcome of the \<open>i\<close>-th POST; \<open>clock i\<close> is the monotonic clock after it. Besides its
  result the model of \<open>post_with_retry\<close> returns the time slept before each retry, so the number of
  POSTs is one more than the length of that list.
\<close>

section \<open>Policy\<close>

definition retries_enabled :: "settings \<Rightarrow> bool" where
  "retries_enabled cfg = (proxy_retry_enabled cfg \<and> 0 < proxy_retry_max_attempts cfg)"

definition is_retryable_status :: "int \<Rightarrow> bool" where
  "is_retryable_status status_code = is_upstream_failure status_code"

text \<open>\<open>draw i\<close> is the \<open>i\<close>-th \<open>random.random()\<close>; \<open>random.uniform(0, c)\<close> is \<open>c * random()\<close>.\<close>

definition backoff_cap :: "settings \<Rightarrow> nat \<Rightarrow> seconds" where
  "backoff_cap cfg i =
     min (proxy_retry_base_delay_seconds cfg * 2 ^ i) (proxy_retry_max_delay_seconds cfg)"

definition backoff_delays :: "settings \<Rightarrow> (nat \<Rightarrow> rat) \<Rightarrow> seconds list" where
  "backoff_delays cfg draw =
     (if \<not> retries_enabled cfg then []
      else map (\<lambda>i. backoff_cap cfg i * draw i) [0 ..< nat (proxy_retry_max_attempts cfg)])"

text \<open>\<open>min(x, y)\<close> on floats keeps its first argument unless the second is smaller.\<close>

fun py_float_min :: "py_float \<Rightarrow> rat \<Rightarrow> py_float" where
  "py_float_min (Fin x) y = Fin (min x y)"
| "py_float_min PosInf y = Fin y"
| "py_float_min NegInf y = NegInf"
| "py_float_min NaN y = NaN"

definition retry_after_seconds :: "settings \<Rightarrow> string option \<Rightarrow> seconds \<Rightarrow> py_float" where
  "retry_after_seconds cfg header dflt =
     (case header of
        None \<Rightarrow> Fin dflt
      | Some h \<Rightarrow>
          if h = '''' then Fin dflt
          else (case py_float_of_string h of
                  Some x \<Rightarrow> py_float_min x (proxy_retry_max_delay_seconds cfg)
                | None \<Rightarrow> Fin dflt))"

definition fallback_model :: "settings \<Rightarrow> uuid \<Rightarrow> string \<Rightarrow> string option" where
  "fallback_model cfg project_id requested_model =
     (if \<not> proxy_fallback_enabled cfg then None
      else (case proxy_fallback_models cfg project_id of
              None \<Rightarrow> None
            | Some candidate \<Rightarrow>
                if candidate \<noteq> '''' \<and> candidate \<noteq> requested_model then Some candidate else None))"

section \<open>post_with_retry\<close>

text \<open>The body of a response: what \<open>json()\<close> returns, \<open>None\<close> when it raises \<open>ValueError\<close>, and its text.\<close>

record response =
  status_code :: int
  retry_after :: "string option"
  response_json :: "json option"
  response_text :: string

datatype outcome = Request_Error string | Response response

text \<open>
  What the caller gets: a response, the last connection error, or an exception. The only exception
  the loop itself can raise is the one of \<open>asyncio.sleep\<close> on NaN.
\<close>

datatype retry_result = Got response | Gave_Up string | Raised_Value_Error

definition asyncio_sleep :: "py_float \<Rightarrow> seconds option" where
  "asyncio_sleep d =
     (case d of Fin x \<Rightarrow> Some (max 0 x) | NegInf \<Rightarrow> Some 0 | PosInf \<Rightarrow> None | NaN \<Rightarrow> None)"

fun retry_loop ::
  "settings \<Rightarrow> (nat \<Rightarrow> outcome) \<Rightarrow> (nat \<Rightarrow> seconds) \<Rightarrow> seconds \<Rightarrow> seconds list \<Rightarrow> nat
    \<Rightarrow> retry_result \<times> seconds list" where
  "retry_loop cfg post clock deadline [] i =
     (case post i of
        Request_Error e \<Rightarrow> (Gave_Up e, [])
      | Response r \<Rightarrow> (Got r, []))"
| "retry_loop cfg post clock deadline (d # ds) i =
     (case post i of
        Request_Error e \<Rightarrow>
          if clock i < deadline
          then (case retry_loop cfg post clock deadline ds (Suc i) of (res, sl) \<Rightarrow> (res, max 0 d # sl))
          else (Gave_Up e, [])
      | Response r \<Rightarrow>
          if status_code r = 200 \<or> \<not> is_retryable_status (status_code r) then (Got r, [])
          else if clock i < deadline
          then (case asyncio_sleep (retry_after_seconds cfg (retry_after r) d) of
                  None \<Rightarrow> (Raised_Value_Error, [])
                | Some slept \<Rightarrow>
                    (case retry_loop cfg post clock deadline ds (Suc i) of (res, sl) \<Rightarrow> (res, slept # sl)))
          else (Got r, []))"

definition post_with_retry ::
  "settings \<Rightarrow> (nat \<Rightarrow> rat) \<Rightarrow> (nat \<Rightarrow> outcome) \<Rightarrow> seconds \<Rightarrow> (nat \<Rightarrow> seconds)
    \<Rightarrow> retry_result \<times> seconds list" where
  "post_with_retry cfg draw post start clock =
     retry_loop cfg post clock (start + proxy_retry_budget_seconds cfg) (backoff_delays cfg draw) 0"

section \<open>Lemmas\<close>

lemma length_backoff_delays:
  "length (backoff_delays cfg draw) =
     (if proxy_retry_enabled cfg then nat (proxy_retry_max_attempts cfg) else 0)"
  by (simp add: backoff_delays_def retries_enabled_def)

lemma backoff_delays_bounds:
  assumes "0 \<le> proxy_retry_base_delay_seconds cfg" "0 \<le> proxy_retry_max_delay_seconds cfg"
    and "\<forall>i. 0 \<le> draw i \<and> draw i \<le> 1" "d \<in> set (backoff_delays cfg draw)"
  shows "0 \<le> d \<and> d \<le> proxy_retry_max_delay_seconds cfg"
proof -
  obtain i where d: "d = backoff_cap cfg i * draw i"
    using assms(4) by (auto simp: backoff_delays_def split: if_splits)
  have cap: "0 \<le> backoff_cap cfg i" "backoff_cap cfg i \<le> proxy_retry_max_delay_seconds cfg"
    using assms(1,2) by (simp_all add: backoff_cap_def)
  have "backoff_cap cfg i * draw i \<le> backoff_cap cfg i * 1"
    using assms(3) cap(1) by (intro mult_left_mono) auto
  with d cap assms(3) show ?thesis by auto
qed

lemma retry_after_capped:
  assumes "0 \<le> proxy_retry_max_delay_seconds cfg" "d \<le> proxy_retry_max_delay_seconds cfg"
    and "asyncio_sleep (retry_after_seconds cfg h d) = Some t"
  shows "0 \<le> t \<and> t \<le> proxy_retry_max_delay_seconds cfg"
proof -
  have "retry_after_seconds cfg h d = Fin d \<or>
      (\<exists>x. retry_after_seconds cfg h d = py_float_min x (proxy_retry_max_delay_seconds cfg))"
    by (auto simp: retry_after_seconds_def split: option.splits)
  then show ?thesis
  proof
    assume "\<exists>x. retry_after_seconds cfg h d = py_float_min x (proxy_retry_max_delay_seconds cfg)"
    then obtain x where "retry_after_seconds cfg h d = py_float_min x (proxy_retry_max_delay_seconds cfg)" ..
    then show ?thesis using assms by (cases x) (auto simp: asyncio_sleep_def)
  qed (use assms in \<open>auto simp: asyncio_sleep_def\<close>)
qed

lemma retry_loop_sleeps:
  assumes "0 \<le> proxy_retry_max_delay_seconds cfg"
    and "\<forall>d \<in> set ds. 0 \<le> d \<and> d \<le> proxy_retry_max_delay_seconds cfg"
  shows "length (snd (retry_loop cfg post clock deadline ds i)) \<le> length ds \<and>
    (\<forall>t \<in> set (snd (retry_loop cfg post clock deadline ds i)).
       0 \<le> t \<and> t \<le> proxy_retry_max_delay_seconds cfg)"
  using assms(2)
proof (induction ds arbitrary: i)
  case Nil
  then show ?case by (simp split: outcome.split)
next
  case (Cons d ds)
  obtain res sl where rest: "retry_loop cfg post clock deadline ds (Suc i) = (res, sl)" by fastforce
  have IH: "length sl \<le> length ds" "\<forall>t \<in> set sl. 0 \<le> t \<and> t \<le> proxy_retry_max_delay_seconds cfg"
    using Cons.IH [of "Suc i"] Cons.prems rest by simp_all
  have d: "0 \<le> d" "d \<le> proxy_retry_max_delay_seconds cfg" using Cons.prems by simp_all
  show ?case
    using IH d retry_after_capped [OF assms(1) d(2)] by (auto simp: rest split: outcome.split option.split)
qed

lemma retry_loop_final:
  "fst (retry_loop cfg post clock deadline ds i) = Got r \<Longrightarrow>
     \<exists>j \<le> length ds. j = length (snd (retry_loop cfg post clock deadline ds i)) \<and>
       post (i + j) = Response r \<and>
       (is_retryable_status (status_code r) \<and> status_code r \<noteq> 200 \<longrightarrow> j = length ds \<or> deadline \<le> clock (i + j))"
proof (induction ds arbitrary: i)
  case Nil
  then show ?case by (simp split: outcome.splits)
next
  case (Cons d ds)
  obtain res sl where rest: "retry_loop cfg post clock deadline ds (Suc i) = (res, sl)" by fastforce
  note IH = Cons.IH [of "Suc i", unfolded rest, simplified]
  show ?case
    using Cons.prems IH
    by (auto simp: rest not_less split: outcome.splits if_splits option.splits)
qed

lemma retry_loop_only_retryable:
  "m < length (snd (retry_loop cfg post clock deadline ds i)) \<Longrightarrow> post (i + m) = Response q \<Longrightarrow>
     status_code q \<noteq> 200 \<and> is_retryable_status (status_code q)"
proof (induction ds arbitrary: i m)
  case Nil
  then show ?case by (simp split: outcome.splits)
next
  case (Cons d ds)
  obtain res sl where rest: "retry_loop cfg post clock deadline ds (Suc i) = (res, sl)" by fastforce
  show ?case
  proof (cases m)
    case 0
    with Cons.prems show ?thesis by (auto split: if_splits)
  next
    case (Suc m')
    with Cons.prems have "m' < length sl"
      by (auto simp: rest split: outcome.splits if_splits option.splits)
    then show ?thesis using Cons.IH [of m' "Suc i"] Cons.prems(2) Suc rest by simp
  qed
qed

lemma sum_list_upper:
  fixes xs :: "rat list"
  shows "(\<And>x. x \<in> set xs \<Longrightarrow> x \<le> m) \<Longrightarrow> sum_list xs \<le> of_nat (length xs) * m"
proof (induction xs)
  case (Cons x xs)
  then have "x \<le> m" "sum_list xs \<le> of_nat (length xs) * m" by simp_all
  then show ?case by (simp add: algebra_simps)
qed simp

lemma retry_loop_skips_failures:
  assumes "j \<le> length ds" "post (i + j) = Response r" "status_code r = 200"
    and "\<forall>m < j. clock (i + m) < deadline"
    and "\<forall>m < j. (\<exists>e. post (i + m) = Request_Error e) \<or>
      (\<exists>q. post (i + m) = Response q \<and> retry_after q = None \<and> status_code q \<noteq> 200 \<and> is_retryable_status (status_code q))"
  shows "fst (retry_loop cfg post clock deadline ds i) = Got r \<and>
    length (snd (retry_loop cfg post clock deadline ds i)) = j"
  using assms
proof (induction j arbitrary: ds i)
  case 0
  then show ?case by (cases ds) auto
next
  case (Suc j)
  then obtain d ds' where ds: "ds = d # ds'" by (cases ds) auto
  obtain res sl where rest: "retry_loop cfg post clock deadline ds' (Suc i) = (res, sl)" by fastforce
  have now: "clock i < deadline" using Suc.prems(4) by (metis add.right_neutral zero_less_Suc)
  have "fst (retry_loop cfg post clock deadline ds' (Suc i)) = Got r \<and>
      length (snd (retry_loop cfg post clock deadline ds' (Suc i))) = j"
  proof (rule Suc.IH)
    show "\<forall>m<j. clock (Suc i + m) < deadline" using Suc.prems(4) by (metis Suc_less_eq add_Suc_shift)
    show "\<forall>m<j. (\<exists>e. post (Suc i + m) = Request_Error e) \<or>
        (\<exists>q. post (Suc i + m) = Response q \<and> retry_after q = None \<and> status_code q \<noteq> 200 \<and> is_retryable_status (status_code q))"
      using Suc.prems(5) by (metis Suc_less_eq add_Suc_shift)
  qed (use Suc.prems ds in auto)
  moreover have "(\<exists>e. post i = Request_Error e) \<or>
      (\<exists>q. post i = Response q \<and> retry_after q = None \<and> status_code q \<noteq> 200 \<and> is_retryable_status (status_code q))"
    using Suc.prems(5) by (metis add.right_neutral zero_less_Suc)
  ultimately show ?case
    using now by (auto simp: ds rest retry_after_seconds_def asyncio_sleep_def)
qed

section \<open>Properties\<close>

text \<open>
  \<open>post_with_retry\<close> makes at most \<open>1 + proxy_retry_max_attempts\<close> POSTs and never sleeps longer
  than the configured maximum delay before any of them, whatever \<open>Retry-After\<close> header the upstream
  sends; the time it adds by sleeping is at most the number of retries times that maximum.
\<close>

theorem post_with_retry_bounded:
  assumes "0 \<le> proxy_retry_base_delay_seconds cfg" "0 \<le> proxy_retry_max_delay_seconds cfg"
    and "\<forall>i. 0 \<le> draw i \<and> draw i \<le> 1"
  shows "length (snd (post_with_retry cfg draw post start clock)) \<le> nat (proxy_retry_max_attempts cfg) \<and>
    (\<forall>t \<in> set (snd (post_with_retry cfg draw post start clock)).
       0 \<le> t \<and> t \<le> proxy_retry_max_delay_seconds cfg) \<and>
    sum_list (snd (post_with_retry cfg draw post start clock))
      \<le> of_nat (nat (proxy_retry_max_attempts cfg)) * proxy_retry_max_delay_seconds cfg"
proof -
  let ?sl = "snd (post_with_retry cfg draw post start clock)" and ?m = "proxy_retry_max_delay_seconds cfg"
  have sl: "length ?sl \<le> length (backoff_delays cfg draw)" "\<forall>t \<in> set ?sl. 0 \<le> t \<and> t \<le> ?m"
    unfolding post_with_retry_def
    using retry_loop_sleeps [OF assms(2)] backoff_delays_bounds [OF assms] by blast+
  have len: "length ?sl \<le> nat (proxy_retry_max_attempts cfg)"
    using sl(1) by (auto simp: length_backoff_delays split: if_splits)
  have "sum_list ?sl \<le> of_nat (length ?sl) * ?m"
    using sl(2) by (intro sum_list_upper) blast
  also have "\<dots> \<le> of_nat (nat (proxy_retry_max_attempts cfg)) * ?m"
    using len assms(2) by (intro mult_right_mono) simp_all
  finally show ?thesis using sl(2) len by blast
qed

theorem post_with_retry_bounded_witness:
  "length (snd (post_with_retry default_settings (\<lambda>_. 1 / 2) (\<lambda>_. Request_Error ''reset'') 0 (\<lambda>_. 0))) \<le> 2"
  using post_with_retry_bounded [of default_settings "\<lambda>_. 1 / 2" "\<lambda>_. Request_Error ''reset''" 0 "\<lambda>_. 0"]
  by simp

text \<open>
  Exactly one outcome is relayed and it is the upstream's last one: a response that
  \<open>post_with_retry\<close> returns is the answer to its last POST, and if that answer is itself retryable
  then either every retry was used or the added-latency budget was spent. A client error (a status
  below 500 other than 429) is therefore relayed unchanged after a single attempt.
\<close>

theorem post_with_retry_relays_last:
  assumes "fst (post_with_retry cfg draw post start clock) = Got r"
  shows "\<exists>n. n = length (snd (post_with_retry cfg draw post start clock)) \<and> post n = Response r \<and>
    n \<le> length (backoff_delays cfg draw) \<and>
    (\<forall>m < n. \<forall>q. post m = Response q \<longrightarrow> status_code q \<noteq> 200 \<and> is_retryable_status (status_code q)) \<and>
    (status_code r \<noteq> 200 \<and> is_retryable_status (status_code r) \<longrightarrow>
       n = length (backoff_delays cfg draw) \<or> start + proxy_retry_budget_seconds cfg \<le> clock n)"
  using assms retry_loop_final [of cfg post clock "start + proxy_retry_budget_seconds cfg" "backoff_delays cfg draw" 0 r]
    retry_loop_only_retryable [of _ cfg post clock "start + proxy_retry_budget_seconds cfg" "backoff_delays cfg draw" 0]
  unfolding post_with_retry_def by auto

theorem post_with_retry_relays_last_witness:
  "\<exists>n. n = length (snd (post_with_retry default_settings (\<lambda>_. 1)
        (\<lambda>_. Response \<lparr>status_code = 400, retry_after = None, response_json = None, response_text = []\<rparr>) 0 (\<lambda>_. 0))) \<and> n \<le> (2 :: nat)"
proof -
  let ?r = "\<lparr>status_code = 400, retry_after = None, response_json = None, response_text = []\<rparr>"
  have "fst (post_with_retry default_settings (\<lambda>_. 1) (\<lambda>_. Response ?r) 0 (\<lambda>_. 0)) = Got ?r"
    by (simp add: post_with_retry_def backoff_delays_def retries_enabled_def upt_rec
        is_retryable_status_def is_upstream_failure_def)
  from post_with_retry_relays_last [OF this] show ?thesis by (auto simp: length_backoff_delays)
qed

text \<open>
  C36. Transient failures are absorbed: if every attempt before the \<open>j\<close>-th fails with a connection
  error or with a retryable status that carries no \<open>Retry-After\<close> header, the clock stays inside the
  budget and the \<open>j\<close>-th attempt (within the retry count) succeeds, then the caller gets that success.
\<close>

theorem post_with_retry_recovers:
  assumes "j \<le> length (backoff_delays cfg draw)" "post j = Response r" "status_code r = 200"
    and "\<forall>m < j. clock m < start + proxy_retry_budget_seconds cfg"
    and "\<forall>m < j. (\<exists>e. post m = Request_Error e) \<or>
      (\<exists>q. post m = Response q \<and> retry_after q = None \<and> status_code q \<noteq> 200 \<and> is_retryable_status (status_code q))"
  shows "fst (post_with_retry cfg draw post start clock) = Got r \<and>
    length (snd (post_with_retry cfg draw post start clock)) = j"
  unfolding post_with_retry_def
  using retry_loop_skips_failures [of j "backoff_delays cfg draw" post 0 r clock "start + proxy_retry_budget_seconds cfg"] assms
  by simp

theorem post_with_retry_recovers_witness:
  "fst (post_with_retry default_settings (\<lambda>_. 1)
     (\<lambda>i. if i = 0 then Request_Error ''reset'' else Response \<lparr>status_code = 200, retry_after = None, response_json = None, response_text = []\<rparr>) 0 (\<lambda>_. 0))
   = Got \<lparr>status_code = 200, retry_after = None, response_json = None, response_text = []\<rparr>"
  using post_with_retry_recovers [of 1 default_settings "\<lambda>_. 1"
      "\<lambda>i. if i = 0 then Request_Error ''reset'' else Response \<lparr>status_code = 200, retry_after = None, response_json = None, response_text = []\<rparr>"
      "\<lparr>status_code = 200, retry_after = None, response_json = None, response_text = []\<rparr>" "\<lambda>_. 0" 0]
  by (simp add: length_backoff_delays)

text \<open>
  The \<open>Retry-After\<close> parser does not exclude NaN: an upstream that answers a retryable status
  with \<open>Retry-After: nan\<close> makes \<open>post_with_retry\<close> raise instead of retrying or relaying the
  response, under the default configuration and for every backoff draw.
\<close>

theorem post_with_retry_nan_raises:
  "fst (post_with_retry default_settings draw
     (\<lambda>_. Response \<lparr>status_code = 429, retry_after = Some ''nan'', response_json = None, response_text = []\<rparr>) 0 (\<lambda>_. 0)) = Raised_Value_Error"
proof -
  have nan: "py_float_of_string ''nan'' = Some NaN" by code_simp
  have "backoff_delays default_settings draw = [1 / 10 * draw 0, 2 / 10 * draw 1]"
    by (simp add: backoff_delays_def retries_enabled_def backoff_cap_def upt_rec)
  then show ?thesis
    by (simp add: post_with_retry_def is_retryable_status_def is_upstream_failure_def
        retry_after_seconds_def nan asyncio_sleep_def)
qed

end
