(* ===== verification/EvalCapture.thy ===== *)
theory EvalCapture
  imports Json Settings Calendar
begin

text \<open>
  \<open>eval/capture.py\<close> and the samples it writes (\<open>ReplaySample\<close> of \<open>models/eval.py\<close>): consent, sampling,
  the cap of a route and the purge. The table is a list with the latest insert first; \<open>created_at\<close> is
  the database's clock at the insert, and equal times are ordered by insertion.
\<close>

record replay_sample =
  rs_id :: uuid
  rs_organization_id :: uuid
  rs_project_id :: uuid
  rs_route_key :: string
  rs_source :: string
  rs_incumbent_model :: string
  rs_request_messages :: json
  rs_request_params :: "(string \<times> json) list"
  rs_incumbent_response :: "(string \<times> json) list option"
  rs_expected_output :: "string option"
  rs_input_tokens :: int
  rs_output_tokens :: int
  rs_expires_at :: "datetime option"
  rs_created_at :: datetime

definition source_traffic :: string where
  "source_traffic = ''traffic''"

definition capture_param_fields :: "string list" where
  "capture_param_fields = [''temperature'', ''top_p'', ''max_tokens'', ''max_completion_tokens'', ''tools'', ''tool_choice'',
     ''response_format'', ''seed'', ''stop'', ''n'']"

definition capture_enabled :: "settings \<Rightarrow> bool \<Rightarrow> bool" where
  "capture_enabled cfg opted_in = (eval_capture_enabled cfg \<and> opted_in)"

definition capture_route_key :: "string \<Rightarrow> string" where
  "capture_route_key model = model"

definition traffic_of :: "uuid \<Rightarrow> string \<Rightarrow> replay_sample \<Rightarrow> bool" where
  "traffic_of project route s \<longleftrightarrow>
     rs_project_id s = project \<and> rs_route_key s = route \<and> rs_source s = source_traffic"

text \<open>A negative cap makes \<open>LIMIT\<close> an error, which the caller logs: nothing is evicted then.\<close>

definition enforce_route_cap :: "settings \<Rightarrow> bool \<Rightarrow> uuid \<Rightarrow> string \<Rightarrow> replay_sample list \<Rightarrow> replay_sample list" where
  "enforce_route_cap cfg db_ok project route rows =
     (let cap = eval_max_samples_per_route cfg; mine = filter (traffic_of project route) rows;
          kept = map rs_id (take (nat cap) (sort_key (\<lambda>s. - rs_created_at s) mine))
      in if \<not> db_ok \<or> int (length mine) \<le> cap \<or> cap < 0 then rows
         else filter (\<lambda>s. \<not> (traffic_of project route s \<and> rs_id s \<notin> set kept)) rows)"

text \<open>
  \<open>draw\<close> is the value of \<open>random.random()\<close>; \<open>write_ok\<close> and \<open>evict_ok\<close> say whether the insert and the
  eviction succeeded, \<open>created_at\<close> and \<open>new_id\<close> are what the database assigns.
\<close>

definition capture_sample ::
  "settings \<Rightarrow> rat \<Rightarrow> bool \<Rightarrow> bool \<Rightarrow> datetime \<Rightarrow> datetime \<Rightarrow> uuid \<Rightarrow> uuid \<Rightarrow> uuid \<Rightarrow> bool \<Rightarrow> (string \<times> json) list
    \<Rightarrow> (string \<times> json) list \<Rightarrow> string \<Rightarrow> int \<Rightarrow> int \<Rightarrow> replay_sample list \<Rightarrow> replay_sample list" where
  "capture_sample cfg draw write_ok evict_ok now created_at new_id org project opted_in body payload model
     input_tokens output_tokens rows =
     (if \<not> capture_enabled cfg opted_in then rows
      else if eval_sample_rate cfg \<le> draw then rows
      else if \<not> truthy (dict_get body ''messages'') \<or> payload = [] then rows
      else if \<not> write_ok then rows
      else enforce_route_cap cfg evict_ok project (capture_route_key model)
        (\<lparr>rs_id = new_id, rs_organization_id = org, rs_project_id = project, rs_route_key = capture_route_key model,
          rs_source = source_traffic, rs_incumbent_model = model, rs_request_messages = dict_get body ''messages'',
          rs_request_params = List.map_filter (\<lambda>k. map_option (Pair k) (map_of body k)) capture_param_fields,
          rs_incumbent_response = Some payload, rs_expected_output = None, rs_input_tokens = input_tokens,
          rs_output_tokens = output_tokens, rs_expires_at = Some (now + eval_sample_ttl_days cfg * 86400000000),
          rs_created_at = created_at\<rparr> # rows))"

definition purge_samples :: "datetime \<Rightarrow> replay_sample list \<Rightarrow> nat \<times> replay_sample list" where
  "purge_samples now rows =
     (let due = (\<lambda>s. case rs_expires_at s of None \<Rightarrow> False | Some t \<Rightarrow> t \<le> now)
      in (length (filter due rows), filter (\<lambda>s. \<not> due s) rows))"

section \<open>Lemmas\<close>

lemma enforce_route_cap_subset: "set (enforce_route_cap cfg ok project route rows) \<subseteq> set rows"
  by (auto simp: enforce_route_cap_def Let_def)

lemma enforce_route_cap_other:
  "\<not> traffic_of project route s \<Longrightarrow> s \<in> set rows \<Longrightarrow> s \<in> set (enforce_route_cap cfg ok project route rows)"
  by (auto simp: enforce_route_cap_def Let_def)

lemma distinct_enforce_route_cap:
  "distinct (map rs_id rows) \<Longrightarrow> distinct (map rs_id (enforce_route_cap cfg ok project route rows))"
  by (simp add: enforce_route_cap_def Let_def distinct_map_filter)

lemma enforce_route_cap_bound:
  assumes "distinct (map rs_id rows)" "0 \<le> eval_max_samples_per_route cfg"
  shows "int (length (filter (traffic_of project route) (enforce_route_cap cfg True project route rows))) \<le>
    eval_max_samples_per_route cfg"
proof (cases "int (length (filter (traffic_of project route) rows)) \<le> eval_max_samples_per_route cfg")
  case True
  then show ?thesis by (simp add: enforce_route_cap_def Let_def)
next
  case False
  let ?T = "traffic_of project route" and ?cap = "nat (eval_max_samples_per_route cfg)"
  define mine where "mine = sort_key (\<lambda>s. - rs_created_at s) (filter ?T rows)"
  define kept where "kept = map rs_id (take ?cap mine)"
  have "enforce_route_cap cfg True project route rows = filter (\<lambda>s. \<not> (?T s \<and> rs_id s \<notin> set kept)) rows"
    using False assms(2) by (simp add: enforce_route_cap_def Let_def mine_def kept_def)
  then have eq: "filter ?T (enforce_route_cap cfg True project route rows) = filter (\<lambda>s. ?T s \<and> rs_id s \<in> set kept) rows"
    by (simp only: filter_filter) (rule filter_cong, auto)
  have "length (filter (\<lambda>s. ?T s \<and> rs_id s \<in> set kept) rows) =
      length (map rs_id (filter (\<lambda>s. ?T s \<and> rs_id s \<in> set kept) rows))" by simp
  also have "\<dots> = card (set (map rs_id (filter (\<lambda>s. ?T s \<and> rs_id s \<in> set kept) rows)))"
    by (rule distinct_card [symmetric], rule distinct_map_filter, rule assms(1))
  also have "\<dots> \<le> card (set kept)" by (intro card_mono) auto
  also have "\<dots> \<le> ?cap" using card_length [of kept] by (simp add: kept_def)
  finally show ?thesis using assms(2) by (simp add: eq)
qed

section \<open>The corpus over time\<close>

text \<open>
  Captures with fresh row ids, and purges. \<open>consented\<close> holds the projects that opted in at some time.
\<close>

inductive corpus_step :: "settings \<Rightarrow> (uuid \<Rightarrow> bool) \<Rightarrow> replay_sample list \<Rightarrow> replay_sample list \<Rightarrow> bool"
  for cfg opted_in where
  captured: "new_id \<notin> rs_id ` set rows \<Longrightarrow>
    corpus_step cfg opted_in rows
      (capture_sample cfg draw write_ok True now created_at new_id org project (opted_in project) body payload model
         input_tokens output_tokens rows)"
| purged: "corpus_step cfg opted_in rows (snd (purge_samples now rows))"

inductive corpus :: "settings \<Rightarrow> (uuid \<Rightarrow> bool) \<Rightarrow> replay_sample list \<Rightarrow> bool" for cfg opted_in where
  empty: "corpus cfg opted_in []"
| step: "corpus cfg opted_in rows \<Longrightarrow> corpus_step cfg opted_in rows rows' \<Longrightarrow> corpus cfg opted_in rows'"

definition corpus_inv :: "settings \<Rightarrow> (uuid \<Rightarrow> bool) \<Rightarrow> replay_sample list \<Rightarrow> bool" where
  "corpus_inv cfg opted_in rows \<longleftrightarrow>
     distinct (map rs_id rows) \<and>
     (\<forall>s \<in> set rows. eval_capture_enabled cfg \<and> opted_in (rs_project_id s) \<and> rs_expires_at s \<noteq> None) \<and>
     (\<forall>project route. int (length (filter (traffic_of project route) rows)) \<le> eval_max_samples_per_route cfg)"

lemma filter_subset_length: "length (filter P (filter Q xs)) \<le> length (filter P xs)"
  by (induction xs) auto

lemma enforce_route_cap_traffic:
  "length (filter (traffic_of p r) (enforce_route_cap cfg ok project route rows)) \<le> length (filter (traffic_of p r) rows)"
  by (simp add: enforce_route_cap_def Let_def filter_subset_length del: filter_filter)

lemma insert_cap_inv:
  assumes inv: "corpus_inv cfg opted_in rows" and cap: "0 \<le> eval_max_samples_per_route cfg"
    and s: "rs_id s \<notin> rs_id ` set rows" "eval_capture_enabled cfg" "opted_in (rs_project_id s)" "rs_expires_at s \<noteq> None"
  shows "corpus_inv cfg opted_in (enforce_route_cap cfg True (rs_project_id s) (rs_route_key s) (s # rows))"
    (is "corpus_inv _ _ ?rows'")
proof -
  have d: "distinct (map rs_id (s # rows))" using inv s(1) by (simp add: corpus_inv_def)
  have "int (length (filter (traffic_of p r) ?rows')) \<le> eval_max_samples_per_route cfg" for p r
  proof (cases "traffic_of p r s")
    case True
    then have "p = rs_project_id s" "r = rs_route_key s" by (auto simp: traffic_of_def)
    with enforce_route_cap_bound [OF d cap] show ?thesis by simp
  next
    case False
    have "length (filter (traffic_of p r) ?rows') \<le> length (filter (traffic_of p r) (s # rows))"
      by (rule enforce_route_cap_traffic)
    also have "\<dots> = length (filter (traffic_of p r) rows)" using False by simp
    finally show ?thesis using inv by (meson corpus_inv_def of_nat_mono order_trans)
  qed
  moreover have "\<forall>x \<in> set ?rows'. eval_capture_enabled cfg \<and> opted_in (rs_project_id x) \<and> rs_expires_at x \<noteq> None"
    using enforce_route_cap_subset [of cfg True "rs_project_id s" "rs_route_key s" "s # rows"] inv s
    by (auto simp: corpus_inv_def)
  ultimately show ?thesis using distinct_enforce_route_cap [OF d] by (simp add: corpus_inv_def)
qed

lemma capture_inv:
  assumes "corpus_inv cfg opted_in rows" "0 \<le> eval_max_samples_per_route cfg" "new_id \<notin> rs_id ` set rows"
  shows "corpus_inv cfg opted_in (capture_sample cfg draw write_ok True now created_at new_id org project (opted_in project)
    body payload model input_tokens output_tokens rows)"
  using assms(1) insert_cap_inv [OF assms(1,2), of
      "\<lparr>rs_id = new_id, rs_organization_id = org, rs_project_id = project, rs_route_key = capture_route_key model,
          rs_source = source_traffic, rs_incumbent_model = model, rs_request_messages = dict_get body ''messages'',
          rs_request_params = List.map_filter (\<lambda>k. map_option (Pair k) (map_of body k)) capture_param_fields,
          rs_incumbent_response = Some payload, rs_expected_output = None, rs_input_tokens = input_tokens,
          rs_output_tokens = output_tokens, rs_expires_at = Some (now + eval_sample_ttl_days cfg * 86400000000),
          rs_created_at = created_at\<rparr>"] assms(3)
  by (simp add: capture_sample_def capture_enabled_def)

lemma purge_samples_inv:
  assumes "corpus_inv cfg opted_in rows"
  shows "corpus_inv cfg opted_in (snd (purge_samples now rows))"
proof -
  have "int (length (filter (traffic_of p r) (filter P rows))) \<le> eval_max_samples_per_route cfg" for p r P
    using assms filter_subset_length [of "traffic_of p r" P rows] by (meson corpus_inv_def of_nat_mono order_trans)
  with assms show ?thesis
    by (auto simp add: corpus_inv_def purge_samples_def Let_def distinct_map_filter simp del: filter_filter)
qed

lemma corpus_invariant:
  "corpus cfg opted_in rows \<Longrightarrow> 0 \<le> eval_max_samples_per_route cfg \<Longrightarrow> corpus_inv cfg opted_in rows"
proof (induction rule: corpus.induct)
  case empty
  then show ?case by (simp add: corpus_inv_def)
next
  case (step rows rows')
  from step(2) show ?case by cases (use step in \<open>simp_all add: capture_inv purge_samples_inv\<close>)
qed

section \<open>Properties\<close>


definition sample_capture :: "replay_sample list" where
  "sample_capture = capture_sample (default_settings\<lparr>eval_capture_enabled := True\<rparr>) 0 True True 5 6 ''s'' ''o'' ''p'' True
     [(''messages'', JList [JObj []])] [(''id'', JStr ''x'')] ''m'' 1 1 []"


end
