(* ===== verification/Router.thy ===== *)
theory Router
  imports Evidence Providers Compression ResponseCache Policies Entitlements Budgets RateLimit Resilience EvalCapture
begin

text \<open>
  \<open>proxy/router.py\<close>, the decisions about one OpenAI-shaped request before it is forwarded: set-up, cache
  probe, budget block, resolution of the optimization, headers. An environment \<open>env\<close> holds what the request
  reads (settings, rows, clocks, random draws, the answers of third parties); the world holds what it
  writes. A step that can raise returns an option; what the code guards with \<open>except Exception\<close> is a case on
  it. The functions return the draft as they have filled it, also when they raise.
\<close>

section \<open>Environment and world\<close>

record project =
  pj_id :: uuid
  pj_organization_id :: uuid
  pj_proxy_bypass_enabled :: bool
  pj_eval_capture_enabled :: bool

text \<open>One call to a provider, as the retry loop sends it; the model is part of the URL for Gemini.\<close>

record upstream_request =
  ur_provider :: string
  ur_model :: string
  ur_key :: string
  ur_idempotency_key :: "string option"
  ur_body :: "(string \<times> json) list"

record 's env =
  e_settings :: settings
  e_project :: project
  e_api_key_id :: uuid
  e_store :: "'s store_ops option"
  e_clock :: seconds
  e_now :: datetime
  e_limiter :: "seconds \<Rightarrow> string \<Rightarrow> int \<Rightarrow> int \<Rightarrow> window_counts \<Rightarrow> bool option \<times> window_counts"
  e_request_id_ctx :: "string option"
  e_new_request_id :: string
  e_headers :: "(string \<times> string) list"
  e_organization :: "(organization option \<times> int) option"
  e_provider_key :: "string \<Rightarrow> string option"
  e_outcome_priors :: "outcome_prior list"
  e_lever_configs :: "lever_config list"
  e_policies :: "proxy_policy list"
  e_policies_ok :: bool
  e_candidate_stats :: "candidate_stats list option"
  e_canary_draw :: rat
  e_bandit_draws :: bandit_draws
  e_arm_draw :: rat
  e_artifact :: "uuid \<Rightarrow> (string \<times> string) option option"
  e_budget_rules :: "budget_rule list"
  e_ledger_ok :: bool
  e_cache_ok :: bool
  e_embed :: "string \<Rightarrow> outcome"
  e_distance :: "rat list \<Rightarrow> rat list \<Rightarrow> rat"
  e_audit_ok :: bool
  e_capture_ok :: bool
  e_post :: "upstream_request \<Rightarrow> nat \<Rightarrow> outcome"
  e_jitter :: "upstream_request \<Rightarrow> nat \<Rightarrow> rat"
  e_upstream_clock :: "upstream_request \<Rightarrow> nat \<Rightarrow> seconds"
  e_time_ms :: int
  e_sample_draw :: rat
  e_sample_ok :: bool
  e_evict_ok :: bool
  e_new_id :: uuid
  e_latency_ms :: int
  e_received_at :: datetime
  e_price_tables :: price_tables
  e_loads :: "string \<Rightarrow> json option"
  e_dumps :: "json \<Rightarrow> string"
  e_str :: "json \<Rightarrow> string"
  e_float_repr :: "py_float \<Rightarrow> string"
  e_isoformat :: "datetime \<Rightarrow> string"
  e_digest :: "json \<Rightarrow> string"
  e_sha :: "string \<Rightarrow> string"

record ineligible_decision =
  id_organization_id :: uuid
  id_project_id :: uuid
  id_request_id :: string
  id_client_dialect :: string
  id_requested_provider :: string
  id_requested_model :: string
  id_candidate_provider :: string
  id_candidate_model :: string
  id_decision :: string
  id_reason_code :: string
  id_reason_detail :: "(string \<times> json) list"

record 's world =
  w_limits :: window_counts
  w_entitlements :: "entitlement tier_cache"
  w_store :: 's
  w_caps :: "uuid \<rightharpoonup> caps"
  w_breakers :: "string \<rightharpoonup> breaker"
  w_routing_cache :: policy_cache
  w_trim_cache :: policy_cache
  w_compression_cache :: policy_cache
  w_artifacts :: artifact_cache
  w_entries :: "cache_entry list"
  w_snapshots :: snapshot_cache
  w_prices :: price_cache
  w_ledger :: "usage_event list"
  w_ineligible :: "ineligible_decision list"
  w_decisions :: "decision_event list"
  w_samples :: "replay_sample list"

type_synonym 's draft_state = "decision_draft \<times> 's world"

section \<open>proxy/origin.py\<close>

record client_response =
  cl_status :: int
  cl_headers :: "(string \<times> string) list"
  cl_body :: json

definition origin_header :: string where
  "origin_header = ''X-Varsten-Origin''"

text \<open>A header dictionary with one more entry; an existing one keeps its place.\<close>

fun put_header :: "(string \<times> string) list \<Rightarrow> string \<Rightarrow> string \<Rightarrow> (string \<times> string) list" where
  "put_header [] k v = [(k, v)]"
| "put_header ((k', v') # hs) k v = (if k' = k then (k, v) # hs else (k', v') # put_header hs k v)"

definition with_varsten_origin :: "(string \<times> string) list \<Rightarrow> (string \<times> string) list" where
  "with_varsten_origin headers = put_header headers origin_header ''varsten''"

definition with_provider_origin :: "(string \<times> string) list \<Rightarrow> (string \<times> string) list" where
  "with_provider_origin headers = put_header headers origin_header ''provider''"

definition varsten_error ::
  "string \<Rightarrow> string \<Rightarrow> string \<Rightarrow> int \<Rightarrow> (string \<times> json) list \<Rightarrow> (string \<times> string) list \<Rightarrow> client_response" where
  "varsten_error code ty message status extra_body headers =
     \<lparr>cl_status = status, cl_headers = with_varsten_origin headers,
      cl_body = JObj [(''error'', JObj (dict_update [(''message'', JStr message), (''type'', JStr ty), (''code'', JStr code),
        (''origin'', JStr ''varsten'')] extra_body))]\<rparr>"

section \<open>Set-up\<close>

definition is_bypassed :: "settings \<Rightarrow> project \<Rightarrow> bool" where
  "is_bypassed cfg project = (proxy_kill_switch cfg \<or> pj_proxy_bypass_enabled project)"

definition bypass_reason :: "settings \<Rightarrow> project \<Rightarrow> string" where
  "bypass_reason cfg project =
     (if proxy_kill_switch cfg then ''kill_switch''
      else if pj_proxy_bypass_enabled project then ''project_bypass'' else ''unknown'')"

definition rate_limited :: "'s env \<Rightarrow> 's world \<Rightarrow> client_response option \<times> 's world" where
  "rate_limited env w =
     (if \<not> rate_limit_enabled (e_settings env) then (None, w)
      else (case ratelimit_allow (e_limiter env) (e_clock env) (''proxy:'' @ e_api_key_id env)
                   (proxy_rate_limit_per_minute (e_settings env)) 60 (w_limits w) of
        (ok, limits) \<Rightarrow>
          (if ok then None
           else Some (varsten_error ''rate_limited'' ''varsten_rate_limited'' ''rate limit exceeded'' 429 []
             [(''Retry-After'', ''60''), (''X-Varsten-RateLimit'', ''exceeded'')]),
           w\<lparr>w_limits := limits\<rparr>)))"

definition request_header :: "'s env \<Rightarrow> string \<Rightarrow> string option" where
  "request_header env name = map_of (e_headers env) name"

definition request_id :: "'s env \<Rightarrow> string" where
  "request_id env =
     (case or_str (e_request_id_ctx env) (or_str (request_header env ''x-request-id'') None) of
        Some i \<Rightarrow> i | None \<Rightarrow> e_new_request_id env)"

definition provider_key_for_project :: "'s env \<Rightarrow> string \<Rightarrow> string option" where
  "provider_key_for_project env provider = or_str (e_provider_key env provider) None"

text \<open>The lookup is made twice; the second result only supplies the observe-only flag.\<close>

definition resolve_entitlement_state :: "'s env \<Rightarrow> 's world \<Rightarrow> entitlement \<times> 's world" where
  "resolve_entitlement_state env w =
     (let lookup = entitlement_state_async (e_settings env) (pj_organization_id (e_project env)) (e_now env) (e_organization env)
      in case lookup (w_entitlements w) of (state, c1) \<Rightarrow>
         (case lookup c1 of (again, c2) \<Rightarrow>
           (if en_observe_only again \<noteq> en_observe_only state then state\<lparr>en_observe_only := en_observe_only again\<rparr> else state,
            w\<lparr>w_entitlements := c2\<rparr>)))"

definition entitlement_headers :: "'s env \<Rightarrow> entitlement \<Rightarrow> (string \<times> string) list" where
  "entitlement_headers env s =
     [(''X-Varsten-Base-Only'', if en_observe_only s then ''true'' else ''false''),
      (''X-Varsten-Monthly-Requests'', int_text (en_monthly_requests s)),
      (''X-Varsten-Monthly-Request-Limit'', int_text (en_monthly_request_limit s))] @
     (case or_str (en_reason s) None of None \<Rightarrow> [] | Some r \<Rightarrow> [(''X-Varsten-Base-Only-Reason'', r)]) @
     (case en_requests_remaining s of None \<Rightarrow> [] | Some n \<Rightarrow> [(''X-Varsten-Requests-Remaining'', int_text n)]) @
     (case en_trial_ends_at s of None \<Rightarrow> [] | Some t \<Rightarrow> [(''X-Varsten-Trial-Ends-At'', e_isoformat env t)])"

text \<open>
  The policies of which a plan is told: at most one of the three is present. The planner's guard catches
  nothing here: hashing and planning are total on parsed bodies.
\<close>

datatype plan_policy = No_Policy | Routing_Policy uuid | Trim_Policy uuid | Compression_Policy uuid

definition str_or_none :: "uuid \<Rightarrow> string option" where
  "str_or_none u = (if u = [] then None else Some u)"

definition planner_input_of ::
  "'s env \<Rightarrow> (string \<times> json) list \<Rightarrow> request_facts \<Rightarrow> string \<Rightarrow> string \<Rightarrow> bool \<Rightarrow> bool \<Rightarrow> bool \<Rightarrow> plan_policy \<Rightarrow> decision_draft
    \<Rightarrow> planner_input" where
  "planner_input_of env body facts provider model optimize exact semantic pol d =
     \<lparr>pi_request_id = dd_request_id d, pi_provider = provider, pi_model = model, pi_body = body,
      pi_request_facts = Some facts, pi_context = dd_ctx d, pi_optimize_enabled = optimize,
      pi_exact_cache_enabled = exact, pi_semantic_cache_enabled = semantic,
      pi_routing_policy_present = (case pol of Routing_Policy _ \<Rightarrow> True | _ \<Rightarrow> False),
      pi_routing_policy_id = (case pol of Routing_Policy u \<Rightarrow> str_or_none u | _ \<Rightarrow> None),
      pi_trim_policy_present = (case pol of Trim_Policy _ \<Rightarrow> True | _ \<Rightarrow> False),
      pi_trim_policy_id = (case pol of Trim_Policy u \<Rightarrow> str_or_none u | _ \<Rightarrow> None),
      pi_compression_policy_present = (case pol of Compression_Policy _ \<Rightarrow> True | _ \<Rightarrow> False),
      pi_compression_policy_id = (case pol of Compression_Policy u \<Rightarrow> str_or_none u | _ \<Rightarrow> None),
      pi_outcome_priors = e_outcome_priors env\<rparr>"

definition attach_observe_plan ::
  "'s env \<Rightarrow> (string \<times> json) list \<Rightarrow> request_facts \<Rightarrow> string \<Rightarrow> string \<Rightarrow> bool \<Rightarrow> bool \<Rightarrow> bool \<Rightarrow> plan_policy \<Rightarrow> decision_draft
    \<Rightarrow> decision_draft" where
  "attach_observe_plan env body facts provider model optimize exact semantic pol d =
     d\<lparr>dd_prefix_hash := stable_prefix_hash (e_digest env) body,
       dd_request_fingerprint := full_request_fingerprint (e_digest env) body,
       dd_optimization_plan :=
         Some (build_optimization_plan (planner_input_of env body facts provider model optimize exact semantic pol d))\<rparr>"

definition semantic_enabled :: "'s env \<Rightarrow> bool" where
  "semantic_enabled env = (proxy_cache_enabled (e_settings env) \<and> semantic_cache_enabled (e_settings env))"

record dialect_context =
  dc_parsed :: parsed_request
  dc_adapter :: llm_adapter
  dc_client_key :: string
  dc_body :: "(string \<times> json) list"
  dc_request_facts :: request_facts
  dc_stream :: bool
  dc_model :: string
  dc_bypass :: bool
  dc_entitlement :: entitlement
  dc_observe_only :: bool
  dc_optimize_enabled :: bool
  dc_cache_key :: string
  dc_request_id :: string

text \<open>What an endpoint can end with: an HTTP error, an unhandled exception, or a response.\<close>

datatype failure = Http_Exception int | Unhandled string

definition adapter_for :: "'s env \<Rightarrow> string \<Rightarrow> llm_adapter option" where
  "adapter_for env provider = get_adapter (e_loads env) (e_dumps env) (e_str env) provider"

text \<open>\<open>body\<close> is the parsed request body, \<open>None\<close> when it is not JSON.\<close>

definition parse_client_request :: "'s env \<Rightarrow> string \<Rightarrow> string \<Rightarrow> json option \<Rightarrow> failure + parsed_request" where
  "parse_client_request env method path body =
     (case body of
        None \<Rightarrow> Inl (Http_Exception 400)
      | Some b \<Rightarrow>
          (case classify_client_dialect method path (e_headers env) b of
             Inl (Unsupported_Client_Dialect _) \<Rightarrow> Inl (Http_Exception 404)
           | Inl Attribute_Error \<Rightarrow> Inl (Unhandled ''AttributeError'')
           | Inl Type_Error \<Rightarrow> Inl (Unhandled ''TypeError'')
           | Inr p \<Rightarrow> Inr p))"

definition openai_dialect_setup ::
  "'s env \<Rightarrow> string \<Rightarrow> string \<Rightarrow> json option \<Rightarrow> string option \<Rightarrow> 's world
    \<Rightarrow> (failure + (client_response + dialect_context \<times> decision_draft)) \<times> 's world" where
  "openai_dialect_setup env method path raw destination w =
     (let cfg = e_settings env; project = e_project env in
      case parse_client_request env method path raw of
        Inl e \<Rightarrow> (Inl e, w)
      | Inr parsed \<Rightarrow>
          if pr_dialect parsed \<noteq> OpenAI \<or> pr_operation parsed \<noteq> ''chat_completions'' then (Inl (Http_Exception 404), w)
          else (case adapter_for env (case or_str destination None of Some p \<Rightarrow> p | None \<Rightarrow> proxy_default_provider cfg) of
            None \<Rightarrow> (Inl (Unhandled ''UnknownProvider''), w)
          | Some adapter \<Rightarrow>
              (case provider_key_for_project env (ad_provider adapter) of
                 None \<Rightarrow> (Inr (Inl (varsten_error ''no_provider_key'' ''varsten_no_provider_key''
                   ''no provider key configured for this project'' 502 [] [])), w)
               | Some client_key \<Rightarrow>
                   (case resolve_entitlement_state env w of (entitlement, w1) \<Rightarrow>
                     (let bypass = is_bypassed cfg project; observe_only = en_observe_only entitlement;
                          optimize = (\<not> bypass \<and> \<not> observe_only);
                          model = (case pr_model parsed of None \<Rightarrow> '''' | Some m \<Rightarrow> m)
                      in case parse_request_context cfg (e_loads env) (e_float_repr env) (e_headers env) of
                           Inl _ \<Rightarrow> (Inl (Unhandled ''OverflowError''), w1)
                         | Inr ctx \<Rightarrow>
                             (let d = new_draft (request_id env) (dialect_value (pr_dialect parsed)) (ad_provider adapter) model
                                    (e_api_key_id env) (Some ''chat_completion'') ctx bypass
                                    (if bypass then Some (bypass_reason cfg project) else None);
                                  d' = attach_observe_plan env (pr_body parsed) (pr_request_facts parsed) (ad_provider adapter) model
                                    optimize (proxy_cache_enabled cfg) (semantic_enabled env) No_Policy d
                              in (Inr (Inr (\<lparr>dc_parsed = parsed, dc_adapter = adapter, dc_client_key = client_key,
                                   dc_body = pr_body parsed, dc_request_facts = pr_request_facts parsed,
                                   dc_stream = pr_stream parsed, dc_model = model, dc_bypass = bypass,
                                   dc_entitlement = entitlement, dc_observe_only = observe_only,
                                   dc_optimize_enabled = optimize,
                                   dc_cache_key = compute_cache_key (e_digest env) (pr_body parsed),
                                   dc_request_id = request_id env\<rparr>, d')), w1)))))))"


section \<open>proxy/embedding.py\<close>

definition message_line :: "(json \<Rightarrow> string) \<Rightarrow> json \<Rightarrow> string option" where
  "message_line py_str message =
     (case message of
        JObj m \<Rightarrow>
          map_option (\<lambda>content. text_of py_str (dict_get_default m ''role'' (JStr '''')) @ '': '' @ text_of py_str content)
            (case dict_get_default m ''content'' (JStr '''') of
               JList ps \<Rightarrow> map_option JStr (join_strs '' '' (text_parts ps))
             | v \<Rightarrow> Some v)
      | _ \<Rightarrow> None)"

definition embedding_input :: "(json \<Rightarrow> string) \<Rightarrow> (string \<times> json) list \<Rightarrow> string option" where
  "embedding_input py_str body =
     do { messages \<leftarrow> iterate (dict_get_default body ''messages'' (JList []));
          lines \<leftarrow> those (map (message_line py_str) messages);
          Some (py_strip (join_lines lines)) }"

definition embedding_tokens :: "(string \<times> json) list \<Rightarrow> int option" where
  "embedding_tokens payload =
     do { usage \<leftarrow> as_dict_or_empty (dict_get payload ''usage'');
          int_or_zero (or_json (dict_get usage ''prompt_tokens'') (dict_get usage ''total_tokens'')) }"

definition first_embedding :: "(string \<times> json) list \<Rightarrow> json" where
  "first_embedding payload =
     (case dict_get payload ''data'' of
        JList (JObj d # _) \<Rightarrow> dict_get d ''embedding''
      | _ \<Rightarrow> JNull)"

text \<open>Every failure of \<open>embed\<close> is a null result.\<close>

definition embed :: "'s env \<Rightarrow> string \<Rightarrow> 's world \<Rightarrow> json \<times> 's world" where
  "embed env text w =
     (if text = [] then (JNull, w)
      else (case e_embed env text of
        Request_Error _ \<Rightarrow> (JNull, w)
      | Response r \<Rightarrow>
          if status_code r \<noteq> 200 then (JNull, w)
          else (case response_json r of
            Some (JObj payload) \<Rightarrow>
              (case embedding_tokens payload of
                 None \<Rightarrow> (JNull, w)
               | Some n \<Rightarrow>
                   (case record_overhead_usage (e_price_tables env) (e_capture_ok env) (e_now env) (e_received_at env)
                           (pj_organization_id (e_project env)) (pj_id (e_project env)) ''openai''
                           (embedding_model (e_settings env)) ''embedding'' n 0 ''embedding'' (w_prices w, w_ledger w) of
                      (_, prices, ledger) \<Rightarrow> (first_embedding payload, w\<lparr>w_prices := prices, w_ledger := ledger\<rparr>)))
          | _ \<Rightarrow> (JNull, w))))"

fun as_number :: "json \<Rightarrow> rat option" where
  "as_number (JInt n) = Some (of_int n)"
| "as_number (JFloat (Fin x)) = Some x"
| "as_number _ = None"

text \<open>The vector the search is given: \<open>None\<close> when it would raise, \<open>Some None\<close> without embedding.\<close>

definition search_vector :: "json \<Rightarrow> rat list option option" where
  "search_vector v =
     (case v of
        JNull \<Rightarrow> Some None
      | JList xs \<Rightarrow> map_option Some (those (map as_number xs))
      | _ \<Rightarrow> None)"

section \<open>The cache probe\<close>

datatype reply = Json_Reply client_response | Sse_Reply "(string \<times> string) list" "string list"

record cache_probe =
  cp_response :: "reply option"
  cp_embedding :: "rat list option"
  cp_store_cache :: bool

definition no_probe :: "rat list option \<Rightarrow> bool \<Rightarrow> cache_probe" where
  "no_probe embedding store = \<lparr>cp_response = None, cp_embedding = embedding, cp_store_cache = store\<rparr>"

definition exact_cache_enforced_blockers :: "string list" where
  "exact_cache_enforced_blockers = [''multimodal_content'', ''tools_present'']"

definition exact_cache_policy :: "decision_draft \<Rightarrow> bool \<times> string list \<times> string list" where
  "exact_cache_policy d =
     (case dd_optimization_plan d of
        None \<Rightarrow> (True, [], [])
      | Some plan \<Rightarrow>
          (let blockers = ce_blockers (evaluate_cache_eligibility ''exact_cache'' (pn_classification plan));
               enforced = filter (\<lambda>b. b \<in> set blockers) exact_cache_enforced_blockers
           in (enforced = [], blockers, enforced)))"

definition semantic_cache_policy :: "decision_draft \<Rightarrow> bool \<times> string list" where
  "semantic_cache_policy d =
     (case dd_optimization_plan d of
        None \<Rightarrow> (False, [''planner_missing''])
      | Some plan \<Rightarrow>
          (let gate = evaluate_cache_eligibility ''semantic_cache'' (pn_classification plan)
           in (ce_allowed gate, ce_blockers gate)))"

definition trace :: "string \<Rightarrow> string \<Rightarrow> string \<Rightarrow> string \<Rightarrow> bool \<Rightarrow> (string \<times> json) list \<Rightarrow> decision_draft \<Rightarrow> decision_draft" where
  "trace stage lever action reason enforced detail d =
     add_runtime_trace stage lever action reason enforced None None detail d"

definition skip_both :: "string \<Rightarrow> decision_draft \<Rightarrow> decision_draft" where
  "skip_both reason d =
     trace ''cache_lookup'' ''semantic_cache'' ''skipped'' reason True []
       (trace ''cache_lookup'' ''exact_cache'' ''skipped'' reason True [] d)"

text \<open>
  Serving a hit: the metering of the entry is scheduled (third component) and then the response is
  built; a stored payload that cannot be streamed raises after the scheduling.
\<close>

definition hit_headers :: "string \<Rightarrow> decision_draft \<Rightarrow> (string \<times> string) list" where
  "hit_headers label d =
     [(''X-Varsten-Mode'', ''optimize''), (''X-Varsten-Cache'', label), (origin_header, ''varsten''),
      (''X-Varsten-Request-Id'', dd_request_id d)]"

definition serve_cache_hit :: "'s env \<Rightarrow> cache_entry \<Rightarrow> bool \<Rightarrow> string \<Rightarrow> decision_draft \<Rightarrow> reply option" where
  "serve_cache_hit env entry stream label d =
     (if stream
      then map_option (Sse_Reply (hit_headers label d)) (to_openai_sse (e_dumps env) (ce_response_payload entry))
      else Some (Json_Reply \<lparr>cl_status = 200, cl_headers = hit_headers label d, cl_body = JObj (ce_response_payload entry)\<rparr>))"

definition exact_lookup_step :: "'s env \<Rightarrow> string \<Rightarrow> 's world \<Rightarrow> cache_entry option \<times> 's world" where
  "exact_lookup_step env key w =
     (if proxy_capture_detached (e_settings env)
      then (case get_cached_snapshot (e_now env) (pj_id (e_project env)) key (w_entries w) (w_snapshots w) of
              (e, c) \<Rightarrow> (e, w\<lparr>w_snapshots := c\<rparr>))
      else (get_cached (e_now env) (pj_id (e_project env)) key (w_entries w), w))"

text \<open>The semantic half, entered when the exact lookup did not serve.\<close>

definition semantic_probe ::
  "'s env \<Rightarrow> dialect_context \<Rightarrow> bool \<Rightarrow> 's draft_state \<Rightarrow> cache_probe option \<times> (cache_entry \<times> string) list \<times> 's draft_state" where
  "semantic_probe env dc allowed = (\<lambda>(d, w).
     (let cfg = e_settings env; lever = ''semantic_cache''; stage = ''cache_lookup''
      in if \<not> semantic_cache_enabled cfg then
           (Some (no_probe None allowed), [], trace stage lever ''skipped'' ''semantic_cache_disabled'' True [] d, w)
         else (case semantic_cache_policy d of (ok, blockers) \<Rightarrow>
           if \<not> ok then
             (Some (no_probe None allowed), [],
              trace stage lever ''skipped'' ''semantic_cache_policy_blocked'' True [(''blockers'', JList (map JStr blockers))] d, w)
           else
             (let d1 = trace stage lever ''lookup'' ''semantic_cache_lookup_allowed'' False [] d;
                  failed = (\<lambda>w'. (Some (no_probe None allowed), [],
                    trace stage lever ''error'' ''semantic_cache_lookup_failed'' False [(''fail_open'', JBool True)] d1, w'))
              in case embedding_input (e_str env) (dc_body dc) of
                   None \<Rightarrow> failed w
                 | Some text \<Rightarrow>
                     (case embed env text w of (v, w1) \<Rightarrow>
                       (case search_vector v of
                          None \<Rightarrow> failed w1
                        | Some vector \<Rightarrow>
                            if \<not> e_cache_ok env then failed w1
                            else (case semantic_search (e_distance env) (e_now env) (pj_id (e_project env)) (dc_model dc) vector
                                       (semantic_cache_threshold cfg) (w_entries w1) of
                              Some entry \<Rightarrow>
                                (let d2 = trace stage lever ''hit'' ''semantic_cache_hit'' False [] d1
                                 in (map_option (\<lambda>r. \<lparr>cp_response = Some r, cp_embedding = vector, cp_store_cache = True\<rparr>)
                                       (serve_cache_hit env entry (dc_stream dc) ''semantic'' d2), [(entry, ''semantic'')], d2, w1))
                            | None \<Rightarrow> (Some (no_probe vector allowed), [],
                                trace stage lever ''miss'' ''semantic_cache_miss'' False [] d1, w1))))))))"

definition maybe_serve_openai_cache ::
  "'s env \<Rightarrow> dialect_context \<Rightarrow> 's draft_state \<Rightarrow> cache_probe option \<times> (cache_entry \<times> string) list \<times> 's draft_state" where
  "maybe_serve_openai_cache env dc = (\<lambda>(d, w).
     (let cfg = e_settings env; lever = ''exact_cache''; stage = ''cache_lookup''
      in if \<not> dc_optimize_enabled dc then (Some (no_probe None True), [], skip_both ''optimization_disabled'' d, w)
         else if \<not> proxy_cache_enabled cfg then (Some (no_probe None True), [], skip_both ''cache_disabled'' d, w)
         else if \<not> lever_enabled (e_lever_configs env) (pj_id (e_project env)) (Some lever_semantic_cache)
         then (Some (no_probe None False), [], skip_both ''semantic_cache_paused'' d, w)
         else (case exact_cache_policy d of (allowed, blockers, enforced) \<Rightarrow>
           if \<not> allowed then
             semantic_probe env dc False
               (trace stage lever ''skipped'' ''exact_cache_policy_blocked'' True
                  [(''blockers'', JList (map JStr blockers)), (''enforced_blockers'', JList (map JStr enforced))] d, w)
           else
             (let d1 = trace stage lever ''lookup'' ''exact_cache_lookup_allowed'' False [] d;
                  miss = (\<lambda>d' w'. semantic_probe env dc True (trace stage lever ''miss'' ''exact_cache_miss'' False [] d', w'))
              in if \<not> e_cache_ok env
                 then miss (trace stage lever ''error'' ''exact_cache_lookup_failed'' False [(''fail_open'', JBool True)] d1) w
                 else (case exact_lookup_step env (dc_cache_key dc) w of
                   (None, w1) \<Rightarrow> miss d1 w1
                 | (Some entry, w1) \<Rightarrow>
                     (let d2 = trace stage lever ''hit'' ''exact_cache_hit'' False [] d1
                      in (map_option (\<lambda>r. \<lparr>cp_response = Some r, cp_embedding = None, cp_store_cache = True\<rparr>)
                            (serve_cache_hit env entry (dc_stream dc) ''hit'' d2), [(entry, ''hit'')], d2, w1)))))))"

section \<open>Lemmas\<close>

lemma nearest_in: "nearest d xs = Some e \<Longrightarrow> e \<in> set xs"
  by (induction xs arbitrary: e) (auto split: option.splits if_splits)

lemma semantic_search_Some:
  assumes "semantic_search metric now project model v threshold rows = Some e"
  shows "e \<in> set rows \<and> ce_project_id e = project \<and> ce_model e = model \<and> live now e"
  using assms
  by (auto simp: semantic_search_def Let_def split: option.splits if_splits dest: nearest_in)

lemma exact_lookup_sound:
  assumes "cache_inv (w_entries w, w_snapshots w)" "exact_lookup_step env key w = (Some e, w')"
  shows "ce_project_id e = pj_id (e_project env) \<and> ce_cache_key e = key \<and> live (e_now env) e \<and>
    (\<exists>r \<in> set (w_entries w). content r = content e)"
proof (cases "proxy_capture_detached (e_settings env)")
  case False
  with assms(2) get_cached_Some show ?thesis by (fastforce simp: exact_lookup_step_def entry_key_def)
next
  case True
  with assms(2) have snap: "fst (get_cached_snapshot (e_now env) (pj_id (e_project env)) key (w_entries w) (w_snapshots w)) = Some e"
    by (simp add: exact_lookup_step_def split_beta)
  have "map_option content (get_cached (e_now env) (pj_id (e_project env)) key (w_entries w)) = Some (content e)"
    using snapshot_lookup_content [OF assms(1), of "e_now env" "pj_id (e_project env)" key] by (simp add: snap)
  then obtain r where r: "get_cached (e_now env) (pj_id (e_project env)) key (w_entries w) = Some r" "content r = content e"
    by (auto simp: map_option_eq_Some)
  from get_cached_Some [OF r(1)] content_eq [OF r(2)] r(2) show ?thesis by (auto simp: entry_key_def)
qed

lemma embed_entries: "w_entries (snd (embed env text w)) = w_entries w"
  by (auto simp: embed_def Let_def split: outcome.splits option.splits json.splits prod.splits)

lemma semantic_cache_policy_trace [simp]:
  "semantic_cache_policy (trace stage lever act reason enf detail d) = semantic_cache_policy d"
  by (simp add: semantic_cache_policy_def trace_def)

lemma semantic_probe_serves:
  assumes "semantic_probe env dc allowed (d, w) = (Some probe, hits, d', w')" "cp_response probe = Some r"
  shows "semantic_cache_enabled (e_settings env) \<and> fst (semantic_cache_policy d) \<and>
    (\<exists>e. hits = [(e, ''semantic'')] \<and> serve_cache_hit env e (dc_stream dc) ''semantic'' d' = Some r \<and>
      ce_project_id e = pj_id (e_project env) \<and> ce_model e = dc_model dc \<and> live (e_now env) e)"
proof -
  obtain ok blockers where pol: "semantic_cache_policy d = (ok, blockers)" by fastforce
  have on: "semantic_cache_enabled (e_settings env)" and ok: "ok"
    using assms pol by (auto simp: semantic_probe_def Let_def no_probe_def split: if_splits)
  note step = assms(1) [unfolded semantic_probe_def Let_def prod.case pol]
  obtain inp where inp: "embedding_input (e_str env) (dc_body dc) = Some inp"
    using step on ok assms(2) by (cases "embedding_input (e_str env) (dc_body dc)") (auto simp: no_probe_def)
  obtain v w1 where emb: "embed env inp w = (v, w1)" by fastforce
  obtain vector where vec: "search_vector v = Some vector"
    using step on ok inp emb assms(2) by (cases "search_vector v") (auto simp: no_probe_def)
  have db: "e_cache_ok env" using step on ok inp emb vec assms(2) by (auto simp: no_probe_def split: if_splits)
  obtain e where e: "semantic_search (e_distance env) (e_now env) (pj_id (e_project env)) (dc_model dc) vector
      (semantic_cache_threshold (e_settings env)) (w_entries w1) = Some e"
    using step on ok inp emb vec db assms(2) by (auto simp: no_probe_def split: option.splits)
  have "hits = [(e, ''semantic'')] \<and> serve_cache_hit env e (dc_stream dc) ''semantic'' d' = Some r"
    using step on ok inp emb vec db e assms(2) by auto
  with on ok pol semantic_search_Some [OF e] show ?thesis by auto
qed

section \<open>Samples\<close>

definition sample_request_env :: "proxy_policy list \<Rightarrow> unit env" where
  "sample_request_env policies =
     \<lparr>e_settings = default_settings,
      e_project = \<lparr>pj_id = ''p'', pj_organization_id = ''o'', pj_proxy_bypass_enabled = False, pj_eval_capture_enabled = True\<rparr>,
      e_api_key_id = ''key'', e_store = None, e_clock = 0, e_now = 0, e_limiter = (\<lambda>_ _ _ _ c. (Some True, c)),
      e_request_id_ctx = Some ''r'', e_new_request_id = ''n'', e_headers = [], e_organization = None,
      e_provider_key = (\<lambda>_. Some ''secret''), e_outcome_priors = [], e_lever_configs = [], e_policies = policies,
      e_policies_ok = True, e_candidate_stats = None, e_canary_draw = 0,
      e_bandit_draws = \<lparr>bd_betas = [], bd_explore = 1, bd_pick = 0\<rparr>, e_arm_draw = 50, e_artifact = (\<lambda>_. None),
      e_budget_rules = [], e_ledger_ok = True, e_cache_ok = True, e_embed = (\<lambda>_. Request_Error ''TransportError''),
      e_distance = (\<lambda>_ _. 0), e_audit_ok = True, e_capture_ok = True,
      e_post = (\<lambda>_ _. Response \<lparr>status_code = 200, retry_after = None, response_json = Some (JObj [(''model'', JStr ''small'')]),
        response_text = []\<rparr>), e_jitter = (\<lambda>_ _. 0), e_upstream_clock = (\<lambda>_ _. 0), e_time_ms = 0, e_sample_draw = 0,
      e_sample_ok = True, e_evict_ok = True, e_new_id = ''id'', e_latency_ms = 5, e_received_at = 0,
      e_price_tables = \<lparr>pt_overrides = [], pt_prices = []\<rparr>, e_loads = (\<lambda>_. None), e_dumps = (\<lambda>_. []), e_str = (\<lambda>_. []),
      e_float_repr = (\<lambda>_. []), e_isoformat = (\<lambda>_. []), e_digest = (\<lambda>_. []), e_sha = (\<lambda>s. s)\<rparr>"

definition sample_world :: "unit world" where
  "sample_world = \<lparr>w_limits = Map.empty, w_entitlements = Map.empty, w_store = (), w_caps = Map.empty, w_breakers = Map.empty,
     w_routing_cache = Map.empty, w_trim_cache = Map.empty, w_compression_cache = Map.empty, w_artifacts = Map.empty,
     w_entries = [], w_snapshots = Map.empty, w_prices = Map.empty, w_ledger = [], w_ineligible = [], w_decisions = [],
     w_samples = []\<rparr>"

definition sample_context :: request_context where
  "sample_context = empty_context\<lparr>rc_task_type := Some ''chat'', rc_risk_level := Some ''low''\<rparr>"

definition sample_dialect :: dialect_context where
  "sample_dialect =
     \<lparr>dc_parsed = sample_parsed, dc_adapter = openai_adapter, dc_client_key = ''secret'',
      dc_body = [(''model'', JStr ''gpt-4o'')], dc_request_facts = normalize_request_facts [], dc_stream = False,
      dc_model = ''gpt-4o'', dc_bypass = False,
      dc_entitlement = \<lparr>en_plan_tier = Plan_Free, en_observe_only = False, en_reason = None, en_monthly_requests = 0,
        en_monthly_request_limit = 0, en_requests_remaining = None, en_trial_ends_at = None, en_trial_expired = False\<rparr>,
      dc_observe_only = False, dc_optimize_enabled = True, dc_cache_key = ''k'', dc_request_id = ''r''\<rparr>"

definition sample_draft :: decision_draft where
  "sample_draft = new_draft ''r'' ''openai'' ''openai'' ''gpt-4o'' ''key'' (Some ''chat_completion'') sample_context False None"

definition sample_route_policy :: "string \<Rightarrow> proxy_policy" where
  "sample_route_policy provider =
     \<lparr>pp_id = ''u'', pp_organization_id = ''o'', pp_project_id = ''p'', pp_lever = lever_model_downshift, pp_target_type = ''model'',
      pp_target_key = ''gpt-4o'', pp_route_key = default_route, pp_enabled = True, pp_holdback_percent = 10,
      pp_rollout_percent = 100, pp_params = [(''candidate_model'', JStr ''small''), (''candidate_provider'', JStr provider)],
      pp_source_recommendation_id = None, pp_activated_at = Some 0\<rparr>"

section \<open>Properties\<close>

text \<open>
  C28. The cache serves only what it may. A response served from the cache is that of one live entry of the
  caller's own project, and exactly that entry is metered; the request was being optimized, the cache is on
  and its lever is not paused; an exact hit has the request's key and the plan found no tools and no
  multimodal content, a semantic hit has the request's model and passed the whole semantic gate.
\<close>

theorem served_entry_is_entitled:
  assumes "cache_reachable cfg (w_entries w, w_snapshots w)"
    and "maybe_serve_openai_cache env dc (d, w) = (Some probe, hits, d', w')" "cp_response probe = Some r"
  shows "dc_optimize_enabled dc \<and> proxy_cache_enabled (e_settings env) \<and>
    lever_enabled (e_lever_configs env) (pj_id (e_project env)) (Some lever_semantic_cache) \<and>
    (\<exists>e label. hits = [(e, label)] \<and> serve_cache_hit env e (dc_stream dc) label d' = Some r \<and>
       ce_project_id e = pj_id (e_project env) \<and> live (e_now env) e \<and>
       (label = ''hit'' \<and> ce_cache_key e = dc_cache_key dc \<and> fst (exact_cache_policy d) \<or>
        label = ''semantic'' \<and> ce_model e = dc_model dc \<and> semantic_cache_enabled (e_settings env) \<and>
          fst (semantic_cache_policy d)))"
proof -
  note inv = cache_reachable_inv [OF assms(1)]
  have on: "dc_optimize_enabled dc" "proxy_cache_enabled (e_settings env)"
      "lever_enabled (e_lever_configs env) (pj_id (e_project env)) (Some lever_semantic_cache)"
    using assms(2,3) by (auto simp: maybe_serve_openai_cache_def Let_def no_probe_def split: if_splits)
  obtain allowed blockers enforced where pol: "exact_cache_policy d = (allowed, blockers, enforced)" by (metis prod_cases3)
  note step = assms(2) [unfolded maybe_serve_openai_cache_def Let_def prod.case pol]
  consider (semantic) store d1 w1 where "semantic_probe env dc store (d1, w1) = (Some probe, hits, d', w')"
      "semantic_cache_policy d1 = semantic_cache_policy d"
    | (exact) e w1 where allowed "exact_lookup_step env (dc_cache_key dc) w = (Some e, w1)" "hits = [(e, ''hit'')]"
      "serve_cache_hit env e (dc_stream dc) ''hit'' d' = Some r"
    using step on assms(3) by (auto simp: no_probe_def split: if_splits option.splits prod.splits)
  then show ?thesis
  proof cases
    case semantic
    from semantic_probe_serves [OF semantic(1) assms(3)] on semantic(2) show ?thesis by auto
  next
    case exact
    from exact_lookup_sound [OF inv exact(2)] exact on pol show ?thesis by auto
  qed
qed

definition sample_cached_world :: "unit world" where
  "sample_cached_world =
     (case cache_store default_settings 0 ''i'' ''p'' ''k'' ''gpt-4o'' [(''id'', JStr ''x'')] 1 1 None ([], Map.empty) of
        None \<Rightarrow> sample_world
      | Some (e, rows, c) \<Rightarrow> sample_world\<lparr>w_entries := rows, w_snapshots := c\<rparr>)"

theorem served_entry_is_entitled_witness:
  "\<exists>probe hits d' w' r. maybe_serve_openai_cache (sample_request_env []) sample_dialect (sample_draft, sample_cached_world) =
       (Some probe, hits, d', w') \<and> cp_response probe = Some r \<and> length hits = 1 \<and> ce_project_id (fst (hd hits)) = ''p''"
proof -
  obtain e where st: "cache_store default_settings 0 ''i'' ''p'' ''k'' ''gpt-4o'' [(''id'', JStr ''x'')] 1 1 None ([], Map.empty) =
      Some (e, [e], Map.empty((''p'', ''k'') \<mapsto> e))"
      "ce_project_id e = ''p''" "ce_cache_key e = ''k''" "live 0 e"
    by (simp add: cache_store_def get_cached_def live_def Let_def)
  have w: "w_entries sample_cached_world = [e]" "w_snapshots sample_cached_world = Map.empty((''p'', ''k'') \<mapsto> e)"
    by (simp_all add: sample_cached_world_def st(1))
  have reach: "cache_reachable default_settings (w_entries sample_cached_world, w_snapshots sample_cached_world)"
    unfolding w by (rule cache_reachable.step [OF cache_reachable.init cache_step.store [OF st(1)]])
  have "exact_lookup_step (sample_request_env []) ''k'' sample_cached_world = (Some e, sample_cached_world)"
    by (simp add: exact_lookup_step_def sample_request_env_def get_cached_def w st)
  then obtain probe hits d' w' r where m: "maybe_serve_openai_cache (sample_request_env []) sample_dialect
      (sample_draft, sample_cached_world) = (Some probe, hits, d', w')" "cp_response probe = Some r"
    by (simp add: maybe_serve_openai_cache_def sample_dialect_def sample_request_env_def exact_cache_policy_def
        sample_draft_def new_draft_def lever_enabled_def Let_def serve_cache_hit_def)
  from served_entry_is_entitled [OF reach m] m show ?thesis by (auto simp: sample_request_env_def)
qed

end
