(* ===== verification/Pipeline.thy ===== *)
theory Pipeline
  imports Router
begin

text \<open>
  \<open>proxy/router.py\<close>, what is done to an OpenAI-shaped request that the cache did not answer: the budget
  block, the choice and application of at most one optimization (routing, else trimming, else
  compression), each behind the planner's safety gate and its holdback arm, and the provider that is to
  serve it. A resolver returns its state as an option (\<open>None\<close>: it raised) with the draft and the world
  as they are then; the caller degrades an exception to a passthrough.
\<close>

record opt_state =
  os_body :: "(string \<times> json) list"
  os_upstream_model :: string
  os_upstream_provider :: string
  os_routed_from :: "string option"
  os_routed_from_provider :: "string option"
  os_arm :: "string option"
  os_exp_from :: "string option"
  os_exp_to :: "string option"
  os_trim_applied :: bool
  os_compression_applied :: bool

type_synonym 's resolution = "opt_state option \<times> decision_draft \<times> 's world"

section \<open>Budget block\<close>

definition budget_block :: "'s env \<Rightarrow> request_context \<Rightarrow> string \<Rightarrow> 's world \<Rightarrow> client_response option \<times> 's world" where
  "budget_block env ctx rid w =
     (case exhausted_hard_caps (e_settings env) (e_dumps env) (e_loads env) (e_store env) (e_clock env) (e_now env)
             (e_ledger_ok env) (e_budget_rules env) (w_ledger w) (pj_id (e_project env)) (w_store w, w_caps w) of
        (exhausted, store, caps) \<Rightarrow>
          (case matched_cap exhausted (Some ctx) of
             None \<Rightarrow> None
           | Some (owner_type, owner_key) \<Rightarrow>
               Some (varsten_error ''budget_exceeded'' ''varsten_budget_exceeded''
                 (''hard budget cap exceeded for '' @ owner_type @ '' '' @ [CHR 0x27] @ owner_key @ [CHR 0x27]) 402
                 [(''owner_type'', JStr owner_type), (''owner_key'', JStr owner_key)]
                 [(''X-Varsten-Budget'', ''exceeded''), (''X-Varsten-Request-Id'', rid)]),
           w\<lparr>w_store := store, w_caps := caps\<rparr>))"

section \<open>Plans and rejections\<close>

fun gate_value :: "quality_gate \<Rightarrow> string" where
  "gate_value Gate_Passed = ''passed''"
| "gate_value Gate_Not_Required = ''not_required''"
| "gate_value Gate_Required = ''required''"
| "gate_value Gate_Blocked = ''blocked''"
| "gate_value Gate_Unknown = ''unknown''"

fun risk_value :: "optimization_risk \<Rightarrow> string" where
  "risk_value Risk_Low = ''low''"
| "risk_value Risk_Medium = ''medium''"
| "risk_value Risk_High = ''high''"
| "risk_value Risk_Unknown = ''unknown''"

definition rejected_candidate :: "decision_draft \<Rightarrow> string \<Rightarrow> candidate_optimization option" where
  "rejected_candidate d lever =
     (case dd_optimization_plan d of
        None \<Rightarrow> None
      | Some plan \<Rightarrow> find (\<lambda>c. co_lever c = lever \<and> co_status c = Rejected) (pn_candidates plan))"

definition trace_rejected_candidate ::
  "string \<Rightarrow> string \<Rightarrow> candidate_optimization \<Rightarrow> uuid \<Rightarrow> uuid option \<Rightarrow> decision_draft \<Rightarrow> decision_draft" where
  "trace_rejected_candidate stage lever c policy src d =
     add_runtime_trace stage lever ''skipped'' (co_reason_code c) True (Some policy) src
       [(''candidate_status'', JStr (status_value (co_status c))), (''quality_gate'', JStr (gate_value (co_quality_gate c))),
        (''risk'', JStr (risk_value (co_risk c))), (''reason_detail'', JObj (co_reason_detail c))] d"

definition openai_passthrough_state :: "(string \<times> json) list \<Rightarrow> string \<Rightarrow> string \<Rightarrow> opt_state" where
  "openai_passthrough_state body model provider =
     \<lparr>os_body = body, os_upstream_model = model, os_upstream_provider = provider, os_routed_from = None,
      os_routed_from_provider = None, os_arm = None, os_exp_from = None, os_exp_to = None, os_trim_applied = False,
      os_compression_applied = False\<rparr>"

fun arm_value :: "arm \<Rightarrow> string" where
  "arm_value Control = ''control''"
| "arm_value Treatment = ''treatment''"

text \<open>A body transform's arm: the pair of models is the model itself on both sides.\<close>

definition transform_state :: "(string \<times> json) list \<Rightarrow> string \<Rightarrow> string \<Rightarrow> arm \<Rightarrow> bool \<Rightarrow> bool \<Rightarrow> opt_state" where
  "transform_state body model provider arm trimmed compressed =
     \<lparr>os_body = body, os_upstream_model = model, os_upstream_provider = provider, os_routed_from = None,
      os_routed_from_provider = None, os_arm = Some (arm_value arm), os_exp_from = Some model, os_exp_to = Some model,
      os_trim_applied = trimmed, os_compression_applied = compressed\<rparr>"

definition attach_policy_plan :: "'s env \<Rightarrow> dialect_context \<Rightarrow> plan_policy \<Rightarrow> decision_draft \<Rightarrow> decision_draft" where
  "attach_policy_plan env dc pol d =
     attach_observe_plan env (dc_body dc) (dc_request_facts dc) (ad_provider (dc_adapter dc)) (dc_model dc)
       (dc_optimize_enabled dc) (proxy_cache_enabled (e_settings env)) (semantic_enabled env) pol d"

definition set_policy :: "string \<Rightarrow> uuid \<Rightarrow> uuid option \<Rightarrow> decision_draft \<Rightarrow> decision_draft" where
  "set_policy lever policy src d =
     d\<lparr>dd_lever := Some lever, dd_policy_id := Some policy, dd_source_recommendation_id := src\<rparr>"

section \<open>Routing\<close>

fun mode_value :: "bandit_mode \<Rightarrow> string" where
  "mode_value Mode_Off = ''off''"
| "mode_value Mode_Shadow = ''shadow''"
| "mode_value Mode_Active = ''active''"

fun reason_value :: "bandit_reason \<Rightarrow> string" where
  "reason_value Exploit = ''exploit''"
| "reason_value Explore = ''explore''"
| "reason_value Fallback_Primary = ''fallback_primary''"

definition has_cross_provider_route :: "route_decision option \<Rightarrow> string \<Rightarrow> string \<Rightarrow> bool" where
  "has_cross_provider_route decision model provider =
     (case decision of
        None \<Rightarrow> False
      | Some r \<Rightarrow> rd_candidate_model r \<noteq> [] \<and> (rd_candidate_model r \<noteq> model \<or> rd_candidate_provider r \<noteq> provider))"

definition lever_or_routing :: "string \<Rightarrow> string" where
  "lever_or_routing lever = (if lever = [] then ''model_routing'' else lever)"

definition tag_route_policy :: "route_decision \<Rightarrow> decision_draft \<Rightarrow> decision_draft" where
  "tag_route_policy r d =
     (let d' = set_policy (rd_lever r) (rd_policy_id r) (rd_source_recommendation_id r) d
      in case rd_bandit_trace r of
           None \<Rightarrow> d'
         | Some (mode, ch) \<Rightarrow>
             add_runtime_trace ''bandit_routing'' (lever_or_routing (rd_lever r)) ''selected'' (reason_value (bc_reason ch))
               (mode = Mode_Active) (Some (rd_policy_id r)) None
               [(''mode'', JStr (mode_value mode)), (''chosen_model'', JStr (bc_model ch)),
                (''reason'', JStr (reason_value (bc_reason ch))),
                (''sampled_quality'', case bc_sampled_quality ch of None \<Rightarrow> JNull
                   | Some q \<Rightarrow> JFloat (Fin (quantize_half_even 4 q)))] d')"

definition openai_route_arm_state :: "'s env \<Rightarrow> dialect_context \<Rightarrow> route_decision \<Rightarrow> decision_draft \<Rightarrow> opt_state \<times> decision_draft" where
  "openai_route_arm_state env dc r d =
     (let provider = ad_provider (dc_adapter dc); model = dc_model dc;
          arm = assign_arm (e_arm_draw env) (rd_holdback_percent r); routed = (arm = Treatment)
      in (\<lparr>os_body = dc_body dc, os_upstream_model = (if routed then rd_candidate_model r else model),
           os_upstream_provider = (if routed then rd_candidate_provider r else provider),
           os_routed_from = (if routed then Some model else None),
           os_routed_from_provider = (if routed then Some provider else None),
           os_arm = Some (arm_value arm), os_exp_from = Some model, os_exp_to = Some (rd_candidate_model r),
           os_trim_applied = False, os_compression_applied = False\<rparr>,
          add_runtime_trace ''routing'' (lever_or_routing (rd_lever r)) (if routed then ''applied'' else ''control'')
            (if routed then ''routing_treatment'' else ''holdback_control'') False (Some (rd_policy_id r))
            (rd_source_recommendation_id r)
            [(''arm'', JStr (arm_value arm)), (''candidate_provider'', JStr (rd_candidate_provider r)),
             (''candidate_model'', JStr (rd_candidate_model r)), (''requested_provider'', JStr provider),
             (''requested_model'', JStr model)] d))"

text \<open>\<open>_build_ineligible_decision\<close> of \<open>proxy/optimization_decisions.py\<close>; an unknown reason raises.\<close>

definition ineligibility_reason_codes :: "string list" where
  "ineligibility_reason_codes = [''anthropic_cache_control'', ''anthropic_beta_unsupported'', ''gemini_safety_settings'',
     ''server_side_tool'', ''native_multimodal_unmapped'']"

definition record_routing_ineligibility ::
  "'s env \<Rightarrow> parsed_request \<Rightarrow> string \<Rightarrow> string \<Rightarrow> string \<Rightarrow> ineligibility \<Rightarrow> 's world \<Rightarrow> 's world option" where
  "record_routing_ineligibility env parsed provider to_provider to_model i w =
     (if ri_reason_code i \<notin> set ineligibility_reason_codes \<or> \<not> e_audit_ok env then None
      else Some (w\<lparr>w_ineligible :=
        \<lparr>id_organization_id = pj_organization_id (e_project env), id_project_id = pj_id (e_project env),
         id_request_id = request_id env, id_client_dialect = dialect_value (pr_dialect parsed),
         id_requested_provider = provider,
         id_requested_model = (case pr_model parsed of None \<Rightarrow> [] | Some m \<Rightarrow> m),
         id_candidate_provider = to_provider, id_candidate_model = to_model,
         id_decision = ''ineligible'', id_reason_code = ri_reason_code i,
         id_reason_detail = ri_reason_detail i\<rparr> # w_ineligible w\<rparr>))"

definition mark_ineligible :: "string \<Rightarrow> decision_draft \<Rightarrow> decision_draft" where
  "mark_ineligible code d = d\<lparr>dd_route_eligible := Some False, dd_route_ineligible_reason := Some code\<rparr>"

definition openai_route_ineligible_state ::
  "'s env \<Rightarrow> dialect_context \<Rightarrow> route_decision \<Rightarrow> ineligibility \<Rightarrow> 's draft_state \<Rightarrow> 's resolution" where
  "openai_route_ineligible_state env dc r i = (\<lambda>(d, w).
     (let provider = ad_provider (dc_adapter dc);
          d1 = tag_route_policy r (mark_ineligible (ri_reason_code i) d);
          d2 = add_runtime_trace ''routing'' (lever_or_routing (rd_lever r)) ''skipped'' (ri_reason_code i) True
                 (Some (rd_policy_id r)) (rd_source_recommendation_id r)
                 [(''candidate_provider'', JStr (rd_candidate_provider r)), (''candidate_model'', JStr (rd_candidate_model r)),
                  (''route_eligible'', JBool False)] d1;
          d3 = attach_policy_plan env dc (Routing_Policy (rd_policy_id r)) d2
      in case record_routing_ineligibility env (dc_parsed dc) provider (rd_candidate_provider r) (rd_candidate_model r) i w of
           None \<Rightarrow> (None, d3, w)
         | Some w' \<Rightarrow> (Some (openai_passthrough_state (dc_body dc) (dc_model dc) provider), d3, w')))"

definition resolve_openai_route_state ::
  "'s env \<Rightarrow> dialect_context \<Rightarrow> route_decision \<Rightarrow> 's draft_state \<Rightarrow> 's resolution" where
  "resolve_openai_route_state env dc r = (\<lambda>(d, w).
     (let provider = ad_provider (dc_adapter dc)
      in case cross_provider_ineligibility (dc_parsed dc) provider (rd_candidate_provider r) of
           None \<Rightarrow> (None, d, w)
         | Some (Some i) \<Rightarrow> openai_route_ineligible_state env dc r i (d, w)
         | Some None \<Rightarrow>
             (let d1 = attach_policy_plan env dc (Routing_Policy (rd_policy_id r))
                         (tag_route_policy r (d\<lparr>dd_route_eligible := Some True\<rparr>))
              in case rejected_candidate d1 ''model_routing'' of
                   Some c \<Rightarrow>
                     (Some (openai_passthrough_state (dc_body dc) (dc_model dc) provider),
                      trace_rejected_candidate ''routing'' (lever_or_routing (rd_lever r)) c (rd_policy_id r)
                        (rd_source_recommendation_id r) (mark_ineligible (co_reason_code c) d1), w)
                 | None \<Rightarrow>
                     (case openai_route_arm_state env dc r d1 of (opt, d2) \<Rightarrow> (Some opt, d2, w)))))"

section \<open>Compression and trimming\<close>

definition arm_detail :: "arm \<Rightarrow> string \<Rightarrow> (string \<times> json) list" where
  "arm_detail arm model = [(''arm'', JStr (arm_value arm)), (''requested_model'', JStr model)]"

definition resolve_openai_compression_state :: "'s env \<Rightarrow> dialect_context \<Rightarrow> 's draft_state \<Rightarrow> 's resolution" where
  "resolve_openai_compression_state env dc = (\<lambda>(d, w).
     (let provider = ad_provider (dc_adapter dc); model = dc_model dc; body = dc_body dc;
          pass = openai_passthrough_state body model provider; stage = ''compression''; lever = lever_prompt_compression
      in case resolve_compression (e_settings env) (e_policies_ok env) (e_lever_configs env) (e_policies env)
                (e_canary_draw env) (pj_id (e_project env)) model (Some (draft_route_key d)) (w_compression_cache w) of
           (decision, cache) \<Rightarrow>
             (let w1 = w\<lparr>w_compression_cache := cache\<rparr>
              in case decision of
                   None \<Rightarrow> (Some pass, trace stage lever ''skipped'' ''compression_policy_missing'' False [] d, w1)
                 | Some c \<Rightarrow>
                     (let pol = cd_policy_id c; src = cd_source_recommendation_id c;
                          d1 = attach_policy_plan env dc (Compression_Policy pol) (set_policy lever pol src d)
                      in case rejected_candidate d1 ''prompt_compression'' of
                           Some cand \<Rightarrow> (Some pass, trace_rejected_candidate stage lever cand pol src d1, w1)
                         | None \<Rightarrow>
                             (let arm = assign_arm (e_arm_draw env) (cd_holdback_percent c)
                              in if arm \<noteq> Treatment then
                                   (Some (transform_state body model provider arm False False),
                                    add_runtime_trace stage lever ''control'' ''holdback_control'' False (Some pol) src
                                      (arm_detail arm model) d1, w1)
                                 else (case load_artifact (e_artifact env (cd_artifact_id c)) (cd_artifact_id c) (w_artifacts w1) of
                                   (None, arts) \<Rightarrow>
                                     (Some pass, trace stage lever ''error'' ''compression_artifact_unavailable'' False
                                        [(''fail_open'', JBool True)] d1, w1\<lparr>w_artifacts := arts\<rparr>)
                                 | (Some (original_hash, text), arts) \<Rightarrow>
                                     (let w2 = w1\<lparr>w_artifacts := arts\<rparr>
                                      in case apply_compression (e_sha env) body original_hash text of
                                           None \<Rightarrow> (None, d1, w2)
                                         | Some (body', applied) \<Rightarrow>
                                             (Some (transform_state body' model provider arm False applied),
                                              add_runtime_trace stage lever (if applied then ''applied'' else ''noop'')
                                                (if applied then ''compression_treatment_applied'' else ''compression_prompt_mismatch'')
                                                False (Some pol) src (arm_detail arm model)
                                                (d1\<lparr>dd_compression_applied := applied\<rparr>), w2))))))))"

definition resolve_openai_trim_state :: "'s env \<Rightarrow> dialect_context \<Rightarrow> 's draft_state \<Rightarrow> 's resolution" where
  "resolve_openai_trim_state env dc = (\<lambda>(d, w).
     (let provider = ad_provider (dc_adapter dc); model = dc_model dc; body = dc_body dc; stage = ''trim'';
          lever = lever_token_trim
      in case resolve_trim (e_settings env) (e_policies_ok env) (e_lever_configs env) (e_policies env)
                (e_canary_draw env) (pj_id (e_project env)) model (Some (draft_route_key d)) (w_trim_cache w) of
           (decision, cache) \<Rightarrow>
             (let w1 = w\<lparr>w_trim_cache := cache\<rparr>
              in case decision of
                   None \<Rightarrow>
                     resolve_openai_compression_state env dc
                       (trace stage lever ''skipped'' ''trim_policy_missing'' False [] d, w1)
                 | Some t \<Rightarrow>
                     (let pol = td_policy_id t; src = td_source_recommendation_id t;
                          d1 = attach_policy_plan env dc (Trim_Policy pol) (set_policy lever pol src d)
                      in case rejected_candidate d1 ''token_trim'' of
                           Some cand \<Rightarrow>
                             (Some (openai_passthrough_state body model provider),
                              trace_rejected_candidate stage lever cand pol src d1, w1)
                         | None \<Rightarrow>
                             (let arm = assign_arm (e_arm_draw env) (td_holdback_percent t)
                              in if arm \<noteq> Treatment then
                                   (Some (transform_state body model provider arm False False),
                                    add_runtime_trace stage lever ''control'' ''holdback_control'' False (Some pol) src
                                      (arm_detail arm model) d1, w1)
                                 else (case apply_trim body (td_params t) of
                                   None \<Rightarrow> (None, d1, w1)
                                 | Some (body', applied) \<Rightarrow>
                                     (Some (transform_state body' model provider arm applied False),
                                      add_runtime_trace stage lever (if applied then ''applied'' else ''noop'')
                                        (if applied then ''trim_treatment_applied'' else ''trim_no_changes'')
                                        False (Some pol) src (arm_detail arm model)
                                        (d1\<lparr>dd_trim_applied := applied\<rparr>), w1)))))))"

section \<open>The resolution\<close>

definition resolve_openai_optimizations :: "'s env \<Rightarrow> dialect_context \<Rightarrow> 's draft_state \<Rightarrow> 's resolution" where
  "resolve_openai_optimizations env dc = (\<lambda>(d, w).
     (let provider = ad_provider (dc_adapter dc); model = dc_model dc
      in if \<not> dc_optimize_enabled dc then (Some (openai_passthrough_state (dc_body dc) model provider), d, w)
         else (case resolve_route (e_settings env) (e_policies_ok env) (e_lever_configs env) (e_policies env)
                 (e_candidate_stats env) (e_canary_draw env) (e_bandit_draws env) (pj_id (e_project env)) model
                 (dc_body dc) provider (Some (draft_route_key d)) (w_routing_cache w) of
           (decision, cache) \<Rightarrow>
             (let w1 = w\<lparr>w_routing_cache := cache\<rparr>
              in if has_cross_provider_route decision model provider
                 then resolve_openai_route_state env dc (the decision) (d, w1)
                 else resolve_openai_trim_state env dc
                   (add_runtime_trace ''routing'' (lever_or_routing (case decision of None \<Rightarrow> [] | Some r \<Rightarrow> rd_lever r)) ''skipped''
                      ''routing_no_applicable_policy'' False (map_option rd_policy_id decision)
                      (case decision of None \<Rightarrow> None | Some r \<Rightarrow> rd_source_recommendation_id r) [] d, w1)))))"

text \<open>The seam of \<open>_openai_dialect_completions\<close>: an exception costs the optimization, not the request.\<close>

definition optimize_or_pass :: "'s env \<Rightarrow> dialect_context \<Rightarrow> 's draft_state \<Rightarrow> opt_state \<times> decision_draft \<times> 's world" where
  "optimize_or_pass env dc s =
     (case resolve_openai_optimizations env dc s of
        (Some opt, d, w) \<Rightarrow> (opt, d, w)
      | (None, d, w) \<Rightarrow>
          (openai_passthrough_state (dc_body dc) (dc_model dc) (ad_provider (dc_adapter dc)),
           trace ''optimization_resolution'' ''none'' ''error'' ''resolution_failed_fail_open'' False
             [(''fail_open'', JBool True)] d, w))"

text \<open>
  The adapter and key that serve the request; \<open>None\<close> when no adapter is registered for the candidate's
  provider, which raises.
\<close>

definition resolve_openai_candidate_provider ::
  "'s env \<Rightarrow> dialect_context \<Rightarrow> opt_state \<Rightarrow> decision_draft \<Rightarrow> (llm_adapter \<times> string \<times> opt_state \<times> decision_draft) option" where
  "resolve_openai_candidate_provider env dc opt d =
     (let adapter = dc_adapter dc
      in if os_upstream_provider opt = ad_provider adapter then Some (adapter, dc_client_key dc, opt, d)
         else (case adapter_for env (os_upstream_provider opt) of
           None \<Rightarrow> None
         | Some candidate \<Rightarrow>
             (case provider_key_for_project env (ad_provider candidate) of
                Some key \<Rightarrow> Some (candidate, key, opt, d)
              | None \<Rightarrow>
                  (let d1 = add_runtime_trace ''routing'' (case or_str (dd_lever d) None of None \<Rightarrow> ''model_routing'' | Some l \<Rightarrow> l)
                         ''fallback'' ''candidate_provider_key_missing'' True (dd_policy_id d) (dd_source_recommendation_id d)
                         [(''candidate_provider'', JStr (ad_provider candidate)),
                          (''candidate_model'', JStr (os_upstream_model opt))] d;
                       incumbent = (case or_str (os_routed_from opt) None of Some m \<Rightarrow> m | None \<Rightarrow> os_upstream_model opt)
                   in Some (adapter, dc_client_key dc,
                        openai_passthrough_state (os_body opt) incumbent (ad_provider adapter)
                          \<lparr>os_trim_applied := os_trim_applied opt\<rparr>, d1)))))"

definition routed_header :: "string \<Rightarrow> string \<Rightarrow> string \<Rightarrow> string \<Rightarrow> string" where
  "routed_header from_provider from_model to_provider to_model =
     (if from_provider = to_provider then from_model @ ''->'' @ to_model
      else from_provider @ '':'' @ from_model @ ''->'' @ to_provider @ '':'' @ to_model)"

definition openai_forward_headers :: "'s env \<Rightarrow> llm_adapter \<Rightarrow> dialect_context \<Rightarrow> opt_state \<Rightarrow> (string \<times> string) list" where
  "openai_forward_headers env adapter dc opt =
     [(''X-Varsten-Mode'', if dc_bypass dc then ''bypass'' else if dc_observe_only dc then ''observe'' else ''optimize''),
      (''X-Varsten-Cache'', if dc_bypass dc then ''bypass'' else if dc_observe_only dc then ''off'' else ''miss''),
      (''X-Varsten-Request-Id'', dc_request_id dc), (origin_header, ''provider'')] @
     entitlement_headers env (dc_entitlement dc) @
     (case or_str (os_routed_from opt) None of
        None \<Rightarrow> []
      | Some m \<Rightarrow> [(''X-Varsten-Routed'', routed_header
          (case or_str (os_routed_from_provider opt) None of Some p \<Rightarrow> p | None \<Rightarrow> ad_provider adapter) m
          (os_upstream_provider opt) (os_upstream_model opt))]) @
     (if os_trim_applied opt then [(''X-Varsten-Trim'', ''applied'')] else []) @
     (case or_str (os_arm opt) None of None \<Rightarrow> [] | Some a \<Rightarrow> [(''X-Varsten-Arm'', a)])"

section \<open>What a resolution may be\<close>

text \<open>
  The class the planner sees, and the specification of the resolution: each rule names one state that may
  be forwarded and what cleared it. A policy counts as live when the proxy looked it up for this model
  and its lever is enabled for the project.
\<close>

definition request_class :: "dialect_context \<Rightarrow> request_context \<Rightarrow> request_classification" where
  "request_class dc ctx = classify_request (dc_request_facts dc) ctx"

definition live_lever :: "'s env \<Rightarrow> string \<Rightarrow> bool" where
  "live_lever env lever \<longleftrightarrow> lever_enabled (e_lever_configs env) (pj_id (e_project env)) (Some lever)"

definition cleared_route :: "'s env \<Rightarrow> dialect_context \<Rightarrow> request_context \<Rightarrow> route_decision \<Rightarrow> bool" where
  "cleared_route env dc ctx r \<longleftrightarrow>
     dc_optimize_enabled dc \<and> routing_blockers (request_class dc ctx) = [] \<and>
     cross_provider_ineligibility (dc_parsed dc) (ad_provider (dc_adapter dc)) (rd_candidate_provider r) = Some None \<and>
     (\<exists>p. live_lever env (pp_lever p) \<and> predicate_allows p (dc_body dc) \<and> rd_policy_id r = pp_id p \<and>
        in_rollout (e_canary_draw env) (Some (pp_rollout_percent p)))"

definition cleared_transform :: "'s env \<Rightarrow> dialect_context \<Rightarrow> request_context \<Rightarrow> string \<Rightarrow> bool" where
  "cleared_transform env dc ctx lever \<longleftrightarrow>
     dc_optimize_enabled dc \<and> trim_blockers (request_class dc ctx) = [] \<and> live_lever env lever"

inductive admissible :: "'s env \<Rightarrow> dialect_context \<Rightarrow> request_context \<Rightarrow> opt_state \<Rightarrow> bool" for env dc ctx where
  Untouched: "admissible env dc ctx (openai_passthrough_state (dc_body dc) (dc_model dc) (ad_provider (dc_adapter dc)))"
| Held_Route: "cleared_route env dc ctx r \<Longrightarrow> assign_arm (e_arm_draw env) (rd_holdback_percent r) = Control \<Longrightarrow>
    admissible env dc ctx (transform_state (dc_body dc) (dc_model dc) (ad_provider (dc_adapter dc)) Control False False
      \<lparr>os_exp_to := Some (rd_candidate_model r)\<rparr>)"
| Routed: "cleared_route env dc ctx r \<Longrightarrow> assign_arm (e_arm_draw env) (rd_holdback_percent r) = Treatment \<Longrightarrow>
    admissible env dc ctx \<lparr>os_body = dc_body dc, os_upstream_model = rd_candidate_model r,
      os_upstream_provider = rd_candidate_provider r, os_routed_from = Some (dc_model dc),
      os_routed_from_provider = Some (ad_provider (dc_adapter dc)), os_arm = Some ''treatment'',
      os_exp_from = Some (dc_model dc), os_exp_to = Some (rd_candidate_model r), os_trim_applied = False,
      os_compression_applied = False\<rparr>"
| Held_Transform: "cleared_transform env dc ctx lever \<Longrightarrow>
    admissible env dc ctx (transform_state (dc_body dc) (dc_model dc) (ad_provider (dc_adapter dc)) Control False False)"
| Trimmed: "cleared_transform env dc ctx lever_token_trim \<Longrightarrow> assign_arm (e_arm_draw env) holdback = Treatment \<Longrightarrow>
    apply_trim (dc_body dc) params = Some (body', changed) \<Longrightarrow>
    admissible env dc ctx (transform_state body' (dc_model dc) (ad_provider (dc_adapter dc)) Treatment changed False)"
| Compressed: "cleared_transform env dc ctx lever_prompt_compression \<Longrightarrow> assign_arm (e_arm_draw env) holdback = Treatment \<Longrightarrow>
    apply_compression (e_sha env) (dc_body dc) original_hash text = Some (body', changed) \<Longrightarrow>
    admissible env dc ctx (transform_state body' (dc_model dc) (ad_provider (dc_adapter dc)) Treatment False changed)"

inductive_cases admissibleE: "admissible env dc ctx opt"

lemma with_outcome_prior_rejected: "co_status (with_outcome_prior priors c) = Rejected \<longleftrightarrow> co_status c = Rejected"
  by (auto simp: with_outcome_prior_def Let_def split: option.split)

lemma policy_candidate_rejected: "co_status (policy_candidate l bs rc sc pid c) = Rejected \<longleftrightarrow> bs \<noteq> []"
  by (simp add: policy_candidate_def)

lemma rejected_candidate_plan:
  assumes "dd_optimization_plan d = Some (build_optimization_plan inp)"
  shows "rejected_candidate d ''model_routing'' = None \<longleftrightarrow> co_status (model_routing_candidate inp (plan_classification inp)) \<noteq> Rejected"
    "rejected_candidate d ''token_trim'' = None \<longleftrightarrow> co_status (token_trim_candidate inp (plan_classification inp)) \<noteq> Rejected"
    "rejected_candidate d ''prompt_compression'' = None \<longleftrightarrow> co_status (prompt_compression_candidate inp (plan_classification inp)) \<noteq> Rejected"
  by (simp_all add: assms rejected_candidate_def build_optimization_plan_def Let_def with_outcome_prior_rejected)

lemma rejected_in_plan:
  assumes "dd_optimization_plan d = Some (build_optimization_plan inp)" "pi_optimize_enabled inp"
  shows "pi_routing_policy_present inp \<Longrightarrow> rejected_candidate d ''model_routing'' = None \<longleftrightarrow> routing_blockers (plan_classification inp) = []"
    "pi_trim_policy_present inp \<Longrightarrow> rejected_candidate d ''token_trim'' = None \<longleftrightarrow> trim_blockers (plan_classification inp) = []"
    "pi_compression_policy_present inp \<Longrightarrow> rejected_candidate d ''prompt_compression'' = None \<longleftrightarrow> trim_blockers (plan_classification inp) = []"
  using assms(2)
  by (simp_all add: rejected_candidate_plan [OF assms(1)] model_routing_candidate_def token_trim_candidate_def
      prompt_compression_candidate_def policy_candidate_rejected)

lemma attach_policy_plan_plan:
  "dd_optimization_plan (attach_policy_plan env dc pol d) =
     Some (build_optimization_plan (planner_input_of env (dc_body dc) (dc_request_facts dc) (ad_provider (dc_adapter dc))
       (dc_model dc) (dc_optimize_enabled dc) (proxy_cache_enabled (e_settings env)) (semantic_enabled env) pol d))"
  by (simp add: attach_policy_plan_def attach_observe_plan_def)

lemma planner_input_simps [simp]:
  "plan_classification (planner_input_of env body facts provider model opt ex sem pol d) = classify_request facts (dd_ctx d)"
  "pi_optimize_enabled (planner_input_of env body facts provider model opt ex sem pol d) = opt"
  "pi_routing_policy_present (planner_input_of env body facts provider model opt ex sem (Routing_Policy u) d)"
  "pi_trim_policy_present (planner_input_of env body facts provider model opt ex sem (Trim_Policy u) d)"
  "pi_compression_policy_present (planner_input_of env body facts provider model opt ex sem (Compression_Policy u) d)"
  by (simp_all add: planner_input_of_def plan_classification_def)

lemma attach_policy_plan_ctx [simp]: "dd_ctx (attach_policy_plan env dc pol d) = dd_ctx d"
  by (simp add: attach_policy_plan_def attach_observe_plan_def)

lemma set_policy_ctx [simp]: "dd_ctx (set_policy lever pol src d) = dd_ctx d"
  by (simp add: set_policy_def)

lemma tag_route_policy_ctx [simp]: "dd_ctx (tag_route_policy r d) = dd_ctx d"
  by (simp add: tag_route_policy_def Let_def split: option.split prod.split)

lemma trace_ctx [simp]: "dd_ctx (trace stage lever act reason enforced detail d) = dd_ctx d"
  by (simp add: trace_def)

lemmas rejected_attached = rejected_in_plan [OF attach_policy_plan_plan]

lemma rejected_iff:
  assumes "dc_optimize_enabled dc"
  shows "rejected_candidate (attach_policy_plan env dc (Routing_Policy u) d) ''model_routing'' = None \<longleftrightarrow>
      routing_blockers (request_class dc (dd_ctx d)) = []"
    "rejected_candidate (attach_policy_plan env dc (Trim_Policy u) d) ''token_trim'' = None \<longleftrightarrow>
      trim_blockers (request_class dc (dd_ctx d)) = []"
    "rejected_candidate (attach_policy_plan env dc (Compression_Policy u) d) ''prompt_compression'' = None \<longleftrightarrow>
      trim_blockers (request_class dc (dd_ctx d)) = []"
  using assms by (simp_all add: rejected_attached request_class_def)

lemma resolve_trim_live:
  "resolve_trim st ok configs ps cd project model rk cache = (Some t, cache') \<Longrightarrow>
     lever_enabled configs project (Some lever_token_trim)"
  by (auto simp only: resolve_trim_def prod.inject split: if_splits option.splits prod.splits)

lemma resolve_compression_live:
  "resolve_compression st ok configs ps cd project model rk cache = (Some t, cache') \<Longrightarrow>
     lever_enabled configs project (Some lever_prompt_compression)"
  by (auto simp only: resolve_compression_def prod.inject split: if_splits option.splits prod.splits)

lemma compression_admissible:
  assumes res: "resolve_openai_compression_state env dc (d, w) = (Some opt, d', w')"
    and on: "dc_optimize_enabled dc"
  shows "admissible env dc (dd_ctx d) opt"
proof -
  let ?arm = "\<lambda>c. assign_arm (e_arm_draw env) (cd_holdback_percent c)"
  let ?d1 = "\<lambda>c. attach_policy_plan env dc (Compression_Policy (cd_policy_id c))
    (set_policy lever_prompt_compression (cd_policy_id c) (cd_source_recommendation_id c) d)"
  obtain decision cache where dec: "resolve_compression (e_settings env) (e_policies_ok env) (e_lever_configs env) (e_policies env)
      (e_canary_draw env) (pj_id (e_project env)) (dc_model dc) (Some (draft_route_key d)) (w_compression_cache w) = (decision, cache)"
    by fastforce
  show ?thesis
  proof (cases decision)
    case None
    with res dec show ?thesis by (auto simp: resolve_openai_compression_state_def Let_def admissible.Untouched)
  next
    case (Some c)
    note step = res [unfolded resolve_openai_compression_state_def Let_def prod.case dec Some option.case]
    show ?thesis
    proof (cases "rejected_candidate (?d1 c) ''prompt_compression''")
      case (Some cand)
      with step show ?thesis by (auto simp: admissible.Untouched)
    next
      case None
      then have clear: "cleared_transform env dc (dd_ctx d) lever_prompt_compression"
        using resolve_compression_live dec \<open>decision = Some c\<close>
        by (simp add: rejected_iff on cleared_transform_def live_lever_def)
      show ?thesis
      proof (cases "?arm c")
        case Control
        with step None show ?thesis by (auto intro: admissible.Held_Transform [OF clear])
      next
        case Treatment
        with step None show ?thesis
          by (auto simp: admissible.Untouched intro: admissible.Compressed [OF clear Treatment]
              split: prod.splits option.splits)
      qed
    qed
  qed
qed

lemma trim_admissible:
  assumes res: "resolve_openai_trim_state env dc (d, w) = (Some opt, d', w')"
    and on: "dc_optimize_enabled dc"
  shows "admissible env dc (dd_ctx d) opt"
proof -
  let ?d1 = "\<lambda>t. attach_policy_plan env dc (Trim_Policy (td_policy_id t))
    (set_policy lever_token_trim (td_policy_id t) (td_source_recommendation_id t) d)"
  obtain decision cache where dec: "resolve_trim (e_settings env) (e_policies_ok env) (e_lever_configs env) (e_policies env)
      (e_canary_draw env) (pj_id (e_project env)) (dc_model dc) (Some (draft_route_key d)) (w_trim_cache w) = (decision, cache)"
    by fastforce
  show ?thesis
  proof (cases decision)
    case None
    with res dec have "resolve_openai_compression_state env dc
        (trace ''trim'' lever_token_trim ''skipped'' ''trim_policy_missing'' False [] d, w\<lparr>w_trim_cache := cache\<rparr>) = (Some opt, d', w')"
      by (simp add: resolve_openai_trim_state_def Let_def)
    from compression_admissible [OF this on] show ?thesis by simp
  next
    case (Some t)
    note step = res [unfolded resolve_openai_trim_state_def Let_def prod.case dec Some option.case]
    show ?thesis
    proof (cases "rejected_candidate (?d1 t) ''token_trim''")
      case (Some cand)
      with step show ?thesis by (auto simp: admissible.Untouched)
    next
      case None
      then have clear: "cleared_transform env dc (dd_ctx d) lever_token_trim"
        using resolve_trim_live dec \<open>decision = Some t\<close>
        by (simp add: rejected_iff on cleared_transform_def live_lever_def)
      show ?thesis
      proof (cases "assign_arm (e_arm_draw env) (td_holdback_percent t)")
        case Control
        with step None show ?thesis by (auto intro: admissible.Held_Transform [OF clear])
      next
        case Treatment
        with step None show ?thesis
          by (auto intro: admissible.Trimmed [OF clear Treatment] split: prod.splits option.splits)
      qed
    qed
  qed
qed

lemma route_admissible:
  assumes res: "resolve_openai_route_state env dc r (d, w) = (Some opt, d', w')"
    and on: "dc_optimize_enabled dc"
    and src: "resolve_route st ok (e_lever_configs env) ps stats (e_canary_draw env) draws (pj_id (e_project env)) model (dc_body dc) prov rk cache
      = (Some r, cache')"
  shows "admissible env dc (dd_ctx d) opt"
proof -
  let ?elig = "cross_provider_ineligibility (dc_parsed dc) (ad_provider (dc_adapter dc)) (rd_candidate_provider r)"
  let ?d1 = "attach_policy_plan env dc (Routing_Policy (rd_policy_id r)) (tag_route_policy r (d\<lparr>dd_route_eligible := Some True\<rparr>))"
  note step = res [unfolded resolve_openai_route_state_def Let_def prod.case]
  consider (raised) "?elig = None" | (ineligible) i where "?elig = Some (Some i)" | (eligible) "?elig = Some None"
    by (cases ?elig) auto
  then show ?thesis
  proof cases
    case raised
    with step show ?thesis by simp
  next
    case ineligible
    with step show ?thesis
      by (auto simp: openai_route_ineligible_state_def Let_def admissible.Untouched split: option.splits)
  next
    case eligible
    show ?thesis
    proof (cases "rejected_candidate ?d1 ''model_routing''")
      case (Some c)
      with step eligible show ?thesis by (auto simp: admissible.Untouched)
    next
      case None
      obtain p where "rd_policy_id r = pp_id p" "live_lever env (pp_lever p)" "predicate_allows p (dc_body dc)"
          "in_rollout (e_canary_draw env) (Some (pp_rollout_percent p))"
        using resolve_route_source [OF src] unfolding live_lever_def by metis
      with None eligible have clear: "cleared_route env dc (dd_ctx d) r"
        by (auto simp: rejected_iff on cleared_route_def)
      from step eligible None have "opt = fst (openai_route_arm_state env dc r ?d1)"
        by (simp add: split_beta)
      then show ?thesis
        by (cases "assign_arm (e_arm_draw env) (rd_holdback_percent r)")
           (use admissible.Held_Route [OF clear] admissible.Routed [OF clear]
            in \<open>auto simp: openai_route_arm_state_def Let_def transform_state_def\<close>)
    qed
  qed
qed

lemma optimize_admissible: "admissible env dc (dd_ctx d) (fst (optimize_or_pass env dc (d, w)))"
proof (cases "resolve_openai_optimizations env dc (d, w)")
  case (fields r d' w')
  show ?thesis
  proof (cases r)
    case None
    with fields show ?thesis by (simp add: optimize_or_pass_def admissible.Untouched)
  next
    case (Some opt)
    then have res: "resolve_openai_optimizations env dc (d, w) = (Some opt, d', w')" using fields by simp
    have "admissible env dc (dd_ctx d) opt"
    proof (cases "dc_optimize_enabled dc")
      case False
      with res show ?thesis by (auto simp: resolve_openai_optimizations_def Let_def admissible.Untouched)
    next
      case True
      obtain decision cache where dec: "resolve_route (e_settings env) (e_policies_ok env) (e_lever_configs env) (e_policies env)
          (e_candidate_stats env) (e_canary_draw env) (e_bandit_draws env) (pj_id (e_project env)) (dc_model dc)
          (dc_body dc) (ad_provider (dc_adapter dc)) (Some (draft_route_key d)) (w_routing_cache w) = (decision, cache)"
        by fastforce
      show ?thesis
      proof (cases "has_cross_provider_route decision (dc_model dc) (ad_provider (dc_adapter dc))")
        case True
        then obtain r where r: "decision = Some r" by (auto simp: has_cross_provider_route_def split: option.splits)
        with True res dec \<open>dc_optimize_enabled dc\<close> have
          "resolve_openai_route_state env dc r (d, w\<lparr>w_routing_cache := cache\<rparr>) = (Some opt, d', w')"
          by (simp add: resolve_openai_optimizations_def Let_def)
        from route_admissible [OF this \<open>dc_optimize_enabled dc\<close> dec [unfolded r]] show ?thesis .
      next
        case False
        define t where "t = add_runtime_trace ''routing'' (lever_or_routing (case decision of None \<Rightarrow> [] | Some r \<Rightarrow> rd_lever r))
          ''skipped'' ''routing_no_applicable_policy'' False (map_option rd_policy_id decision)
          (case decision of None \<Rightarrow> None | Some r \<Rightarrow> rd_source_recommendation_id r) [] d"
        from False res dec True have
          "resolve_openai_trim_state env dc (t, w\<lparr>w_routing_cache := cache\<rparr>) = (Some opt, d', w')"
          by (simp add: resolve_openai_optimizations_def Let_def t_def)
        from trim_admissible [OF this True] show ?thesis by (simp add: t_def)
      qed
    qed
    with res show ?thesis by (simp add: optimize_or_pass_def)
  qed
qed


lemma apply_trim_unchanged: "apply_trim body params = Some (body', False) \<Longrightarrow> body' = body"
  by (auto simp: apply_trim_def Let_def split: json.splits option.splits if_splits prod.splits)

lemma apply_compression_unchanged: "apply_compression sha body h text = Some (body', False) \<Longrightarrow> body' = body"
  by (auto simp: apply_compression_def Let_def split: json.splits option.splits if_splits prod.splits)

lemmas opt_state_defs = openai_passthrough_state_def transform_state_def

lemma admissible_one_change:
  assumes "admissible env dc ctx opt"
  shows "(os_body opt = dc_body dc \<and> \<not> os_trim_applied opt \<and> \<not> os_compression_applied opt) \<or>
      (os_upstream_model opt = dc_model dc \<and> os_upstream_provider opt = ad_provider (dc_adapter dc) \<and>
       os_trim_applied opt \<noteq> os_compression_applied opt)"
    and "os_routed_from opt = None \<longrightarrow>
      os_upstream_model opt = dc_model dc \<and> os_upstream_provider opt = ad_provider (dc_adapter dc)"
    and "os_arm opt \<noteq> Some ''treatment'' \<longrightarrow> os_body opt = dc_body dc \<and> os_routed_from opt = None"
  using assms
  by (cases; auto simp: opt_state_defs dest: apply_trim_unchanged apply_compression_unchanged)+

lemma routing_clear:
  "routing_blockers c = [] \<longleftrightarrow> \<not> risky_or_unknown c \<and> \<not> rq_personalized c \<and> \<not> rq_has_multimodal c"
  by (simp add: routing_blockers_def blocker_def)

lemma trim_clear:
  "trim_blockers c = [] \<longleftrightarrow> \<not> risky_or_unknown c \<and> \<not> rq_has_tools c \<and> \<not> rq_wants_json c \<and> \<not> rq_has_multimodal c"
  by (simp add: trim_blockers_def blocker_def)

lemma admissible_treatment:
  assumes "admissible env dc ctx opt" "os_arm opt = Some ''treatment''"
  shows "dc_optimize_enabled dc \<and> \<not> risky_or_unknown (request_class dc ctx) \<and> \<not> rq_has_multimodal (request_class dc ctx) \<and>
    (if os_routed_from opt = None then \<not> rq_has_tools (request_class dc ctx) \<and> \<not> rq_wants_json (request_class dc ctx)
     else \<not> rq_personalized (request_class dc ctx))"
  using assms
  by (cases) (auto simp: opt_state_defs cleared_route_def cleared_transform_def routing_clear trim_clear)

lemmas sample_defs = sample_request_env_def sample_world_def sample_dialect_def sample_draft_def sample_route_policy_def

lemma sample_class: "\<not> risky_or_unknown (request_class sample_dialect sample_context)"
  "\<not> rq_personalized (request_class sample_dialect sample_context)"
  "\<not> rq_has_multimodal (request_class sample_dialect sample_context)"
  by code_simp+

lemma sample_draft_ctx [simp]: "dd_ctx sample_draft = sample_context"
  by (simp add: sample_draft_def new_draft_def)

lemma sample_routed:
  "fst (optimize_or_pass (sample_request_env [sample_route_policy ''azure'']) sample_dialect (sample_draft, sample_world)) =
     \<lparr>os_body = [(''model'', JStr ''gpt-4o'')], os_upstream_model = ''small'', os_upstream_provider = ''azure'',
      os_routed_from = Some ''gpt-4o'', os_routed_from_provider = Some ''openai'', os_arm = Some ''treatment'',
      os_exp_from = Some ''gpt-4o'', os_exp_to = Some ''small'', os_trim_applied = False, os_compression_applied = False\<rparr>"
  by code_simp

section \<open>Properties\<close>


text \<open>
  At most one thing is changed. Either the body is the client's and neither transform is reported, or
  model and provider are the client's and exactly one transform is reported; a request that is not
  reported as routed goes to the model and provider the client named, and outside the treatment arm
  nothing is changed at all.
\<close>

theorem at_most_one_change:
  assumes "optimize_or_pass env dc (d, w) = (opt, d', w')"
  shows "((os_body opt = dc_body dc \<and> \<not> os_trim_applied opt \<and> \<not> os_compression_applied opt) \<or>
      (os_upstream_model opt = dc_model dc \<and> os_upstream_provider opt = ad_provider (dc_adapter dc) \<and>
       os_trim_applied opt \<noteq> os_compression_applied opt)) \<and>
    (os_routed_from opt = None \<longrightarrow>
       os_upstream_model opt = dc_model dc \<and> os_upstream_provider opt = ad_provider (dc_adapter dc)) \<and>
    (os_arm opt \<noteq> Some ''treatment'' \<longrightarrow> os_body opt = dc_body dc \<and> os_routed_from opt = None)"
proof -
  have "admissible env dc (dd_ctx d) opt" using optimize_admissible [of env dc d w] assms by simp
  from admissible_one_change [OF this] show ?thesis by blast
qed

theorem at_most_one_change_witness:
  "\<exists>opt d' w'. optimize_or_pass (sample_request_env [sample_route_policy ''azure'']) sample_dialect (sample_draft, sample_world) =
       (opt, d', w') \<and> os_routed_from opt = Some ''gpt-4o'' \<and> os_body opt = [(''model'', JStr ''gpt-4o'')] \<and> \<not> os_trim_applied opt"
proof -
  obtain opt d' w' where r: "optimize_or_pass (sample_request_env [sample_route_policy ''azure'']) sample_dialect
      (sample_draft, sample_world) = (opt, d', w')" by (metis prod_cases3)
  then have opt: "os_routed_from opt = Some ''gpt-4o''" "os_upstream_model opt = ''small''" using sample_routed by auto
  moreover have "dc_model sample_dialect = ''gpt-4o''" "dc_body sample_dialect = [(''model'', JStr ''gpt-4o'')]"
    by (simp_all add: sample_dialect_def)
  ultimately show ?thesis using at_most_one_change [OF r] r by auto
qed

text \<open>
  Nobody is experimented on without clearance: a request in the treatment arm is one for which
  optimization is on, and its class is neither risky nor unknown nor multimodal; a rerouted one is also not
  personalized, and one with a transformed prompt has no tools and asks for no JSON.
\<close>

theorem treatment_requires_clearance:
  assumes "optimize_or_pass env dc (d, w) = (opt, d', w')" "os_arm opt = Some ''treatment''"
  shows "dc_optimize_enabled dc \<and> \<not> risky_or_unknown (request_class dc (dd_ctx d)) \<and>
    \<not> rq_has_multimodal (request_class dc (dd_ctx d)) \<and>
    (if os_routed_from opt = None
     then \<not> rq_has_tools (request_class dc (dd_ctx d)) \<and> \<not> rq_wants_json (request_class dc (dd_ctx d))
     else \<not> rq_personalized (request_class dc (dd_ctx d)))"
proof -
  have "admissible env dc (dd_ctx d) opt" using optimize_admissible [of env dc d w] assms by simp
  from admissible_treatment [OF this assms(2)] show ?thesis .
qed

theorem treatment_requires_clearance_witness:
  "\<exists>opt d' w'. optimize_or_pass (sample_request_env [sample_route_policy ''azure'']) sample_dialect (sample_draft, sample_world) =
       (opt, d', w') \<and> os_arm opt = Some ''treatment'' \<and> \<not> risky_or_unknown (request_class sample_dialect sample_context)"
proof -
  obtain opt d' w' where r: "optimize_or_pass (sample_request_env [sample_route_policy ''azure'']) sample_dialect
      (sample_draft, sample_world) = (opt, d', w')" by (metis prod_cases3)
  then have "os_arm opt = Some ''treatment''" using sample_routed by auto
  with treatment_requires_clearance [OF r] r show ?thesis by auto
qed

text \<open>
  The provider of a routed request is not guarded. Resolving the adapter raises iff the provider is
  neither the client's nor one of the three registered ones, and this step is outside the seam that
  degrades failures: a live routing policy naming such a provider makes the proxy fail requests that
  would have succeeded untouched.
\<close>

theorem unregistered_candidate_raises:
  "(resolve_openai_candidate_provider env dc opt d = None \<longleftrightarrow>
     os_upstream_provider opt \<noteq> ad_provider (dc_adapter dc) \<and>
     os_upstream_provider opt \<notin> {''openai'', ''anthropic'', ''gemini''}) \<and>
   resolve_openai_candidate_provider (sample_request_env [sample_route_policy ''azure'']) sample_dialect
     (fst (optimize_or_pass (sample_request_env [sample_route_policy ''azure'']) sample_dialect (sample_draft, sample_world)))
     d = None"
  by (simp add: sample_routed)
     (auto simp: resolve_openai_candidate_provider_def adapter_for_def get_adapter_def sample_dialect_def openai_adapter_def
       Let_def split: option.splits)

end
