(* ===== verification/Forward.thy ===== *)
theory Forward
  imports Pipeline
begin

text \<open>
  \<open>proxy/router.py\<close>, from the resolved optimization to the reply: the idempotency key, the upstream call
  with its breaker accounting, the fallback model, and the bookkeeping that runs after the response
  (\<open>_capture\<close>, \<open>_meter_cache_hit\<close>). A response comes with the jobs it has scheduled; \<open>run_job\<close> is one of
  them, whether it runs as a background task or on the detached queue. The streaming branch
  ends with the arguments of \<open>_stream_through\<close>, which the theory \<open>Streams\<close> models.
\<close>

section \<open>Jobs\<close>

record capture_job =
  cj_provider :: string
  cj_model :: json
  cj_cache_model :: string
  cj_response_payload :: "(string \<times> json) list"
  cj_cache_key :: string
  cj_in_tok :: int
  cj_out_tok :: int
  cj_cached_tok :: int
  cj_store_cache :: bool
  cj_embedding :: "rat list option"
  cj_body :: "(string \<times> json) list"
  cj_routed_from :: "string option"
  cj_routed_from_provider :: "string option"
  cj_arm :: "string option"
  cj_exp_from :: "string option"
  cj_exp_to :: "string option"
  cj_latency_ms :: "int option"
  cj_draft :: decision_draft
  cj_fallback_used :: bool
  cj_fallback_reason :: "string option"

datatype job = Meter_Hit cache_entry string decision_draft | Capture capture_job

definition meter_row :: "'s env \<Rightarrow> proxy_call \<Rightarrow> 's world \<Rightarrow> usage_event \<times> 's world" where
  "meter_row env c w =
     (case record_proxy_usage (e_price_tables env) (e_now env) (e_received_at env) (pj_organization_id (e_project env))
             (pj_id (e_project env)) c (w_prices w, w_ledger w) of
        (event, prices, ledger) \<Rightarrow> (event, w\<lparr>w_prices := prices, w_ledger := ledger\<rparr>))"

definition decide :: "'s env \<Rightarrow> decision_draft \<Rightarrow> usage_event \<Rightarrow> outcome_facts \<Rightarrow> 's world \<Rightarrow> 's world" where
  "decide env d event facts w =
     w\<lparr>w_decisions := record_request_decision (e_audit_ok env) (e_now env) d event facts (w_decisions w)\<rparr>"

text \<open>The call of a cache hit names no provider: the ledger's default applies.\<close>

definition default_call :: "string \<Rightarrow> int \<Rightarrow> int \<Rightarrow> proxy_call" where
  "default_call model input_tokens output_tokens =
     \<lparr>pc_model = model, pc_provider = ''openai'', pc_input_tokens = input_tokens, pc_output_tokens = output_tokens,
      pc_cached_input_tokens = 0, pc_cache_hit = False, pc_naive_model = None, pc_naive_provider = None, pc_arm = None,
      pc_experiment_from = None, pc_experiment_to = None, pc_quality_ok = None, pc_latency_ms = None, pc_context = None\<rparr>"

definition hit_call :: "'s env \<Rightarrow> cache_entry \<Rightarrow> decision_draft \<Rightarrow> proxy_call" where
  "hit_call env entry d =
     (default_call (ce_model entry) (ce_input_tokens entry) (ce_output_tokens entry))
       \<lparr>pc_cache_hit := True, pc_latency_ms := Some (e_latency_ms env), pc_context := Some (dd_ctx d)\<rparr>"

definition hit_facts :: "'s env \<Rightarrow> cache_entry \<Rightarrow> string \<Rightarrow> decision_draft \<Rightarrow> outcome_facts" where
  "hit_facts env entry label d =
     \<lparr>of_provider_chosen = dd_provider_requested d, of_model_chosen = ce_model entry, of_cache_status = Some label,
      of_arm = None, of_routed_from = None, of_routed_from_provider = None, of_trim_applied = False,
      of_latency_ms = Some (e_latency_ms env), of_quality_ok = None, of_fallback_used = False, of_fallback_reason = None\<rparr>"

definition meter_cache_hit :: "'s env \<Rightarrow> cache_entry \<Rightarrow> string \<Rightarrow> decision_draft \<Rightarrow> 's world \<Rightarrow> 's world" where
  "meter_cache_hit env entry label d w =
     (if \<not> e_cache_ok env then w
      else (let w1 = w\<lparr>w_entries := record_hit (e_now env) (ce_id entry) (w_entries w)\<rparr>
            in if \<not> e_capture_ok env then w1
               else (case meter_row env (hit_call env entry d) w1 of
                  (event, w2) \<Rightarrow> decide env d event (hit_facts env entry label d) w2)))"

section \<open>Capture\<close>

definition trace_cache_store_decision :: "settings \<Rightarrow> bool \<Rightarrow> (string \<times> json) list \<Rightarrow> rat list option \<Rightarrow> decision_draft \<Rightarrow> decision_draft" where
  "trace_cache_store_decision cfg store payload embedding d =
     (let stage = ''cache_store_decision''; lever = ''exact_cache''
      in if \<not> proxy_cache_enabled cfg then trace stage lever ''skipped'' ''cache_disabled'' True [] d
         else if \<not> store then trace stage lever ''skipped'' ''cache_store_not_allowed'' True [] d
         else if payload = [] then trace stage lever ''skipped'' ''empty_response_payload'' True [] d
         else trace stage lever ''allowed'' ''cache_store_allowed'' False
                [(''embedding_present'', JBool (embedding \<noteq> None))] d)"

definition capture_call :: "'s env \<Rightarrow> capture_job \<Rightarrow> string \<Rightarrow> bool option \<Rightarrow> proxy_call" where
  "capture_call env j model quality =
     \<lparr>pc_model = model, pc_provider = cj_provider j, pc_input_tokens = cj_in_tok j, pc_output_tokens = cj_out_tok j,
      pc_cached_input_tokens = cj_cached_tok j, pc_cache_hit = False, pc_naive_model = cj_routed_from j,
      pc_naive_provider = cj_routed_from_provider j, pc_arm = cj_arm j, pc_experiment_from = cj_exp_from j,
      pc_experiment_to = cj_exp_to j, pc_quality_ok = quality, pc_latency_ms = cj_latency_ms j,
      pc_context = Some (dd_ctx (cj_draft j))\<rparr>"

definition capture_facts :: "'s env \<Rightarrow> capture_job \<Rightarrow> string \<Rightarrow> bool option \<Rightarrow> outcome_facts" where
  "capture_facts env j model quality =
     \<lparr>of_provider_chosen = cj_provider j, of_model_chosen = model, of_cache_status = Some ''miss'', of_arm = cj_arm j,
      of_routed_from = cj_routed_from j, of_routed_from_provider = cj_routed_from_provider j,
      of_trim_applied = dd_trim_applied (cj_draft j), of_latency_ms = cj_latency_ms j, of_quality_ok = quality,
      of_fallback_used = cj_fallback_used j, of_fallback_reason = cj_fallback_reason j\<rparr>"

definition store_response :: "'s env \<Rightarrow> capture_job \<Rightarrow> 's world \<Rightarrow> 's world" where
  "store_response env j w =
     (if cj_store_cache j \<and> proxy_cache_enabled (e_settings env) \<and> cj_response_payload j \<noteq> [] \<and> e_cache_ok env
      then (case cache_store (e_settings env) (e_now env) (e_new_id env) (pj_id (e_project env)) (cj_cache_key j)
                   (cj_cache_model j) (cj_response_payload j) (cj_in_tok j) (cj_out_tok j) (cj_embedding j)
                   (w_entries w, w_snapshots w) of
              None \<Rightarrow> w
            | Some (_, rows, snapshots) \<Rightarrow> w\<lparr>w_entries := rows, w_snapshots := snapshots\<rparr>)
      else w)"

definition sample_response :: "'s env \<Rightarrow> capture_job \<Rightarrow> 's world \<Rightarrow> 's world" where
  "sample_response env j w =
     (if cj_store_cache j \<and> cj_response_payload j \<noteq> []
      then w\<lparr>w_samples := capture_sample (e_settings env) (e_sample_draw env) (e_sample_ok env) (e_evict_ok env) (e_now env)
               (e_received_at env) (e_new_id env) (pj_organization_id (e_project env)) (pj_id (e_project env))
               (pj_eval_capture_enabled (e_project env)) (cj_body j) (cj_response_payload j) (cj_cache_model j)
               (cj_in_tok j) (cj_out_tok j) (w_samples w)\<rparr>
      else w)"

text \<open>
  The ledger write fails when the model is not a string. The health check of an arm's response stands
  outside every guard: when it raises, the job ends with nothing written.
\<close>

definition arm_quality :: "'s env \<Rightarrow> capture_job \<Rightarrow> bool option option" where
  "arm_quality env j =
     (if str_truthy (cj_arm j)
      then map_option Some (response_quality_ok (e_loads env) (cj_response_payload j) (quality_wants_json (cj_body j)))
      else Some None)"

definition record_capture :: "'s env \<Rightarrow> capture_job \<Rightarrow> string \<Rightarrow> bool option \<Rightarrow> 's world \<Rightarrow> 's world" where
  "record_capture env j model quality w =
     (case meter_row env (capture_call env j model quality) w of
        (event, w1) \<Rightarrow>
          (let d = trace_cache_store_decision (e_settings env) (cj_store_cache j) (cj_response_payload j) (cj_embedding j) (cj_draft j)
           in store_response env j (decide env d event (capture_facts env j model quality) w1)))"

definition capture :: "'s env \<Rightarrow> capture_job \<Rightarrow> 's world \<Rightarrow> 's world" where
  "capture env j w =
     (case arm_quality env j of
        None \<Rightarrow> w
      | Some quality \<Rightarrow>
          sample_response env j
            (case cj_model j of
               JStr model \<Rightarrow> if e_capture_ok env then record_capture env j model quality w else w
             | _ \<Rightarrow> w))"

text \<open>A detached job reads the entry again, and does nothing when it is gone.\<close>

fun run_job :: "'s env \<Rightarrow> job \<Rightarrow> 's world \<Rightarrow> 's world" where
  "run_job env (Capture j) w = capture env j w"
| "run_job env (Meter_Hit entry label d) w =
     (if proxy_capture_detached (e_settings env)
      then (case find (\<lambda>e. ce_id e = ce_id entry) (w_entries w) of
              None \<Rightarrow> w | Some e \<Rightarrow> meter_cache_hit env e label d w)
      else meter_cache_hit env entry label d w)"

section \<open>Upstream calls\<close>

definition with_idempotency :: "string option \<Rightarrow> string option" where
  "with_idempotency idempotency_key = or_str idempotency_key None"

definition upstream_call :: "'s env \<Rightarrow> upstream_request \<Rightarrow> retry_result" where
  "upstream_call env req =
     fst (post_with_retry (e_settings env) (e_jitter env req) (e_post env req) (e_clock env) (e_upstream_clock env req))"

definition upstream_request_of ::
  "llm_adapter \<Rightarrow> string \<Rightarrow> (string \<times> json) list \<Rightarrow> string \<Rightarrow> string option \<Rightarrow> upstream_request option" where
  "upstream_request_of adapter client_key body model idempotency_key =
     map_option (\<lambda>wire. \<lparr>ur_provider = ad_provider adapter, ur_model = model, ur_key = client_key,
         ur_idempotency_key = with_idempotency idempotency_key, ur_body = wire\<rparr>)
       (ad_prepare_request adapter body model False)"

definition breaker_of :: "'s env \<Rightarrow> 's world \<Rightarrow> breaker" where
  "breaker_of env w = fst (get_breaker (pj_id (e_project env)) (w_breakers w))"

definition put_breaker :: "'s env \<Rightarrow> breaker \<times> 's \<Rightarrow> 's world \<Rightarrow> 's world" where
  "put_breaker env bs w =
     w\<lparr>w_breakers := (snd (get_breaker (pj_id (e_project env)) (w_breakers w)))(pj_id (e_project env) \<mapsto> fst bs), w_store := snd bs\<rparr>"

definition breaker_allow :: "'s env \<Rightarrow> 's world \<Rightarrow> bool \<times> 's world" where
  "breaker_allow env w =
     (case circuit_allow (e_settings env) (e_store env) (e_clock env) (breaker_of env w) (w_store w) of
        (ok, bs) \<Rightarrow> (ok, put_breaker env bs w))"

definition breaker_success :: "'s env \<Rightarrow> 's world \<Rightarrow> 's world" where
  "breaker_success env w = put_breaker env (record_success (e_store env) (breaker_of env w) (w_store w)) w"

definition breaker_failure :: "'s env \<Rightarrow> 's world \<Rightarrow> 's world" where
  "breaker_failure env w =
     put_breaker env (record_failure (e_settings env) (e_store env) (e_clock env) (breaker_of env w) (w_store w)) w"

section \<open>Forwarding\<close>

text \<open>What an endpoint replies with.\<close>

record stream_args =
  sg_headers :: "(string \<times> string) list"
  sg_provider :: string
  sg_client_key :: string
  sg_model :: string
  sg_cache_key :: string
  sg_opt :: opt_state
  sg_embedding :: "rat list option"
  sg_store_cache :: bool
  sg_idempotency_key :: "string option"
  sg_draft :: decision_draft

datatype endpoint_reply = Failed failure | Replied reply | Streaming stream_args

type_synonym 's endpoint = "endpoint_reply \<times> job list \<times> 's world"

definition json_reply :: "int \<Rightarrow> (string \<times> string) list \<Rightarrow> json \<Rightarrow> endpoint_reply" where
  "json_reply status headers body = Replied (Json_Reply \<lparr>cl_status = status, cl_headers = headers, cl_body = body\<rparr>)"

definition relay :: "(string \<times> string) list \<Rightarrow> response \<Rightarrow> endpoint_reply" where
  "relay headers r =
     json_reply (status_code r) headers
       (case response_json r of Some j \<Rightarrow> j | None \<Rightarrow> JObj [(''error'', JStr (response_text r))])"

definition parsed_completion :: "llm_adapter \<Rightarrow> response \<Rightarrow> canonical_completion option" where
  "parsed_completion adapter r = (case response_json r of None \<Rightarrow> None | Some j \<Rightarrow> ad_parse_completion adapter j)"

definition capture_job_of ::
  "'s env \<Rightarrow> llm_adapter \<Rightarrow> dialect_context \<Rightarrow> opt_state \<Rightarrow> rat list option \<Rightarrow> bool \<Rightarrow> canonical_completion \<Rightarrow> decision_draft
    \<Rightarrow> capture_job" where
  "capture_job_of env adapter dc opt embedding store result d =
     \<lparr>cj_provider = ad_provider adapter, cj_model = or_json (cc_model result) (JStr (dc_model dc)), cj_cache_model = dc_model dc,
      cj_response_payload = completion_payload (e_time_ms env) result, cj_cache_key = dc_cache_key dc,
      cj_in_tok = cu_input_tokens (cc_usage result), cj_out_tok = cu_output_tokens (cc_usage result),
      cj_cached_tok = cu_cached_tokens (cc_usage result), cj_store_cache = store, cj_embedding = embedding,
      cj_body = os_body opt, cj_routed_from = os_routed_from opt, cj_routed_from_provider = os_routed_from_provider opt,
      cj_arm = os_arm opt, cj_exp_from = os_exp_from opt, cj_exp_to = os_exp_to opt, cj_latency_ms = Some (e_latency_ms env), cj_draft = d,
      cj_fallback_used = False, cj_fallback_reason = None\<rparr>"

text \<open>The fallback answer is not cached, and carries neither a route nor an arm.\<close>

definition fallback_job_of ::
  "'s env \<Rightarrow> llm_adapter \<Rightarrow> dialect_context \<Rightarrow> opt_state \<Rightarrow> rat list option \<Rightarrow> string \<Rightarrow> canonical_completion \<Rightarrow> decision_draft
    \<Rightarrow> capture_job" where
  "fallback_job_of env adapter dc opt embedding fb result d =
     (capture_job_of env adapter dc opt embedding False result d)
       \<lparr>cj_model := or_json (cc_model result) (JStr fb), cj_routed_from := None, cj_routed_from_provider := None,
        cj_arm := None, cj_exp_from := None, cj_exp_to := None, cj_fallback_used := True,
        cj_fallback_reason := Some ''upstream_failure''\<rparr>"

text \<open>\<open>None\<close>: no fallback is configured, or it failed too; the capture is awaited before the reply.\<close>

definition forward_fallback ::
  "'s env \<Rightarrow> llm_adapter \<Rightarrow> string \<Rightarrow> dialect_context \<Rightarrow> opt_state \<Rightarrow> rat list option \<Rightarrow> (string \<times> string) list \<Rightarrow> string
    \<Rightarrow> string option \<Rightarrow> decision_draft \<Rightarrow> 's world \<Rightarrow> endpoint_reply option \<times> 's world" where
  "forward_fallback env adapter client_key dc opt embedding headers failed_model idempotency_key d w =
     (case fallback_model (e_settings env) (pj_id (e_project env)) failed_model of
        None \<Rightarrow> (None, w)
      | Some fb \<Rightarrow>
          (case upstream_request_of adapter client_key (os_body opt) fb idempotency_key of
             None \<Rightarrow> (Some (Failed (Unhandled ''prepare_request'')), w)
           | Some req \<Rightarrow>
               (case upstream_call env req of
                  Raised_Value_Error \<Rightarrow> (Some (Failed (Unhandled ''ValueError'')), w)
                | Gave_Up _ \<Rightarrow> (None, w)
                | Got r \<Rightarrow>
                    if status_code r \<noteq> 200 then (None, w)
                    else (let w1 = breaker_success env w
                          in case parsed_completion adapter r of
                               None \<Rightarrow> (Some (Failed (Unhandled ''parse_completion'')), w1)
                             | Some result \<Rightarrow>
                                 (let j = fallback_job_of env adapter dc opt embedding fb result d
                                  in (Some (json_reply 200 (put_header headers ''X-Varsten-Fallback'' fb)
                                             (JObj (cj_response_payload j))), capture env j w1))))))"

definition unreachable_error :: "(string \<times> string) list \<Rightarrow> string \<Rightarrow> endpoint_reply" where
  "unreachable_error headers e =
     Replied (Json_Reply (varsten_error ''upstream_unreachable'' ''varsten_upstream_error''
       (''upstream request failed: '' @ e) 502 [] headers))"

definition forward_once ::
  "'s env \<Rightarrow> llm_adapter \<Rightarrow> string \<Rightarrow> dialect_context \<Rightarrow> opt_state \<Rightarrow> rat list option \<Rightarrow> bool \<Rightarrow> (string \<times> string) list
    \<Rightarrow> string option \<Rightarrow> decision_draft \<Rightarrow> 's world \<Rightarrow> 's endpoint" where
  "forward_once env adapter client_key dc opt embedding store headers idempotency_key d w =
     (let model = (if os_upstream_model opt = [] then dc_model dc else os_upstream_model opt);
          after_failure = (\<lambda>reply.
            case forward_fallback env adapter client_key dc opt embedding headers model idempotency_key d (breaker_failure env w) of
              (Some fallback, w') \<Rightarrow> (fallback, [], w')
            | (None, w') \<Rightarrow> (reply, [], w'))
      in case upstream_request_of adapter client_key (os_body opt) model idempotency_key of
           None \<Rightarrow> (Failed (Unhandled ''prepare_request''), [], w)
         | Some req \<Rightarrow>
             (case upstream_call env req of
                Raised_Value_Error \<Rightarrow> (Failed (Unhandled ''ValueError''), [], w)
              | Got r \<Rightarrow>
                  if status_code r = 200 then
                    (case parsed_completion adapter r of
                       None \<Rightarrow> (Failed (Unhandled ''parse_completion''), [], breaker_success env w)
                     | Some result \<Rightarrow>
                         (let j = capture_job_of env adapter dc opt embedding store result d
                          in (json_reply 200 headers (JObj (cj_response_payload j)), [Capture j], breaker_success env w)))
                  else if \<not> is_upstream_failure (status_code r) then (relay headers r, [], breaker_success env w)
                  else after_failure (relay headers r)
              | Gave_Up e \<Rightarrow> after_failure (unreachable_error headers e)))"

section \<open>The endpoint\<close>

text \<open>The seam around the cache probe: an exception costs the cache, the jobs scheduled before it stay.\<close>

definition probe_or_pass :: "'s env \<Rightarrow> dialect_context \<Rightarrow> 's draft_state \<Rightarrow> cache_probe \<times> job list \<times> 's draft_state" where
  "probe_or_pass env dc s =
     (case maybe_serve_openai_cache env dc s of
        (probe, hits, d, w) \<Rightarrow>
          (case probe of Some p \<Rightarrow> p | None \<Rightarrow> no_probe None False,
           map (\<lambda>(entry, label). Meter_Hit entry label d) hits, d, w))"

definition forward_idempotency :: "'s env \<Rightarrow> opt_state \<Rightarrow> string option" where
  "forward_idempotency env opt =
     (if os_routed_from opt = None \<and> \<not> os_trim_applied opt \<and> \<not> os_compression_applied opt
      then request_header env ''idempotency-key'' else None)"

definition forward_resolved ::
  "'s env \<Rightarrow> dialect_context \<Rightarrow> cache_probe \<Rightarrow> job list \<Rightarrow> opt_state \<Rightarrow> decision_draft \<Rightarrow> 's world \<Rightarrow> 's endpoint" where
  "forward_resolved env dc probe jobs opt0 d0 w =
     (case resolve_openai_candidate_provider env dc opt0 d0 of
        None \<Rightarrow> (Failed (Unhandled ''UnknownProvider''), jobs, w)
      | Some (adapter, client_key, opt, d) \<Rightarrow>
          (let headers = openai_forward_headers env adapter dc opt; idem = forward_idempotency env opt;
               store = (dc_optimize_enabled dc \<and> cp_store_cache probe)
           in case breaker_allow env w of (ok, w1) \<Rightarrow>
             if \<not> ok then
               (Replied (Json_Reply (varsten_error ''circuit_open'' ''varsten_circuit_open''
                  ''upstream temporarily unavailable (circuit open)'' 503 [] (put_header headers ''X-Varsten-Circuit'' ''open''))),
                jobs, w1)
             else if dc_stream dc then
               (Streaming \<lparr>sg_headers = headers, sg_provider = ad_provider adapter, sg_client_key = client_key,
                  sg_model = dc_model dc, sg_cache_key = dc_cache_key dc, sg_opt = opt, sg_embedding = cp_embedding probe, sg_store_cache = store,
                  sg_idempotency_key = idem, sg_draft = d\<rparr>, jobs, w1)
             else (case forward_once env adapter client_key dc opt (cp_embedding probe) store headers idem d w1 of
                     (reply, scheduled, w2) \<Rightarrow> (reply, jobs @ scheduled, w2))))"

definition serve_request :: "'s env \<Rightarrow> dialect_context \<Rightarrow> decision_draft \<Rightarrow> 's world \<Rightarrow> 's endpoint" where
  "serve_request env dc d w =
     (case probe_or_pass env dc (d, w) of (probe, jobs, d1, w1) \<Rightarrow>
       (case cp_response probe of
          Some r \<Rightarrow> (Replied r, jobs, w1)
        | None \<Rightarrow>
            (case (if dc_optimize_enabled dc then budget_block env (dd_ctx d1) (dc_request_id dc) w1 else (None, w1)) of
               (Some blocked, w2) \<Rightarrow> (Replied (Json_Reply blocked), jobs, w2)
             | (None, w2) \<Rightarrow>
                 (case optimize_or_pass env dc (d1, w2) of (opt, d2, w3) \<Rightarrow>
                   forward_resolved env dc probe jobs opt d2 w3))))"

definition openai_dialect_completions ::
  "'s env \<Rightarrow> string \<Rightarrow> string \<Rightarrow> json option \<Rightarrow> string option \<Rightarrow> 's world \<Rightarrow> 's endpoint" where
  "openai_dialect_completions env method path raw destination w =
     (case rate_limited env w of
        (Some limited, w0) \<Rightarrow> (Replied (Json_Reply limited), [], w0)
      | (None, w0) \<Rightarrow>
          (case openai_dialect_setup env method path raw destination w0 of
             (Inl e, w1) \<Rightarrow> (Failed e, [], w1)
           | (Inr (Inl response), w1) \<Rightarrow> (Replied (Json_Reply response), [], w1)
           | (Inr (Inr (dc, d)), w1) \<Rightarrow> serve_request env dc d w1))"

section \<open>Lemmas\<close>

lemma rate_limited_frame:
  "w_entries (snd (rate_limited env w)) = w_entries w" "w_snapshots (snd (rate_limited env w)) = w_snapshots w"
  by (auto simp: rate_limited_def split: prod.split)

lemma resolve_entitlement_frame:
  "w_entries (snd (resolve_entitlement_state env w)) = w_entries w"
  "w_snapshots (snd (resolve_entitlement_state env w)) = w_snapshots w"
  by (auto simp: resolve_entitlement_state_def Let_def split: prod.split)

lemma setup_okE:
  assumes "openai_dialect_setup env method path raw destination w = (Inr (Inr (dc, d)), w')"
  obtains entitlement ctx where
    "resolve_entitlement_state env w = (entitlement, w')" "raw = Some (JObj (dc_body dc))"
    "pr_dialect (dc_parsed dc) = OpenAI" "dc_body dc = pr_body (dc_parsed dc)"
    "dc_bypass dc = is_bypassed (e_settings env) (e_project env)" "dc_observe_only dc = en_observe_only (dc_entitlement dc)"
    "dc_optimize_enabled dc \<longleftrightarrow> \<not> dc_bypass dc \<and> \<not> dc_observe_only dc"
    "adapter_for env (case or_str destination None of Some p \<Rightarrow> p | None \<Rightarrow> proxy_default_provider (e_settings env)) = Some (dc_adapter dc)"
    "provider_key_for_project env (ad_provider (dc_adapter dc)) = Some (dc_client_key dc)"
    "dc_cache_key dc = compute_cache_key (e_digest env) (dc_body dc)" "dd_ctx d = ctx"
    "parse_request_context (e_settings env) (e_loads env) (e_float_repr env) (e_headers env) = Inr ctx"
proof -
  let ?cfg = "e_settings env"
  obtain parsed where p: "parse_client_request env method path raw = Inr parsed"
    using assms by (auto simp: openai_dialect_setup_def Let_def split: sum.splits)
  have op: "pr_dialect parsed = OpenAI" "pr_operation parsed = ''chat_completions''"
    using assms by (auto simp: openai_dialect_setup_def Let_def p split: if_splits)
  obtain adapter where ad: "adapter_for env (case or_str destination None of Some p \<Rightarrow> p | None \<Rightarrow> proxy_default_provider ?cfg) = Some adapter"
    using assms by (auto simp: openai_dialect_setup_def Let_def p op split: option.splits)
  obtain key where key: "provider_key_for_project env (ad_provider adapter) = Some key"
    using assms by (auto simp: openai_dialect_setup_def Let_def p op ad split: option.splits)
  obtain ent w1 where ent: "resolve_entitlement_state env w = (ent, w1)" by fastforce
  obtain ctx where ctx: "parse_request_context ?cfg (e_loads env) (e_float_repr env) (e_headers env) = Inr ctx"
    using assms by (auto simp: openai_dialect_setup_def Let_def p op ad key ent split: sum.splits)
  obtain b where raw: "raw = Some b" using p by (auto simp: parse_client_request_def split: option.splits)
  then have "classify_client_dialect method path (e_headers env) b = Inr parsed"
    using p by (auto simp: parse_client_request_def split: sum.splits option.splits parse_error.splits)
  from classify_is_request [OF this] have b: "b = JObj (pr_body parsed)" by blast
  note eqs = assms [unfolded openai_dialect_setup_def Let_def p sum.case op ad key ent ctx prod.case option.case]
  show ?thesis
    by (rule that [of ent ctx]) (use eqs ent raw b op ad key ctx in \<open>auto simp: attach_observe_plan_def new_draft_def\<close>)
qed


lemma maybe_serve_off:
  assumes "\<not> dc_optimize_enabled dc"
  shows "maybe_serve_openai_cache env dc (d, w) = (Some (no_probe None True), [], skip_both ''optimization_disabled'' d, w)"
  using assms by (simp add: maybe_serve_openai_cache_def Let_def)

lemma optimize_off:
  assumes "\<not> dc_optimize_enabled dc"
  shows "optimize_or_pass env dc (d, w) =
    (openai_passthrough_state (dc_body dc) (dc_model dc) (ad_provider (dc_adapter dc)), d, w)"
  using assms by (simp add: optimize_or_pass_def resolve_openai_optimizations_def Let_def)

lemma breaker_of_put [simp]: "breaker_of env (put_breaker env (b, s) w) = b"
  by (simp add: breaker_of_def put_breaker_def get_breaker_def)

lemma put_breaker_frame [simp]:
  "w_entries (put_breaker env bs w) = w_entries w" "w_snapshots (put_breaker env bs w) = w_snapshots w"
  "w_samples (put_breaker env bs w) = w_samples w" "w_ledger (put_breaker env bs w) = w_ledger w"
  "w_prices (put_breaker env bs w) = w_prices w" "w_decisions (put_breaker env bs w) = w_decisions w"
  by (simp_all add: put_breaker_def)

lemma breaker_success_frame [simp]:
  "w_entries (breaker_success env w) = w_entries w" "w_samples (breaker_success env w) = w_samples w"
  "w_ledger (breaker_success env w) = w_ledger w" "w_decisions (breaker_success env w) = w_decisions w"
  by (simp_all add: breaker_success_def)

lemma breaker_success_closed:
  "b_state (breaker_of env (breaker_success env w)) = Closed \<and> b_failures (breaker_of env (breaker_success env w)) = 0"
  by (simp add: breaker_success_def record_success_def)

lemma meter_row_frame:
  assumes "meter_row env c w = (e, w')"
  shows "w_ledger w' = e # w_ledger w" "w_entries w' = w_entries w" "w_snapshots w' = w_snapshots w"
    "w_samples w' = w_samples w" "w_decisions w' = w_decisions w" "w_breakers w' = w_breakers w" "w_store w' = w_store w"
    "ue_provider e = pc_provider c"
  using assms
  by (auto simp: meter_row_def record_proxy_usage_def context_fields_def Let_def split: prod.splits option.splits)

lemma decide_frame [simp]:
  "w_ledger (decide env d e f w) = w_ledger w" "w_entries (decide env d e f w) = w_entries w"
  "w_snapshots (decide env d e f w) = w_snapshots w" "w_samples (decide env d e f w) = w_samples w"
  "w_breakers (decide env d e f w) = w_breakers w" "w_store (decide env d e f w) = w_store w"
  by (simp_all add: decide_def)

lemma store_response_frame [simp]:
  "w_ledger (store_response env j w) = w_ledger w" "w_samples (store_response env j w) = w_samples w"
  "w_decisions (store_response env j w) = w_decisions w" "w_breakers (store_response env j w) = w_breakers w"
  "w_store (store_response env j w) = w_store w"
  by (auto simp: store_response_def split: option.splits)

lemma sample_response_frame [simp]:
  "w_ledger (sample_response env j w) = w_ledger w" "w_entries (sample_response env j w) = w_entries w"
  "w_snapshots (sample_response env j w) = w_snapshots w" "w_decisions (sample_response env j w) = w_decisions w"
  "w_breakers (sample_response env j w) = w_breakers w" "w_store (sample_response env j w) = w_store w"
  by (simp_all add: sample_response_def)

text \<open>A capture whose job may not be stored leaves cache and corpus alone, and adds at most one row.\<close>

lemma capture_unstored:
  assumes "\<not> cj_store_cache j"
  shows "w_entries (capture env j w) = w_entries w" "w_snapshots (capture env j w) = w_snapshots w"
    "w_samples (capture env j w) = w_samples w"
  using assms
  by (auto simp: capture_def record_capture_def sample_response_def store_response_def meter_row_frame Let_def
      split: option.splits json.splits prod.splits)

lemma capture_ledger:
  "w_ledger (capture env j w) = w_ledger w \<or>
     (\<exists>quality model e. arm_quality env j = Some quality \<and> cj_model j = JStr model \<and>
        e = fst (meter_row env (capture_call env j model quality) w) \<and> w_ledger (capture env j w) = e # w_ledger w)"
  by (cases "arm_quality env j"; cases "cj_model j")
     (auto simp: capture_def record_capture_def Let_def meter_row_frame split: prod.splits)

lemma capture_breakers [simp]:
  "w_breakers (capture env j w) = w_breakers w" "w_store (capture env j w) = w_store w"
  by (auto simp: capture_def record_capture_def Let_def meter_row_frame split: option.splits json.splits prod.splits)

lemma breaker_of_capture [simp]: "breaker_of env (capture env j w) = breaker_of env w"
  by (simp add: breaker_of_def)

lemma meter_row_no_savings:
  assumes "\<not> pc_cache_hit c" "pc_naive_model c = None"
  shows "ue_saved_usd (fst (meter_row env c w)) = None"
proof -
  obtain e cost md naive saved c1 c2 used where r:
    "record_proxy_usage (e_price_tables env) (e_now env) (e_received_at env) (pj_organization_id (e_project env))
       (pj_id (e_project env)) c (w_prices w, w_ledger w) = (e, c2, e # w_ledger w)"
    "cost_and_base_metadata (e_price_tables env) (e_now env) (pj_organization_id (e_project env)) (e_now env) c used c1 =
       (cost, md, naive, saved, c2)" "ue_saved_usd e = saved"
    by (rule record_proxy_usage_cases)
  from r(2) assms have "saved = None" by (simp add: cost_and_base_metadata_def truthy_str_def)
  with r show ?thesis by (simp add: meter_row_def)
qed

definition primary_failed :: "'s env \<Rightarrow> upstream_request \<Rightarrow> bool" where
  "primary_failed env req \<longleftrightarrow>
     (case upstream_call env req of
        Got r \<Rightarrow> status_code r \<noteq> 200 \<and> is_upstream_failure (status_code r)
      | Gave_Up _ \<Rightarrow> True
      | Raised_Value_Error \<Rightarrow> False)"

text \<open>How a request that failed upstream ends when its fallback answers.\<close>

lemma forward_once_fallback:
  assumes m: "m = (if os_upstream_model opt = [] then dc_model dc else os_upstream_model opt)"
    and req: "upstream_request_of adapter key (os_body opt) m idem = Some req" "primary_failed env req"
    and fb: "fallback_model (e_settings env) (pj_id (e_project env)) m = Some fb"
      "upstream_request_of adapter key (os_body opt) fb idem = Some req'"
      "upstream_call env req' = Got r" "status_code r = 200" "parsed_completion adapter r = Some result"
  shows "forward_once env adapter key dc opt embedding store headers idem d w =
    (json_reply 200 (put_header headers ''X-Varsten-Fallback'' fb) (JObj (completion_payload (e_time_ms env) result)), [],
     capture env (fallback_job_of env adapter dc opt embedding fb result d) (breaker_success env (breaker_failure env w)))"
proof -
  have f: "forward_fallback env adapter key dc opt embedding headers m idem d w' =
      (Some (json_reply 200 (put_header headers ''X-Varsten-Fallback'' fb) (JObj (completion_payload (e_time_ms env) result))),
       capture env (fallback_job_of env adapter dc opt embedding fb result d) (breaker_success env w'))" for w'
    using fb by (simp add: forward_fallback_def Let_def fallback_job_of_def capture_job_of_def)
  show ?thesis
    using req f m by (auto simp: forward_once_def Let_def primary_failed_def split: retry_result.splits)
qed

section \<open>Properties\<close>


definition bypassed_env :: "unit env" where
  "bypassed_env = (sample_request_env [])
     \<lparr>e_project := \<lparr>pj_id = ''p'', pj_organization_id = ''o'', pj_proxy_bypass_enabled = True, pj_eval_capture_enabled = True\<rparr>\<rparr>"

definition sample_setup :: "(failure + (client_response + dialect_context \<times> decision_draft)) \<times> unit world" where
  "sample_setup = openai_dialect_setup bypassed_env ''POST'' ''/v1/chat/completions'' (Some (JObj [(''model'', JStr ''gpt-4o'')])) None
     sample_world"

lemma sample_setup_ok:
  "case sample_setup of (Inr (Inr (dc, d)), w1) \<Rightarrow> \<not> dc_stream dc \<and> fst (breaker_allow bypassed_env w1) | _ \<Rightarrow> False"
  by code_simp


text \<open>
  A request saved by its fallback model. When the upstream call fails after its retries and the project's
  fallback model answers, the client gets that answer, named in a header; it is not cached and not
  sampled for evaluation, its ledger row (there is at most one) claims no savings; but whatever the failure
  count was, the breaker ends closed with no failures, so the failing primary model never trips it.
\<close>

theorem fallback_answer:
  assumes "m = (if os_upstream_model opt = [] then dc_model dc else os_upstream_model opt)"
    and "upstream_request_of adapter key (os_body opt) m idem = Some req" "primary_failed env req"
    and "fallback_model (e_settings env) (pj_id (e_project env)) m = Some fb"
    and "upstream_request_of adapter key (os_body opt) fb idem = Some req'"
    and "upstream_call env req' = Got r" "status_code r = 200" "parsed_completion adapter r = Some result"
    and "forward_once env adapter key dc opt embedding store headers idem d w = (reply, jobs, w')"
  shows "reply = json_reply 200 (put_header headers ''X-Varsten-Fallback'' fb) (JObj (completion_payload (e_time_ms env) result)) \<and>
    jobs = [] \<and> w_entries w' = w_entries w \<and> w_samples w' = w_samples w \<and>
    (w_ledger w' = w_ledger w \<or> (\<exists>e. w_ledger w' = e # w_ledger w \<and> ue_saved_usd e = None)) \<and>
    b_state (breaker_of env w') = Closed \<and> b_failures (breaker_of env w') = 0"
proof -
  let ?j = "fallback_job_of env adapter dc opt embedding fb result d"
  let ?w = "breaker_success env (breaker_failure env w)"
  have eq: "(reply, jobs, w') = (json_reply 200 (put_header headers ''X-Varsten-Fallback'' fb)
      (JObj (completion_payload (e_time_ms env) result)), [], capture env ?j ?w)"
    using forward_once_fallback [OF assms(1-8)] assms(9) by simp
  have unstored: "\<not> cj_store_cache ?j" by (simp add: fallback_job_of_def capture_job_of_def)
  have frame: "w_entries ?w = w_entries w" "w_samples ?w = w_samples w" "w_ledger ?w = w_ledger w"
    by (simp_all add: breaker_failure_def)
  have "ue_saved_usd (fst (meter_row env (capture_call env ?j model quality) ?w)) = None" for model quality
    by (rule meter_row_no_savings) (simp_all add: capture_call_def fallback_job_of_def)
  then have "w_ledger w' = w_ledger w \<or> (\<exists>e. w_ledger w' = e # w_ledger w \<and> ue_saved_usd e = None)"
    using eq capture_ledger [of env ?j ?w] frame by auto
  with eq capture_unstored [OF unstored, of env ?w] frame breaker_success_closed [of env "breaker_failure env w"]
  show ?thesis by simp
qed

definition failing_env :: "unit env" where
  "failing_env = (sample_request_env [])
     \<lparr>e_settings := default_settings\<lparr>proxy_fallback_enabled := True, proxy_fallback_models := Map.empty(''p'' \<mapsto> ''backup'')\<rparr>,
      e_post := (\<lambda>req i. if ur_model req = ''backup''
        then Response \<lparr>status_code = 200, retry_after = None, response_json = Some (JObj [(''model'', JStr ''backup'')]), response_text = []\<rparr>
        else Request_Error ''ConnectError'')\<rparr>"

definition sample_passthrough :: opt_state where
  "sample_passthrough = openai_passthrough_state [(''model'', JStr ''gpt-4o'')] ''gpt-4o'' ''openai''"

definition sample_upstream :: "string \<Rightarrow> upstream_request" where
  "sample_upstream model = \<lparr>ur_provider = ''openai'', ur_model = model, ur_key = ''k'', ur_idempotency_key = Some ''i'',
     ur_body = [(''model'', JStr model), (''stream'', JBool False)]\<rparr>"

lemma sample_upstream_of:
  "upstream_request_of openai_adapter ''k'' (os_body sample_passthrough) model (Some ''i'') = Some (sample_upstream model)"
  by (simp add: upstream_request_of_def openai_adapter_def openai_prepare_request_def sample_upstream_def sample_passthrough_def
      openai_passthrough_state_def with_idempotency_def or_str_def)

lemma failing_calls:
  "primary_failed failing_env (sample_upstream ''gpt-4o'')"
  "upstream_call failing_env (sample_upstream ''backup'') = Got \<lparr>status_code = 200, retry_after = None,
     response_json = Some (JObj [(''model'', JStr ''backup'')]), response_text = []\<rparr>"
  by code_simp+

theorem fallback_answer_witness:
  "\<exists>reply w'. forward_once failing_env openai_adapter ''k'' sample_dialect sample_passthrough None True [] (Some ''i'') sample_draft
       sample_world = (reply, [], w') \<and> b_state (breaker_of failing_env w') = Closed"
proof -
  obtain result where res: "parsed_completion openai_adapter \<lparr>status_code = 200, retry_after = None,
      response_json = Some (JObj [(''model'', JStr ''backup'')]), response_text = []\<rparr> = Some result"
    by (simp add: parsed_completion_def openai_adapter_def openai_parse_completion_def or_json_def as_dict_or_empty_def
        message_content_def usage_from_def int_or_zero_def)
  obtain reply jobs w' where f: "forward_once failing_env openai_adapter ''k'' sample_dialect sample_passthrough None True []
      (Some ''i'') sample_draft sample_world = (reply, jobs, w')" by (metis prod_cases3)
  have m: "''gpt-4o'' = (if os_upstream_model sample_passthrough = [] then dc_model sample_dialect
      else os_upstream_model sample_passthrough)"
    by (simp add: sample_passthrough_def openai_passthrough_state_def)
  have fb: "fallback_model (e_settings failing_env) (pj_id (e_project failing_env)) ''gpt-4o'' = Some ''backup''"
    by (simp add: fallback_model_def failing_env_def sample_request_env_def)
  from fallback_answer [OF m sample_upstream_of failing_calls(1) fb sample_upstream_of failing_calls(2) _ res f] f
  show ?thesis by auto
qed

text \<open>
  The fallback reuses the client's idempotency key. With the key of an untouched request, the failed call
  and its fallback carry the same key while the bodies name different models, which the docstring of
  \<open>_with_idempotency\<close> rules out.
\<close>

theorem fallback_reuses_idempotency_key:
  assumes "fallback_model (e_settings env) (pj_id (e_project env)) m = Some fb"
    and "upstream_request_of openai_adapter key body m idem = Some req"
    and "upstream_request_of openai_adapter key body fb idem = Some req'"
  shows "ur_idempotency_key req' = ur_idempotency_key req \<and> ur_key req' = ur_key req \<and> ur_body req' \<noteq> ur_body req"
proof -
  have ne: "fb \<noteq> m" using assms(1) by (auto simp: fallback_model_def split: if_splits option.splits)
  have "dict_get (ur_body req) ''model'' = JStr m" "dict_get (ur_body req') ''model'' = JStr fb"
    using assms(2,3) by (auto simp: upstream_request_of_def openai_adapter_def openai_prepare_request_def dict_get_put)
  with ne have "ur_body req' \<noteq> ur_body req" by auto
  with assms(2,3) show ?thesis by (auto simp: upstream_request_of_def)
qed

theorem fallback_reuses_idempotency_key_witness:
  "fallback_model (e_settings failing_env) (pj_id (e_project failing_env)) ''gpt-4o'' = Some ''backup'' \<and>
   ur_idempotency_key (sample_upstream ''backup'') = Some ''i'' \<and>
   ur_body (sample_upstream ''backup'') \<noteq> ur_body (sample_upstream ''gpt-4o'')"
proof -
  have fb: "fallback_model (e_settings failing_env) (pj_id (e_project failing_env)) ''gpt-4o'' = Some ''backup''"
    by (simp add: fallback_model_def failing_env_def sample_request_env_def)
  from fallback_reuses_idempotency_key [OF fb sample_upstream_of sample_upstream_of] fb
  show ?thesis by (simp add: sample_upstream_def)
qed

lemma forward_fallback_reply:
  assumes "forward_fallback env adapter key dc opt embedding headers m idem d w = (Some reply, w')"
    and "reply = Replied (Json_Reply c)"
  shows "cl_status c = 200 \<and> (\<exists>fb req r result. fallback_model (e_settings env) (pj_id (e_project env)) m = Some fb \<and>
    upstream_request_of adapter key (os_body opt) fb idem = Some req \<and> upstream_call env req = Got r \<and> status_code r = 200 \<and>
    parsed_completion adapter r = Some result \<and> cl_body c = JObj (completion_payload (e_time_ms env) result))"
  using assms
  by (auto simp: forward_fallback_def Let_def json_reply_def fallback_job_of_def capture_job_of_def
      split: option.splits retry_result.splits if_splits)



text \<open>
  What the evaluation corpus learns from. The sample written for a response does not depend on the arm, on
  the route or on the model that answered: a treatment answer is recorded as the production answer of the
  incumbent, and the corpus then judges the candidate against its own output.
\<close>

theorem sampling_ignores_the_arm:
  "sample_response env (j\<lparr>cj_arm := arm, cj_routed_from := from, cj_routed_from_provider := from_provider,
      cj_model := answered_by, cj_provider := provider\<rparr>) w = sample_response env j w"
  by (simp add: sample_response_def)

text \<open>
  A cache hit is billed at the wrong provider's price. Metering a hit adds one row in front of the ledger, and
  the row says \<open>openai\<close> whatever provider the request was for, which is the one the decision record names;
  the naive cost, and with it the claimed saving, is priced with that provider.
\<close>

theorem cache_hit_metered_as_openai:
  assumes "e_cache_ok env" "e_capture_ok env" "e_audit_ok env"
  shows "\<exists>row decision. w_ledger (meter_cache_hit env entry label d w) = row # w_ledger w \<and> ue_provider row = ''openai'' \<and>
    w_decisions (meter_cache_hit env entry label d w) = decision # w_decisions w \<and>
    de_provider_chosen decision = dd_provider_requested d \<and> de_usage_event decision = row"
proof -
  let ?w = "w\<lparr>w_entries := record_hit (e_now env) (ce_id entry) (w_entries w)\<rparr>"
  obtain event w2 where m: "meter_row env (hit_call env entry d) ?w = (event, w2)" by fastforce
  have "ue_provider event = ''openai''" using meter_row_frame(8) [OF m] by (simp add: hit_call_def default_call_def)
  moreover have "w_ledger w2 = event # w_ledger w" "w_decisions w2 = w_decisions w" using meter_row_frame [OF m] by simp_all
  moreover have "\<exists>decision. w_decisions (decide env d event (hit_facts env entry label d) w2) = decision # w_decisions w2 \<and>
      de_provider_chosen decision = dd_provider_requested d \<and> de_usage_event decision = event"
    using assms(3) by (simp add: decide_def record_request_decision_def Let_def hit_facts_def)
  ultimately show ?thesis using assms(1,2) m by (simp add: meter_cache_hit_def)
qed

theorem cache_hit_metered_as_openai_witness:
  "\<exists>row. w_ledger (meter_cache_hit (sample_request_env []) sample_entry ''hit'' (sample_draft\<lparr>dd_provider_requested := ''gemini''\<rparr>)
       sample_world) = [row] \<and> ue_provider row = ''openai''"
proof -
  have ok: "e_cache_ok (sample_request_env [])" "e_capture_ok (sample_request_env [])" "e_audit_ok (sample_request_env [])"
    by (simp_all add: sample_request_env_def)
  have "w_ledger sample_world = []" by (simp add: sample_world_def)
  with cache_hit_metered_as_openai [OF ok, of sample_entry "''hit''" "sample_draft\<lparr>dd_provider_requested := ''gemini''\<rparr>" sample_world]
  show ?thesis by auto
qed

text \<open>Which hits a probe schedules.\<close>

lemma semantic_probe_hits:
  assumes "semantic_probe env dc allowed (d, w) = (probe, hits, d', w')"
  shows "hits = [] \<or> (\<exists>e label emb. hits = [(e, label)] \<and> e \<in> set (w_entries w) \<and>
    probe = map_option (\<lambda>r. \<lparr>cp_response = Some r, cp_embedding = emb, cp_store_cache = True\<rparr>)
      (serve_cache_hit env e (dc_stream dc) label d'))"
proof (cases "hits = []")
  case False
  obtain ok blockers where pol: "semantic_cache_policy d = (ok, blockers)" by fastforce
  note step = assms [unfolded semantic_probe_def Let_def prod.case pol]
  obtain inp where inp: "embedding_input (e_str env) (dc_body dc) = Some inp" and on: "semantic_cache_enabled (e_settings env)" "ok"
    using step False by (auto split: if_splits option.splits)
  obtain v w1 where emb: "embed env inp w = (v, w1)" by fastforce
  obtain vector e where e: "search_vector v = Some vector" "e_cache_ok env"
    "semantic_search (e_distance env) (e_now env) (pj_id (e_project env)) (dc_model dc) vector
      (semantic_cache_threshold (e_settings env)) (w_entries w1) = Some e"
    using step False inp on emb by (auto split: if_splits option.splits)
  have "w_entries w1 = w_entries w" using embed_entries [of env inp w] emb by simp
  with semantic_search_Some [OF e(3)] have "e \<in> set (w_entries w)" by simp
  moreover have "hits = [(e, ''semantic'')] \<and> probe = map_option (\<lambda>r. \<lparr>cp_response = Some r, cp_embedding = vector,
      cp_store_cache = True\<rparr>) (serve_cache_hit env e (dc_stream dc) ''semantic'' d')"
    using step inp on emb e by auto
  ultimately show ?thesis by blast
qed blast

lemma maybe_serve_hits:
  assumes "cache_inv (w_entries w, w_snapshots w)" "maybe_serve_openai_cache env dc (d, w) = (probe, hits, d', w')"
  shows "hits = [] \<or> (\<exists>e label emb. hits = [(e, label)] \<and> (\<exists>r \<in> set (w_entries w). content r = content e) \<and>
    probe = map_option (\<lambda>r. \<lparr>cp_response = Some r, cp_embedding = emb, cp_store_cache = True\<rparr>)
      (serve_cache_hit env e (dc_stream dc) label d'))"
proof (cases "hits = []")
  case False
  obtain allowed blockers enforced where pol: "exact_cache_policy d = (allowed, blockers, enforced)" by (metis prod_cases3)
  note step = assms(2) [unfolded maybe_serve_openai_cache_def Let_def prod.case pol]
  have entries: "w_entries (snd (exact_lookup_step env key w)) = w_entries w" for key
    by (simp add: exact_lookup_step_def split: prod.split)
  consider (semantic) store d1 w1 where "semantic_probe env dc store (d1, w1) = (probe, hits, d', w')" "w_entries w1 = w_entries w"
    | (exact) e w1 where "exact_lookup_step env (dc_cache_key dc) w = (Some e, w1)" "hits = [(e, ''hit'')]"
      "probe = map_option (\<lambda>r. \<lparr>cp_response = Some r, cp_embedding = None, cp_store_cache = True\<rparr>)
        (serve_cache_hit env e (dc_stream dc) ''hit'' d')"
    using step False entries [of "dc_cache_key dc"] by (auto split: if_splits option.splits prod.splits)
  then show ?thesis
  proof cases
    case semantic
    from semantic_probe_hits [OF semantic(1)] semantic(2) False show ?thesis by auto
  next
    case exact
    from exact_lookup_sound [OF assms(1) exact(1)] exact(2,3) show ?thesis by blast
  qed
qed blast

lemma forward_once_jobs:
  "forward_once env adapter key dc opt embedding store headers idem d w = (reply, jobs, w') \<Longrightarrow> length jobs \<le> 1"
  by (auto simp: forward_once_def Let_def split: option.splits retry_result.splits prod.splits if_splits)

lemma forward_resolved_jobs: "length (fst (snd (forward_resolved env dc probe jobs opt d w))) \<le> length jobs + 1"
proof -
  obtain ok w1 where a: "breaker_allow env w = (ok, w1)" by fastforce
  show ?thesis
    by (auto simp: forward_resolved_def Let_def a split: option.splits prod.splits dest: forward_once_jobs)
qed


lemma setup_frame:
  assumes "openai_dialect_setup env method path raw destination w = (Inr (Inr (dc, d)), w')"
  shows "w_entries w' = w_entries w" "w_snapshots w' = w_snapshots w"
  using assms resolve_entitlement_frame [of env w] by (auto elim!: setup_okE)

lemma run_job_ledger: "length (w_ledger (run_job env job w)) \<le> length (w_ledger w) + 1"
proof -
  have hit: "length (w_ledger (meter_cache_hit env e label d x)) \<le> length (w_ledger x) + 1" for e label d x
    by (auto simp: meter_cache_hit_def Let_def meter_row_frame split: prod.split)
  have "length (w_ledger (capture env j x)) \<le> length (w_ledger x) + 1" for j x
    using capture_ledger [of env j x] by auto
  with hit show ?thesis by (cases job) (auto split: option.split)
qed

lemma serve_request_jobs:
  assumes "serve_request env dc d w = (reply, jobs, w')" "cache_inv (w_entries w, w_snapshots w)"
    and streamable: "\<forall>e \<in> set (w_entries w). to_openai_sse (e_dumps env) (ce_response_payload e) \<noteq> None"
  shows "length jobs \<le> 1"
proof -
  obtain probe hits d1 w1 where m: "maybe_serve_openai_cache env dc (d, w) = (probe, hits, d1, w1)" by (metis prod_cases4)
  from maybe_serve_hits [OF assms(2) m] show ?thesis
  proof
    assume "hits = []"
    with assms(1) m forward_resolved_jobs [of env dc _ "[]"] show ?thesis
      by (auto simp: serve_request_def probe_or_pass_def split: option.splits prod.splits)
        (metis (no_types, lifting) One_nat_def add_0 fst_conv list.size(3) snd_conv)+
  next
    assume "\<exists>e label emb. hits = [(e, label)] \<and> (\<exists>r \<in> set (w_entries w). content r = content e) \<and>
      probe = map_option (\<lambda>r. \<lparr>cp_response = Some r, cp_embedding = emb, cp_store_cache = True\<rparr>)
        (serve_cache_hit env e (dc_stream dc) label d1)"
    then obtain e label emb row where h: "hits = [(e, label)]" "row \<in> set (w_entries w)" "content row = content e"
      "probe = map_option (\<lambda>r. \<lparr>cp_response = Some r, cp_embedding = emb, cp_store_cache = True\<rparr>)
        (serve_cache_hit env e (dc_stream dc) label d1)" by blast
    from h(3) have "ce_response_payload row = ce_response_payload e" by (cases row; cases e) (simp add: content_def)
    with streamable h(2) obtain r where "serve_cache_hit env e (dc_stream dc) label d1 = Some r"
      by (fastforce simp: serve_cache_hit_def)
    with assms(1) m h(1,4) show ?thesis by (auto simp: serve_request_def probe_or_pass_def)
  qed
qed





text \<open>
  A treatment whose transform changed nothing is booked as a routing: the evidence then reports a mismatch
  with the plan, because no routing policy was there to make routing available.
\<close>

lemma noop_treatment_blamed_on_routing:
  assumes "pi_optimize_enabled inp" "\<not> pi_routing_policy_present inp" "\<not> prior_ready ''model_routing'' (pi_outcome_priors inp)"
  shows "applied_lever (Some ''miss'') (Some ''treatment'') False False False = Some ''model_routing''"
    and "parity_verdict (build_optimization_plan inp) ''model_routing'' = (''mismatch'', ''applied_unavailable'')"
proof -
  let ?c = "with_outcome_prior (pi_outcome_priors inp) (model_routing_candidate inp (plan_classification inp))"
  have "candidate_for (build_optimization_plan inp) ''model_routing'' = Some ?c"
    by (simp add: candidate_for_def build_optimization_plan_def Let_def routing_alias_def)
  moreover have "co_status ?c = Unavailable"
    using assms by (auto simp: with_outcome_prior_def model_routing_candidate_def unavailable_def prior_ready_def Let_def
        split: option.splits)
  ultimately show "parity_verdict (build_optimization_plan inp) ''model_routing'' = (''mismatch'', ''applied_unavailable'')"
    by (simp add: parity_verdict_def)
qed (simp add: applied_lever_def)

end
