(* ===== verification/Transforms.thy ===== *)
theory Transforms
  imports Providers "HOL-Library.AList"
begin

text \<open>
  \<open>proxy/client_transforms.py\<close>, the client edge of the native endpoints: native requests into the OpenAI shape,
  completions and OpenAI streams back into the dialect of the caller. \<open>None\<close> is an exception; a generator that
  raises has yielded its events before. Parameters: the JSON decoder \<open>loads\<close> and encoder \<open>dumps\<close>, \<open>str\<close> on a
  value that is not a string, the UTF-8 decoder of a chunk, the clock \<open>now_ms\<close>.
\<close>

section \<open>The SSE decoder\<close>

fun replace_crlf :: "string \<Rightarrow> string" where
  "replace_crlf (c # d # cs) =
     (if c = CHR 0x0D \<and> d = CHR 0x0A then CHR 0x0A # replace_crlf cs else c # replace_crlf (d # cs))"
| "replace_crlf cs = cs"

definition push_char :: "char \<Rightarrow> string list \<Rightarrow> string list" where
  "push_char c bs = (case bs of [] \<Rightarrow> [[c]] | b # bs' \<Rightarrow> (c # b) # bs')"

text \<open>\<open>split\<close> at every empty line, from the left and without overlap.\<close>

fun split_blocks :: "string \<Rightarrow> string list" where
  "split_blocks (c # d # cs) =
     (if c = CHR 0x0A \<and> d = CHR 0x0A then [] # split_blocks cs else push_char c (split_blocks (d # cs)))"
| "split_blocks cs = [cs]"

definition line_break :: "char \<Rightarrow> bool" where
  "line_break c = (let n = (of_char c :: nat) in (10 \<le> n \<and> n \<le> 13) \<or> (28 \<le> n \<and> n \<le> 30) \<or> n = 133)"

definition drop_lf :: "string \<Rightarrow> string" where
  "drop_lf s = (case s of [] \<Rightarrow> [] | c # cs \<Rightarrow> if c = CHR 0x0A then cs else s)"

lemma length_drop_lf [termination_simp]: "length (drop_lf s) \<le> length s"
  by (simp add: drop_lf_def split: list.split)

fun splitlines :: "string \<Rightarrow> string list" where
  "splitlines [] = []"
| "splitlines (c # cs) =
     (if line_break c then [] # splitlines (if c = CHR 0x0D then drop_lf cs else cs)
      else push_char c (splitlines cs))"

definition sse_data :: "string \<Rightarrow> string option" where
  "sse_data raw_line =
     (let line = py_strip raw_line
      in if take 5 line \<noteq> ''data:'' then None
         else (let data = py_strip (drop 5 line) in if data = [] \<or> data = ''[DONE]'' then None else Some data))"

definition sse_data_lines :: "string \<Rightarrow> string list" where
  "sse_data_lines block = List.map_filter sse_data (splitlines block)"

fun join_data :: "string list \<Rightarrow> string" where
  "join_data [] = []"
| "join_data [l] = l"
| "join_data (l # ls) = l @ [CHR 0x0A] @ join_data ls"

definition decode_block :: "(string \<Rightarrow> json option) \<Rightarrow> string \<Rightarrow> (string \<times> json) list option" where
  "decode_block loads block =
     (if sse_data_lines block = [] then None
      else (case loads (join_data (sse_data_lines block)) of Some (JObj kvs) \<Rightarrow> Some kvs | _ \<Rightarrow> None))"

definition sse_feed ::
  "(string \<Rightarrow> json option) \<Rightarrow> (string \<Rightarrow> string) \<Rightarrow> string \<Rightarrow> string \<Rightarrow> (string \<times> json) list list \<times> string" where
  "sse_feed loads decode buffer chunk =
     (let blocks = split_blocks (buffer @ replace_crlf (decode chunk))
      in (List.map_filter (decode_block loads) (butlast blocks), last blocks))"

section \<open>Tool-call fragments\<close>

record call_slot =
  sl_id :: json
  sl_type :: json
  sl_name :: string
  sl_arguments :: string

definition empty_tool_call_slot :: call_slot where
  "empty_tool_call_slot = \<lparr>sl_id = JNull, sl_type = JStr ''function'', sl_name = [], sl_arguments = []\<rparr>"

definition slot_json :: "call_slot \<Rightarrow> json" where
  "slot_json s = JObj [(''id'', sl_id s), (''type'', sl_type s),
     (''function'', JObj [(''name'', JStr (sl_name s)), (''arguments'', JStr (sl_arguments s))])]"

text \<open>A \<open>TypeError\<close> or \<open>ValueError\<close> gives slot 0; an infinite index raises.\<close>

definition tool_call_fragment_index :: "(string \<times> json) list \<Rightarrow> int option" where
  "tool_call_fragment_index fragment =
     (case py_int (or_json (dict_get fragment ''index'') (JInt 0)) of
        Inr n \<Rightarrow> Some n | Inl overflow \<Rightarrow> if overflow then None else Some 0)"

definition merge_tool_call_fragment ::
  "(json \<Rightarrow> string) \<Rightarrow> call_slot \<Rightarrow> (string \<times> json) list \<Rightarrow> (call_slot \<times> string) option" where
  "merge_tool_call_fragment py_str s fragment =
     map_option (\<lambda>fn.
       (let name = (if truthy (dict_get fn ''name'') then text_of py_str (dict_get fn ''name'') else []);
            delta = (if truthy (dict_get fn ''arguments'') then text_of py_str (dict_get fn ''arguments'') else [])
        in (\<lparr>sl_id = or_json (dict_get fragment ''id'') (sl_id s), sl_type = or_json (dict_get fragment ''type'') (sl_type s),
             sl_name = sl_name s @ name, sl_arguments = sl_arguments s @ delta\<rparr>, delta)))
     (as_dict_or_empty (dict_get fragment ''function''))"

definition json_object :: "(string \<Rightarrow> json option) \<Rightarrow> json \<Rightarrow> json" where
  "json_object loads v =
     (case v of
        JObj kvs \<Rightarrow> v
      | JStr s \<Rightarrow> if s = [] then JObj [] else (case loads s of Some (JObj kvs) \<Rightarrow> JObj kvs | _ \<Rightarrow> JObj [])
      | _ \<Rightarrow> JObj [])"

section \<open>Completions in the dialect of the caller\<close>

definition anthropic_stop_reason :: "json \<Rightarrow> json \<Rightarrow> json option" where
  "anthropic_stop_reason finish_reason tool_calls =
     (if truthy tool_calls then Some (JStr ''tool_use'')
      else (case or_json finish_reason (JStr ''stop'') of
              JList _ \<Rightarrow> None | JObj _ \<Rightarrow> None
            | key \<Rightarrow> Some (JStr (if key = JStr ''length'' then ''max_tokens'' else ''end_turn''))))"

definition anthropic_usage :: "canonical_usage \<Rightarrow> json" where
  "anthropic_usage u =
     JObj [(''input_tokens'', JInt (cu_input_tokens u)), (''cache_creation_input_tokens'', JInt 0),
           (''cache_read_input_tokens'', JInt (cu_cached_tokens u)), (''output_tokens'', JInt (cu_output_tokens u))]"

definition tool_use_block :: "(string \<Rightarrow> json option) \<Rightarrow> int \<Rightarrow> json \<Rightarrow> json option" where
  "tool_use_block loads now_ms call =
     map_option (\<lambda>(c, fn). JObj [(''type'', JStr ''tool_use''),
         (''id'', or_json (dict_get c ''id'') (JStr (''toolu_varsten_'' @ int_text now_ms))),
         (''name'', or_json (dict_get fn ''name'') (JStr [])), (''input'', json_object loads (dict_get fn ''arguments''))])
       (call_function call)"

definition completion_to_anthropic ::
  "(string \<Rightarrow> json option) \<Rightarrow> int \<Rightarrow> canonical_completion \<Rightarrow> (string \<times> json) list option" where
  "completion_to_anthropic loads now_ms c =
     do { calls \<leftarrow> iterate_or_empty (cc_tool_calls c);
          uses \<leftarrow> those (map (tool_use_block loads now_ms) calls);
          stop_reason \<leftarrow> anthropic_stop_reason (cc_finish_reason c) (cc_tool_calls c);
          (let content = (if truthy (cc_content c) then [text_block_of (cc_content c)] else []) @ uses
           in Some [(''id'', JStr (''msg_varsten_'' @ int_text now_ms)), (''type'', JStr ''message''),
                (''role'', JStr ''assistant''), (''model'', cc_model c),
                (''content'', JList (if content \<noteq> [] then content else [text_block_of (JStr [])])),
                (''stop_reason'', stop_reason), (''stop_sequence'', JNull), (''usage'', anthropic_usage (cc_usage c))]) }"

definition gemini_finish_text :: "json \<Rightarrow> json option" where
  "gemini_finish_text finish_reason =
     (case or_json finish_reason (JStr ''stop'') of
        JList _ \<Rightarrow> None | JObj _ \<Rightarrow> None
      | key \<Rightarrow> Some (JStr (if key = JStr ''length'' then ''MAX_TOKENS'' else if key = JStr ''content_filter'' then ''SAFETY''
                  else ''STOP'')))"

definition gemini_usage :: "canonical_usage \<Rightarrow> json" where
  "gemini_usage u =
     JObj ([(''promptTokenCount'', JInt (cu_input_tokens u)), (''candidatesTokenCount'', JInt (cu_output_tokens u)),
            (''totalTokenCount'', JInt (cu_input_tokens u + cu_output_tokens u))] @
           (if cu_cached_tokens u \<noteq> 0 then [(''cachedContentTokenCount'', JInt (cu_cached_tokens u))] else []))"

definition gemini_tool_part :: "(string \<Rightarrow> json option) \<Rightarrow> json \<Rightarrow> json option" where
  "gemini_tool_part loads call =
     map_option (\<lambda>(c, fn). JObj [(''functionCall'', JObj [(''name'', or_json (dict_get fn ''name'') (JStr [])),
         (''args'', json_object loads (dict_get fn ''arguments''))])])
       (call_function call)"

definition gemini_tool_parts :: "(string \<Rightarrow> json option) \<Rightarrow> json list \<Rightarrow> json list option" where
  "gemini_tool_parts loads calls = those (map (gemini_tool_part loads) calls)"

definition text_part :: "json \<Rightarrow> json" where
  "text_part t = JObj [(''text'', t)]"

definition completion_to_gemini :: "(string \<Rightarrow> json option) \<Rightarrow> canonical_completion \<Rightarrow> (string \<times> json) list option" where
  "completion_to_gemini loads c =
     do { calls \<leftarrow> iterate_or_empty (cc_tool_calls c);
          uses \<leftarrow> gemini_tool_parts loads calls;
          finish \<leftarrow> gemini_finish_text (cc_finish_reason c);
          (let parts = (if truthy (cc_content c) then [text_part (cc_content c)] else []) @ uses
           in Some [(''candidates'', JList [JObj [(''content'', JObj [(''role'', JStr ''model''),
                  (''parts'', JList (if parts \<noteq> [] then parts else [text_part (JStr [])]))]),
                (''finishReason'', finish), (''index'', JInt 0)]]),
              (''usageMetadata'', gemini_usage (cc_usage c)), (''modelVersion'', cc_model c)]) }"

definition render_completion_for_client ::
  "(string \<Rightarrow> json option) \<Rightarrow> int \<Rightarrow> parsed_request \<Rightarrow> canonical_completion \<Rightarrow> (string \<times> json) list option" where
  "render_completion_for_client loads now_ms parsed c =
     (case pr_dialect parsed of
        OpenAI \<Rightarrow> Some (completion_payload now_ms c)
      | Anthropic \<Rightarrow> completion_to_anthropic loads now_ms c
      | Gemini_Native \<Rightarrow> completion_to_gemini loads c)"

section \<open>Generators\<close>

text \<open>A generator run to its end or to an exception: the events it yielded, and the state it left, if it did.\<close>

type_synonym ('e, 'a) emit = "'e list \<times> 'a option"

definition then_emit :: "('e, 'a) emit \<Rightarrow> ('a \<Rightarrow> ('e, 'b) emit) \<Rightarrow> ('e, 'b) emit" where
  "then_emit m f =
     (case m of
        (es, None) \<Rightarrow> (es, None)
      | (es, Some a) \<Rightarrow> (case f a of (es', r) \<Rightarrow> (es @ es', r)))"

fun emit_all :: "('s \<Rightarrow> 'x \<Rightarrow> ('e, 's) emit) \<Rightarrow> 'x list \<Rightarrow> 's \<Rightarrow> ('e, 's) emit" where
  "emit_all f [] s = ([], Some s)"
| "emit_all f (x # xs) s = then_emit (f s x) (emit_all f xs)"

definition sse_json :: "(json \<Rightarrow> string) \<Rightarrow> string \<Rightarrow> (string \<times> json) list \<Rightarrow> string" where
  "sse_json dumps event payload =
     (if event \<noteq> [] then ''event: '' @ event @ [CHR 0x0A] else []) @ sse_line (dumps (JObj payload))"

section \<open>Streams to Anthropic clients\<close>

datatype anthropic_event =
    Message_Start json canonical_usage
  | Block_Start nat json
  | Text_Delta nat json
  | Input_Delta nat string
  | Block_Stop nat
  | Message_Delta json int
  | Message_Stop

definition event_of :: "string \<Rightarrow> (string \<times> json) list \<Rightarrow> string \<times> (string \<times> json) list" where
  "event_of name members = (name, (''type'', JStr name) # members)"

fun anthropic_event_payload :: "int \<Rightarrow> anthropic_event \<Rightarrow> string \<times> (string \<times> json) list" where
  "anthropic_event_payload now_ms (Message_Start model usage) =
     event_of ''message_start'' [(''message'', JObj [(''id'', JStr (''msg_varsten_'' @ int_text now_ms)),
       (''type'', JStr ''message''), (''role'', JStr ''assistant''), (''content'', JList []), (''model'', model),
       (''stop_reason'', JNull), (''stop_sequence'', JNull), (''usage'', anthropic_usage usage)])]"
| "anthropic_event_payload now_ms (Block_Start i block) =
     event_of ''content_block_start'' [(''index'', JInt (int i)), (''content_block'', block)]"
| "anthropic_event_payload now_ms (Text_Delta i text) =
     event_of ''content_block_delta'' [(''index'', JInt (int i)),
       (''delta'', JObj [(''type'', JStr ''text_delta''), (''text'', text)])]"
| "anthropic_event_payload now_ms (Input_Delta i partial) =
     event_of ''content_block_delta'' [(''index'', JInt (int i)),
       (''delta'', JObj [(''type'', JStr ''input_json_delta''), (''partial_json'', JStr partial)])]"
| "anthropic_event_payload now_ms (Block_Stop i) = event_of ''content_block_stop'' [(''index'', JInt (int i))]"
| "anthropic_event_payload now_ms (Message_Delta stop_reason output_tokens) =
     event_of ''message_delta'' [(''delta'', JObj [(''stop_reason'', stop_reason), (''stop_sequence'', JNull)]),
       (''usage'', JObj [(''output_tokens'', JInt output_tokens)])]"
| "anthropic_event_payload now_ms Message_Stop = event_of ''message_stop'' []"

definition render_event :: "(json \<Rightarrow> string) \<Rightarrow> int \<Rightarrow> anthropic_event \<Rightarrow> string" where
  "render_event dumps now_ms e = (case anthropic_event_payload now_ms e of (name, payload) \<Rightarrow> sse_json dumps name payload)"

record anthropic_renderer =
  ar_buffer :: string
  ar_model :: json
  ar_message_started :: bool
  ar_content_started :: bool
  ar_text_block :: "nat option"
  ar_next_block :: nat
  ar_slots :: "(int \<times> call_slot) list"
  ar_tool_blocks :: "(int \<times> nat) list"
  ar_open_tools :: "int list"
  ar_finish_reason :: string
  ar_closed :: bool

definition anthropic_stream_renderer :: "parsed_request \<Rightarrow> anthropic_renderer" where
  "anthropic_stream_renderer parsed =
     \<lparr>ar_buffer = [], ar_model = JStr (case pr_model parsed of None \<Rightarrow> [] | Some m \<Rightarrow> m), ar_message_started = False,
      ar_content_started = False, ar_text_block = None, ar_next_block = 0, ar_slots = [], ar_tool_blocks = [],
      ar_open_tools = [], ar_finish_reason = ''stop'', ar_closed = False\<rparr>"

definition ensure_message_start ::
  "canonical_usage \<Rightarrow> anthropic_renderer \<Rightarrow> (anthropic_event, anthropic_renderer) emit" where
  "ensure_message_start usage r =
     (if ar_message_started r then ([], Some r)
      else ([Message_Start (ar_model r) usage], Some (r\<lparr>ar_message_started := True\<rparr>)))"

definition open_text_block :: "anthropic_renderer \<Rightarrow> (anthropic_event, anthropic_renderer) emit" where
  "open_text_block r =
     (case ar_text_block r of
        Some i \<Rightarrow> ([], Some r)
      | None \<Rightarrow>
          ([Block_Start (ar_next_block r) (text_block_of (JStr []))],
           Some (r\<lparr>ar_text_block := Some (ar_next_block r), ar_next_block := ar_next_block r + 1, ar_content_started := True\<rparr>)))"

definition text_delta :: "json \<Rightarrow> anthropic_renderer \<Rightarrow> (anthropic_event, anthropic_renderer) emit" where
  "text_delta text_value r =
     (case ar_text_block r of None \<Rightarrow> ([], Some r) | Some i \<Rightarrow> ([Text_Delta i text_value], Some r))"

definition emit_text :: "json \<Rightarrow> anthropic_renderer \<Rightarrow> (anthropic_event, anthropic_renderer) emit" where
  "emit_text text_value r =
     then_emit (then_emit (ensure_message_start no_usage r) open_text_block) (text_delta text_value)"

definition close_text_block :: "anthropic_renderer \<Rightarrow> (anthropic_event, anthropic_renderer) emit" where
  "close_text_block r =
     (case ar_text_block r of
        None \<Rightarrow> ([], Some r)
      | Some i \<Rightarrow> ([Block_Stop i], Some (r\<lparr>ar_text_block := None\<rparr>)))"

definition open_blocks :: "anthropic_renderer \<Rightarrow> nat list" where
  "open_blocks r = List.map_filter (map_of (ar_tool_blocks r)) (ar_open_tools r)"

definition close_tool_blocks :: "anthropic_renderer \<Rightarrow> (anthropic_event, anthropic_renderer) emit" where
  "close_tool_blocks r = (map Block_Stop (sort (open_blocks r)), Some (r\<lparr>ar_open_tools := []\<rparr>))"

definition open_tool_block ::
  "(string \<Rightarrow> json option) \<Rightarrow> int \<Rightarrow> int \<Rightarrow> call_slot \<Rightarrow> anthropic_renderer \<Rightarrow> (anthropic_event, anthropic_renderer) emit" where
  "open_tool_block loads now_ms i s r =
     (case map_of (ar_tool_blocks r) i of
        Some b \<Rightarrow> ([], Some r)
      | None \<Rightarrow>
          (case tool_use_block loads now_ms (slot_json s) of
             None \<Rightarrow> ([], None)
           | Some block \<Rightarrow>
               ([Block_Start (ar_next_block r) block],
                Some (r\<lparr>ar_tool_blocks := (i, ar_next_block r) # ar_tool_blocks r, ar_open_tools := i # ar_open_tools r,
                        ar_next_block := ar_next_block r + 1\<rparr>))))"

definition input_delta :: "int \<Rightarrow> string \<Rightarrow> anthropic_renderer \<Rightarrow> (anthropic_event, anthropic_renderer) emit" where
  "input_delta i delta r =
     (case map_of (ar_tool_blocks r) i of
        Some b \<Rightarrow> (if delta \<noteq> [] then [Input_Delta b delta] else [], Some r)
      | None \<Rightarrow> ([], Some r))"

definition emit_fragment ::
  "(string \<Rightarrow> json option) \<Rightarrow> (json \<Rightarrow> string) \<Rightarrow> int \<Rightarrow> anthropic_renderer \<Rightarrow> json \<Rightarrow> (anthropic_event, anthropic_renderer) emit" where
  "emit_fragment loads py_str now_ms r fragment =
     (case fragment of
        JObj f \<Rightarrow>
          (case tool_call_fragment_index f of
             None \<Rightarrow> ([], None)
           | Some i \<Rightarrow>
               (case merge_tool_call_fragment py_str
                       (case map_of (ar_slots r) i of None \<Rightarrow> empty_tool_call_slot | Some s \<Rightarrow> s) f of
                  None \<Rightarrow> ([], None)
                | Some (s, delta) \<Rightarrow>
                    then_emit (open_tool_block loads now_ms i s (r\<lparr>ar_slots := AList.update i s (ar_slots r)\<rparr>))
                      (input_delta i delta)))
      | _ \<Rightarrow> ([], Some r))"

definition emit_tool_call_fragments ::
  "(string \<Rightarrow> json option) \<Rightarrow> (json \<Rightarrow> string) \<Rightarrow> int \<Rightarrow> json list \<Rightarrow> anthropic_renderer \<Rightarrow> (anthropic_event, anthropic_renderer) emit" where
  "emit_tool_call_fragments loads py_str now_ms fragments r =
     then_emit (then_emit (ensure_message_start no_usage r) close_text_block) (emit_all (emit_fragment loads py_str now_ms) fragments)"

definition anthropic_delta ::
  "(string \<Rightarrow> json option) \<Rightarrow> (json \<Rightarrow> string) \<Rightarrow> int \<Rightarrow> (string \<times> json) list \<Rightarrow> anthropic_renderer
    \<Rightarrow> (anthropic_event, anthropic_renderer) emit" where
  "anthropic_delta loads py_str now_ms delta r =
     then_emit
       (then_emit
         (if dict_get delta ''role'' = JStr ''assistant'' then ensure_message_start no_usage r else ([], Some r))
         (\<lambda>r. if truthy (dict_get delta ''content'') then emit_text (JStr (text_of py_str (dict_get delta ''content''))) r
              else ([], Some r)))
       (\<lambda>r. case dict_get delta ''tool_calls'' of
              JList (t # ts) \<Rightarrow> emit_tool_call_fragments loads py_str now_ms (t # ts) r
            | _ \<Rightarrow> ([], Some r))"

definition with_finish_reason :: "(json \<Rightarrow> string) \<Rightarrow> (string \<times> json) list \<Rightarrow> string \<Rightarrow> string" where
  "with_finish_reason py_str choice old =
     (if truthy (dict_get choice ''finish_reason'') then text_of py_str (dict_get choice ''finish_reason'') else old)"

definition anthropic_choice ::
  "(string \<Rightarrow> json option) \<Rightarrow> (json \<Rightarrow> string) \<Rightarrow> int \<Rightarrow> anthropic_renderer \<Rightarrow> json \<Rightarrow> (anthropic_event, anthropic_renderer) emit" where
  "anthropic_choice loads py_str now_ms r choice =
     (case choice of
        JObj c \<Rightarrow>
          (case as_dict_or_empty (dict_get c ''delta'') of
             None \<Rightarrow> ([], None)
           | Some delta \<Rightarrow>
               anthropic_delta loads py_str now_ms delta
                 (r\<lparr>ar_finish_reason := with_finish_reason py_str c (ar_finish_reason r)\<rparr>))
      | _ \<Rightarrow> ([], Some r))"

definition anthropic_payload ::
  "(string \<Rightarrow> json option) \<Rightarrow> (json \<Rightarrow> string) \<Rightarrow> int \<Rightarrow> anthropic_renderer \<Rightarrow> (string \<times> json) list
    \<Rightarrow> (anthropic_event, anthropic_renderer) emit" where
  "anthropic_payload loads py_str now_ms r payload =
     (case iterate_or_empty (dict_get payload ''choices'') of
        None \<Rightarrow> ([], None)
      | Some choices \<Rightarrow>
          emit_all (anthropic_choice loads py_str now_ms) choices
            (r\<lparr>ar_model := or_json (dict_get payload ''model'') (ar_model r)\<rparr>))"

definition anthropic_push ::
  "(string \<Rightarrow> json option) \<Rightarrow> (json \<Rightarrow> string) \<Rightarrow> (string \<Rightarrow> string) \<Rightarrow> int \<Rightarrow> anthropic_renderer \<Rightarrow> string
    \<Rightarrow> (anthropic_event, anthropic_renderer) emit" where
  "anthropic_push loads py_str decode now_ms r chunk =
     (case sse_feed loads decode (ar_buffer r) chunk of
        (payloads, buffer) \<Rightarrow> emit_all (anthropic_payload loads py_str now_ms) payloads (r\<lparr>ar_buffer := buffer\<rparr>))"

definition tool_call_events ::
  "(string \<Rightarrow> json option) \<Rightarrow> int \<Rightarrow> anthropic_renderer \<Rightarrow> json \<Rightarrow> (anthropic_event, anthropic_renderer) emit" where
  "tool_call_events loads now_ms r call =
     (case tool_use_block loads now_ms call of
        None \<Rightarrow> ([], None)
      | Some block \<Rightarrow>
          ([Block_Start (ar_next_block r) block, Block_Stop (ar_next_block r)], Some (r\<lparr>ar_next_block := ar_next_block r + 1\<rparr>)))"

definition whole_tool_calls ::
  "(string \<Rightarrow> json option) \<Rightarrow> int \<Rightarrow> canonical_completion \<Rightarrow> anthropic_renderer \<Rightarrow> (anthropic_event, anthropic_renderer) emit" where
  "whole_tool_calls loads now_ms c r =
     (if ar_tool_blocks r \<noteq> [] then ([], Some r)
      else (case iterate_or_empty (cc_tool_calls c) of
              None \<Rightarrow> ([], None)
            | Some calls \<Rightarrow> emit_all (tool_call_events loads now_ms) calls r))"

definition message_end :: "canonical_completion \<Rightarrow> anthropic_renderer \<Rightarrow> (anthropic_event, anthropic_renderer) emit" where
  "message_end c r =
     (case anthropic_stop_reason (or_json (cc_finish_reason c) (JStr (ar_finish_reason r))) (cc_tool_calls c) of
        None \<Rightarrow> ([], None)
      | Some stop_reason \<Rightarrow>
          ([Message_Delta stop_reason (cu_output_tokens (cc_usage c)), Message_Stop], Some (r\<lparr>ar_closed := True\<rparr>)))"

definition late_text :: "canonical_completion \<Rightarrow> anthropic_renderer \<Rightarrow> (anthropic_event, anthropic_renderer) emit" where
  "late_text c r =
     (if \<not> ar_content_started r \<and> truthy (cc_content c) then emit_text (cc_content c) r else ([], Some r))"

text \<open>\<open>_closed\<close> is set on entry; nobody reads it before the generator ends.\<close>

definition anthropic_finish ::
  "(string \<Rightarrow> json option) \<Rightarrow> int \<Rightarrow> canonical_completion \<Rightarrow> anthropic_renderer \<Rightarrow> (anthropic_event, anthropic_renderer) emit" where
  "anthropic_finish loads now_ms c r =
     (if ar_closed r then ([], Some r)
      else then_emit (then_emit (then_emit (then_emit (then_emit
             (ensure_message_start (cc_usage c) (r\<lparr>ar_model := or_json (cc_model c) (ar_model r)\<rparr>))
             (late_text c)) close_text_block) close_tool_blocks) (whole_tool_calls loads now_ms c)) (message_end c))"

section \<open>Streams to Gemini clients\<close>

record gemini_renderer =
  gr_buffer :: string
  gr_model :: json
  gr_finish_reason :: string
  gr_emitted_content :: bool
  gr_slots :: "(int \<times> call_slot) list"
  gr_closed :: bool

definition gemini_stream_renderer :: "parsed_request \<Rightarrow> gemini_renderer" where
  "gemini_stream_renderer parsed =
     \<lparr>gr_buffer = [], gr_model = JStr (case pr_model parsed of None \<Rightarrow> [] | Some m \<Rightarrow> m), gr_finish_reason = ''stop'',
      gr_emitted_content = False, gr_slots = [], gr_closed = False\<rparr>"

text \<open>The payload of one event; the finish reason and the usage stand in the last one only.\<close>

definition gemini_sse :: "json list \<Rightarrow> json \<Rightarrow> json option \<Rightarrow> canonical_usage option \<Rightarrow> (string \<times> json) list" where
  "gemini_sse parts model finish_reason usage =
     [(''candidates'', JList [JObj ([(''content'', JObj [(''role'', JStr ''model''), (''parts'', JList parts)]), (''index'', JInt 0)] @
         (case finish_reason of None \<Rightarrow> [] | Some fr \<Rightarrow> [(''finishReason'', fr)]))]),
      (''modelVersion'', model)] @
     (case usage of None \<Rightarrow> [] | Some u \<Rightarrow> [(''usageMetadata'', gemini_usage u)])"

definition gemini_fragment :: "(json \<Rightarrow> string) \<Rightarrow> gemini_renderer \<Rightarrow> json \<Rightarrow> ((string \<times> json) list, gemini_renderer) emit" where
  "gemini_fragment py_str r fragment =
     (case fragment of
        JObj f \<Rightarrow>
          (case tool_call_fragment_index f of
             None \<Rightarrow> ([], None)
           | Some i \<Rightarrow>
               (case merge_tool_call_fragment py_str
                       (case map_of (gr_slots r) i of None \<Rightarrow> empty_tool_call_slot | Some s \<Rightarrow> s) f of
                  None \<Rightarrow> ([], None)
                | Some (s, delta) \<Rightarrow> ([], Some (r\<lparr>gr_slots := AList.update i s (gr_slots r)\<rparr>))))
      | _ \<Rightarrow> ([], Some r))"

definition gemini_content :: "(json \<Rightarrow> string) \<Rightarrow> (string \<times> json) list \<Rightarrow> gemini_renderer
    \<Rightarrow> ((string \<times> json) list, gemini_renderer) emit" where
  "gemini_content py_str delta r =
     (if truthy (dict_get delta ''content'')
      then ([gemini_sse [text_part (JStr (text_of py_str (dict_get delta ''content'')))] (gr_model r) None None],
            Some (r\<lparr>gr_emitted_content := True\<rparr>))
      else ([], Some r))"

definition gemini_choice :: "(json \<Rightarrow> string) \<Rightarrow> gemini_renderer \<Rightarrow> json \<Rightarrow> ((string \<times> json) list, gemini_renderer) emit" where
  "gemini_choice py_str r choice =
     (case choice of
        JObj c \<Rightarrow>
          (case as_dict_or_empty (dict_get c ''delta'') of
             None \<Rightarrow> ([], None)
           | Some delta \<Rightarrow>
               then_emit (gemini_content py_str delta (r\<lparr>gr_finish_reason := with_finish_reason py_str c (gr_finish_reason r)\<rparr>))
                 (case dict_get delta ''tool_calls'' of JList ts \<Rightarrow> emit_all (gemini_fragment py_str) ts | _ \<Rightarrow> (\<lambda>r. ([], Some r))))
      | _ \<Rightarrow> ([], Some r))"

definition gemini_payload ::
  "(json \<Rightarrow> string) \<Rightarrow> gemini_renderer \<Rightarrow> (string \<times> json) list \<Rightarrow> ((string \<times> json) list, gemini_renderer) emit" where
  "gemini_payload py_str r payload =
     (case iterate_or_empty (dict_get payload ''choices'') of
        None \<Rightarrow> ([], None)
      | Some choices \<Rightarrow>
          emit_all (gemini_choice py_str) choices (r\<lparr>gr_model := or_json (dict_get payload ''model'') (gr_model r)\<rparr>))"

definition gemini_push ::
  "(string \<Rightarrow> json option) \<Rightarrow> (json \<Rightarrow> string) \<Rightarrow> (string \<Rightarrow> string) \<Rightarrow> gemini_renderer \<Rightarrow> string
    \<Rightarrow> ((string \<times> json) list, gemini_renderer) emit" where
  "gemini_push loads py_str decode r chunk =
     (case sse_feed loads decode (gr_buffer r) chunk of
        (payloads, buffer) \<Rightarrow> emit_all (gemini_payload py_str) payloads (r\<lparr>gr_buffer := buffer\<rparr>))"

definition gemini_finish ::
  "(string \<Rightarrow> json option) \<Rightarrow> canonical_completion \<Rightarrow> gemini_renderer \<Rightarrow> ((string \<times> json) list, gemini_renderer) emit" where
  "gemini_finish loads c r =
     (if gr_closed r then ([], Some r)
      else (let model = or_json (cc_model c) (gr_model r);
                text_parts = (if \<not> gr_emitted_content r \<and> truthy (cc_content c) then [text_part (cc_content c)] else []);
                calls = (if truthy (cc_tool_calls c) then iterate (cc_tool_calls c)
                         else Some (map (\<lambda>kv. slot_json (snd kv)) (sort_key fst (gr_slots r))))
            in (case (Option.bind calls (gemini_tool_parts loads),
                      gemini_finish_text (or_json (cc_finish_reason c) (JStr (gr_finish_reason r)))) of
                  (Some uses, Some finish) \<Rightarrow>
                    ([gemini_sse (if text_parts @ uses \<noteq> [] then text_parts @ uses else [text_part (JStr [])]) model (Some finish)
                        (Some (cc_usage c))],
                     Some (r\<lparr>gr_closed := True, gr_model := model\<rparr>))
                | _ \<Rightarrow> ([], None))))"

section \<open>Native requests in the OpenAI shape\<close>

definition anthropic_texts :: "(json \<Rightarrow> string) \<Rightarrow> json list \<Rightarrow> string list" where
  "anthropic_texts py_str blocks =
     List.map_filter (\<lambda>b. case b of
         JObj d \<Rightarrow> if dict_get d ''type'' = JStr ''text'' then Some (text_of py_str (or_json (dict_get d ''text'') (JStr []))) else None
       | _ \<Rightarrow> None) blocks"

definition anthropic_content_to_openai :: "(json \<Rightarrow> string) \<Rightarrow> json \<Rightarrow> json" where
  "anthropic_content_to_openai py_str content =
     (case content of
        JStr s \<Rightarrow> JStr s
      | JList blocks \<Rightarrow>
          (case anthropic_texts py_str blocks of
             [t] \<Rightarrow> JStr t
           | ts \<Rightarrow> JList (map (\<lambda>t. text_block_of (JStr t)) ts))
      | _ \<Rightarrow> JStr [])"

definition anthropic_content_text :: "(json \<Rightarrow> string) \<Rightarrow> json \<Rightarrow> string" where
  "anthropic_content_text py_str content =
     (case anthropic_content_to_openai py_str content of
        JStr s \<Rightarrow> s
      | JList parts \<Rightarrow>
          concat (map (\<lambda>p. case p of JObj d \<Rightarrow> (case dict_get_default d ''text'' (JStr []) of JStr t \<Rightarrow> t | _ \<Rightarrow> []) | _ \<Rightarrow> []) parts)
      | _ \<Rightarrow> [])"

definition blocks_of_type :: "string \<Rightarrow> json \<Rightarrow> (string \<times> json) list list" where
  "blocks_of_type block_type content =
     (case content of
        JList blocks \<Rightarrow>
          List.map_filter (\<lambda>b. case b of JObj d \<Rightarrow> if dict_get d ''type'' = JStr block_type then Some d else None | _ \<Rightarrow> None) blocks
      | _ \<Rightarrow> [])"

definition anthropic_content_has_type :: "json \<Rightarrow> string \<Rightarrow> bool" where
  "anthropic_content_has_type content block_type \<longleftrightarrow> blocks_of_type block_type content \<noteq> []"

definition anthropic_tool_results_to_openai :: "(json \<Rightarrow> string) \<Rightarrow> json \<Rightarrow> json list" where
  "anthropic_tool_results_to_openai py_str content =
     map (\<lambda>d. JObj [(''role'', JStr ''tool''), (''tool_call_id'', or_json (dict_get d ''tool_use_id'') (JStr [])),
         (''content'', JStr (anthropic_content_text py_str (dict_get d ''content'')))])
       (blocks_of_type ''tool_result'' content)"

definition anthropic_assistant_tool_use_to_openai :: "(json \<Rightarrow> string) \<Rightarrow> (json \<Rightarrow> string) \<Rightarrow> json \<Rightarrow> json" where
  "anthropic_assistant_tool_use_to_openai dumps py_str content =
     JObj [(''role'', JStr ''assistant''), (''content'', or_json (JStr (anthropic_content_text py_str content)) JNull),
           (''tool_calls'', JList (map (openai_tool_call dumps) (blocks_of_type ''tool_use'' content)))]"

text \<open>The role is looked up in a set, so a list or a dictionary there raises.\<close>

definition anthropic_message_to_openai ::
  "(json \<Rightarrow> string) \<Rightarrow> (json \<Rightarrow> string) \<Rightarrow> (string \<times> json) list \<Rightarrow> json list option" where
  "anthropic_message_to_openai dumps py_str message =
     (let role = dict_get message ''role''; content = dict_get message ''content''
      in if role = JStr ''user'' \<and> anthropic_content_has_type content ''tool_result''
         then Some (anthropic_tool_results_to_openai py_str content)
         else if role = JStr ''assistant'' \<and> anthropic_content_has_type content ''tool_use''
         then Some [anthropic_assistant_tool_use_to_openai dumps py_str content]
         else (case role of
                 JList _ \<Rightarrow> None | JObj _ \<Rightarrow> None
               | _ \<Rightarrow> Some (if role \<in> {JStr ''user'', JStr ''assistant''}
                   then [JObj [(''role'', role), (''content'', anthropic_content_to_openai py_str content)]] else [])))"

definition function_tool :: "(string \<times> json) list \<Rightarrow> string \<Rightarrow> json" where
  "function_tool tool schema_key =
     JObj [(''type'', JStr ''function''), (''function'', JObj [(''name'', or_json (dict_get tool ''name'') (JStr [])),
       (''description'', or_json (dict_get tool ''description'') (JStr [])),
       (''parameters'', or_json (dict_get tool schema_key) (JObj [(''type'', JStr ''object'')]))])]"

definition anthropic_tools_to_openai :: "json list \<Rightarrow> json list" where
  "anthropic_tools_to_openai tools =
     List.map_filter (\<lambda>t. case t of
         JObj d \<Rightarrow> if truthy (dict_get d ''type'') then None else Some (function_tool d ''input_schema'') | _ \<Rightarrow> None) tools"

definition dicts_of :: "json list \<Rightarrow> (string \<times> json) list list" where
  "dicts_of vs = List.map_filter (\<lambda>v. case v of JObj d \<Rightarrow> Some d | _ \<Rightarrow> None) vs"

definition openai_body ::
  "json \<Rightarrow> json list \<Rightarrow> bool \<Rightarrow> json option \<Rightarrow> json option \<Rightarrow> json list \<Rightarrow> (string \<times> json) list" where
  "openai_body model messages stream max_tokens temperature tools =
     [(''model'', model), (''messages'', JList messages), (''stream'', JBool stream)] @
     (case max_tokens of None \<Rightarrow> [] | Some v \<Rightarrow> [(''max_tokens'', v)]) @
     (case temperature of None \<Rightarrow> [] | Some v \<Rightarrow> [(''temperature'', v)]) @
     (if tools \<noteq> [] then [(''tools'', JList tools)] else [])"

definition system_messages :: "string \<Rightarrow> json list" where
  "system_messages t = [JObj [(''role'', JStr ''system''), (''content'', JStr t)]]"

definition anthropic_request_to_openai ::
  "(json \<Rightarrow> string) \<Rightarrow> (json \<Rightarrow> string) \<Rightarrow> (string \<times> json) list \<Rightarrow> (string \<times> json) list option" where
  "anthropic_request_to_openai dumps py_str body =
     do { raw_messages \<leftarrow> iterate_or_empty (dict_get body ''messages'');
          messages \<leftarrow> those (map (anthropic_message_to_openai dumps py_str) (dicts_of raw_messages));
          raw_tools \<leftarrow> iterate_or_empty (dict_get body ''tools'');
          Some (openai_body (or_json (dict_get body ''model'') (JStr []))
            ((if truthy (dict_get body ''system'') then system_messages (anthropic_content_text py_str (dict_get body ''system'')) else [])
              @ concat messages)
            (truthy (dict_get body ''stream'')) (map_of body ''max_tokens'') (map_of body ''temperature'')
            (anthropic_tools_to_openai raw_tools)) }"

definition gemini_system_text :: "(json \<Rightarrow> string) \<Rightarrow> json \<Rightarrow> string option" where
  "gemini_system_text py_str instruction =
     (case instruction of
        JObj d \<Rightarrow>
          map_option (\<lambda>parts. concat (map (\<lambda>p. if truthy (dict_get p ''text'') then text_of py_str (dict_get p ''text'') else [])
              (dicts_of parts)))
            (iterate_or_empty (dict_get d ''parts''))
      | _ \<Rightarrow> Some [])"

definition gemini_response_message :: "(json \<Rightarrow> string) \<Rightarrow> (json \<Rightarrow> string) \<Rightarrow> (string \<times> json) list \<Rightarrow> json" where
  "gemini_response_message dumps py_str response =
     JObj [(''role'', JStr ''tool''),
           (''tool_call_id'', JStr (''call_'' @ text_of py_str (or_json (dict_get response ''name'') (JStr ''gemini'')))),
           (''content'', JStr (dumps (or_json (dict_get response ''response'') (JObj []))))]"

datatype content_piece = Text_Piece string | Call_Piece json | Response_Piece json | No_Piece

text \<open>The first of text, call and response that a part has.\<close>

definition gemini_piece :: "(json \<Rightarrow> string) \<Rightarrow> (json \<Rightarrow> string) \<Rightarrow> (string \<times> json) list \<Rightarrow> content_piece" where
  "gemini_piece dumps py_str part =
     (if truthy (dict_get part ''text'') then Text_Piece (text_of py_str (dict_get part ''text''))
      else (case dict_get part ''functionCall'' of
              JObj c \<Rightarrow> (case gemini_tool_call dumps py_str (JObj c) of Some call \<Rightarrow> Call_Piece call | None \<Rightarrow> No_Piece)
            | _ \<Rightarrow> (case dict_get part ''functionResponse'' of
                      JObj r \<Rightarrow> Response_Piece (gemini_response_message dumps py_str r)
                    | _ \<Rightarrow> No_Piece)))"

definition gemini_content_to_openai ::
  "(json \<Rightarrow> string) \<Rightarrow> (json \<Rightarrow> string) \<Rightarrow> (string \<times> json) list \<Rightarrow> json list option" where
  "gemini_content_to_openai dumps py_str content =
     map_option (\<lambda>parts.
       (let pieces = map (gemini_piece dumps py_str) (dicts_of parts);
            texts = concat (map (\<lambda>p. case p of Text_Piece t \<Rightarrow> t | _ \<Rightarrow> []) pieces);
            calls = List.map_filter (\<lambda>p. case p of Call_Piece c \<Rightarrow> Some c | _ \<Rightarrow> None) pieces;
            responses = List.map_filter (\<lambda>p. case p of Response_Piece r \<Rightarrow> Some r | _ \<Rightarrow> None) pieces
        in if responses \<noteq> [] then responses
           else [JObj ([(''role'', JStr (if dict_get content ''role'' = JStr ''model'' then ''assistant'' else ''user'')),
                        (''content'', or_json (JStr texts) JNull)] @
                       (if calls \<noteq> [] then [(''tool_calls'', JList calls)] else []))]))
     (iterate_or_empty (dict_get content ''parts''))"

definition gemini_tools_to_openai :: "json list \<Rightarrow> json list option" where
  "gemini_tools_to_openai tools =
     map_option (\<lambda>ds. map (\<lambda>d. function_tool d ''parameters'') (dicts_of (concat ds)))
       (those (map (\<lambda>t. iterate_or_empty (dict_get t ''functionDeclarations'')) (dicts_of tools)))"

definition gemini_request_to_openai ::
  "(json \<Rightarrow> string) \<Rightarrow> (json \<Rightarrow> string) \<Rightarrow> (string \<times> json) list \<Rightarrow> string option \<Rightarrow> bool \<Rightarrow> (string \<times> json) list option" where
  "gemini_request_to_openai dumps py_str body model stream =
     do { system \<leftarrow> gemini_system_text py_str (dict_get body ''systemInstruction'');
          raw_contents \<leftarrow> iterate_or_empty (dict_get body ''contents'');
          messages \<leftarrow> those (map (gemini_content_to_openai dumps py_str) (dicts_of raw_contents));
          raw_tools \<leftarrow> iterate_or_empty (dict_get body ''tools'');
          tools \<leftarrow> gemini_tools_to_openai raw_tools;
          (let generation = (case dict_get body ''generationConfig'' of JObj g \<Rightarrow> g | _ \<Rightarrow> [])
           in Some (openai_body (JStr (case model of None \<Rightarrow> [] | Some m \<Rightarrow> m))
                ((if system \<noteq> [] then system_messages system else []) @ concat messages) stream
                (map_of generation ''maxOutputTokens'') (map_of generation ''temperature'') tools)) }"

definition request_to_openai_shape ::
  "(json \<Rightarrow> string) \<Rightarrow> (json \<Rightarrow> string) \<Rightarrow> parsed_request \<Rightarrow> (string \<times> json) list option" where
  "request_to_openai_shape dumps py_str parsed =
     (case pr_dialect parsed of
        OpenAI \<Rightarrow> Some (pr_body parsed)
      | Anthropic \<Rightarrow> anthropic_request_to_openai dumps py_str (pr_body parsed)
      | Gemini_Native \<Rightarrow> gemini_request_to_openai dumps py_str (pr_body parsed) (pr_model parsed) (pr_stream parsed))"

section \<open>The decoder does not depend on the chunks\<close>

lemma split_blocks_not_Nil [simp]: "split_blocks s \<noteq> []" "push_char c bs \<noteq> []"
proof -
  show push: "push_char c bs \<noteq> []" for c bs by (simp add: push_char_def split: list.split)
  show "split_blocks s \<noteq> []" by (induction s rule: split_blocks.induct) (simp_all add: push)
qed

lemma push_char_append: "bs \<noteq> [] \<Longrightarrow> push_char c (bs @ cs) = push_char c bs @ cs"
  by (cases bs) (simp_all add: push_char_def)

lemma last_push_char: "last (push_char c bs) = (if length bs \<le> 1 then c # concat bs else last bs)"
  by (cases bs) (auto simp: push_char_def)

lemma butlast_push_char: "butlast (push_char c bs) = (if length bs \<le> 1 then [] else push_char c (butlast bs))"
  by (cases bs) (auto simp: push_char_def)

text \<open>What is left of a text starts no earlier separator: splitting it again with more text is splitting all.\<close>

lemma split_blocks_append:
  "split_blocks (a @ b) = butlast (split_blocks a) @ split_blocks (last (split_blocks a) @ b)"
proof (induction a rule: split_blocks.induct)
  case (1 c d cs)
  show ?case
  proof (cases "c = CHR 0x0A \<and> d = CHR 0x0A")
    case True
    then show ?thesis using 1(1) by simp
  next
    case False
    note ih = 1(2) [OF False]
    let ?s = "split_blocks (d # cs)"
    show ?thesis
    proof (cases "length ?s \<le> 1")
      case True
      then obtain w where w: "?s = [w]" by (cases ?s) auto
      have "split_blocks ((c # d # cs) @ b) = push_char c (split_blocks (d # cs @ b))"
        by (simp only: append_Cons split_blocks.simps False if_False)
      also have "split_blocks (d # cs @ b) = split_blocks (w @ b)" using ih w by simp
      finally have lhs: "split_blocks ((c # d # cs) @ b) = push_char c (split_blocks (w @ b))" .
      have "hd (w @ b) = d \<and> w \<noteq> []" using w
        by (cases cs) (auto simp: push_char_def split: list.splits if_splits)
      then obtain w' where "w = d # w'" by (cases w) auto
      then have rhs: "split_blocks ((c # w) @ b) = push_char c (split_blocks (w @ b))"
        by (simp only: append_Cons split_blocks.simps False if_False)
      have "split_blocks (c # d # cs) = [c # w]" by (simp only: split_blocks.simps False if_False w push_char_def list.case)
      note whole = this
      show ?thesis unfolding whole lhs using rhs by simp
    next
      case long: False
      have "split_blocks ((c # d # cs) @ b) = push_char c (split_blocks ((d # cs) @ b))"
        by (simp only: append_Cons split_blocks.simps False if_False)
      also have "\<dots> = push_char c (butlast ?s @ split_blocks (last ?s @ b))" by (simp only: ih)
      also have "\<dots> = push_char c (butlast ?s) @ split_blocks (last ?s @ b)"
        using long by (intro push_char_append) (cases ?s, auto)
      finally have lhs: "split_blocks ((c # d # cs) @ b) = push_char c (butlast ?s) @ split_blocks (last ?s @ b)" .
      have "split_blocks (c # d # cs) = push_char c ?s" by (simp only: split_blocks.simps False if_False)
      note whole = this
      show ?thesis unfolding whole lhs using long by (simp add: last_push_char butlast_push_char del: split_blocks.simps)
    qed
  qed
qed simp_all

lemma map_filter_append: "List.map_filter f (xs @ ys) = List.map_filter f xs @ List.map_filter f ys"
  by (simp add: List.map_filter_def)

definition sse_feed_all ::
  "(string \<Rightarrow> json option) \<Rightarrow> (string \<Rightarrow> string) \<Rightarrow> string list \<Rightarrow> string \<Rightarrow> (string \<times> json) list list \<times> string" where
  "sse_feed_all loads decode chunks buffer =
     fold (\<lambda>chunk (ps, buf). case sse_feed loads decode buf chunk of (ps', buf') \<Rightarrow> (ps @ ps', buf')) chunks ([], buffer)"

lemma sse_feed_all_text:
  assumes "split_blocks buffer = [buffer]"
  shows "sse_feed_all loads decode chunks buffer =
     (let blocks = split_blocks (buffer @ concat (map (\<lambda>c. replace_crlf (decode c)) chunks))
      in (List.map_filter (decode_block loads) (butlast blocks), last blocks))"
proof (induction chunks rule: rev_induct)
  case Nil
  show ?case by (simp add: sse_feed_all_def assms)
next
  case (snoc c chunks)
  define seen where "seen = buffer @ concat (map (\<lambda>c. replace_crlf (decode c)) chunks)"
  have "sse_feed_all loads decode (chunks @ [c]) buffer =
      (case sse_feed_all loads decode chunks buffer of (ps, buf) \<Rightarrow> case sse_feed loads decode buf c of (ps', buf') \<Rightarrow> (ps @ ps', buf'))"
    by (simp add: sse_feed_all_def)
  moreover have "buffer @ concat (map (\<lambda>c. replace_crlf (decode c)) (chunks @ [c])) = seen @ replace_crlf (decode c)"
    by (simp add: seen_def)
  ultimately show ?case
    using snoc split_blocks_append [of seen "replace_crlf (decode c)"]
    by (simp add: seen_def [symmetric] sse_feed_def Let_def butlast_append map_filter_append del: map_append)
qed

lemma sse_feed_all_Cons:
  "sse_feed_all loads decode (chunk # chunks) buffer =
     (case sse_feed loads decode buffer chunk of (ps, buf) \<Rightarrow>
       (ps @ fst (sse_feed_all loads decode chunks buf), snd (sse_feed_all loads decode chunks buf)))"
proof -
  let ?F = "\<lambda>chunk (ps, buf). case sse_feed loads decode buf chunk of (ps', buf') \<Rightarrow> (ps @ ps', buf')"
  have acc: "fold ?F cs (ps0, b) = (ps0 @ fst (fold ?F cs ([], b)), snd (fold ?F cs ([], b)))" for cs ps0 b
  proof (induction cs arbitrary: ps0 b)
    case (Cons c cs)
    obtain p' b' where "sse_feed loads decode b c = (p', b')" by (metis prod.exhaust)
    then show ?case using Cons.IH [of "ps0 @ p'" b'] Cons.IH [of p' b'] by simp
  qed simp
  obtain p' b' where "sse_feed loads decode buffer chunk = (p', b')" by (metis prod.exhaust)
  then show ?thesis using acc [of chunks p' b'] by (simp add: sse_feed_all_def)
qed

section \<open>The Anthropic event protocol\<close>

text \<open>
  What a client of the Messages API may rely on: one \<open>message_start\<close> first; blocks numbered 0, 1, 2, ... in the order
  they start; deltas and stops for started blocks that are not stopped; \<open>message_delta\<close> once no block is open;
  \<open>message_stop\<close> last.
\<close>

datatype protocol_state = Awaiting_Message | In_Message nat "nat set" | Delta_Sent | Message_Ended

fun protocol_step :: "protocol_state \<Rightarrow> anthropic_event \<Rightarrow> protocol_state option" where
  "protocol_step Awaiting_Message (Message_Start model usage) = Some (In_Message 0 {})"
| "protocol_step (In_Message n opened) (Block_Start i block) =
     (if i = n then Some (In_Message (n + 1) (insert i opened)) else None)"
| "protocol_step (In_Message n opened) (Text_Delta i t) = (if i \<in> opened then Some (In_Message n opened) else None)"
| "protocol_step (In_Message n opened) (Input_Delta i s) = (if i \<in> opened then Some (In_Message n opened) else None)"
| "protocol_step (In_Message n opened) (Block_Stop i) =
     (if i \<in> opened then Some (In_Message n (opened - {i})) else None)"
| "protocol_step (In_Message n opened) (Message_Delta stop_reason tokens) = (if opened = {} then Some Delta_Sent else None)"
| "protocol_step Delta_Sent Message_Stop = Some Message_Ended"
| "protocol_step _ _ = None"

fun protocol_run :: "protocol_state \<Rightarrow> anthropic_event list \<Rightarrow> protocol_state option" where
  "protocol_run p [] = Some p"
| "protocol_run p (e # es) = (case protocol_step p e of None \<Rightarrow> None | Some p' \<Rightarrow> protocol_run p' es)"

lemma protocol_run_append:
  "protocol_run p (es @ es') = Option.bind (protocol_run p es) (\<lambda>p'. protocol_run p' es')"
  by (induction es arbitrary: p) (auto split: option.split)

text \<open>What a renderer has told its client so far.\<close>

definition client_state :: "anthropic_renderer \<Rightarrow> protocol_state" where
  "client_state r =
     (if ar_closed r then Message_Ended
      else if \<not> ar_message_started r then Awaiting_Message
      else In_Message (ar_next_block r) (set_option (ar_text_block r) \<union> set (open_blocks r)))"

definition renderer_ok :: "anthropic_renderer \<Rightarrow> bool" where
  "renderer_ok r \<longleftrightarrow>
     (\<not> ar_message_started r \<longrightarrow> ar_text_block r = None \<and> ar_tool_blocks r = [] \<and> ar_open_tools r = [] \<and> ar_next_block r = 0) \<and>
     (\<forall>i. ar_text_block r = Some i \<longrightarrow> i < ar_next_block r \<and> i \<notin> snd ` set (ar_tool_blocks r)) \<and>
     (\<forall>b \<in> snd ` set (ar_tool_blocks r). b < ar_next_block r) \<and>
     distinct (map fst (ar_tool_blocks r)) \<and> distinct (map snd (ar_tool_blocks r)) \<and> distinct (ar_open_tools r) \<and>
     (ar_open_tools r = [] \<or> set (ar_open_tools r) = fst ` set (ar_tool_blocks r))"

definition tools_open :: "anthropic_renderer \<Rightarrow> bool" where
  "tools_open r \<longleftrightarrow> set (ar_open_tools r) = fst ` set (ar_tool_blocks r)"

definition streaming :: "anthropic_renderer \<Rightarrow> bool" where
  "streaming r \<longleftrightarrow> renderer_ok r \<and> tools_open r \<and> \<not> ar_closed r"

definition live :: "anthropic_renderer \<Rightarrow> bool" where
  "live r \<longleftrightarrow> streaming r \<and> ar_message_started r"

text \<open>Between the closing of the tool blocks and the end, nothing is open.\<close>

definition ending :: "anthropic_renderer \<Rightarrow> bool" where
  "ending r \<longleftrightarrow> \<not> ar_closed r \<and> ar_message_started r \<and> ar_text_block r = None \<and> ar_open_tools r = []"

text \<open>A generator that keeps the protocol, also when it raises, and leaves a renderer with \<open>Q\<close>.\<close>

definition obeys :: "anthropic_renderer \<Rightarrow> (anthropic_event, anthropic_renderer) emit \<Rightarrow> (anthropic_renderer \<Rightarrow> bool) \<Rightarrow> bool" where
  "obeys r m Q \<longleftrightarrow>
     (\<exists>p. protocol_run (client_state r) (fst m) = Some p \<and> (\<forall>r'. snd m = Some r' \<longrightarrow> client_state r' = p \<and> Q r'))"

lemma obeys_Some [simp]: "obeys r (es, Some r') Q \<longleftrightarrow> protocol_run (client_state r) es = Some (client_state r') \<and> Q r'"
  by (auto simp: obeys_def)

lemma obeys_None [simp]: "obeys r (es, None) Q \<longleftrightarrow> protocol_run (client_state r) es \<noteq> None"
  by (auto simp: obeys_def)

lemma obeys_then:
  assumes "obeys r m Q" "\<And>r'. Q r' \<Longrightarrow> obeys r' (f r') R"
  shows "obeys r (then_emit m f) R"
proof (cases m)
  case (Pair es res)
  show ?thesis
  proof (cases res)
    case None
    then show ?thesis using assms(1) by (simp add: then_emit_def Pair)
  next
    case (Some r')
    then have "protocol_run (client_state r) es = Some (client_state r')" "obeys r' (f r') R"
      using assms by (simp_all add: Pair)
    then show ?thesis using Some by (cases "f r'") (auto simp: obeys_def then_emit_def Pair protocol_run_append)
  qed
qed

lemma obeys_all:
  assumes "\<And>r x. Q r \<Longrightarrow> obeys r (f r x) Q"
  shows "Q r \<Longrightarrow> obeys r (emit_all f xs r) Q"
  by (induction xs arbitrary: r) (auto intro: obeys_then assms)

lemma obeys_weaken: "obeys r m Q \<Longrightarrow> (\<And>r'. Q r' \<Longrightarrow> R r') \<Longrightarrow> obeys r m R"
  by (auto simp: obeys_def)

lemma open_blocks_tools: "set (open_blocks r) \<subseteq> snd ` set (ar_tool_blocks r)"
  by (auto simp: open_blocks_def List.map_filter_def) (metis image_eqI map_of_SomeD snd_conv)

lemma open_blocks_frame [simp]:
  "open_blocks (r\<lparr>ar_text_block := t\<rparr>) = open_blocks r" "open_blocks (r\<lparr>ar_next_block := n\<rparr>) = open_blocks r"
  "open_blocks (r\<lparr>ar_content_started := c\<rparr>) = open_blocks r" "open_blocks (r\<lparr>ar_message_started := c\<rparr>) = open_blocks r"
  "open_blocks (r\<lparr>ar_slots := ss\<rparr>) = open_blocks r" "open_blocks (r\<lparr>ar_closed := c\<rparr>) = open_blocks r"
  "open_blocks (r\<lparr>ar_model := m\<rparr>) = open_blocks r" "open_blocks (r\<lparr>ar_buffer := u\<rparr>) = open_blocks r"
  "open_blocks (r\<lparr>ar_finish_reason := u\<rparr>) = open_blocks r" "open_blocks (r\<lparr>ar_open_tools := []\<rparr>) = []"
  by (simp_all add: open_blocks_def List.map_filter_simps)

lemma open_blocks_allocate:
  assumes "i \<notin> set (ar_open_tools r)"
  shows "open_blocks (r\<lparr>ar_tool_blocks := (i, n) # ar_tool_blocks r, ar_open_tools := i # ar_open_tools r\<rparr>) = n # open_blocks r"
proof -
  have "List.map_filter (map_of ((i, n) # bs)) os = List.map_filter (map_of bs) os" if "i \<notin> set os" for bs os
    using that by (induction os) (auto simp: List.map_filter_simps split: option.split)
  then show ?thesis using assms by (simp add: open_blocks_def List.map_filter_simps)
qed

lemma start_obeys: "streaming r \<Longrightarrow> obeys r (ensure_message_start usage r) live"
  by (auto simp: ensure_message_start_def client_state_def streaming_def live_def tools_open_def renderer_ok_def open_blocks_def
      List.map_filter_simps)

lemma tool_block_bound: "live r \<Longrightarrow> b \<in> snd ` set (ar_tool_blocks r) \<Longrightarrow> b < ar_next_block r"
  by (auto simp: live_def streaming_def renderer_ok_def)

lemma open_text_obeys:
  assumes "live r"
  shows "obeys r (open_text_block r) live"
proof (cases "ar_text_block r")
  case None
  have "renderer_ok (r\<lparr>ar_text_block := Some (ar_next_block r), ar_next_block := Suc (ar_next_block r), ar_content_started := True\<rparr>)"
    using assms tool_block_bound [OF assms] by (auto simp: live_def streaming_def renderer_ok_def less_Suc_eq)
  then show ?thesis using assms None
    by (simp add: open_text_block_def client_state_def live_def streaming_def tools_open_def)
qed (use assms in \<open>simp add: open_text_block_def\<close>)

lemma text_delta_obeys: "live r \<Longrightarrow> obeys r (text_delta t r) live"
  by (simp add: text_delta_def client_state_def live_def streaming_def split: option.split)

lemma emit_text_obeys: "streaming r \<Longrightarrow> obeys r (emit_text t r) live"
  unfolding emit_text_def by (rule obeys_then [OF obeys_then [OF start_obeys open_text_obeys] text_delta_obeys])

lemma close_text_obeys:
  assumes "live r"
  shows "obeys r (close_text_block r) (\<lambda>r'. live r' \<and> ar_text_block r' = None)"
proof -
  have "i \<notin> set (open_blocks r)" if "ar_text_block r = Some i" for i
    using assms that open_blocks_tools [of r] by (auto simp: live_def streaming_def renderer_ok_def)
  moreover have "renderer_ok (r\<lparr>ar_text_block := None\<rparr>)" using assms by (simp add: live_def streaming_def renderer_ok_def)
  ultimately show ?thesis using assms
    by (simp add: close_text_block_def client_state_def live_def streaming_def tools_open_def split: option.split)
qed

lemma slots_frame [simp]:
  "live (r\<lparr>ar_slots := ss\<rparr>) = live r" "client_state (r\<lparr>ar_slots := ss\<rparr>) = client_state r"
  by (simp_all add: live_def streaming_def tools_open_def renderer_ok_def client_state_def)

lemma open_tool_obeys:
  assumes "live r"
  shows "obeys r (open_tool_block loads now_ms i s r) (\<lambda>r'. live r' \<and> map_of (ar_tool_blocks r') i \<noteq> None)"
proof (cases "map_of (ar_tool_blocks r) i")
  case (Some b)
  then show ?thesis using assms by (simp add: open_tool_block_def)
next
  case None
  show ?thesis
  proof (cases "tool_use_block loads now_ms (slot_json s)")
    case (Some block)
    let ?r = "r\<lparr>ar_tool_blocks := (i, ar_next_block r) # ar_tool_blocks r, ar_open_tools := i # ar_open_tools r\<rparr>"
    have fresh: "i \<notin> fst ` set (ar_tool_blocks r)" using None by (simp add: map_of_eq_None_iff)
    then have "i \<notin> set (ar_open_tools r)" using assms by (simp add: live_def streaming_def tools_open_def)
    note opened = open_blocks_allocate [OF this]
    have "ar_next_block r \<notin> snd ` set (ar_tool_blocks r)" using tool_block_bound [OF assms] by blast
    then have "live (?r\<lparr>ar_next_block := Suc (ar_next_block r)\<rparr>)"
      using assms fresh tool_block_bound [OF assms] by (auto simp: live_def streaming_def renderer_ok_def tools_open_def less_Suc_eq)
    then show ?thesis using assms None Some opened
      by (simp add: open_tool_block_def client_state_def live_def streaming_def)
  qed (use None assms in \<open>simp add: open_tool_block_def\<close>)
qed

lemma input_delta_obeys:
  assumes "live r" "map_of (ar_tool_blocks r) i \<noteq> None"
  shows "obeys r (input_delta i delta r) live"
proof -
  obtain b where b: "map_of (ar_tool_blocks r) i = Some b" using assms(2) by blast
  then have "i \<in> set (ar_open_tools r)"
    using assms(1) by (force simp: live_def streaming_def tools_open_def dest: map_of_SomeD)
  then have "b \<in> set (open_blocks r)" using b by (force simp: open_blocks_def List.map_filter_def)
  then show ?thesis using assms(1) b by (simp add: input_delta_def client_state_def live_def streaming_def)
qed

lemma fragment_obeys:
  assumes "live r"
  shows "obeys r (emit_fragment loads py_str now_ms r x) live"
proof -
  have "obeys r (then_emit (open_tool_block loads now_ms i s (r\<lparr>ar_slots := ss\<rparr>)) (input_delta i delta)) live" for i s ss delta
  proof -
    have "obeys (r\<lparr>ar_slots := ss\<rparr>) (then_emit (open_tool_block loads now_ms i s (r\<lparr>ar_slots := ss\<rparr>)) (input_delta i delta)) live"
      by (rule obeys_then [OF open_tool_obeys]) (use assms in \<open>simp_all add: input_delta_obeys\<close>)
    then show ?thesis by (simp add: obeys_def)
  qed
  then show ?thesis using assms
    by (simp add: emit_fragment_def split: json.split option.split prod.split)
qed

lemma fragments_obey: "streaming r \<Longrightarrow> obeys r (emit_tool_call_fragments loads py_str now_ms fs r) live"
  unfolding emit_tool_call_fragments_def
  by (rule obeys_then [OF obeys_then [OF start_obeys close_text_obeys] obeys_all])
     (auto intro: fragment_obeys)

lemma live_streaming: "live r \<Longrightarrow> streaming r"
  by (simp add: live_def)

lemma stay_obeys: "Q r \<Longrightarrow> obeys r ([], Some r) Q"
  by simp

lemma delta_obeys:
  assumes "streaming r"
  shows "obeys r (anthropic_delta loads py_str now_ms delta r) streaming"
  unfolding anthropic_delta_def
proof (rule obeys_then [where Q = streaming], rule obeys_then [where Q = streaming])
  show "obeys r (if dict_get delta ''role'' = JStr ''assistant'' then ensure_message_start no_usage r else ([], Some r)) streaming"
    using assms by (simp add: obeys_weaken [OF start_obeys live_streaming])
next
  fix r assume "streaming r"
  then show "obeys r (if truthy (dict_get delta ''content'') then emit_text (JStr (text_of py_str (dict_get delta ''content''))) r
      else ([], Some r)) streaming"
    by (simp add: obeys_weaken [OF emit_text_obeys live_streaming])
next
  fix r assume "streaming r"
  then show "obeys r (case dict_get delta ''tool_calls'' of
      JList (t # ts) \<Rightarrow> emit_tool_call_fragments loads py_str now_ms (t # ts) r | _ \<Rightarrow> ([], Some r)) streaming"
    by (simp add: obeys_weaken [OF fragments_obey live_streaming] split: json.split list.split)
qed

lemma streaming_frame [simp]:
  "streaming (r\<lparr>ar_model := m\<rparr>) = streaming r" "streaming (r\<lparr>ar_buffer := s\<rparr>) = streaming r"
  "streaming (r\<lparr>ar_finish_reason := s\<rparr>) = streaming r"
  "client_state (r\<lparr>ar_model := m\<rparr>) = client_state r" "client_state (r\<lparr>ar_buffer := s\<rparr>) = client_state r"
  "client_state (r\<lparr>ar_finish_reason := s\<rparr>) = client_state r"
  by (simp_all add: streaming_def renderer_ok_def tools_open_def client_state_def)

lemma obeys_frame: "client_state r' = client_state r \<Longrightarrow> obeys r' m Q \<Longrightarrow> obeys r m Q"
  by (simp add: obeys_def)

lemma choice_obeys:
  assumes "streaming r"
  shows "obeys r (anthropic_choice loads py_str now_ms r choice) streaming"
proof -
  have "obeys r (anthropic_delta loads py_str now_ms delta (r\<lparr>ar_finish_reason := s\<rparr>)) streaming" for delta s
    by (rule obeys_frame [OF _ delta_obeys]) (use assms in simp_all)
  then show ?thesis using assms by (simp add: anthropic_choice_def split: json.split option.split)
qed

lemma payload_obeys:
  assumes "streaming r"
  shows "obeys r (anthropic_payload loads py_str now_ms r payload) streaming"
proof -
  have "obeys r (emit_all (anthropic_choice loads py_str now_ms) choices (r\<lparr>ar_model := m\<rparr>)) streaming" for choices m
    by (rule obeys_frame [OF _ obeys_all [where Q = streaming]]) (use assms choice_obeys in simp_all)
  then show ?thesis by (simp add: anthropic_payload_def split: option.split)
qed

lemma push_obeys:
  assumes "streaming r"
  shows "obeys r (anthropic_push loads py_str decode now_ms r chunk) streaming"
proof -
  have "obeys r (emit_all (anthropic_payload loads py_str now_ms) payloads (r\<lparr>ar_buffer := s\<rparr>)) streaming" for payloads s
    by (rule obeys_frame [OF _ obeys_all [where Q = streaming]]) (use assms payload_obeys in simp_all)
  then show ?thesis by (simp add: anthropic_push_def split: prod.split)
qed

text \<open>The end of the stream.\<close>

lemma run_stops:
  "distinct bs \<Longrightarrow> set bs \<subseteq> opened \<Longrightarrow> protocol_run (In_Message n opened) (map Block_Stop bs) = Some (In_Message n (opened - set bs))"
proof (induction bs arbitrary: opened)
  case (Cons b bs)
  have "set bs \<subseteq> opened - {b}" using Cons.prems by auto
  then have "protocol_run (In_Message n (opened - {b})) (map Block_Stop bs) = Some (In_Message n (opened - {b} - set bs))"
    using Cons by simp
  moreover have "opened - {b} - set bs = opened - set (b # bs)" by auto
  ultimately show ?case using Cons.prems by simp
qed simp

lemma distinct_open_blocks:
  assumes "renderer_ok r"
  shows "distinct (open_blocks r)"
proof -
  have "distinct (List.map_filter (map_of bs) os)"
    if "distinct (map fst bs)" "distinct (map snd bs)" "distinct os" for bs :: "(int \<times> nat) list" and os
  proof -
    have "inj_on (\<lambda>i. the (map_of bs i)) {i. map_of bs i \<noteq> None}"
    proof (rule inj_onI, clarsimp)
      fix i j b assume "map_of bs i = Some b" "map_of bs j = Some b"
      then have "(i, b) \<in> set bs" "(j, b) \<in> set bs" by (auto dest: map_of_SomeD)
      then show "i = j" using that(2) by (force simp: distinct_map inj_on_def)
    qed
    then have "inj_on (\<lambda>i. the (map_of bs i)) {i \<in> set os. map_of bs i \<noteq> None}" by (rule inj_on_subset) auto
    then show ?thesis using that(3) by (simp add: List.map_filter_def distinct_map comp_def)
  qed
  then show ?thesis using assms by (simp add: open_blocks_def renderer_ok_def)
qed

lemma close_tools_obeys:
  assumes "live r \<and> ar_text_block r = None"
  shows "obeys r (close_tool_blocks r) ending"
proof -
  have "distinct (sort (open_blocks r))" using assms by (simp add: distinct_open_blocks live_def streaming_def)
  then show ?thesis using assms
    by (simp add: close_tool_blocks_def client_state_def live_def streaming_def ending_def run_stops)
qed

lemma tool_call_obeys: "ending r \<Longrightarrow> obeys r (tool_call_events loads now_ms r call) ending"
  by (auto simp: tool_call_events_def ending_def client_state_def open_blocks_def List.map_filter_simps split: option.split)

lemma whole_calls_obey: "ending r \<Longrightarrow> obeys r (whole_tool_calls loads now_ms c r) ending"
  by (simp add: whole_tool_calls_def obeys_all tool_call_obeys split: option.split)

lemma message_end_obeys: "ending r \<Longrightarrow> obeys r (message_end c r) ar_closed"
  by (simp add: message_end_def ending_def client_state_def open_blocks_def List.map_filter_simps split: option.split)

lemma finish_obeys:
  assumes "streaming r"
  shows "obeys r (anthropic_finish loads now_ms c r) ar_closed"
proof -
  let ?m = "or_json (cc_model c) (ar_model r)"
  have late: "live r' \<Longrightarrow> obeys r' (late_text c r') live" for r'
    by (simp add: late_text_def emit_text_obeys live_streaming)
  have "obeys (r\<lparr>ar_model := ?m\<rparr>) (then_emit (then_emit (then_emit (then_emit (then_emit
      (ensure_message_start (cc_usage c) (r\<lparr>ar_model := ?m\<rparr>)) (late_text c)) close_text_block) close_tool_blocks)
      (whole_tool_calls loads now_ms c)) (message_end c)) ar_closed"
    by (rule obeys_then [OF obeys_then [OF obeys_then [OF obeys_then [OF obeys_then [OF start_obeys late] close_text_obeys]
          close_tools_obeys] whole_calls_obey] message_end_obeys]) (use assms in simp_all)
  then have "obeys r (then_emit (then_emit (then_emit (then_emit (then_emit
      (ensure_message_start (cc_usage c) (r\<lparr>ar_model := ?m\<rparr>)) (late_text c)) close_text_block) close_tool_blocks)
      (whole_tool_calls loads now_ms c)) (message_end c)) ar_closed"
    by (rule obeys_frame [rotated]) simp
  then show ?thesis using assms by (simp add: anthropic_finish_def streaming_def)
qed

definition anthropic_stream ::
  "(string \<Rightarrow> json option) \<Rightarrow> (json \<Rightarrow> string) \<Rightarrow> (string \<Rightarrow> string) \<Rightarrow> int \<Rightarrow> parsed_request \<Rightarrow> string list
    \<Rightarrow> canonical_completion \<Rightarrow> (anthropic_event, anthropic_renderer) emit" where
  "anthropic_stream loads py_str decode now_ms parsed chunks c =
     then_emit (emit_all (anthropic_push loads py_str decode now_ms) chunks (anthropic_stream_renderer parsed))
       (anthropic_finish loads now_ms c)"

text \<open>
  C17. A native Anthropic client always gets a well-formed message stream. Whatever an upstream sends, in whatever
  chunks, the events follow the protocol: one start, blocks numbered in order, deltas only for open blocks,
  every opened block stopped, the delta of the message and its stop last. If the generator raises on the way, what
  was sent is still a prefix of such a stream.
\<close>

theorem anthropic_stream_keeps_protocol:
  "case anthropic_stream loads py_str decode now_ms parsed chunks c of
     (events, Some r) \<Rightarrow> protocol_run Awaiting_Message events = Some Message_Ended
   | (events, None) \<Rightarrow> protocol_run Awaiting_Message events \<noteq> None"
proof -
  have start: "streaming (anthropic_stream_renderer parsed)" "client_state (anthropic_stream_renderer parsed) = Awaiting_Message"
    by (simp_all add: anthropic_stream_renderer_def streaming_def renderer_ok_def tools_open_def client_state_def)
  have ended: "ar_closed r \<Longrightarrow> client_state r = Message_Ended" for r by (simp add: client_state_def)
  have "obeys (anthropic_stream_renderer parsed) (anthropic_stream loads py_str decode now_ms parsed chunks c) ar_closed"
    unfolding anthropic_stream_def
    by (rule obeys_then [OF obeys_all [where Q = streaming, OF push_obeys start(1)] finish_obeys])
  then show ?thesis
    using start(2) by (auto simp: obeys_def ended split: prod.split option.split)
qed


section \<open>The text of a stream\<close>

definition text_deltas :: "anthropic_event list \<Rightarrow> json list" where
  "text_deltas es = List.map_filter (\<lambda>e. case e of Text_Delta i t \<Rightarrow> Some t | _ \<Rightarrow> None) es"

definition choice_content :: "(json \<Rightarrow> string) \<Rightarrow> json \<Rightarrow> json option" where
  "choice_content py_str choice =
     (case choice of
        JObj c \<Rightarrow>
          (case as_dict_or_empty (dict_get c ''delta'') of
             Some d \<Rightarrow> if truthy (dict_get d ''content'') then Some (JStr (text_of py_str (dict_get d ''content''))) else None
           | None \<Rightarrow> None)
      | _ \<Rightarrow> None)"

definition payload_contents :: "(json \<Rightarrow> string) \<Rightarrow> (string \<times> json) list \<Rightarrow> json list" where
  "payload_contents py_str payload =
     (case iterate_or_empty (dict_get payload ''choices'') of
        Some choices \<Rightarrow> List.map_filter (choice_content py_str) choices | None \<Rightarrow> [])"

lemma text_deltas_simps [simp]:
  "text_deltas [] = []" "text_deltas (es @ es') = text_deltas es @ text_deltas es'"
  "text_deltas (e # es) = (case e of Text_Delta i t \<Rightarrow> [t] | _ \<Rightarrow> []) @ text_deltas es"
  by (auto simp: text_deltas_def map_filter_append List.map_filter_simps split: anthropic_event.split)

lemma text_deltas_stops [simp]: "text_deltas (map Block_Stop bs) = []"
  by (induction bs) simp_all

definition text_ok :: "anthropic_renderer \<Rightarrow> bool" where
  "text_ok r \<longleftrightarrow> (ar_text_block r \<noteq> None \<longrightarrow> ar_content_started r)"

definition tells :: "anthropic_renderer \<Rightarrow> (anthropic_event, anthropic_renderer) emit \<Rightarrow> json list \<Rightarrow> bool" where
  "tells r m ts \<longleftrightarrow>
     (\<forall>r'. snd m = Some r' \<longrightarrow> text_deltas (fst m) = ts \<and> ar_buffer r' = ar_buffer r \<and> text_ok r' \<and>
        ar_content_started r' = (ar_content_started r \<or> ts \<noteq> []))"

lemma tells_Some [simp]:
  "tells r (es, Some r') ts \<longleftrightarrow> text_deltas es = ts \<and> ar_buffer r' = ar_buffer r \<and> text_ok r' \<and>
     ar_content_started r' = (ar_content_started r \<or> ts \<noteq> [])"
  by (auto simp: tells_def)

lemma tells_None [simp]: "tells r (es, None) ts"
  by (simp add: tells_def)

lemma tells_then_started:
  assumes "tells r m ts"
    "\<And>r'. text_ok r' \<Longrightarrow> ar_content_started r' = (ar_content_started r \<or> ts \<noteq> []) \<Longrightarrow> tells r' (f r') ts'"
  shows "tells r (then_emit m f) (ts @ ts')"
proof (cases m)
  case (Pair es res)
  show ?thesis
  proof (cases res)
    case (Some r')
    then have "tells r' (f r') ts'" using assms by (simp add: Pair)
    then show ?thesis using assms(1) Some
      by (cases "f r'"; cases "snd (f r')") (auto simp: then_emit_def Pair)
  qed (simp add: then_emit_def Pair)
qed

lemma tells_then:
  assumes "tells r m ts" "\<And>r'. text_ok r' \<Longrightarrow> tells r' (f r') ts'"
  shows "tells r (then_emit m f) (ts @ ts')"
  using assms by (rule tells_then_started)

lemma tells_all:
  assumes "\<And>r x. text_ok r \<Longrightarrow> tells r (f r x) (g x)"
  shows "text_ok r \<Longrightarrow> tells r (emit_all f xs r) (concat (map g xs))"
  by (induction xs arbitrary: r) (auto intro: tells_then assms)

lemma tells_none_then:
  assumes "tells r m []" "\<And>r'. text_ok r' \<Longrightarrow> tells r' (f r') ts"
  shows "tells r (then_emit m f) ts"
  using tells_then [OF assms] by simp

lemma tells_then_none:
  assumes "tells r m ts" "\<And>r'. text_ok r' \<Longrightarrow> tells r' (f r') []"
  shows "tells r (then_emit m f) ts"
  using tells_then [OF assms] by simp

lemma tells_silent: "(\<And>r x. text_ok r \<Longrightarrow> tells r (f r x) []) \<Longrightarrow> text_ok r \<Longrightarrow> tells r (emit_all f xs r) []"
  by (induction xs arbitrary: r) (auto intro: tells_none_then)

lemma start_tells: "text_ok r \<Longrightarrow> tells r (ensure_message_start usage r) []"
  by (simp add: ensure_message_start_def text_ok_def)

lemma emit_text_tells: "text_ok r \<Longrightarrow> tells r (emit_text t r) [t]"
  by (simp add: emit_text_def ensure_message_start_def open_text_block_def text_delta_def then_emit_def text_ok_def
      split: option.split)

lemma close_text_tells: "text_ok r \<Longrightarrow> tells r (close_text_block r) []"
  by (auto simp: close_text_block_def text_ok_def split: option.split)

lemma fragment_tells: "text_ok r \<Longrightarrow> tells r (emit_fragment loads py_str now_ms r x) []"
  by (auto simp: emit_fragment_def open_tool_block_def input_delta_def then_emit_def text_ok_def
      split: json.split option.split prod.split)

lemma fragments_tell: "text_ok r \<Longrightarrow> tells r (emit_tool_call_fragments loads py_str now_ms fs r) []"
proof -
  have "text_ok r \<Longrightarrow> tells r (emit_all (emit_fragment loads py_str now_ms) fs r) []" for r
    using tells_silent [OF fragment_tells] .
  then show "text_ok r \<Longrightarrow> ?thesis"
    unfolding emit_tool_call_fragments_def
    by (intro tells_none_then [OF tells_none_then [OF start_tells close_text_tells]])
qed

lemma delta_tells:
  assumes "text_ok r"
  shows "tells r (anthropic_delta loads py_str now_ms d r)
    (if truthy (dict_get d ''content'') then [JStr (text_of py_str (dict_get d ''content''))] else [])"
  unfolding anthropic_delta_def
proof (rule tells_then_none, rule tells_none_then)
  show "tells r (if dict_get d ''role'' = JStr ''assistant'' then ensure_message_start no_usage r else ([], Some r)) []"
    using assms by (simp add: start_tells)
next
  fix r assume "text_ok r"
  then show "tells r (if truthy (dict_get d ''content'') then emit_text (JStr (text_of py_str (dict_get d ''content''))) r
      else ([], Some r)) (if truthy (dict_get d ''content'') then [JStr (text_of py_str (dict_get d ''content''))] else [])"
    by (simp add: emit_text_tells)
next
  fix r assume "text_ok r"
  then show "tells r (case dict_get d ''tool_calls'' of
      JList (t # ts) \<Rightarrow> emit_tool_call_fragments loads py_str now_ms (t # ts) r | _ \<Rightarrow> ([], Some r)) []"
    by (simp add: fragments_tell split: json.split list.split)
qed

lemma tells_frame [simp]:
  "tells (r\<lparr>ar_finish_reason := s\<rparr>) m ts = tells r m ts" "tells (r\<lparr>ar_model := v\<rparr>) m ts = tells r m ts"
  by (simp_all add: tells_def)

lemma text_ok_frame [simp]:
  "text_ok (r\<lparr>ar_finish_reason := s\<rparr>) = text_ok r" "text_ok (r\<lparr>ar_model := v\<rparr>) = text_ok r"
  "text_ok (r\<lparr>ar_buffer := s\<rparr>) = text_ok r"
  by (simp_all add: text_ok_def)

lemma choice_tells:
  assumes "text_ok r"
  shows "tells r (anthropic_choice loads py_str now_ms r x) (case choice_content py_str x of None \<Rightarrow> [] | Some t \<Rightarrow> [t])"
proof (cases x)
  case (JObj c)
  show ?thesis
  proof (cases "as_dict_or_empty (dict_get c ''delta'')")
    case (Some d)
    have "tells (r\<lparr>ar_finish_reason := with_finish_reason py_str c (ar_finish_reason r)\<rparr>)
        (anthropic_delta loads py_str now_ms d (r\<lparr>ar_finish_reason := with_finish_reason py_str c (ar_finish_reason r)\<rparr>))
        (if truthy (dict_get d ''content'') then [JStr (text_of py_str (dict_get d ''content''))] else [])"
      by (rule delta_tells) (simp add: assms)
    then show ?thesis
      by (cases "truthy (dict_get d ''content'')") (simp_all add: anthropic_choice_def choice_content_def JObj Some)
  qed (simp add: anthropic_choice_def JObj)
qed (use assms in \<open>simp_all add: anthropic_choice_def choice_content_def\<close>)

lemma concat_map_filter: "concat (map (\<lambda>x. case f x of None \<Rightarrow> [] | Some y \<Rightarrow> [y]) xs) = List.map_filter f xs"
  by (induction xs) (auto simp: List.map_filter_simps split: option.split)

lemma payload_tells:
  assumes "text_ok r"
  shows "tells r (anthropic_payload loads py_str now_ms r payload) (payload_contents py_str payload)"
proof (cases "iterate_or_empty (dict_get payload ''choices'')")
  case (Some choices)
  have "tells (r\<lparr>ar_model := or_json (dict_get payload ''model'') (ar_model r)\<rparr>)
      (emit_all (anthropic_choice loads py_str now_ms) choices (r\<lparr>ar_model := or_json (dict_get payload ''model'') (ar_model r)\<rparr>))
      (concat (map (\<lambda>x. case choice_content py_str x of None \<Rightarrow> [] | Some t \<Rightarrow> [t]) choices))"
    by (rule tells_all [OF choice_tells]) (simp_all add: assms)
  then show ?thesis by (simp add: anthropic_payload_def payload_contents_def Some concat_map_filter)
qed (simp add: anthropic_payload_def)

text \<open>Pushing chunk after chunk tells what the decoder finds in them.\<close>

lemma pushes_tell:
  assumes "snd (emit_all (anthropic_push loads py_str decode now_ms) chunks r) = Some r'" "text_ok r"
  shows "text_deltas (fst (emit_all (anthropic_push loads py_str decode now_ms) chunks r)) =
      concat (map (payload_contents py_str) (fst (sse_feed_all loads decode chunks (ar_buffer r)))) \<and>
    text_ok r' \<and>
    ar_content_started r' = (ar_content_started r \<or> concat (map (payload_contents py_str) (fst (sse_feed_all loads decode chunks (ar_buffer r)))) \<noteq> [])"
  using assms
proof (induction chunks arbitrary: r)
  case Nil
  then show ?case by (simp add: sse_feed_all_def)
next
  case (Cons chunk chunks)
  obtain ps buf where feed: "sse_feed loads decode (ar_buffer r) chunk = (ps, buf)" by (metis prod.exhaust)
  let ?m = "emit_all (anthropic_payload loads py_str now_ms) ps (r\<lparr>ar_buffer := buf\<rparr>)"
  let ?f = "emit_all (anthropic_push loads py_str decode now_ms) chunks"
  have eq: "emit_all (anthropic_push loads py_str decode now_ms) (chunk # chunks) r = then_emit ?m ?f"
    by (simp add: anthropic_push_def feed)
  obtain r1 where r1: "snd ?m = Some r1" "snd (?f r1) = Some r'"
    using Cons.prems(1) unfolding eq by (auto simp: then_emit_def split: prod.splits option.splits)
  have "tells (r\<lparr>ar_buffer := buf\<rparr>) ?m (concat (map (payload_contents py_str) ps))"
    by (rule tells_all [OF payload_tells]) (simp_all add: Cons.prems(2))
  then have t: "text_deltas (fst ?m) = concat (map (payload_contents py_str) ps)" "ar_buffer r1 = buf" "text_ok r1"
    "ar_content_started r1 = (ar_content_started r \<or> concat (map (payload_contents py_str) ps) \<noteq> [])"
    using r1(1) by (simp_all add: tells_def)
  have all: "fst (sse_feed_all loads decode (chunk # chunks) (ar_buffer r)) = ps @ fst (sse_feed_all loads decode chunks buf)"
    by (simp add: sse_feed_all_Cons feed)
  have fst: "fst (then_emit ?m ?f) = fst ?m @ fst (?f r1)" using r1 by (simp add: then_emit_def split: prod.split option.split) auto
  show ?case
    unfolding eq fst all using Cons.IH [OF r1(2) t(3)] t(1,2,4) by (simp add: disj_assoc)
qed

lemma finish_tells:
  assumes "text_ok r" "\<not> ar_closed r"
  shows "tells r (anthropic_finish loads now_ms c r)
    (if \<not> ar_content_started r \<and> truthy (cc_content c) then [cc_content c] else [])"
proof -
  let ?r = "r\<lparr>ar_model := or_json (cc_model c) (ar_model r)\<rparr>"
  let ?late = "if \<not> ar_content_started r \<and> truthy (cc_content c) then [cc_content c] else []"
  have late: "tells r' (late_text c r') ?late" if "text_ok r'" "ar_content_started r' = (ar_content_started ?r \<or> [] \<noteq> ([] :: json list))" for r'
    using that by (simp add: late_text_def emit_text_tells)
  have calls: "tells r' (whole_tool_calls loads now_ms c r') []" if "text_ok r'" for r'
    using that tells_silent [of "tool_call_events loads now_ms"]
    by (auto simp: whole_tool_calls_def tool_call_events_def text_ok_def split: option.split)
  have tools: "tells r' (close_tool_blocks r') []" if "text_ok r'" for r'
    using that by (simp add: close_tool_blocks_def text_ok_def)
  have ending: "tells r' (message_end c r') []" if "text_ok r'" for r'
    using that by (simp add: message_end_def text_ok_def split: option.split)
  have "tells ?r (ensure_message_start (cc_usage c) ?r) []" by (rule start_tells) (simp add: assms(1))
  from tells_then_started [OF this late]
  have "tells ?r (then_emit (ensure_message_start (cc_usage c) ?r) (late_text c)) ?late" by simp
  from tells_then_none [OF this close_text_tells] have "tells ?r (then_emit (then_emit (ensure_message_start (cc_usage c) ?r)
      (late_text c)) close_text_block) ?late" .
  from tells_then_none [OF tells_then_none [OF tells_then_none [OF this tools] calls] ending] show ?thesis
    using assms(2) by (simp add: anthropic_finish_def)
qed



section \<open>Chunks\<close>

lemma replace_crlf_id: "CHR 0x0D \<notin> set s \<Longrightarrow> replace_crlf s = s"
  by (induction s rule: replace_crlf.induct) auto

text \<open>
  C19. The decoder does not care how the network cuts a stream. As long as no chunk ends inside a character and the
  upstream ends its lines with a line feed, the events read chunk by chunk, and what is left in the buffer, are those of
  the whole text.
\<close>

theorem decoding_ignores_chunking:
  assumes "decode (concat chunks) = concat (map decode chunks)" "CHR 0x0D \<notin> set (decode (concat chunks))"
  shows "sse_feed_all loads decode chunks [] = sse_feed loads decode [] (concat chunks)"
proof -
  have "CHR 0x0D \<notin> set (decode c)" if "c \<in> set chunks" for c using assms that by auto
  then have "map (\<lambda>c. replace_crlf (decode c)) chunks = map decode chunks" by (intro map_cong) (simp_all add: replace_crlf_id)
  then have "concat (map (\<lambda>c. replace_crlf (decode c)) chunks) = concat (map decode chunks)" by (rule arg_cong)
  then show ?thesis
    using assms by (simp add: sse_feed_all_text sse_feed_def Let_def replace_crlf_id)
qed

theorem decoding_ignores_chunking_witness:
  "sse_feed_all (\<lambda>s. Some (JObj [])) (\<lambda>s. s) [''data: {'', [CHR ''}'', CHR 0x0A], [CHR 0x0A]] [] =
   sse_feed (\<lambda>s. Some (JObj [])) (\<lambda>s. s) [] (''data: {}'' @ [CHR 0x0A, CHR 0x0A])"
  using decoding_ignores_chunking [of "\<lambda>s. s" "[''data: {'', [CHR ''}'', CHR 0x0A], [CHR 0x0A]]"] by simp

text \<open>
  A carriage return is matched with its line feed inside one chunk only. Two events that are read from one chunk are both
  lost when the chunk is cut between the last two characters of the first one.
\<close>

theorem cut_crlf_loses_events:
  "let crlf = [CHR 0x0D, CHR 0x0A]; event = ''data: {}'' @ crlf @ crlf;
       loads = (\<lambda>s. if s = ''{}'' then Some (JObj []) else None)
   in fst (sse_feed_all loads (\<lambda>s. s) [event @ event] []) = [[], []] \<and>
      fst (sse_feed_all loads (\<lambda>s. s) [butlast event, CHR 0x0A # event] []) = []"
  by code_simp

section \<open>What the translations keep\<close>

definition openai_call :: "(json \<Rightarrow> string) \<Rightarrow> string \<times> string \<times> (string \<times> json) list \<Rightarrow> json" where
  "openai_call dumps = (\<lambda>(i, n, args). JObj [(''id'', JStr i), (''type'', JStr ''function''),
     (''function'', JObj [(''name'', JStr n), (''arguments'', JStr (dumps (JObj args)))])])"

definition tool_use :: "string \<times> string \<times> (string \<times> json) list \<Rightarrow> (string \<times> json) list" where
  "tool_use = (\<lambda>(i, n, args). [(''type'', JStr ''tool_use''), (''id'', JStr i), (''name'', JStr n), (''input'', JObj args)])"

lemma rendered_call:
  assumes "loads (dumps (JObj args)) = Some (JObj args)" "dumps (JObj args) \<noteq> []" "i \<noteq> []"
  shows "tool_use_block loads now_ms (openai_call dumps (i, n, args)) = Some (JObj (tool_use (i, n, args)))"
  using assms
  by (simp add: tool_use_block_def openai_call_def call_function_def as_dict_or_empty_def json_object_def tool_use_def or_json_def)

lemma those_Some: "(\<And>x. x \<in> set xs \<Longrightarrow> f x = Some (g x)) \<Longrightarrow> those (map f xs) = Some (map g xs)"
  by (induction xs) simp_all

lemma rendered_usage:
  "usage_from_anthropic (anthropic_usage u) no_usage = Some (u\<lparr>cu_input_tokens := cu_input_tokens u + cu_cached_tokens u\<rparr>)"
  by (cases u) (auto simp: usage_from_anthropic_def anthropic_usage_def no_usage_def has_key_def or_json_def int_or_zero_def)

lemma call_read_back: "openai_tool_call dumps (tool_use x) = openai_call dumps x"
  by (cases x) (simp add: openai_tool_call_def openai_call_def tool_use_def or_json_def)

definition canonical_of ::
  "(json \<Rightarrow> string) \<Rightarrow> string \<Rightarrow> string \<Rightarrow> (string \<times> string \<times> (string \<times> json) list) list \<Rightarrow> string \<Rightarrow> canonical_usage
    \<Rightarrow> canonical_completion" where
  "canonical_of dumps model answer calls finish_reason usage =
     \<lparr>cc_model = JStr model, cc_content = JStr answer,
      cc_tool_calls = (if calls = [] then JNull else JList (map (openai_call dumps) calls)),
      cc_finish_reason = JStr finish_reason, cc_usage = usage, cc_raw = None\<rparr>"



text \<open>A request as the Anthropic endpoint parses it.\<close>

definition messages_request :: "(string \<times> json) list \<Rightarrow> parsed_request" where
  "messages_request body =
     \<lparr>pr_dialect = Anthropic, pr_operation = ''messages'', pr_method = ''POST'', pr_path = ''/v1/messages'', pr_headers = Map.empty,
      pr_body = body, pr_request_facts = normalize_request_facts body, pr_model = Some ''claude'', pr_models = [''claude''],
      pr_stream = False\<rparr>"

definition user_body :: "json list \<Rightarrow> (string \<times> json) list" where
  "user_body blocks = [(''model'', JStr ''claude''), (''max_tokens'', JInt 100),
     (''messages'', JList [JObj [(''role'', JStr ''user''), (''content'', JList blocks)]])]"

definition image_block :: "string \<Rightarrow> json" where
  "image_block d = JObj [(''type'', JStr ''image''), (''source'', JObj [(''type'', JStr ''base64''),
     (''media_type'', JStr ''image/png''), (''data'', JStr d)])]"

text \<open>
  An image does not keep an Anthropic request from being routed to another provider, and the translation drops it: the
  candidate gets the question without the picture.
\<close>

theorem routed_image_is_dropped:
  "cross_provider_ineligibility (messages_request (user_body [text_block_of (JStr t), image_block d])) ''anthropic'' ''openai'' = Some None"
  "request_to_openai_shape dumps py_str (messages_request (user_body [text_block_of (JStr t), image_block d])) =
     request_to_openai_shape dumps py_str (messages_request (user_body [text_block_of (JStr t)]))"
  subgoal
    by (simp add: cross_provider_ineligibility_def anthropic_ineligibility_def messages_request_def user_body_def image_block_def
        text_block_of_def find_key_def has_key_def or_str_def has_anthropic_server_tool_def iterate_or_empty_def)
  subgoal
    by (simp add: request_to_openai_shape_def anthropic_request_to_openai_def messages_request_def user_body_def image_block_def
        text_block_of_def iterate_or_empty_def dicts_of_def List.map_filter_simps anthropic_message_to_openai_def
        anthropic_content_has_type_def blocks_of_type_def anthropic_content_to_openai_def anthropic_texts_def)
  done

text \<open>The text that stands beside a tool result in a message of the user is dropped as well.\<close>

theorem text_beside_tool_result_is_dropped:
  "anthropic_message_to_openai dumps py_str [(''role'', JStr ''user''),
     (''content'', JList [JObj [(''type'', JStr ''tool_result''), (''tool_use_id'', JStr i), (''content'', JStr result)],
        text_block_of (JStr question)])] =
   Some [JObj [(''role'', JStr ''tool''), (''tool_call_id'', or_json (JStr i) (JStr [])), (''content'', JStr result)]]"
  by (simp add: anthropic_message_to_openai_def anthropic_content_has_type_def blocks_of_type_def List.map_filter_simps
      text_block_of_def anthropic_tool_results_to_openai_def anthropic_content_text_def anthropic_content_to_openai_def)

text \<open>
  Calls of a Gemini conversation are told apart by the name of the function only: two parallel calls of one function
  get one identifier, and so do their two results.
\<close>

theorem parallel_gemini_calls_share_an_id:
  assumes "f \<noteq> []"
  shows "gemini_content_to_openai dumps py_str [(''role'', JStr ''model''),
      (''parts'', JList (map (\<lambda>args. JObj [(''functionCall'', JObj [(''name'', JStr f), (''args'', JObj args)])]) [a1, a2]))] =
    Some [JObj [(''role'', JStr ''assistant''), (''content'', JNull),
      (''tool_calls'', JList (map (\<lambda>args. openai_call dumps (''call_'' @ f, f, args)) [a1, a2]))]]"
  using assms
  by (simp add: gemini_content_to_openai_def iterate_or_empty_def dicts_of_def List.map_filter_simps gemini_piece_def
      gemini_tool_call_def text_of_def or_json_def openai_call_def Let_def)

theorem parallel_gemini_calls_share_an_id_witness:
  "gemini_content_to_openai (\<lambda>v. []) (\<lambda>v. []) [(''role'', JStr ''model''),
      (''parts'', JList (map (\<lambda>args. JObj [(''functionCall'', JObj [(''name'', JStr ''f''), (''args'', JObj args)])]) [[], []]))] \<noteq> None"
  using parallel_gemini_calls_share_an_id [of "''f''" "\<lambda>v. []" "\<lambda>v. []" "[]" "[]"] by simp


end
