(* ===== verification/StreamTranslators.thy ===== *)
theory StreamTranslators
  imports Transforms
begin

text \<open>
  The stream translators of \<open>proxy/providers\<close>: upstream chunks in, OpenAI chunks for the client out, and the
  completion that is metered and cached at the end. A chunk for the client is its structure; \<open>chunk_bytes\<close> is its
  wire form. \<open>None\<close> is an exception; parameters as in \<open>Transforms\<close>.
\<close>

section \<open>openai.py\<close>

definition parse_sse_events :: "(string \<Rightarrow> json option) \<Rightarrow> string \<Rightarrow> json list" where
  "parse_sse_events loads raw = List.map_filter (\<lambda>line. Option.bind (sse_data line) loads) (splitlines raw)"

text \<open>
  A dictionary key made of a JSON value: numbers are equal by value, a list or a dictionary is not hashable (an infinite
  or NaN index is not modelled and counts as such). Sorting compares numbers with numbers and texts with texts only.
\<close>

datatype slot_key = Number_Key rat | Text_Key string | Null_Key

fun slot_key_of :: "json \<Rightarrow> slot_key option" where
  "slot_key_of JNull = Some Null_Key"
| "slot_key_of (JBool b) = Some (Number_Key (if b then 1 else 0))"
| "slot_key_of (JInt n) = Some (Number_Key (of_int n))"
| "slot_key_of (JFloat (Fin x)) = Some (Number_Key x)"
| "slot_key_of (JStr s) = Some (Text_Key s)"
| "slot_key_of _ = None"

fun text_le :: "string \<Rightarrow> string \<Rightarrow> bool" where
  "text_le [] t = True"
| "text_le (c # s) [] = False"
| "text_le (c # s) (d # t) = (if c = d then text_le s t else (of_char c :: nat) < of_char d)"

fun key_le :: "slot_key \<Rightarrow> slot_key \<Rightarrow> bool option" where
  "key_le (Number_Key x) (Number_Key y) = Some (x \<le> y)"
| "key_le (Text_Key s) (Text_Key t) = Some (text_le s t)"
| "key_le _ _ = None"

fun insert_slot :: "slot_key \<times> 'a \<Rightarrow> (slot_key \<times> 'a) list \<Rightarrow> (slot_key \<times> 'a) list option" where
  "insert_slot s [] = Some [s]"
| "insert_slot s (t # ts) =
     (case key_le (fst s) (fst t) of
        None \<Rightarrow> None
      | Some le \<Rightarrow> if le then Some (s # t # ts) else map_option (Cons t) (insert_slot s ts))"

fun sort_slots :: "(slot_key \<times> 'a) list \<Rightarrow> (slot_key \<times> 'a) list option" where
  "sort_slots [] = Some []"
| "sort_slots (s # ss) = Option.bind (sort_slots ss) (insert_slot s)"

text \<open>\<open>+=\<close> on a text: anything truthy that is not a text raises.\<close>

definition append_json :: "string \<Rightarrow> json \<Rightarrow> string option" where
  "append_json s v = (if truthy v then map_option (\<lambda>t. s @ t) (as_str v) else Some s)"

definition accumulate_fragment :: "(slot_key \<times> call_slot) list \<Rightarrow> json \<Rightarrow> (slot_key \<times> call_slot) list option" where
  "accumulate_fragment slots frag =
     (case frag of
        JObj f \<Rightarrow>
          do { key \<leftarrow> slot_key_of (dict_get_default f ''index'' (JInt 0));
               fn \<leftarrow> as_dict_or_empty (dict_get f ''function'');
               (let s = (case map_of slots key of None \<Rightarrow> empty_tool_call_slot | Some s \<Rightarrow> s)
                in do { name \<leftarrow> append_json (sl_name s) (dict_get fn ''name'');
                        arguments \<leftarrow> append_json (sl_arguments s) (dict_get fn ''arguments'');
                        Some (AList.update key \<lparr>sl_id = or_json (dict_get f ''id'') (sl_id s),
                          sl_type = or_json (dict_get f ''type'') (sl_type s), sl_name = name, sl_arguments = arguments\<rparr> slots) }) }
      | _ \<Rightarrow> None)"

fun fold_option :: "('s \<Rightarrow> 'x \<Rightarrow> 's option) \<Rightarrow> 'x list \<Rightarrow> 's \<Rightarrow> 's option" where
  "fold_option f [] s = Some s"
| "fold_option f (x # xs) s = Option.bind (f s x) (fold_option f xs)"

record assembly =
  as_parts :: "json list"
  as_slots :: "(slot_key \<times> call_slot) list"
  as_usage :: json
  as_model :: json
  as_finish :: json

definition assemble_choice :: "assembly \<Rightarrow> json \<Rightarrow> assembly option" where
  "assemble_choice a choice =
     (case choice of
        JObj c \<Rightarrow>
          do { delta \<leftarrow> as_dict_or_empty (dict_get c ''delta'');
               slots \<leftarrow> (if truthy (dict_get delta ''tool_calls'')
                        then Option.bind (iterate (dict_get delta ''tool_calls'')) (\<lambda>fs. fold_option accumulate_fragment fs (as_slots a))
                        else Some (as_slots a));
               Some (a\<lparr>as_parts := as_parts a @ (if truthy (dict_get delta ''content'') then [dict_get delta ''content''] else []),
                       as_slots := slots, as_finish := or_json (dict_get c ''finish_reason'') (as_finish a)\<rparr>) }
      | _ \<Rightarrow> None)"

definition assemble_event :: "assembly \<Rightarrow> json \<Rightarrow> assembly option" where
  "assemble_event a event =
     (case event of
        JObj ev \<Rightarrow>
          Option.bind (iterate (dict_get_default ev ''choices'' (JList [])))
            (\<lambda>choices. fold_option assemble_choice choices
              (a\<lparr>as_model := or_json (dict_get ev ''model'') (as_model a), as_usage := or_json (dict_get ev ''usage'') (as_usage a)\<rparr>))
      | _ \<Rightarrow> None)"

definition assemble_stream :: "json list \<Rightarrow> canonical_completion option" where
  "assemble_stream events =
     do { a \<leftarrow> fold_option assemble_event events
            \<lparr>as_parts = [], as_slots = [], as_usage = JObj [], as_model = JStr [], as_finish = JNull\<rparr>;
          slots \<leftarrow> sort_slots (as_slots a);
          text \<leftarrow> join_strs [] (as_parts a);
          block \<leftarrow> as_dict_or_empty (as_usage a);
          usage \<leftarrow> usage_from block;
          Some \<lparr>cc_model = as_model a, cc_content = JStr text,
                cc_tool_calls = (if slots = [] then JNull else JList (map (\<lambda>s. slot_json (snd s)) slots)),
                cc_finish_reason = or_json (as_finish a) (JStr ''stop''), cc_usage = usage, cc_raw = None\<rparr> }"

section \<open>Chunks for the client\<close>

datatype client_chunk = Raw_Bytes string | Delta_Chunk json "(string \<times> json) list" json | Done_Line

definition chunk_payload :: "int \<Rightarrow> json \<Rightarrow> (string \<times> json) list \<Rightarrow> json \<Rightarrow> json" where
  "chunk_payload now_ms model delta finish_reason =
     JObj [(''id'', JStr (''chatcmpl-varsten-'' @ int_text now_ms)), (''object'', JStr ''chat.completion.chunk''),
           (''created'', JInt (now_ms div 1000)), (''model'', model),
           (''choices'', JList [JObj [(''index'', JInt 0), (''delta'', JObj delta), (''finish_reason'', finish_reason)]])]"

fun chunk_bytes :: "(json \<Rightarrow> string) \<Rightarrow> int \<Rightarrow> client_chunk \<Rightarrow> string" where
  "chunk_bytes dumps now_ms (Raw_Bytes s) = s"
| "chunk_bytes dumps now_ms (Delta_Chunk model delta finish) = sse_line (dumps (chunk_payload now_ms model delta finish))"
| "chunk_bytes dumps now_ms Done_Line = sse_line ''[DONE]''"

section \<open>anthropic.py\<close>

record anthropic_translator =
  at_buffer :: string
  at_parts :: "string list"
  at_tool_blocks :: "(int \<times> (string \<times> json) list \<times> string) list"
  at_tool_calls :: "(string \<times> json) list list"
  at_model :: json
  at_finish_reason :: json
  at_usage :: canonical_usage

definition anthropic_translator_init :: anthropic_translator where
  "anthropic_translator_init =
     \<lparr>at_buffer = [], at_parts = [], at_tool_blocks = [], at_tool_calls = [], at_model = JStr [],
      at_finish_reason = JStr ''stop'', at_usage = no_usage\<rparr>"

definition data_of_line :: "string \<Rightarrow> string option" where
  "data_of_line raw_line =
     (let line = py_strip raw_line in if take 5 line = ''data:'' then Some (py_strip (drop 5 line)) else None)"

definition block_data :: "string \<Rightarrow> string option" where
  "block_data block =
     (case List.map_filter data_of_line (splitlines block) of [] \<Rightarrow> None | ls \<Rightarrow> Some (join_data ls))"

definition provider_feed :: "(string \<Rightarrow> string option) \<Rightarrow> (string \<Rightarrow> string) \<Rightarrow> string \<Rightarrow> string \<Rightarrow> string list \<times> string" where
  "provider_feed data decode buffer chunk =
     (let blocks = split_blocks (buffer @ replace_crlf (decode chunk)) in (List.map_filter data (butlast blocks), last blocks))"

definition put_index :: "nat \<Rightarrow> (string \<times> json) list \<Rightarrow> json" where
  "put_index n call = JObj ((''index'', JInt (int n)) # call)"

definition call_dict :: "json \<Rightarrow> (string \<times> json) list" where
  "call_dict v = (case v of JObj kvs \<Rightarrow> kvs | _ \<Rightarrow> [])"

definition on_message_start :: "(string \<times> json) list \<Rightarrow> anthropic_translator \<Rightarrow> (client_chunk, anthropic_translator) emit" where
  "on_message_start payload t =
     (case as_dict_or_empty (dict_get payload ''message'') of
        None \<Rightarrow> ([], None)
      | Some message \<Rightarrow>
          (case usage_from_anthropic (dict_get message ''usage'') (at_usage t) of
             None \<Rightarrow> ([], None)
           | Some usage \<Rightarrow>
               (let model = or_json (dict_get message ''model'') (at_model t)
                in ([Delta_Chunk model [(''role'', JStr ''assistant'')] JNull], Some (t\<lparr>at_model := model, at_usage := usage\<rparr>)))))"

definition emit_part :: "string \<Rightarrow> anthropic_translator \<Rightarrow> (client_chunk, anthropic_translator) emit" where
  "emit_part s t = ([Delta_Chunk (at_model t) [(''content'', JStr s)] JNull], Some (t\<lparr>at_parts := at_parts t @ [s]\<rparr>))"

definition indexed :: "(string \<times> json) list \<Rightarrow> string \<Rightarrow> (int \<times> (string \<times> json) list) option" where
  "indexed payload k =
     do { index \<leftarrow> int_or_zero (dict_get payload ''index''); block \<leftarrow> as_dict_or_empty (dict_get payload k); Some (index, block) }"

definition on_block_start ::
  "(json \<Rightarrow> string) \<Rightarrow> (string \<times> json) list \<Rightarrow> anthropic_translator \<Rightarrow> (client_chunk, anthropic_translator) emit" where
  "on_block_start py_str payload t =
     (case indexed payload ''content_block'' of
        None \<Rightarrow> ([], None)
      | Some (index, block) \<Rightarrow>
          if dict_get block ''type'' = JStr ''text'' \<and> truthy (dict_get block ''text'')
          then emit_part (text_of py_str (dict_get block ''text'')) t
          else if dict_get block ''type'' = JStr ''tool_use''
          then ([], Some (t\<lparr>at_tool_blocks := AList.update index (block, []) (at_tool_blocks t)\<rparr>))
          else ([], Some t))"

definition on_block_delta ::
  "(json \<Rightarrow> string) \<Rightarrow> (string \<times> json) list \<Rightarrow> anthropic_translator \<Rightarrow> (client_chunk, anthropic_translator) emit" where
  "on_block_delta py_str payload t =
     (case indexed payload ''delta'' of
        None \<Rightarrow> ([], None)
      | Some (index, delta) \<Rightarrow>
          if dict_get delta ''type'' = JStr ''text_delta'' \<and> truthy (dict_get delta ''text'')
          then emit_part (text_of py_str (dict_get delta ''text'')) t
          else if dict_get delta ''type'' = JStr ''input_json_delta''
          then (let (block, partial) = (case map_of (at_tool_blocks t) index of
                      None \<Rightarrow> ([(''type'', JStr ''tool_use'')], []) | Some b \<Rightarrow> b)
                in ([], Some (t\<lparr>at_tool_blocks := AList.update index
                      (block, partial @ text_of py_str (or_json (dict_get delta ''partial_json'') (JStr []))) (at_tool_blocks t)\<rparr>)))
          else ([], Some t))"

definition on_block_stop ::
  "(string \<Rightarrow> json option) \<Rightarrow> (json \<Rightarrow> string) \<Rightarrow> (string \<times> json) list \<Rightarrow> anthropic_translator
    \<Rightarrow> (client_chunk, anthropic_translator) emit" where
  "on_block_stop loads dumps payload t =
     (case int_or_zero (dict_get payload ''index'') of
        None \<Rightarrow> ([], None)
      | Some index \<Rightarrow>
          (case map_of (at_tool_blocks t) index of
             None \<Rightarrow> ([], Some t)
           | Some (block, partial) \<Rightarrow>
               (let filled = (if partial \<noteq> [] \<and> \<not> truthy (dict_get block ''input'')
                      then dict_put block ''input'' (json_object loads (JStr partial)) else block);
                    call = call_dict (openai_tool_call dumps filled)
                in ([Delta_Chunk (at_model t) [(''tool_calls'', JList [put_index (length (at_tool_calls t)) call])] JNull],
                    Some (t\<lparr>at_tool_blocks := AList.delete index (at_tool_blocks t), at_tool_calls := at_tool_calls t @ [call]\<rparr>)))))"

definition on_message_delta :: "(string \<times> json) list \<Rightarrow> anthropic_translator \<Rightarrow> (client_chunk, anthropic_translator) emit" where
  "on_message_delta payload t =
     (case (usage_from_anthropic (dict_get payload ''usage'') (at_usage t), as_dict_or_empty (dict_get payload ''delta'')) of
        (Some usage, Some delta) \<Rightarrow>
          (case (if truthy (dict_get delta ''stop_reason'') then openai_finish_reason (dict_get delta ''stop_reason'')
                 else Some (JStr ''stop'')) of
             None \<Rightarrow> ([], None)
           | Some finish \<Rightarrow> ([], Some (t\<lparr>at_usage := usage, at_finish_reason := finish\<rparr>)))
      | _ \<Rightarrow> ([], None))"

definition handle_event ::
  "(string \<Rightarrow> json option) \<Rightarrow> (json \<Rightarrow> string) \<Rightarrow> (json \<Rightarrow> string) \<Rightarrow> (string \<times> json) list \<Rightarrow> anthropic_translator
    \<Rightarrow> (client_chunk, anthropic_translator) emit" where
  "handle_event loads dumps py_str payload t =
     (let event_type = dict_get payload ''type''
      in if event_type = JStr ''message_start'' then on_message_start payload t
         else if event_type = JStr ''content_block_start'' then on_block_start py_str payload t
         else if event_type = JStr ''content_block_delta'' then on_block_delta py_str payload t
         else if event_type = JStr ''content_block_stop'' then on_block_stop loads dumps payload t
         else if event_type = JStr ''message_delta'' then on_message_delta payload t
         else if event_type = JStr ''message_stop'' then ([Delta_Chunk (at_model t) [] (at_finish_reason t), Done_Line], Some t)
         else ([], Some t))"

text \<open>Data that is not JSON is skipped; JSON that is no dictionary raises.\<close>

definition anthropic_data ::
  "(string \<Rightarrow> json option) \<Rightarrow> (json \<Rightarrow> string) \<Rightarrow> (json \<Rightarrow> string) \<Rightarrow> anthropic_translator \<Rightarrow> string
    \<Rightarrow> (client_chunk, anthropic_translator) emit" where
  "anthropic_data loads dumps py_str t data =
     (case loads data of
        None \<Rightarrow> ([], Some t)
      | Some (JObj payload) \<Rightarrow> handle_event loads dumps py_str payload t
      | Some _ \<Rightarrow> ([], None))"

definition anthropic_translate ::
  "(string \<Rightarrow> json option) \<Rightarrow> (json \<Rightarrow> string) \<Rightarrow> (json \<Rightarrow> string) \<Rightarrow> (string \<Rightarrow> string) \<Rightarrow> anthropic_translator \<Rightarrow> string
    \<Rightarrow> (client_chunk, anthropic_translator) emit" where
  "anthropic_translate loads dumps py_str decode t chunk =
     (case provider_feed block_data decode (at_buffer t) chunk of
        (ds, buffer) \<Rightarrow> emit_all (anthropic_data loads dumps py_str) ds (t\<lparr>at_buffer := buffer\<rparr>))"

definition calls_json :: "(string \<times> json) list list \<Rightarrow> json" where
  "calls_json calls = (if calls = [] then JNull else JList (map JObj calls))"

definition anthropic_assembled :: "anthropic_translator \<Rightarrow> canonical_completion" where
  "anthropic_assembled t =
     \<lparr>cc_model = at_model t, cc_content = JStr (concat (at_parts t)), cc_tool_calls = calls_json (at_tool_calls t),
      cc_finish_reason = at_finish_reason t, cc_usage = at_usage t, cc_raw = None\<rparr>"

section \<open>gemini.py\<close>

record gemini_translator =
  gt_buffer :: string
  gt_parts :: "string list"
  gt_tool_calls :: "(string \<times> json) list list"
  gt_model :: string
  gt_finish_reason :: json
  gt_usage :: canonical_usage

definition gemini_translator_init :: gemini_translator where
  "gemini_translator_init =
     \<lparr>gt_buffer = [], gt_parts = [], gt_tool_calls = [], gt_model = [], gt_finish_reason = JStr ''stop'', gt_usage = no_usage\<rparr>"

definition gemini_data_of_line :: "string \<Rightarrow> string option" where
  "gemini_data_of_line raw_line = (case data_of_line raw_line of Some d \<Rightarrow> if d = ''[DONE]'' then None else Some d | None \<Rightarrow> None)"

definition gemini_block_data :: "string \<Rightarrow> string option" where
  "gemini_block_data block =
     (case List.map_filter gemini_data_of_line (splitlines block) of [] \<Rightarrow> None | ls \<Rightarrow> Some (join_data ls))"

definition gemini_stream_part ::
  "(json \<Rightarrow> string) \<Rightarrow> (json \<Rightarrow> string) \<Rightarrow> gemini_translator \<Rightarrow> json \<Rightarrow> (client_chunk, gemini_translator) emit" where
  "gemini_stream_part dumps py_str t part =
     (case part of
        JObj p \<Rightarrow>
          if truthy (dict_get p ''text'')
          then (let s = text_of py_str (dict_get p ''text'')
                in ([Delta_Chunk (JStr (gt_model t)) [(''content'', JStr s)] JNull], Some (t\<lparr>gt_parts := gt_parts t @ [s]\<rparr>)))
          else if truthy (dict_get p ''functionCall'')
          then (case gemini_tool_call dumps py_str (dict_get p ''functionCall'') of
                  None \<Rightarrow> ([], None)
                | Some v \<Rightarrow>
                    (let call = call_dict v
                     in ([Delta_Chunk (JStr (gt_model t)) [(''tool_calls'', JList [put_index (length (gt_tool_calls t)) call])] JNull],
                         Some (t\<lparr>gt_tool_calls := gt_tool_calls t @ [call]\<rparr>))))
          else ([], Some t)
      | _ \<Rightarrow> ([], Some t))"

definition gemini_stream_finish :: "(string \<times> json) list \<Rightarrow> gemini_translator \<Rightarrow> (client_chunk, gemini_translator) emit" where
  "gemini_stream_finish candidate t =
     (if \<not> truthy (dict_get candidate ''finishReason'') then ([], Some t)
      else (case gemini_finish_reason (dict_get candidate ''finishReason'') of
              None \<Rightarrow> ([], None)
            | Some finish \<Rightarrow> ([Delta_Chunk (JStr (gt_model t)) [] finish, Done_Line], Some (t\<lparr>gt_finish_reason := finish\<rparr>))))"

definition gemini_stream_candidate ::
  "(json \<Rightarrow> string) \<Rightarrow> (json \<Rightarrow> string) \<Rightarrow> gemini_translator \<Rightarrow> json \<Rightarrow> (client_chunk, gemini_translator) emit" where
  "gemini_stream_candidate dumps py_str t candidate =
     (case candidate of
        JObj c \<Rightarrow>
          (case candidate_parts c of
             None \<Rightarrow> ([], None)
           | Some parts \<Rightarrow> then_emit (emit_all (gemini_stream_part dumps py_str) parts t) (gemini_stream_finish c))
      | _ \<Rightarrow> ([], Some t))"

definition gemini_stream_payload ::
  "(json \<Rightarrow> string) \<Rightarrow> (json \<Rightarrow> string) \<Rightarrow> (string \<times> json) list \<Rightarrow> gemini_translator \<Rightarrow> (client_chunk, gemini_translator) emit" where
  "gemini_stream_payload dumps py_str payload t =
     (case (gemini_model_name (dict_get payload ''modelVersion''), usage_from_metadata (dict_get payload ''usageMetadata'') (gt_usage t),
            iterate_or_empty (dict_get payload ''candidates'')) of
        (Some model, Some usage, Some candidates) \<Rightarrow>
          emit_all (gemini_stream_candidate dumps py_str) candidates
            (t\<lparr>gt_model := (if model = [] then gt_model t else model), gt_usage := usage\<rparr>)
      | _ \<Rightarrow> ([], None))"

definition gemini_data ::
  "(string \<Rightarrow> json option) \<Rightarrow> (json \<Rightarrow> string) \<Rightarrow> (json \<Rightarrow> string) \<Rightarrow> gemini_translator \<Rightarrow> string
    \<Rightarrow> (client_chunk, gemini_translator) emit" where
  "gemini_data loads dumps py_str t data =
     (case loads data of
        None \<Rightarrow> ([], Some t)
      | Some (JObj payload) \<Rightarrow> gemini_stream_payload dumps py_str payload t
      | Some _ \<Rightarrow> ([], None))"

definition gemini_translate ::
  "(string \<Rightarrow> json option) \<Rightarrow> (json \<Rightarrow> string) \<Rightarrow> (json \<Rightarrow> string) \<Rightarrow> (string \<Rightarrow> string) \<Rightarrow> gemini_translator \<Rightarrow> string
    \<Rightarrow> (client_chunk, gemini_translator) emit" where
  "gemini_translate loads dumps py_str decode t chunk =
     (case provider_feed gemini_block_data decode (gt_buffer t) chunk of
        (ds, buffer) \<Rightarrow> emit_all (gemini_data loads dumps py_str) ds (t\<lparr>gt_buffer := buffer\<rparr>))"

definition gemini_assembled :: "gemini_translator \<Rightarrow> canonical_completion" where
  "gemini_assembled t =
     \<lparr>cc_model = JStr (gt_model t), cc_content = JStr (concat (gt_parts t)), cc_tool_calls = calls_json (gt_tool_calls t),
      cc_finish_reason = gt_finish_reason t, cc_usage = gt_usage t, cc_raw = None\<rparr>"

section \<open>The translator of an adapter\<close>

record codec =
  cd_loads :: "string \<Rightarrow> json option"
  cd_dumps :: "json \<Rightarrow> string"
  cd_str :: "json \<Rightarrow> string"
  cd_decode :: "string \<Rightarrow> string"

datatype translator = OpenAI_Translator string | Anthropic_Translator anthropic_translator | Gemini_Translator gemini_translator

definition stream_translator :: "string \<Rightarrow> translator" where
  "stream_translator provider =
     (if provider = ''anthropic'' then Anthropic_Translator anthropic_translator_init
      else if provider = ''gemini'' then Gemini_Translator gemini_translator_init
      else OpenAI_Translator [])"

fun translator_push :: "codec \<Rightarrow> translator \<Rightarrow> string \<Rightarrow> (client_chunk, translator) emit" where
  "translator_push k (OpenAI_Translator buffer) chunk = ([Raw_Bytes chunk], Some (OpenAI_Translator (buffer @ chunk)))"
| "translator_push k (Anthropic_Translator t) chunk =
     apsnd (map_option Anthropic_Translator) (anthropic_translate (cd_loads k) (cd_dumps k) (cd_str k) (cd_decode k) t chunk)"
| "translator_push k (Gemini_Translator t) chunk =
     apsnd (map_option Gemini_Translator) (gemini_translate (cd_loads k) (cd_dumps k) (cd_str k) (cd_decode k) t chunk)"

fun translator_finish :: "codec \<Rightarrow> translator \<Rightarrow> canonical_completion option" where
  "translator_finish k (OpenAI_Translator buffer) = assemble_stream (parse_sse_events (cd_loads k) (cd_decode k buffer))"
| "translator_finish k (Anthropic_Translator t) = Some (anthropic_assembled t)"
| "translator_finish k (Gemini_Translator t) = Some (gemini_assembled t)"

section \<open>What the client sees and what is captured\<close>

fun chunk_text :: "client_chunk \<Rightarrow> string" where
  "chunk_text (Delta_Chunk model delta finish) = (case map_of delta ''content'' of Some (JStr s) \<Rightarrow> s | _ \<Rightarrow> [])"
| "chunk_text _ = []"

fun chunk_calls :: "client_chunk \<Rightarrow> json list" where
  "chunk_calls (Delta_Chunk model delta finish) = (case map_of delta ''tool_calls'' of Some (JList cs) \<Rightarrow> cs | _ \<Rightarrow> [])"
| "chunk_calls _ = []"

definition numbered :: "(string \<times> json) list list \<Rightarrow> json list" where
  "numbered calls = map (\<lambda>i. put_index i (calls ! i)) [0 ..< length calls]"

lemma numbered_snoc [simp]: "numbered (cs @ [c]) = numbered cs @ [put_index (length cs) c]"
  by (simp add: numbered_def nth_append)

lemma numbered_Nil [simp]: "numbered [] = []"
  by (simp add: numbered_def)

text \<open>A generator that records what it sends: \<open>kept\<close> is the text and the calls a state will report at the end.\<close>

definition records_sent ::
  "('s \<Rightarrow> string \<times> (string \<times> json) list list) \<Rightarrow> 's \<Rightarrow> (client_chunk, 's) emit \<Rightarrow> bool" where
  "records_sent kept s m \<longleftrightarrow>
     (\<forall>s'. snd m = Some s' \<longrightarrow>
        fst (kept s') = fst (kept s) @ concat (map chunk_text (fst m)) \<and>
        numbered (snd (kept s')) = numbered (snd (kept s)) @ concat (map chunk_calls (fst m)))"

lemma records_Some [simp]:
  "records_sent kept s (es, Some s') \<longleftrightarrow>
     fst (kept s') = fst (kept s) @ concat (map chunk_text es) \<and>
     numbered (snd (kept s')) = numbered (snd (kept s)) @ concat (map chunk_calls es)"
  by (auto simp: records_sent_def)

lemma records_None [simp]: "records_sent kept s (es, None)"
  by (simp add: records_sent_def)

lemma records_then:
  assumes "records_sent kept s m" "\<And>s'. records_sent kept s' (f s')"
  shows "records_sent kept s (then_emit m f)"
proof (cases m)
  case (Pair es res)
  show ?thesis
  proof (cases res)
    case (Some s')
    have "records_sent kept s' (f s')" by (rule assms(2))
    then show ?thesis using assms(1) Some by (cases "f s'"; cases "snd (f s')") (auto simp: then_emit_def Pair)
  qed (simp add: then_emit_def Pair)
qed

lemma records_all: "(\<And>s x. records_sent kept s (f s x)) \<Longrightarrow> records_sent kept s (emit_all f xs s)"
  by (induction xs arbitrary: s) (auto intro: records_then)

definition anthropic_kept :: "anthropic_translator \<Rightarrow> string \<times> (string \<times> json) list list" where
  "anthropic_kept t = (concat (at_parts t), at_tool_calls t)"

definition gemini_kept :: "gemini_translator \<Rightarrow> string \<times> (string \<times> json) list list" where
  "gemini_kept t = (concat (gt_parts t), gt_tool_calls t)"

lemma gemini_kept_frame [simp]:
  "gemini_kept (t\<lparr>gt_model := m\<rparr>) = gemini_kept t" "gemini_kept (t\<lparr>gt_usage := u\<rparr>) = gemini_kept t"
  by (simp_all add: gemini_kept_def)

lemma emit_part_records: "records_sent anthropic_kept t (emit_part s t)"
  by (simp add: emit_part_def anthropic_kept_def)

lemma anthropic_events_record:
  "records_sent anthropic_kept t (on_message_start payload t)"
  "records_sent anthropic_kept t (on_block_start py_str payload t)"
  "records_sent anthropic_kept t (on_block_delta py_str payload t)"
  "records_sent anthropic_kept t (on_block_stop loads dumps payload t)"
  "records_sent anthropic_kept t (on_message_delta payload t)"
  subgoal by (simp add: on_message_start_def anthropic_kept_def Let_def split: option.split)
  subgoal by (simp add: on_block_start_def emit_part_records split: option.split) (simp add: anthropic_kept_def)
  subgoal by (simp add: on_block_delta_def emit_part_records split: option.split prod.split) (simp add: anthropic_kept_def)
  subgoal by (simp add: on_block_stop_def anthropic_kept_def Let_def split: option.split)
  subgoal by (simp add: on_message_delta_def anthropic_kept_def split: option.split)
  done

lemma anthropic_data_records: "records_sent anthropic_kept t (anthropic_data loads dumps py_str t d)"
  by (simp add: anthropic_data_def handle_event_def Let_def anthropic_events_record split: option.split json.split)

lemma records_frame: "kept s' = kept s \<Longrightarrow> records_sent kept s' m \<Longrightarrow> records_sent kept s m"
  by (simp add: records_sent_def)

lemma anthropic_translate_records:
  "records_sent anthropic_kept t (anthropic_translate loads dumps py_str decode t chunk)"
proof -
  have "records_sent anthropic_kept t (emit_all (anthropic_data loads dumps py_str) ds (t\<lparr>at_buffer := b\<rparr>))" for ds b
    by (rule records_frame [OF _ records_all [OF anthropic_data_records]]) (simp add: anthropic_kept_def)
  then show ?thesis by (simp add: anthropic_translate_def split: prod.split)
qed

lemma gemini_candidate_records: "records_sent gemini_kept t (gemini_stream_candidate dumps py_str t candidate)"
proof -
  have part: "records_sent gemini_kept t (gemini_stream_part dumps py_str t part)" for t part
    by (simp add: gemini_stream_part_def gemini_kept_def Let_def split: json.split option.split)
  have finish: "records_sent gemini_kept t (gemini_stream_finish c t)" for c t
    by (simp add: gemini_stream_finish_def gemini_kept_def split: option.split)
  show ?thesis
    by (simp add: gemini_stream_candidate_def records_then [OF records_all [OF part] finish] split: json.split option.split)
qed

lemma gemini_translate_records: "records_sent gemini_kept t (gemini_translate loads dumps py_str decode t chunk)"
proof -
  have payload: "records_sent gemini_kept t (gemini_stream_payload dumps py_str p t)" for p t
  proof -
    have "records_sent gemini_kept t (emit_all (gemini_stream_candidate dumps py_str) cs t')" if "gemini_kept t' = gemini_kept t" for cs t'
      by (rule records_frame [OF that records_all [OF gemini_candidate_records]])
    then show ?thesis by (simp add: gemini_stream_payload_def split: option.split)
  qed
  have data: "records_sent gemini_kept t (gemini_data loads dumps py_str t d)" for t d
    by (simp add: gemini_data_def payload split: option.split json.split)
  have "records_sent gemini_kept t (emit_all (gemini_data loads dumps py_str) ds (t\<lparr>gt_buffer := b\<rparr>))" for ds b
    by (rule records_frame [OF _ records_all [OF data]]) (simp add: gemini_kept_def)
  then show ?thesis by (simp add: gemini_translate_def split: prod.split)
qed

fun translator_kept :: "translator \<Rightarrow> string \<times> (string \<times> json) list list" where
  "translator_kept (OpenAI_Translator buffer) = ([], [])"
| "translator_kept (Anthropic_Translator t) = anthropic_kept t"
| "translator_kept (Gemini_Translator t) = gemini_kept t"

lemma translator_records: "records_sent translator_kept t (translator_push k t chunk)"
proof (cases t)
  case (Anthropic_Translator s)
  show ?thesis
    using anthropic_translate_records [of s "cd_loads k" "cd_dumps k" "cd_str k" "cd_decode k" chunk]
    by (auto simp: Anthropic_Translator records_sent_def)
next
  case (Gemini_Translator s)
  show ?thesis
    using gemini_translate_records [of s "cd_loads k" "cd_dumps k" "cd_str k" "cd_decode k" chunk]
    by (auto simp: Gemini_Translator records_sent_def)
qed simp

text \<open>The provider of a translator does not change.\<close>

fun same_kind :: "translator \<Rightarrow> translator \<Rightarrow> bool" where
  "same_kind (OpenAI_Translator _) (OpenAI_Translator _) = True"
| "same_kind (Anthropic_Translator _) (Anthropic_Translator _) = True"
| "same_kind (Gemini_Translator _) (Gemini_Translator _) = True"
| "same_kind _ _ = False"

lemma push_same_kind: "snd (translator_push k t chunk) = Some t' \<Longrightarrow> same_kind t t'"
  by (cases t) auto

lemma same_kind_trans: "same_kind a b \<Longrightarrow> same_kind b c \<Longrightarrow> same_kind a c"
  by (cases a; cases b; cases c) auto

lemma then_emit_Some: "snd (then_emit m f) = Some r \<Longrightarrow> \<exists>r'. snd m = Some r' \<and> snd (f r') = Some r"
  by (auto simp: then_emit_def split: prod.splits option.splits)

lemma pushes_same_kind: "snd (emit_all (translator_push k) chunks t) = Some t' \<Longrightarrow> same_kind t t'"
proof (induction chunks arbitrary: t)
  case Nil
  then show ?case by (cases t) auto
next
  case (Cons chunk chunks)
  then obtain t1 where "snd (translator_push k t chunk) = Some t1" "snd (emit_all (translator_push k) chunks t1) = Some t'"
    by (auto dest: then_emit_Some)
  then show ?case using Cons.IH push_same_kind same_kind_trans by blast
qed

lemma translated_kept:
  assumes "snd (emit_all (translator_push k) chunks (stream_translator provider)) = Some t" "provider \<in> {''anthropic'', ''gemini''}"
  shows "\<exists>c calls. translator_finish k t = Some c \<and> cc_tool_calls c = calls_json calls \<and>
    cc_content c = JStr (concat (map chunk_text (fst (emit_all (translator_push k) chunks (stream_translator provider))))) \<and>
    concat (map chunk_calls (fst (emit_all (translator_push k) chunks (stream_translator provider)))) = numbered calls"
proof -
  have start: "translator_kept (stream_translator provider) = ([], [])"
    using assms(2) by (auto simp: stream_translator_def anthropic_kept_def anthropic_translator_init_def gemini_kept_def
        gemini_translator_init_def)
  have kept: "records_sent translator_kept (stream_translator provider) (emit_all (translator_push k) chunks (stream_translator provider))"
    by (rule records_all) (rule translator_records)
  have kind: "same_kind (stream_translator provider) t" by (rule pushes_same_kind [OF assms(1)])
  show ?thesis
  proof (cases t)
    case (OpenAI_Translator buffer)
    then show ?thesis using kind assms(2) by (auto simp: stream_translator_def)
  next
    case (Anthropic_Translator s)
    then show ?thesis
      using kept assms(1) start
      by (intro exI [of _ "at_tool_calls s"] exI [of _ "anthropic_assembled s"])
         (simp add: records_sent_def anthropic_kept_def anthropic_assembled_def)
  next
    case (Gemini_Translator s)
    then show ?thesis
      using kept assms(1) start
      by (intro exI [of _ "gt_tool_calls s"] exI [of _ "gemini_assembled s"])
         (simp add: records_sent_def gemini_kept_def gemini_assembled_def)
  qed
qed

text \<open>
  C14. What is metered and cached is what the client was sent. When a translated stream has ended, the completion that
  the translator reports has the text of the chunks the client got, and the tool calls it got, numbered from 0 in
  order.
\<close>

theorem captured_completion_is_what_was_sent:
  assumes "provider \<in> {''anthropic'', ''gemini''}"
    and "emit_all (translator_push k) chunks (stream_translator provider) = (sent, Some t)"
  shows "\<exists>c calls. translator_finish k t = Some c \<and> cc_content c = JStr (concat (map chunk_text sent)) \<and>
    cc_tool_calls c = calls_json calls \<and> concat (map chunk_calls sent) = numbered calls"
  using translated_kept [of k chunks provider t] assms by auto

text \<open>
  An OpenAI stream is delivered as it comes: the bytes for the client are the bytes of the upstream, in order and
  chunk by chunk, whatever they are, and the completion is assembled from the same bytes.
\<close>

lemma openai_pushes_verbatim:
  "emit_all (translator_push k) chunks (stream_translator ''openai'') = (map Raw_Bytes chunks, Some (OpenAI_Translator (concat chunks)))"
proof -
  have "emit_all (translator_push k) chunks (OpenAI_Translator b) = (map Raw_Bytes chunks, Some (OpenAI_Translator (b @ concat chunks)))" for b
    by (induction chunks arbitrary: b) (simp_all add: then_emit_def)
  then show ?thesis by (simp add: stream_translator_def)
qed

text \<open>No Gemini answer ends with the reason that tells an OpenAI client to run its tools.\<close>

theorem gemini_never_finishes_for_tools: "gemini_finish_reason reason \<noteq> Some (JStr ''tool_calls'')"
  by (simp add: gemini_finish_reason_def split: json.split)


definition demo_codec :: codec where
  "demo_codec = \<lparr>cd_loads = (\<lambda>s. if s = ''start'' then Some (JObj [(''type'', JStr ''message_start'')])
       else if s = ''text'' then Some (JObj [(''type'', JStr ''content_block_delta''),
         (''delta'', JObj [(''type'', JStr ''text_delta''), (''text'', JStr ''Hi'')])])
       else if s = ''stop'' then Some (JObj [(''type'', JStr ''message_stop'')]) else None),
     cd_dumps = (\<lambda>v. []), cd_str = (\<lambda>v. []), cd_decode = (\<lambda>s. s)\<rparr>"

definition demo_chunks :: "string list" where
  "demo_chunks = [''data: start'' @ [CHR 0x0A, CHR 0x0A], ''data: te'', ''xt'' @ [CHR 0x0A, CHR 0x0A] @ ''data: stop'' @ [CHR 0x0A, CHR 0x0A]]"

lemma demo_stream:
  "concat (map chunk_text (fst (emit_all (translator_push demo_codec) demo_chunks (stream_translator ''anthropic'')))) = ''Hi''"
  "snd (emit_all (translator_push demo_codec) demo_chunks (stream_translator ''anthropic'')) \<noteq> None"
  by code_simp+

theorem captured_completion_is_what_was_sent_witness:
  "case emit_all (translator_push demo_codec) demo_chunks (stream_translator ''anthropic'') of
     (sent, Some t) \<Rightarrow> (case translator_finish demo_codec t of Some c \<Rightarrow> cc_content c = JStr ''Hi'' | None \<Rightarrow> False)
   | (sent, None) \<Rightarrow> False"
proof -
  obtain sent t where e: "emit_all (translator_push demo_codec) demo_chunks (stream_translator ''anthropic'') = (sent, Some t)"
    using demo_stream(2) by (cases "emit_all (translator_push demo_codec) demo_chunks (stream_translator ''anthropic'')") auto
  show ?thesis using captured_completion_is_what_was_sent [OF _ e] demo_stream(1) by (auto simp: e)
qed


end
