(* ===== verification/Streams.thy ===== *)
theory Streams
  imports Forward StreamTranslators
begin

text \<open>
  The streamed reply of \<open>proxy/router.py\<close>, \<open>_stream_through\<close>: attempts until one opens, the upstream's chunks
  through the adapter's translator, the breaker, and the capture after the last chunk. \<open>us_answer i\<close> is what the
  \<open>i\<close>-th POST brings; \<open>us_clock i\<close> is the monotonic clock when its status is judged and \<open>us_clock_caught i\<close> when
  its exception is. A result is the chunks sent, the translator of a stream that ran to its end, and the world.
\<close>

section \<open>One attempt\<close>

text \<open>
  No connection; a status that is not 200, with its \<open>Retry-After\<close> and its body (\<open>Inl\<close>: reading it raised); the
  chunks of the body and the exception that ended it early, if one did.
\<close>

datatype stream_answer =
    Unreachable string
  | Refused int "string option" "string + string"
  | Opened "string list" "string option"

record upstream_stream =
  us_answer :: "nat \<Rightarrow> stream_answer"
  us_clock :: "nat \<Rightarrow> seconds"
  us_clock_caught :: "nat \<Rightarrow> seconds"

text \<open>What an attempt ends with: the chunks sent, and after a clean end the translator and whether a chunk came.\<close>

datatype stream_step = Retry py_float | Ended "client_chunk list" "(translator \<times> bool) option"

definition error_chunks :: "string \<Rightarrow> client_chunk list" where
  "error_chunks e =
     [Raw_Bytes (''data: {\"error\":{\"message\":\"upstream request failed: '' @ e @ ''\",\"type\":\"varsten_upstream_error\"}}''
        @ [CHR 0x0A, CHR 0x0A]), Done_Line]"

text \<open>\<open>delay\<close> is the backoff of this attempt, \<open>None\<close> on the last one; \<open>sent\<close> is what it has sent so far.\<close>

definition stream_caught ::
  "'s env \<Rightarrow> seconds \<Rightarrow> seconds \<Rightarrow> seconds option \<Rightarrow> bool \<Rightarrow> client_chunk list \<Rightarrow> string \<Rightarrow> 's world \<Rightarrow> stream_step \<times> 's world" where
  "stream_caught env caught deadline delay streamed sent e w =
     (case delay of
        Some d \<Rightarrow> if \<not> streamed \<and> caught < deadline then (Retry (Fin d), w)
                  else (Ended (sent @ error_chunks e) None, breaker_failure env w)
      | None \<Rightarrow> (Ended (sent @ error_chunks e) None, breaker_failure env w))"

definition stream_refused ::
  "'s env \<Rightarrow> seconds \<Rightarrow> seconds \<Rightarrow> seconds \<Rightarrow> seconds option \<Rightarrow> int \<Rightarrow> string option \<Rightarrow> string + string \<Rightarrow> 's world
    \<Rightarrow> stream_step \<times> 's world" where
  "stream_refused env judged caught deadline delay status header body w =
     (let read = (\<lambda>step w'. case body of Inr b \<Rightarrow> (step b, w') | Inl e \<Rightarrow> stream_caught env caught deadline delay False [] e w');
          relayed = (\<lambda>b. Ended [Raw_Bytes b] None)
      in if \<not> is_upstream_failure status then read relayed (breaker_success env w)
         else (case delay of
                 Some d \<Rightarrow> if judged < deadline then read (\<lambda>b. Retry (retry_after_seconds (e_settings env) header d)) w
                           else read relayed (breaker_failure env w)
               | None \<Rightarrow> read relayed (breaker_failure env w)))"

definition stream_opened ::
  "'s env \<Rightarrow> codec \<Rightarrow> seconds \<Rightarrow> seconds \<Rightarrow> seconds option \<Rightarrow> string list \<Rightarrow> string option \<Rightarrow> translator \<Rightarrow> 's world
    \<Rightarrow> stream_step \<times> 's world" where
  "stream_opened env k caught deadline delay chunks broken t w =
     (let w1 = breaker_success env w
      in case emit_all (translator_push k) chunks t of
           (sent, None) \<Rightarrow> (Ended sent None, w1)
         | (sent, Some t') \<Rightarrow>
             (case broken of
                None \<Rightarrow> (Ended sent (Some (t', chunks \<noteq> [])), w1)
              | Some e \<Rightarrow> stream_caught env caught deadline delay (chunks \<noteq> []) sent e w1))"

definition stream_attempt ::
  "'s env \<Rightarrow> codec \<Rightarrow> upstream_stream \<Rightarrow> seconds \<Rightarrow> seconds option \<Rightarrow> nat \<Rightarrow> translator \<Rightarrow> 's world \<Rightarrow> stream_step \<times> 's world" where
  "stream_attempt env k up deadline delay i t w =
     (case us_answer up i of
        Unreachable e \<Rightarrow> stream_caught env (us_clock_caught up i) deadline delay False [] e w
      | Refused status header body \<Rightarrow>
          stream_refused env (us_clock up i) (us_clock_caught up i) deadline delay status header body w
      | Opened chunks broken \<Rightarrow> stream_opened env k (us_clock_caught up i) deadline delay chunks broken t w)"

text \<open>An attempt that is retried has pushed nothing: the translator is the one it began with.\<close>

type_synonym 's streamed = "client_chunk list \<times> (translator \<times> bool) option \<times> 's world"

fun stream_loop ::
  "'s env \<Rightarrow> codec \<Rightarrow> upstream_stream \<Rightarrow> seconds \<Rightarrow> translator \<Rightarrow> seconds list \<Rightarrow> nat \<Rightarrow> 's world \<Rightarrow> 's streamed" where
  "stream_loop env k up deadline t [] i w =
     (case stream_attempt env k up deadline None i t w of
        (Ended sent finished, w1) \<Rightarrow> (sent, finished, w1)
      | (Retry _, w1) \<Rightarrow> ([], None, w1))"
| "stream_loop env k up deadline t (d # ds) i w =
     (case stream_attempt env k up deadline (Some d) i t w of
        (Ended sent finished, w1) \<Rightarrow> (sent, finished, w1)
      | (Retry delay, w1) \<Rightarrow>
          (case asyncio_sleep delay of
             None \<Rightarrow> ([], None, w1)
           | Some _ \<Rightarrow> stream_loop env k up deadline t ds (Suc i) w1))"

section \<open>The reply and its capture\<close>

definition stream_codec :: "'s env \<Rightarrow> (string \<Rightarrow> string) \<Rightarrow> codec" where
  "stream_codec env decode = \<lparr>cd_loads = e_loads env, cd_dumps = e_dumps env, cd_str = e_str env, cd_decode = decode\<rparr>"

text \<open>The latency is the time to the first upstream chunk; a stream without chunks has none.\<close>

definition stream_job :: "'s env \<Rightarrow> stream_args \<Rightarrow> bool \<Rightarrow> canonical_completion \<Rightarrow> capture_job" where
  "stream_job env sg first_byte result =
     (let opt = sg_opt sg
      in \<lparr>cj_provider = sg_provider sg, cj_model = or_json (cc_model result) (JStr (sg_model sg)), cj_cache_model = sg_model sg,
          cj_response_payload = (if truthy (cc_content result) \<or> truthy (cc_tool_calls result)
            then completion_payload (e_time_ms env) result else []),
          cj_cache_key = sg_cache_key sg, cj_in_tok = cu_input_tokens (cc_usage result),
          cj_out_tok = cu_output_tokens (cc_usage result), cj_cached_tok = cu_cached_tokens (cc_usage result),
          cj_store_cache = sg_store_cache sg, cj_embedding = sg_embedding sg, cj_body = os_body opt,
          cj_routed_from = os_routed_from opt, cj_routed_from_provider = os_routed_from_provider opt, cj_arm = os_arm opt,
          cj_exp_from = os_exp_from opt, cj_exp_to = os_exp_to opt,
          cj_latency_ms = (if first_byte then Some (e_latency_ms env) else None), cj_draft = sg_draft sg,
          cj_fallback_used = False, cj_fallback_reason = None\<rparr>)"

definition stream_capture :: "'s env \<Rightarrow> codec \<Rightarrow> stream_args \<Rightarrow> bool \<Rightarrow> translator \<Rightarrow> 's world \<Rightarrow> 's world" where
  "stream_capture env k sg first_byte t w =
     (case translator_finish k t of
        None \<Rightarrow> w
      | Some result \<Rightarrow> capture env (stream_job env sg first_byte result) w)"

definition stream_model :: "stream_args \<Rightarrow> string" where
  "stream_model sg = (if os_upstream_model (sg_opt sg) = [] then sg_model sg else os_upstream_model (sg_opt sg))"

definition stream_request :: "'s env \<Rightarrow> stream_args \<Rightarrow> upstream_request option" where
  "stream_request env sg =
     do { adapter \<leftarrow> adapter_for env (sg_provider sg);
          wire \<leftarrow> ad_prepare_request adapter (os_body (sg_opt sg)) (stream_model sg) True;
          Some \<lparr>ur_provider = sg_provider sg, ur_model = stream_model sg, ur_key = sg_client_key sg,
                ur_idempotency_key = with_idempotency (sg_idempotency_key sg), ur_body = wire\<rparr> }"

definition stream_through ::
  "'s env \<Rightarrow> (string \<Rightarrow> string) \<Rightarrow> (upstream_request \<Rightarrow> upstream_stream) \<Rightarrow> stream_args \<Rightarrow> 's world
    \<Rightarrow> client_chunk list \<times> 's world" where
  "stream_through env decode open_stream sg w =
     (case stream_request env sg of
        None \<Rightarrow> ([], w)
      | Some req \<Rightarrow>
          (let k = stream_codec env decode
           in case stream_loop env k (open_stream req) (e_clock env + proxy_retry_budget_seconds (e_settings env))
                     (stream_translator (sg_provider sg)) (backoff_delays (e_settings env) (e_jitter env req)) 0 w of
                (sent, None, w1) \<Rightarrow> (sent, w1)
              | (sent, Some (t, first_byte), w1) \<Rightarrow> (sent, stream_capture env k sg first_byte t w1)))"

section \<open>Lemmas on attempts\<close>

definition attempt_chunks :: "codec \<Rightarrow> translator \<Rightarrow> stream_answer \<Rightarrow> client_chunk list" where
  "attempt_chunks k t a =
     (case a of
        Unreachable e \<Rightarrow> []
      | Refused status header body \<Rightarrow> (case body of Inr b \<Rightarrow> [Raw_Bytes b] | Inl e \<Rightarrow> [])
      | Opened chunks broken \<Rightarrow> fst (emit_all (translator_push k) chunks t))"

text \<open>An answer that has brought no byte of a completion.\<close>

definition before_first_byte :: "stream_answer \<Rightarrow> bool" where
  "before_first_byte a = (case a of Opened chunks broken \<Rightarrow> chunks = [] \<and> broken \<noteq> None | _ \<Rightarrow> True)"

fun error_tail :: "string option \<Rightarrow> client_chunk list" where
  "error_tail None = []"
| "error_tail (Some e) = error_chunks e"

lemma caught_Retry:
  assumes "stream_caught env caught deadline delay streamed sent e w = (Retry r, w1)"
  shows "\<not> streamed \<and> w1 = w"
  using assms by (simp add: stream_caught_def split: option.splits if_splits)

lemma caught_Ended:
  assumes "stream_caught env caught deadline delay streamed sent e w = (Ended s f, w1)"
  shows "f = None \<and> s = sent @ error_chunks e \<and> w1 = breaker_failure env w"
  using assms by (auto simp: stream_caught_def split: option.splits if_splits)

lemma caught_last: "stream_caught env caught deadline None streamed sent e w \<noteq> (Retry r, w1)"
  by (simp add: stream_caught_def)

lemma refused_cases:
  obtains (caught) e w' where "body = Inl e" "w' \<in> {w, breaker_success env w, breaker_failure env w}"
      "stream_refused env judged caught deadline delay status header body w = stream_caught env caught deadline delay False [] e w'"
  | (relayed) b w' where "body = Inr b" "w' \<in> {breaker_success env w, breaker_failure env w}"
      "stream_refused env judged caught deadline delay status header body w = (Ended [Raw_Bytes b] None, w')"
  | (retry) b d where "body = Inr b" "delay = Some d" "is_upstream_failure status"
      "stream_refused env judged caught deadline delay status header body w
         = (Retry (retry_after_seconds (e_settings env) header d), w)"
  by (cases body; cases delay; cases "is_upstream_failure status"; cases "judged < deadline")
     (auto simp: stream_refused_def Let_def)

lemma attempt_Ended:
  assumes "stream_attempt env k up deadline delay i t w = (Ended sent f, w1)"
  shows "\<exists>e. sent = attempt_chunks k t (us_answer up i) @ error_tail e"
proof (cases "us_answer up i")
  case (Unreachable e)
  then show ?thesis using assms
    by (intro exI [of _ "Some e"]) (auto simp: stream_attempt_def attempt_chunks_def dest: caught_Ended)
next
  case (Refused status header body)
  note a = assms [unfolded stream_attempt_def Refused stream_answer.case]
  show ?thesis
  proof (rule refused_cases [of body w env "us_clock up i" "us_clock_caught up i" deadline delay status header], goal_cases)
    case (1 e w') then show ?case using a by (intro exI [of _ "Some e"]) (auto simp: Refused attempt_chunks_def dest: caught_Ended)
  next
    case (2 b w') then show ?case using a by (intro exI [of _ None]) (simp add: Refused attempt_chunks_def)
  next
    case (3 b d) then show ?case using a by simp
  qed
next
  case (Opened chunks broken)
  note a = assms [unfolded stream_attempt_def Opened stream_answer.case stream_opened_def Let_def]
  obtain s r where e: "emit_all (translator_push k) chunks t = (s, r)" by fastforce
  show ?thesis
  proof (cases "r = None \<or> broken = None")
    case True
    then show ?thesis using a e by (intro exI [of _ None]) (auto simp: Opened attempt_chunks_def split: option.splits)
  next
    case False
    then obtain t' x where "r = Some t'" "broken = Some x" by auto
    then show ?thesis using a e
      by (intro exI [of _ "Some x"]) (auto simp: Opened attempt_chunks_def dest: caught_Ended)
  qed
qed

lemma attempt_Retry:
  assumes "stream_attempt env k up deadline delay i t w = (Retry r, w1)"
  shows "before_first_byte (us_answer up i)"
proof (cases "us_answer up i")
  case (Opened chunks broken)
  show ?thesis
    using assms [unfolded stream_attempt_def Opened stream_answer.case stream_opened_def Let_def]
    by (auto simp: Opened before_first_byte_def split: prod.splits option.splits dest: caught_Retry)
qed (simp_all add: before_first_byte_def)

lemma loop_bytes:
  assumes "stream_loop env k up deadline t ds i w = (sent, f, w1)"
  shows "\<exists>j e. i \<le> j \<and> j \<le> i + length ds \<and> list_all before_first_byte (map (us_answer up) [i ..< j]) \<and>
    (sent = [] \<or> sent = attempt_chunks k t (us_answer up j) @ error_tail e)"
  using assms
proof (induction ds arbitrary: i w)
  case Nil
  then show ?case
    by (intro exI [of _ i]) (auto split: prod.splits stream_step.splits dest: attempt_Ended)
next
  case (Cons d ds)
  obtain step w2 where st: "stream_attempt env k up deadline (Some d) i t w = (step, w2)" by fastforce
  show ?case
  proof (cases step)
    case (Ended s g)
    then have "\<exists>e. sent = attempt_chunks k t (us_answer up i) @ error_tail e"
      using Cons.prems st attempt_Ended [of env k up deadline "Some d" i t w s g w2] by simp
    then show ?thesis by (intro exI [of _ i]) auto
  next
    case (Retry delay)
    then have first: "before_first_byte (us_answer up i)" using st attempt_Retry by blast
    show ?thesis
    proof (cases "asyncio_sleep delay")
      case None
      then show ?thesis using Cons.prems st Retry by (intro exI [of _ i]) auto
    next
      case (Some x)
      then have "stream_loop env k up deadline t ds (Suc i) w2 = (sent, f, w1)" using Cons.prems st Retry by simp
      then obtain j e where j: "Suc i \<le> j" "j \<le> Suc i + length ds" "list_all before_first_byte (map (us_answer up) [Suc i ..< j])"
          "sent = [] \<or> sent = attempt_chunks k t (us_answer up j) @ error_tail e"
        using Cons.IH by blast
      have "[i ..< j] = i # [Suc i ..< j]" using j(1) by (simp add: upt_conv_Cons)
      then show ?thesis using j first by (intro exI [of _ j] exI [of _ e]) auto
    qed
  qed
qed

lemma breaker_failure_frame [simp]:
  "w_entries (breaker_failure env w) = w_entries w" "w_samples (breaker_failure env w) = w_samples w"
  "w_ledger (breaker_failure env w) = w_ledger w" "w_decisions (breaker_failure env w) = w_decisions w"
  by (simp_all add: breaker_failure_def)

text \<open>What only the breaker's accounting may change.\<close>

definition same_books :: "'s world \<Rightarrow> 's world \<Rightarrow> bool" where
  "same_books w w' \<longleftrightarrow> w_ledger w' = w_ledger w \<and> w_entries w' = w_entries w \<and> w_samples w' = w_samples w \<and> w_decisions w' = w_decisions w"

lemma same_books_refl [simp]: "same_books w w" "same_books w (breaker_success env w)" "same_books w (breaker_failure env w)"
  by (simp_all add: same_books_def)

lemma same_books_trans: "same_books a b \<Longrightarrow> same_books b c \<Longrightarrow> same_books a c"
  by (simp add: same_books_def)

lemma caught_books: "same_books w (snd (stream_caught env caught deadline delay streamed sent e w))"
  by (simp add: stream_caught_def split: option.split)

lemma attempt_books: "same_books w (snd (stream_attempt env k up deadline delay i t w))"
proof (cases "us_answer up i")
  case (Unreachable e)
  then show ?thesis by (simp add: stream_attempt_def caught_books)
next
  case (Refused status header body)
  show ?thesis
    unfolding stream_attempt_def Refused stream_answer.case
    by (rule refused_cases [of body w env "us_clock up i" "us_clock_caught up i" deadline delay status header])
       (auto intro: same_books_trans [OF _ caught_books])
next
  case (Opened chunks broken)
  show ?thesis
    unfolding stream_attempt_def Opened stream_answer.case stream_opened_def Let_def
    by (auto split: prod.split option.split intro: same_books_trans [OF _ caught_books])
qed

lemma loop_books: "same_books w (snd (snd (stream_loop env k up deadline t ds i w)))"
proof (induction ds arbitrary: i w)
  case Nil
  have "same_books w (snd (stream_attempt env k up deadline None i t w))" by (rule attempt_books)
  then show ?case by (auto split: prod.split stream_step.split)
next
  case (Cons d ds)
  obtain step w2 where st: "stream_attempt env k up deadline (Some d) i t w = (step, w2)" by fastforce
  have "same_books w w2" using attempt_books [of w env k up deadline "Some d" i t] st by simp
  then show ?case using st Cons.IH [of w2 "Suc i"] same_books_trans
    by (auto split: stream_step.split option.split)
qed

section \<open>Properties\<close>

text \<open>
  C12. Nothing is ever sent twice. Whatever the upstream does in however many attempts, the client gets the bytes of at
  most one of them, followed by at most one error event; every attempt before it brought no byte, and there are at
  most as many retries as the settings allow. A request that the adapter cannot translate sends nothing.
\<close>

theorem stream_comes_from_one_attempt:
  "case stream_request env sg of
     None \<Rightarrow> stream_through env decode open_stream sg w = ([], w)
   | Some req \<Rightarrow>
       \<exists>j e. j \<le> length (backoff_delays (e_settings env) (e_jitter env req)) \<and>
         list_all before_first_byte (map (us_answer (open_stream req)) [0 ..< j]) \<and>
         (fst (stream_through env decode open_stream sg w) = [] \<or>
          fst (stream_through env decode open_stream sg w)
            = attempt_chunks (stream_codec env decode) (stream_translator (sg_provider sg)) (us_answer (open_stream req) j) @ error_tail e)"
proof (cases "stream_request env sg")
  case (Some req)
  obtain sent f w1 where l: "stream_loop env (stream_codec env decode) (open_stream req)
      (e_clock env + proxy_retry_budget_seconds (e_settings env)) (stream_translator (sg_provider sg))
      (backoff_delays (e_settings env) (e_jitter env req)) 0 w = (sent, f, w1)" by (metis prod_cases3)
  have "fst (stream_through env decode open_stream sg w) = sent"
    by (simp add: stream_through_def Some l Let_def split: option.split)
  with loop_bytes [OF l] show ?thesis by (simp add: Some)
qed (simp add: stream_through_def)

lemma first_attempt:
  assumes "stream_attempt env k up deadline (case ds of [] \<Rightarrow> None | d # ds' \<Rightarrow> Some d) i t w = (Ended sent f, w1)"
  shows "stream_loop env k up deadline t ds i w = (sent, f, w1)"
  using assms by (cases ds) simp_all

text \<open>An opened stream is final once it has brought a chunk, or has ended cleanly.\<close>

lemma opened_final:
  assumes "us_answer up i = Opened chunks broken" "emit_all (translator_push k) chunks t = (sent, Some t')"
    and "chunks \<noteq> [] \<or> broken = None"
  shows "stream_loop env k up deadline t ds i w =
    (case broken of None \<Rightarrow> (sent, Some (t', chunks \<noteq> []), breaker_success env w)
     | Some e \<Rightarrow> (sent @ error_chunks e, None, breaker_failure env (breaker_success env w)))"
  by (cases broken; cases ds)
     (use assms in \<open>simp_all add: stream_attempt_def stream_opened_def stream_caught_def\<close>)


text \<open>
  C15. An OpenAI stream that completes in its first attempt reaches the client as it came, chunk by chunk, whatever the
  bytes are; then, and only then, the completion assembled from the same bytes is captured. A body from which none can
  be assembled costs the metering, not the reply.
\<close>

theorem openai_stream_is_verbatim:
  assumes "sg_provider sg = ''openai''" "stream_request env sg = Some req" "us_answer (open_stream req) 0 = Opened chunks None"
  shows "stream_through env decode open_stream sg w =
    (map Raw_Bytes chunks,
     case assemble_stream (parse_sse_events (e_loads env) (decode (concat chunks))) of
       None \<Rightarrow> breaker_success env w
     | Some result \<Rightarrow> capture env (stream_job env sg (chunks \<noteq> []) result) (breaker_success env w))"
proof -
  have "emit_all (translator_push (stream_codec env decode)) chunks (stream_translator (sg_provider sg))
      = (map Raw_Bytes chunks, Some (OpenAI_Translator (concat chunks)))"
    by (simp add: assms(1) openai_pushes_verbatim)
  then show ?thesis
    using assms by (simp add: stream_through_def opened_final stream_capture_def stream_codec_def Let_def)
qed

text \<open>
  Streamed or not, the same completion is the same row. When a stream that brought a chunk assembles to a completion
  with content or tool calls, the job it captures is the one that \<open>_forward_once\<close> schedules for that completion; an
  empty completion is captured without a payload, so it is metered and neither cached nor sampled.
\<close>

theorem streamed_capture_is_unstreamed_capture:
  "stream_job env
     \<lparr>sg_headers = headers, sg_provider = ad_provider adapter, sg_client_key = client_key, sg_model = dc_model dc,
      sg_cache_key = dc_cache_key dc, sg_opt = opt, sg_embedding = embedding, sg_store_cache = store,
      sg_idempotency_key = idem, sg_draft = d\<rparr> True result =
   (let j = capture_job_of env adapter dc opt embedding store result d
    in if truthy (cc_content result) \<or> truthy (cc_tool_calls result) then j else j\<lparr>cj_response_payload := []\<rparr>)"
  by (simp add: stream_job_def capture_job_of_def Let_def)

text \<open>
  A request that the provider refuses as the client's mistake. The reply's status is 200 already: the refusal reaches
  the client as the bytes of its body, in the place of the event stream, with neither its status nor an event.
\<close>

theorem refused_stream_is_sent_raw:
  assumes "stream_request env sg = Some req" "us_answer (open_stream req) 0 = Refused status header (Inr body)"
    and "\<not> is_upstream_failure status"
  shows "stream_through env decode open_stream sg w = ([Raw_Bytes body], breaker_success env w)"
proof -
  have "stream_loop env k (open_stream req) deadline t ds 0 w = ([Raw_Bytes body], None, breaker_success env w)" for k deadline t ds
    using assms(2,3) by (intro first_attempt) (simp add: stream_attempt_def stream_refused_def Let_def)
  then show ?thesis by (simp add: stream_through_def assms(1) Let_def)
qed

text \<open>Without a cleanly ended body nothing but the breaker is touched, in whatever attempts.\<close>

lemma unfinished_stream_same_books:
  assumes "stream_request env sg = Some req"
    and "fst (snd (stream_loop env (stream_codec env decode) (open_stream req) (e_clock env + proxy_retry_budget_seconds (e_settings env))
      (stream_translator (sg_provider sg)) (backoff_delays (e_settings env) (e_jitter env req)) 0 w)) = None"
  shows "same_books w (snd (stream_through env decode open_stream sg w))"
  using assms loop_books [of w env "stream_codec env decode" "open_stream req"]
  by (auto simp: stream_through_def Let_def split: prod.splits option.splits) (metis snd_conv)

lemma capture_adds_one: "length (w_ledger (capture env j w)) \<le> Suc (length (w_ledger w))"
  using capture_ledger [of env j w] by auto

lemma stream_ledger: "length (w_ledger (snd (stream_through env decode open_stream sg w))) \<le> Suc (length (w_ledger w))"
proof (cases "stream_request env sg")
  case (Some req)
  obtain sent f w1 where l: "stream_loop env (stream_codec env decode) (open_stream req)
      (e_clock env + proxy_retry_budget_seconds (e_settings env)) (stream_translator (sg_provider sg))
      (backoff_delays (e_settings env) (e_jitter env req)) 0 w = (sent, f, w1)" by (metis prod_cases3)
  have "same_books w (snd (snd (sent, f, w1)))" unfolding l [symmetric] by (rule loop_books)
  then have "w_ledger w1 = w_ledger w" by (simp add: same_books_def)
  then show ?thesis
    by (auto simp: stream_through_def Some l Let_def stream_capture_def capture_adds_one le_SucI split: option.split)
       (metis capture_adds_one)
qed (simp add: stream_through_def)

lemma not_streaming [simp]:
  "json_reply status headers body \<noteq> Streaming sg" "relay headers r \<noteq> Streaming sg" "unreachable_error headers e \<noteq> Streaming sg"
  by (simp_all add: json_reply_def relay_def unreachable_error_def)

lemma fallback_not_streaming:
  "fst (forward_fallback env adapter key dc opt embedding headers model idem d x) \<noteq> Some (Streaming sg)"
  by (simp add: forward_fallback_def Let_def split: option.split retry_result.split)

lemma forward_once_not_streaming: "fst (forward_once env adapter key dc opt embedding store headers idem d w) \<noteq> Streaming sg"
proof -
  have after: "fst (case x of (Some fallback, w') \<Rightarrow> (fallback, [] :: job list, w' :: 's world) | (None, w') \<Rightarrow> (reply, [], w')) \<noteq> Streaming sg"
    if "fst x \<noteq> Some (Streaming sg)" "reply \<noteq> Streaming sg" for x :: "endpoint_reply option \<times> 's world" and reply
    using that by (cases x; cases "fst x") auto
  note after = after [OF fallback_not_streaming]
  let ?model = "if os_upstream_model opt = [] then dc_model dc else os_upstream_model opt"
  show ?thesis
  proof (cases "upstream_request_of adapter key (os_body opt) ?model idem")
    case (Some req)
    then show ?thesis
      by (cases "upstream_call env req") (simp_all add: forward_once_def Let_def after del: if_split split: option.split if_split)
  qed (simp add: forward_once_def del: if_split)
qed

lemma forward_resolved_streaming:
  assumes "forward_resolved env dc probe jobs opt d w = (Streaming sg, js, w')"
  shows "js = jobs"
proof -
  obtain adapter key opt' d' where c: "resolve_openai_candidate_provider env dc opt d = Some (adapter, key, opt', d')"
    using assms by (auto simp: forward_resolved_def split: option.splits)
  obtain ok w1 where a: "breaker_allow env w = (ok, w1)" by fastforce
  obtain reply scheduled w2 where f: "forward_once env adapter key dc opt' (cp_embedding probe)
      (dc_optimize_enabled dc \<and> cp_store_cache probe) (openai_forward_headers env adapter dc opt') (forward_idempotency env opt') d' w1
      = (reply, scheduled, w2)" by (metis prod_cases3)
  have "reply \<noteq> Streaming sg" using forward_once_not_streaming f by (metis fst_conv)
  then show ?thesis using assms by (simp add: forward_resolved_def c a f Let_def split: if_splits)
qed

lemma serve_request_streaming:
  assumes "serve_request env dc d w = (Streaming sg, jobs, w')" "cache_inv (w_entries w, w_snapshots w)"
    and streamable: "\<forall>e \<in> set (w_entries w). to_openai_sse (e_dumps env) (ce_response_payload e) \<noteq> None"
  shows "jobs = []"
proof -
  obtain probe hits d1 w1 where m: "maybe_serve_openai_cache env dc (d, w) = (probe, hits, d1, w1)" by (metis prod_cases4)
  from maybe_serve_hits [OF assms(2) m] show ?thesis
  proof
    assume "hits = []"
    with assms(1) m show ?thesis
      by (auto simp: serve_request_def probe_or_pass_def split: option.splits prod.splits dest: forward_resolved_streaming)
  next
    assume "\<exists>e label emb. hits = [(e, label)] \<and> (\<exists>r \<in> set (w_entries w). content r = content e) \<and>
      probe = map_option (\<lambda>r. \<lparr>cp_response = Some r, cp_embedding = emb, cp_store_cache = True\<rparr>)
        (serve_cache_hit env e (dc_stream dc) label d1)"
    then obtain e label emb row where h: "hits = [(e, label)]" "row \<in> set (w_entries w)" "content row = content e"
      "probe = map_option (\<lambda>r. \<lparr>cp_response = Some r, cp_embedding = emb, cp_store_cache = True\<rparr>)
        (serve_cache_hit env e (dc_stream dc) label d1)" by blast
    from h(3) have "ce_response_payload row = ce_response_payload e" by (cases row; cases e) (simp add: content_def)
    with streamable h(2) obtain r where "serve_cache_hit env e (dc_stream dc) label d1 = Some r"
      by (fastforce simp: serve_cache_hit_def)
    with assms(1) m h(1,4) show ?thesis by (auto simp: serve_request_def probe_or_pass_def)
  qed
qed

text \<open>
  C16. One streamed reply, one metering. When the endpoint answers with a stream it has scheduled no job, and whatever the
  upstream does to the stream, at most one row is added to the ledger. The hypothesis on the stored entries is that of
  the buffered replies.
\<close>

theorem streamed_reply_metered_once:
  assumes "openai_dialect_completions env method path raw destination w = (Streaming sg, jobs, w')"
    and "cache_reachable cfg (w_entries w, w_snapshots w)"
    and "\<forall>e \<in> set (w_entries w). to_openai_sse (e_dumps env) (ce_response_payload e) \<noteq> None"
  shows "jobs = [] \<and> length (w_ledger (snd (stream_through env decode open_stream sg x))) \<le> Suc (length (w_ledger x))"
proof -
  note inv = cache_reachable_inv [OF assms(2)]
  obtain limited w0 where lim: "rate_limited env w = (limited, w0)" by fastforce
  have w0: "w_entries w0 = w_entries w" "w_snapshots w0 = w_snapshots w"
    using rate_limited_frame [of env w] lim by simp_all
  obtain dc d w1 where st: "limited = None" "openai_dialect_setup env method path raw destination w0 = (Inr (Inr (dc, d)), w1)"
    using assms(1) lim by (auto simp: openai_dialect_completions_def split: option.splits prod.splits sum.splits)
  then have "serve_request env dc d w1 = (Streaming sg, jobs, w')" using assms(1) lim by (simp add: openai_dialect_completions_def)
  from serve_request_streaming [OF this] setup_frame [OF st(2)] w0 inv assms(3) have "jobs = []" by simp
  with stream_ledger show ?thesis by blast
qed

section \<open>Samples\<close>

definition sample_stream_body :: json where
  "sample_stream_body = JObj [(''model'', JStr ''gpt-4o''), (''stream'', JBool True)]"

definition sample_stream_args :: stream_args where
  "sample_stream_args =
     \<lparr>sg_headers = [], sg_provider = ''openai'', sg_client_key = ''k'', sg_model = ''gpt-4o'', sg_cache_key = ''c'',
      sg_opt = sample_passthrough, sg_embedding = None, sg_store_cache = True, sg_idempotency_key = None, sg_draft = sample_draft\<rparr>"

definition sample_open :: "string option \<Rightarrow> upstream_request \<Rightarrow> upstream_stream" where
  "sample_open broken req = \<lparr>us_answer = (\<lambda>i. Opened [''data: x''] broken), us_clock = (\<lambda>_. 0), us_clock_caught = (\<lambda>_. 0)\<rparr>"

lemma sample_stream_request: "\<exists>req. stream_request (sample_request_env []) sample_stream_args = Some req"
proof -
  have "stream_request (sample_request_env []) sample_stream_args \<noteq> None" by code_simp
  then show ?thesis by blast
qed


theorem openai_stream_is_verbatim_witness:
  "fst (stream_through (sample_request_env []) id (sample_open None) sample_stream_args sample_world) = [Raw_Bytes ''data: x'']"
proof -
  obtain req where req: "stream_request (sample_request_env []) sample_stream_args = Some req" using sample_stream_request by blast
  have a: "us_answer (sample_open None req) 0 = Opened [''data: x''] None" by (simp add: sample_open_def)
  have "sg_provider sample_stream_args = ''openai''" by (simp add: sample_stream_args_def)
  from openai_stream_is_verbatim [where open_stream = "sample_open None", OF this req a, of id sample_world] show ?thesis
    by (simp only: fst_conv list.map)
qed

definition sample_stream_setup :: "(failure + (client_response + dialect_context \<times> decision_draft)) \<times> unit world" where
  "sample_stream_setup = openai_dialect_setup bypassed_env ''POST'' ''/v1/chat/completions'' (Some sample_stream_body) None sample_world"

lemma sample_stream_setup_ok:
  "case sample_stream_setup of (Inr (Inr (dc, d)), w1) \<Rightarrow> dc_stream dc \<and> fst (breaker_allow bypassed_env w1) | _ \<Rightarrow> False"
  by code_simp

lemma sample_streams:
  "\<exists>sg jobs w'. openai_dialect_completions bypassed_env ''POST'' ''/v1/chat/completions'' (Some sample_stream_body) None sample_world
     = (Streaming sg, jobs, w')"
proof -
  obtain dc d w1 where st: "sample_stream_setup = (Inr (Inr (dc, d)), w1)" "dc_stream dc" "fst (breaker_allow bypassed_env w1)"
    using sample_stream_setup_ok by (auto split: prod.splits sum.splits)
  note st' = st(1) [unfolded sample_stream_setup_def]
  have off: "\<not> dc_optimize_enabled dc"
    using st' by (rule setup_okE) (simp add: is_bypassed_def bypassed_env_def)
  let ?opt = "openai_passthrough_state (dc_body dc) (dc_model dc) (ad_provider (dc_adapter dc))"
  let ?d = "skip_both ''optimization_disabled'' d"
  have rl: "rate_limited bypassed_env sample_world = (None, sample_world)"
    by (simp add: rate_limited_def bypassed_env_def sample_request_env_def ratelimit_allow_def Let_def sample_world_def)
  obtain w2 where w2: "breaker_allow bypassed_env w1 = (True, w2)" using st(3) by (cases "breaker_allow bypassed_env w1") auto
  have cand: "resolve_openai_candidate_provider bypassed_env dc ?opt ?d = Some (dc_adapter dc, dc_client_key dc, ?opt, ?d)"
    by (simp add: resolve_openai_candidate_provider_def openai_passthrough_state_def Let_def)
  have "\<exists>sg jobs w'. forward_resolved bypassed_env dc (no_probe None True) [] ?opt ?d w1 = (Streaming sg, jobs, w')"
    using st(2) w2 by (simp add: forward_resolved_def cand Let_def)
  then show ?thesis
    by (simp add: openai_dialect_completions_def rl st' serve_request_def probe_or_pass_def maybe_serve_off [OF off]
        optimize_off [OF off] off no_probe_def)
qed

theorem streamed_reply_metered_once_witness:
  "case openai_dialect_completions bypassed_env ''POST'' ''/v1/chat/completions'' (Some sample_stream_body) None sample_world of
     (Streaming sg, jobs, w') \<Rightarrow> jobs = [] \<and>
       length (w_ledger (snd (stream_through bypassed_env id (sample_open None) sg sample_world))) \<le> 1
   | _ \<Rightarrow> False"
proof -
  obtain sg jobs w' where r: "openai_dialect_completions bypassed_env ''POST'' ''/v1/chat/completions'' (Some sample_stream_body)
      None sample_world = (Streaming sg, jobs, w')"
    using sample_streams by blast
  have c: "cache_reachable default_settings (w_entries sample_world, w_snapshots sample_world)"
    by (simp add: sample_world_def cache_reachable.init)
  have e: "\<forall>e \<in> set (w_entries sample_world). to_openai_sse (e_dumps bypassed_env) (ce_response_payload e) \<noteq> None"
    by (simp add: sample_world_def)
  from streamed_reply_metered_once [OF r c e, of id "sample_open None" sample_world] show ?thesis
    by (simp add: r) (simp add: sample_world_def)
qed


end
