(* ===== verification/SavingsMeasurement.thy ===== *)
theory SavingsMeasurement
  imports LedgerWrite Levers
begin

text \<open>
  \<open>savings_measurement.py\<close> and \<open>proxy/experiment.py\<close>: verified savings, derived from the ledger. The
  interval of \<open>proxy/sequential.py\<close> is computed in floating point; it is the argument \<open>dcs\<close> here, which
  takes the two arms (count, mean, variance) and gives (point, low, high) or nothing. Its exact
  real-number formula is the subject of the theory Sequential. No verified amount depends on it.
\<close>

definition arm_control :: string where "arm_control = ''control''"
definition arm_treatment :: string where "arm_treatment = ''treatment''"

type_synonym cs_fun =
  "nat \<Rightarrow> decimal \<Rightarrow> decimal option \<Rightarrow> nat \<Rightarrow> decimal \<Rightarrow> decimal option \<Rightarrow> (decimal \<times> decimal \<times> decimal) option"

definition measured_methods :: "string list" where
  "measured_methods = [''direct_measured'', ''holdback_measured'', ''replay_measured'']"

definition is_measured :: "string option \<Rightarrow> bool" where
  "is_measured m = (case m of None \<Rightarrow> False | Some s \<Rightarrow> s \<in> set measured_methods)"

definition q_cents :: "decimal \<Rightarrow> decimal" where
  "q_cents v = quantize_half_even 2 v"

definition in_period :: "uuid \<Rightarrow> datetime \<Rightarrow> datetime \<Rightarrow> usage_event \<Rightarrow> bool" where
  "in_period project start stop e \<longleftrightarrow>
     ue_project_id e = project \<and> start \<le> ue_received_at e \<and> ue_received_at e < stop"

definition sum_saved ::
  "usage_event list \<Rightarrow> uuid \<Rightarrow> datetime \<Rightarrow> datetime \<Rightarrow> (usage_event \<Rightarrow> bool) \<Rightarrow> decimal" where
  "sum_saved ledger project start stop cond =
     coalesce_sum ue_saved_usd (\<lambda>e. in_period project start stop e \<and> ue_saved_usd e \<noteq> None \<and> cond e) ledger"

definition routing_lever :: "proxy_policy list \<Rightarrow> uuid \<Rightarrow> string" where
  "routing_lever policies project =
     (case latest_activated (filter (\<lambda>p. pp_project_id p = project \<and> pp_enabled p \<and> pp_lever p \<in> set routing_levers) policies) of
        None \<Rightarrow> lever_smart_routing
      | Some p \<Rightarrow> pp_lever p)"

definition direct_measured_by_lever ::
  "usage_event list \<Rightarrow> proxy_policy list \<Rightarrow> uuid \<Rightarrow> datetime \<Rightarrow> datetime \<Rightarrow> bool \<Rightarrow> (string \<times> decimal) list" where
  "direct_measured_by_lever ledger policies project start stop include_holdback_treatment =
     (let cache = sum_saved ledger project start stop is_cache_hit;
          batching = sum_saved ledger project start stop is_batch;
          direct_routing = sum_saved ledger project start stop
            (\<lambda>e. is_routed e \<and> (include_holdback_treatment \<or> \<not> is_holdback e))
      in (if cache \<noteq> 0 then [(lever_semantic_cache, cache)] else []) @
         (if batching \<noteq> 0 then [(lever_batching, batching)] else []) @
         (if direct_routing \<noteq> 0 then [(routing_lever policies project, direct_routing)] else []))"

section \<open>Experiments\<close>

definition min_arm_samples :: nat where
  "min_arm_samples = 30"

definition after_start :: "uuid \<Rightarrow> datetime \<Rightarrow> datetime option \<Rightarrow> usage_event \<Rightarrow> bool" where
  "after_start project start stop e \<longleftrightarrow>
     ue_project_id e = project \<and> start \<le> ue_received_at e \<and>
     (case stop of None \<Rightarrow> True | Some t \<Rightarrow> ue_received_at e < t)"

definition arm_rows ::
  "usage_event list \<Rightarrow> uuid \<Rightarrow> string \<Rightarrow> string \<Rightarrow> datetime \<Rightarrow> datetime option \<Rightarrow> string \<Rightarrow> usage_event list" where
  "arm_rows ledger project incumbent candidate start stop arm =
     filter (\<lambda>e. after_start project start stop e \<and> is_holdback e \<and>
                 meta_text e ''experiment_from'' = Some incumbent \<and>
                 meta_text e ''experiment_to'' = Some candidate \<and> meta_text e ''arm'' = Some arm) ledger"

definition row_costs :: "usage_event list \<Rightarrow> decimal list" where
  "row_costs rows = List.map_filter ue_cost_usd rows"

definition sql_avg :: "decimal list \<Rightarrow> decimal option" where
  "sql_avg xs = (if xs = [] then None else Some (sum_list xs / of_nat (length xs)))"

definition sql_var_samp :: "decimal list \<Rightarrow> decimal option" where
  "sql_var_samp xs =
     (if length xs < 2 then None
      else (let mean = sum_list xs / of_nat (length xs)
            in Some (sum_list (map (\<lambda>x. (x - mean)\<^sup>2) xs) / of_nat (length xs - 1))))"

record ab_experiment =
  ex_incumbent_model :: string
  ex_candidate_model :: string
  control_requests :: nat
  treatment_requests :: nat
  control_avg_cost_usd :: "decimal option"
  treatment_avg_cost_usd :: "decimal option"
  savings_per_request_usd :: "decimal option"
  savings_per_request_ci_low_usd :: "decimal option"
  savings_per_request_ci_high_usd :: "decimal option"
  measured_savings_usd :: "decimal option"
  measured_savings_ci_low_usd :: "decimal option"
  measured_savings_ci_high_usd :: "decimal option"
  ex_has_signal :: bool

definition q8 :: "decimal \<Rightarrow> decimal" where
  "q8 v = quantize_half_even 8 v"

definition compute_experiment ::
  "cs_fun \<Rightarrow> usage_event list \<Rightarrow> uuid \<Rightarrow> string \<Rightarrow> string \<Rightarrow> datetime \<Rightarrow> datetime option \<Rightarrow> ab_experiment" where
  "compute_experiment dcs ledger project incumbent candidate start stop =
     (let control = arm_rows ledger project incumbent candidate start stop arm_control;
          treatment = arm_rows ledger project incumbent candidate start stop arm_treatment;
          n_c = length control; n_t = length treatment;
          mean_c = sql_avg (row_costs control); mean_t = sql_avg (row_costs treatment);
          per_request = opt_diff mean_c mean_t;
          measured = map_option (\<lambda>d. d * of_nat n_t) per_request;
          cs = (case (mean_c, mean_t) of
                  (Some mc, Some mt) \<Rightarrow>
                    dcs n_c mc (sql_var_samp (row_costs control)) n_t mt (sql_var_samp (row_costs treatment))
                | _ \<Rightarrow> None);
          ci_low = map_option (\<lambda>(_, lo, _). lo) cs; ci_high = map_option (\<lambda>(_, _, hi). hi) cs
      in \<lparr>ex_incumbent_model = incumbent, ex_candidate_model = candidate,
          control_requests = n_c, treatment_requests = n_t,
          control_avg_cost_usd = map_option q8 mean_c, treatment_avg_cost_usd = map_option q8 mean_t,
          savings_per_request_usd = map_option q8 per_request,
          savings_per_request_ci_low_usd = map_option q8 ci_low,
          savings_per_request_ci_high_usd = map_option q8 ci_high,
          measured_savings_usd = map_option q8 measured,
          measured_savings_ci_low_usd = map_option (\<lambda>x. q8 (x * of_nat n_t)) ci_low,
          measured_savings_ci_high_usd = map_option (\<lambda>x. q8 (x * of_nat n_t)) ci_high,
          ex_has_signal = (min_arm_samples \<le> n_c \<and> min_arm_samples \<le> n_t)\<rparr>)"

text \<open>\<open>SELECT DISTINCT\<close> of the pairs with both models present and not empty.\<close>

definition experiment_pairs ::
  "usage_event list \<Rightarrow> uuid \<Rightarrow> datetime \<Rightarrow> datetime option \<Rightarrow> (string \<times> string) list" where
  "experiment_pairs ledger project start stop =
     remdups (List.map_filter
       (\<lambda>e. if after_start project start stop e \<and> is_holdback e
            then (case (meta_text e ''experiment_from'', meta_text e ''experiment_to'') of
                    (Some f, Some t) \<Rightarrow> if f \<noteq> [] \<and> t \<noteq> [] then Some (f, t) else None
                  | _ \<Rightarrow> None)
            else None) ledger)"

record holdback_result =
  total_usd :: decimal
  ci_low_usd :: decimal
  ci_high_usd :: decimal
  hb_measurement_cost_usd :: decimal
  hb_has_signal :: bool
  hb_experiments :: "(ab_experiment \<times> decimal) list"

definition empty_holdback :: holdback_result where
  "empty_holdback = \<lparr>total_usd = 0, ci_low_usd = 0, ci_high_usd = 0, hb_measurement_cost_usd = 0,
     hb_has_signal = False, hb_experiments = []\<rparr>"

definition experiment_measurement_cost :: "ab_experiment \<Rightarrow> decimal" where
  "experiment_measurement_cost ex =
     max (case savings_per_request_usd ex of None \<Rightarrow> 0 | Some d \<Rightarrow> d) 0 * of_nat (control_requests ex)"

definition add_experiment :: "holdback_result \<Rightarrow> ab_experiment \<Rightarrow> holdback_result" where
  "add_experiment r ex =
     (case measured_savings_usd ex of
        None \<Rightarrow> r
      | Some measured \<Rightarrow>
          \<lparr>total_usd = total_usd r + measured,
           ci_low_usd = ci_low_usd r + (case measured_savings_ci_low_usd ex of None \<Rightarrow> measured | Some x \<Rightarrow> x),
           ci_high_usd = ci_high_usd r + (case measured_savings_ci_high_usd ex of None \<Rightarrow> measured | Some x \<Rightarrow> x),
           hb_measurement_cost_usd = hb_measurement_cost_usd r + experiment_measurement_cost ex,
           hb_has_signal = (hb_has_signal r \<or> ex_has_signal ex),
           hb_experiments = hb_experiments r @ [(ex, q_cents (experiment_measurement_cost ex))]\<rparr>)"

definition holdback_measured ::
  "cs_fun \<Rightarrow> usage_event list \<Rightarrow> uuid \<Rightarrow> datetime \<Rightarrow> datetime option \<Rightarrow> holdback_result" where
  "holdback_measured dcs ledger project start stop =
     foldl add_experiment empty_holdback
       (map (\<lambda>(i, c). compute_experiment dcs ledger project i c start stop)
         (experiment_pairs ledger project start stop))"

definition overhead_tags :: "string list" where
  "overhead_tags = [''eval_replay'', ''embedding'', ''compression'']"

definition optimization_overhead_cost :: "usage_event list \<Rightarrow> uuid \<Rightarrow> datetime \<Rightarrow> datetime \<Rightarrow> decimal" where
  "optimization_overhead_cost ledger project start stop =
     coalesce_sum ue_cost_usd
       (\<lambda>e. in_period project start stop e \<and>
            (case meta_text e ''overhead'' of None \<Rightarrow> False | Some t \<Rightarrow> t \<in> set overhead_tags)) ledger"

record verified_result =
  vr_direct_by_lever :: "(string \<times> decimal) list"
  direct_measured_usd :: decimal
  holdback_measured_usd :: decimal
  holdback_ci_low_usd :: decimal
  holdback_ci_high_usd :: decimal
  measurement_cost_usd :: decimal
  optimization_overhead_cost_usd :: decimal
  verified_gross_savings_usd :: decimal
  holdback_has_signal :: bool
  verified_savings_usd :: decimal

definition compute_verified_savings ::
  "cs_fun \<Rightarrow> usage_event list \<Rightarrow> proxy_policy list \<Rightarrow> uuid \<Rightarrow> datetime \<Rightarrow> datetime \<Rightarrow> verified_result" where
  "compute_verified_savings dcs ledger policies project start stop =
     (let direct = direct_measured_by_lever ledger policies project start stop False;
          direct_total = sum_list (map snd direct);
          holdback = holdback_measured dcs ledger project start (Some stop);
          verified_gross = direct_total + total_usd holdback;
          measurement_cost = hb_measurement_cost_usd holdback;
          overhead = optimization_overhead_cost ledger project start stop;
          verified_net = verified_gross - measurement_cost - overhead
      in \<lparr>vr_direct_by_lever = map (\<lambda>(l, v). (l, q_cents v)) direct,
          direct_measured_usd = q_cents direct_total,
          holdback_measured_usd = q_cents (total_usd holdback),
          holdback_ci_low_usd = q_cents (ci_low_usd holdback),
          holdback_ci_high_usd = q_cents (ci_high_usd holdback),
          measurement_cost_usd = q_cents measurement_cost,
          optimization_overhead_cost_usd = q_cents overhead,
          verified_gross_savings_usd = q_cents verified_gross,
          holdback_has_signal = hb_has_signal holdback,
          verified_savings_usd = q_cents verified_net\<rparr>)"

section \<open>Direct savings\<close>

lemma direct_total:
  "sum_list (map snd (direct_measured_by_lever ledger policies project start stop incl)) =
     sum_saved ledger project start stop is_cache_hit + sum_saved ledger project start stop is_batch +
     sum_saved ledger project start stop (\<lambda>e. is_routed e \<and> (incl \<or> \<not> is_holdback e))"
  by (simp add: direct_measured_by_lever_def Let_def)

lemma sum_saved_Cons:
  "sum_saved (e # ledger) project start stop cond =
     (if in_period project start stop e \<and> cond e then (case ue_saved_usd e of None \<Rightarrow> 0 | Some v \<Rightarrow> v) else 0) +
     sum_saved ledger project start stop cond"
  by (auto simp: sum_saved_def coalesce_sum_Cons split: option.split)

lemma sum_saved_filter:
  "(\<And>e. e \<in> set ledger \<Longrightarrow> cond e \<Longrightarrow> keep e) \<Longrightarrow>
     sum_saved (filter keep ledger) project start stop cond = sum_saved ledger project start stop cond"
  by (induction ledger) (auto simp: sum_saved_Cons)

lemma direct_total_exclusive:
  assumes "list_all exclusive_savings ledger"
  shows "sum_list (map snd (direct_measured_by_lever ledger policies project start stop incl)) =
    coalesce_sum ue_saved_usd
      (\<lambda>e. in_period project start stop e \<and> \<not> (is_routed e \<and> is_holdback e \<and> \<not> incl)) ledger"
  using assms
proof (induction ledger)
  case Nil
  then show ?case by (simp add: direct_total sum_saved_def)
next
  case (Cons e ledger)
  then have IH: "sum_saved ledger project start stop is_cache_hit + sum_saved ledger project start stop is_batch +
      sum_saved ledger project start stop (\<lambda>e. is_routed e \<and> (incl \<or> \<not> is_holdback e)) =
      coalesce_sum ue_saved_usd (\<lambda>e. in_period project start stop e \<and> \<not> (is_routed e \<and> is_holdback e \<and> \<not> incl)) ledger"
    by (simp add: direct_total)
  have "exclusive_savings e" using Cons.prems by simp
  then show ?case
    unfolding direct_total sum_saved_Cons coalesce_sum_Cons IH [symmetric]
    by (cases "ue_saved_usd e") (auto simp: exclusive_savings_def)
qed

section \<open>Experiments read the holdback rows only\<close>

lemma arm_rows_holdback:
  "arm_rows (filter is_holdback ledger) project i c start stop arm = arm_rows ledger project i c start stop arm"
  by (simp add: arm_rows_def) (rule filter_cong; blast)

lemma compute_experiment_holdback:
  "compute_experiment dcs (filter is_holdback ledger) project i c start stop = compute_experiment dcs ledger project i c start stop"
  by (simp add: compute_experiment_def arm_rows_holdback)

lemma map_filter_filter: "(\<And>x. \<not> P x \<Longrightarrow> f x = None) \<Longrightarrow> List.map_filter f (filter P xs) = List.map_filter f xs"
  by (induction xs) (auto simp: List.map_filter_def split: option.splits)

lemma experiment_pairs_holdback:
  "experiment_pairs (filter is_holdback ledger) project start stop = experiment_pairs ledger project start stop"
  unfolding experiment_pairs_def by (subst map_filter_filter) simp_all

lemma holdback_measured_holdback:
  "holdback_measured dcs (filter is_holdback ledger) project start stop = holdback_measured dcs ledger project start stop"
  by (simp add: holdback_measured_def experiment_pairs_holdback compute_experiment_holdback)

section \<open>Properties\<close>

text \<open>
  C6. Every recorded dollar is counted once. On a ledger whose rows carry at most one savings tag (the
  rows of the proxy's own writers do), the direct savings over all levers are the sum of the amounts
  saved over the period's rows, without the routed rows of holdback experiments when these are measured
  by the A/B comparison instead, and with them when they are included.
\<close>

theorem direct_savings_count_each_row_once:
  assumes "list_all exclusive_savings ledger"
  shows "sum_list (map snd (direct_measured_by_lever ledger policies project start stop include)) =
    coalesce_sum ue_saved_usd
      (\<lambda>e. in_period project start stop e \<and> \<not> (is_routed e \<and> is_holdback e \<and> \<not> include)) ledger"
  using assms by (rule direct_total_exclusive)

definition sample_hit :: usage_event where
  "sample_hit = blank_event\<lparr>ue_metadata := [(''cache'', JStr ''hit'')], ue_saved_usd := Some 2\<rparr>"

definition sample_treatment :: usage_event where
  "sample_treatment = blank_event\<lparr>ue_metadata := [(''routed'', JBool True), (''holdback'', JBool True),
     (''arm'', JStr ''treatment''), (''experiment_from'', JStr ''a''), (''experiment_to'', JStr ''b'')],
     ue_saved_usd := Some 3, ue_cost_usd := Some 1\<rparr>"

definition sample_control :: usage_event where
  "sample_control = blank_event\<lparr>ue_metadata := [(''holdback'', JBool True),
     (''arm'', JStr ''control''), (''experiment_from'', JStr ''a''), (''experiment_to'', JStr ''b'')],
     ue_cost_usd := Some 4\<rparr>"

lemmas sample_rows = sample_hit_def sample_treatment_def sample_control_def blank_event_def

lemma sample_exclusive: "list_all exclusive_savings [sample_hit, sample_treatment, sample_control]"
  by (simp add: sample_rows exclusive_savings_def tag_defs)

theorem direct_savings_count_each_row_once_witness:
  "sum_list (map snd (direct_measured_by_lever [sample_hit, sample_treatment, sample_control] [] ''project'' 0 10 False)) = 2"
  unfolding direct_savings_count_each_row_once [OF sample_exclusive]
  by (simp add: coalesce_sum_def sample_rows tag_defs in_period_def)

text \<open>
  The two buckets of verified savings never read the same row's saving: the holdback measurement is a
  function of the holdback rows alone, and the direct measurement used for billing ignores every routed
  holdback row (such a row is neither a cache hit nor a batch row on an exclusively tagged ledger).
\<close>

theorem verified_buckets_disjoint:
  "holdback_measured dcs (filter is_holdback ledger) project start stop' = holdback_measured dcs ledger project start stop' \<and>
   direct_measured_by_lever
     (filter (\<lambda>e. \<not> (is_routed e \<and> is_holdback e) \<or> is_cache_hit e \<or> is_batch e) ledger) policies project start stop False =
   direct_measured_by_lever ledger policies project start stop False"
proof (rule conjI)
  show "holdback_measured dcs (filter is_holdback ledger) project start stop' = holdback_measured dcs ledger project start stop'"
    by (rule holdback_measured_holdback)
  let ?keep = "\<lambda>e. \<not> (is_routed e \<and> is_holdback e) \<or> is_cache_hit e \<or> is_batch e"
  have "sum_saved (filter ?keep ledger) project start stop cond = sum_saved ledger project start stop cond"
    if "cond \<in> {is_cache_hit, is_batch, \<lambda>e. is_routed e \<and> (False \<or> \<not> is_holdback e)}" for cond
    by (rule sum_saved_filter) (use that in auto)
  then show "direct_measured_by_lever (filter ?keep ledger) policies project start stop False =
      direct_measured_by_lever ledger policies project start stop False"
    by (simp add: direct_measured_by_lever_def)
qed

theorem verified_buckets_disjoint_witness:
  "direct_measured_by_lever
     (filter (\<lambda>e. \<not> (is_routed e \<and> is_holdback e) \<or> is_cache_hit e \<or> is_batch e) [sample_treatment, sample_control]) [] ''project'' 0 10 False =
   direct_measured_by_lever [sample_treatment, sample_control] [] ''project'' 0 10 False"
  using verified_buckets_disjoint [of "\<lambda>_ _ _ _ _ _. None" "[sample_treatment, sample_control]" "''project''" 0 None "[]" 10] by blast

text \<open>
  An experiment enters the verified total as soon as each arm has one priced request: with one
  control request of 4 USD and one treatment request of 1 USD the verified net savings are
  3 USD (measured) minus 3 USD (cost of the control request), the holdback bucket is 3 USD, and the
  result says that there is no signal yet.
\<close>

theorem holdback_counts_before_signal:
  "let r = compute_verified_savings (\<lambda>_ _ _ _ _ _. None) [sample_treatment, sample_control] [] ''project'' 0 10
   in holdback_measured_usd r = 3 \<and> measurement_cost_usd r = 3 \<and> verified_savings_usd r = 0 \<and>
      \<not> holdback_has_signal r"
  by code_simp

text \<open>
  The ingest endpoint stores a caller's metadata as it is, and the verified-savings query does not
  look at a row's source: an ingested event tagged as a cache hit moves the direct (billable) savings
  of its project by exactly the amount the caller writes into it, negative amounts included.
\<close>

theorem ingested_metadata_moves_verified_savings:
  assumes "create_usage_event pt now r org project p s = (Inr (201, e), s')"
    and "ip_metadata p = [(''cache'', JStr ''hit'')]" "ip_saved_usd p = Some v"
    and "start \<le> r" "r < stop"
  shows "sum_list (map snd (direct_measured_by_lever (snd s') policies project start stop False)) =
    sum_list (map snd (direct_measured_by_lever (snd s) policies project start stop False)) + v"
proof -
  obtain cache ledger where s: "s = (cache, ledger)" by (cases s)
  obtain e0 c1 where row: "ingest_row pt now r org project p cache = (e0, c1)" by (metis surj_pair)
  have e0: "ue_project_id e0 = project" "ue_metadata e0 = [(''cache'', JStr ''hit'')]" "ue_saved_usd e0 = Some v"
      "ue_received_at e0 = r"
    using row assms(2,3) by (auto simp: ingest_row_def Let_def split: prod.splits)
  have "snd s' = e0 # snd s"
    using assms(1) row by (auto simp: create_usage_event_def s split: if_splits option.splits)
  then show ?thesis
    using e0 assms(4,5) by (simp add: direct_total sum_saved_Cons in_period_def tag_defs)
qed

definition forged_payload :: ingest_payload where
  "forged_payload = sample_payload\<lparr>ip_metadata := [(''cache'', JStr ''hit'')], ip_saved_usd := Some (- 1000)\<rparr>"

lemma forged_created:
  "create_usage_event no_prices 10 11 ''o'' ''project'' forged_payload (Map.empty, [sample_hit]) =
     (Inr (201, fst (ingest_row no_prices 10 11 ''o'' ''project'' forged_payload Map.empty)),
      snd (ingest_row no_prices 10 11 ''o'' ''project'' forged_payload Map.empty),
      [fst (ingest_row no_prices 10 11 ''o'' ''project'' forged_payload Map.empty), sample_hit])"
proof -
  have "map py_lower_char ''USD'' = ''usd''" by code_simp
  then show ?thesis
    by (simp add: create_usage_event_def forged_payload_def sample_payload_def sample_rows split: prod.split del: list.map)
qed

theorem ingested_metadata_moves_verified_savings_witness:
  "sum_list (map snd (direct_measured_by_lever
      (snd (snd (create_usage_event no_prices 10 11 ''o'' ''project'' forged_payload (Map.empty, [sample_hit]))))
      [] ''project'' 0 20 False)) = 2 - 1000"
proof -
  have "sum_list (map snd (direct_measured_by_lever [sample_hit] [] ''project'' 0 20 False)) = 2"
    by (simp add: direct_total sum_saved_def coalesce_sum_def in_period_def sample_rows tag_defs)
  moreover have "ip_metadata forged_payload = [(''cache'', JStr ''hit'')]" "ip_saved_usd forged_payload = Some (- 1000)"
    by (simp_all add: forged_payload_def)
  ultimately show ?thesis
    using ingested_metadata_moves_verified_savings [OF forged_created, of "- 1000" 0 20 "[]"]
    by (simp add: forged_created)
qed

end
