(* ===== verification/Batch.thy ===== *)
theory Batch
  imports SavingsMeasurement
begin

text \<open>
  \<open>proxy/batch.py\<close>: the batching lever off the request path. A job is staged, submitted, polled and
  finalized; finalizing stages the output, prices it at the batch and the synchronous rate and writes one
  ledger row per model; staged content is purged at its time to live. The provider's answers are
  arguments (\<open>None\<close> when the call raises), as is the number of ledger commits that succeed before the
  database fails (\<open>None\<close>: it does not fail). Object storage is a map from keys to the lines of the
  content. After an exception the job is what the session then holds: the attributes assigned so far,
  which \<open>record_batch_usage\<close> commits together with its row.
\<close>

datatype batch_status =
  Batch_Created | Batch_Submitted | Batch_In_Progress | Batch_Completed | Batch_Finalized | Batch_Failed
| Batch_Cancelled | Batch_Expired

definition active_statuses :: "batch_status list" where
  "active_statuses = [Batch_Submitted, Batch_In_Progress, Batch_Completed]"

record batch_job =
  bj_id :: uuid
  bj_organization_id :: uuid
  bj_project_id :: uuid
  bj_endpoint :: string
  bj_completion_window :: string
  bj_status :: batch_status
  bj_input_storage_key :: string
  bj_output_storage_key :: "string option"
  bj_provider_input_file_id :: "string option"
  bj_provider_batch_id :: "string option"
  bj_provider_output_file_id :: "string option"
  bj_provider_error_file_id :: "string option"
  bj_request_count :: int
  bj_input_tokens :: int
  bj_output_tokens :: int
  bj_actual_cost_usd :: "decimal option"
  bj_naive_cost_usd :: "decimal option"
  bj_saved_usd :: "decimal option"
  bj_submitted_at :: "datetime option"
  bj_completed_at :: "datetime option"
  bj_expires_at :: "datetime option"
  bj_objects_purged_at :: "datetime option"

type_synonym storage = "string \<rightharpoonup> string list"

definition status_map :: "json \<Rightarrow> batch_status option" where
  "status_map v = map_of
     [(JStr ''validating'', Batch_In_Progress), (JStr ''in_progress'', Batch_In_Progress),
      (JStr ''finalizing'', Batch_In_Progress), (JStr ''completed'', Batch_Completed), (JStr ''failed'', Batch_Failed),
      (JStr ''expired'', Batch_Expired), (JStr ''cancelling'', Batch_In_Progress), (JStr ''cancelled'', Batch_Cancelled)] v"

definition input_key :: "uuid \<Rightarrow> uuid \<Rightarrow> string" where
  "input_key project job = project @ ''/batches/'' @ job @ ''/input.jsonl''"

definition output_key :: "uuid \<Rightarrow> uuid \<Rightarrow> string" where
  "output_key project job = project @ ''/batches/'' @ job @ ''/output.jsonl''"

definition stage_input_job :: "settings \<Rightarrow> uuid \<Rightarrow> uuid \<Rightarrow> uuid \<Rightarrow> string \<Rightarrow> string \<Rightarrow> datetime \<Rightarrow> batch_job" where
  "stage_input_job cfg new_id org project endpoint window now =
     \<lparr>bj_id = new_id, bj_organization_id = org, bj_project_id = project, bj_endpoint = endpoint,
      bj_completion_window = window, bj_status = Batch_Created, bj_input_storage_key = input_key project new_id,
      bj_output_storage_key = None, bj_provider_input_file_id = None, bj_provider_batch_id = None,
      bj_provider_output_file_id = None, bj_provider_error_file_id = None, bj_request_count = 0,
      bj_input_tokens = 0, bj_output_tokens = 0, bj_actual_cost_usd = None, bj_naive_cost_usd = None,
      bj_saved_usd = None, bj_submitted_at = None, bj_completed_at = None,
      bj_expires_at = Some (now + batch_object_ttl_hours cfg * 3600000000), bj_objects_purged_at = None\<rparr>"

text \<open>\<open>upload\<close> and \<open>create\<close> are the provider's two answers; \<open>True\<close> says that the call raised.\<close>

definition submit_job ::
  "string option \<Rightarrow> (string \<times> json) list option \<Rightarrow> datetime \<Rightarrow> storage \<Rightarrow> batch_job \<Rightarrow> bool \<times> batch_job" where
  "submit_job upload create now storage job =
     (if storage (bj_input_storage_key job) = None then (True, job)
      else (case (upload, create) of
              (Some file_id, Some batch) \<Rightarrow>
                (False, job\<lparr>bj_provider_input_file_id := Some file_id,
                            bj_provider_batch_id := as_str (dict_get batch ''id''),
                            bj_status := (case status_map (dict_get batch ''status'') of None \<Rightarrow> Batch_Submitted | Some s \<Rightarrow> s),
                            bj_submitted_at := Some now\<rparr>)
            | _ \<Rightarrow> (True, job)))"

section \<open>Savings measurement\<close>

definition latest_model_price :: "price_row list \<Rightarrow> string \<Rightarrow> string \<Rightarrow> datetime \<Rightarrow> price_row option" where
  "latest_model_price prices model provider t =
     latest_by pr_effective_at
       (filter (\<lambda>r. pr_model_key r = model \<and> pr_provider r = provider \<and> pr_effective_at r \<le> t) prices)"

text \<open>\<open>x or {}\<close> followed by \<open>.get\<close>; \<open>None\<close> is the \<open>AttributeError\<close> of another truthy value.\<close>

fun or_dict :: "json \<Rightarrow> (string \<times> json) list option" where
  "or_dict (JObj kvs) = Some kvs"
| "or_dict v = (if truthy v then None else Some [])"

definition token_count :: "json \<Rightarrow> int option" where
  "token_count v = (if truthy v then (case py_int v of Inl _ \<Rightarrow> None | Inr n \<Rightarrow> Some n) else Some 0)"

text \<open>
  One decoded line: \<open>None\<close> raises, \<open>Some None\<close> is a line without a model. A model name is a string; any
  other truthy value is taken as raising.
\<close>

definition line_usage :: "json \<Rightarrow> (string \<times> int \<times> int) option option" where
  "line_usage row =
     (case row of
        JObj kvs \<Rightarrow>
          (case or_dict (dict_get kvs ''response'') of
             None \<Rightarrow> None
           | Some resp \<Rightarrow>
               (case or_dict (dict_get resp ''body'') of
                  None \<Rightarrow> None
                | Some body \<Rightarrow>
                    (case or_dict (dict_get body ''usage'') of
                       None \<Rightarrow> None
                     | Some usage \<Rightarrow>
                         (if \<not> truthy (dict_get body ''model'') then Some None
                          else (case (dict_get body ''model'', token_count (dict_get usage ''prompt_tokens''),
                                      token_count (dict_get usage ''completion_tokens'')) of
                                  (JStr m, Some i, Some n) \<Rightarrow> Some (Some (m, i, n))
                                | _ \<Rightarrow> None)))))
      | _ \<Rightarrow> None)"

fun add_usage :: "(string \<times> int \<times> int) list \<Rightarrow> string \<Rightarrow> int \<Rightarrow> int \<Rightarrow> (string \<times> int \<times> int) list" where
  "add_usage [] m i n = [(m, i, n)]"
| "add_usage ((m', i', n') # us) m i n =
     (if m' = m then (m, i' + i, n' + n) # us else (m', i', n') # add_usage us m i n)"

fun parse_output_usage ::
  "(string \<Rightarrow> json option) \<Rightarrow> string list \<Rightarrow> (string \<times> int \<times> int) list \<Rightarrow> int \<Rightarrow> ((string \<times> int \<times> int) list \<times> int) option" where
  "parse_output_usage loads [] acc count = Some (acc, count)"
| "parse_output_usage loads (line # lines) acc count =
     (let t = py_strip line
      in if t = [] then parse_output_usage loads lines acc count
         else (case loads t of
                 None \<Rightarrow> parse_output_usage loads lines acc count
               | Some row \<Rightarrow>
                   (case line_usage row of
                      None \<Rightarrow> None
                    | Some None \<Rightarrow> parse_output_usage loads lines acc count
                    | Some (Some (m, i, n)) \<Rightarrow> parse_output_usage loads lines (add_usage acc m i n) (count + 1))))"

text \<open>The two prices of one model's tokens: actual and naive.\<close>

definition batch_prices :: "price_row list \<Rightarrow> datetime \<Rightarrow> string \<times> int \<times> int \<Rightarrow> decimal option \<times> decimal option" where
  "batch_prices prices t u =
     (case u of (model, i, n) \<Rightarrow>
       (case latest_model_price prices model ''openai'' t of
          None \<Rightarrow> (None, None)
        | Some p \<Rightarrow>
            (let naive = quantize_half_even 12 (of_int i * pr_input p + of_int n * pr_output p)
             in case (pr_input_batch p, pr_output_batch p) of
                  (Some bi, Some bo) \<Rightarrow> (Some (quantize_half_even 12 (of_int i * bi + of_int n * bo)), Some naive)
                | _ \<Rightarrow> (Some naive, Some naive))))"

record batch_totals =
  bt_input_tokens :: int
  bt_output_tokens :: int
  bt_actual :: decimal
  bt_naive :: decimal
  bt_any_priced :: bool

definition add_totals :: "price_row list \<Rightarrow> datetime \<Rightarrow> string \<times> int \<times> int \<Rightarrow> batch_totals \<Rightarrow> batch_totals" where
  "add_totals prices t u tot =
     (case (u, batch_prices prices t u) of
        ((_, i, n), (Some a, Some v)) \<Rightarrow>
          \<lparr>bt_input_tokens = bt_input_tokens tot + i, bt_output_tokens = bt_output_tokens tot + n,
           bt_actual = bt_actual tot + a, bt_naive = bt_naive tot + v, bt_any_priced = True\<rparr>
      | ((_, i, n), _) \<Rightarrow>
          tot\<lparr>bt_input_tokens := bt_input_tokens tot + i, bt_output_tokens := bt_output_tokens tot + n\<rparr>)"

text \<open>
  The loop over the models. \<open>budget\<close> counts the commits that still succeed; the result is \<open>None\<close> when one
  fails, together with the ledger as committed so far.
\<close>

fun measure_loop ::
  "price_row list \<Rightarrow> datetime \<Rightarrow> datetime \<Rightarrow> uuid \<Rightarrow> uuid \<Rightarrow> int \<Rightarrow> (string \<times> int \<times> int) list \<Rightarrow> nat option
    \<Rightarrow> batch_totals \<Rightarrow> usage_event list \<Rightarrow> batch_totals option \<times> usage_event list" where
  "measure_loop prices now received org project count [] budget tot ledger = (Some tot, ledger)"
| "measure_loop prices now received org project count ((m, i, n) # us) budget tot ledger =
     (if budget = Some 0 then (None, ledger)
      else measure_loop prices now received org project count us (map_option (\<lambda>k. k - 1) budget)
             (add_totals prices now (m, i, n) tot)
             (record_batch_usage now received org project m i n (fst (batch_prices prices now (m, i, n)))
                (snd (batch_prices prices now (m, i, n))) count ledger))"

definition zero_totals :: batch_totals where
  "zero_totals = \<lparr>bt_input_tokens = 0, bt_output_tokens = 0, bt_actual = 0, bt_naive = 0, bt_any_priced = False\<rparr>"

record batch_world =
  bw_ledger :: "usage_event list"
  bw_storage :: storage

record batch_env =
  be_loads :: "string \<Rightarrow> json option"
  be_prices :: "price_row list"
  be_now :: datetime
  be_received :: datetime
  be_download :: "string list option"
  be_write_ok :: bool
  be_commits :: "nat option"

definition finalize_job :: "batch_env \<Rightarrow> batch_job \<Rightarrow> batch_world \<Rightarrow> bool \<times> batch_job \<times> batch_world" where
  "finalize_job env job w =
     (case be_download env of
        None \<Rightarrow> (True, job, w)
      | Some output \<Rightarrow>
          if \<not> be_write_ok env then (True, job, w)
          else (let key = output_key (bj_project_id job) (bj_id job);
                    w1 = w\<lparr>bw_storage := (bw_storage w)(key \<mapsto> output)\<rparr>;
                    job1 = job\<lparr>bj_output_storage_key := Some key\<rparr>
                in case parse_output_usage (be_loads env) output [] 0 of
                     None \<Rightarrow> (True, job1, w1)
                   | Some (by_model, count) \<Rightarrow>
                       (case measure_loop (be_prices env) (be_now env) (be_received env) (bj_organization_id job)
                               (bj_project_id job) count by_model (be_commits env) zero_totals (bw_ledger w) of
                          (None, ledger) \<Rightarrow> (True, job1, w1\<lparr>bw_ledger := ledger\<rparr>)
                        | (Some tot, ledger) \<Rightarrow>
                            (False,
                             job1\<lparr>bj_request_count := (if count \<noteq> 0 then count else bj_request_count job),
                                  bj_input_tokens := bt_input_tokens tot, bj_output_tokens := bt_output_tokens tot,
                                  bj_actual_cost_usd := (if bt_any_priced tot then Some (bt_actual tot) else None),
                                  bj_naive_cost_usd := (if bt_any_priced tot then Some (bt_naive tot) else None),
                                  bj_saved_usd := (if bt_any_priced tot then Some (bt_naive tot - bt_actual tot) else None),
                                  bj_status := Batch_Finalized, bj_completed_at := Some (be_now env)\<rparr>,
                             w1\<lparr>bw_ledger := ledger\<rparr>))))"

text \<open>\<open>poll\<close> is the answer of \<open>get_batch\<close>. Its \<open>request_counts\<close> is an object or falsy, else the code raises.\<close>

definition poll_total :: "(string \<times> json) list \<Rightarrow> int option option" where
  "poll_total batch =
     (case or_dict (dict_get batch ''request_counts'') of
        None \<Rightarrow> None
      | Some counts \<Rightarrow>
          (if truthy (dict_get counts ''total'') then map_option Some (token_count (dict_get counts ''total'')) else Some None))"

definition polled_job :: "(string \<times> json) list \<Rightarrow> batch_job \<Rightarrow> batch_job" where
  "polled_job batch job =
     job\<lparr>bj_status := (case status_map (dict_get batch ''status'') of None \<Rightarrow> bj_status job | Some s \<Rightarrow> s),
         bj_provider_output_file_id := or_str (as_str (dict_get batch ''output_file_id'')) (bj_provider_output_file_id job),
         bj_provider_error_file_id := or_str (as_str (dict_get batch ''error_file_id'')) (bj_provider_error_file_id job)\<rparr>"

definition sync_job :: "batch_env \<Rightarrow> (string \<times> json) list option \<Rightarrow> batch_job \<Rightarrow> batch_world \<Rightarrow> bool \<times> batch_job \<times> batch_world" where
  "sync_job env poll job w =
     (if bj_status job \<in> {Batch_Finalized, Batch_Failed} \<or> or_str (bj_provider_batch_id job) None = None then (False, job, w)
      else (case poll of
        None \<Rightarrow> (True, job, w)
      | Some batch \<Rightarrow>
          (let job1 = polled_job batch job
           in case poll_total batch of
                None \<Rightarrow> (True, job1, w)
              | Some cnt \<Rightarrow>
                  (let job2 = (case cnt of None \<Rightarrow> job1 | Some n \<Rightarrow> job1\<lparr>bj_request_count := n\<rparr>)
                   in if bj_status job2 = Batch_Completed \<and> or_str (bj_provider_output_file_id job2) None \<noteq> None
                      then finalize_job env job2 w
                      else (False, job2, w)))))"

text \<open>
  The sweep over a project's active jobs; a job whose sync raises is logged and skipped. \<open>envs\<close> gives the
  environment and the poll answer of each job.
\<close>

fun sync_active_jobs ::
  "(batch_job \<Rightarrow> batch_env \<times> (string \<times> json) list option) \<Rightarrow> uuid \<Rightarrow> batch_job list \<Rightarrow> batch_world
    \<Rightarrow> batch_job list \<times> batch_job list \<times> batch_world" where
  "sync_active_jobs envs project [] w = ([], [], w)"
| "sync_active_jobs envs project (job # jobs) w =
     (if bj_project_id job = project \<and> bj_status job \<in> set active_statuses
      then (case sync_job (fst (envs job)) (snd (envs job)) job w of (raised, job', w') \<Rightarrow>
             (case sync_active_jobs envs project jobs w' of (synced, jobs', w'') \<Rightarrow>
               (if raised then synced else job' # synced, job' # jobs', w'')))
      else (case sync_active_jobs envs project jobs w of (synced, jobs', w'') \<Rightarrow> (synced, job # jobs', w'')))"

section \<open>Retention\<close>

definition delete_objects :: "(string \<Rightarrow> bool) \<Rightarrow> string option list \<Rightarrow> storage \<Rightarrow> storage" where
  "delete_objects delete_ok keys storage =
     (\<lambda>k. if Some k \<in> set keys \<and> k \<noteq> [] \<and> k \<noteq> ''pending'' \<and> delete_ok k then None else storage k)"

definition purge_due :: "datetime \<Rightarrow> batch_job \<Rightarrow> bool" where
  "purge_due now job \<longleftrightarrow> (case bj_expires_at job of None \<Rightarrow> False | Some e \<Rightarrow> e \<le> now) \<and> bj_objects_purged_at job = None"

fun purge_expired_objects :: "(string \<Rightarrow> bool) \<Rightarrow> datetime \<Rightarrow> batch_job list \<Rightarrow> storage \<Rightarrow> nat \<times> batch_job list \<times> storage" where
  "purge_expired_objects delete_ok now [] storage = (0, [], storage)"
| "purge_expired_objects delete_ok now (job # jobs) storage =
     (if purge_due now job
      then (case purge_expired_objects delete_ok now jobs
                   (delete_objects delete_ok [Some (bj_input_storage_key job), bj_output_storage_key job] storage) of
              (n, jobs', st) \<Rightarrow> (Suc n, job\<lparr>bj_objects_purged_at := Some now\<rparr> # jobs', st))
      else (case purge_expired_objects delete_ok now jobs storage of (n, jobs', st) \<Rightarrow> (n, job # jobs', st)))"

section \<open>The ledger rows of a job\<close>

text \<open>The row of one model's slice.\<close>

definition batch_row :: "price_row list \<Rightarrow> datetime \<Rightarrow> datetime \<Rightarrow> uuid \<Rightarrow> uuid \<Rightarrow> int \<Rightarrow> string \<times> int \<times> int \<Rightarrow> usage_event" where
  "batch_row prices now received org project count u =
     (case u of (m, i, n) \<Rightarrow> hd (record_batch_usage now received org project m i n (fst (batch_prices prices now u))
        (snd (batch_prices prices now u)) count []))"

lemma record_batch_usage_row:
  "record_batch_usage now received org project m i n (fst (batch_prices prices now (m, i, n)))
     (snd (batch_prices prices now (m, i, n))) count ledger =
   batch_row prices now received org project count (m, i, n) # ledger"
  by (simp add: batch_row_def record_batch_usage_def)

lemma measure_loop_None:
  "measure_loop prices now received org project count us None tot ledger =
     (Some (foldl (\<lambda>t u. add_totals prices now u t) tot us),
      rev (map (batch_row prices now received org project count) us) @ ledger)"
  by (induction us arbitrary: tot ledger) (auto simp: record_batch_usage_row)

lemma measure_loop_Some:
  "measure_loop prices now received org project count us (Some k) tot ledger =
     (if length us \<le> k
      then (Some (foldl (\<lambda>t u. add_totals prices now u t) tot us),
            rev (map (batch_row prices now received org project count) us) @ ledger)
      else (None, rev (map (batch_row prices now received org project count) (take k us)) @ ledger))"
proof (induction us arbitrary: tot ledger k)
  case (Cons u us)
  then show ?case by (cases u; cases k) (auto simp: record_batch_usage_row)
qed simp

lemma measure_loop_ok:
  assumes "measure_loop prices now received org project count us budget tot ledger = (Some tot', ledger')"
  shows "tot' = foldl (\<lambda>t u. add_totals prices now u t) tot us"
    "ledger' = rev (map (batch_row prices now received org project count) us) @ ledger"
  using assms by (cases budget; simp add: measure_loop_None measure_loop_Some split: if_splits)+

lemma batch_prices_both: "fst (batch_prices prices t u) = None \<longleftrightarrow> snd (batch_prices prices t u) = None"
  by (auto simp: batch_prices_def Let_def split: prod.splits option.splits)

lemma batch_row_fields [simp]:
  "ue_saved_usd (batch_row prices now received org project count u) =
     opt_diff (snd (batch_prices prices now u)) (fst (batch_prices prices now u))"
  "ue_cost_usd (batch_row prices now received org project count u) = fst (batch_prices prices now u)"
  "ue_project_id (batch_row prices now received org project count u) = project"
  "ue_received_at (batch_row prices now received org project count u) = received"
  "ue_input_tokens (batch_row prices now received org project count u) = fst (snd u)"
  "ue_output_tokens (batch_row prices now received org project count u) = snd (snd u)"
  "is_batch (batch_row prices now received org project count u)"
  by (cases u; simp add: batch_row_def record_batch_usage_def is_batch_def meta_text_def)+

definition opt_amount :: "decimal option \<Rightarrow> decimal" where
  "opt_amount v = (case v of None \<Rightarrow> 0 | Some x \<Rightarrow> x)"

lemma add_totals_fields:
  "bt_input_tokens (add_totals prices t u tot) = bt_input_tokens tot + fst (snd u)"
  "bt_output_tokens (add_totals prices t u tot) = bt_output_tokens tot + snd (snd u)"
  "bt_actual (add_totals prices t u tot) = bt_actual tot + opt_amount (fst (batch_prices prices t u))"
  "bt_naive (add_totals prices t u tot) = bt_naive tot + opt_amount (snd (batch_prices prices t u))"
  "bt_any_priced (add_totals prices t u tot) \<longleftrightarrow> bt_any_priced tot \<or> fst (batch_prices prices t u) \<noteq> None"
  using batch_prices_both [of prices t u]
  by (cases u; auto simp: add_totals_def opt_amount_def split: option.splits prod.splits)+

lemma totals_fold:
  fixes prices t us tot
  defines "r \<equiv> foldl (\<lambda>a u. add_totals prices t u a) tot us"
  shows "bt_input_tokens r = bt_input_tokens tot + sum_list (map (\<lambda>u. fst (snd u)) us)"
    "bt_output_tokens r = bt_output_tokens tot + sum_list (map (\<lambda>u. snd (snd u)) us)"
    "bt_actual r = bt_actual tot + sum_list (map (\<lambda>u. opt_amount (fst (batch_prices prices t u))) us)"
    "bt_naive r = bt_naive tot + sum_list (map (\<lambda>u. opt_amount (snd (batch_prices prices t u))) us)"
    "bt_any_priced r \<longleftrightarrow> bt_any_priced tot \<or> list_ex (\<lambda>u. fst (batch_prices prices t u) \<noteq> None) us"
  unfolding r_def by (induction us arbitrary: tot) (simp_all add: add_totals_fields)

lemma opt_diff_amount:
  "(a = None \<longleftrightarrow> b = None) \<Longrightarrow> opt_amount (opt_diff b a) = opt_amount b - opt_amount a"
  by (auto simp: opt_amount_def opt_diff_def split: option.splits)

lemma saved_of_rows:
  "sum_list (map (\<lambda>u. opt_amount (ue_saved_usd (batch_row prices now received org project count u))) us) =
     sum_list (map (\<lambda>u. opt_amount (snd (batch_prices prices now u))) us) -
     sum_list (map (\<lambda>u. opt_amount (fst (batch_prices prices now u))) us)"
  by (induction us) (simp_all add: opt_diff_amount batch_prices_both)

text \<open>What a successful finalization has done.\<close>

lemma finalize_job_ok:
  assumes "finalize_job env job w = (False, job', w')"
  obtains content us count tot where
    "be_download env = Some content" "parse_output_usage (be_loads env) content [] 0 = Some (us, count)"
    "tot = foldl (\<lambda>t u. add_totals (be_prices env) (be_now env) u t) zero_totals us"
    "bw_ledger w' = rev (map (batch_row (be_prices env) (be_now env) (be_received env) (bj_organization_id job)
        (bj_project_id job) count) us) @ bw_ledger w"
    "bw_storage w' = (bw_storage w)(output_key (bj_project_id job) (bj_id job) \<mapsto> content)"
    "job' = job\<lparr>bj_output_storage_key := Some (output_key (bj_project_id job) (bj_id job)),
        bj_request_count := (if count \<noteq> 0 then count else bj_request_count job),
        bj_input_tokens := bt_input_tokens tot, bj_output_tokens := bt_output_tokens tot,
        bj_actual_cost_usd := (if bt_any_priced tot then Some (bt_actual tot) else None),
        bj_naive_cost_usd := (if bt_any_priced tot then Some (bt_naive tot) else None),
        bj_saved_usd := (if bt_any_priced tot then Some (bt_naive tot - bt_actual tot) else None),
        bj_status := Batch_Finalized, bj_completed_at := Some (be_now env)\<rparr>"
proof -
  obtain content where d: "be_download env = Some content" and ok: "be_write_ok env"
    using assms by (cases "be_download env"; cases "be_write_ok env") (simp_all add: finalize_job_def)
  obtain us count where p: "parse_output_usage (be_loads env) content [] 0 = Some (us, count)"
    using assms d ok by (cases "parse_output_usage (be_loads env) content [] 0") (auto simp: finalize_job_def Let_def)
  obtain r ledger where m: "measure_loop (be_prices env) (be_now env) (be_received env) (bj_organization_id job)
      (bj_project_id job) count us (be_commits env) zero_totals (bw_ledger w) = (r, ledger)" by fastforce
  then obtain tot where r: "r = Some tot"
    using assms d ok p by (cases r) (auto simp: finalize_job_def Let_def)
  note t = measure_loop_ok [OF m [unfolded r]]
  show ?thesis
    by (rule that [OF d p t(1)]) (use assms d ok p m r t(2) in \<open>auto simp: finalize_job_def Let_def\<close>)
qed

section \<open>The life of a job\<close>

inductive batch_reachable :: "settings \<Rightarrow> batch_job \<times> batch_world \<Rightarrow> bool" for cfg where
  staged: "batch_reachable cfg (stage_input_job cfg i org project endpoint window now, w)"
| submit: "batch_reachable cfg (job, w) \<Longrightarrow> bj_status job = Batch_Created \<Longrightarrow>
     submit_job upload create now (bw_storage w) job = (raised, job') \<Longrightarrow> batch_reachable cfg (job', w)"
| sync: "batch_reachable cfg (job, w) \<Longrightarrow> sync_job env poll job w = (raised, job', w') \<Longrightarrow> batch_reachable cfg (job', w')"
| purge: "batch_reachable cfg (job, w) \<Longrightarrow> purge_expired_objects ok now [job] (bw_storage w) = (n, [job'], st) \<Longrightarrow>
     batch_reachable cfg (job', w\<lparr>bw_storage := st\<rparr>)"
| others: "batch_reachable cfg (job, w) \<Longrightarrow> batch_reachable cfg (job, w')"

text \<open>Keys stay in the project's tree; the accounting is complete exactly for a finalized job.\<close>

definition batch_inv :: "batch_job \<Rightarrow> bool" where
  "batch_inv job \<longleftrightarrow>
     bj_input_storage_key job = input_key (bj_project_id job) (bj_id job) \<and>
     bj_output_storage_key job \<in> {None, Some (output_key (bj_project_id job) (bj_id job))} \<and>
     (bj_completed_at job \<noteq> None \<longleftrightarrow> bj_status job = Batch_Finalized) \<and>
     (bj_status job = Batch_Finalized \<longrightarrow> bj_output_storage_key job \<noteq> None) \<and>
     (bj_saved_usd job = opt_diff (bj_naive_cost_usd job) (bj_actual_cost_usd job)) \<and>
     (bj_naive_cost_usd job = None \<longleftrightarrow> bj_actual_cost_usd job = None) \<and>
     (bj_saved_usd job \<noteq> None \<longrightarrow> bj_status job = Batch_Finalized)"

lemma finalize_job_raised:
  assumes "finalize_job env job w = (True, job', w')"
  shows "job' = job \<or> job' = job\<lparr>bj_output_storage_key := Some (output_key (bj_project_id job) (bj_id job))\<rparr>"
  using assms by (auto simp: finalize_job_def Let_def split: option.splits if_splits prod.splits)

lemma finalize_job_inv:
  assumes "batch_inv job" "bj_status job = Batch_Completed" "finalize_job env job w = (raised, job', w')"
  shows "batch_inv job'"
proof (cases raised)
  case True
  then show ?thesis using assms finalize_job_raised [of env job w job' w'] by (auto simp: batch_inv_def)
next
  case False
  with assms(3) have "finalize_job env job w = (False, job', w')" by simp
  then show ?thesis
    by (rule finalize_job_ok) (use assms(1,2) in \<open>auto simp: batch_inv_def opt_diff_def\<close>)
qed

lemma status_map_not_finalized: "status_map v \<noteq> Some Batch_Finalized"
  by (auto simp: status_map_def dest!: map_of_SomeD)

lemma sync_job_cases:
  assumes "sync_job env poll job w = (raised, job', w')"
  obtains "job' = job" "w' = w"
    | st out err n where "bj_status job \<noteq> Batch_Finalized" "st \<noteq> Batch_Finalized"
        "job' = job\<lparr>bj_status := st, bj_provider_output_file_id := out, bj_provider_error_file_id := err, bj_request_count := n\<rparr>"
        "w' = w"
    | out err n where "bj_status job \<noteq> Batch_Finalized"
        "finalize_job env (job\<lparr>bj_status := Batch_Completed, bj_provider_output_file_id := out, bj_provider_error_file_id := err, bj_request_count := n\<rparr>) w
          = (raised, job', w')"
proof (cases "bj_status job \<in> {Batch_Finalized, Batch_Failed} \<or> or_str (bj_provider_batch_id job) None = None \<or> poll = None")
  case True
  then show ?thesis using assms that(1) by (auto simp: sync_job_def split: option.splits if_splits)
next
  case False
  then obtain batch where poll: "poll = Some batch" by auto
  define st where "st = bj_status (polled_job batch job)"
  define out where "out = bj_provider_output_file_id (polled_job batch job)"
  define err where "err = bj_provider_error_file_id (polled_job batch job)"
  let ?job = "\<lambda>n. job\<lparr>bj_status := st, bj_provider_output_file_id := out, bj_provider_error_file_id := err, bj_request_count := n\<rparr>"
  have nf: "bj_status job \<noteq> Batch_Finalized" "st \<noteq> Batch_Finalized"
    using False status_map_not_finalized by (auto simp: st_def polled_job_def split: option.splits)
  have job1: "polled_job batch job = ?job (bj_request_count job)" "(polled_job batch job)\<lparr>bj_request_count := n\<rparr> = ?job n" for n
    by (simp_all add: st_def out_def err_def polled_job_def)
  have sync: "sync_job env poll job w =
      (case poll_total batch of None \<Rightarrow> (True, polled_job batch job, w)
       | Some cnt \<Rightarrow>
           (let job2 = (case cnt of None \<Rightarrow> polled_job batch job | Some n \<Rightarrow> (polled_job batch job)\<lparr>bj_request_count := n\<rparr>)
            in if bj_status job2 = Batch_Completed \<and> or_str (bj_provider_output_file_id job2) None \<noteq> None
               then finalize_job env job2 w else (False, job2, w)))"
    unfolding sync_job_def poll by (subst if_not_P) (use False in \<open>auto simp: Let_def\<close>)
  show ?thesis
  proof (cases "poll_total batch")
    case None
    then have "job' = ?job (bj_request_count job)" "w' = w"
      using assms unfolding sync None option.case job1(1) [symmetric] by auto
    then show ?thesis using nf that(2) by blast
  next
    case (Some cnt)
    obtain n where n: "(case cnt of None \<Rightarrow> polled_job batch job | Some n \<Rightarrow> (polled_job batch job)\<lparr>bj_request_count := n\<rparr>) = ?job n"
      using job1 by (cases cnt) (auto simp only: option.case)
    have "sync_job env poll job w = (if st = Batch_Completed \<and> or_str out None \<noteq> None then finalize_job env (?job n) w else (False, ?job n, w))"
      unfolding sync Some option.case Let_def n by simp
    then consider "job' = ?job n" "w' = w" | "st = Batch_Completed" "finalize_job env (?job n) w = (raised, job', w')"
      using assms by (cases "st = Batch_Completed \<and> or_str out None \<noteq> None") auto
    then show ?thesis using nf that(2,3) by cases metis+
  qed
qed

lemma sync_job_inv:
  assumes "batch_inv job" "sync_job env poll job w = (raised, job', w')"
  shows "batch_inv job'"
  using assms(2)
proof (cases rule: sync_job_cases)
  case 1
  then show ?thesis using assms(1) by simp
next
  case (2 st out err n)
  then show ?thesis using assms(1) by (auto simp: batch_inv_def)
next
  case (3 out err n)
  have "batch_inv (job\<lparr>bj_status := Batch_Completed, bj_provider_output_file_id := out, bj_provider_error_file_id := err, bj_request_count := n\<rparr>)"
    using assms(1) 3(1) by (auto simp: batch_inv_def)
  from finalize_job_inv [OF this _ 3(2)] show ?thesis by simp
qed

lemma batch_reachable_inv: "batch_reachable cfg s \<Longrightarrow> batch_inv (fst s)"
proof (induction rule: batch_reachable.induct)
  case (staged i org project endpoint window now w)
  show ?case by (simp add: batch_inv_def stage_input_job_def opt_diff_def)
next
  case (submit job w upload create now raised job')
  then show ?case
    using status_map_not_finalized
    by (auto simp: submit_job_def batch_inv_def opt_diff_def split: if_splits option.splits)
next
  case (sync job w env poll raised job' w')
  then show ?case using sync_job_inv by auto
next
  case (purge job w ok now n job' st)
  then show ?case by (auto simp: batch_inv_def split: if_splits)
qed simp

section \<open>Properties\<close>

lemma sum_saved_batch_rows:
  assumes "\<forall>e \<in> set rows. ue_project_id e = project \<and> is_batch e \<and> start \<le> ue_received_at e \<and> ue_received_at e < stop"
  shows "sum_saved (rows @ ledger) project start stop is_batch =
    sum_list (map (\<lambda>e. opt_amount (ue_saved_usd e)) rows) + sum_saved ledger project start stop is_batch"
  using assms by (induction rows) (simp_all add: sum_saved_Cons in_period_def opt_amount_def)

text \<open>
  C33. A finalized batch reconciles with the ledger and the bill: finalizing appends rows of the job's
  project only, all tagged as batch; their tokens add up to the job's token counts; and the direct
  savings of the batching lever in any period that contains the rows grow by exactly the amount the job
  reports as saved (nothing when no model has a price).
\<close>

theorem finalized_batch_reconciles:
  assumes "finalize_job env job w = (False, job', w')" "start \<le> be_received env" "be_received env < stop"
  shows "(\<exists>rows. bw_ledger w' = rows @ bw_ledger w \<and>
      (\<forall>e \<in> set rows. is_batch e \<and> ue_project_id e = bj_project_id job) \<and>
      sum_list (map ue_input_tokens rows) = bj_input_tokens job' \<and>
      sum_list (map ue_output_tokens rows) = bj_output_tokens job') \<and>
    sum_saved (bw_ledger w') (bj_project_id job) start stop is_batch =
      sum_saved (bw_ledger w) (bj_project_id job) start stop is_batch + opt_amount (bj_saved_usd job')"
  using assms(1)
proof (rule finalize_job_ok)
  fix content us count tot
  let ?row = "batch_row (be_prices env) (be_now env) (be_received env) (bj_organization_id job) (bj_project_id job) count"
  assume tot: "tot = foldl (\<lambda>t u. add_totals (be_prices env) (be_now env) u t) zero_totals us"
    and ledger: "bw_ledger w' = rev (map ?row us) @ bw_ledger w"
    and job': "job' = job\<lparr>bj_output_storage_key := Some (output_key (bj_project_id job) (bj_id job)),
        bj_request_count := (if count \<noteq> 0 then count else bj_request_count job),
        bj_input_tokens := bt_input_tokens tot, bj_output_tokens := bt_output_tokens tot,
        bj_actual_cost_usd := (if bt_any_priced tot then Some (bt_actual tot) else None),
        bj_naive_cost_usd := (if bt_any_priced tot then Some (bt_naive tot) else None),
        bj_saved_usd := (if bt_any_priced tot then Some (bt_naive tot - bt_actual tot) else None),
        bj_status := Batch_Finalized, bj_completed_at := Some (be_now env)\<rparr>"
  note fold = totals_fold [of "be_prices env" "be_now env" zero_totals us, folded tot]
  have saved: "opt_amount (bj_saved_usd job') = bt_naive tot - bt_actual tot"
  proof (cases "bt_any_priced tot")
    case False
    then have "fst (batch_prices (be_prices env) (be_now env) u) = None \<and> snd (batch_prices (be_prices env) (be_now env) u) = None"
      if "u \<in> set us" for u
      using that fold(5) batch_prices_both [of "be_prices env" "be_now env" u] by (auto simp: list_ex_iff)
    then have "bt_naive tot = 0" "bt_actual tot = 0"
      using fold(3,4) by (simp_all add: zero_totals_def opt_amount_def cong: map_cong)
    then show ?thesis using False by (simp add: job' opt_amount_def)
  qed (simp add: job' opt_amount_def)
  have "sum_saved (rev (map ?row us) @ bw_ledger w) (bj_project_id job) start stop is_batch =
      sum_list (map (\<lambda>e. opt_amount (ue_saved_usd e)) (rev (map ?row us))) + sum_saved (bw_ledger w) (bj_project_id job) start stop is_batch"
    by (rule sum_saved_batch_rows) (use assms(2,3) in auto)
  also have "sum_list (map (\<lambda>e. opt_amount (ue_saved_usd e)) (rev (map ?row us))) = bt_naive tot - bt_actual tot"
    using saved_of_rows [of "be_prices env" "be_now env" "be_received env" "bj_organization_id job" "bj_project_id job" count us] fold(3,4)
    by (simp add: rev_map [symmetric] comp_def zero_totals_def)
  finally have "sum_saved (bw_ledger w') (bj_project_id job) start stop is_batch =
      sum_saved (bw_ledger w) (bj_project_id job) start stop is_batch + opt_amount (bj_saved_usd job')"
    by (simp add: ledger saved)
  moreover have "sum_list (map ue_input_tokens (rev (map ?row us))) = bj_input_tokens job'"
    "sum_list (map ue_output_tokens (rev (map ?row us))) = bj_output_tokens job'"
    using fold(1,2) by (simp_all add: job' rev_map [symmetric] comp_def zero_totals_def)
  ultimately show ?thesis using ledger by auto
qed

definition sample_job :: batch_job where
  "sample_job = (stage_input_job default_settings ''j'' ''o'' ''p'' ''/v1'' ''24h'' 0)
     \<lparr>bj_status := Batch_Completed, bj_provider_batch_id := Some ''b'', bj_provider_output_file_id := Some ''f''\<rparr>"

definition sample_price :: "string \<Rightarrow> price_row" where
  "sample_price m = \<lparr>pr_id = m, pr_model_key = m, pr_provider = ''openai'', pr_effective_at = 0, pr_input = 2, pr_output = 4,
     pr_cache_read = None, pr_input_batch = Some 1, pr_output_batch = Some 2\<rparr>"

definition sample_line :: "string \<Rightarrow> json" where
  "sample_line m = JObj [(''response'', JObj [(''body'', JObj [(''model'', JStr m),
     (''usage'', JObj [(''prompt_tokens'', JInt 1), (''completion_tokens'', JInt 1)])])])]"

text \<open>A decoder that reads one line per model name.\<close>

definition sample_batch_env :: batch_env where
  "sample_batch_env = \<lparr>be_loads = (\<lambda>t. Some (sample_line t)), be_prices = [sample_price ''a'', sample_price ''b''], be_now = 5,
     be_received = 5, be_download = Some [''a'', ''b''], be_write_ok = True, be_commits = None\<rparr>"

definition sample_world :: batch_world where
  "sample_world = \<lparr>bw_ledger = [], bw_storage = Map.empty\<rparr>"

lemma sample_parse: "parse_output_usage (\<lambda>t. Some (sample_line t)) [''a'', ''b''] [] 0 = Some ([(''a'', 1, 1), (''b'', 1, 1)], 2)"
  by (simp add: Let_def py_strip_def py_lstrip_def py_isspace_def sample_line_def line_usage_def token_count_def)

lemma sample_finalize: "\<exists>job' w'. finalize_job sample_batch_env sample_job sample_world = (False, job', w')"
  by (simp add: finalize_job_def sample_batch_env_def sample_parse Let_def measure_loop_None del: parse_output_usage.simps)

theorem finalized_batch_reconciles_witness:
  "\<exists>job' w'. finalize_job sample_batch_env sample_job sample_world = (False, job', w') \<and>
     sum_saved (bw_ledger w') ''p'' 0 10 is_batch = opt_amount (bj_saved_usd job')"
proof -
  obtain job' w' where f: "finalize_job sample_batch_env sample_job sample_world = (False, job', w')"
    using sample_finalize by blast
  have "bj_project_id sample_job = ''p''" by (simp add: sample_job_def stage_input_job_def)
  with finalized_batch_reconciles [OF f, of 0 10] f show ?thesis
    by (auto simp: sample_batch_env_def sample_world_def sum_saved_def)
qed

text \<open>
  In every state a job can reach, by any sequence of submissions, polls with any provider answers and
  failures, and purges: its storage keys lie in its own project's tree, it has a completion time exactly
  when it is finalized and then has its output staged, and its reported saving is the synchronous minus
  the batch price, present only once it is finalized.
\<close>

theorem batch_job_invariant:
  assumes "batch_reachable cfg (job, w)"
  shows "batch_inv job"
  using batch_reachable_inv [OF assms] by simp

theorem batch_job_invariant_witness: "batch_inv (stage_input_job default_settings ''j'' ''o'' ''p'' ''/v1'' ''24h'' 0)"
  by (rule batch_job_invariant [OF batch_reachable.staged])

text \<open>
  A finalized job is final: no poll touches it or the ledger again, whatever the provider answers, and
  the sweep does not even ask.
\<close>

theorem finalized_job_untouched:
  "sync_job env poll (job\<lparr>bj_status := Batch_Finalized\<rparr>) w = (False, job\<lparr>bj_status := Batch_Finalized\<rparr>, w) \<and>
   sync_active_jobs envs project [job\<lparr>bj_status := Batch_Finalized\<rparr>] w = ([], [job\<lparr>bj_status := Batch_Finalized\<rparr>], w)"
  by (simp add: sync_job_def active_statuses_def)

text \<open>
  A finalization that fails half way is billed twice: each ledger row is committed on its own and the
  job stays active, so when the database fails after \<open>k\<close> of the rows, the retry writes all rows again and
  the first \<open>k\<close> stay in the ledger beside their copies.
\<close>

theorem interrupted_finalize_duplicates_rows:
  assumes "be_download env = Some content" "be_write_ok env"
    and "parse_output_usage (be_loads env) content [] 0 = Some (us, count)" "k < length us"
  shows "\<exists>job1 w1 job2 w2 rows.
    finalize_job (env\<lparr>be_commits := Some k\<rparr>) job w = (True, job1, w1) \<and> bj_status job1 = bj_status job \<and>
    finalize_job (env\<lparr>be_commits := None\<rparr>) job1 w1 = (False, job2, w2) \<and> length rows = length us \<and>
    bw_ledger w2 = rows @ drop (length rows - k) rows @ bw_ledger w"
proof -
  let ?row = "batch_row (be_prices env) (be_now env) (be_received env) (bj_organization_id job) (bj_project_id job) count"
  have "rev (map ?row (take k us)) = drop (length us - k) (rev (map ?row us))"
    using assms(4) by (simp add: take_map [symmetric] rev_take)
  then show ?thesis
    using assms
    by (auto simp: finalize_job_def Let_def measure_loop_None measure_loop_Some
        intro!: exI [of _ "rev (map ?row us)"])
qed

theorem interrupted_finalize_duplicates_rows_witness:
  "\<exists>job1 w1 job2 w2. finalize_job (sample_batch_env\<lparr>be_commits := Some 1\<rparr>) sample_job sample_world = (True, job1, w1) \<and>
     finalize_job (sample_batch_env\<lparr>be_commits := None\<rparr>) job1 w1 = (False, job2, w2) \<and> length (bw_ledger w2) = 3"
  using interrupted_finalize_duplicates_rows [of sample_batch_env "[''a'', ''b'']" "[(''a'', 1, 1), (''b'', 1, 1)]" 2 1
      sample_job sample_world]
  by (fastforce simp: sample_batch_env_def sample_parse sample_world_def simp del: parse_output_usage.simps)

text \<open>
  Output staged after the purge is never deleted: a job whose objects were purged at the time to live and
  which is finalized afterwards (a late poll) has its content in storage again, and since the job is
  already marked as purged no later sweep removes it.
\<close>

theorem late_output_never_purged:
  assumes "bj_objects_purged_at job \<noteq> None" "finalize_job env job w = (False, job', w')"
  shows "bw_storage w' (output_key (bj_project_id job) (bj_id job)) \<noteq> None \<and>
    purge_expired_objects ok later [job'] (bw_storage w') = (0, [job'], bw_storage w')"
  using assms(2) by (rule finalize_job_ok) (use assms(1) in \<open>auto simp: purge_due_def\<close>)

theorem late_output_never_purged_witness:
  "\<exists>job' w'. finalize_job sample_batch_env (sample_job\<lparr>bj_objects_purged_at := Some 3\<rparr>) sample_world = (False, job', w') \<and>
     purge_expired_objects (\<lambda>_. True) 100 [job'] (bw_storage w') = (0, [job'], bw_storage w')"
proof -
  obtain job' w' where f: "finalize_job sample_batch_env (sample_job\<lparr>bj_objects_purged_at := Some 3\<rparr>) sample_world = (False, job', w')"
    by (simp add: finalize_job_def sample_batch_env_def sample_parse Let_def measure_loop_None del: parse_output_usage.simps)
  with late_output_never_purged [OF _ f, of "\<lambda>_. True" 100] show ?thesis by auto
qed

end
