(* ===== verification/Billing.thy ===== *)
theory Billing
  imports SavingsMeasurement BillingLifecycle
begin

text \<open>
  \<open>billing.py\<close> (with \<open>month_start\<close> and \<open>month_end\<close> of \<open>savings.py\<close> and the invoice rows of
  \<open>models/billing.py\<close>): the gain-share fee on verified savings, the live preview of the month and the
  durable invoice of a period.
\<close>

definition max_gain_share_percent :: decimal where
  "max_gain_share_percent = 25 / 100"

definition q_fee :: "decimal \<Rightarrow> decimal" where
  "q_fee v = quantize_half_up 2 v"

definition effective_gain_share_percent :: "decimal \<Rightarrow> decimal" where
  "effective_gain_share_percent percent = max 0 (min percent max_gain_share_percent)"

record billable =
  bi_verified_savings_usd :: decimal
  bi_gain_share_percent :: decimal
  bi_monthly_fee_floor_usd :: decimal
  bi_fee_usd :: decimal
  bi_net_savings_usd :: decimal

definition compute_fee :: "decimal \<Rightarrow> decimal \<Rightarrow> decimal \<Rightarrow> billable" where
  "compute_fee verified_savings percent floor_usd =
     (let gross = max (q_fee verified_savings) 0;
          effective_percent = effective_gain_share_percent percent;
          fee1 = q_fee (gross * effective_percent);
          fee2 = (if floor_usd > 0 then max fee1 (q_fee floor_usd) else fee1);
          max_fee = q_fee (gross * max_gain_share_percent);
          fee = min fee2 max_fee
      in \<lparr>bi_verified_savings_usd = gross, bi_gain_share_percent = effective_percent,
          bi_monthly_fee_floor_usd = q_fee floor_usd, bi_fee_usd = fee, bi_net_savings_usd = gross - fee\<rparr>)"

record project =
  pj_id :: uuid
  pj_organization_id :: uuid

definition org_verified_savings ::
  "cs_fun \<Rightarrow> usage_event list \<Rightarrow> proxy_policy list \<Rightarrow> project list \<Rightarrow> uuid \<Rightarrow> datetime \<Rightarrow> datetime \<Rightarrow> decimal" where
  "org_verified_savings dcs ledger policies projects oid start stop =
     q_fee (sum_list (map (\<lambda>p. verified_savings_usd (compute_verified_savings dcs ledger policies (pj_id p) start stop))
       (filter (\<lambda>p. pj_organization_id p = oid) projects)))"

definition month_end :: "datetime \<Rightarrow> datetime" where
  "month_end now = month_start (month_start now + timedelta_days 32) - 1000000"

definition current_period_billable ::
  "cs_fun \<Rightarrow> usage_event list \<Rightarrow> proxy_policy list \<Rightarrow> project list \<Rightarrow> uuid \<Rightarrow> organization \<Rightarrow> datetime \<Rightarrow> billable" where
  "current_period_billable dcs ledger policies projects oid org now =
     compute_fee (org_verified_savings dcs ledger policies projects oid (month_start now) (month_end now))
       (org_gain_share_percent org) (org_monthly_fee_floor_usd org)"

datatype invoice_status = Inv_Draft | Inv_Finalized | Inv_Sent | Inv_Paid | Inv_Void

record invoice =
  inv_organization_id :: uuid
  inv_period_start :: datetime
  inv_period_end :: datetime
  inv_verified_savings_usd :: decimal
  inv_gain_share_percent :: decimal
  inv_monthly_fee_floor_usd :: decimal
  inv_fee_usd :: decimal
  inv_net_savings_usd :: decimal
  inv_status :: invoice_status

definition invoice_of_period :: "uuid \<Rightarrow> datetime \<Rightarrow> datetime \<Rightarrow> invoice \<Rightarrow> bool" where
  "invoice_of_period oid start stop invc \<longleftrightarrow>
     inv_organization_id invc = oid \<and> inv_period_start invc = start \<and> inv_period_end invc = stop"

definition fill_invoice :: "billable \<Rightarrow> invoice \<Rightarrow> invoice" where
  "fill_invoice b invc =
     invc\<lparr>inv_verified_savings_usd := bi_verified_savings_usd b, inv_gain_share_percent := bi_gain_share_percent b,
         inv_monthly_fee_floor_usd := bi_monthly_fee_floor_usd b, inv_fee_usd := bi_fee_usd b,
         inv_net_savings_usd := bi_net_savings_usd b, inv_status := Inv_Draft\<rparr>"

definition blank_invoice :: "uuid \<Rightarrow> datetime \<Rightarrow> datetime \<Rightarrow> invoice" where
  "blank_invoice oid start stop =
     \<lparr>inv_organization_id = oid, inv_period_start = start, inv_period_end = stop, inv_verified_savings_usd = 0,
      inv_gain_share_percent = 0, inv_monthly_fee_floor_usd = 0, inv_fee_usd = 0, inv_net_savings_usd = 0,
      inv_status = Inv_Draft\<rparr>"

text \<open>
  \<open>generate_invoice\<close>: the row returned and the invoice table. The rows of a period are unique per
  organization (the table's unique constraint), so updating the row found updates every match.
\<close>

definition generate_invoice ::
  "cs_fun \<Rightarrow> usage_event list \<Rightarrow> proxy_policy list \<Rightarrow> project list \<Rightarrow> uuid \<Rightarrow> organization \<Rightarrow> datetime \<Rightarrow> datetime
    \<Rightarrow> invoice list \<Rightarrow> invoice \<times> invoice list" where
  "generate_invoice dcs ledger policies projects oid org start stop invoices =
     (let b = compute_fee (org_verified_savings dcs ledger policies projects oid start stop)
                (org_gain_share_percent org) (org_monthly_fee_floor_usd org)
      in case find (invoice_of_period oid start stop) invoices of
           Some invc \<Rightarrow>
             if inv_status invc \<noteq> Inv_Draft then (invc, invoices)
             else (fill_invoice b invc,
                   map (\<lambda>i. if invoice_of_period oid start stop i then fill_invoice b i else i) invoices)
         | None \<Rightarrow>
             (fill_invoice b (blank_invoice oid start stop),
              invoices @ [fill_invoice b (blank_invoice oid start stop)]))"

definition previous_month_period :: "datetime \<Rightarrow> datetime \<times> datetime" where
  "previous_month_period now =
     (let this_month_start = month_start now
      in (month_start (this_month_start - timedelta_days 1), this_month_start))"

section \<open>The fee\<close>

lemma effective_gain_share_range:
  "0 \<le> effective_gain_share_percent p" "effective_gain_share_percent p \<le> max_gain_share_percent"
  by (simp_all add: effective_gain_share_percent_def max_gain_share_percent_def)

lemma fee_parts:
  "bi_verified_savings_usd (compute_fee v p f) = max (q_fee v) 0"
  "bi_fee_usd (compute_fee v p f) =
     min (if f > 0 then max (q_fee (max (q_fee v) 0 * effective_gain_share_percent p)) (q_fee f)
          else q_fee (max (q_fee v) 0 * effective_gain_share_percent p))
         (q_fee (max (q_fee v) 0 * max_gain_share_percent))"
  "bi_net_savings_usd (compute_fee v p f) = bi_verified_savings_usd (compute_fee v p f) - bi_fee_usd (compute_fee v p f)"
  "bi_gain_share_percent (compute_fee v p f) = effective_gain_share_percent p"
  by (simp_all add: compute_fee_def Let_def)

lemma q_fee_mono: "x \<le> y \<Longrightarrow> q_fee x \<le> q_fee y"
  by (simp add: q_fee_def quantize_half_up_mono)

lemma q_fee_nonneg: "0 \<le> x \<Longrightarrow> 0 \<le> q_fee x"
  by (simp add: q_fee_def quantize_half_up_nonneg)

lemma on_grid_q_fee [simp]: "on_grid 2 (q_fee x)"
  by (simp add: q_fee_def)

lemma q_fee_id: "on_grid 2 x \<Longrightarrow> q_fee x = x"
  by (simp add: q_fee_def)

lemma q_fee_error: "q_fee x \<le> x + 5 / 1000"
proof -
  have "1 / (2 * 10 ^ 2) = (5 / 1000 :: rat)" by simp
  then show ?thesis using abs_le_D1 [OF quantize_half_up_error [of 2 x]] unfolding q_fee_def by linarith
qed

text \<open>A quarter of a whole number of cents, rounded, is at most that number of cents.\<close>

lemma max_fee_le_gross: "0 \<le> g \<Longrightarrow> on_grid 2 g \<Longrightarrow> q_fee (g * max_gain_share_percent) \<le> g"
  using q_fee_mono [of "g * max_gain_share_percent" g] by (simp add: q_fee_id max_gain_share_percent_def)

lemma fee_nonneg: "0 \<le> bi_fee_usd (compute_fee v p f)"
  by (simp add: fee_parts q_fee_nonneg effective_gain_share_range max_gain_share_percent_def le_max_iff_disj)

lemma fee_mono:
  assumes "v \<le> v'"
  shows "bi_fee_usd (compute_fee v p f) \<le> bi_fee_usd (compute_fee v' p f)"
proof -
  have g: "max (q_fee v) 0 \<le> max (q_fee v') 0" using q_fee_mono [OF assms] by auto
  have "q_fee (max (q_fee v) 0 * r) \<le> q_fee (max (q_fee v') 0 * r)" if "0 \<le> r" for r
    by (intro q_fee_mono mult_right_mono g that)
  note m = this [OF effective_gain_share_range(1) [of p]] this [of max_gain_share_percent]
  have "0 \<le> max_gain_share_percent" by (simp add: max_gain_share_percent_def)
  with m show ?thesis
    unfolding fee_parts by (intro min.mono) (auto simp: max.coboundedI1 intro: max.mono)
qed

section \<open>Invoices\<close>

lemma find_map_fill:
  "find (invoice_of_period oid start stop) invoices = Some invc \<Longrightarrow>
   find (invoice_of_period oid start stop)
     (map (\<lambda>i. if invoice_of_period oid start stop i then fill_invoice b i else i) invoices) = Some (fill_invoice b invc)"
  by (induction invoices) (auto simp: invoice_of_period_def fill_invoice_def split: if_splits)

lemma find_append_None:
  "find P xs = None \<Longrightarrow> P x \<Longrightarrow> find P (xs @ [x]) = Some x"
  by (induction xs) (auto split: if_splits)

lemma fill_invoice_period [simp]:
  "invoice_of_period oid start stop (fill_invoice b i) = invoice_of_period oid start stop i"
  by (simp add: invoice_of_period_def fill_invoice_def)

lemma fill_invoice_fill [simp]: "fill_invoice b (fill_invoice b' i) = fill_invoice b i"
  by (simp add: fill_invoice_def)

lemma fill_invoice_status [simp]: "inv_status (fill_invoice b i) = Inv_Draft"
  by (simp add: fill_invoice_def)

lemma blank_invoice_period [simp]: "invoice_of_period oid start stop (blank_invoice oid start stop)"
  by (simp add: invoice_of_period_def blank_invoice_def)

definition invoice_billable ::
  "cs_fun \<Rightarrow> usage_event list \<Rightarrow> proxy_policy list \<Rightarrow> project list \<Rightarrow> uuid \<Rightarrow> organization \<Rightarrow> datetime \<Rightarrow> datetime \<Rightarrow> billable" where
  "invoice_billable dcs ledger policies projects oid org start stop =
     compute_fee (org_verified_savings dcs ledger policies projects oid start stop)
       (org_gain_share_percent org) (org_monthly_fee_floor_usd org)"

lemma generate_invoice_None:
  assumes "find (invoice_of_period oid start stop) invoices = None"
  shows "generate_invoice dcs ledger policies projects oid org start stop invoices =
    (fill_invoice (invoice_billable dcs ledger policies projects oid org start stop) (blank_invoice oid start stop),
     invoices @ [fill_invoice (invoice_billable dcs ledger policies projects oid org start stop) (blank_invoice oid start stop)])"
  using assms by (simp add: generate_invoice_def Let_def invoice_billable_def)

lemma generate_invoice_draft:
  assumes "find (invoice_of_period oid start stop) invoices = Some i" "inv_status i = Inv_Draft"
  shows "generate_invoice dcs ledger policies projects oid org start stop invoices =
    (fill_invoice (invoice_billable dcs ledger policies projects oid org start stop) i,
     map (\<lambda>j. if invoice_of_period oid start stop j
              then fill_invoice (invoice_billable dcs ledger policies projects oid org start stop) j else j) invoices)"
  using assms by (simp add: generate_invoice_def Let_def invoice_billable_def)

section \<open>Properties\<close>

text \<open>
  C3. The fee is safe for the customer, for every amount of verified savings (negative too), every
  configured rate and every floor: it is never negative, never above the verified savings themselves,
  at most 25 percent of them up to half a cent of rounding, the net savings are never negative, both are
  whole cents, and larger verified savings never lower the fee.
\<close>

theorem fee_is_capped:
  "let b = compute_fee v percent floor_usd
   in 0 \<le> bi_fee_usd b \<and> bi_fee_usd b \<le> bi_verified_savings_usd b \<and>
      bi_fee_usd b \<le> bi_verified_savings_usd b * max_gain_share_percent + 5 / 1000 \<and>
      0 \<le> bi_net_savings_usd b \<and> on_grid 2 (bi_fee_usd b) \<and> on_grid 2 (bi_net_savings_usd b) \<and>
      0 \<le> bi_gain_share_percent b \<and> bi_gain_share_percent b \<le> max_gain_share_percent \<and>
      bi_fee_usd b \<le> bi_fee_usd (compute_fee (max v v') percent floor_usd)"
proof -
  let ?g = "max (q_fee v) 0"
  have le: "bi_fee_usd (compute_fee v percent floor_usd) \<le> q_fee (?g * max_gain_share_percent)"
    by (simp add: fee_parts)
  have g: "q_fee (?g * max_gain_share_percent) \<le> ?g" by (rule max_fee_le_gross) simp_all
  have grid: "on_grid 2 (bi_fee_usd (compute_fee v percent floor_usd))" by (simp add: fee_parts)
  show ?thesis
    unfolding Let_def
  proof (intro conjI)
    show "0 \<le> bi_fee_usd (compute_fee v percent floor_usd)" by (rule fee_nonneg)
    show "bi_fee_usd (compute_fee v percent floor_usd) \<le> bi_verified_savings_usd (compute_fee v percent floor_usd)"
      using le g by (simp only: fee_parts(1))
    then show "0 \<le> bi_net_savings_usd (compute_fee v percent floor_usd)" by (simp only: fee_parts(3) diff_ge_0_iff_ge)
    show "bi_fee_usd (compute_fee v percent floor_usd)
        \<le> bi_verified_savings_usd (compute_fee v percent floor_usd) * max_gain_share_percent + 5 / 1000"
      using le q_fee_error [of "?g * max_gain_share_percent"] by (simp only: fee_parts(1))
    show "on_grid 2 (bi_fee_usd (compute_fee v percent floor_usd))" by (rule grid)
    show "on_grid 2 (bi_net_savings_usd (compute_fee v percent floor_usd))"
      using grid by (simp add: fee_parts(1,3))
    show "bi_fee_usd (compute_fee v percent floor_usd) \<le> bi_fee_usd (compute_fee (max v v') percent floor_usd)"
      by (rule fee_mono) simp
  qed (simp_all add: fee_parts effective_gain_share_range)
qed

text \<open>
  Rounding the cap to cents can lift the fee above 25 percent: on 0.02 USD of verified savings at the
  maximal rate the fee is 0.01 USD, half of the savings.
\<close>

theorem fee_rounding_exceeds_cap:
  "bi_fee_usd (compute_fee (2 / 100) max_gain_share_percent 0) = 1 / 100 \<and>
   bi_verified_savings_usd (compute_fee (2 / 100) max_gain_share_percent 0) * max_gain_share_percent < 1 / 100"
  by code_simp

text \<open>
  Generating an invoice is idempotent and local: generating it again from the same ledger and rate
  returns the same invoice and leaves the table as it is, and the invoices of other organizations and
  periods are never touched.
\<close>

theorem invoice_generation_idempotent:
  "let (i, invoices') = generate_invoice dcs ledger policies projects oid org start stop invoices
   in generate_invoice dcs ledger policies projects oid org start stop invoices' = (i, invoices') \<and>
      filter (\<lambda>j. \<not> invoice_of_period oid start stop j) invoices' =
      filter (\<lambda>j. \<not> invoice_of_period oid start stop j) invoices"
proof (cases "find (invoice_of_period oid start stop) invoices")
  case None
  then have "\<not> invoice_of_period oid start stop j" if "j \<in> set invoices" for j
    using that by (auto simp: find_None_iff)
  then have same: "map (\<lambda>j. if invoice_of_period oid start stop j then fill_invoice b j else j) invoices = invoices" for b
    by (simp add: map_idI)
  show ?thesis
    unfolding generate_invoice_None [OF None] Let_def prod.case
    by (subst generate_invoice_draft [OF find_append_None [OF None]]) (simp_all add: same)
next
  case (Some i)
  have frame: "filter (\<lambda>j. \<not> invoice_of_period oid start stop j)
      (map (\<lambda>j. if invoice_of_period oid start stop j then fill_invoice b j else j) invoices) =
      filter (\<lambda>j. \<not> invoice_of_period oid start stop j) invoices" for b
    by (induction invoices) auto
  have twice: "map ((\<lambda>j. if invoice_of_period oid start stop j then fill_invoice b j else j) \<circ>
      (\<lambda>j. if invoice_of_period oid start stop j then fill_invoice b j else j)) invoices =
      map (\<lambda>j. if invoice_of_period oid start stop j then fill_invoice b j else j) invoices" for b
    by simp
  show ?thesis
  proof (cases "inv_status i = Inv_Draft")
    case True
    show ?thesis
      unfolding generate_invoice_draft [OF Some True] Let_def prod.case
      by (subst generate_invoice_draft [OF find_map_fill [OF Some]]) (simp_all add: frame twice)
  next
    case False
    with Some show ?thesis by (simp add: generate_invoice_def Let_def)
  qed
qed

text \<open>
  An invoice that left the draft status is immutable: whatever the ledger, the configured rate or the
  floor have become since, generating the period again returns it unchanged and changes no row.
\<close>

theorem finalized_invoice_immutable:
  assumes "find (invoice_of_period oid start stop) invoices = Some i" "inv_status i \<noteq> Inv_Draft"
  shows "generate_invoice dcs ledger policies projects oid org start stop invoices = (i, invoices)"
  using assms by (simp add: generate_invoice_def Let_def)

theorem finalized_invoice_immutable_witness:
  "generate_invoice (\<lambda>_ _ _ _ _ _. None) [sample_hit] [] [\<lparr>pj_id = ''project'', pj_organization_id = ''o''\<rparr>] ''o''
     (new_organization ''o'' 0) 0 20 [(blank_invoice ''o'' 0 20)\<lparr>inv_status := Inv_Sent, inv_fee_usd := 7\<rparr>] =
   ((blank_invoice ''o'' 0 20)\<lparr>inv_status := Inv_Sent, inv_fee_usd := 7\<rparr>,
    [(blank_invoice ''o'' 0 20)\<lparr>inv_status := Inv_Sent, inv_fee_usd := 7\<rparr>])"
  by (rule finalized_invoice_immutable) (simp_all add: invoice_of_period_def blank_invoice_def)

lemma jan_splits:
  "split_year 1970 30 = (1970, 30)" "split_year 1970 31 = (1970, 31)" "split_year 1970 32 = (1970, 32)"
  "split_month 1970 1 30 = (1, 30)" "split_month 1970 1 31 = (2, 0)" "split_month 1970 1 32 = (2, 1)"
  by (subst split_year.simps, simp add: days_in_year_def is_leap_def)+
    (subst split_month.simps, simp add: days_in_month_def is_leap_def split_month.simps [of 1970 2])+

lemma jan_days:
  "month_start 2678399500000 = 0" "month_start 2678400000000 = 2678400000000"
  "month_start 2592000000000 = 0" "month_start 2764800000000 = 2678400000000"
  by (simp_all add: month_start_def day_of_month_def year_of_def day_of_year_def day_number_def
      microseconds_per_day_def midnight_of_day_def jan_splits jan_splits [unfolded One_nat_def])

text \<open>
  The live preview of a month leaves out its last second: for January 1970 an event received half a
  second before midnight of the last day is billed by the invoice of the elapsed month and missing from
  the preview, because \<open>month_end\<close> is one second before the next month and the queries exclude it.
\<close>

theorem preview_misses_last_second:
  "let t = 2678399500000; ledger = [sample_hit\<lparr>ue_received_at := t\<rparr>]; projects = [\<lparr>pj_id = ''project'', pj_organization_id = ''o''\<rparr>];
       (start, stop) = previous_month_period 2678400000000
   in org_verified_savings (\<lambda>_ _ _ _ _ _. None) ledger [] projects ''o'' start stop = 2 \<and>
      bi_verified_savings_usd
        (current_period_billable (\<lambda>_ _ _ _ _ _. None) ledger [] projects ''o'' (new_organization ''o'' 0) t) = 0"
proof -
  have cal: "previous_month_period 2678400000000 = (0, 2678400000000)" "month_start 2678399500000 = 0"
      "month_end 2678399500000 = 2678399000000"
    by (simp_all add: previous_month_period_def month_end_def jan_days timedelta_days_def microseconds_per_day_def)
  let ?e = "sample_hit\<lparr>ue_received_at := 2678399500000\<rparr>"
  have tags: "is_cache_hit ?e" "\<not> is_batch ?e" "\<not> is_routed ?e" "\<not> is_holdback ?e" "meta_text ?e ''overhead'' = None"
      "ue_saved_usd ?e = Some 2" "in_period ''project'' 0 stop ?e = (2678399500000 < stop)" for stop
    by (simp_all add: sample_rows tag_defs in_period_def)
  have q: "q_cents 2 = 2" "q_fee 2 = 2" "q_cents 0 = 0" "q_fee 0 = 0" by code_simp+
  have "verified_savings_usd (compute_verified_savings (\<lambda>_ _ _ _ _ _. None) [?e] [] ''project'' 0 stop) =
      (if 2678399500000 < stop then 2 else 0)" for stop
    by (simp add: compute_verified_savings_def Let_def direct_total sum_saved_Cons sum_saved_def tags q
        holdback_measured_def experiment_pairs_def List.map_filter_def empty_holdback_def
        optimization_overhead_cost_def coalesce_sum_Cons)
  then show ?thesis
    by (simp add: cal current_period_billable_def Let_def fee_parts org_verified_savings_def q)
qed

end
