(* ===== verification/Periods.thy ===== *)
theory Periods
  imports Calendar
begin

text \<open>
  \<open>periods.py\<close>: the to-date window of a month, quarter or year and the same-elapsed window of the
  period before it, which the dashboard's deltas compare. Instants are UTC, so the normalisation of
  a naive \<open>now\<close> is the identity.
\<close>

datatype period = Month | Quarter | Year

datatype granularity = Day | Week | Month_Granularity

fun period_granularity :: "period \<Rightarrow> granularity" where
  "period_granularity Month = Day"
| "period_granularity Quarter = Week"
| "period_granularity Year = Month_Granularity"

record period_window =
  pw_period :: period
  pw_start :: datetime
  pw_end :: datetime
  pw_prev_start :: datetime
  pw_prev_end :: datetime
  pw_granularity :: granularity

definition pw_elapsed :: "period_window \<Rightarrow> int" where
  "pw_elapsed w = pw_end w - pw_start w"

definition pw_prior :: "period_window \<Rightarrow> period_window" where
  "pw_prior w =
     \<lparr>pw_period = pw_period w, pw_start = pw_prev_start w, pw_end = pw_prev_end w,
      pw_prev_start = pw_prev_start w, pw_prev_end = pw_prev_start w, pw_granularity = pw_granularity w\<rparr>"

definition quarter_start :: "datetime \<Rightarrow> datetime" where
  "quarter_start t =
     (let first_month = ((month_of t - 1) div 3) * 3 + 1
      in midnight_of_day (day_number t - day_of_month t
           - sum_list (map (days_in_month (year_of t)) [first_month ..< month_of t])))"

fun period_start :: "datetime \<Rightarrow> period \<Rightarrow> datetime" where
  "period_start now Month = month_start now"
| "period_start now Quarter = quarter_start now"
| "period_start now Year = year_start now"

text \<open>\<open>start.replace(year=start.year - 1)\<close> of a January 1st is the January 1st before.\<close>

definition previous_start :: "datetime \<Rightarrow> period \<Rightarrow> datetime" where
  "previous_start start p =
     (if p = Year then start - timedelta_days (int (days_in_year (year_of start - 1)))
      else period_start (start - timedelta_days 1) p)"

definition resolve_period :: "datetime \<Rightarrow> period \<Rightarrow> period_window" where
  "resolve_period now p =
     (let start = period_start now p;
          prev_start = previous_start start p;
          elapsed = now - start;
          prev_end = min (prev_start + elapsed) start
      in \<lparr>pw_period = p, pw_start = start, pw_end = now, pw_prev_start = prev_start,
          pw_prev_end = prev_end, pw_granularity = period_granularity p\<rparr>)"

section \<open>Lemmas\<close>

lemma period_start_le: "0 \<le> t \<Longrightarrow> period_start t p \<le> t"
  by (cases p) (simp_all add: month_start_def quarter_start_def year_start_def midnight_le Let_def)

lemma period_start_midnight: "\<exists>d. period_start t p = midnight_of_day d"
  by (cases p) (auto simp: month_start_def quarter_start_def year_start_def Let_def)

lemma period_start_nonneg: "0 \<le> period_start t p"
  using period_start_midnight [of t p] by (auto simp: midnight_of_day_def microseconds_per_day_def)

lemma previous_start_less:
  assumes "timedelta_days 1 \<le> start"
  shows "previous_start start p < start"
proof (cases "p = Year")
  case True
  then show ?thesis by (simp add: previous_start_def)
next
  case False
  have "period_start (start - timedelta_days 1) p \<le> start - timedelta_days 1"
    using assms by (intro period_start_le) simp
  moreover have "0 < timedelta_days 1" by simp
  ultimately show ?thesis unfolding previous_start_def if_not_P [OF False] by linarith
qed

section \<open>Properties\<close>

text \<open>
  The two windows a period resolves to are well formed and do not overlap: the prior window is
  non-empty in order, ends no later than the current one starts, and is never longer than the time
  elapsed in the current period, so a delta compares equal or shorter stretches of disjoint time.
  The current window starts on the first instant of the civil period that contains \<open>now\<close>.
\<close>

theorem resolve_period_windows:
  assumes "0 \<le> now" "timedelta_days 1 \<le> period_start now p"
  shows "pw_prev_start (resolve_period now p) \<le> pw_prev_end (resolve_period now p) \<and>
    pw_prev_end (resolve_period now p) \<le> pw_start (resolve_period now p) \<and>
    pw_start (resolve_period now p) \<le> pw_end (resolve_period now p) \<and>
    pw_elapsed (pw_prior (resolve_period now p)) \<le> pw_elapsed (resolve_period now p) \<and>
    (p = Month \<longrightarrow> month_of (pw_start (resolve_period now p)) = month_of now \<and>
       year_of (pw_start (resolve_period now p)) = year_of now \<and>
       day_of_month (pw_start (resolve_period now p)) = 0)"
  using period_start_le [OF assms(1), of p] previous_start_less [OF assms(2), of p]
  by (auto simp: resolve_period_def pw_prior_def pw_elapsed_def Let_def month_start_civil)

theorem resolve_period_windows_witness:
  "pw_prev_end (resolve_period (midnight_of_day 40) Month) \<le> pw_start (resolve_period (midnight_of_day 40) Month)"
proof -
  have "period_start (midnight_of_day 40) Month = midnight_of_day 31" by code_simp
  then have "timedelta_days 1 \<le> period_start (midnight_of_day 40) Month"
    by (simp add: midnight_of_day_def timedelta_days_def microseconds_per_day_def)
  moreover have "0 \<le> midnight_of_day 40" by (simp add: midnight_of_day_def microseconds_per_day_def)
  ultimately show ?thesis using resolve_period_windows [of "midnight_of_day 40" Month] by blast
qed

end
