(* ===== verification/Savings.thy ===== *)
theory Savings
  imports Billing Periods Governance
begin

text \<open>
  \<open>savings.py\<close>: attributing an applied recommendation, the month's summary, and the dashboard's window
  savings with their deltas. The chart's per-bucket series is not modelled.
\<close>

definition org_fee_percent :: "organization \<Rightarrow> decimal" where
  "org_fee_percent org = min (org_gain_share_percent org) max_gain_share_percent"

record savings_attribution =
  sa_project_id :: uuid
  sa_recommendation_id :: uuid
  sa_lever :: string
  sa_measurement_method :: string
  sa_measured :: bool
  sa_period_start :: datetime
  sa_period_end :: datetime
  sa_gross_savings_usd :: decimal
  sa_varsten_fee_usd :: decimal
  sa_net_savings_usd :: decimal

record recommendation_action =
  ra_recommendation_id :: uuid
  ra_actor_user_id :: "uuid option"
  ra_lever :: "string option"
  ra_action_type :: rec_status
  ra_source :: string
  ra_estimated_savings_usd :: "decimal option"
  ra_realized_savings_usd :: "decimal option"
  ra_occurred_at :: datetime

record accounts =
  ac_attributions :: "savings_attribution list"
  ac_actions :: "recommendation_action list"
  ac_lever_configs :: "lever_config list"

definition attribution_of :: "uuid \<Rightarrow> uuid \<Rightarrow> datetime \<Rightarrow> datetime \<Rightarrow> savings_attribution \<Rightarrow> bool" where
  "attribution_of project rid start stop a \<longleftrightarrow>
     sa_project_id a = project \<and> sa_recommendation_id a = rid \<and> sa_period_start a = start \<and> sa_period_end a = stop"

definition lever_total :: "savings_attribution list \<Rightarrow> uuid \<Rightarrow> string \<Rightarrow> datetime \<Rightarrow> datetime \<Rightarrow> decimal" where
  "lever_total attributions project lever start stop =
     sum_list (map sa_gross_savings_usd (filter (\<lambda>a. sa_project_id a = project \<and> sa_lever a = lever \<and>
       sa_period_start a = start \<and> sa_period_end a = stop) attributions))"

definition refresh_lever_savings :: "uuid \<Rightarrow> string \<Rightarrow> datetime \<Rightarrow> datetime \<Rightarrow> accounts \<Rightarrow> accounts" where
  "refresh_lever_savings project lever start stop ac =
     ac\<lparr>ac_lever_configs :=
          map (\<lambda>c. if lc_project_id c = project \<and> lc_lever c = lever
                   then c\<lparr>lc_savings_to_date_usd := q_fee (lever_total (ac_attributions ac) project lever start stop)\<rparr> else c)
            (ac_lever_configs ac)\<rparr>"

definition applied_attribution ::
  "uuid \<Rightarrow> recommendation \<Rightarrow> string \<Rightarrow> decimal \<Rightarrow> decimal \<Rightarrow> datetime \<Rightarrow> datetime \<Rightarrow> string \<Rightarrow> savings_attribution" where
  "applied_attribution project rec lever gross fee start stop row_lever =
     (let method = (case or_str (rec_measurement_method rec) None of None \<Rightarrow> ''estimated'' | Some m \<Rightarrow> m)
      in \<lparr>sa_project_id = project, sa_recommendation_id = rec_id rec, sa_lever = row_lever,
          sa_measurement_method = method, sa_measured = is_measured (Some method), sa_period_start = start,
          sa_period_end = stop, sa_gross_savings_usd = gross, sa_varsten_fee_usd = fee,
          sa_net_savings_usd = gross - fee\<rparr>)"

text \<open>An existing row keeps its lever column; the other columns are refreshed.\<close>

definition record_applied_savings ::
  "uuid \<Rightarrow> organization \<Rightarrow> recommendation \<Rightarrow> uuid option \<Rightarrow> string \<Rightarrow> datetime \<Rightarrow> accounts
    \<Rightarrow> savings_attribution option \<times> accounts" where
  "record_applied_savings project org rec actor source now ac =
     (let start = month_start now; stop = month_end now; gross_raw = rec_estimated_monthly_savings_usd rec;
          action = \<lparr>ra_recommendation_id = rec_id rec, ra_actor_user_id = actor, ra_lever = rec_lever rec,
                    ra_action_type = Applied, ra_source = source, ra_estimated_savings_usd = gross_raw,
                    ra_realized_savings_usd = None, ra_occurred_at = now\<rparr>
      in case (rec_lever rec, gross_raw) of
           (Some lever, Some g) \<Rightarrow>
             if g \<le> 0 then (None, ac\<lparr>ac_actions := ac_actions ac @ [action]\<rparr>)
             else (let gross = q_fee g; fee = q_fee (gross * org_fee_percent org);
                       found = find (attribution_of project (rec_id rec) start stop) (ac_attributions ac);
                       row = applied_attribution project rec lever gross fee start stop
                               (case found of None \<Rightarrow> lever | Some a \<Rightarrow> sa_lever a);
                       attributions' =
                         (case found of
                            None \<Rightarrow> ac_attributions ac @ [row]
                          | Some _ \<Rightarrow> map (\<lambda>a. if attribution_of project (rec_id rec) start stop a then row else a)
                                       (ac_attributions ac));
                       ac' = ac\<lparr>ac_attributions := attributions',
                                ac_actions := ac_actions ac @ [action\<lparr>ra_realized_savings_usd := Some (gross - fee)\<rparr>]\<rparr>
                   in (Some row, refresh_lever_savings project lever start stop ac'))
         | _ \<Rightarrow> (None, ac\<lparr>ac_actions := ac_actions ac @ [action]\<rparr>))"

section \<open>The month's summary\<close>

record savings_summary =
  su_actual_spend_usd :: decimal
  su_counterfactual_spend_usd :: decimal
  su_gross_savings_usd :: decimal
  su_varsten_fee_usd :: decimal
  su_net_savings_usd :: decimal
  su_estimated_opportunity_usd :: decimal
  su_verified_savings_usd :: decimal
  su_verified_fee_usd :: decimal
  su_verified_net_usd :: decimal
  su_billable_savings_usd :: decimal

definition estimated_opportunity :: "recommendation list \<Rightarrow> uuid \<Rightarrow> decimal" where
  "estimated_opportunity recs project =
     coalesce_sum rec_estimated_monthly_savings_usd (\<lambda>r. rec_project_id r = project \<and> rec_status r = Open) recs"

definition compute_savings_summary ::
  "cs_fun \<Rightarrow> usage_event list \<Rightarrow> proxy_policy list \<Rightarrow> recommendation list \<Rightarrow> savings_attribution list \<Rightarrow> uuid \<Rightarrow> organization
    \<Rightarrow> datetime \<Rightarrow> savings_summary" where
  "compute_savings_summary dcs ledger policies recs attributions project org now =
     (let start = month_start now; stop = month_end now;
          actual_mtd = coalesce_sum ue_cost_usd (\<lambda>e. ue_project_id e = project \<and> start \<le> ue_received_at e) ledger;
          actual = q_fee (actual_mtd / of_nat (day_of_month now + 1) * of_nat (days_in_month (year_of now) (month_of now)));
          rows = filter (\<lambda>a. sa_project_id a = project \<and> sa_period_start a = start \<and> sa_period_end a = stop) attributions;
          gross = q_fee (sum_list (map sa_gross_savings_usd rows));
          fee = q_fee (sum_list (map sa_varsten_fee_usd rows));
          net = q_fee (sum_list (map sa_net_savings_usd rows));
          basis = verified_savings_usd (compute_verified_savings dcs ledger policies project start stop);
          billable = max basis 0;
          verified_fee = q_fee (billable * org_fee_percent org)
      in \<lparr>su_actual_spend_usd = actual, su_counterfactual_spend_usd = actual + gross, su_gross_savings_usd = gross,
          su_varsten_fee_usd = fee, su_net_savings_usd = net,
          su_estimated_opportunity_usd = q_fee (estimated_opportunity recs project),
          su_verified_savings_usd = basis, su_verified_fee_usd = verified_fee,
          su_verified_net_usd = basis - verified_fee, su_billable_savings_usd = billable\<rparr>)"

section \<open>Window savings\<close>

datatype savings_mode = Empty_Window | Spend_Only | Mode_Measured | Mode_Estimated

record window_savings =
  ws_mode :: savings_mode
  ws_verified :: verified_result
  ws_estimated_opportunity_usd :: decimal
  ws_fee_percent :: decimal
  ws_actual_spend_usd :: "decimal option"
  ws_gross_savings_usd :: "decimal option"
  ws_varsten_fee_usd :: "decimal option"
  ws_net_savings_usd :: "decimal option"
  ws_counterfactual_spend_usd :: "decimal option"
  ws_by_lever :: "(string \<times> decimal) list"

definition window_request_count :: "usage_event list \<Rightarrow> uuid \<Rightarrow> period_window \<Rightarrow> nat" where
  "window_request_count ledger project w = count_rows (in_period project (pw_start w) (pw_end w)) ledger"

definition window_actual_spend :: "usage_event list \<Rightarrow> uuid \<Rightarrow> period_window \<Rightarrow> decimal" where
  "window_actual_spend ledger project w = coalesce_sum ue_cost_usd (in_period project (pw_start w) (pw_end w)) ledger"

definition estimated_by_lever ::
  "savings_attribution list \<Rightarrow> uuid \<Rightarrow> period_window \<Rightarrow> (string \<times> decimal) list" where
  "estimated_by_lever attributions project w =
     (let rows = filter (\<lambda>a. sa_project_id a = project \<and> pw_start w \<le> sa_period_start a \<and> sa_period_start a < pw_end w) attributions;
          total = (\<lambda>l. sum_list (map sa_gross_savings_usd (filter (\<lambda>a. sa_lever a = l) rows)))
      in filter (\<lambda>(l, t). l \<noteq> [] \<and> t \<noteq> 0) (map (\<lambda>l. (l, total l)) (remdups (map sa_lever rows))))"

definition fee_on :: "decimal \<Rightarrow> decimal \<Rightarrow> decimal" where
  "fee_on gross percent = min (q_fee (gross * percent)) (q_fee gross)"

definition displayed_by_lever :: "(string \<times> decimal) list \<Rightarrow> (string \<times> decimal) list" where
  "displayed_by_lever by_lever =
     List.map_filter (\<lambda>k. map_option (\<lambda>v. (k, q_fee v)) (map_of by_lever k)) lever_display_order"

definition compute_savings_for_window ::
  "cs_fun \<Rightarrow> usage_event list \<Rightarrow> proxy_policy list \<Rightarrow> recommendation list \<Rightarrow> savings_attribution list \<Rightarrow> uuid \<Rightarrow> organization
    \<Rightarrow> period_window \<Rightarrow> decimal option \<Rightarrow> window_savings" where
  "compute_savings_for_window dcs ledger policies recs attributions project org w fee_percent =
     (let percent = (case fee_percent of None \<Rightarrow> org_fee_percent org | Some p \<Rightarrow> p);
          measured_by_lever = direct_measured_by_lever ledger policies project (pw_start w) (pw_end w) True;
          measured_gross = q_fee (sum_list (map snd measured_by_lever));
          base = \<lparr>ws_mode = Empty_Window,
                  ws_verified = compute_verified_savings dcs ledger policies project (pw_start w) (pw_end w),
                  ws_estimated_opportunity_usd = q_fee (estimated_opportunity recs project), ws_fee_percent = percent,
                  ws_actual_spend_usd = None, ws_gross_savings_usd = None, ws_varsten_fee_usd = None,
                  ws_net_savings_usd = None, ws_counterfactual_spend_usd = None, ws_by_lever = []\<rparr>;
          actual = q_fee (window_actual_spend ledger project w);
          report = (\<lambda>mode by_lever gross.
            (let fee = fee_on gross percent
             in base\<lparr>ws_mode := mode, ws_actual_spend_usd := Some actual, ws_gross_savings_usd := Some gross,
                     ws_varsten_fee_usd := Some fee, ws_net_savings_usd := Some (gross - fee),
                     ws_counterfactual_spend_usd := Some (actual + gross),
                     ws_by_lever := displayed_by_lever by_lever\<rparr>))
      in if window_request_count ledger project w = 0 then base
         else if 0 < measured_gross then report Mode_Measured measured_by_lever measured_gross
         else (let estimated = estimated_by_lever attributions project w;
                   estimated_gross = q_fee (sum_list (map snd estimated))
               in if 0 < estimated_gross then report Mode_Estimated estimated estimated_gross
                  else base\<lparr>ws_mode := Spend_Only, ws_actual_spend_usd := Some actual,
                            ws_counterfactual_spend_usd := Some actual\<rparr>))"

record kpi_delta =
  kd_current :: "decimal option"
  kd_previous :: "decimal option"
  kd_delta_pct :: "decimal option"

definition kpi_delta_of :: "decimal option \<Rightarrow> decimal option \<Rightarrow> kpi_delta" where
  "kpi_delta_of current previous =
     \<lparr>kd_current = current, kd_previous = previous,
      kd_delta_pct = (case (current, previous) of
        (Some c, Some p) \<Rightarrow> if p = 0 then None else Some (quantize_half_up 4 ((c - p) / p))
      | _ \<Rightarrow> None)\<rparr>"

definition compute_savings_with_deltas ::
  "cs_fun \<Rightarrow> usage_event list \<Rightarrow> proxy_policy list \<Rightarrow> recommendation list \<Rightarrow> savings_attribution list \<Rightarrow> uuid \<Rightarrow> organization
    \<Rightarrow> period_window \<Rightarrow> decimal option \<Rightarrow> window_savings \<times> (string \<times> kpi_delta) list" where
  "compute_savings_with_deltas dcs ledger policies recs attributions project org w fee_percent =
     (let current = compute_savings_for_window dcs ledger policies recs attributions project org w fee_percent;
          previous = compute_savings_for_window dcs ledger policies recs attributions project org (pw_prior w) fee_percent
      in (current,
          map (\<lambda>(name, field). (name, kpi_delta_of (field current) (field previous)))
            [(''net_saved'', ws_net_savings_usd), (''gross_saved'', ws_gross_savings_usd),
             (''without_varsten'', ws_counterfactual_spend_usd), (''actual_spend'', ws_actual_spend_usd)]))"

section \<open>Attribution\<close>

text \<open>The attribution table after a recommendation with positive savings has been applied.\<close>

definition attribution_row :: "uuid \<Rightarrow> organization \<Rightarrow> recommendation \<Rightarrow> datetime \<Rightarrow> savings_attribution list \<Rightarrow> savings_attribution" where
  "attribution_row project org rec now rows =
     applied_attribution project rec (the (rec_lever rec)) (q_fee (the (rec_estimated_monthly_savings_usd rec)))
       (q_fee (q_fee (the (rec_estimated_monthly_savings_usd rec)) * org_fee_percent org)) (month_start now) (month_end now)
       (case find (attribution_of project (rec_id rec) (month_start now) (month_end now)) rows of
          None \<Rightarrow> the (rec_lever rec) | Some a \<Rightarrow> sa_lever a)"

definition attribute :: "uuid \<Rightarrow> organization \<Rightarrow> recommendation \<Rightarrow> datetime \<Rightarrow> savings_attribution list \<Rightarrow> savings_attribution list" where
  "attribute project org rec now rows =
     (case find (attribution_of project (rec_id rec) (month_start now) (month_end now)) rows of
        None \<Rightarrow> rows @ [attribution_row project org rec now rows]
      | Some _ \<Rightarrow> map (\<lambda>a. if attribution_of project (rec_id rec) (month_start now) (month_end now) a
                         then attribution_row project org rec now rows else a) rows)"

lemma record_applied_attributions:
  assumes "rec_lever rec = Some l" "rec_estimated_monthly_savings_usd rec = Some g" "0 < g"
  shows "ac_attributions (snd (record_applied_savings project org rec actor source now ac)) =
    attribute project org rec now (ac_attributions ac)"
  using assms by (simp add: record_applied_savings_def Let_def refresh_lever_savings_def attribute_def
      attribution_row_def split: option.split)

lemma attribution_row_of [simp]:
  "attribution_of project (rec_id rec) (month_start now) (month_end now) (attribution_row project org rec now rows)"
  by (simp add: attribution_of_def attribution_row_def applied_attribution_def Let_def)

lemma find_attribute:
  "find (attribution_of project (rec_id rec) (month_start now) (month_end now)) (attribute project org rec now rows) =
     Some (attribution_row project org rec now rows)"
proof (cases "find (attribution_of project (rec_id rec) (month_start now) (month_end now)) rows")
  case None
  then show ?thesis unfolding attribute_def by (simp add: find_append_None)
next
  case (Some a)
  have "find P (map (\<lambda>a. if P a then x else a) rows') = Some x"
    if "find P rows' = Some b" "P x" for P :: "savings_attribution \<Rightarrow> bool" and rows' x b
    using that by (induction rows') (auto split: if_splits)
  from this [OF Some attribution_row_of] Some show ?thesis unfolding attribute_def by simp
qed

lemma attribution_row_again:
  "attribution_row project org rec now (attribute project org rec now rows) = attribution_row project org rec now rows"
  unfolding attribution_row_def [of project org rec now "attribute project org rec now rows"] find_attribute
  by (simp add: attribution_row_def applied_attribution_def Let_def)

lemma attribute_again: "attribute project org rec now (attribute project org rec now rows) = attribute project org rec now rows"
proof -
  let ?P = "attribution_of project (rec_id rec) (month_start now) (month_end now)" and ?x = "attribution_row project org rec now rows"
  have "attribute project org rec now (attribute project org rec now rows) =
      map (\<lambda>a. if ?P a then ?x else a) (attribute project org rec now rows)"
    unfolding attribute_def [of project org rec now "attribute project org rec now rows"] find_attribute
    by (simp add: attribution_row_again)
  also have "\<dots> = attribute project org rec now rows"
  proof (rule map_idI)
    fix a assume a: "a \<in> set (attribute project org rec now rows)"
    show "(if ?P a then ?x else a) = a"
      using a by (auto simp: attribute_def find_None_iff split: option.splits if_splits)
  qed
  finally show ?thesis .
qed

section \<open>Properties\<close>

text \<open>
  Re-applying does not count twice: applying the same recommendation again at the same time (a
  retry, a second click) leaves the attribution table exactly as the first application left it, so the
  lever total and the month's gross are unchanged.
\<close>

theorem reapplying_attributes_once:
  assumes "rec_lever rec = Some l" "rec_estimated_monthly_savings_usd rec = Some g" "0 < g"
    and "record_applied_savings project org rec actor source now ac = (a, ac')"
  shows "ac_attributions (snd (record_applied_savings project org rec actor' source' now ac')) = ac_attributions ac'"
proof -
  have ac': "ac_attributions ac' = attribute project org rec now (ac_attributions ac)"
    using record_applied_attributions [OF assms(1,2,3), of project org actor source now ac] assms(4) by simp
  show ?thesis
    unfolding record_applied_attributions [OF assms(1,2,3)] ac' by (rule attribute_again)
qed

definition no_accounts :: accounts where
  "no_accounts = \<lparr>ac_attributions = [], ac_actions = [], ac_lever_configs = []\<rparr>"

theorem reapplying_attributes_once_witness:
  "let r = sample_rec\<lparr>rec_estimated_monthly_savings_usd := Some 40\<rparr>;
       ac' = snd (record_applied_savings ''p'' (new_organization ''o'' 0) r None ''user'' 0 no_accounts)
   in length (ac_attributions ac') = 1 \<and>
      ac_attributions (snd (record_applied_savings ''p'' (new_organization ''o'' 0) r None ''system'' 0 ac')) = ac_attributions ac'"
proof -
  let ?r = "sample_rec\<lparr>rec_estimated_monthly_savings_usd := Some 40\<rparr>"
  have r: "rec_lever ?r = Some lever_smart_routing" "rec_estimated_monthly_savings_usd ?r = Some 40"
    by (simp_all add: sample_rec_def)
  have "length (ac_attributions (snd (record_applied_savings ''p'' (new_organization ''o'' 0) ?r None ''user'' 0 no_accounts))) = 1"
    using record_applied_attributions [OF r] by (simp add: attribute_def no_accounts_def)
  moreover have "0 < (40 :: rat)" by simp
  note reapplying_attributes_once [OF r this prod.collapse [symmetric], of "''p''" "new_organization ''o'' 0" None "''system''" 0
      None "''user''" no_accounts]
  ultimately show ?thesis by (simp add: Let_def)
qed

text \<open>
  The dashboard's window figures reconcile: whenever gross savings are shown they are positive and
  come with fee, net and counterfactual such that net is gross minus fee, the counterfactual is actual
  plus gross, and the fee is at most the gross; otherwise none of the savings figures is shown, and a
  window without traffic shows no figure at all.
\<close>

theorem window_savings_reconcile:
  "let ws = compute_savings_for_window dcs ledger policies recs attributions project org w percent
   in (case ws_gross_savings_usd ws of
         Some g \<Rightarrow>
           (\<exists>a f. 0 < g \<and> f \<le> g \<and> ws_actual_spend_usd ws = Some a \<and> ws_varsten_fee_usd ws = Some f \<and>
              ws_net_savings_usd ws = Some (g - f) \<and> ws_counterfactual_spend_usd ws = Some (a + g) \<and>
              ws_mode ws \<in> {Mode_Measured, Mode_Estimated})
       | None \<Rightarrow>
           ws_varsten_fee_usd ws = None \<and> ws_net_savings_usd ws = None \<and> ws_by_lever ws = [] \<and>
           ws_mode ws = (if window_request_count ledger project w = 0 then Empty_Window else Spend_Only) \<and>
           (ws_actual_spend_usd ws = None \<longleftrightarrow> window_request_count ledger project w = 0))"
proof -
  have "fee_on (q_fee x) p \<le> q_fee x" for x p by (simp add: fee_on_def q_fee_id)
  then show ?thesis by (simp add: compute_savings_for_window_def Let_def)
qed

text \<open>
  The lever rows need not add up to the gross total: each row is rounded to cents on its own. With
  half a cent saved by the cache and half a cent by batching, the gross is 0.01 USD and the two rows
  show 0.01 USD each.
\<close>

theorem lever_rows_do_not_sum_to_gross:
  "let hit = sample_hit\<lparr>ue_saved_usd := Some (1 / 200)\<rparr>;
       batch = blank_event\<lparr>ue_metadata := [(''batch'', JBool True)], ue_saved_usd := Some (1 / 200)\<rparr>;
       w = \<lparr>pw_period = Month, pw_start = 0, pw_end = 10, pw_prev_start = 0, pw_prev_end = 0, pw_granularity = Day\<rparr>;
       ws = compute_savings_for_window (\<lambda>_ _ _ _ _ _. None) [hit, batch] [] [] [] ''project'' (new_organization ''o'' 0) w None
   in ws_gross_savings_usd ws = Some (1 / 100) \<and> sum_list (map snd (ws_by_lever ws)) = 2 / 100"
proof -
  let ?hit = "sample_hit\<lparr>ue_saved_usd := Some (1 / 200)\<rparr>"
  let ?batch = "blank_event\<lparr>ue_metadata := [(''batch'', JBool True)], ue_saved_usd := Some (1 / 200)\<rparr>"
  let ?w = "\<lparr>pw_period = Month, pw_start = 0, pw_end = 10, pw_prev_start = 0, pw_prev_end = 0, pw_granularity = Day\<rparr>"
  have q: "q_fee (1 / 100) = 1 / 100" "q_fee (1 / 200) = 1 / 100" by code_simp+
  have direct: "direct_measured_by_lever [?hit, ?batch] [] ''project'' 0 10 True =
      [(lever_semantic_cache, 1 / 200), (lever_batching, 1 / 200)]"
    by (simp add: direct_measured_by_lever_def sum_saved_Cons sum_saved_def [of "[]"] in_period_def tag_defs
        sample_rows Let_def)
  have count: "window_request_count [?hit, ?batch] ''project'' ?w = 2"
    by (simp add: window_request_count_def count_rows_def in_period_def sample_rows)
  have shown: "displayed_by_lever [(lever_semantic_cache, 1 / 200), (lever_batching, 1 / 200)] =
      [(lever_semantic_cache, 1 / 100), (lever_batching, 1 / 100)]"
    by (simp add: displayed_by_lever_def lever_display_order_def List.map_filter_simps lever_names q)
  show ?thesis
    unfolding Let_def [of ?hit] Let_def [of ?batch] Let_def [of ?w]
    by (simp add: compute_savings_for_window_def Let_def direct count shown q)
qed

end
