(* ===== verification/Execution.thy ===== *)
theory Execution
  imports Policies Savings Entitlements
begin

text \<open>
  The control plane: activating and deactivating execution policies (\<open>activate_rule\<close> and its siblings in
  \<open>proxy/routing.py\<close>, \<open>proxy/trim.py\<close> and \<open>proxy/compression.py\<close>), their dispatch in
  \<open>proxy/execution.py\<close>, the bandit candidate set of \<open>proxy/routing.py\<close>, and the recommendation state
  machine of \<open>recommendation_transitions.py\<close>. A failing transition raises before it commits: the error
  result carries no new state.
\<close>

record exec_state =
  ex_policies :: "proxy_policy list"
  ex_routing_cache :: policy_cache
  ex_trim_cache :: policy_cache
  ex_compression_cache :: policy_cache
  ex_artifact_cache :: "uuid \<rightharpoonup> string \<times> string"

definition policy_slot :: "uuid \<Rightarrow> string \<Rightarrow> string \<Rightarrow> string \<Rightarrow> proxy_policy \<Rightarrow> bool" where
  "policy_slot project lever model route_key p \<longleftrightarrow>
     pp_project_id p = project \<and> pp_lever p = lever \<and> pp_target_key p = model \<and> pp_route_key p = route_key"

text \<open>
  The shared body of the three activations: the policy of the slot (project, lever, model, route) is
  refreshed, or created with the column defaults; a new or re-enabled policy starts a fresh canary
  ramp. \<open>new_id\<close> is the key of a new row. The project handed to an activation is the recommendation's
  own, as the transitions check before they activate.
\<close>

definition refreshed_policy ::
  "settings \<Rightarrow> datetime \<Rightarrow> recommendation \<Rightarrow> ((string \<times> json) list \<Rightarrow> (string \<times> json) list) \<Rightarrow> bool \<Rightarrow> proxy_policy \<Rightarrow> proxy_policy" where
  "refreshed_policy st now rec params fresh p =
     p\<lparr>pp_params := params (pp_params p),
       pp_rollout_percent := (if fresh then initial_rollout_percent st else pp_rollout_percent p),
       pp_enabled := True, pp_source_recommendation_id := Some (rec_id rec), pp_activated_at := Some now\<rparr>"

definition new_policy :: "uuid \<Rightarrow> uuid \<Rightarrow> uuid \<Rightarrow> string \<Rightarrow> string \<Rightarrow> string \<Rightarrow> proxy_policy" where
  "new_policy new_id org project lever model route_key =
     \<lparr>pp_id = new_id, pp_organization_id = org, pp_project_id = project, pp_lever = lever, pp_target_type = ''model'',
      pp_target_key = model, pp_route_key = route_key, pp_enabled = True, pp_holdback_percent = 5 / 100,
      pp_rollout_percent = 100, pp_params = [], pp_source_recommendation_id = None, pp_activated_at = None\<rparr>"

definition upsert_policy ::
  "settings \<Rightarrow> uuid \<Rightarrow> datetime \<Rightarrow> recommendation \<Rightarrow> string \<Rightarrow> string \<Rightarrow> string
    \<Rightarrow> ((string \<times> json) list \<Rightarrow> (string \<times> json) list) \<Rightarrow> proxy_policy list \<Rightarrow> proxy_policy list" where
  "upsert_policy st new_id now rec lever model route_key params policies =
     (let slot = policy_slot (rec_project_id rec) lever model route_key
      in case find slot policies of
           None \<Rightarrow> policies @ [refreshed_policy st now rec params True
                     (new_policy new_id (rec_organization_id rec) (rec_project_id rec) lever model route_key)]
         | Some p \<Rightarrow> map (\<lambda>q. if slot q then refreshed_policy st now rec params (\<not> pp_enabled p) q else q) policies)"

definition rec_route_key :: "recommendation \<Rightarrow> string" where
  "rec_route_key rec = route_key_from_recommendation (rec_target_type rec) (rec_target_key rec) (rec_related_feature rec)"

definition routing_params :: "string \<Rightarrow> string \<Rightarrow> (string \<times> json) list \<Rightarrow> (string \<times> json) list" where
  "routing_params lever candidate ps =
     (let ps' = dict_put ps ''candidate_model'' (JStr candidate)
      in if lever = lever_smart_routing \<and> map_of ps' ''predicate'' = None
         then dict_put ps' ''predicate'' (JObj default_predicate) else ps')"

definition activate_rule ::
  "settings \<Rightarrow> uuid \<Rightarrow> datetime \<Rightarrow> recommendation \<Rightarrow> string option \<Rightarrow> exec_state \<Rightarrow> exec_state" where
  "activate_rule st new_id now rec candidate s =
     (let lever = (case rec_lever rec of
                     Some l \<Rightarrow> if l \<in> set routing_levers then l else lever_model_downshift
                   | None \<Rightarrow> lever_model_downshift)
      in case (or_str (rec_related_model rec) None, or_str candidate None) of
           (Some incumbent, Some cand) \<Rightarrow>
             if incumbent = cand then s
             else s\<lparr>ex_policies := upsert_policy st new_id now rec lever incumbent (rec_route_key rec)
                                     (routing_params lever cand) (ex_policies s),
                    ex_routing_cache := clear_policy_cache (Some (rec_project_id rec)) (ex_routing_cache s)\<rparr>
         | _ \<Rightarrow> s)"

definition activate_trim_policy :: "settings \<Rightarrow> uuid \<Rightarrow> datetime \<Rightarrow> recommendation \<Rightarrow> exec_state \<Rightarrow> exec_state" where
  "activate_trim_policy st new_id now rec s =
     (case or_str (rec_related_model rec) None of
        None \<Rightarrow> s
      | Some model \<Rightarrow>
          s\<lparr>ex_policies := upsert_policy st new_id now rec lever_token_trim model (rec_route_key rec) id (ex_policies s),
            ex_trim_cache := clear_policy_cache (Some (rec_project_id rec)) (ex_trim_cache s)\<rparr>)"

text \<open>An artifact row: its id, the recommendation it belongs to, its creation time.\<close>

record prompt_compression =
  pcm_id :: uuid
  pcm_recommendation_id :: "uuid option"
  pcm_created_at :: datetime

definition artifact_for_recommendation :: "prompt_compression list \<Rightarrow> uuid \<Rightarrow> prompt_compression option" where
  "artifact_for_recommendation artifacts rid =
     latest_by pcm_created_at (filter (\<lambda>a. pcm_recommendation_id a = Some rid) artifacts)"

definition trim_live :: "proxy_policy list \<Rightarrow> uuid \<Rightarrow> string \<Rightarrow> string \<Rightarrow> bool" where
  "trim_live policies project model route_key \<longleftrightarrow>
     (\<exists>p \<in> set policies. pp_project_id p = project \<and> pp_lever p = lever_token_trim \<and> pp_target_key p = model \<and>
        pp_enabled p \<and> (route_key = default_route \<or> pp_route_key p = route_key \<or> pp_route_key p = default_route))"

text \<open>\<open>Inl ()\<close> is \<open>TransformConflictError\<close>.\<close>

definition activate_compression_policy ::
  "settings \<Rightarrow> prompt_compression list \<Rightarrow> uuid \<Rightarrow> datetime \<Rightarrow> recommendation \<Rightarrow> exec_state \<Rightarrow> unit + exec_state" where
  "activate_compression_policy st artifacts new_id now rec s =
     (case or_str (rec_related_model rec) (rec_target_key rec) of
        None \<Rightarrow> Inr s
      | Some model \<Rightarrow>
          if model = [] then Inr s
          else (case artifact_for_recommendation artifacts (rec_id rec) of
            None \<Rightarrow> Inr s
          | Some a \<Rightarrow>
              if trim_live (ex_policies s) (rec_project_id rec) model (rec_route_key rec) then Inl ()
              else Inr (s\<lparr>ex_policies := upsert_policy st new_id now rec lever_prompt_compression model (rec_route_key rec)
                                          (\<lambda>ps. dict_put ps ''artifact_id'' (JStr (pcm_id a))) (ex_policies s),
                          ex_artifact_cache := Map.empty,
                          ex_compression_cache := clear_policy_cache (Some (rec_project_id rec)) (ex_compression_cache s)\<rparr>)))"

text \<open>\<open>UPDATE proxy_policies SET enabled = false WHERE source_recommendation_id = ...\<close>, for all or one lever.\<close>

definition disable_sourced :: "(string \<Rightarrow> bool) \<Rightarrow> uuid \<Rightarrow> proxy_policy list \<Rightarrow> proxy_policy list" where
  "disable_sourced levers rid policies =
     map (\<lambda>p. if pp_source_recommendation_id p = Some rid \<and> levers (pp_lever p) then p\<lparr>pp_enabled := False\<rparr> else p) policies"

definition deactivate_rules_for_recommendation :: "recommendation \<Rightarrow> exec_state \<Rightarrow> exec_state" where
  "deactivate_rules_for_recommendation rec s =
     s\<lparr>ex_policies := disable_sourced (\<lambda>_. True) (rec_id rec) (ex_policies s),
       ex_routing_cache := clear_policy_cache (Some (rec_project_id rec)) (ex_routing_cache s)\<rparr>"

definition deactivate_trim_for_recommendation :: "recommendation \<Rightarrow> exec_state \<Rightarrow> exec_state" where
  "deactivate_trim_for_recommendation rec s =
     s\<lparr>ex_policies := disable_sourced (\<lambda>l. l = lever_token_trim) (rec_id rec) (ex_policies s),
       ex_trim_cache := clear_policy_cache (Some (rec_project_id rec)) (ex_trim_cache s)\<rparr>"

definition deactivate_compression_for_recommendation :: "recommendation \<Rightarrow> exec_state \<Rightarrow> exec_state" where
  "deactivate_compression_for_recommendation rec s =
     s\<lparr>ex_policies := disable_sourced (\<lambda>l. l = lever_prompt_compression) (rec_id rec) (ex_policies s),
       ex_artifact_cache := Map.empty,
       ex_compression_cache := clear_policy_cache (Some (rec_project_id rec)) (ex_compression_cache s)\<rparr>"

definition activate_execution ::
  "settings \<Rightarrow> prompt_compression list \<Rightarrow> uuid \<Rightarrow> datetime \<Rightarrow> recommendation \<Rightarrow> eval_run option \<Rightarrow> exec_state \<Rightarrow> unit + exec_state" where
  "activate_execution st artifacts new_id now rec gating_run s =
     (case rec_lever rec of
        None \<Rightarrow> Inr s
      | Some lever \<Rightarrow>
          if lever \<in> set routing_levers
          then (case gating_run of
                  None \<Rightarrow> Inr s
                | Some run \<Rightarrow> Inr (activate_rule st new_id now rec (er_candidate_model run) s))
          else if lever = lever_token_trim then Inr (activate_trim_policy st new_id now rec s)
          else if lever = lever_prompt_compression then activate_compression_policy st artifacts new_id now rec s
          else Inr s)"

definition deactivate_execution :: "recommendation \<Rightarrow> exec_state \<Rightarrow> exec_state" where
  "deactivate_execution rec s =
     deactivate_compression_for_recommendation rec
       (deactivate_trim_for_recommendation rec (deactivate_rules_for_recommendation rec s))"

section \<open>Recommendation transitions\<close>

record plane =
  pl_exec :: exec_state
  pl_crs :: "change_request list"
  pl_accounts :: accounts

record plane_env =
  pe_settings :: settings
  pe_project :: project
  pe_org :: organization
  pe_org_row :: "organization option"
  pe_entitlement :: entitlement
  pe_runs :: "eval_run list"
  pe_artifacts :: "prompt_compression list"
  pe_new_id :: uuid

text \<open>
  \<open>_apply_recommendation\<close>: plan gate, lever switch, evaluation gate, governance gate, measured savings,
  activation, change-request bookkeeping, in this order. The first failing gate is the answer.
\<close>

definition apply_recommendation_core ::
  "plane_env \<Rightarrow> recommendation \<Rightarrow> datetime \<Rightarrow> bool \<Rightarrow> plane \<Rightarrow> http_error + recommendation \<times> plane" where
  "apply_recommendation_core env rec now automated pl =
     (case require_performance (pe_entitlement env) ''Applying a recommendation'' of
        Inl e \<Rightarrow> Inl e
      | Inr _ \<Rightarrow>
          if (case rec_lever rec of None \<Rightarrow> False | Some l \<Rightarrow> l \<noteq> [] \<and>
                \<not> lever_enabled (ac_lever_configs (pl_accounts pl)) (pj_id (pe_project env)) (Some l))
          then Inl (Http_Error 409 ''turned off for this project'')
          else (case assert_appliable (pe_runs env) rec automated of
            Inl _ \<Rightarrow> Inl (Http_Error 409 ''evaluation gate'')
          | Inr gating_run \<Rightarrow>
              (case assert_change_request_approved (pe_settings env) (pe_org_row env) (pl_crs pl) rec of
                 Inl _ \<Rightarrow> Inl (Http_Error 409 ''governance'')
               | Inr _ \<Rightarrow>
                   (let rec' = apply_measured_savings rec gating_run
                    in case activate_execution (pe_settings env) (pe_artifacts env) (pe_new_id env) now rec' gating_run (pl_exec pl) of
                         Inl _ \<Rightarrow> Inl (Http_Error 409 ''transform conflict'')
                       | Inr exec \<Rightarrow>
                           Inr (rec', pl\<lparr>pl_exec := exec, pl_crs := mark_change_request_active rec' now (pl_crs pl)\<rparr>)))))"

definition transition_recommendation ::
  "plane_env \<Rightarrow> recommendation \<Rightarrow> uuid \<Rightarrow> rec_status \<Rightarrow> datetime \<Rightarrow> plane \<Rightarrow> http_error + recommendation \<times> plane" where
  "transition_recommendation env rec actor next_status now pl =
     (if rec_project_id rec \<noteq> pj_id (pe_project env) \<or> rec_organization_id rec \<noteq> pj_organization_id (pe_project env)
      then Inl (Http_Error 404 ''recommendation not found'')
      else (case (if next_status = Applied then apply_recommendation_core env rec now False pl
                  else if next_status \<in> {Dismissed, Rolled_Back}
                  then Inr (rec, pl\<lparr>pl_exec := deactivate_execution rec (pl_exec pl),
                                    pl_crs := mark_change_request_rolled_back rec now (pl_crs pl)\<rparr>)
                  else Inr (rec, pl)) of
        Inl e \<Rightarrow> Inl e
      | Inr (rec1, pl1) \<Rightarrow>
          (let rec2 = rec1\<lparr>rec_status := next_status, rec_updated_at := now,
                           rec_resolved_at := (if next_status \<noteq> Open then Some now else None)\<rparr>;
               ac = pl_accounts pl1;
               ac' = (if next_status = Applied
                      then snd (record_applied_savings (pj_id (pe_project env)) (pe_org env) rec2 (Some actor) ''user'' now ac)
                      else if next_status \<noteq> Open
                      then ac\<lparr>ac_actions := ac_actions ac @ [\<lparr>ra_recommendation_id = rec_id rec2, ra_actor_user_id = Some actor,
                             ra_lever = rec_lever rec2, ra_action_type = next_status, ra_source = ''user'',
                             ra_estimated_savings_usd = rec_estimated_monthly_savings_usd rec2,
                             ra_realized_savings_usd = None, ra_occurred_at = now\<rparr>]\<rparr>
                      else ac)
           in Inr (rec2, pl1\<lparr>pl_accounts := ac'\<rparr>))))"

text \<open>\<open>Inl None\<close> is the \<open>ValueError\<close> of a recommendation of another project.\<close>

definition apply_recommendation_automated ::
  "plane_env \<Rightarrow> recommendation \<Rightarrow> datetime \<Rightarrow> plane \<Rightarrow> http_error option + recommendation \<times> plane" where
  "apply_recommendation_automated env rec now pl =
     (if rec_project_id rec \<noteq> pj_id (pe_project env) \<or> rec_organization_id rec \<noteq> pj_organization_id (pe_project env)
      then Inl None
      else if rec_status rec \<noteq> Open then Inr (rec, pl)
      else (case apply_recommendation_core env rec now True pl of
              Inl e \<Rightarrow> Inl (Some e)
            | Inr (rec1, pl1) \<Rightarrow>
                (let rec2 = rec1\<lparr>rec_status := Applied, rec_updated_at := now, rec_resolved_at := Some now\<rparr>
                 in Inr (rec2, pl1\<lparr>pl_accounts :=
                      snd (record_applied_savings (pj_id (pe_project env)) (pe_org env) rec2 None ''system'' now (pl_accounts pl1))\<rparr>))))"

section \<open>Bandit candidates\<close>

datatype bandit_error = Wrong_Lever | Bad_Candidate | Already_Primary | Already_Member | No_Eval | Needs_Approval | Eval_Failed

definition latest_completed_run :: "eval_run list \<Rightarrow> uuid \<Rightarrow> string \<Rightarrow> string \<Rightarrow> eval_run option" where
  "latest_completed_run runs project incumbent candidate =
     latest_created (filter (\<lambda>r. er_project_id r = project \<and> er_incumbent_model r = Some incumbent \<and>
       er_candidate_model r = Some candidate \<and> er_status r = Run_Completed) runs)"

definition assert_candidate_cleared ::
  "eval_run list \<Rightarrow> change_request list \<Rightarrow> proxy_policy \<Rightarrow> string \<Rightarrow> bandit_error + eval_run" where
  "assert_candidate_cleared runs crs policy candidate =
     (case latest_completed_run runs (pp_project_id policy) (incumbent_model policy) candidate of
        None \<Rightarrow> Inl No_Eval
      | Some run \<Rightarrow>
          if er_verdict run = Some Safe then Inr run
          else if er_verdict run = Some Needs_Human
          then (if er_recommendation_id run \<noteq> None \<and>
                   (\<exists>c \<in> set crs. Some (cr_recommendation_id c) = er_recommendation_id run \<and>
                      cr_status c \<in> {CR_Approved, CR_Active})
                then Inr run else Inl Needs_Approval)
          else Inl Eval_Failed)"

definition raw_entries :: "proxy_policy \<Rightarrow> json list" where
  "raw_entries p =
     (case dict_get (pp_params p) ''bandit_candidates'' of
        JList es \<Rightarrow> filter (\<lambda>e. bandit_entry e \<noteq> None) es | _ \<Rightarrow> [])"

definition add_bandit_candidate ::
  "eval_run list \<Rightarrow> change_request list \<Rightarrow> proxy_policy \<Rightarrow> string \<Rightarrow> string option \<Rightarrow> bandit_error + proxy_policy" where
  "add_bandit_candidate runs crs policy candidate provider =
     (if pp_lever policy \<notin> set routing_levers then Inl Wrong_Lever
      else if candidate = [] \<or> candidate = incumbent_model policy then Inl Bad_Candidate
      else if Some candidate = candidate_model policy then Inl Already_Primary
      else if candidate \<in> set (map fst (bandit_candidate_entries policy)) then Inl Already_Member
      else (case assert_candidate_cleared runs crs policy candidate of
              Inl e \<Rightarrow> Inl e
            | Inr run \<Rightarrow>
                Inr (policy\<lparr>pp_params := dict_put (pp_params policy) ''bandit_candidates''
                  (JList (raw_entries policy @
                     [JObj [(''model'', JStr candidate),
                            (''provider'', JStr (case or_str provider None of None \<Rightarrow> ''openai'' | Some p \<Rightarrow> p)),
                            (''eval_run_id'', JStr (er_id run))]]))\<rparr>)))"

definition remove_bandit_candidate :: "proxy_policy \<Rightarrow> string \<Rightarrow> bool \<times> proxy_policy" where
  "remove_bandit_candidate policy candidate =
     (let remaining = filter (\<lambda>e. map_option fst (bandit_entry e) \<noteq> Some candidate) (raw_entries policy)
      in if length remaining = length (raw_entries policy) then (False, policy)
         else (True, policy\<lparr>pp_params := dict_put (pp_params policy) ''bandit_candidates'' (JList remaining)\<rparr>))"

section \<open>Rolling back\<close>

lemma disable_sourced_disables:
  "p \<in> set (disable_sourced levers rid ps) \<Longrightarrow> pp_source_recommendation_id p = Some rid \<Longrightarrow> levers (pp_lever p) \<Longrightarrow>
     \<not> pp_enabled p"
  by (auto simp: disable_sourced_def split: if_splits)

lemma disable_sourced_keeps_disabled:
  assumes "\<forall>p \<in> set ps. pp_source_recommendation_id p = Some rid \<longrightarrow> \<not> pp_enabled p"
  shows "\<forall>p \<in> set (disable_sourced levers rid' ps). pp_source_recommendation_id p = Some rid \<longrightarrow> \<not> pp_enabled p"
  using assms by (auto simp: disable_sourced_def)

lemma deactivate_execution_disables:
  "\<forall>p \<in> set (ex_policies (deactivate_execution rec s)). pp_source_recommendation_id p = Some (rec_id rec) \<longrightarrow> \<not> pp_enabled p"
proof -
  have off: "\<forall>p \<in> set (disable_sourced (\<lambda>_. True) (rec_id rec) (ex_policies s)).
      pp_source_recommendation_id p = Some (rec_id rec) \<longrightarrow> \<not> pp_enabled p"
    by (auto dest: disable_sourced_disables)
  show ?thesis
    using disable_sourced_keeps_disabled [OF disable_sourced_keeps_disabled [OF off]]
    by (simp add: deactivate_execution_def deactivate_compression_for_recommendation_def
        deactivate_trim_for_recommendation_def deactivate_rules_for_recommendation_def)
qed

lemma deactivate_execution_caches [simp]:
  "ex_routing_cache (deactivate_execution rec s) (rec_project_id rec, model, rk) = None"
  "ex_trim_cache (deactivate_execution rec s) (rec_project_id rec, model, rk) = None"
  "ex_compression_cache (deactivate_execution rec s) (rec_project_id rec, model, rk) = None"
  by (simp_all add: deactivate_execution_def deactivate_compression_for_recommendation_def
      deactivate_trim_for_recommendation_def deactivate_rules_for_recommendation_def)

text \<open>No resolver serves a policy of the recommendation after its deactivation.\<close>

definition serves_recommendation ::
  "settings \<Rightarrow> lever_config list \<Rightarrow> candidate_stats list option \<Rightarrow> rat \<Rightarrow> bandit_draws \<Rightarrow> uuid \<Rightarrow> string
    \<Rightarrow> (string \<times> json) list \<Rightarrow> string \<Rightarrow> string option \<Rightarrow> uuid \<Rightarrow> exec_state \<Rightarrow> bool" where
  "serves_recommendation st configs stats cd draws project model body prov rk rid s \<longleftrightarrow>
     (\<exists>d. fst (resolve_route st True configs (ex_policies s) stats cd draws project model body prov rk (ex_routing_cache s)) = Some d \<and>
          rd_source_recommendation_id d = Some rid) \<or>
     (\<exists>d. fst (resolve_trim st True configs (ex_policies s) cd project model rk (ex_trim_cache s)) = Some d \<and>
          td_source_recommendation_id d = Some rid) \<or>
     (\<exists>d. fst (resolve_compression st True configs (ex_policies s) cd project model rk (ex_compression_cache s)) = Some d \<and>
          cd_source_recommendation_id d = Some rid)"

lemma deactivated_not_served:
  "\<not> serves_recommendation st configs stats cd draws (rec_project_id rec) model body prov rk (rec_id rec) (deactivate_execution rec s)"
proof -
  let ?s = "deactivate_execution rec s"
  note off = deactivate_execution_disables [of rec s]
  have "rd_source_recommendation_id d \<noteq> Some (rec_id rec)"
    if r: "fst (resolve_route st True configs (ex_policies ?s) stats cd draws (rec_project_id rec) model body prov rk (ex_routing_cache ?s)) = Some d" for d
  proof -
    obtain c where "resolve_route st True configs (ex_policies ?s) stats cd draws (rec_project_id rec) model body prov rk (ex_routing_cache ?s) = (Some d, c)"
      using r by (metis prod.collapse)
    then show ?thesis
      by (rule resolve_route_source) (use off routing_source.disabled_source_not_served lookup_policy_uncached in \<open>metis deactivate_execution_caches(1)\<close>)
  qed
  moreover have "td_source_recommendation_id d \<noteq> Some (rec_id rec)"
    if r: "fst (resolve_trim st True configs (ex_policies ?s) cd (rec_project_id rec) model rk (ex_trim_cache ?s)) = Some d" for d
  proof -
    obtain c where "resolve_trim st True configs (ex_policies ?s) cd (rec_project_id rec) model rk (ex_trim_cache ?s) = (Some d, c)"
      using r by (metis prod.collapse)
    then show ?thesis
      by (rule resolve_trim_source) (use off trim_source.disabled_source_not_served lookup_policy_uncached in \<open>metis deactivate_execution_caches(2)\<close>)
  qed
  moreover have "cd_source_recommendation_id d \<noteq> Some (rec_id rec)"
    if r: "fst (resolve_compression st True configs (ex_policies ?s) cd (rec_project_id rec) model rk (ex_compression_cache ?s)) = Some d" for d
  proof -
    obtain c where "resolve_compression st True configs (ex_policies ?s) cd (rec_project_id rec) model rk (ex_compression_cache ?s) = (Some d, c)"
      using r by (metis prod.collapse)
    then show ?thesis
      by (rule resolve_compression_source) (use off compression_source.disabled_source_not_served lookup_policy_uncached in \<open>metis deactivate_execution_caches(3)\<close>)
  qed
  ultimately show ?thesis unfolding serves_recommendation_def by blast
qed

section \<open>Applying\<close>

lemma apply_core_Inr:
  assumes "apply_recommendation_core env rec now automated pl = Inr (rec', pl')"
  obtains g exec where "is_performance_state (pe_entitlement env)"
    "case rec_lever rec of None \<Rightarrow> True | Some l \<Rightarrow> l = [] \<or> lever_enabled (ac_lever_configs (pl_accounts pl)) (pj_id (pe_project env)) (Some l)"
    "assert_appliable (pe_runs env) rec automated = Inr g"
    "assert_change_request_approved (pe_settings env) (pe_org_row env) (pl_crs pl) rec = Inr ()"
    "rec' = apply_measured_savings rec g"
    "activate_execution (pe_settings env) (pe_artifacts env) (pe_new_id env) now rec' g (pl_exec pl) = Inr exec"
    "pl' = pl\<lparr>pl_exec := exec, pl_crs := mark_change_request_active rec' now (pl_crs pl)\<rparr>"
  using assms
  by (auto simp: apply_recommendation_core_def require_performance_def Let_def split: sum.splits if_splits option.splits)

lemma change_request_approved_Inr:
  assumes "assert_change_request_approved st org crs rec = Inr ()"
    and "rec_lever rec = Some l" "l \<in> set governed_levers" "governance_enforced_for st org"
  obtains c where "change_request_for_recommendation crs (rec_id rec) = Some c" "cr_status c = CR_Approved"
  using assms by (auto simp: assert_change_request_approved_def split: option.splits if_splits)

text \<open>
  The gates an application has to pass, for a human and for automation: the plan, the project's lever
  switch, the shadow evaluation and, where governance is enforced, an approved change request.
\<close>

definition cleared :: "plane_env \<Rightarrow> recommendation \<Rightarrow> bool \<Rightarrow> plane \<Rightarrow> bool" where
  "cleared env rec automated pl \<longleftrightarrow>
     is_performance_state (pe_entitlement env) \<and>
     (\<forall>l. rec_lever rec = Some l \<longrightarrow>
        (l \<noteq> [] \<longrightarrow> lever_enabled (ac_lever_configs (pl_accounts pl)) (pj_id (pe_project env)) (Some l)) \<and>
        (l \<in> set gated_levers \<longrightarrow>
           (\<exists>run. latest_run (pe_runs env) (rec_id rec) = Some run \<and> run_clears automated run)) \<and>
        (l \<in> set governed_levers \<longrightarrow> governance_enforced_for (pe_settings env) (pe_org_row env) \<longrightarrow>
           (\<exists>c. change_request_for_recommendation (pl_crs pl) (rec_id rec) = Some c \<and> cr_status c = CR_Approved)))"

text \<open>The one refusal after the gates: a compression whose model and route have a live trim policy.\<close>

definition transform_conflict :: "plane_env \<Rightarrow> recommendation \<Rightarrow> plane \<Rightarrow> bool" where
  "transform_conflict env rec pl \<longleftrightarrow>
     rec_lever rec = Some lever_prompt_compression \<and>
     (\<exists>model. or_str (rec_related_model rec) (rec_target_key rec) = Some model \<and> model \<noteq> [] \<and>
        artifact_for_recommendation (pe_artifacts env) (rec_id rec) \<noteq> None \<and>
        trim_live (ex_policies (pl_exec pl)) (rec_project_id rec) model (rec_route_key rec))"

definition own_recommendation :: "plane_env \<Rightarrow> recommendation \<Rightarrow> bool" where
  "own_recommendation env rec \<longleftrightarrow>
     rec_project_id rec = pj_id (pe_project env) \<and> rec_organization_id rec = pj_organization_id (pe_project env)"

lemma apply_measured_savings_frame [simp]:
  "rec_id (apply_measured_savings rec g) = rec_id rec" "rec_lever (apply_measured_savings rec g) = rec_lever rec"
  "rec_project_id (apply_measured_savings rec g) = rec_project_id rec"
  "rec_organization_id (apply_measured_savings rec g) = rec_organization_id rec"
  "rec_related_model (apply_measured_savings rec g) = rec_related_model rec"
  "rec_target_key (apply_measured_savings rec g) = rec_target_key rec"
  "rec_route_key (apply_measured_savings rec g) = rec_route_key rec"
  by (simp_all add: apply_measured_savings_def rec_route_key_def split: option.split)

lemma lever_names_distinct [simp]:
  "lever_prompt_compression \<notin> set routing_levers" "lever_token_trim \<notin> set routing_levers"
  "lever_prompt_compression \<noteq> lever_token_trim" "lever_token_trim \<noteq> lever_prompt_compression"
  by (simp_all add: routing_levers_def lever_prompt_compression_def lever_token_trim_def lever_smart_routing_def
      lever_model_downshift_def)

lemma activate_execution_Inl:
  "activate_execution st arts i now (apply_measured_savings rec g) run (pl_exec pl) = Inl () \<longleftrightarrow>
     rec_lever rec = Some lever_prompt_compression \<and>
     (\<exists>model. or_str (rec_related_model rec) (rec_target_key rec) = Some model \<and> model \<noteq> [] \<and>
        artifact_for_recommendation arts (rec_id rec) \<noteq> None \<and>
        trim_live (ex_policies (pl_exec pl)) (rec_project_id rec) model (rec_route_key rec))"
  by (auto simp: activate_execution_def activate_compression_policy_def split: option.splits)

lemma apply_core_succeeds:
  "(\<exists>x. apply_recommendation_core env rec now automated pl = Inr x) \<longleftrightarrow>
     cleared env rec automated pl \<and> \<not> transform_conflict env rec pl"
  (is "?ok \<longleftrightarrow> ?spec")
proof
  assume ?ok
  then obtain rec' pl' where "apply_recommendation_core env rec now automated pl = Inr (rec', pl')" by auto
  then show ?spec
  proof (rule apply_core_Inr)
    fix g exec
    assume *: "is_performance_state (pe_entitlement env)"
      "case rec_lever rec of None \<Rightarrow> True | Some l \<Rightarrow> l = [] \<or> lever_enabled (ac_lever_configs (pl_accounts pl)) (pj_id (pe_project env)) (Some l)"
      "assert_appliable (pe_runs env) rec automated = Inr g"
      "assert_change_request_approved (pe_settings env) (pe_org_row env) (pl_crs pl) rec = Inr ()"
      "rec' = apply_measured_savings rec g"
      "activate_execution (pe_settings env) (pe_artifacts env) (pe_new_id env) now rec' g (pl_exec pl) = Inr exec"
    have "\<not> transform_conflict env rec pl"
      using *(5,6) activate_execution_Inl [of "pe_settings env" "pe_artifacts env" "pe_new_id env" now rec g g pl]
      by (auto simp: transform_conflict_def)
    moreover have "cleared env rec automated pl"
      unfolding cleared_def
      using *(1,2,3) change_request_approved_Inr [OF *(4)]
      by (auto simp: assert_appliable_Inr is_gated_def split: option.splits if_splits)
    ultimately show ?spec by blast
  qed
next
  assume spec: ?spec
  then have perf: "is_performance_state (pe_entitlement env)" by (simp add: cleared_def)
  have gate: "\<exists>g. assert_appliable (pe_runs env) rec automated = Inr g"
    using spec by (cases "is_gated rec") (auto simp: assert_appliable_Inr cleared_def is_gated_def split: option.splits)
  then obtain g where g: "assert_appliable (pe_runs env) rec automated = Inr g" by blast
  have gov: "assert_change_request_approved (pe_settings env) (pe_org_row env) (pl_crs pl) rec = Inr ()"
    using spec by (auto simp: assert_change_request_approved_def cleared_def split: option.splits)
  have act: "activate_execution (pe_settings env) (pe_artifacts env) (pe_new_id env) now (apply_measured_savings rec g) g (pl_exec pl) \<noteq> Inl ()"
    using spec by (auto simp: activate_execution_Inl transform_conflict_def)
  show ?ok
    using perf g gov act spec
    by (auto simp: apply_recommendation_core_def require_performance_def cleared_def Let_def split: sum.split option.split)
qed

section \<open>What activation serves\<close>

lemma upsert_policy_slot:
  obtains p where "p \<in> set (upsert_policy st i now rec lever model rk params ps)"
    "policy_slot (rec_project_id rec) lever model rk p"
proof (cases "find (policy_slot (rec_project_id rec) lever model rk) ps")
  case None
  show ?thesis
    by (rule that [of "refreshed_policy st now rec params True
          (new_policy i (rec_organization_id rec) (rec_project_id rec) lever model rk)"])
       (use None in \<open>simp_all add: upsert_policy_def policy_slot_def refreshed_policy_def new_policy_def\<close>)
next
  case (Some q)
  then have q: "policy_slot (rec_project_id rec) lever model rk q" "q \<in> set ps"
    by (auto simp: find_Some_iff)
  show ?thesis
    by (rule that [of "refreshed_policy st now rec params (\<not> pp_enabled q) q"])
       (use Some q in \<open>auto simp: upsert_policy_def image_iff refreshed_policy_def policy_slot_def\<close>)
qed

lemma upsert_policy_rows:
  assumes "p \<in> set (upsert_policy st i now rec lever model rk params ps)"
  shows "p \<in> set ps \<and> \<not> policy_slot (rec_project_id rec) lever model rk p \<or>
    (\<exists>q fresh. p = refreshed_policy st now rec params fresh q \<and> policy_slot (rec_project_id rec) lever model rk q)"
proof (cases "find (policy_slot (rec_project_id rec) lever model rk) ps")
  case None
  then have "\<forall>q \<in> set ps. \<not> policy_slot (rec_project_id rec) lever model rk q" by (simp add: find_None_iff)
  moreover have "policy_slot (rec_project_id rec) lever model rk
      (new_policy i (rec_organization_id rec) (rec_project_id rec) lever model rk)"
    by (simp add: policy_slot_def new_policy_def)
  ultimately show ?thesis using assms None by (auto simp: upsert_policy_def)
next
  case (Some q)
  then show ?thesis using assms by (auto simp: upsert_policy_def)
qed

lemma upsert_policy_selected:
  assumes "\<forall>p \<in> set ps. \<forall>a. pp_activated_at p = Some a \<longrightarrow> a < now" "lever \<in> set levers" "rk \<noteq> []"
  shows "\<exists>q fresh. select_policy levers (upsert_policy st i now rec lever model rk params ps) (rec_project_id rec) model (Some rk)
       = Some (refreshed_policy st now rec params fresh q) \<and> policy_slot (rec_project_id rec) lever model rk q"
proof -
  let ?ps = "upsert_policy st i now rec lever model rk params ps"
  let ?base = "filter (\<lambda>p. pp_route_key p = rk) (filter (\<lambda>p. pp_project_id p = rec_project_id rec \<and> pp_lever p \<in> set levers \<and>
      pp_target_key p = model \<and> pp_enabled p) ?ps)"
  obtain p where p: "p \<in> set ?ps" "policy_slot (rec_project_id rec) lever model rk p" by (rule upsert_policy_slot)
  from upsert_policy_rows [OF p(1)] p(2)
  obtain q fresh where q: "p = refreshed_policy st now rec params fresh q" by auto
  have pb: "p \<in> set ?base" using p assms(2) q by (auto simp: policy_slot_def refreshed_policy_def)
  then have "?base \<noteq> []" by (metis empty_iff empty_set)
  then obtain w where w: "latest_activated ?base = Some w" using latest_activated_None by blast
  have wb: "w \<in> set ?ps" "\<not> activated_before w p"
    using latest_activated_Some [OF w] latest_activated_latest [OF w pb] by auto
  have "\<not> (w \<in> set ps \<and> \<not> policy_slot (rec_project_id rec) lever model rk w)"
    using assms(1) wb(2) q by (auto simp: activated_before_def refreshed_policy_def split: option.splits)
  with upsert_policy_rows [OF wb(1)]
  obtain q' fresh' where "w = refreshed_policy st now rec params fresh' q'" "policy_slot (rec_project_id rec) lever model rk q'"
    by blast
  then show ?thesis using w assms(3) by (auto simp: select_policy_def or_str_def)
qed

lemma route_key_from_recommendation_not_Nil [simp]: "rec_route_key rec \<noteq> []"
proof -
  have "canonical_route_key f w r t \<noteq> []" for f w r t
    using first_key_normal [of "[f, w, r, t]"] by (simp add: canonical_route_key_def route_key_normal_def del: first_key.simps)
  then show ?thesis by (simp add: rec_route_key_def route_key_from_recommendation_def)
qed

section \<open>Properties\<close>

text \<open>
  C1. An optimization goes live exactly when every gate agrees: a human application succeeds iff the
  recommendation belongs to the project, the plan allows it, the lever is on for the project, the
  latest shadow evaluation clears it, the change request is approved where governance is enforced, and
  no live trim policy conflicts. The autopilot passes the same gates, accepts only an open
  recommendation and only a verdict of safe.
\<close>

theorem apply_succeeds_iff_cleared:
  "((\<exists>x. transition_recommendation env rec actor Applied now pl = Inr x) \<longleftrightarrow>
      own_recommendation env rec \<and> cleared env rec False pl \<and> \<not> transform_conflict env rec pl) \<and>
   ((\<exists>x. apply_recommendation_automated env rec now pl = Inr x \<and> rec_status rec = Open) \<longleftrightarrow>
      own_recommendation env rec \<and> rec_status rec = Open \<and> cleared env rec True pl \<and> \<not> transform_conflict env rec pl)"
  using apply_core_succeeds [of env rec now False pl] apply_core_succeeds [of env rec now True pl]
  by (auto simp: transition_recommendation_def apply_recommendation_automated_def own_recommendation_def Let_def
      split: sum.splits)

lemma rolled_back_not_active:
  assumes "unique_crs crs" "c \<in> set (mark_change_request_rolled_back rec now crs)" "cr_recommendation_id c = rec_id rec"
  shows "cr_status c \<noteq> CR_Active"
  using assms unique_crs_find [OF assms(1)]
  by (fastforce simp: mark_change_request_rolled_back_def update_cr_def find_None_key split: option.splits if_splits)

text \<open>
  C2. Rollback is immediate and never refused: dismissing or rolling back a recommendation of the project
  always succeeds, whatever the plan or the gates say, and right after it neither the router, the
  trimmer nor the compressor serves one of its policies, for any model, route and request, also from
  their caches; its change request is no longer active.
\<close>

theorem rollback_stops_serving:
  assumes "own_recommendation env rec" "next_status \<in> {Dismissed, Rolled_Back}" "unique_crs (pl_crs pl)"
  shows "\<exists>rec' pl'. transition_recommendation env rec actor next_status now pl = Inr (rec', pl') \<and>
    rec_status rec' = next_status \<and>
    (\<forall>c \<in> set (pl_crs pl'). cr_recommendation_id c = rec_id rec \<longrightarrow> cr_status c \<noteq> CR_Active) \<and>
    \<not> serves_recommendation st configs stats cd draws (rec_project_id rec) model body prov rk (rec_id rec) (pl_exec pl')"
proof -
  have "next_status \<noteq> Applied" using assms(2) by auto
  with assms rolled_back_not_active [OF assms(3)] deactivated_not_served [of st configs stats cd draws rec]
  show ?thesis
    by (auto simp: transition_recommendation_def own_recommendation_def Let_def)
qed

lemma activate_rule_lookup:
  assumes "rec_related_model rec = Some m" "m \<noteq> []" "cand \<noteq> []" "cand \<noteq> m"
    and "\<forall>p \<in> set (ex_policies s). \<forall>a. pp_activated_at p = Some a \<longrightarrow> a < now"
    and s': "s' = activate_rule cfg i now rec (Some cand) s"
  shows "\<exists>p. fst (lookup_policy cfg' routing_levers (ex_policies s') (rec_project_id rec) m (Some (rec_route_key rec))
      (ex_routing_cache s')) = Some p \<and> pp_enabled p \<and> candidate_model p = Some cand \<and>
      pp_source_recommendation_id p = Some (rec_id rec)"
proof -
  define lever where "lever = (case rec_lever rec of
      Some l \<Rightarrow> if l \<in> set routing_levers then l else lever_model_downshift | None \<Rightarrow> lever_model_downshift)"
  have l: "lever \<in> set routing_levers" by (auto simp: lever_def routing_levers_def split: option.split)
  have s'': "s' = s\<lparr>ex_policies := upsert_policy cfg i now rec lever m (rec_route_key rec) (routing_params lever cand) (ex_policies s),
      ex_routing_cache := clear_policy_cache (Some (rec_project_id rec)) (ex_routing_cache s)\<rparr>"
    using assms(1-4) by (simp add: s' activate_rule_def or_str_def lever_def [symmetric])
  obtain q fresh where "select_policy routing_levers (ex_policies s') (rec_project_id rec) m (Some (rec_route_key rec))
      = Some (refreshed_policy cfg now rec (routing_params lever cand) fresh q)"
    using upsert_policy_selected [OF assms(5) l, of "rec_route_key rec" cfg i rec m "routing_params lever cand"] s'' by auto
  moreover have "candidate_model (refreshed_policy cfg now rec (routing_params lever cand) fresh q) = Some cand"
    by (simp add: candidate_model_def refreshed_policy_def routing_params_def Let_def dict_get_put)
  ultimately show ?thesis
    using s'' by (simp add: lookup_policy_uncached) (simp add: refreshed_policy_def)
qed

text \<open>
  C5. An activated routing rule is what the hot path sees: after activating a recommendation for a model
  (later than every earlier activation), the next lookup for that model and the recommendation's route
  returns an enabled policy with the evaluated candidate and the recommendation as its source, with
  the cache on or off and whatever it held.
\<close>

theorem activated_rule_is_served:
  assumes "rec_related_model rec = Some m" "m \<noteq> []" "cand \<noteq> []" "cand \<noteq> m"
    and "\<forall>p \<in> set (ex_policies s). \<forall>a. pp_activated_at p = Some a \<longrightarrow> a < now"
  shows "let s' = activate_rule cfg i now rec (Some cand) s
    in \<exists>p. fst (lookup_policy cfg' routing_levers (ex_policies s') (rec_project_id rec) m (Some (rec_route_key rec))
         (ex_routing_cache s')) = Some p \<and> pp_enabled p \<and> candidate_model p = Some cand \<and>
         pp_source_recommendation_id p = Some (rec_id rec)"
  using activate_rule_lookup [OF assms refl] by simp

text \<open>
  Reopening an applied recommendation does not take its policies down: the transition to open
  changes the status of the recommendation and nothing of the execution plane, so a policy it activated
  keeps being served.
\<close>

theorem reopening_keeps_policies_live:
  assumes "own_recommendation env rec"
  shows "\<exists>rec'. transition_recommendation env rec actor Open now pl = Inr (rec', pl) \<and> rec_status rec' = Open"
  using assms by (simp add: transition_recommendation_def own_recommendation_def Let_def)

lemma upsert_policy_keeps:
  assumes "p \<in> set ps" "pp_lever p \<noteq> lever"
  shows "p \<in> set (upsert_policy st i now rec lever model rk params ps)"
proof -
  have "\<not> policy_slot (rec_project_id rec) lever model rk p" using assms(2) by (simp add: policy_slot_def)
  then show ?thesis using assms(1)
    by (cases "find (policy_slot (rec_project_id rec) lever model rk) ps") (auto simp: upsert_policy_def image_iff)
qed

text \<open>
  The exclusion of the two prompt transforms is one-sided: with a live trim policy the activation of
  a compression for the model is refused, but with a live compression policy the activation of a trim for
  the same model goes through and leaves both policies live.
\<close>

theorem transform_exclusion_one_sided:
  assumes "rec_related_model rec = Some m" "m \<noteq> []" "artifact_for_recommendation arts (rec_id rec) = Some a"
  shows "(trim_live (ex_policies s) (rec_project_id rec) m (rec_route_key rec) \<longrightarrow>
            activate_compression_policy cfg arts i now rec s = Inl ()) \<and>
         (p \<in> set (ex_policies s) \<and> pp_lever p = lever_prompt_compression \<longrightarrow>
            p \<in> set (ex_policies (activate_trim_policy cfg i now rec s)) \<and>
            trim_live (ex_policies (activate_trim_policy cfg i now rec s)) (rec_project_id rec) m (rec_route_key rec))"
proof -
  let ?ps = "upsert_policy cfg i now rec lever_token_trim m (rec_route_key rec) id (ex_policies s)"
  obtain t where t: "t \<in> set ?ps" "policy_slot (rec_project_id rec) lever_token_trim m (rec_route_key rec) t"
    by (rule upsert_policy_slot)
  have "pp_enabled t" using upsert_policy_rows [OF t(1)] t(2) by (auto simp: refreshed_policy_def)
  then have "trim_live ?ps (rec_project_id rec) m (rec_route_key rec)"
    using t by (auto simp: trim_live_def policy_slot_def)
  moreover have "ex_policies (activate_trim_policy cfg i now rec s) = ?ps"
    using assms(1,2) by (simp add: activate_trim_policy_def or_str_def)
  ultimately show ?thesis
    using assms upsert_policy_keeps [of p "ex_policies s" lever_token_trim]
    by (simp add: activate_compression_policy_def or_str_def)
qed

text \<open>Concrete planes for the witnesses.\<close>

definition sample_exec :: exec_state where
  "sample_exec = \<lparr>ex_policies = [], ex_routing_cache = Map.empty, ex_trim_cache = Map.empty,
     ex_compression_cache = Map.empty, ex_artifact_cache = Map.empty\<rparr>"

definition sample_plane :: plane where
  "sample_plane = \<lparr>pl_exec = sample_exec, pl_crs = [sample_cr], pl_accounts = no_accounts\<rparr>"

definition sample_env :: plane_env where
  "sample_env = \<lparr>pe_settings = default_settings, pe_project = \<lparr>pj_id = ''p'', pj_organization_id = ''o''\<rparr>,
     pe_org = new_organization ''o'' 0, pe_org_row = Some (new_organization ''o'' 0),
     pe_entitlement = lookup_failed_state default_settings, pe_runs = [], pe_artifacts = [], pe_new_id = ''n''\<rparr>"

lemma sample_env_own: "own_recommendation sample_env sample_rec"
  by (simp add: own_recommendation_def sample_env_def sample_rec_def)

theorem rollback_stops_serving_witness:
  "\<exists>rec' pl'. transition_recommendation sample_env sample_rec ''u'' Rolled_Back 9 sample_plane = Inr (rec', pl') \<and>
     rec_status rec' = Rolled_Back \<and>
     (\<forall>c \<in> set (pl_crs pl'). cr_recommendation_id c = ''rec'' \<longrightarrow> cr_status c \<noteq> CR_Active) \<and>
     \<not> serves_recommendation default_settings [] None 0 \<lparr>bd_betas = [], bd_explore = 0, bd_pick = 0\<rparr> ''p'' ''a'' []
         ''openai'' None ''rec'' (pl_exec pl')"
  using rollback_stops_serving [OF sample_env_own, of Rolled_Back sample_plane "''u''" 9 default_settings "[]" None 0
      "\<lparr>bd_betas = [], bd_explore = 0, bd_pick = 0\<rparr>" "''a''" "[]" "''openai''" None]
  by (simp add: unique_crs_def sample_plane_def sample_rec_def)

theorem activated_rule_is_served_witness:
  "let s' = activate_rule default_settings ''n'' 9 sample_rec (Some ''b'') sample_exec
   in \<exists>p. fst (lookup_policy default_settings routing_levers (ex_policies s') ''p'' ''a'' (Some (rec_route_key sample_rec))
         (ex_routing_cache s')) = Some p \<and> pp_enabled p \<and> candidate_model p = Some ''b'' \<and>
         pp_source_recommendation_id p = Some ''rec''"
  using activated_rule_is_served [of sample_rec "''a''" "''b''" sample_exec 9 default_settings "''n''" default_settings]
  by (simp add: sample_rec_def sample_exec_def)

theorem reopening_keeps_policies_live_witness:
  "\<exists>rec'. transition_recommendation sample_env sample_rec ''u'' Open 9 sample_plane = Inr (rec', sample_plane) \<and> rec_status rec' = Open"
  by (rule reopening_keeps_policies_live [OF sample_env_own])

theorem transform_exclusion_one_sided_witness:
  "let arts = [\<lparr>pcm_id = ''x'', pcm_recommendation_id = Some ''rec'', pcm_created_at = 0\<rparr>];
       p = new_policy ''q'' ''o'' ''p'' lever_prompt_compression ''a'' default_route;
       s' = activate_trim_policy default_settings ''n'' 9 sample_rec (sample_exec\<lparr>ex_policies := [p]\<rparr>)
   in p \<in> set (ex_policies s') \<and> trim_live (ex_policies s') ''p'' ''a'' (rec_route_key sample_rec)"
  using transform_exclusion_one_sided [of sample_rec "''a''" "[\<lparr>pcm_id = ''x'', pcm_recommendation_id = Some ''rec'', pcm_created_at = 0\<rparr>]"
      "\<lparr>pcm_id = ''x'', pcm_recommendation_id = Some ''rec'', pcm_created_at = 0\<rparr>"
      "sample_exec\<lparr>ex_policies := [new_policy ''q'' ''o'' ''p'' lever_prompt_compression ''a'' default_route]\<rparr>" default_settings "''n''" 9
      "new_policy ''q'' ''o'' ''p'' lever_prompt_compression ''a'' default_route"]
  by (simp add: sample_rec_def artifact_for_recommendation_def new_policy_def)

end
