(* ===== verification/Sequential.thy ===== *)
theory Sequential
  imports Prelude
begin

text \<open>
  \<open>proxy/sequential.py\<close>: time-uniform confidence sequences, the numeric core of the savings intervals and
  of the drift guard. The formulas are over the reals; \<open>ln\<close> and \<open>sqrt\<close> of arguments outside their domain
  raise in Python, and the properties show for which parameters this does not happen. The float
  evaluation used by the callers rounds each of the three results with an arbitrary rounding \<open>fl\<close>.
\<close>

record confidence_sequence =
  cq_point :: real
  cq_lo :: real
  cq_hi :: real

definition excludes_zero :: "confidence_sequence \<Rightarrow> bool" where
  "excludes_zero c \<longleftrightarrow> 0 < cq_lo c \<or> cq_hi c < 0"

definition exceeds :: "confidence_sequence \<Rightarrow> real \<Rightarrow> bool" where
  "exceeds c threshold \<longleftrightarrow> threshold < cq_lo c"

definition rho_for_target :: "real \<Rightarrow> real \<Rightarrow> real" where
  "rho_for_target target_n alpha =
     sqrt ((- 2 * ln alpha + ln (- 2 * ln alpha + 1)) / max target_n 1)"

definition boundary_multiplier :: "real \<Rightarrow> real \<Rightarrow> real \<Rightarrow> real" where
  "boundary_multiplier n rho alpha =
     (let n_rho2 = n * rho * rho
      in sqrt ((2 * (n_rho2 + 1) / n_rho2) * ln (sqrt (n_rho2 + 1) / alpha)))"

definition difference_confidence_sequence ::
  "real \<Rightarrow> real \<Rightarrow> nat \<Rightarrow> real \<Rightarrow> real option \<Rightarrow> nat \<Rightarrow> real \<Rightarrow> real option \<Rightarrow> confidence_sequence option" where
  "difference_confidence_sequence alpha target_n n_a mean_a var_a n_b mean_b var_b =
     (case (var_a, var_b) of
        (Some va, Some vb) \<Rightarrow>
          if n_a < 2 \<or> n_b < 2 then None
          else (let se2 = va / real n_a + vb / real n_b
                in if se2 \<le> 0 then None
                   else (let rho = rho_for_target target_n alpha;
                             radius = sqrt se2 * boundary_multiplier (real (n_a + n_b)) rho alpha;
                             point = mean_a - mean_b
                         in Some \<lparr>cq_point = point, cq_lo = point - radius, cq_hi = point + radius\<rparr>))
      | _ \<Rightarrow> None)"

definition mean_confidence_sequence ::
  "real \<Rightarrow> real \<Rightarrow> nat \<Rightarrow> real \<Rightarrow> real option \<Rightarrow> confidence_sequence option" where
  "mean_confidence_sequence alpha target_n n mean var =
     (case var of
        None \<Rightarrow> None
      | Some v \<Rightarrow>
          if n < 2 \<or> v \<le> 0 then None
          else (let rho = rho_for_target target_n alpha;
                    radius = sqrt (v / real n) * boundary_multiplier (real n) rho alpha
                in Some \<lparr>cq_point = mean, cq_lo = mean - radius, cq_hi = mean + radius\<rparr>))"

definition rate_difference_confidence_sequence ::
  "real \<Rightarrow> real \<Rightarrow> nat \<Rightarrow> real \<Rightarrow> nat \<Rightarrow> real \<Rightarrow> confidence_sequence option" where
  "rate_difference_confidence_sequence alpha target_n n_a successes_a n_b successes_b =
     (if n_a < 2 \<or> n_b < 2 then None
      else (let p_a = (successes_a + 1) / (real n_a + 2); p_b = (successes_b + 1) / (real n_b + 2)
            in difference_confidence_sequence alpha target_n n_a p_a (Some (p_a * (1 - p_a))) n_b p_b (Some (p_b * (1 - p_b)))))"

section \<open>Float evaluation\<close>

definition float_cs :: "(real \<Rightarrow> rat) \<Rightarrow> confidence_sequence option \<Rightarrow> (rat \<times> rat \<times> rat) option" where
  "float_cs fl c = map_option (\<lambda>c. (fl (cq_point c), fl (cq_lo c), fl (cq_hi c))) c"

definition float_difference_cs ::
  "(real \<Rightarrow> rat) \<Rightarrow> real \<Rightarrow> real \<Rightarrow> nat \<Rightarrow> rat \<Rightarrow> rat option \<Rightarrow> nat \<Rightarrow> rat \<Rightarrow> rat option \<Rightarrow> (rat \<times> rat \<times> rat) option" where
  "float_difference_cs fl alpha target_n n_a mean_a var_a n_b mean_b var_b =
     float_cs fl (difference_confidence_sequence alpha target_n n_a (of_rat mean_a) (map_option of_rat var_a)
       n_b (of_rat mean_b) (map_option of_rat var_b))"

definition float_mean_cs :: "(real \<Rightarrow> rat) \<Rightarrow> real \<Rightarrow> real \<Rightarrow> nat \<Rightarrow> rat \<Rightarrow> rat option \<Rightarrow> (rat \<times> rat \<times> rat) option" where
  "float_mean_cs fl alpha target_n n mean var =
     float_cs fl (mean_confidence_sequence alpha target_n n (of_rat mean) (map_option of_rat var))"

definition float_rate_cs :: "(real \<Rightarrow> rat) \<Rightarrow> real \<Rightarrow> real \<Rightarrow> nat \<Rightarrow> rat \<Rightarrow> nat \<Rightarrow> rat \<Rightarrow> (rat \<times> rat \<times> rat) option" where
  "float_rate_cs fl alpha target_n n_a successes_a n_b successes_b =
     float_cs fl (rate_difference_confidence_sequence alpha target_n n_a (of_rat successes_a) n_b (of_rat successes_b))"

section \<open>The formulas are defined\<close>

lemma ln_alpha: "0 < alpha \<Longrightarrow> alpha < 1 \<Longrightarrow> ln alpha < (0 :: real)"
  by simp

lemma rho_radicand:
  assumes "0 < alpha" "alpha < (1 :: real)"
  shows "0 < (- 2 * ln alpha + ln (- 2 * ln alpha + 1)) / max target_n 1"
proof -
  have "0 < - 2 * ln alpha" using ln_alpha [OF assms] by simp
  moreover from this have "0 < ln (- 2 * ln alpha + 1)" by (simp add: ln_gt_zero)
  ultimately have "0 < - 2 * ln alpha + ln (- 2 * ln alpha + 1)" by linarith
  then show ?thesis by (intro divide_pos_pos) auto
qed

lemma rho_pos: "0 < alpha \<Longrightarrow> alpha < 1 \<Longrightarrow> 0 < rho_for_target target_n alpha"
  unfolding rho_for_target_def using rho_radicand by (simp add: real_sqrt_gt_zero)

text \<open>The multiplier of the standard error exceeds the uniform bound \<open>sqrt (2 ln (1 / alpha))\<close>.\<close>

lemma boundary_multiplier_bound:
  assumes "0 < alpha" "alpha < 1" "0 < n" "0 < rho"
  shows "sqrt (2 * ln (1 / alpha)) < boundary_multiplier n rho alpha"
proof -
  define x where "x = n * rho * rho"
  have x: "0 < x" using assms by (simp add: x_def)
  have "1 < sqrt (x + 1)" using x by simp
  then have "1 / alpha < sqrt (x + 1) / alpha" using assms(1) by (simp add: divide_strict_right_mono)
  moreover have "0 < 1 / alpha" using assms(1) by simp
  ultimately have l: "ln (1 / alpha) < ln (sqrt (x + 1) / alpha)" by (simp only: ln_less_cancel_iff)
  have l0: "0 < ln (1 / alpha)" using assms by (simp add: ln_div)
  have f: "2 < 2 * (x + 1) / x" using x by (simp add: field_simps)
  have "2 * ln (1 / alpha) < (2 * (x + 1) / x) * ln (sqrt (x + 1) / alpha)"
    using mult_strict_mono [OF f l] l0 x by simp
  then show ?thesis by (simp add: boundary_multiplier_def Let_def x_def)
qed

lemma boundary_multiplier_pos:
  assumes "0 < alpha" "alpha < 1" "0 < n" "0 < rho"
  shows "0 < boundary_multiplier n rho alpha"
proof -
  have "0 \<le> sqrt (2 * ln (1 / alpha))" using assms(1,2) by (simp add: ln_div)
  with boundary_multiplier_bound [OF assms] show ?thesis by linarith
qed

text \<open>The half-width, relative to the standard error.\<close>

lemma difference_cs_Some:
  assumes "difference_confidence_sequence alpha target_n n_a ma va n_b mb vb = Some c"
  obtains x y where "va = Some x" "vb = Some y" "2 \<le> n_a" "2 \<le> n_b" "0 < x / real n_a + y / real n_b"
    "cq_point c = ma - mb"
    "cq_lo c = cq_point c - sqrt (x / real n_a + y / real n_b) * boundary_multiplier (real (n_a + n_b)) (rho_for_target target_n alpha) alpha"
    "cq_hi c = cq_point c + sqrt (x / real n_a + y / real n_b) * boundary_multiplier (real (n_a + n_b)) (rho_for_target target_n alpha) alpha"
  using assms
  by (auto simp: difference_confidence_sequence_def Let_def not_less split: option.splits if_splits)

lemma difference_cs_lower:
  assumes "0 < alpha" "alpha < 1"
    and "difference_confidence_sequence alpha target_n n_a ma va n_b mb vb = Some c"
  shows "cq_lo c < cq_point c"
  using assms(3)
proof (rule difference_cs_Some)
  fix x y
  assume n: "2 \<le> n_a" "2 \<le> n_b" and se: "0 < x / real n_a + y / real n_b"
    and lo: "cq_lo c = cq_point c - sqrt (x / real n_a + y / real n_b) * boundary_multiplier (real (n_a + n_b)) (rho_for_target target_n alpha) alpha"
  have "0 < real (n_a + n_b)" using n by simp
  from boundary_multiplier_pos [OF assms(1,2) this rho_pos [OF assms(1,2)]] se
  have "0 < sqrt (x / real n_a + y / real n_b) * boundary_multiplier (real (n_a + n_b)) (rho_for_target target_n alpha) alpha"
    by simp
  with lo show ?thesis by linarith
qed

lemma rate_variance:
  assumes "0 \<le> s" "s \<le> real n"
  defines "p \<equiv> (s + 1) / (real n + 2)"
  shows "0 < p" "p < 1" "0 < p * (1 - p)"
proof -
  show "0 < p" using assms(1) by (simp add: p_def)
  moreover show "p < 1" using assms(2) by (simp add: p_def field_simps)
  ultimately show "0 < p * (1 - p)" by simp
qed

lemma rate_cs_defined:
  assumes "2 \<le> n_a" "2 \<le> n_b" "0 \<le> s_a" "s_a \<le> real n_a" "0 \<le> s_b" "s_b \<le> real n_b"
  shows "\<exists>c. rate_difference_confidence_sequence alpha target_n n_a s_a n_b s_b = Some c \<and> \<bar>cq_point c\<bar> < 1"
proof -
  note a = rate_variance [OF assms(3,4)] and b = rate_variance [OF assms(5,6)]
  let ?pa = "(s_a + 1) / (real n_a + 2)" and ?pb = "(s_b + 1) / (real n_b + 2)"
  have "0 < ?pa * (1 - ?pa) / real n_a" by (rule divide_pos_pos [OF a(3)]) (use assms(1) in simp)
  moreover have "0 < ?pb * (1 - ?pb) / real n_b" by (rule divide_pos_pos [OF b(3)]) (use assms(2) in simp)
  ultimately have "\<not> ?pa * (1 - ?pa) / real n_a + ?pb * (1 - ?pb) / real n_b \<le> 0" by linarith
  then obtain c where "rate_difference_confidence_sequence alpha target_n n_a s_a n_b s_b = Some c" "cq_point c = ?pa - ?pb"
    using assms(1,2) by (auto simp: rate_difference_confidence_sequence_def difference_confidence_sequence_def Let_def)
  moreover have "\<bar>?pa - ?pb\<bar> < 1" using a(1,2) b(1,2) by (simp only: abs_less_iff) linarith
  ultimately show ?thesis by auto
qed

section \<open>Properties\<close>

text \<open>
  A confidence sequence never decides what the point estimate would not: for every significance level
  between 0 and 1 the interval of a difference contains its point strictly inside, its half-width is more
  than \<open>sqrt (2 ln (1 / alpha))\<close> standard errors (2.4 at 5 percent, where the fixed-sample quantile is
  1.96), so an interval above a threshold has its point above the threshold by that margin; and swapping
  the arms negates the interval.
\<close>

theorem difference_cs_conservative:
  assumes "0 < alpha" "alpha < 1"
    and "difference_confidence_sequence alpha target_n n_a ma (Some va) n_b mb (Some vb) = Some c"
  shows "cq_lo c < cq_point c \<and> cq_point c < cq_hi c \<and>
    (exceeds c threshold \<longrightarrow>
       threshold + sqrt (va / real n_a + vb / real n_b) * sqrt (2 * ln (1 / alpha)) < cq_point c) \<and>
    difference_confidence_sequence alpha target_n n_b mb (Some vb) n_a ma (Some va) =
      Some \<lparr>cq_point = - cq_point c, cq_lo = - cq_hi c, cq_hi = - cq_lo c\<rparr>"
  using assms(3)
proof (rule difference_cs_Some)
  fix x y
  assume xy: "Some va = Some x" "Some vb = Some y" "2 \<le> n_a" "2 \<le> n_b" "0 < x / real n_a + y / real n_b"
    and c: "cq_point c = ma - mb"
      "cq_lo c = cq_point c - sqrt (x / real n_a + y / real n_b) * boundary_multiplier (real (n_a + n_b)) (rho_for_target target_n alpha) alpha"
      "cq_hi c = cq_point c + sqrt (x / real n_a + y / real n_b) * boundary_multiplier (real (n_a + n_b)) (rho_for_target target_n alpha) alpha"
  let ?se = "sqrt (va / real n_a + vb / real n_b)"
  let ?m = "boundary_multiplier (real (n_a + n_b)) (rho_for_target target_n alpha) alpha"
  have se: "0 < ?se" using xy by simp
  have n: "0 < real (n_a + n_b)" using xy by simp
  note rho = rho_pos [OF assms(1,2), of target_n]
  have m: "0 < ?m" "sqrt (2 * ln (1 / alpha)) < ?m"
    using boundary_multiplier_pos [OF assms(1,2) n rho] boundary_multiplier_bound [OF assms(1,2) n rho] by simp_all
  have r: "0 < ?se * ?m" "?se * sqrt (2 * ln (1 / alpha)) < ?se * ?m" using se m by simp_all
  have "difference_confidence_sequence alpha target_n n_b mb (Some vb) n_a ma (Some va) =
      Some \<lparr>cq_point = - cq_point c, cq_lo = - cq_hi c, cq_hi = - cq_lo c\<rparr>"
    using xy c by (simp add: difference_confidence_sequence_def Let_def add.commute)
  moreover have "cq_lo c = cq_point c - ?se * ?m" "cq_hi c = cq_point c + ?se * ?m" using c xy by simp_all
  ultimately show ?thesis using r unfolding exceeds_def by (intro conjI impI) linarith+
qed

theorem difference_cs_conservative_witness:
  "\<exists>c. difference_confidence_sequence (1/20) 400 30 1 (Some 1) 30 0 (Some 1) = Some c \<and> cq_lo c < 1 \<and> 1 < cq_hi c"
proof -
  obtain c where c: "difference_confidence_sequence (1/20) 400 30 1 (Some 1) 30 0 (Some 1) = Some c"
    by (simp add: difference_confidence_sequence_def Let_def)
  moreover have "cq_point c = 1" using c by (auto simp: difference_confidence_sequence_def Let_def)
  ultimately show ?thesis using difference_cs_conservative [OF _ _ c] by auto
qed

text \<open>
  Smoothing keeps the quality guard alive: for two arms of at least two samples each and any success
  counts, all-pass and all-fail included, the sequence of the rate difference is defined, and its point is
  the difference of two rates strictly between 0 and 1.
\<close>

theorem rate_cs_never_degenerate:
  assumes "2 \<le> n_a" "2 \<le> n_b" "0 \<le> s_a" "s_a \<le> real n_a" "0 \<le> s_b" "s_b \<le> real n_b"
  shows "\<exists>c. rate_difference_confidence_sequence alpha target_n n_a s_a n_b s_b = Some c \<and> \<bar>cq_point c\<bar> < 1"
  by (rule rate_cs_defined [OF assms])

theorem rate_cs_never_degenerate_witness:
  "\<exists>c. rate_difference_confidence_sequence (1/20) 400 30 30 30 0 = Some c \<and> \<bar>cq_point c\<bar> < 1"
  by (rule rate_cs_never_degenerate) simp_all

end
