(* ===== verification/Drift.thy ===== *)
theory Drift
  imports Execution Sequential
begin

text \<open>
  \<open>proxy/drift.py\<close>: the sweep that compares the arms of every live holdback experiment and rolls a policy
  back when its quality or latency has confidently regressed, ramps a healthy canary up, and drops
  regressed bandit candidates. SQL averages are exact; the confidence sequences are those of the theory
  Sequential with the float rounding \<open>fl\<close>. The titles and details of the recorded system actions are text
  and not modelled; labels of rolled-back routes are the policy id and the candidate.
\<close>

definition round_to :: "nat \<Rightarrow> rat option \<Rightarrow> rat option" where
  "round_to p v = map_option (quantize_half_even p) v"

definition specific_route_key :: "string option \<Rightarrow> string option" where
  "specific_route_key rk =
     (case or_str rk None of None \<Rightarrow> None | Some k \<Rightarrow> if k = default_route then None else Some k)"

record quality_guardrail =
  qg_project_id :: uuid
  qg_route :: string
  qg_max_latency_ms :: "int option"
  qg_auto_rollback_enabled :: bool
  qg_enabled :: bool

record drift_env =
  de_settings :: settings
  de_fl :: "real \<Rightarrow> rat"
  de_ledger :: "usage_event list"
  de_guardrails :: "quality_guardrail list"
  de_project :: uuid
  de_start :: datetime
  de_now :: datetime

definition drift_arm ::
  "drift_env \<Rightarrow> string \<Rightarrow> string \<Rightarrow> string option \<Rightarrow> (usage_event \<Rightarrow> bool) \<Rightarrow> string \<Rightarrow> usage_event list" where
  "drift_arm env incumbent candidate rk cond arm =
     filter (\<lambda>e. ue_project_id e = de_project env \<and> de_start env \<le> ue_received_at e \<and> is_holdback e \<and>
        meta_text e ''experiment_from'' = Some incumbent \<and> meta_text e ''experiment_to'' = Some candidate \<and> cond e \<and>
        (case specific_route_key rk of None \<Rightarrow> True | Some k \<Rightarrow> meta_text e ''route_key'' = Some k) \<and>
        meta_text e ''arm'' = Some arm) (de_ledger env)"

section \<open>Quality\<close>

definition has_quality :: "usage_event \<Rightarrow> bool" where
  "has_quality e \<longleftrightarrow> meta_text e ''quality_ok'' \<in> {Some ''true'', Some ''false''}"

definition ok_count :: "usage_event list \<Rightarrow> nat" where
  "ok_count rows = length (filter (\<lambda>e. meta_text e ''quality_ok'' = Some ''true'') rows)"

definition ok_rate :: "usage_event list \<Rightarrow> rat option" where
  "ok_rate rows = (if rows = [] then None else Some (of_nat (ok_count rows) / of_nat (length rows)))"

record drift_result =
  dr_control_requests :: nat
  dr_treatment_requests :: nat
  dr_control_ok_rate :: "rat option"
  dr_treatment_ok_rate :: "rat option"
  dr_quality_drop :: "rat option"
  dr_quality_drop_ci_low :: "rat option"
  dr_quality_drop_ci_high :: "rat option"
  dr_enough_signal :: bool
  dr_drifted :: bool

definition evaluate_drift :: "drift_env \<Rightarrow> string \<Rightarrow> string \<Rightarrow> string option \<Rightarrow> drift_result" where
  "evaluate_drift env incumbent candidate rk =
     (let st = de_settings env;
          control = drift_arm env incumbent candidate rk has_quality arm_control;
          treatment = drift_arm env incumbent candidate rk has_quality arm_treatment;
          n_c = length control; n_t = length treatment; ok_c = ok_rate control; ok_t = ok_rate treatment;
          enough = (min_arm_samples \<le> n_c \<and> min_arm_samples \<le> n_t);
          cs = (case (ok_c, ok_t) of
                  (Some c, Some t) \<Rightarrow>
                    if enough
                    then float_rate_cs (de_fl env) (of_rat (sequential_cs_alpha st)) (of_int (sequential_cs_target_n st))
                           n_c (c * of_nat n_c) n_t (t * of_nat n_t)
                    else None
                | _ \<Rightarrow> None)
      in \<lparr>dr_control_requests = n_c, dr_treatment_requests = n_t,
          dr_control_ok_rate = round_to 4 ok_c, dr_treatment_ok_rate = round_to 4 ok_t,
          dr_quality_drop = round_to 4 (opt_diff ok_c ok_t),
          dr_quality_drop_ci_low = round_to 4 (map_option (\<lambda>(_, lo, _). lo) cs),
          dr_quality_drop_ci_high = round_to 4 (map_option (\<lambda>(_, _, hi). hi) cs),
          dr_enough_signal = enough,
          dr_drifted = (case cs of None \<Rightarrow> False | Some (_, lo, _) \<Rightarrow> drift_tolerance st < lo)\<rparr>)"

section \<open>Latency\<close>

text \<open>The candidate routes of a guardrail in order of preference; the first enabled one with a limit wins.\<close>

definition slo_routes :: "string \<Rightarrow> string \<Rightarrow> string option \<Rightarrow> string list" where
  "slo_routes incumbent candidate rk =
     (case specific_route_key rk of
        None \<Rightarrow> []
      | Some k \<Rightarrow> [k, model_scoped_route_key k (Some incumbent), model_scoped_route_key k (Some candidate)]) @
     [incumbent, candidate]"

definition latency_slo_ms :: "drift_env \<Rightarrow> string \<Rightarrow> string \<Rightarrow> string option \<Rightarrow> int option" where
  "latency_slo_ms env incumbent candidate rk =
     (let guards = filter (\<lambda>g. qg_project_id g = de_project env \<and> qg_enabled g \<and> qg_max_latency_ms g \<noteq> None) (de_guardrails env)
      in case find (\<lambda>r. list_ex (\<lambda>g. qg_route g = r) guards) (slo_routes incumbent candidate rk) of
           None \<Rightarrow> None
         | Some r \<Rightarrow> (case find (\<lambda>g. qg_route g = r) guards of None \<Rightarrow> None | Some g \<Rightarrow> qg_max_latency_ms g))"

record latency_arm =
  la_requests :: nat
  la_mean_ms :: "rat option"
  la_variance :: "rat option"

definition latency_arm_of :: "usage_event list \<Rightarrow> latency_arm" where
  "latency_arm_of rows =
     (let xs = List.map_filter (\<lambda>e. map_option of_int (ue_latency_ms e)) rows
      in \<lparr>la_requests = length rows, la_mean_ms = sql_avg xs, la_variance = sql_var_samp xs\<rparr>)"

definition latency_arms :: "drift_env \<Rightarrow> string \<Rightarrow> string \<Rightarrow> string option \<Rightarrow> latency_arm \<times> latency_arm" where
  "latency_arms env incumbent candidate rk =
     (latency_arm_of (drift_arm env incumbent candidate rk (\<lambda>e. ue_latency_ms e \<noteq> None) arm_control),
      latency_arm_of (drift_arm env incumbent candidate rk (\<lambda>e. ue_latency_ms e \<noteq> None) arm_treatment))"

definition latency_delta_cs :: "drift_env \<Rightarrow> latency_arm \<Rightarrow> latency_arm \<Rightarrow> bool \<Rightarrow> (rat \<times> rat \<times> rat) option" where
  "latency_delta_cs env control treatment enough =
     (case (la_mean_ms control, la_mean_ms treatment) of
        (Some mc, Some mt) \<Rightarrow>
          if \<not> enough then None
          else float_difference_cs (de_fl env) (of_rat (sequential_cs_alpha (de_settings env)))
                 (of_int (sequential_cs_target_n (de_settings env)))
                 (la_requests treatment) mt (la_variance treatment) (la_requests control) mc (la_variance control)
      | _ \<Rightarrow> None)"

definition latency_slo_cs ::
  "drift_env \<Rightarrow> string \<Rightarrow> string \<Rightarrow> string option \<Rightarrow> latency_arm \<Rightarrow> bool \<Rightarrow> int option \<times> (rat \<times> rat \<times> rat) option" where
  "latency_slo_cs env incumbent candidate rk treatment enough =
     (if \<not> latency_slo_enabled (de_settings env) then (None, None)
      else (let slo = latency_slo_ms env incumbent candidate rk
            in case (slo, la_mean_ms treatment) of
                 (Some _, Some m) \<Rightarrow>
                   if \<not> enough then (slo, None)
                   else (slo, float_mean_cs (de_fl env) (of_rat (sequential_cs_alpha (de_settings env)))
                           (of_int (sequential_cs_target_n (de_settings env))) (la_requests treatment) m (la_variance treatment))
               | _ \<Rightarrow> (slo, None)))"

record latency_result =
  lr_control_requests :: nat
  lr_treatment_requests :: nat
  lr_control_latency_ms :: "rat option"
  lr_treatment_latency_ms :: "rat option"
  lr_latency_delta_ms :: "rat option"
  lr_slo_ms :: "int option"
  lr_enough_signal :: bool
  lr_regressed :: bool
  lr_slo_breached :: bool

definition evaluate_latency_drift :: "drift_env \<Rightarrow> string \<Rightarrow> string \<Rightarrow> string option \<Rightarrow> latency_result" where
  "evaluate_latency_drift env incumbent candidate rk =
     (let st = de_settings env; (control, treatment) = latency_arms env incumbent candidate rk;
          enough = (min_arm_samples \<le> la_requests control \<and> min_arm_samples \<le> la_requests treatment);
          cs = latency_delta_cs env control treatment enough;
          (slo, slo_cs) = latency_slo_cs env incumbent candidate rk treatment enough
      in \<lparr>lr_control_requests = la_requests control, lr_treatment_requests = la_requests treatment,
          lr_control_latency_ms = round_to 0 (la_mean_ms control), lr_treatment_latency_ms = round_to 0 (la_mean_ms treatment),
          lr_latency_delta_ms = round_to 0 (opt_diff (la_mean_ms treatment) (la_mean_ms control)),
          lr_slo_ms = slo, lr_enough_signal = enough,
          lr_regressed = (latency_guard_enabled st \<and>
            (case cs of None \<Rightarrow> False | Some (_, lo, _) \<Rightarrow> latency_drift_tolerance_ms st < lo)),
          lr_slo_breached = (case (slo, slo_cs) of (Some m, Some (_, lo, _)) \<Rightarrow> of_int m < lo | _ \<Rightarrow> False)\<rparr>)"

section \<open>The sweep\<close>

datatype drift_trigger = Quality_Drift | Latency_Regression | Latency_SLO

definition drift_trigger_of :: "drift_env \<Rightarrow> string \<Rightarrow> string \<Rightarrow> string option \<Rightarrow> drift_trigger option" where
  "drift_trigger_of env incumbent candidate rk =
     (let q = evaluate_drift env incumbent candidate rk; lat = evaluate_latency_drift env incumbent candidate rk
      in if dr_drifted q then Some Quality_Drift
         else if lr_regressed lat then Some Latency_Regression
         else if lr_slo_breached lat then Some Latency_SLO
         else None)"

record system_action =
  sy_recommendation_id :: "uuid option"
  sy_lever :: string
  sy_action_type :: string
  sy_occurred_at :: datetime

record drift_state =
  dx_routing_cache :: policy_cache
  dx_recs :: "recommendation list"
  dx_crs :: "change_request list"
  dx_actions :: "system_action list"

definition log_action :: "drift_env \<Rightarrow> proxy_policy \<Rightarrow> string \<Rightarrow> drift_state \<Rightarrow> drift_state" where
  "log_action env rule kind s =
     s\<lparr>dx_actions := dx_actions s @ [\<lparr>sy_recommendation_id = pp_source_recommendation_id rule, sy_lever = pp_lever rule,
         sy_action_type = kind, sy_occurred_at = de_now env\<rparr>]\<rparr>"

text \<open>The row after the rollback and the new state.\<close>

definition record_rollback :: "drift_env \<Rightarrow> proxy_policy \<Rightarrow> drift_state \<Rightarrow> proxy_policy \<times> drift_state" where
  "record_rollback env rule s =
     (let s1 = (case pp_source_recommendation_id rule of
                  None \<Rightarrow> s
                | Some rid \<Rightarrow>
                    (case find (\<lambda>r. rec_id r = rid) (dx_recs s) of
                       None \<Rightarrow> s
                     | Some rec \<Rightarrow>
                         s\<lparr>dx_recs := map (\<lambda>r. if rec_id r = rid
                              then r\<lparr>rec_status := Rolled_Back, rec_resolved_at := Some (de_now env), rec_updated_at := de_now env\<rparr>
                              else r) (dx_recs s),
                           dx_crs := mark_change_request_rolled_back rec (de_now env) (dx_crs s)\<rparr>))
      in (rule\<lparr>pp_enabled := False\<rparr>, log_action env rule ''rolled_back'' s1))"

definition maybe_promote_canary ::
  "drift_env \<Rightarrow> drift_result \<Rightarrow> latency_result \<Rightarrow> proxy_policy \<Rightarrow> drift_state \<Rightarrow> proxy_policy \<times> drift_state" where
  "maybe_promote_canary env q lat rule s =
     (if \<not> canary_enabled (de_settings env) \<or> fully_live \<le> pp_rollout_percent rule then (rule, s)
      else if \<not> (dr_enough_signal q \<or> lr_enough_signal lat) then (rule, s)
      else (case next_stage (de_settings env) (pp_rollout_percent rule) of
              None \<Rightarrow> (rule, s)
            | Some target \<Rightarrow>
                if target \<le> pp_rollout_percent rule then (rule, s)
                else (rule\<lparr>pp_rollout_percent := target\<rparr>, log_action env rule ''canary_promoted'' s)))"

text \<open>The loop over the entries the policy had at its start.\<close>

fun check_bandit_candidates ::
  "drift_env \<Rightarrow> (string \<times> string option) list \<Rightarrow> proxy_policy \<Rightarrow> drift_state
    \<Rightarrow> (uuid \<times> string \<times> drift_trigger) list \<times> proxy_policy \<times> drift_state" where
  "check_bandit_candidates env [] rule s = ([], rule, s)"
| "check_bandit_candidates env ((candidate, _) # es) rule s =
     (case drift_trigger_of env (incumbent_model rule) candidate (Some (pp_route_key rule)) of
        None \<Rightarrow> check_bandit_candidates env es rule s
      | Some t \<Rightarrow>
          (case remove_bandit_candidate rule candidate of (present, rule') \<Rightarrow>
             if \<not> present then check_bandit_candidates env es rule s
             else (case check_bandit_candidates env es rule'
                          (log_action env rule' ''bandit_candidate_removed''
                            (s\<lparr>dx_routing_cache := clear_policy_cache (Some (pp_project_id rule)) (dx_routing_cache s)\<rparr>)) of
                     (removed, rule'', s') \<Rightarrow> ((pp_id rule, candidate, t) # removed, rule'', s'))))"

definition rule_candidate :: "proxy_policy \<Rightarrow> string option" where
  "rule_candidate rule =
     or_str (if pp_lever rule \<in> set routing_levers then candidate_model rule else Some (incumbent_model rule)) None"

definition check_rule ::
  "drift_env \<Rightarrow> proxy_policy \<Rightarrow> drift_state \<Rightarrow> (uuid \<times> string \<times> drift_trigger) list \<times> proxy_policy \<times> drift_state" where
  "check_rule env rule s =
     (case rule_candidate rule of
        None \<Rightarrow> ([], rule, s)
      | Some candidate \<Rightarrow>
          (let inc = incumbent_model rule; rk = Some (pp_route_key rule)
           in case drift_trigger_of env inc candidate rk of
                Some t \<Rightarrow> (case record_rollback env rule s of (rule', s') \<Rightarrow> ([(pp_id rule, candidate, t)], rule', s'))
              | None \<Rightarrow>
                  (case maybe_promote_canary env (evaluate_drift env inc candidate rk) (evaluate_latency_drift env inc candidate rk) rule s of
                     (rule', s') \<Rightarrow>
                       if pp_lever rule' \<in> set routing_levers \<and> pp_enabled rule'
                       then check_bandit_candidates env (bandit_candidate_entries rule') rule' s'
                       else ([], rule', s'))))"

definition guarded_rule :: "drift_env \<Rightarrow> proxy_policy \<Rightarrow> bool" where
  "guarded_rule env p \<longleftrightarrow>
     pp_project_id p = de_project env \<and> pp_lever p \<in> set (routing_levers @ [lever_token_trim, lever_prompt_compression]) \<and>
     pp_enabled p"

fun sweep_rules ::
  "drift_env \<Rightarrow> proxy_policy list \<Rightarrow> drift_state
    \<Rightarrow> (uuid \<times> string \<times> drift_trigger) list \<times> proxy_policy list \<times> drift_state" where
  "sweep_rules env [] s = ([], [], s)"
| "sweep_rules env (p # ps) s =
     (if guarded_rule env p
      then (case check_rule env p s of (rolled, p', s') \<Rightarrow>
             (case sweep_rules env ps s' of (rolled', ps', s'') \<Rightarrow> (rolled @ rolled', p' # ps', s'')))
      else (case sweep_rules env ps s of (rolled', ps', s'') \<Rightarrow> (rolled', p # ps', s'')))"

text \<open>The sweep of one project, over the policy table and the caches of the hot path.\<close>

definition check_and_rollback_drift ::
  "drift_env \<Rightarrow> exec_state \<Rightarrow> drift_state \<Rightarrow> (uuid \<times> string \<times> drift_trigger) list \<times> exec_state \<times> drift_state" where
  "check_and_rollback_drift env ex s =
     (if \<not> drift_auto_rollback_enabled (de_settings env) then ([], ex, s)
      else (case sweep_rules env (ex_policies ex) (s\<lparr>dx_routing_cache := ex_routing_cache ex\<rparr>) of
              (rolled, ps, s') \<Rightarrow> (rolled, ex\<lparr>ex_policies := ps, ex_routing_cache := dx_routing_cache s'\<rparr>, s')))"

section \<open>What the sweep does to a policy\<close>

lemma remove_bandit_frame:
  "remove_bandit_candidate rule c = (b, rule') \<Longrightarrow>
     pp_id rule' = pp_id rule \<and> pp_enabled rule' = pp_enabled rule \<and> pp_rollout_percent rule' = pp_rollout_percent rule \<and>
     pp_lever rule' = pp_lever rule \<and> pp_project_id rule' = pp_project_id rule"
  by (auto simp: remove_bandit_candidate_def Let_def split: if_splits)

lemma check_bandit_frame:
  "check_bandit_candidates env es rule s = (removed, rule', s') \<Longrightarrow>
     pp_id rule' = pp_id rule \<and> pp_enabled rule' = pp_enabled rule \<and> pp_rollout_percent rule' = pp_rollout_percent rule \<and>
     pp_lever rule' = pp_lever rule \<and> pp_project_id rule' = pp_project_id rule"
proof (induction env es rule s arbitrary: removed rule' s' rule: check_bandit_candidates.induct)
  case (2 env candidate q es rule s)
  show ?case
  proof (cases "drift_trigger_of env (incumbent_model rule) candidate (Some (pp_route_key rule))")
    case None
    show ?thesis by (rule 2(1) [OF None]) (use 2(4) None in simp)
  next
    case (Some t)
    obtain b r where r: "remove_bandit_candidate rule candidate = (b, r)" by fastforce
    show ?thesis
    proof (cases b)
      case False
      show ?thesis by (rule 2(2) [OF Some r [symmetric]]) (use 2(4) Some r False in simp_all)
    next
      case True
      let ?s = "log_action env r ''bandit_candidate_removed''
          (s\<lparr>dx_routing_cache := clear_policy_cache (Some (pp_project_id rule)) (dx_routing_cache s)\<rparr>)"
      obtain rem r2 s2 where rec: "check_bandit_candidates env es r ?s = (rem, r2, s2)" by (metis prod_cases3)
      then have "rule' = r2" using 2(4) Some r True by simp
      then show ?thesis using 2(3) [OF Some r [symmetric] _ rec] True remove_bandit_frame [OF r] by simp
    qed
  qed
qed simp

text \<open>The regression of a policy's own pair.\<close>

definition rule_regression :: "drift_env \<Rightarrow> proxy_policy \<Rightarrow> drift_trigger option" where
  "rule_regression env p =
     (case rule_candidate p of None \<Rightarrow> None
      | Some c \<Rightarrow> drift_trigger_of env (incumbent_model p) c (Some (pp_route_key p)))"

text \<open>The signal on which a canary is ramped up.\<close>

definition rule_has_signal :: "drift_env \<Rightarrow> proxy_policy \<Rightarrow> bool" where
  "rule_has_signal env p \<longleftrightarrow>
     (\<exists>c. rule_candidate p = Some c \<and>
        (dr_enough_signal (evaluate_drift env (incumbent_model p) c (Some (pp_route_key p))) \<or>
         lr_enough_signal (evaluate_latency_drift env (incumbent_model p) c (Some (pp_route_key p)))))"

lemma maybe_promote_frame:
  "maybe_promote_canary env q lat rule s = (rule', s') \<Longrightarrow>
     pp_id rule' = pp_id rule \<and> pp_enabled rule' = pp_enabled rule \<and> pp_lever rule' = pp_lever rule \<and>
     pp_project_id rule' = pp_project_id rule \<and>
     (pp_rollout_percent rule' = pp_rollout_percent rule \<or>
      canary_enabled (de_settings env) \<and> (dr_enough_signal q \<or> lr_enough_signal lat) \<and>
      pp_rollout_percent rule < pp_rollout_percent rule' \<and>
      next_stage (de_settings env) (pp_rollout_percent rule) = Some (pp_rollout_percent rule'))"
  by (auto simp: maybe_promote_canary_def split: if_splits option.splits)

text \<open>How one guarded policy may change.\<close>

definition drift_row :: "drift_env \<Rightarrow> proxy_policy \<Rightarrow> proxy_policy \<Rightarrow> bool" where
  "drift_row env p p' \<longleftrightarrow>
     pp_id p' = pp_id p \<and>
     (pp_enabled p' \<longleftrightarrow> pp_enabled p \<and> \<not> (guarded_rule env p \<and> rule_regression env p \<noteq> None)) \<and>
     (pp_rollout_percent p' = pp_rollout_percent p \<or>
      guarded_rule env p \<and> rule_regression env p = None \<and> rule_has_signal env p \<and> canary_enabled (de_settings env) \<and>
      pp_rollout_percent p < pp_rollout_percent p' \<and>
      next_stage (de_settings env) (pp_rollout_percent p) = Some (pp_rollout_percent p'))"

lemma check_rule_row:
  assumes "guarded_rule env p" "check_rule env p s = (rolled, p', s')"
  shows "drift_row env p p'"
proof (cases "rule_candidate p")
  case None
  then show ?thesis using assms by (simp add: check_rule_def drift_row_def rule_regression_def guarded_rule_def)
next
  case (Some c)
  let ?q = "evaluate_drift env (incumbent_model p) c (Some (pp_route_key p))"
  let ?lat = "evaluate_latency_drift env (incumbent_model p) c (Some (pp_route_key p))"
  have reg: "rule_regression env p = drift_trigger_of env (incumbent_model p) c (Some (pp_route_key p))"
    using Some by (simp add: rule_regression_def)
  have sig: "rule_has_signal env p \<longleftrightarrow> dr_enough_signal ?q \<or> lr_enough_signal ?lat"
    using Some by (simp add: rule_has_signal_def)
  show ?thesis
  proof (cases "drift_trigger_of env (incumbent_model p) c (Some (pp_route_key p))")
    case t: (Some t)
    then show ?thesis
      using assms Some reg by (auto simp: check_rule_def record_rollback_def Let_def drift_row_def)
  next
    case n: None
    obtain r1 s1 where m: "maybe_promote_canary env ?q ?lat p s = (r1, s1)" by fastforce
    note frame = maybe_promote_frame [OF m]
    have "pp_id p' = pp_id r1 \<and> pp_enabled p' = pp_enabled r1 \<and> pp_rollout_percent p' = pp_rollout_percent r1"
      using assms(2) Some n m check_bandit_frame by (fastforce simp: check_rule_def Let_def split: if_splits)
    with frame assms(1) reg n sig show ?thesis by (auto simp: drift_row_def guarded_rule_def)
  qed
qed

lemma sweep_rules_rows: "sweep_rules env ps s = (rolled, ps', s') \<Longrightarrow> list_all2 (drift_row env) ps ps'"
proof (induction ps arbitrary: s rolled ps' s')
  case (Cons p ps)
  show ?case
  proof (cases "guarded_rule env p")
    case True
    obtain r1 p1 s1 where c: "check_rule env p s = (r1, p1, s1)" by (metis prod_cases3)
    then show ?thesis
      using Cons True check_rule_row [OF True c] by (auto split: prod.splits)
  next
    case False
    then have "drift_row env p p" by (simp add: drift_row_def)
    then show ?thesis using Cons False by (auto split: prod.splits)
  qed
qed simp

section \<open>Confidence\<close>

lemma ok_rate_count: "ok_rate rows = Some r \<Longrightarrow> r * of_nat (length rows) = of_nat (ok_count rows)"
  by (auto simp: ok_rate_def split: if_splits)

lemma ok_count_le: "ok_count rows \<le> length rows"
  by (simp add: ok_count_def)

text \<open>The smoothed pass rate of an arm.\<close>

definition smoothed_rate :: "usage_event list \<Rightarrow> real" where
  "smoothed_rate rows = (real (ok_count rows) + 1) / (real (length rows) + 2)"

lemma drifted_confident:
  assumes "dr_drifted (evaluate_drift env incumbent candidate rk)"
    and fl: "mono (de_fl env)" "de_fl env (of_rat (drift_tolerance (de_settings env))) = drift_tolerance (de_settings env)"
    and alpha: "0 < sequential_cs_alpha (de_settings env)" "sequential_cs_alpha (de_settings env) < 1"
  shows "min_arm_samples \<le> length (drift_arm env incumbent candidate rk has_quality arm_control) \<and>
    min_arm_samples \<le> length (drift_arm env incumbent candidate rk has_quality arm_treatment) \<and>
    of_rat (drift_tolerance (de_settings env)) <
      smoothed_rate (drift_arm env incumbent candidate rk has_quality arm_control) -
      smoothed_rate (drift_arm env incumbent candidate rk has_quality arm_treatment)"
proof -
  let ?c = "drift_arm env incumbent candidate rk has_quality arm_control"
  let ?t = "drift_arm env incumbent candidate rk has_quality arm_treatment"
  let ?st = "de_settings env" and ?a = "of_rat (sequential_cs_alpha (de_settings env)) :: real"
  let ?n = "of_int (sequential_cs_target_n (de_settings env)) :: real"
  obtain rc rt where r: "ok_rate ?c = Some rc" "ok_rate ?t = Some rt"
    and enough: "min_arm_samples \<le> length ?c" "min_arm_samples \<le> length ?t"
    and cs: "\<exists>p lo hi. float_rate_cs (de_fl env) ?a ?n (length ?c) (rc * of_nat (length ?c)) (length ?t) (rt * of_nat (length ?t))
        = Some (p, lo, hi) \<and> drift_tolerance ?st < lo"
    using assms(1) unfolding evaluate_drift_def Let_def by (auto split: option.splits if_splits)
  from cs obtain q where q: "rate_difference_confidence_sequence ?a ?n (length ?c) (real (ok_count ?c)) (length ?t) (real (ok_count ?t)) = Some q"
    and lo: "drift_tolerance ?st < de_fl env (cq_lo q)"
    unfolding float_rate_cs_def float_cs_def ok_rate_count [OF r(1)] ok_rate_count [OF r(2)] by auto
  have "of_rat (drift_tolerance ?st) < cq_lo q"
    using lo fl(2) monoD [OF fl(1), of "cq_lo q" "of_rat (drift_tolerance ?st)"] by force
  moreover have a: "0 < ?a" "?a < 1" using alpha by simp_all
  have "cq_lo q < cq_point q \<and> cq_point q = smoothed_rate ?c - smoothed_rate ?t"
  proof -
    from q enough have d: "difference_confidence_sequence ?a ?n (length ?c) (smoothed_rate ?c) (Some (smoothed_rate ?c * (1 - smoothed_rate ?c)))
        (length ?t) (smoothed_rate ?t) (Some (smoothed_rate ?t * (1 - smoothed_rate ?t))) = Some q"
      by (simp add: rate_difference_confidence_sequence_def smoothed_rate_def min_arm_samples_def Let_def)
    show ?thesis
      using difference_cs_lower [OF a d] difference_cs_Some [OF d] by metis
  qed
  ultimately show ?thesis using enough by auto
qed

section \<open>Properties\<close>


text \<open>
  A quality rollback is never the work of a noisy reading: for every significance level between 0 and 1
  and every monotone float rounding that represents the tolerance, a drift verdict means that both arms
  have at least 30 measured responses and that the smoothed pass rate of the control arm exceeds that of
  the treatment arm by more than the tolerance.
\<close>

theorem drift_verdict_is_confident:
  assumes "dr_drifted (evaluate_drift env incumbent candidate rk)"
    and "mono (de_fl env)" "de_fl env (of_rat (drift_tolerance (de_settings env))) = drift_tolerance (de_settings env)"
    and "0 < sequential_cs_alpha (de_settings env)" "sequential_cs_alpha (de_settings env) < 1"
  shows "min_arm_samples \<le> length (drift_arm env incumbent candidate rk has_quality arm_control) \<and>
    min_arm_samples \<le> length (drift_arm env incumbent candidate rk has_quality arm_treatment) \<and>
    of_rat (drift_tolerance (de_settings env)) <
      smoothed_rate (drift_arm env incumbent candidate rk has_quality arm_control) -
      smoothed_rate (drift_arm env incumbent candidate rk has_quality arm_treatment)"
  using drifted_confident [OF assms] .

definition quality_row :: "string \<Rightarrow> bool \<Rightarrow> usage_event" where
  "quality_row arm ok = blank_event\<lparr>ue_metadata := [(''holdback'', JBool True), (''experiment_from'', JStr ''a''),
     (''experiment_to'', JStr ''b''), (''quality_ok'', JBool ok), (''arm'', JStr arm)]\<rparr>"

text \<open>Thirty good control responses against thirty bad treatment responses, at a given tolerance.\<close>

definition sample_drift_env :: "rat \<Rightarrow> drift_env" where
  "sample_drift_env tol = \<lparr>de_settings = default_settings\<lparr>drift_tolerance := tol\<rparr>, de_fl = (\<lambda>x. if x \<le> of_rat tol then tol else tol + 1),
     de_ledger = replicate 30 (quality_row arm_control True) @ replicate 30 (quality_row arm_treatment False),
     de_guardrails = [], de_project = ''project'', de_start = 0, de_now = 0\<rparr>"

lemma sample_drift_arms:
  "drift_arm (sample_drift_env tol) ''a'' ''b'' None has_quality arm_control = replicate 30 (quality_row arm_control True)"
  "drift_arm (sample_drift_env tol) ''a'' ''b'' None has_quality arm_treatment = replicate 30 (quality_row arm_treatment False)"
  by (simp_all add: drift_arm_def sample_drift_env_def filter_replicate quality_row_def blank_event_def has_quality_def meta_text_def
      is_holdback_def specific_route_key_def or_str_def arm_control_def arm_treatment_def)

lemma sample_ok_counts:
  "ok_count (replicate 30 (quality_row arm_control True)) = 30" "ok_count (replicate 30 (quality_row arm_treatment False)) = 0"
  by (simp_all add: ok_count_def filter_replicate quality_row_def meta_text_def)

lemma sample_drifted: "\<exists>tol. dr_drifted (evaluate_drift (sample_drift_env tol) ''a'' ''b'' None)"
proof -
  obtain q where q: "rate_difference_confidence_sequence (of_rat (5 / 100)) 300 30 30 30 0 = Some q"
    using rate_cs_defined [of 30 30 30 0] by auto
  obtain tol :: rat where tol: "of_rat tol < cq_lo q"
    using of_rat_dense [of "cq_lo q - 1" "cq_lo q"] by auto
  have "ok_rate (replicate 30 (quality_row arm_control True)) = Some 1" "ok_rate (replicate 30 (quality_row arm_treatment False)) = Some 0"
    by (simp_all add: ok_rate_def sample_ok_counts)
  then have "dr_drifted (evaluate_drift (sample_drift_env tol) ''a'' ''b'' None)"
    using q tol unfolding evaluate_drift_def Let_def sample_drift_arms
    by (simp add: float_rate_cs_def float_cs_def min_arm_samples_def sample_drift_env_def)
  then show ?thesis by blast
qed

theorem drift_verdict_is_confident_witness:
  "\<exists>tol. dr_drifted (evaluate_drift (sample_drift_env tol) ''a'' ''b'' None) \<and> of_rat tol <
     smoothed_rate (drift_arm (sample_drift_env tol) ''a'' ''b'' None has_quality arm_control) -
     smoothed_rate (drift_arm (sample_drift_env tol) ''a'' ''b'' None has_quality arm_treatment)"
proof -
  obtain tol where d: "dr_drifted (evaluate_drift (sample_drift_env tol) ''a'' ''b'' None)" using sample_drifted by blast
  have "mono (de_fl (sample_drift_env tol))" by (auto simp: sample_drift_env_def intro!: monoI)
  with drift_verdict_is_confident [OF d] d show ?thesis by (auto simp: sample_drift_env_def)
qed

text \<open>
  The rollback does not reach the cached hot path: the sweep disables a trim policy in the table but
  leaves the trim cache as it was, so with the policy cache switched on the next lookup still returns the
  policy, until the entry expires.
\<close>

theorem drift_rollback_leaves_cache:
  assumes "drift_auto_rollback_enabled (de_settings env)" "p \<in> set (ex_policies ex)" "guarded_rule env p"
    and "rule_regression env p \<noteq> None" "proxy_policy_cache_enabled cfg"
    and "ex_trim_cache ex (de_project env, pp_target_key p, rk) = Some (Some p)"
  shows "let ex' = fst (snd (check_and_rollback_drift env ex s))
    in (\<exists>p' \<in> set (ex_policies ex'). pp_id p' = pp_id p \<and> \<not> pp_enabled p') \<and>
       fst (lookup_policy cfg [lever_token_trim] (ex_policies ex') (de_project env) (pp_target_key p) rk (ex_trim_cache ex')) = Some p"
proof -
  let ?ex' = "fst (snd (check_and_rollback_drift env ex s))"
  obtain rolled ps s' where sw: "sweep_rules env (ex_policies ex) (s\<lparr>dx_routing_cache := ex_routing_cache ex\<rparr>) = (rolled, ps, s')"
    by (metis prod_cases3)
  have ex': "ex_policies ?ex' = ps" "ex_trim_cache ?ex' = ex_trim_cache ex"
    using assms(1) sw by (simp_all add: check_and_rollback_drift_def)
  note rows = sweep_rules_rows [OF sw]
  obtain i where i: "i < length (ex_policies ex)" "ex_policies ex ! i = p" using assms(2) by (auto simp: in_set_conv_nth)
  then have "ps ! i \<in> set ps" "drift_row env p (ps ! i)"
    using list_all2_nthD [OF rows i(1)] list_all2_lengthD [OF rows] by simp_all
  then show ?thesis using assms ex' by (auto simp: drift_row_def lookup_policy_def Let_def)
qed

end
