(* ===== verification/Outcomes.thy ===== *)
theory Outcomes
  imports Evidence "HOL-Library.Char_ord" "HOL-Library.List_Lexorder" "HOL-Library.Product_Lexorder"
begin

text \<open>
  \<open>engine/outcomes.py\<close>: decision rows and the feedback on them are summed per segment (route, task, risk,
  model pair, lever) and each segment is graded. Amounts that the code prints are kept as amounts.
  \<open>half_pow\<close> stands for the float power \<open>0.5 ** x\<close> of the decay.
\<close>

record decision_row =
  dr_id :: uuid
  dr_event :: decision_event

record feedback_row =
  fb_project_id :: uuid
  fb_decision_event_id :: "uuid option"
  fb_outcome :: string
  fb_failure_mode :: "string option"
  fb_created_at :: datetime

record segment_key =
  sk_route_key :: string
  sk_task_type :: string
  sk_risk_level :: string
  sk_provider_requested :: string
  sk_model_requested :: string
  sk_provider_chosen :: string
  sk_model_chosen :: string
  sk_lever :: string

definition corrective_outcomes :: "string list" where
  "corrective_outcomes = [''rejected'', ''edited'', ''regenerated'', ''escalated'', ''overridden'']"

definition or_unknown :: "string option \<Rightarrow> string" where
  "or_unknown s = (case or_str s None of None \<Rightarrow> ''unknown'' | Some v \<Rightarrow> v)"

definition row_lever :: "decision_event \<Rightarrow> string option" where
  "row_lever e =
     (case or_str (de_lever e) None of
        Some l \<Rightarrow> Some l
      | None \<Rightarrow>
          if de_cache_status e = Some ''semantic'' then Some ''semantic_cache''
          else if de_cache_status e = Some ''hit'' then Some ''exact_cache''
          else if de_decision_type e = ''cache'' then Some ''cache'' else None)"

definition row_route_key :: "decision_event \<Rightarrow> string" where
  "row_route_key e =
     (if de_route_key e \<noteq> [] then de_route_key e
      else canonical_route_key (rc_feature (de_ctx e)) (rc_workflow (de_ctx e)) (de_request_type e) (rc_task_type (de_ctx e)))"

definition segment_key_of :: "decision_event \<Rightarrow> segment_key option" where
  "segment_key_of e =
     (case row_lever e of
        None \<Rightarrow> None
      | Some lever \<Rightarrow>
          Some \<lparr>sk_route_key = row_route_key e, sk_task_type = or_unknown (rc_task_type (de_ctx e)),
                sk_risk_level = or_unknown (rc_risk_level (de_ctx e)),
                sk_provider_requested = or_unknown (Some (de_provider_requested e)),
                sk_model_requested = or_unknown (Some (de_model_requested e)),
                sk_provider_chosen = or_unknown (Some (de_provider_chosen e)),
                sk_model_chosen = or_unknown (Some (de_model_chosen e)), sk_lever = lever\<rparr>)"

definition decision_savings :: "decision_event \<Rightarrow> decimal option" where
  "decision_savings e =
     (case de_realized_savings_usd e of Some v \<Rightarrow> Some v | None \<Rightarrow> sp_gross_savings (de_savings_proof e))"

definition decay_weight :: "(rat \<Rightarrow> rat) \<Rightarrow> datetime option \<Rightarrow> int option \<Rightarrow> decision_event \<Rightarrow> rat" where
  "decay_weight half_pow now half_life_days e =
     (case (now, half_life_days) of
        (Some t, Some h) \<Rightarrow>
          if h \<le> 0 then 1
          else (let age = max (t - de_created_at e) 0
                in if age < microseconds_per_day then 1
                   else half_pow (of_int age / of_int microseconds_per_day / of_int h))
      | _ \<Rightarrow> 1)"

text \<open>\<open>Counter.update([k])\<close>, with the keys in the order of their first occurrence.\<close>

fun count_up :: "string \<Rightarrow> (string \<times> nat) list \<Rightarrow> (string \<times> nat) list" where
  "count_up k [] = [(k, 1)]"
| "count_up k ((k', n) # c) = (if k = k' then (k', n + 1) # c else (k', n) # count_up k c)"

definition top_counts :: "nat option \<Rightarrow> (string \<times> nat) list \<Rightarrow> (string \<times> nat) list" where
  "top_counts limit c =
     (let items = sort_key (\<lambda>(k, n). (- int n, k)) c
      in case limit of None \<Rightarrow> items | Some l \<Rightarrow> take l items)"

fun pricing_status_text :: "pricing_status \<Rightarrow> string" where
  "pricing_status_text Missing_Token_Counts = ''missing_token_counts''"
| "pricing_status_text Priced = ''priced''"
| "pricing_status_text Model_Not_In_Catalog = ''model_not_in_catalog''"

section \<open>The sums of a segment\<close>

record segment_stats =
  ss_sample_weight :: rat
  ss_measured_savings_weight :: rat
  ss_raw_sample_count :: nat
  ss_raw_measured_savings_count :: nat
  ss_total_gross_savings :: rat
  ss_pricing_statuses :: "(string \<times> nat) list"
  ss_proof_confidences :: "(string \<times> nat) list"
  ss_quality_measured_weight :: rat
  ss_quality_passed_weight :: rat
  ss_raw_quality_measured_count :: nat
  ss_raw_quality_passed_count :: nat
  ss_feedback_weight :: rat
  ss_feedback_decision_weights :: "(uuid \<times> rat) list"
  ss_raw_feedback_count :: nat
  ss_accepted_weight :: rat
  ss_corrective_weight :: rat
  ss_raw_accepted_count :: nat
  ss_raw_corrective_count :: nat
  ss_failure_modes :: "(string \<times> nat) list"

definition empty_stats :: segment_stats where
  "empty_stats =
     \<lparr>ss_sample_weight = 0, ss_measured_savings_weight = 0, ss_raw_sample_count = 0, ss_raw_measured_savings_count = 0,
      ss_total_gross_savings = 0, ss_pricing_statuses = [], ss_proof_confidences = [],
      ss_quality_measured_weight = 0, ss_quality_passed_weight = 0, ss_raw_quality_measured_count = 0,
      ss_raw_quality_passed_count = 0, ss_feedback_weight = 0, ss_feedback_decision_weights = [],
      ss_raw_feedback_count = 0, ss_accepted_weight = 0, ss_corrective_weight = 0, ss_raw_accepted_count = 0,
      ss_raw_corrective_count = 0, ss_failure_modes = []\<rparr>"

definition add_decision :: "decision_event \<Rightarrow> rat \<Rightarrow> segment_stats \<Rightarrow> segment_stats" where
  "add_decision e w s =
     s\<lparr>ss_raw_sample_count := ss_raw_sample_count s + 1, ss_sample_weight := ss_sample_weight s + w,
       ss_raw_measured_savings_count := ss_raw_measured_savings_count s + (if decision_savings e = None then 0 else 1),
       ss_measured_savings_weight := ss_measured_savings_weight s + (if decision_savings e = None then 0 else w),
       ss_total_gross_savings := ss_total_gross_savings s + (case decision_savings e of None \<Rightarrow> 0 | Some v \<Rightarrow> v * w),
       ss_pricing_statuses := count_up (pricing_status_text (ue_pricing_status (de_usage_event e))) (ss_pricing_statuses s),
       ss_proof_confidences := count_up (or_unknown (Some (sp_confidence (de_savings_proof e)))) (ss_proof_confidences s),
       ss_raw_quality_measured_count := ss_raw_quality_measured_count s + (if de_quality_ok e = None then 0 else 1),
       ss_quality_measured_weight := ss_quality_measured_weight s + (if de_quality_ok e = None then 0 else w),
       ss_raw_quality_passed_count := ss_raw_quality_passed_count s + (if de_quality_ok e = Some True then 1 else 0),
       ss_quality_passed_weight := ss_quality_passed_weight s + (if de_quality_ok e = Some True then w else 0)\<rparr>"

fun put_max :: "uuid \<Rightarrow> rat \<Rightarrow> (uuid \<times> rat) list \<Rightarrow> (uuid \<times> rat) list" where
  "put_max d w [] = [(d, max 0 w)]"
| "put_max d w ((d', v) # ws) = (if d = d' then (d', max v w) # ws else (d', v) # put_max d w ws)"

definition add_feedback :: "feedback_row \<Rightarrow> uuid \<Rightarrow> rat \<Rightarrow> segment_stats \<Rightarrow> segment_stats" where
  "add_feedback f decision_id w s =
     (let outcome = or_unknown (Some (fb_outcome f));
          accepted = outcome = ''accepted'';
          corrective = \<not> accepted \<and> outcome \<in> set corrective_outcomes
      in s\<lparr>ss_raw_feedback_count := ss_raw_feedback_count s + 1, ss_feedback_weight := ss_feedback_weight s + w,
           ss_feedback_decision_weights := put_max decision_id w (ss_feedback_decision_weights s),
           ss_raw_accepted_count := ss_raw_accepted_count s + (if accepted then 1 else 0),
           ss_accepted_weight := ss_accepted_weight s + (if accepted then w else 0),
           ss_raw_corrective_count := ss_raw_corrective_count s + (if corrective then 1 else 0),
           ss_corrective_weight := ss_corrective_weight s + (if corrective then w else 0),
           ss_failure_modes := (case or_str (fb_failure_mode f) None of
               None \<Rightarrow> ss_failure_modes s | Some m \<Rightarrow> count_up m (ss_failure_modes s))\<rparr>)"

section \<open>Readiness\<close>

datatype readiness_status = Auto_Apply_Candidate | Is_Recommendable | Quality_Risk | Savings_Unproven | Insufficient_Data

fun readiness_text :: "readiness_status \<Rightarrow> string" where
  "readiness_text Auto_Apply_Candidate = ''auto_apply_candidate''"
| "readiness_text Is_Recommendable = ''recommendable''"
| "readiness_text Quality_Risk = ''quality_risk''"
| "readiness_text Savings_Unproven = ''savings_unproven''"
| "readiness_text Insufficient_Data = ''insufficient_data''"

fun readiness_rank :: "readiness_status \<Rightarrow> nat" where
  "readiness_rank Auto_Apply_Candidate = 0"
| "readiness_rank Is_Recommendable = 1"
| "readiness_rank Quality_Risk = 2"
| "readiness_rank Savings_Unproven = 3"
| "readiness_rank Insufficient_Data = 4"

definition rate_decimal :: "rat \<Rightarrow> rat \<Rightarrow> rat option" where
  "rate_decimal numerator denominator = (if denominator \<le> 0 then None else Some (numerator / denominator))"

definition rate_text :: "rat \<Rightarrow> rat \<Rightarrow> decimal option" where
  "rate_text numerator denominator = map_option (quantize_half_even 4) (rate_decimal numerator denominator)"

definition base_readiness_reasons :: "segment_stats \<Rightarrow> string list" where
  "base_readiness_reasons s =
     blocker (ss_sample_weight s < 5) ''sample_count_insufficient'' @
     blocker (ss_feedback_weight s = 0) ''no_decision_linked_feedback''"

definition savings_proven :: "segment_stats \<Rightarrow> rat option \<Rightarrow> bool" where
  "savings_proven s savings_rate \<longleftrightarrow>
     0 < ss_measured_savings_weight s \<and> 0 < ss_total_gross_savings s \<and>
     (case savings_rate of None \<Rightarrow> False | Some r \<Rightarrow> 8 / 10 \<le> r)"

definition savings_gap_reason :: "segment_stats \<Rightarrow> string" where
  "savings_gap_reason s =
     (if ss_measured_savings_weight s = 0 then ''no_measured_savings''
      else if ss_total_gross_savings s \<le> 0 then ''gross_savings_not_positive''
      else ''savings_measurement_coverage_low'')"

definition below :: "rat option \<Rightarrow> rat \<Rightarrow> bool" where
  "below r t \<longleftrightarrow> (case r of None \<Rightarrow> False | Some v \<Rightarrow> v < t)"

definition quality_risk_reasons :: "segment_stats \<Rightarrow> rat option \<Rightarrow> rat option \<Rightarrow> string list" where
  "quality_risk_reasons s quality_pass_rate acceptance_rate =
     blocker (below quality_pass_rate (98 / 100)) ''quality_pass_rate_low'' @
     blocker (0 < ss_corrective_weight s) ''corrective_feedback_present'' @
     blocker (below acceptance_rate (95 / 100)) ''acceptance_rate_low''"

definition auto_ready :: "segment_stats \<Rightarrow> rat option \<Rightarrow> rat option \<Rightarrow> rat option \<Rightarrow> rat option \<Rightarrow> bool" where
  "auto_ready s savings_rate feedback_coverage_rate quality_pass_rate acceptance_rate \<longleftrightarrow>
     20 \<le> ss_sample_weight s \<and>
     savings_rate \<noteq> None \<and> \<not> below savings_rate (95 / 100) \<and>
     feedback_coverage_rate \<noteq> None \<and> \<not> below feedback_coverage_rate (1 / 2) \<and>
     \<not> below quality_pass_rate (995 / 1000) \<and>
     acceptance_rate \<noteq> None \<and> \<not> below acceptance_rate (99 / 100)"

definition readiness_of ::
  "segment_stats \<Rightarrow> rat option \<Rightarrow> rat option \<Rightarrow> rat option \<Rightarrow> rat option \<Rightarrow> readiness_status \<times> string list" where
  "readiness_of s savings_rate quality_pass_rate feedback_coverage_rate acceptance_rate =
     (let proven = savings_proven s savings_rate;
          quality_reasons = quality_risk_reasons s quality_pass_rate acceptance_rate;
          reason_codes = base_readiness_reasons s @ (if proven then [] else [savings_gap_reason s]) @ quality_reasons
      in if ss_sample_weight s < 5 \<or> ss_feedback_weight s = 0 then (Insufficient_Data, reason_codes)
         else if \<not> proven then (Savings_Unproven, reason_codes)
         else if quality_reasons \<noteq> [] then (Quality_Risk, reason_codes)
         else if auto_ready s savings_rate feedback_coverage_rate quality_pass_rate acceptance_rate
         then (Auto_Apply_Candidate, [])
         else (Is_Recommendable, reason_codes @
                 blocker (below feedback_coverage_rate (2 / 10)) ''feedback_coverage_low_for_auto'' @
                 blocker (ss_sample_weight s < 20) ''sample_count_below_auto_threshold''))"


section \<open>Learning candidates\<close>

record quality_summary =
  qs_measured_count :: int
  qs_passed_count :: int
  qs_failed_count :: int
  qs_raw_measured_count :: nat
  qs_raw_passed_count :: nat
  qs_raw_failed_count :: nat
  qs_weighted_measured_count :: decimal
  qs_weighted_passed_count :: decimal
  qs_pass_rate :: "decimal option"

record feedback_summary =
  fs_feedback_count :: int
  fs_decision_linked_count :: int
  fs_raw_feedback_count :: nat
  fs_raw_decision_linked_count :: nat
  fs_weighted_feedback_count :: decimal
  fs_weighted_decision_linked_count :: decimal
  fs_coverage_rate :: "decimal option"
  fs_accepted_count :: int
  fs_corrective_count :: int
  fs_raw_accepted_count :: nat
  fs_raw_corrective_count :: nat
  fs_weighted_accepted_count :: decimal
  fs_weighted_corrective_count :: decimal
  fs_acceptance_rate :: "decimal option"
  fs_top_failure_modes :: "(string \<times> nat) list"

record learning_candidate =
  lc_segment :: segment_key
  lc_sample_count :: int
  lc_measured_savings_count :: int
  lc_raw_sample_count :: nat
  lc_raw_measured_savings_count :: nat
  lc_weighted_sample_count :: decimal
  lc_weighted_measured_savings_count :: decimal
  lc_savings_measurement_rate :: "decimal option"
  lc_total_gross_savings_usd :: "decimal option"
  lc_average_gross_savings_usd :: "decimal option"
  lc_pricing_statuses :: "(string \<times> nat) list"
  lc_proof_confidences :: "(string \<times> nat) list"
  lc_quality :: quality_summary
  lc_feedback :: feedback_summary
  lc_readiness :: readiness_status
  lc_reason_codes :: "string list"

definition rounded_count :: "rat \<Rightarrow> int" where
  "rounded_count w = \<lfloor>quantize_half_up 0 w\<rfloor>"

definition count_weight :: "rat \<Rightarrow> decimal" where
  "count_weight w = quantize_half_even 4 w"

definition linked_weight :: "segment_stats \<Rightarrow> rat" where
  "linked_weight s = sum_list (map snd (ss_feedback_decision_weights s))"

definition stats_readiness :: "segment_stats \<Rightarrow> readiness_status \<times> string list" where
  "stats_readiness s =
     readiness_of s (rate_decimal (ss_measured_savings_weight s) (ss_sample_weight s))
       (rate_decimal (ss_quality_passed_weight s) (ss_quality_measured_weight s))
       (rate_decimal (linked_weight s) (ss_sample_weight s))
       (rate_decimal (ss_accepted_weight s) (ss_accepted_weight s + ss_corrective_weight s))"

definition stats_quality :: "segment_stats \<Rightarrow> quality_summary" where
  "stats_quality s =
     \<lparr>qs_measured_count = rounded_count (ss_quality_measured_weight s),
      qs_passed_count = rounded_count (ss_quality_passed_weight s),
      qs_failed_count = rounded_count (max (ss_quality_measured_weight s - ss_quality_passed_weight s) 0),
      qs_raw_measured_count = ss_raw_quality_measured_count s,
      qs_raw_passed_count = ss_raw_quality_passed_count s,
      qs_raw_failed_count = ss_raw_quality_measured_count s - ss_raw_quality_passed_count s,
      qs_weighted_measured_count = count_weight (ss_quality_measured_weight s),
      qs_weighted_passed_count = count_weight (ss_quality_passed_weight s),
      qs_pass_rate = rate_text (ss_quality_passed_weight s) (ss_quality_measured_weight s)\<rparr>"

definition stats_feedback :: "segment_stats \<Rightarrow> feedback_summary" where
  "stats_feedback s =
     \<lparr>fs_feedback_count = rounded_count (ss_feedback_weight s),
      fs_decision_linked_count = rounded_count (linked_weight s),
      fs_raw_feedback_count = ss_raw_feedback_count s,
      fs_raw_decision_linked_count = length (ss_feedback_decision_weights s),
      fs_weighted_feedback_count = count_weight (ss_feedback_weight s),
      fs_weighted_decision_linked_count = count_weight (linked_weight s),
      fs_coverage_rate = rate_text (linked_weight s) (ss_sample_weight s),
      fs_accepted_count = rounded_count (ss_accepted_weight s),
      fs_corrective_count = rounded_count (ss_corrective_weight s),
      fs_raw_accepted_count = ss_raw_accepted_count s,
      fs_raw_corrective_count = ss_raw_corrective_count s,
      fs_weighted_accepted_count = count_weight (ss_accepted_weight s),
      fs_weighted_corrective_count = count_weight (ss_corrective_weight s),
      fs_acceptance_rate = rate_text (ss_accepted_weight s) (ss_accepted_weight s + ss_corrective_weight s),
      fs_top_failure_modes = top_counts (Some 10) (ss_failure_modes s)\<rparr>"

definition stats_as_dict :: "segment_key \<Rightarrow> segment_stats \<Rightarrow> learning_candidate" where
  "stats_as_dict key s =
     \<lparr>lc_segment = key, lc_sample_count = rounded_count (ss_sample_weight s),
      lc_measured_savings_count = rounded_count (ss_measured_savings_weight s),
      lc_raw_sample_count = ss_raw_sample_count s,
      lc_raw_measured_savings_count = ss_raw_measured_savings_count s,
      lc_weighted_sample_count = count_weight (ss_sample_weight s),
      lc_weighted_measured_savings_count = count_weight (ss_measured_savings_weight s),
      lc_savings_measurement_rate = rate_text (ss_measured_savings_weight s) (ss_sample_weight s),
      lc_total_gross_savings_usd =
        (if ss_measured_savings_weight s = 0 then None else Some (ss_total_gross_savings s)),
      lc_average_gross_savings_usd = rate_decimal (ss_total_gross_savings s) (ss_measured_savings_weight s),
      lc_pricing_statuses = sort_key fst (ss_pricing_statuses s),
      lc_proof_confidences = top_counts None (ss_proof_confidences s),
      lc_quality = stats_quality s, lc_feedback = stats_feedback s,
      lc_readiness = fst (stats_readiness s), lc_reason_codes = snd (stats_readiness s)\<rparr>"

text \<open>The default dictionary of the segments, in insertion order, and the segment of each decision.\<close>

type_synonym segments = "(segment_key \<times> segment_stats) list"

type_synonym decision_segments = "uuid \<rightharpoonup> segment_key \<times> rat"

fun update_segment :: "segment_key \<Rightarrow> (segment_stats \<Rightarrow> segment_stats) \<Rightarrow> segments \<Rightarrow> segments" where
  "update_segment k f [] = [(k, f empty_stats)]"
| "update_segment k f ((k', s) # segs) = (if k = k' then (k', f s) # segs else (k', s) # update_segment k f segs)"

definition score_decision ::
  "(decision_event \<Rightarrow> rat) \<Rightarrow> decision_row \<Rightarrow> segments \<times> decision_segments \<Rightarrow> segments \<times> decision_segments" where
  "score_decision weight row acc =
     (if \<not> de_optimization_applied (dr_event row) then acc
      else (case segment_key_of (dr_event row) of
              None \<Rightarrow> acc
            | Some key \<Rightarrow>
                (update_segment key (add_decision (dr_event row) (weight (dr_event row))) (fst acc),
                 (snd acc)(dr_id row \<mapsto> (key, weight (dr_event row))))))"

definition score_feedback :: "decision_segments \<Rightarrow> feedback_row \<Rightarrow> segments \<Rightarrow> segments" where
  "score_feedback links f segs =
     (case fb_decision_event_id f of
        None \<Rightarrow> segs
      | Some d \<Rightarrow>
          (case links d of
             None \<Rightarrow> segs
           | Some (key, w) \<Rightarrow> update_segment key (add_feedback f d w) segs))"

definition scored_segments ::
  "(decision_event \<Rightarrow> rat) \<Rightarrow> decision_row list \<Rightarrow> feedback_row list \<Rightarrow> segments" where
  "scored_segments weight decision_rows feedback_rows =
     (let acc = fold (score_decision weight) decision_rows ([], Map.empty)
      in fold (score_feedback (snd acc)) feedback_rows (fst acc))"

definition candidate_order :: "learning_candidate \<Rightarrow> nat \<times> int \<times> rat \<times> string \<times> string" where
  "candidate_order c =
     (readiness_rank (lc_readiness c), - lc_sample_count c,
      - (case lc_total_gross_savings_usd c of None \<Rightarrow> 0 | Some v \<Rightarrow> v),
      sk_task_type (lc_segment c), sk_lever (lc_segment c))"

definition score_optimization_outcomes ::
  "(rat \<Rightarrow> rat) \<Rightarrow> decision_row list \<Rightarrow> feedback_row list \<Rightarrow> nat \<Rightarrow> datetime option \<Rightarrow> int option
    \<Rightarrow> learning_candidate list" where
  "score_optimization_outcomes half_pow decision_rows feedback_rows limit now half_life_days =
     take limit (sort_key candidate_order (map (\<lambda>(key, s). stats_as_dict key s)
       (scored_segments (decay_weight half_pow now half_life_days) decision_rows feedback_rows)))"

text \<open>The advisory prior of a candidate; \<open>show\<close> prints an amount.\<close>

definition prior_of ::
  "(decimal \<Rightarrow> string) \<Rightarrow> string \<Rightarrow> string \<Rightarrow> string list \<Rightarrow> int \<Rightarrow> int \<Rightarrow> decimal option \<Rightarrow> decimal option \<Rightarrow> decimal option
    \<Rightarrow> decimal option \<Rightarrow> outcome_prior" where
  "prior_of show lever status reasons samples measured total_savings average pass_rate acceptance =
     \<lparr>op_lever = or_unknown (Some lever),
      op_readiness_status = (if status = [] then ''insufficient_data'' else status),
      op_sample_count = samples, op_measured_savings_count = measured,
      op_total_gross_savings_usd = map_option show total_savings,
      op_average_gross_savings_usd = map_option show average,
      op_quality_pass_rate = map_option show pass_rate,
      op_feedback_acceptance_rate = map_option show acceptance, op_reason_codes = reasons\<rparr>"

definition outcome_prior_from_learning_candidate :: "(decimal \<Rightarrow> string) \<Rightarrow> learning_candidate \<Rightarrow> outcome_prior" where
  "outcome_prior_from_learning_candidate show c =
     prior_of show (sk_lever (lc_segment c)) (readiness_text (lc_readiness c)) (lc_reason_codes c)
       (lc_sample_count c) (lc_measured_savings_count c) (lc_total_gross_savings_usd c)
       (lc_average_gross_savings_usd c) (qs_pass_rate (lc_quality c)) (fs_acceptance_rate (lc_feedback c))"


section \<open>The evidence of a segment\<close>

text \<open>The specification: the rows of a segment, and the feedback rows on them, straight from the tables.\<close>

definition segment_rows :: "segment_key \<Rightarrow> decision_row list \<Rightarrow> decision_row list" where
  "segment_rows k rows =
     filter (\<lambda>r. de_optimization_applied (dr_event r) \<and> segment_key_of (dr_event r) = Some k) rows"

definition feedback_on :: "decision_row list \<Rightarrow> feedback_row \<Rightarrow> bool" where
  "feedback_on rows f \<longleftrightarrow> (\<exists>r \<in> set rows. fb_decision_event_id f = Some (dr_id r))"

definition segment_at :: "segments \<Rightarrow> segment_key \<Rightarrow> segment_stats" where
  "segment_at segs k = (case map_of segs k of None \<Rightarrow> empty_stats | Some s \<Rightarrow> s)"

lemma segment_at_update [simp]:
  "segment_at (update_segment k f segs) k' = (if k = k' then f (segment_at segs k) else segment_at segs k')"
  by (induction k f segs rule: update_segment.induct) (auto simp: segment_at_def)

lemma update_segment_keys [simp]: "fst ` set (update_segment k f segs) = insert k (fst ` set segs)"
  by (induction k f segs rule: update_segment.induct) auto

lemma update_segment_distinct [simp]: "distinct (map fst segs) \<Longrightarrow> distinct (map fst (update_segment k f segs))"
proof (induction k f segs rule: update_segment.induct)
  case (2 k f k' s segs)
  moreover have "k \<noteq> k' \<Longrightarrow> k' \<notin> fst ` set (update_segment k f segs)" using 2 by simp
  ultimately show ?case by simp
qed simp

definition sum_decisions :: "(decision_event \<Rightarrow> rat) \<Rightarrow> decision_row list \<Rightarrow> segment_stats \<Rightarrow> segment_stats" where
  "sum_decisions weight = fold (\<lambda>r. add_decision (dr_event r) (weight (dr_event r)))"

lemma score_decisions_segment:
  "segment_at (fst (fold (score_decision weight) rows acc)) k =
     sum_decisions weight (segment_rows k rows) (segment_at (fst acc) k)"
  by (induction rows arbitrary: acc)
    (auto simp: sum_decisions_def segment_rows_def score_decision_def split: option.split)

lemma score_decisions_keys:
  "fst ` set (fst (fold (score_decision weight) rows acc)) = fst ` set (fst acc) \<union> {k. segment_rows k rows \<noteq> []}"
  by (induction rows arbitrary: acc) (auto simp: segment_rows_def score_decision_def split: option.splits)

lemma score_decisions_distinct:
  "distinct (map fst (fst acc)) \<Longrightarrow> distinct (map fst (fst (fold (score_decision weight) rows acc)))"
  by (induction rows arbitrary: acc) (simp_all add: score_decision_def split: option.split)

lemma score_decisions_links_other:
  "d \<notin> dr_id ` set rows \<Longrightarrow> snd (fold (score_decision weight) rows acc) d = snd acc d"
  by (induction rows arbitrary: acc) (auto simp: score_decision_def split: option.split)

lemma score_decisions_links:
  "distinct (map dr_id rows) \<Longrightarrow> snd acc d = None \<Longrightarrow>
     snd (fold (score_decision weight) rows acc) d = Some (k, w) \<longleftrightarrow>
       (\<exists>r \<in> set (segment_rows k rows). dr_id r = d \<and> w = weight (dr_event r))"
proof (induction rows arbitrary: acc)
  case (Cons r rows)
  show ?case
  proof (cases "dr_id r = d")
    case True
    then have d: "d \<notin> dr_id ` set rows" using Cons.prems(1) by auto
    then have d': "\<forall>r' \<in> set rows. dr_id r' \<noteq> d" by blast
    have "snd (fold (score_decision weight) (r # rows) acc) d = snd (score_decision weight r acc) d"
      using d by (simp add: score_decisions_links_other)
    moreover have "(\<exists>r' \<in> set (segment_rows k (r # rows)). dr_id r' = d \<and> w = weight (dr_event r')) \<longleftrightarrow>
        r \<in> set (segment_rows k [r]) \<and> w = weight (dr_event r)"
      using d' True by (auto simp: segment_rows_def)
    moreover have "snd (score_decision weight r acc) d = Some (k, w) \<longleftrightarrow>
        r \<in> set (segment_rows k [r]) \<and> w = weight (dr_event r)"
      using True Cons.prems(2) by (auto simp: score_decision_def segment_rows_def split: option.split)
    ultimately show ?thesis by simp
  next
    case False
    then have "snd (score_decision weight r acc) d = None"
      using Cons.prems(2) by (auto simp: score_decision_def split: option.split)
    then show ?thesis using Cons.IH [of "score_decision weight r acc"] Cons.prems(1) False
      by (auto simp: segment_rows_def)
  qed
qed (simp add: segment_rows_def)

definition link_weight :: "decision_segments \<Rightarrow> segment_key \<Rightarrow> feedback_row \<Rightarrow> (uuid \<times> rat) option" where
  "link_weight links k f =
     (case fb_decision_event_id f of
        None \<Rightarrow> None
      | Some d \<Rightarrow> (case links d of None \<Rightarrow> None | Some (k', w) \<Rightarrow> if k' = k then Some (d, w) else None))"

definition sum_feedback :: "(feedback_row \<Rightarrow> (uuid \<times> rat) option) \<Rightarrow> feedback_row list \<Rightarrow> segment_stats \<Rightarrow> segment_stats" where
  "sum_feedback link =
     fold (\<lambda>f s. case link f of None \<Rightarrow> s | Some (d, w) \<Rightarrow> add_feedback f d w s)"

lemma score_feedback_segment:
  "segment_at (fold (score_feedback links) fbs segs) k = sum_feedback (link_weight links k) fbs (segment_at segs k)"
proof (induction fbs arbitrary: segs)
  case (Cons f fbs)
  have "segment_at (score_feedback links f segs) k =
      (case link_weight links k f of None \<Rightarrow> segment_at segs k | Some (d, w) \<Rightarrow> add_feedback f d w (segment_at segs k))"
    by (auto simp: score_feedback_def link_weight_def split: option.split)
  then show ?case using Cons.IH [of "score_feedback links f segs"] by (simp add: sum_feedback_def)
qed (simp add: sum_feedback_def)

lemma score_feedback_keys:
  "\<forall>d k w. links d = Some (k, w) \<longrightarrow> k \<in> fst ` set segs \<Longrightarrow>
     fst ` set (fold (score_feedback links) fbs segs) = fst ` set segs"
proof (induction fbs arbitrary: segs)
  case (Cons f fbs)
  have "fst ` set (score_feedback links f segs) = fst ` set segs"
    using Cons.prems by (auto simp: score_feedback_def insert_absorb split: option.split)
  then show ?case using Cons.IH [of "score_feedback links f segs"] Cons.prems by simp
qed simp

lemma score_feedback_distinct:
  "distinct (map fst segs) \<Longrightarrow> distinct (map fst (fold (score_feedback links) fbs segs))"
  by (induction fbs arbitrary: segs) (simp_all add: score_feedback_def split: option.split)


definition weight_sum :: "(decision_event \<Rightarrow> rat) \<Rightarrow> decision_row list \<Rightarrow> rat" where
  "weight_sum weight rows = (\<Sum>r\<leftarrow>rows. weight (dr_event r))"

definition gross_savings :: "(decision_event \<Rightarrow> rat) \<Rightarrow> decision_row list \<Rightarrow> rat" where
  "gross_savings weight rows =
     (\<Sum>r\<leftarrow>rows. case decision_savings (dr_event r) of None \<Rightarrow> 0 | Some v \<Rightarrow> v * weight (dr_event r))"

definition measured_rows :: "decision_row list \<Rightarrow> decision_row list" where
  "measured_rows rows = filter (\<lambda>r. decision_savings (dr_event r) \<noteq> None) rows"

definition judged_rows :: "decision_row list \<Rightarrow> decision_row list" where
  "judged_rows rows = filter (\<lambda>r. de_quality_ok (dr_event r) \<noteq> None) rows"

definition passed_rows :: "decision_row list \<Rightarrow> decision_row list" where
  "passed_rows rows = filter (\<lambda>r. de_quality_ok (dr_event r) = Some True) rows"

definition linked_rows :: "feedback_row list \<Rightarrow> decision_row list \<Rightarrow> decision_row list" where
  "linked_rows fbs rows = filter (\<lambda>r. \<exists>f \<in> set fbs. fb_decision_event_id f = Some (dr_id r)) rows"

lemma sum_decisions_fields:
  "ss_sample_weight (sum_decisions weight rows s) = ss_sample_weight s + weight_sum weight rows"
  "ss_measured_savings_weight (sum_decisions weight rows s) =
     ss_measured_savings_weight s + weight_sum weight (measured_rows rows)"
  "ss_total_gross_savings (sum_decisions weight rows s) = ss_total_gross_savings s + gross_savings weight rows"
  "ss_quality_measured_weight (sum_decisions weight rows s) =
     ss_quality_measured_weight s + weight_sum weight (judged_rows rows)"
  "ss_quality_passed_weight (sum_decisions weight rows s) =
     ss_quality_passed_weight s + weight_sum weight (passed_rows rows)"
  by (induction rows arbitrary: s)
    (auto simp: sum_decisions_def weight_sum_def gross_savings_def measured_rows_def judged_rows_def passed_rows_def
      add_decision_def)

lemma sum_decisions_feedback [simp]:
  "ss_feedback_weight (sum_decisions weight rows s) = ss_feedback_weight s"
  "ss_feedback_decision_weights (sum_decisions weight rows s) = ss_feedback_decision_weights s"
  "ss_accepted_weight (sum_decisions weight rows s) = ss_accepted_weight s"
  "ss_corrective_weight (sum_decisions weight rows s) = ss_corrective_weight s"
  by (induction rows arbitrary: s) (simp_all add: sum_decisions_def add_decision_def)

lemma add_feedback_decisions [simp]:
  "ss_sample_weight (add_feedback f d w s) = ss_sample_weight s"
  "ss_measured_savings_weight (add_feedback f d w s) = ss_measured_savings_weight s"
  "ss_total_gross_savings (add_feedback f d w s) = ss_total_gross_savings s"
  "ss_quality_measured_weight (add_feedback f d w s) = ss_quality_measured_weight s"
  "ss_quality_passed_weight (add_feedback f d w s) = ss_quality_passed_weight s"
  by (simp_all add: add_feedback_def Let_def)

lemma sum_feedback_Cons:
  "sum_feedback link (f # fbs) s =
     sum_feedback link fbs (case link f of None \<Rightarrow> s | Some (d, w) \<Rightarrow> add_feedback f d w s)"
  by (simp add: sum_feedback_def)

lemma sum_feedback_Nil [simp]: "sum_feedback link [] s = s"
  by (simp add: sum_feedback_def)

lemma sum_feedback_decisions [simp]:
  "ss_sample_weight (sum_feedback link fbs s) = ss_sample_weight s"
  "ss_measured_savings_weight (sum_feedback link fbs s) = ss_measured_savings_weight s"
  "ss_total_gross_savings (sum_feedback link fbs s) = ss_total_gross_savings s"
  "ss_quality_measured_weight (sum_feedback link fbs s) = ss_quality_measured_weight s"
  "ss_quality_passed_weight (sum_feedback link fbs s) = ss_quality_passed_weight s"
  by (induction fbs arbitrary: s) (simp_all add: sum_feedback_Cons split: option.split)

text \<open>The weight that the feedback rows of a kind bring in.\<close>

definition feedback_sum :: "(feedback_row \<Rightarrow> (uuid \<times> rat) option) \<Rightarrow> (feedback_row \<Rightarrow> bool) \<Rightarrow> feedback_row list \<Rightarrow> rat" where
  "feedback_sum link P fbs = (\<Sum>f\<leftarrow>fbs. case link f of Some (d, w) \<Rightarrow> if P f then w else 0 | None \<Rightarrow> 0)"

definition is_accepted :: "feedback_row \<Rightarrow> bool" where
  "is_accepted f \<longleftrightarrow> fb_outcome f = ''accepted''"

definition is_corrective :: "feedback_row \<Rightarrow> bool" where
  "is_corrective f \<longleftrightarrow> fb_outcome f \<in> set corrective_outcomes"

lemma feedback_kinds:
  "or_unknown (Some (fb_outcome f)) = ''accepted'' \<longleftrightarrow> is_accepted f"
  "or_unknown (Some (fb_outcome f)) \<in> set corrective_outcomes \<longleftrightarrow> is_corrective f"
  "is_accepted f \<Longrightarrow> \<not> is_corrective f"
  by (auto simp: or_unknown_def or_str_def is_accepted_def is_corrective_def corrective_outcomes_def)

lemma sum_feedback_weights:
  "ss_feedback_weight (sum_feedback link fbs s) = ss_feedback_weight s + feedback_sum link (\<lambda>_. True) fbs"
  "ss_accepted_weight (sum_feedback link fbs s) = ss_accepted_weight s + feedback_sum link is_accepted fbs"
  "ss_corrective_weight (sum_feedback link fbs s) = ss_corrective_weight s + feedback_sum link is_corrective fbs"
  by (induction fbs arbitrary: s)
    (auto simp: sum_feedback_Cons feedback_sum_def add_feedback_def Let_def feedback_kinds split: option.split)

lemma feedback_sum_nonneg:
  "\<forall>f \<in> set fbs. \<forall>d w. link f = Some (d, w) \<longrightarrow> 0 < w \<Longrightarrow> 0 \<le> feedback_sum link P fbs"
  unfolding feedback_sum_def by (rule sum_list_nonneg) (fastforce split: option.splits prod.splits if_splits)

lemma feedback_sum_pos:
  assumes "\<forall>f \<in> set fbs. \<forall>d w. link f = Some (d, w) \<longrightarrow> 0 < w"
  shows "0 < feedback_sum link P fbs \<longleftrightarrow> (\<exists>f \<in> set fbs. link f \<noteq> None \<and> P f)"
  using assms
proof (induction fbs)
  case (Cons f fbs)
  have "0 \<le> feedback_sum link P fbs" using Cons.prems by (simp add: feedback_sum_nonneg)
  moreover have "feedback_sum link P (f # fbs) =
      (case link f of Some (d, w) \<Rightarrow> if P f then w else 0 | None \<Rightarrow> 0) + feedback_sum link P fbs"
    by (simp add: feedback_sum_def)
  moreover have "0 < (case link f of Some (d, w) \<Rightarrow> if P f then w else 0 | None \<Rightarrow> 0)"
    if "link f \<noteq> None" "P f" using Cons.prems that by auto
  moreover have "(case link f of Some (d, w) \<Rightarrow> if P f then w else 0 | None \<Rightarrow> 0) = 0"
    if "link f = None \<or> \<not> P f" using that by (auto split: option.split)
  moreover have "0 < feedback_sum link P fbs \<longleftrightarrow> (\<exists>f \<in> set fbs. link f \<noteq> None \<and> P f)"
    using Cons by simp
  ultimately show ?case by (cases "link f \<noteq> None \<and> P f") (auto simp del: not_None_eq)
qed (simp add: feedback_sum_def)


lemma put_max_keys [simp]: "fst ` set (put_max d w ws) = insert d (fst ` set ws)"
  by (induction d w ws rule: put_max.induct) auto

lemma put_max_distinct [simp]: "distinct (map fst ws) \<Longrightarrow> distinct (map fst (put_max d w ws))"
proof (induction d w ws rule: put_max.induct)
  case (2 d w d' v ws)
  moreover have "d \<noteq> d' \<Longrightarrow> d' \<notin> fst ` set (put_max d w ws)" using 2 by simp
  ultimately show ?case by simp
qed simp

lemma put_max_values:
  "\<forall>x \<in> set ws. snd x = g (fst x) \<Longrightarrow> 0 < g d \<Longrightarrow> \<forall>x \<in> set (put_max d (g d) ws). snd x = g (fst x)"
  by (induction d "g d" ws rule: put_max.induct) auto

lemma sum_feedback_linked:
  assumes "\<forall>f \<in> set fbs. \<forall>d w. link f = Some (d, w) \<longrightarrow> w = g d \<and> 0 < g d"
    and "distinct (map fst (ss_feedback_decision_weights s))"
    and "\<forall>x \<in> set (ss_feedback_decision_weights s). snd x = g (fst x)"
  shows "distinct (map fst (ss_feedback_decision_weights (sum_feedback link fbs s))) \<and>
    (\<forall>x \<in> set (ss_feedback_decision_weights (sum_feedback link fbs s)). snd x = g (fst x)) \<and>
    fst ` set (ss_feedback_decision_weights (sum_feedback link fbs s)) =
      fst ` set (ss_feedback_decision_weights s) \<union> {d. \<exists>f \<in> set fbs. \<exists>w. link f = Some (d, w)}"
  using assms
proof (induction fbs arbitrary: s)
  case (Cons f fbs)
  show ?case
  proof (cases "link f")
    case None
    have "\<forall>f \<in> set fbs. \<forall>d w. link f = Some (d, w) \<longrightarrow> w = g d \<and> 0 < g d"
      using Cons.prems(1) by (meson list.set_intros(2))
    from Cons.IH [OF this Cons.prems(2,3)] show ?thesis using None by (simp add: sum_feedback_Cons)
  next
    case (Some x)
    then obtain d where f: "link f = Some (d, g d)" "0 < g d" using Cons.prems(1) by (cases x) auto
    let ?s = "add_feedback f d (g d) s"
    have w: "ss_feedback_decision_weights ?s = put_max d (g d) (ss_feedback_decision_weights s)"
      by (simp add: add_feedback_def Let_def)
    have "{d. \<exists>f' \<in> set (f # fbs). \<exists>w. link f' = Some (d, w)} = insert d {d. \<exists>f \<in> set fbs. \<exists>w. link f = Some (d, w)}"
      using f(1) by auto
    moreover have d: "distinct (map fst (ss_feedback_decision_weights ?s))"
      and v: "\<forall>x \<in> set (ss_feedback_decision_weights ?s). snd x = g (fst x)"
      using Cons.prems f put_max_values [of "ss_feedback_decision_weights s" g d] by (simp_all add: w)
    have "\<forall>f \<in> set fbs. \<forall>d w. link f = Some (d, w) \<longrightarrow> w = g d \<and> 0 < g d"
      using Cons.prems(1) by (meson list.set_intros(2))
    note Cons.IH [OF this d v]
    ultimately show ?thesis using f(1) by (simp add: sum_feedback_Cons w)
  qed
qed simp

lemma linked_weight_sum:
  assumes "distinct (map fst (ss_feedback_decision_weights s))"
    and "\<forall>x \<in> set (ss_feedback_decision_weights s). snd x = g (fst x)"
  shows "linked_weight s = sum g (fst ` set (ss_feedback_decision_weights s))"
proof -
  have "map snd (ss_feedback_decision_weights s) = map g (map fst (ss_feedback_decision_weights s))"
    using assms(2) by simp
  then have "linked_weight s = sum_list (map g (map fst (ss_feedback_decision_weights s)))"
    by (simp only: linked_weight_def)
  then show ?thesis using sum_list_distinct_conv_sum_set [OF assms(1), of g] by simp
qed

lemma weight_sum_ids:
  assumes "distinct (map dr_id rows)" "\<forall>r \<in> set rows. g (dr_id r) = weight (dr_event r)"
  shows "weight_sum weight rows = sum g (dr_id ` set rows)"
proof -
  have "map (\<lambda>r. weight (dr_event r)) rows = map g (map dr_id rows)" using assms(2) by simp
  then have "weight_sum weight rows = sum_list (map g (map dr_id rows))" by (simp only: weight_sum_def)
  then show ?thesis using sum_list_distinct_conv_sum_set [OF assms(1), of g] by simp
qed


text \<open>The sums of a scored segment, over its own rows and the feedback on them.\<close>

lemma scored_segment_sums:
  assumes ids: "distinct (map dr_id rows)" and pos: "\<forall>r \<in> set rows. 0 < weight (dr_event r)"
    and k: "(k, s) \<in> set (scored_segments weight rows fbs)"
  defines "D \<equiv> segment_rows k rows"
  shows "D \<noteq> []"
    "ss_sample_weight s = weight_sum weight D"
    "ss_measured_savings_weight s = weight_sum weight (measured_rows D)"
    "ss_total_gross_savings s = gross_savings weight D"
    "ss_quality_measured_weight s = weight_sum weight (judged_rows D)"
    "ss_quality_passed_weight s = weight_sum weight (passed_rows D)"
    "linked_weight s = weight_sum weight (linked_rows fbs D)"
    "ss_feedback_weight s = 0 \<longleftrightarrow> \<not> (\<exists>f \<in> set fbs. feedback_on D f)"
    "0 \<le> ss_accepted_weight s"
    "0 < ss_accepted_weight s \<longleftrightarrow> (\<exists>f \<in> set fbs. feedback_on D f \<and> is_accepted f)"
    "0 \<le> ss_corrective_weight s"
    "0 < ss_corrective_weight s \<longleftrightarrow> (\<exists>f \<in> set fbs. feedback_on D f \<and> is_corrective f)"
proof -
  define acc where "acc = fold (score_decision weight) rows ([], Map.empty)"
  define link where "link = link_weight (snd acc) k"
  define g where "g = (\<lambda>d. snd (the (snd acc d)))"
  have links: "snd acc d = Some (k', w) \<longleftrightarrow> (\<exists>r \<in> set (segment_rows k' rows). dr_id r = d \<and> w = weight (dr_event r))" for d k' w
    unfolding acc_def by (rule score_decisions_links [OF ids]) simp
  have keys: "fst ` set (fst acc) = {k. segment_rows k rows \<noteq> []}"
    unfolding acc_def by (simp add: score_decisions_keys)
  have "\<forall>d k w. snd acc d = Some (k, w) \<longrightarrow> k \<in> fst ` set (fst acc)"
    using links by (fastforce simp: keys)
  then have "fst ` set (scored_segments weight rows fbs) = {k. segment_rows k rows \<noteq> []}"
    by (simp add: scored_segments_def Let_def acc_def [symmetric] score_feedback_keys keys)
  moreover have "k \<in> fst ` set (scored_segments weight rows fbs)" using k by force
  ultimately show "D \<noteq> []" by (simp add: D_def)
  have "distinct (map fst (fst acc))" unfolding acc_def by (rule score_decisions_distinct) simp
  then have "distinct (map fst (scored_segments weight rows fbs))"
    by (simp add: scored_segments_def Let_def acc_def [symmetric] score_feedback_distinct)
  then have "s = segment_at (scored_segments weight rows fbs) k"
    using k by (simp add: segment_at_def)
  moreover have "segment_at (fst acc) k = sum_decisions weight D empty_stats"
    by (simp add: acc_def score_decisions_segment D_def) (simp add: segment_at_def)
  ultimately have s: "s = sum_feedback link fbs (sum_decisions weight D empty_stats)"
    by (simp add: scored_segments_def Let_def acc_def [symmetric] score_feedback_segment link_def)
  show "ss_sample_weight s = weight_sum weight D"
    "ss_measured_savings_weight s = weight_sum weight (measured_rows D)"
    "ss_total_gross_savings s = gross_savings weight D"
    "ss_quality_measured_weight s = weight_sum weight (judged_rows D)"
    "ss_quality_passed_weight s = weight_sum weight (passed_rows D)"
    by (simp_all add: s sum_decisions_fields empty_stats_def)
  have D: "r \<in> set rows" if "r \<in> set D" for r using that by (simp add: D_def segment_rows_def)
  have link: "link f = Some (d, w) \<longleftrightarrow>
      (\<exists>r \<in> set D. fb_decision_event_id f = Some (dr_id r) \<and> d = dr_id r \<and> w = weight (dr_event r))" for f d w
  proof -
    have "link f = Some (d, w) \<longleftrightarrow> fb_decision_event_id f = Some d \<and> snd acc d = Some (k, w)"
      by (auto simp: link_def link_weight_def split: option.split)
    then show ?thesis unfolding links D_def by blast
  qed
  have g: "g (dr_id r) = weight (dr_event r)" if "r \<in> set D" for r
    using links [of "dr_id r" k "weight (dr_event r)"] that by (auto simp: g_def D_def)
  have linked: "link f \<noteq> None \<longleftrightarrow> feedback_on D f" for f
  proof -
    have "link f \<noteq> None \<longleftrightarrow> (\<exists>d w. link f = Some (d, w))" by auto
    then show ?thesis unfolding link feedback_on_def by blast
  qed
  have gp: "\<forall>f \<in> set fbs. \<forall>d w. link f = Some (d, w) \<longrightarrow> w = g d \<and> 0 < g d"
    using pos by (auto simp: link g dest: D)
  then have wp: "\<forall>f \<in> set fbs. \<forall>d w. link f = Some (d, w) \<longrightarrow> 0 < w" by auto
  note w = feedback_sum_pos [OF wp] feedback_sum_nonneg [OF wp]
  show "ss_feedback_weight s = 0 \<longleftrightarrow> \<not> (\<exists>f \<in> set fbs. feedback_on D f)"
    using w(1) [of "\<lambda>_. True"] w(2) [of "\<lambda>_. True"]
    by (simp add: s sum_feedback_weights empty_stats_def linked order.order_iff_strict del: not_None_eq) auto
  show "0 \<le> ss_accepted_weight s" "0 \<le> ss_corrective_weight s"
    "0 < ss_accepted_weight s \<longleftrightarrow> (\<exists>f \<in> set fbs. feedback_on D f \<and> is_accepted f)"
    "0 < ss_corrective_weight s \<longleftrightarrow> (\<exists>f \<in> set fbs. feedback_on D f \<and> is_corrective f)"
    using w by (simp_all add: s sum_feedback_weights empty_stats_def linked del: not_None_eq)
  let ?ws = "ss_feedback_decision_weights s"
  have ws: "distinct (map fst ?ws)" "\<forall>x \<in> set ?ws. snd x = g (fst x)"
      "fst ` set ?ws = {d. \<exists>f \<in> set fbs. \<exists>w. link f = Some (d, w)}"
    using sum_feedback_linked [OF gp, of "sum_decisions weight D empty_stats"]
    by (simp_all add: s empty_stats_def)
  have "fst ` set ?ws = dr_id ` set (linked_rows fbs D)"
    unfolding ws(3) link by (auto simp: linked_rows_def)
  moreover have "distinct (map dr_id (linked_rows fbs D))"
    using ids by (simp add: D_def linked_rows_def segment_rows_def distinct_map_filter)
  moreover have "\<forall>r \<in> set (linked_rows fbs D). g (dr_id r) = weight (dr_event r)"
    by (simp add: linked_rows_def g)
  ultimately show "linked_weight s = weight_sum weight (linked_rows fbs D)"
    using linked_weight_sum [OF ws(1,2)] weight_sum_ids by metis
qed


lemma scored_candidate:
  assumes "c \<in> set (score_optimization_outcomes half_pow rows fbs limit now half_life)"
  obtains s where "(lc_segment c, s) \<in> set (scored_segments (decay_weight half_pow now half_life) rows fbs)"
    "c = stats_as_dict (lc_segment c) s"
  using assms by (auto simp: score_optimization_outcomes_def stats_as_dict_def dest!: in_set_takeD)

lemma decay_weight_pos: "\<forall>x. 0 < half_pow x \<Longrightarrow> 0 < decay_weight half_pow now half_life e"
  by (simp add: decay_weight_def Let_def split: option.split)

lemma blocker_Nil [simp]: "blocker b r = [] \<longleftrightarrow> \<not> b"
  by (simp add: blocker_def)

lemma rate_decimal_below: "0 \<le> n \<Longrightarrow> 0 \<le> d \<Longrightarrow> \<not> below (rate_decimal n d) t \<longleftrightarrow> d = 0 \<or> t * d \<le> n"
  by (auto simp: below_def rate_decimal_def field_simps)

text \<open>What the thresholds of the two ready tiers demand, as inequalities between sums.\<close>

definition clears_bar :: "rat \<Rightarrow> rat \<Rightarrow> rat \<Rightarrow> segment_stats \<Rightarrow> bool" where
  "clears_bar samples savings quality s \<longleftrightarrow>
     samples \<le> ss_sample_weight s \<and> savings * ss_sample_weight s \<le> ss_measured_savings_weight s \<and>
     (ss_quality_measured_weight s = 0 \<or> quality * ss_quality_measured_weight s \<le> ss_quality_passed_weight s)"

definition nonneg_stats :: "segment_stats \<Rightarrow> bool" where
  "nonneg_stats s \<longleftrightarrow>
     0 \<le> ss_sample_weight s \<and> 0 \<le> ss_measured_savings_weight s \<and> 0 \<le> ss_quality_passed_weight s \<and>
     0 \<le> ss_quality_measured_weight s \<and> 0 \<le> linked_weight s \<and> 0 \<le> ss_accepted_weight s \<and> 0 \<le> ss_corrective_weight s"

lemma quality_risk_reasons_Nil:
  assumes "nonneg_stats s"
  shows "quality_risk_reasons s (rate_decimal (ss_quality_passed_weight s) (ss_quality_measured_weight s))
      (rate_decimal (ss_accepted_weight s) (ss_accepted_weight s + ss_corrective_weight s)) = [] \<longleftrightarrow>
    (ss_quality_measured_weight s = 0 \<or> 98 / 100 * ss_quality_measured_weight s \<le> ss_quality_passed_weight s) \<and>
    ss_corrective_weight s = 0"
  using assms by (auto simp: quality_risk_reasons_def rate_decimal_below nonneg_stats_def)

lemma savings_proven_iff:
  "nonneg_stats s \<Longrightarrow> savings_proven s (rate_decimal (ss_measured_savings_weight s) (ss_sample_weight s)) \<longleftrightarrow>
     0 < ss_sample_weight s \<and> 0 < ss_measured_savings_weight s \<and> 0 < ss_total_gross_savings s \<and>
     8 / 10 * ss_sample_weight s \<le> ss_measured_savings_weight s"
  by (auto simp: savings_proven_def rate_decimal_def field_simps nonneg_stats_def)

lemma auto_ready_iff:
  assumes "nonneg_stats s" "ss_corrective_weight s = 0"
  shows "auto_ready s (rate_decimal (ss_measured_savings_weight s) (ss_sample_weight s))
      (rate_decimal (linked_weight s) (ss_sample_weight s))
      (rate_decimal (ss_quality_passed_weight s) (ss_quality_measured_weight s))
      (rate_decimal (ss_accepted_weight s) (ss_accepted_weight s + ss_corrective_weight s)) \<longleftrightarrow>
    clears_bar 20 (95 / 100) (995 / 1000) s \<and> 1 / 2 * ss_sample_weight s \<le> linked_weight s \<and> 0 < ss_accepted_weight s"
  using assms
  by (auto simp: auto_ready_def rate_decimal_below nonneg_stats_def clears_bar_def)
    (auto simp: rate_decimal_def split: if_splits)

lemma ready_iff:
  assumes "nonneg_stats s"
  shows "fst (stats_readiness s) \<in> {Auto_Apply_Candidate, Is_Recommendable} \<longleftrightarrow>
    clears_bar 5 (8 / 10) (98 / 100) s \<and> 0 < ss_measured_savings_weight s \<and> 0 < ss_total_gross_savings s \<and>
    ss_feedback_weight s \<noteq> 0 \<and> ss_corrective_weight s = 0"
  using assms
  by (auto simp: stats_readiness_def readiness_of_def Let_def savings_proven_iff quality_risk_reasons_Nil clears_bar_def)

lemma auto_iff:
  assumes "nonneg_stats s"
  shows "fst (stats_readiness s) = Auto_Apply_Candidate \<longleftrightarrow>
    fst (stats_readiness s) \<in> {Auto_Apply_Candidate, Is_Recommendable} \<and>
    clears_bar 20 (95 / 100) (995 / 1000) s \<and> 1 / 2 * ss_sample_weight s \<le> linked_weight s \<and> 0 < ss_accepted_weight s"
proof -
  define sr qr cr ar where "sr = rate_decimal (ss_measured_savings_weight s) (ss_sample_weight s)"
    and "qr = rate_decimal (ss_quality_passed_weight s) (ss_quality_measured_weight s)"
    and "cr = rate_decimal (linked_weight s) (ss_sample_weight s)"
    and "ar = rate_decimal (ss_accepted_weight s) (ss_accepted_weight s + ss_corrective_weight s)"
  note rates = this
  have "quality_risk_reasons s qr ar = [] \<Longrightarrow> ss_corrective_weight s = 0"
    using quality_risk_reasons_Nil [OF assms] by (simp add: rates)
  moreover have "ss_corrective_weight s = 0 \<Longrightarrow> auto_ready s sr cr qr ar \<longleftrightarrow>
      clears_bar 20 (95 / 100) (995 / 1000) s \<and> 1 / 2 * ss_sample_weight s \<le> linked_weight s \<and> 0 < ss_accepted_weight s"
    unfolding rates by (rule auto_ready_iff [OF assms])
  moreover have "stats_readiness s = readiness_of s sr qr cr ar" by (simp add: stats_readiness_def rates)
  ultimately show ?thesis by (auto simp: readiness_of_def Let_def)
qed


lemma weight_sum_nonneg: "\<forall>r \<in> set rows. 0 < weight (dr_event r) \<Longrightarrow> 0 \<le> weight_sum weight rows"
  unfolding weight_sum_def by (rule sum_list_nonneg) fastforce

lemma scored_segment_nonneg:
  assumes ids: "distinct (map dr_id rows)" and pos: "\<forall>r \<in> set rows. 0 < weight (dr_event r)"
    and k: "(k, s) \<in> set (scored_segments weight rows fbs)"
  shows "nonneg_stats s"
proof -
  have "0 \<le> weight_sum weight (filter P (segment_rows k rows))" for P
    using pos by (intro weight_sum_nonneg) (simp add: segment_rows_def)
  then show ?thesis using scored_segment_sums [OF assms] pos
    by (simp add: nonneg_stats_def measured_rows_def judged_rows_def passed_rows_def linked_rows_def)
      (simp add: segment_rows_def weight_sum_nonneg)
qed

section \<open>Properties\<close>

definition evidence_bar ::
  "(decision_event \<Rightarrow> rat) \<Rightarrow> rat \<Rightarrow> rat \<Rightarrow> rat \<Rightarrow> decision_row list \<Rightarrow> bool" where
  "evidence_bar weight samples savings quality D \<longleftrightarrow>
     samples \<le> weight_sum weight D \<and> savings * weight_sum weight D \<le> weight_sum weight (measured_rows D) \<and>
     (weight_sum weight (judged_rows D) = 0 \<or>
      quality * weight_sum weight (judged_rows D) \<le> weight_sum weight (passed_rows D))"

text \<open>
  C23. A path is called ready exactly when its evidence clears the bar. For every scored segment, with the
  decayed weights of its own optimized decisions and the feedback on them: it is recommendable or better
  iff it has 5 weighted samples, positive measured savings on 80% of them, a 98% quality pass rate where
  quality was judged, some feedback and not one corrective signal; it is an automation candidate iff
  moreover it has 20 samples, 95% measured, 99.5% passing, half of them with feedback and an acceptance.
\<close>

theorem readiness_is_evidence:
  assumes "distinct (map dr_id rows)" "\<forall>x. 0 < half_pow x"
    and "c \<in> set (score_optimization_outcomes half_pow rows fbs limit now half_life)"
  shows "let weight = decay_weight half_pow now half_life; D = segment_rows (lc_segment c) rows;
      ready = evidence_bar weight 5 (8 / 10) (98 / 100) D \<and> 0 < weight_sum weight (measured_rows D) \<and>
        0 < gross_savings weight D \<and> (\<exists>f \<in> set fbs. feedback_on D f) \<and>
        \<not> (\<exists>f \<in> set fbs. feedback_on D f \<and> is_corrective f)
    in D \<noteq> [] \<and>
       (lc_readiness c \<in> {Auto_Apply_Candidate, Is_Recommendable} \<longleftrightarrow> ready) \<and>
       (lc_readiness c = Auto_Apply_Candidate \<longleftrightarrow> ready \<and> evidence_bar weight 20 (95 / 100) (995 / 1000) D \<and>
          1 / 2 * weight_sum weight D \<le> weight_sum weight (linked_rows fbs D) \<and>
          (\<exists>f \<in> set fbs. feedback_on D f \<and> is_accepted f))"
proof -
  let ?w = "decay_weight half_pow now half_life" and ?D = "segment_rows (lc_segment c) rows"
  obtain s where s: "(lc_segment c, s) \<in> set (scored_segments ?w rows fbs)" "c = stats_as_dict (lc_segment c) s"
    using assms(3) by (rule scored_candidate)
  have pos: "\<forall>r \<in> set rows. 0 < ?w (dr_event r)" using assms(2) by (simp add: decay_weight_pos)
  note sums = scored_segment_sums [OF assms(1) pos s(1)]
  have nn: "nonneg_stats s" by (rule scored_segment_nonneg [OF assms(1) pos s(1)])
  have r: "lc_readiness c = fst (stats_readiness s)" by (subst s(2)) (simp add: stats_as_dict_def)
  have bar: "clears_bar a b q s \<longleftrightarrow> evidence_bar ?w a b q ?D" for a b q
    by (simp add: clears_bar_def evidence_bar_def sums)
  have corr: "ss_corrective_weight s = 0 \<longleftrightarrow> \<not> (\<exists>f \<in> set fbs. feedback_on ?D f \<and> is_corrective f)"
    using sums(11,12) by linarith
  show ?thesis
    using ready_iff [OF nn] auto_iff [OF nn] sums(1)
    by (simp only: Let_def r bar corr sums(2-4,7,8,10)) blast
qed


section \<open>A concrete segment\<close>

definition sample_routed_decision :: decision_event where
  "sample_routed_decision =
     \<lparr>de_organization_id = ''o'', de_project_id = ''p'', de_usage_event = blank_event, de_api_key_id = ''k'',
      de_request_id = ''q'', de_provider_requested = ''openai'', de_model_requested = ''a'',
      de_client_dialect = ''openai'', de_request_type = None, de_ctx = empty_context, de_route_key = ''chat'',
      de_prefix_hash = None, de_request_fingerprint = None, de_decision_type = ''route'',
      de_lever = Some ''model_downshift'', de_policy_id = None, de_source_recommendation_id = None, de_arm = None,
      de_optimization_applied = True, de_bypassed = False, de_bypass_reason = None, de_cache_status = None,
      de_fallback_used = False, de_fallback_reason = None, de_route_eligible = None, de_route_ineligible_reason = None,
      de_provider_chosen = ''openai'', de_model_chosen = ''b'', de_provider_counterfactual = None,
      de_model_counterfactual = None, de_realized_naive_cost_usd = None, de_realized_actual_cost_usd = None,
      de_realized_savings_usd = Some 1, de_quality_ok = Some True, de_latency_ms = None, de_plan = None,
      de_runtime_trace = [],
      de_savings_proof = \<lparr>sp_method = ''m'', sp_baseline_cost = None, sp_actual_cost = None, sp_gross_savings = None,
        sp_overhead_cost = None, sp_net_savings = None, sp_confidence = ''high'', sp_quality_status = ''passed'',
        sp_pricing_status = Priced, sp_cost_source = Unknown_Cost, sp_price_version_id = None, sp_reason_codes = []\<rparr>,
      de_created_at = 0\<rparr>"

definition sample_decisions :: "nat \<Rightarrow> decision_row list" where
  "sample_decisions n = map (\<lambda>i. \<lparr>dr_id = replicate i CHR ''x'', dr_event = sample_routed_decision\<rparr>) [0 ..< n]"

definition sample_feedback :: "string \<Rightarrow> nat \<Rightarrow> feedback_row" where
  "sample_feedback outcome i = \<lparr>fb_project_id = ''p'', fb_decision_event_id = Some (replicate i CHR ''x''), fb_outcome = outcome,
     fb_failure_mode = None, fb_created_at = 0\<rparr>"

definition sample_scores :: "feedback_row list \<Rightarrow> learning_candidate list" where
  "sample_scores fbs = score_optimization_outcomes (\<lambda>_. 1 / 2) (sample_decisions 20) fbs 10 (Some 0) (Some 14)"

lemma sample_scores_auto:
  "map lc_readiness (sample_scores (map (sample_feedback ''accepted'') [0 ..< 10])) = [Auto_Apply_Candidate]"
  by code_simp

lemma sample_scores_rejected:
  "map lc_readiness (sample_scores (map (sample_feedback ''accepted'') [0 ..< 10] @ [sample_feedback ''rejected'' 15])) =
     [Quality_Risk]"
  by code_simp


lemma sample_decisions_distinct: "distinct (map dr_id (sample_decisions n))"
  by (simp add: sample_decisions_def comp_def distinct_map inj_on_def)

theorem readiness_is_evidence_witness:
  "\<exists>c \<in> set (sample_scores (map (sample_feedback ''accepted'') [0 ..< 10])).
     lc_readiness c = Auto_Apply_Candidate \<and>
     evidence_bar (decay_weight (\<lambda>_. 1 / 2) (Some 0) (Some 14)) 20 (95 / 100) (995 / 1000)
       (segment_rows (lc_segment c) (sample_decisions 20))"
proof -
  let ?fbs = "map (sample_feedback ''accepted'') [0 ..< 10]"
  obtain c where c: "sample_scores ?fbs = [c]" "lc_readiness c = Auto_Apply_Candidate"
    using sample_scores_auto by (auto simp: map_eq_Cons_conv)
  then have "c \<in> set (score_optimization_outcomes (\<lambda>_. 1 / 2) (sample_decisions 20) ?fbs 10 (Some 0) (Some 14))"
    by (simp add: sample_scores_def)
  from readiness_is_evidence [OF sample_decisions_distinct _ this] c show ?thesis by (simp add: Let_def)
qed

text \<open>
  The list of candidates is sorted from the readiest on and cut at the limit; what is cut off is nowhere
  before what is kept. The learning sweep uses the default limit of 10, so a project's priors, and with
  them the bandit's statistics, never cover more than 10 segments.
\<close>

theorem scores_sorted_and_cut:
  "let segs = scored_segments (decay_weight half_pow now half_life) rows fbs;
       kept = score_optimization_outcomes half_pow rows fbs limit now half_life
   in length kept = min limit (length segs) \<and> sorted (map candidate_order kept) \<and>
      (\<forall>(k, s) \<in> set segs. stats_as_dict k s \<in> set kept \<or>
         (\<forall>c \<in> set kept. candidate_order c \<le> candidate_order (stats_as_dict k s)))"
proof -
  define segs where "segs = scored_segments (decay_weight half_pow now half_life) rows fbs"
  define cs where "cs = sort_key candidate_order (map (\<lambda>(k, s). stats_as_dict k s) segs)"
  have kept: "score_optimization_outcomes half_pow rows fbs limit now half_life = take limit cs"
    by (simp add: score_optimization_outcomes_def cs_def segs_def)
  have sorted: "sorted (map candidate_order cs)" by (simp add: cs_def)
  have "candidate_order c \<le> candidate_order d" if "c \<in> set (take limit cs)" "d \<in> set (drop limit cs)" for c d
  proof -
    have "sorted (map candidate_order (take limit cs) @ map candidate_order (drop limit cs))"
      using sorted by (metis append_take_drop_id map_append)
    then show ?thesis using that by (auto simp: sorted_append)
  qed
  note best = this
  have split: "d \<in> set (take limit cs) \<or> d \<in> set (drop limit cs)" if "d \<in> set cs" for d
    using that by (metis Un_iff append_take_drop_id set_append)
  have mem: "stats_as_dict k s \<in> set cs" if "(k, s) \<in> set segs" for k s
    using that by (force simp: cs_def)
  have "\<forall>(k, s) \<in> set segs. stats_as_dict k s \<in> set (take limit cs) \<or>
      (\<forall>c \<in> set (take limit cs). candidate_order c \<le> candidate_order (stats_as_dict k s))"
    using split [OF mem] best by blast
  moreover have "sorted (map candidate_order (take limit cs))"
    using sorted by (metis sorted_wrt_take take_map)
  moreover have "length cs = length segs" by (simp add: cs_def)
  ultimately show ?thesis by (simp add: Let_def kept segs_def [symmetric] min.commute)
qed

end
