(* ===== verification/Workloads.thy ===== *)
theory Workloads
  imports Outcomes Compression EvalCapture
begin

text \<open>
  The analyses behind the recommendations: redundant calls inside client traces (\<open>engine/agent_loops.py\<close>),
  the structure of a route's system prompts (\<open>engine/prefix_analysis.py\<close>) and the share of requests that
  repeat a prefix (\<open>recommendations.py\<close>). \<open>GROUP BY\<close> is taken in the order of first occurrence, which is
  one of the orders a database may return.
\<close>

definition group_rows :: "('a \<Rightarrow> 'k) \<Rightarrow> 'a list \<Rightarrow> ('k \<times> 'a list) list" where
  "group_rows key xs = map (\<lambda>k. (k, filter (\<lambda>x. key x = k) xs)) (dict_fromkeys (map key xs))"

section \<open>Agent loops\<close>

record loop_finding =
  lf_route_key :: string
  lf_model :: string
  lf_affected_traces :: nat
  lf_redundant_calls :: nat
  lf_total_calls :: nat
  lf_wasted_cost :: decimal

definition in_trace :: "uuid \<Rightarrow> datetime \<Rightarrow> decision_event \<Rightarrow> bool" where
  "in_trace project start e \<longleftrightarrow>
     de_project_id e = project \<and> start \<le> de_created_at e \<and> rc_trace_id (de_ctx e) \<noteq> None \<and>
     de_request_fingerprint e \<noteq> None"

definition loop_key :: "decision_event \<Rightarrow> string \<times> string \<times> string" where
  "loop_key e = (de_route_key e, the (rc_trace_id (de_ctx e)), the (de_request_fingerprint e))"

definition group_cost :: "decision_event list \<Rightarrow> decimal" where
  "group_cost es = sum_list (map (\<lambda>e. case de_realized_actual_cost_usd e of None \<Rightarrow> 0 | Some c \<Rightarrow> c) es)"

text \<open>\<open>max(model_requested)\<close> of a group; the group is never empty.\<close>

definition group_model :: "decision_event list \<Rightarrow> string" where
  "group_model es = fold (\<lambda>e m. max m (de_model_requested e)) es []"

definition loop_groups :: "uuid \<Rightarrow> datetime \<Rightarrow> nat \<Rightarrow> decision_event list \<Rightarrow> ((string \<times> string \<times> string) \<times> decision_event list) list" where
  "loop_groups project start min_repeats events =
     filter (\<lambda>(k, es). min_repeats \<le> length es) (group_rows loop_key (filter (in_trace project start) events))"

definition route_or_default :: "string \<Rightarrow> string" where
  "route_or_default r = (if r = [] then ''default'' else r)"

definition wasted_of :: "decision_event list \<Rightarrow> decimal" where
  "wasted_of es = group_cost es * of_nat (length es - 1) / of_nat (length es)"

definition route_finding :: "string \<times> ((string \<times> string \<times> string) \<times> decision_event list) list \<Rightarrow> loop_finding" where
  "route_finding g =
     \<lparr>lf_route_key = fst g, lf_model = (case snd g of [] \<Rightarrow> [] | (k, es) # gs \<Rightarrow> group_model es),
      lf_affected_traces = length (dict_fromkeys (map (\<lambda>((r, t, f), es). t) (snd g))),
      lf_redundant_calls = sum_list (map (\<lambda>(k, es). length es - 1) (snd g)),
      lf_total_calls = sum_list (map (\<lambda>(k, es). length es) (snd g)),
      lf_wasted_cost = sum_list (map (\<lambda>(k, es). wasted_of es) (snd g))\<rparr>"

text \<open>\<open>ok\<close> is false when the query raises.\<close>

definition detect_agent_loops ::
  "bool \<Rightarrow> uuid \<Rightarrow> datetime \<Rightarrow> nat \<Rightarrow> nat \<Rightarrow> decision_event list \<Rightarrow> loop_finding list" where
  "detect_agent_loops ok project start min_repeats min_affected_traces events =
     (if \<not> ok then []
      else (let routes = group_rows (\<lambda>((r, t, f), es). route_or_default r) (loop_groups project start min_repeats events)
            in sort_key (\<lambda>f. - lf_wasted_cost f)
                 (filter (\<lambda>f. min_affected_traces \<le> lf_affected_traces f) (map route_finding routes))))"

section \<open>Prefix structure\<close>

record prefix_proposal =
  px_sample_count :: nat
  px_median_prompt_chars :: nat
  px_stable_prefix_chars :: nat
  px_stable_suffix_chars :: nat
  px_stable_prefix_share :: rat
  px_volatile_span_offset :: nat
  px_volatile_span_min_chars :: nat
  px_volatile_span_max_chars :: nat
  px_projected_stable_share :: rat

text \<open>\<open>min(texts, key=len)\<close>: the first shortest text; the list is not empty.\<close>

fun shortest :: "string list \<Rightarrow> string" where
  "shortest [] = []"
| "shortest [t] = t"
| "shortest (t # u # ts) = (let s = shortest (u # ts) in if length t \<le> length s then t else s)"

text \<open>The loop over the characters of the shortest text, from position \<open>i\<close>.\<close>

fun common_prefix_from :: "string list \<Rightarrow> nat \<Rightarrow> string \<Rightarrow> nat" where
  "common_prefix_from texts i [] = i"
| "common_prefix_from texts i (ch # rest) =
     (if \<exists>t \<in> set texts. t ! i \<noteq> ch then i else common_prefix_from texts (i + 1) rest)"

definition common_prefix_len :: "string list \<Rightarrow> nat" where
  "common_prefix_len texts = common_prefix_from texts 0 (shortest texts)"

definition min_len :: "string list \<Rightarrow> nat" where
  "min_len ts = Min (set (map length ts))"

definition analyze_prefix_structure :: "string list \<Rightarrow> prefix_proposal option" where
  "analyze_prefix_structure all_texts =
     (let texts = filter (\<lambda>t. t \<noteq> []) all_texts
      in if length texts < 5 then None
         else if length (dict_fromkeys texts) = 1 then None
         else (let head = common_prefix_len texts;
                   max_tail = min_len texts - head;
                   tail = min (common_prefix_len (map rev texts)) max_tail;
                   lengths = sort (map length texts);
                   median = lengths ! (length lengths div 2);
                   volatile_lengths = map (\<lambda>t. length t - head - tail) texts;
                   projected = min (of_nat (head + tail) / of_nat median) 1;
                   prefix_share = of_nat head / of_nat median :: rat
               in if median = 0 then None
                  else if 1 / 2 \<le> prefix_share \<or> projected < 1 / 2 then None
                  else Some \<lparr>px_sample_count = length texts, px_median_prompt_chars = median,
                         px_stable_prefix_chars = head, px_stable_suffix_chars = tail,
                         px_stable_prefix_share = quantize_half_even 4 prefix_share,
                         px_volatile_span_offset = head,
                         px_volatile_span_min_chars = Min (set volatile_lengths),
                         px_volatile_span_max_chars = Max (set volatile_lengths),
                         px_projected_stable_share = quantize_half_even 4 projected\<rparr>))"

section \<open>Prefix stability\<close>

definition fingerprinted :: "uuid \<Rightarrow> datetime \<Rightarrow> decision_event \<Rightarrow> bool" where
  "fingerprinted project start e \<longleftrightarrow>
     de_project_id e = project \<and> start \<le> de_created_at e \<and> de_prefix_hash e \<noteq> None"

text \<open>Samples and dominant share of each route, \<open>None\<close> for a route without fingerprints.\<close>

definition prefix_stability :: "bool \<Rightarrow> uuid \<Rightarrow> datetime \<Rightarrow> decision_event list \<Rightarrow> string \<Rightarrow> (nat \<times> rat) option" where
  "prefix_stability ok project start events route =
     (let es = filter (\<lambda>e. fingerprinted project start e \<and> de_route_key e = route) events
      in if \<not> ok \<or> es = [] then None
         else Some (length es,
                of_nat (Max (set (map (length \<circ> snd) (group_rows de_prefix_hash es)))) / of_nat (length es)))"


section \<open>Lemmas\<close>

lemma shortest_in: "ts \<noteq> [] \<Longrightarrow> shortest ts \<in> set ts"
  by (induction ts rule: shortest.induct) (auto simp: Let_def)

lemma shortest_le: "t \<in> set ts \<Longrightarrow> length (shortest ts) \<le> length t"
  by (induction ts rule: shortest.induct) (auto simp: Let_def)

lemma min_len_shortest: "ts \<noteq> [] \<Longrightarrow> min_len ts = length (shortest ts)"
  unfolding min_len_def by (rule Min_eqI) (auto simp: shortest_le shortest_in)

lemma common_prefix_from_spec:
  assumes "rest = drop i s" "i \<le> length s" "\<forall>t \<in> set texts. length s \<le> length t \<and> take i t = take i s"
  defines "n \<equiv> common_prefix_from texts i rest"
  shows "(\<forall>t \<in> set texts. take n t = take n s) \<and> n \<le> length s \<and>
    (n < length s \<longrightarrow> (\<exists>t \<in> set texts. t ! n \<noteq> s ! n))"
  using assms(1-3) unfolding n_def
proof (induction texts i rest rule: common_prefix_from.induct)
  case (2 texts i ch rest)
  have i: "i < length s" using "2.prems"(1) by (metis drop_all leI list.distinct(1))
  have s: "ch = s ! i" "rest = drop (i + 1) s"
    using "2.prems"(1) i by (metis Cons_nth_drop_Suc Suc_eq_plus1 list.inject)+
  show ?case
  proof (cases "\<exists>t \<in> set texts. t ! i \<noteq> ch")
    case True
    then have "common_prefix_from texts i (ch # rest) = i" by simp
    then show ?thesis using "2.prems"(3) True i s(1) by auto
  next
    case False
    have "\<forall>t \<in> set texts. length s \<le> length t \<and> take (i + 1) t = take (i + 1) s"
    proof
      fix t assume t: "t \<in> set texts"
      then have "length s \<le> length t" "take i t = take i s" "t ! i = s ! i" using "2.prems"(3) False s(1) by auto
      then show "length s \<le> length t \<and> take (i + 1) t = take (i + 1) s"
        using i by (simp add: take_Suc_conv_app_nth)
    qed
    moreover have "common_prefix_from texts i (ch # rest) = common_prefix_from texts (i + 1) rest" using False by simp
    ultimately show ?thesis using "2.IH" [OF False s(2)] i by simp
  qed
qed auto

lemma common_prefix_len_spec:
  assumes "texts \<noteq> []"
  shows "(\<forall>t \<in> set texts. take (common_prefix_len texts) t = take (common_prefix_len texts) (shortest texts)) \<and>
    common_prefix_len texts \<le> length (shortest texts) \<and>
    (common_prefix_len texts < length (shortest texts) \<longrightarrow>
      (\<exists>t \<in> set texts. t ! common_prefix_len texts \<noteq> shortest texts ! common_prefix_len texts))"
  unfolding common_prefix_len_def by (rule common_prefix_from_spec) (auto simp: shortest_le)

text \<open>A list of texts splits into a common head and a common tail that do not overlap.\<close>

lemma common_head_tail:
  assumes "texts \<noteq> []"
  defines "head \<equiv> common_prefix_len texts"
  defines "tail \<equiv> min (common_prefix_len (map rev texts)) (min_len texts - head)"
  obtains h t where "length h = head" "length t = tail"
    "\<forall>x \<in> set texts. \<exists>m. x = h @ m @ t \<and> length m = length x - head - tail"
proof -
  let ?s = "shortest texts" and ?r = "shortest (map rev texts)"
  let ?m = "common_prefix_len (map rev texts)"
  have H: "\<forall>x \<in> set texts. take head x = take head ?s" "head \<le> length ?s"
    using common_prefix_len_spec [OF assms(1)] by (simp_all add: head_def)
  have R: "\<forall>x \<in> set texts. take ?m (rev x) = take ?m ?r" "?m \<le> length ?r"
    using common_prefix_len_spec [of "map rev texts"] assms(1) by simp_all
  have tail: "tail \<le> ?m" "head + tail \<le> length ?s"
    using H(2) by (simp_all add: tail_def min_len_shortest [OF assms(1)])
  have T: "drop (length x - tail) x = rev (take tail ?r)" if "x \<in> set texts" for x
  proof -
    have "take tail (take ?m (rev x)) = take tail (take ?m ?r)" using R(1) that by simp
    then have "take tail (rev x) = take tail ?r" using tail(1) by (simp add: min.absorb1)
    moreover have "drop (length x - tail) x = rev (take tail (rev x))" by (simp add: rev_take)
    ultimately show ?thesis by simp
  qed
  have "x = take head ?s @ (drop head (take (length x - tail) x)) @ rev (take tail ?r) \<and>
      length (drop head (take (length x - tail) x)) = length x - head - tail" if x: "x \<in> set texts" for x
  proof -
    have le: "head + tail \<le> length x" using tail(2) shortest_le [OF x] by linarith
    have "x = take (length x - tail) x @ rev (take tail ?r)" using T [OF x] by (metis append_take_drop_id)
    moreover have "take (length x - tail) x = take head x @ drop head (take (length x - tail) x)"
    proof -
      have "take head (take (length x - tail) x) = take head x" using le by simp
      then show ?thesis by (metis append_take_drop_id)
    qed
    ultimately have "x = take head x @ drop head (take (length x - tail) x) @ rev (take tail ?r)"
      by (metis append_assoc)
    moreover have "take head x = take head ?s" using H(1) x by blast
    ultimately show ?thesis by (simp add: add.commute)
  qed
  moreover have "length (take head ?s) = head" using H(2) by simp
  moreover have "length (rev (take tail ?r)) = tail" using R(2) tail(1) by simp
  ultimately show ?thesis using that by blast
qed


definition propose_prefix_restructure :: "uuid \<Rightarrow> string \<Rightarrow> replay_sample list \<Rightarrow> prefix_proposal option" where
  "propose_prefix_restructure project model samples =
     (let rows = take 40 (sort_key (\<lambda>s. - rs_created_at s) (filter (traffic_of project model) samples));
          messages = map (\<lambda>s. case rs_request_messages s of JList ms \<Rightarrow> ms | _ \<Rightarrow> []) rows
      in if \<exists>ms \<in> set messages. extract_system_text ms = None then None
         else analyze_prefix_structure (List.map_filter (\<lambda>ms. the (extract_system_text ms)) messages))"

lemma if_None_Some: "(if b then None else x) = Some y \<longleftrightarrow> \<not> b \<and> x = Some y"
  by simp

section \<open>Properties\<close>

text \<open>
  A restructuring proposal describes the prompts truthfully: all (non-empty) prompts share a head and a
  tail of the reported lengths around a middle whose length stays within the reported bounds, the
  prompts do differ, the head covers less than half of the median prompt, and head and tail together at
  least half.
\<close>

theorem prefix_proposal_sound:
  assumes "analyze_prefix_structure all_texts = Some p"
  defines "texts \<equiv> filter (\<lambda>t. t \<noteq> []) all_texts"
  shows "5 \<le> length texts \<and> px_sample_count p = length texts \<and> (\<exists>x \<in> set texts. \<exists>y \<in> set texts. x \<noteq> y) \<and>
    (\<exists>h t. length h = px_stable_prefix_chars p \<and> length t = px_stable_suffix_chars p \<and>
       (\<forall>x \<in> set texts. \<exists>m. x = h @ m @ t \<and>
          px_volatile_span_min_chars p \<le> length m \<and> length m \<le> px_volatile_span_max_chars p)) \<and>
    2 * px_stable_prefix_chars p < px_median_prompt_chars p \<and>
    px_median_prompt_chars p \<le> 2 * (px_stable_prefix_chars p + px_stable_suffix_chars p)"
proof -
  let ?head = "common_prefix_len texts"
  let ?tail = "min (common_prefix_len (map rev texts)) (min_len texts - ?head)"
  let ?vs = "map (\<lambda>t. length t - ?head - ?tail) texts"
  define median where "median = sort (map length texts) ! (length (sort (map length texts)) div 2)"
  have all: "\<not> length texts < 5 \<and> length (dict_fromkeys texts) \<noteq> 1 \<and> median \<noteq> 0 \<and>
      \<not> (1 / 2 \<le> (of_nat ?head / of_nat median :: rat) \<or> min (of_nat (?head + ?tail) / of_nat median) 1 < (1 / 2 :: rat)) \<and>
      \<lparr>px_sample_count = length texts, px_median_prompt_chars = median,
         px_stable_prefix_chars = ?head, px_stable_suffix_chars = ?tail,
         px_stable_prefix_share = quantize_half_even 4 (of_nat ?head / of_nat median),
         px_volatile_span_offset = ?head,
         px_volatile_span_min_chars = Min (set ?vs), px_volatile_span_max_chars = Max (set ?vs),
         px_projected_stable_share = quantize_half_even 4 (min (of_nat (?head + ?tail) / of_nat median) 1)\<rparr> = p"
    using assms(1) unfolding analyze_prefix_structure_def Let_def texts_def [symmetric] median_def [symmetric]
    by (simp only: if_None_Some option.inject not_False_eq_True)
  have p: "5 \<le> length texts" "length (dict_fromkeys texts) \<noteq> 1" "median \<noteq> 0"
      "\<not> 1 / 2 \<le> (of_nat ?head / of_nat median :: rat)"
      "\<not> min (of_nat (?head + ?tail) / of_nat median) 1 < (1 / 2 :: rat)"
      "px_sample_count p = length texts" "px_median_prompt_chars p = median" "px_stable_prefix_chars p = ?head"
      "px_stable_suffix_chars p = ?tail" "px_volatile_span_min_chars p = Min (set ?vs)"
      "px_volatile_span_max_chars p = Max (set ?vs)"
    using all by (simp_all only: de_Morgan_disj not_less prefix_proposal.simps [symmetric]) auto
  have ne: "texts \<noteq> []" using p(1) by auto
  have "(of_nat (2 * ?head) :: rat) < of_nat median" using p(3,4) by (simp add: field_simps)
  then have half: "2 * ?head < median" by (simp only: of_nat_less_iff)
  have "(of_nat median :: rat) \<le> of_nat (2 * (?head + ?tail))" using p(3,5) by (simp add: field_simps min_def split: if_splits)
  then have half': "median \<le> 2 * (?head + ?tail)" by (simp only: of_nat_le_iff)
  obtain h t where ht: "length h = ?head" "length t = ?tail"
      "\<forall>x \<in> set texts. \<exists>m. x = h @ m @ t \<and> length m = length x - ?head - ?tail"
    using common_head_tail [OF ne] .
  have "\<exists>m. x = h @ m @ t \<and> Min (set ?vs) \<le> length m \<and> length m \<le> Max (set ?vs)" if x: "x \<in> set texts" for x
  proof -
    obtain m where m: "x = h @ m @ t" "length m = length x - ?head - ?tail" using ht(3) x by blast
    have "length m \<in> set ?vs" using x m(2) by auto
    then have "Min (set ?vs) \<le> length m" "length m \<le> Max (set ?vs)" by simp_all
    then show ?thesis using m(1) by blast
  qed
  moreover have "\<exists>x \<in> set texts. \<exists>y \<in> set texts. x \<noteq> y"
  proof (rule ccontr)
    assume "\<not> ?thesis"
    then have "set texts = {hd texts}" using ne hd_in_set by blast
    then have "card (set (dict_fromkeys texts)) = 1" by simp
    then have "length (dict_fromkeys texts) = 1" by (simp only: distinct_card [OF distinct_dict_fromkeys])
    then show False using p(2) by simp
  qed
  ultimately show ?thesis using p(1) half half' ht(1,2) unfolding p(6-11) by blast
qed


definition sample_prompts :: "string list" where
  "sample_prompts = [''aXcdef'', ''aYcdef'', ''aZcdef'', ''aXcdef'', [], ''aYYcdef'']"

theorem prefix_proposal_sound_witness:
  "\<exists>p. analyze_prefix_structure sample_prompts = Some p \<and> px_stable_prefix_chars p = 1 \<and> px_stable_suffix_chars p = 4 \<and>
     px_volatile_span_max_chars p = 2 \<and>
     (\<exists>h t. length h = 1 \<and> length t = 4 \<and> (\<forall>x \<in> set (filter (\<lambda>t. t \<noteq> []) sample_prompts). \<exists>m. x = h @ m @ t))"
proof -
  have "map_option (\<lambda>p. (px_stable_prefix_chars p, px_stable_suffix_chars p, px_volatile_span_max_chars p))
      (analyze_prefix_structure sample_prompts) = Some (1, 4, 2)"
    by code_simp
  then obtain p where p: "analyze_prefix_structure sample_prompts = Some p" "px_stable_prefix_chars p = 1"
      "px_stable_suffix_chars p = 4" "px_volatile_span_max_chars p = 2" by auto
  from prefix_proposal_sound [OF p(1)] p(2,3)
  have "\<exists>h t. length h = 1 \<and> length t = 4 \<and> (\<forall>x \<in> set (filter (\<lambda>t. t \<noteq> []) sample_prompts). \<exists>m. x = h @ m @ t)"
    by metis
  with p show ?thesis by blast
qed

end
