(* ===== verification/Priors.thy ===== *)
theory Priors
  imports Workloads Bandit Levers
begin

text \<open>
  \<open>engine/priors.py\<close> and its table \<open>EngineOutcomePrior\<close>: the sweep replaces a project's priors, the hot path
  looks them up for the planner and, merged per candidate model, for the bandit. The text columns are as
  wide as the decision columns they are cut to. Amounts are stored with eight decimals, rates with four.
  An entry that a cache has dropped, for its age of 60 seconds or its size, is an absent entry.
\<close>

record prior_row =
  eo_project_id :: uuid
  eo_route_key :: string
  eo_lever :: string
  eo_task_type :: string
  eo_risk_level :: string
  eo_provider_requested :: string
  eo_model_requested :: string
  eo_provider_chosen :: string
  eo_model_chosen :: string
  eo_readiness_status :: string
  eo_sample_count :: int
  eo_measured_savings_count :: int
  eo_total_gross_savings_usd :: "decimal option"
  eo_average_gross_savings_usd :: "decimal option"
  eo_quality_pass_rate :: "decimal option"
  eo_feedback_acceptance_rate :: "decimal option"
  eo_reason_codes :: "string list"
  eo_window_days :: int
  eo_computed_at :: datetime

type_synonym request_slot = "uuid \<times> string \<times> string option"

record prior_store =
  pt_rows :: "prior_row list"
  pt_prior_cache :: "request_slot \<rightharpoonup> outcome_prior list"
  pt_stats_cache :: "request_slot \<rightharpoonup> candidate_stats list"

definition clear_outcome_prior_cache :: "uuid option \<Rightarrow> prior_store \<Rightarrow> prior_store" where
  "clear_outcome_prior_cache project s =
     (case project of
        None \<Rightarrow> s\<lparr>pt_prior_cache := Map.empty, pt_stats_cache := Map.empty\<rparr>
      | Some p \<Rightarrow>
          s\<lparr>pt_prior_cache := (\<lambda>k. if fst k = p then None else pt_prior_cache s k),
            pt_stats_cache := (\<lambda>k. if fst k = p then None else pt_stats_cache s k)\<rparr>)"

definition segment_value :: "nat \<Rightarrow> string \<Rightarrow> string" where
  "segment_value limit v = take limit (or_unknown (Some v))"

definition prior_row_of :: "uuid \<Rightarrow> int \<Rightarrow> datetime \<Rightarrow> learning_candidate \<Rightarrow> prior_row" where
  "prior_row_of project window_days computed_at c =
     (let k = lc_segment c
      in \<lparr>eo_project_id = project, eo_route_key = segment_value 128 (sk_route_key k),
          eo_lever = segment_value 32 (sk_lever k), eo_task_type = segment_value 128 (sk_task_type k),
          eo_risk_level = segment_value 32 (sk_risk_level k),
          eo_provider_requested = segment_value 64 (sk_provider_requested k),
          eo_model_requested = segment_value 128 (sk_model_requested k),
          eo_provider_chosen = segment_value 64 (sk_provider_chosen k),
          eo_model_chosen = segment_value 128 (sk_model_chosen k),
          eo_readiness_status = readiness_text (lc_readiness c), eo_sample_count = lc_sample_count c,
          eo_measured_savings_count = lc_measured_savings_count c,
          eo_total_gross_savings_usd = map_option (quantize_half_up 8) (lc_total_gross_savings_usd c),
          eo_average_gross_savings_usd = map_option (quantize_half_up 8) (lc_average_gross_savings_usd c),
          eo_quality_pass_rate = map_option (quantize_half_up 4) (qs_pass_rate (lc_quality c)),
          eo_feedback_acceptance_rate = map_option (quantize_half_up 4) (fs_acceptance_rate (lc_feedback c)),
          eo_reason_codes = lc_reason_codes c, eo_window_days = window_days, eo_computed_at = computed_at\<rparr>)"

definition refresh_project_outcome_priors ::
  "uuid \<Rightarrow> learning_candidate list \<Rightarrow> int \<Rightarrow> datetime \<Rightarrow> prior_store \<Rightarrow> nat \<times> prior_store" where
  "refresh_project_outcome_priors project candidates window_days computed_at s =
     (length candidates,
      clear_outcome_prior_cache (Some project)
        (s\<lparr>pt_rows := filter (\<lambda>r. eo_project_id r \<noteq> project) (pt_rows s) @
             map (prior_row_of project window_days computed_at) candidates\<rparr>))"

definition prior_query :: "prior_row list \<Rightarrow> uuid \<Rightarrow> string \<Rightarrow> bool \<Rightarrow> (string \<Rightarrow> bool) \<Rightarrow> prior_row list" where
  "prior_query rows project model routing_only on_route =
     sort_key (\<lambda>r. (eo_lever r, - eo_computed_at r))
       (filter (\<lambda>r. eo_project_id r = project \<and> eo_model_requested r = model \<and>
          (routing_only \<longrightarrow> eo_lever r \<in> set routing_levers) \<and> on_route (eo_route_key r)) rows)"

definition prior_rows :: "prior_row list \<Rightarrow> uuid \<Rightarrow> string \<Rightarrow> string option \<Rightarrow> bool \<Rightarrow> prior_row list" where
  "prior_rows rows project model route_key routing_only =
     (case or_str route_key None of
        None \<Rightarrow> prior_query rows project model routing_only (\<lambda>_. True)
      | Some k \<Rightarrow>
          (let exact = prior_query rows project model routing_only (\<lambda>r. r = k)
           in if exact \<noteq> [] then exact
              else prior_query rows project model routing_only (\<lambda>r. r = default_route)))"

definition row_to_prior :: "(decimal \<Rightarrow> string) \<Rightarrow> prior_row \<Rightarrow> outcome_prior" where
  "row_to_prior show r =
     prior_of show (eo_lever r) (eo_readiness_status r) (eo_reason_codes r) (eo_sample_count r)
       (eo_measured_savings_count r) (eo_total_gross_savings_usd r) (eo_average_gross_savings_usd r)
       (eo_quality_pass_rate r) (eo_feedback_acceptance_rate r)"

text \<open>\<open>ok\<close> is false when the query raises; the lookup then answers nothing and caches nothing.\<close>

definition outcome_priors_for_request ::
  "(decimal \<Rightarrow> string) \<Rightarrow> bool \<Rightarrow> uuid \<Rightarrow> string \<Rightarrow> string option \<Rightarrow> prior_store \<Rightarrow> outcome_prior list \<times> prior_store" where
  "outcome_priors_for_request show ok project model route_key s =
     (if model = [] then ([], s)
      else (case pt_prior_cache s (project, model, route_key) of
              Some cached \<Rightarrow> (cached, s)
            | None \<Rightarrow>
                if \<not> ok then ([], s)
                else (let priors = map (row_to_prior show) (prior_rows (pt_rows s) project model route_key False)
                      in (priors, s\<lparr>pt_prior_cache := (pt_prior_cache s)((project, model, route_key) \<mapsto> priors)\<rparr>))))"

text \<open>The candidate a row speaks about; rows without a known model are skipped.\<close>

definition names_candidate :: "prior_row \<Rightarrow> bool" where
  "names_candidate r \<longleftrightarrow> eo_model_chosen r \<noteq> [] \<and> eo_model_chosen r \<noteq> ''unknown''"

definition candidate_key :: "prior_row \<Rightarrow> string \<times> string" where
  "candidate_key r = (eo_model_chosen r, if eo_provider_chosen r = [] then ''openai'' else eo_provider_chosen r)"

text \<open>A weighted mean over the rows that carry the value and a positive weight.\<close>

definition weighted_rows :: "(prior_row \<Rightarrow> decimal option) \<Rightarrow> (prior_row \<Rightarrow> int) \<Rightarrow> prior_row list \<Rightarrow> prior_row list" where
  "weighted_rows value weight rows = filter (\<lambda>r. value r \<noteq> None \<and> 0 < weight r) rows"

definition weighted_mean :: "(prior_row \<Rightarrow> decimal option) \<Rightarrow> (prior_row \<Rightarrow> int) \<Rightarrow> prior_row list \<Rightarrow> decimal option" where
  "weighted_mean value weight rows =
     (let rs = weighted_rows value weight rows; total_weight = sum_list (map weight rs)
      in if total_weight = 0 then None
         else Some (sum_list (map (\<lambda>r. the (value r) * of_int (weight r)) rs) / of_int total_weight))"

definition merge_candidate_rows :: "prior_row list \<Rightarrow> candidate_stats list" where
  "merge_candidate_rows rows =
     map (\<lambda>((model, provider), rs).
         \<lparr>cs_model = model, cs_provider = provider, cs_sample_count = sum_list (map eo_sample_count rs),
          cs_quality_pass_rate = weighted_mean eo_quality_pass_rate eo_sample_count rs,
          cs_average_savings_usd = weighted_mean eo_average_gross_savings_usd eo_measured_savings_count rs\<rparr>)
       (group_rows candidate_key (filter names_candidate rows))"

definition candidate_stats_for_request ::
  "bool \<Rightarrow> uuid \<Rightarrow> string \<Rightarrow> string option \<Rightarrow> prior_store \<Rightarrow> candidate_stats list \<times> prior_store" where
  "candidate_stats_for_request ok project model route_key s =
     (if model = [] then ([], s)
      else (case pt_stats_cache s (project, model, route_key) of
              Some cached \<Rightarrow> (cached, s)
            | None \<Rightarrow>
                if \<not> ok then ([], s)
                else (let stats = merge_candidate_rows (prior_rows (pt_rows s) project model route_key True)
                      in (stats, s\<lparr>pt_stats_cache := (pt_stats_cache s)((project, model, route_key) \<mapsto> stats)\<rparr>))))"

section \<open>Lemmas\<close>

lemma set_prior_query:
  "set (prior_query rows project model routing_only on_route) =
     {r \<in> set rows. eo_project_id r = project \<and> eo_model_requested r = model \<and>
        (routing_only \<longrightarrow> eo_lever r \<in> set routing_levers) \<and> on_route (eo_route_key r)}"
  by (auto simp: prior_query_def)

lemma prior_rows_sound:
  assumes "r \<in> set (prior_rows rows project model (Some k) routing_only)" "k \<noteq> []"
  shows "r \<in> set rows \<and> eo_project_id r = project \<and> eo_model_requested r = model \<and>
    (routing_only \<longrightarrow> eo_lever r \<in> set routing_levers) \<and>
    (eo_route_key r = k \<or> eo_route_key r = default_route \<and>
       prior_query rows project model routing_only (\<lambda>r. r = k) = [])"
  using assms by (auto simp: prior_rows_def or_str_def Let_def set_prior_query split: if_splits)

lemma sum_list_group:
  "distinct ks \<Longrightarrow> \<forall>x \<in> set xs. key x \<in> set ks \<Longrightarrow>
     (\<Sum>k\<leftarrow>ks. \<Sum>x\<leftarrow>filter (\<lambda>x. key x = k) xs. f x) = (\<Sum>x\<leftarrow>xs. f x :: int)"
proof (induction xs)
  case (Cons x xs)
  have split: "(\<Sum>y\<leftarrow>filter (\<lambda>y. key y = k) (x # xs). f y) =
      (if k = key x then f x else 0) + (\<Sum>y\<leftarrow>filter (\<lambda>y. key y = k) xs. f y)" for k
    by simp
  have "(\<Sum>k\<leftarrow>ks. if k = key x then f x else 0) = f x"
    using Cons.prems by (simp add: sum_list_distinct_conv_sum_set)
  then show ?case using Cons by (simp only: split sum_list_addf) simp
qed (simp add: sum_list_0)

lemma group_rows_sum:
  "(\<Sum>g\<leftarrow>group_rows key xs. \<Sum>x\<leftarrow>snd g. f x) = (\<Sum>x\<leftarrow>xs. f x :: int)"
  using sum_list_group [of "dict_fromkeys (map key xs)" xs key f] by (simp add: group_rows_def comp_def)

lemma weighted_mean_between:
  assumes "weighted_mean value weight rows = Some q" "\<forall>r \<in> set rows. \<forall>v. value r = Some v \<longrightarrow> lo \<le> v \<and> v \<le> hi"
  shows "lo \<le> q \<and> q \<le> hi"
proof -
  let ?rs = "weighted_rows value weight rows"
  have pos: "\<forall>r \<in> set ?rs. 0 < weight r \<and> lo \<le> the (value r) \<and> the (value r) \<le> hi"
    using assms(2) by (auto simp: weighted_rows_def)
  have sums: "lo * of_int (sum_list (map weight rs)) \<le> sum_list (map (\<lambda>r. the (value r) * of_int (weight r)) rs) \<and>
      sum_list (map (\<lambda>r. the (value r) * of_int (weight r)) rs) \<le> hi * of_int (sum_list (map weight rs)) \<and>
      0 \<le> sum_list (map weight rs)"
    if "\<forall>r \<in> set rs. 0 < weight r \<and> lo \<le> the (value r) \<and> the (value r) \<le> hi" for rs
    using that
  proof (induction rs)
    case (Cons r rs)
    have "lo * of_int (weight r) \<le> the (value r) * of_int (weight r)" "the (value r) * of_int (weight r) \<le> hi * of_int (weight r)"
      using Cons.prems by (auto intro!: mult_right_mono)
    then show ?case using Cons by (simp add: distrib_left add_mono)
  qed simp
  have "sum_list (map weight ?rs) \<noteq> 0"
    and q: "q = sum_list (map (\<lambda>r. the (value r) * of_int (weight r)) ?rs) / of_int (sum_list (map weight ?rs))"
    using assms(1) by (auto simp: weighted_mean_def Let_def split: if_splits)
  then have "0 < (of_int (sum_list (map weight ?rs)) :: rat)" using sums [OF pos] by linarith
  then show ?thesis using sums [OF pos] unfolding q by (simp add: pos_le_divide_eq pos_divide_le_eq)
qed

section \<open>Properties\<close>

text \<open>
  The bandit never borrows evidence from another business route. What it is told about a model on a
  route comes, when nothing is cached, from routing rows of this project and model that are on the route
  itself, or on the default route if the route has none; each candidate appears once, no sample is lost or
  counted twice in the merge, and a merged pass rate is a mean, so it stays between 0 and 1.
\<close>

theorem bandit_evidence_is_local:
  assumes "pt_stats_cache s (project, model, Some k) = None" "model \<noteq> []" "k \<noteq> []"
    and "\<forall>r \<in> set (pt_rows s). \<forall>v. eo_quality_pass_rate r = Some v \<longrightarrow> 0 \<le> v \<and> v \<le> 1"
  shows "let stats = fst (candidate_stats_for_request True project model (Some k) s);
      rows = prior_rows (pt_rows s) project model (Some k) True
    in (\<forall>r \<in> set rows. r \<in> set (pt_rows s) \<and> eo_project_id r = project \<and> eo_model_requested r = model \<and>
          eo_lever r \<in> set routing_levers \<and>
          (eo_route_key r = k \<or> eo_route_key r = default_route \<and> \<not> (\<exists>r' \<in> set rows. eo_route_key r' = k))) \<and>
       distinct (map (\<lambda>c. (cs_model c, cs_provider c)) stats) \<and>
       sum_list (map cs_sample_count stats) = sum_list (map eo_sample_count (filter names_candidate rows)) \<and>
       (\<forall>c \<in> set stats. \<forall>q. cs_quality_pass_rate c = Some q \<longrightarrow> 0 \<le> q \<and> q \<le> 1)"
proof -
  let ?rows = "prior_rows (pt_rows s) project model (Some k) True"
  let ?stats = "merge_candidate_rows ?rows"
  let ?groups = "group_rows candidate_key (filter names_candidate ?rows)"
  have stats: "fst (candidate_stats_for_request True project model (Some k) s) = ?stats"
    using assms(1,2) by (simp add: candidate_stats_for_request_def Let_def)
  have mixed: "\<not> (\<exists>r' \<in> set ?rows. eo_route_key r' = k)"
    if r: "r \<in> set ?rows" "eo_route_key r \<noteq> k" for r
  proof -
    have "prior_query (pt_rows s) project model True (\<lambda>r. r = k) = []" using prior_rows_sound [OF r(1) assms(3)] r(2) by blast
    moreover have "r' \<in> set (prior_query (pt_rows s) project model True (\<lambda>r. r = k))"
      if "r' \<in> set ?rows" "eo_route_key r' = k" for r'
      using prior_rows_sound [OF that(1) assms(3)] that(2) by (simp add: set_prior_query)
    ultimately show ?thesis by auto
  qed
  have local: "\<forall>r \<in> set ?rows. r \<in> set (pt_rows s) \<and> eo_project_id r = project \<and> eo_model_requested r = model \<and>
      eo_lever r \<in> set routing_levers \<and>
      (eo_route_key r = k \<or> eo_route_key r = default_route \<and> \<not> (\<exists>r' \<in> set ?rows. eo_route_key r' = k))"
    using prior_rows_sound [OF _ assms(3)] mixed by blast
  have "map (\<lambda>c. (cs_model c, cs_provider c)) ?stats = map fst ?groups"
    by (simp add: merge_candidate_rows_def comp_def case_prod_unfold)
  then have "distinct (map (\<lambda>c. (cs_model c, cs_provider c)) ?stats)" by (simp add: group_rows_def comp_def)
  moreover have "sum_list (map cs_sample_count ?stats) = (\<Sum>g\<leftarrow>?groups. \<Sum>r\<leftarrow>snd g. eo_sample_count r)"
    by (simp add: merge_candidate_rows_def comp_def case_prod_unfold)
  moreover have "0 \<le> q \<and> q \<le> 1" if c: "c \<in> set ?stats" "cs_quality_pass_rate c = Some q" for c q
  proof -
    obtain g where g: "g \<in> set ?groups" "weighted_mean eo_quality_pass_rate eo_sample_count (snd g) = Some q"
      using c by (auto simp: merge_candidate_rows_def)
    have "set (snd g) \<subseteq> set ?rows" using g(1) by (auto simp: group_rows_def)
    then show ?thesis using weighted_mean_between [OF g(2), of 0 1] assms(4) local by blast
  qed
  ultimately show ?thesis using local unfolding Let_def stats group_rows_sum by blast
qed

definition fits_column :: "nat \<Rightarrow> string \<Rightarrow> bool" where
  "fits_column n v \<longleftrightarrow> v \<noteq> [] \<and> length v \<le> n"

definition stored_candidate :: "learning_candidate \<Rightarrow> bool" where
  "stored_candidate c \<longleftrightarrow>
     (let k = lc_segment c
      in fits_column 128 (sk_route_key k) \<and> fits_column 128 (sk_model_requested k) \<and> fits_column 32 (sk_lever k))"

text \<open>A candidate as the columns keep it.\<close>

definition rounded_candidate :: "learning_candidate \<Rightarrow> learning_candidate" where
  "rounded_candidate c =
     c\<lparr>lc_total_gross_savings_usd := map_option (quantize_half_up 8) (lc_total_gross_savings_usd c),
       lc_average_gross_savings_usd := map_option (quantize_half_up 8) (lc_average_gross_savings_usd c),
       lc_quality := (lc_quality c)\<lparr>qs_pass_rate := map_option (quantize_half_up 4) (qs_pass_rate (lc_quality c))\<rparr>,
       lc_feedback := (lc_feedback c)\<lparr>fs_acceptance_rate :=
         map_option (quantize_half_up 4) (fs_acceptance_rate (lc_feedback c))\<rparr>\<rparr>"

lemma segment_value_id: "fits_column n v \<Longrightarrow> segment_value n v = v"
  by (simp add: fits_column_def segment_value_def or_unknown_def or_str_def)

lemma prior_of_stored_row:
  "stored_candidate c \<Longrightarrow> row_to_prior show (prior_row_of project days at_time c) =
     outcome_prior_from_learning_candidate show (rounded_candidate c)"
  by (simp add: row_to_prior_def prior_row_of_def Let_def segment_value_id stored_candidate_def rounded_candidate_def
      outcome_prior_from_learning_candidate_def)

lemma sort_key_map: "sort_key f (map g xs) = map g (sort_key (\<lambda>x. f (g x)) xs)"
proof -
  have "insort_key f (g x) (map g ys) = map g (insort_key (\<lambda>x. f (g x)) x ys)" for x ys by (induction ys) auto
  then show ?thesis unfolding sort_key_def by (induction xs) simp_all
qed

lemma sort_key_same:
  "(\<And>x. x \<in> set xs \<Longrightarrow> f x = g x) \<Longrightarrow> sort_key f xs = sort_key g xs"
proof -
  have "insort_key f x ys = insort_key g x ys" if "\<forall>y \<in> set (x # ys). f y = g y" for x ys
    using that by (induction ys) auto
  then show "(\<And>x. x \<in> set xs \<Longrightarrow> f x = g x) \<Longrightarrow> sort_key f xs = sort_key g xs" by (induction xs) simp_all
qed

text \<open>
  C25. What a sweep learned is what requests plan with. Right after a project's priors are replaced, with the
  caches of the project dropped, a request for a model on a route that has candidates gets exactly these
  candidates, in the order of their levers and with amounts and rates rounded to their columns: nothing
  that the earlier sweeps stored, and nothing of another route, model or project.
\<close>

theorem refreshed_priors_are_served:
  assumes "\<forall>c \<in> set candidates. stored_candidate c" "model \<noteq> []" "k \<noteq> []"
    and "filter (\<lambda>c. sk_model_requested (lc_segment c) = model \<and> sk_route_key (lc_segment c) = k) candidates \<noteq> []"
  shows "fst (outcome_priors_for_request show True project model (Some k)
      (snd (refresh_project_outcome_priors project candidates days now s))) =
    map (\<lambda>c. outcome_prior_from_learning_candidate show (rounded_candidate c))
      (sort_key (\<lambda>c. (sk_lever (lc_segment c), - now))
        (filter (\<lambda>c. sk_model_requested (lc_segment c) = model \<and> sk_route_key (lc_segment c) = k) candidates))"
proof -
  let ?s = "snd (refresh_project_outcome_priors project candidates days now s)"
  let ?mine = "filter (\<lambda>c. sk_model_requested (lc_segment c) = model \<and> sk_route_key (lc_segment c) = k) candidates"
  let ?row = "prior_row_of project days now"
  let ?hit = "\<lambda>r. eo_project_id r = project \<and> eo_model_requested r = model \<and> eo_route_key r = k"
  have row: "?hit (?row c) \<longleftrightarrow> sk_model_requested (lc_segment c) = model \<and> sk_route_key (lc_segment c) = k"
    "eo_lever (?row c) = sk_lever (lc_segment c)" "eo_computed_at (?row c) = now" if "c \<in> set candidates" for c
    using assms(1) that by (auto simp: prior_row_of_def Let_def stored_candidate_def segment_value_id)
  have "filter ?hit (pt_rows ?s) = filter ?hit (map ?row candidates)"
    by (simp add: refresh_project_outcome_priors_def clear_outcome_prior_cache_def)
  also have "\<dots> = map ?row ?mine" by (simp add: filter_map comp_def row(1) cong: filter_cong)
  finally have "prior_query (pt_rows ?s) project model False (\<lambda>r. r = k) =
      sort_key (\<lambda>r. (eo_lever r, - eo_computed_at r)) (map ?row ?mine)"
    by (simp add: prior_query_def)
  also have "\<dots> = map ?row (sort_key (\<lambda>c. (eo_lever (?row c), - eo_computed_at (?row c))) ?mine)"
    by (rule sort_key_map)
  also have "\<dots> = map ?row (sort_key (\<lambda>c. (sk_lever (lc_segment c), - now)) ?mine)"
    by (intro arg_cong [where f = "map ?row"] sort_key_same) (simp_all add: row)
  finally have q: "prior_query (pt_rows ?s) project model False (\<lambda>r. r = k) =
      map ?row (sort_key (\<lambda>c. (sk_lever (lc_segment c), - now)) ?mine)" .
  have full: "prior_query (pt_rows ?s) project model False (\<lambda>r. r = k) \<noteq> []"
    unfolding q using assms(4) by (simp flip: length_greater_0_conv)
  have "pt_prior_cache ?s (project, model, Some k) = None"
    by (simp add: refresh_project_outcome_priors_def clear_outcome_prior_cache_def)
  then have "fst (outcome_priors_for_request show True project model (Some k) ?s) =
      map (row_to_prior show) (prior_query (pt_rows ?s) project model False (\<lambda>r. r = k))"
    using assms(2,3) full by (simp add: outcome_priors_for_request_def Let_def prior_rows_def or_str_def)
  also have "\<dots> = map (\<lambda>c. row_to_prior show (?row c)) (sort_key (\<lambda>c. (sk_lever (lc_segment c), - now)) ?mine)"
    by (simp add: q comp_def)
  also have "\<dots> = map (\<lambda>c. outcome_prior_from_learning_candidate show (rounded_candidate c))
      (sort_key (\<lambda>c. (sk_lever (lc_segment c), - now)) ?mine)"
    using assms(1) by (simp add: prior_of_stored_row)
  finally show ?thesis .
qed

theorem refreshed_priors_are_served_witness:
  "\<exists>c. sample_scores (map (sample_feedback ''accepted'') [0 ..< 10]) = [c] \<and>
     fst (outcome_priors_for_request (\<lambda>_. ''0'') True ''p'' ''a'' (Some ''chat'')
       (snd (refresh_project_outcome_priors ''p'' [c] 30 0
         \<lparr>pt_rows = [], pt_prior_cache = Map.empty, pt_stats_cache = Map.empty\<rparr>))) =
     [outcome_prior_from_learning_candidate (\<lambda>_. ''0'') (rounded_candidate c)]"
proof -
  have "map lc_segment (sample_scores (map (sample_feedback ''accepted'') [0 ..< 10])) =
      [\<lparr>sk_route_key = ''chat'', sk_task_type = ''unknown'', sk_risk_level = ''unknown'', sk_provider_requested = ''openai'',
        sk_model_requested = ''a'', sk_provider_chosen = ''openai'', sk_model_chosen = ''b'', sk_lever = ''model_downshift''\<rparr>]"
    by code_simp
  then obtain c where c: "sample_scores (map (sample_feedback ''accepted'') [0 ..< 10]) = [c]"
    and seg: "sk_route_key (lc_segment c) = ''chat''" "sk_model_requested (lc_segment c) = ''a''"
      "sk_lever (lc_segment c) = ''model_downshift''"
    by (auto simp: map_eq_Cons_conv)
  have "stored_candidate c" by (simp add: stored_candidate_def Let_def fits_column_def seg)
  then show ?thesis using refreshed_priors_are_served [of "[c]" "''a''" "''chat''"] by (simp add: c seg)
qed

section \<open>A concrete store\<close>

definition sample_prior :: "string \<Rightarrow> string \<Rightarrow> int \<Rightarrow> decimal \<Rightarrow> prior_row" where
  "sample_prior route chosen n rate =
     \<lparr>eo_project_id = ''p'', eo_route_key = route, eo_lever = ''model_downshift'', eo_task_type = ''unknown'',
      eo_risk_level = ''low'', eo_provider_requested = ''openai'', eo_model_requested = ''a'',
      eo_provider_chosen = ''openai'', eo_model_chosen = chosen, eo_readiness_status = ''recommendable'',
      eo_sample_count = n, eo_measured_savings_count = n, eo_total_gross_savings_usd = Some 1,
      eo_average_gross_savings_usd = Some 1, eo_quality_pass_rate = Some rate, eo_feedback_acceptance_rate = None,
      eo_reason_codes = [], eo_window_days = 30, eo_computed_at = 0\<rparr>"

definition sample_prior_store :: prior_store where
  "sample_prior_store =
     \<lparr>pt_rows = [sample_prior ''chat'' ''b'' 1 1, sample_prior ''chat'' ''b'' 1 0, sample_prior ''billing'' ''b'' 5 0],
      pt_prior_cache = Map.empty, pt_stats_cache = Map.empty\<rparr>"

lemma sample_stats:
  "map (\<lambda>c. (cs_model c, cs_sample_count c, cs_quality_pass_rate c))
     (fst (candidate_stats_for_request True ''p'' ''a'' (Some ''chat'') sample_prior_store)) = [(''b'', 2, Some (1 / 2))]"
  by (simp add: candidate_stats_for_request_def sample_prior_store_def sample_prior_def prior_rows_def or_str_def
      prior_query_def merge_candidate_rows_def group_rows_def candidate_key_def names_candidate_def
      weighted_mean_def weighted_rows_def Let_def routing_levers_def lever_model_downshift_def sort_key_def)

theorem bandit_evidence_is_local_witness:
  "\<exists>c. fst (candidate_stats_for_request True ''p'' ''a'' (Some ''chat'') sample_prior_store) = [c] \<and>
     cs_sample_count c = 2 \<and> (\<exists>q. cs_quality_pass_rate c = Some q \<and> 0 \<le> q \<and> q \<le> 1)"
proof -
  obtain c where c: "fst (candidate_stats_for_request True ''p'' ''a'' (Some ''chat'') sample_prior_store) = [c]"
    and n: "cs_sample_count c = 2" "cs_quality_pass_rate c = Some (1 / 2)"
    using sample_stats by (auto simp: map_eq_Cons_conv)
  have empty: "pt_stats_cache sample_prior_store (''p'', ''a'', Some ''chat'') = None" by (simp add: sample_prior_store_def)
  have rates: "\<forall>r \<in> set (pt_rows sample_prior_store). \<forall>v. eo_quality_pass_rate r = Some v \<longrightarrow> 0 \<le> v \<and> v \<le> 1"
    by (simp add: sample_prior_store_def sample_prior_def)
  have "0 \<le> q \<and> q \<le> 1" if "cs_quality_pass_rate c = Some q" for q
    using bandit_evidence_is_local [OF empty _ _ rates] that by (simp add: Let_def c)
  then show ?thesis using c n by blast
qed

end
