(* ===== verification/Recommendations.thy ===== *)
theory Recommendations
  imports Workloads Execution
begin

text \<open>
  \<open>recommendations.py\<close>: the generators over a month of the ledger and the upsert of what they propose.
  The texts shown to the user (description, rationale, details) are left out. Among equal sums the order of
  the rows is the database's choice; here it is the order of first occurrence.
\<close>

record catalog_row =
  mc_model_key :: string
  mc_provider :: string
  mc_cheaper_substitute_key :: "string option"

record recommendation_seed =
  sd_dedupe_key :: string
  sd_type :: string
  sd_title :: string
  sd_estimated_monthly_savings_usd :: "decimal option"
  sd_risk_level :: string
  sd_confidence :: string
  sd_lever :: "string option"
  sd_target_type :: "string option"
  sd_target_key :: "string option"
  sd_monthly_request_volume :: "int option"
  sd_measurement_method :: string
  sd_related_provider :: "string option"
  sd_related_model :: "string option"
  sd_related_feature :: "string option"
  sd_related_environment :: "string option"

record refresh_env =
  rf_project :: project
  rf_now :: datetime
  rf_usage :: "usage_event list"
  rf_decisions :: "decision_event list"
  rf_decisions_ok :: bool
  rf_catalog :: "catalog_row list"
  rf_prices :: "price_row list"
  rf_budget :: "decimal option"

section \<open>The table\<close>

text \<open>
  The session does not flush on its own, so an upsert sees the rows in the table and not the ones that are
  still pending.
\<close>

record rec_table =
  rt_rows :: "recommendation list"
  rt_pending :: "recommendation list"

definition refreshed_rec :: "datetime \<Rightarrow> recommendation_seed \<Rightarrow> recommendation \<Rightarrow> recommendation" where
  "refreshed_rec now sd r =
     r\<lparr>rec_title := sd_title sd, rec_lever := sd_lever sd, rec_target_type := sd_target_type sd,
       rec_target_key := sd_target_key sd,
       rec_estimated_monthly_savings_usd := sd_estimated_monthly_savings_usd sd,
       rec_monthly_request_volume := sd_monthly_request_volume sd,
       rec_measurement_method := Some (sd_measurement_method sd), rec_risk_level := sd_risk_level sd,
       rec_confidence := sd_confidence sd, rec_related_provider := sd_related_provider sd,
       rec_related_model := sd_related_model sd, rec_related_feature := sd_related_feature sd,
       rec_related_environment := sd_related_environment sd, rec_updated_at := now\<rparr>"

definition new_rec :: "uuid \<Rightarrow> project \<Rightarrow> datetime \<Rightarrow> recommendation_seed \<Rightarrow> recommendation" where
  "new_rec new_id project now sd =
     \<lparr>rec_id = new_id, rec_organization_id = pj_organization_id project, rec_project_id = pj_id project,
      rec_lever = sd_lever sd, rec_target_type = sd_target_type sd, rec_target_key = sd_target_key sd,
      rec_related_model = sd_related_model sd, rec_related_feature = sd_related_feature sd, rec_status = Open,
      rec_resolved_at = None, rec_updated_at = now,
      rec_estimated_monthly_savings_usd = sd_estimated_monthly_savings_usd sd,
      rec_measurement_method = Some (sd_measurement_method sd),
      rec_monthly_request_volume = sd_monthly_request_volume sd, rec_risk_level = sd_risk_level sd,
      rec_title = sd_title sd, rec_dedupe_key = sd_dedupe_key sd, rec_type = sd_type sd,
      rec_confidence = sd_confidence sd, rec_related_provider = sd_related_provider sd,
      rec_related_environment = sd_related_environment sd, rec_created_at = now\<rparr>"

definition same_slot :: "project \<Rightarrow> recommendation_seed \<Rightarrow> recommendation \<Rightarrow> bool" where
  "same_slot project sd r \<longleftrightarrow> rec_project_id r = pj_id project \<and> rec_dedupe_key r = sd_dedupe_key sd"

definition upsert :: "project \<Rightarrow> (nat \<Rightarrow> uuid) \<Rightarrow> datetime \<Rightarrow> recommendation_seed \<Rightarrow> rec_table \<Rightarrow> rec_table" where
  "upsert project new_id now sd t =
     (case find (same_slot project sd) (rt_rows t) of
        Some existing \<Rightarrow>
          if rec_status existing \<noteq> Open then t
          else t\<lparr>rt_rows := map (\<lambda>r. if same_slot project sd r then refreshed_rec now sd r else r) (rt_rows t)\<rparr>
      | None \<Rightarrow>
          t\<lparr>rt_pending := rt_pending t @ [new_rec (new_id (length (rt_pending t))) project now sd]\<rparr>)"

text \<open>
  The commit inserts the pending rows under the unique constraint on project and dedupe key and the
  lengths of the columns; \<open>None\<close> is the database error.
\<close>

definition slot_of :: "recommendation \<Rightarrow> uuid \<times> string" where
  "slot_of r = (rec_project_id r, rec_dedupe_key r)"

definition fits_columns :: "recommendation \<Rightarrow> bool" where
  "fits_columns r \<longleftrightarrow> length (rec_dedupe_key r) \<le> 255 \<and> length (rec_title r) \<le> 255 \<and>
     (case rec_target_key r of None \<Rightarrow> True | Some k \<Rightarrow> length k \<le> 255)"

definition commit :: "rec_table \<Rightarrow> recommendation list option" where
  "commit t =
     (let rows = rt_rows t @ rt_pending t
      in if distinct (map slot_of rows) \<and> list_all fits_columns rows then Some rows else None)"

section \<open>Amounts and names\<close>

fun show_digits :: "nat \<Rightarrow> int \<Rightarrow> string" where
  "show_digits 0 i = []"
| "show_digits (Suc n) i = show_digits n (i div 10) @ [''0123456789'' ! nat (i mod 10)]"

text \<open>\<open>f"{now:%Y-%m}"\<close>, for years of four digits.\<close>

definition month_tag :: "datetime \<Rightarrow> string" where
  "month_tag now = show_digits 4 (int (year_of now)) @ ''-'' @ show_digits 2 (int (month_of now))"

definition days_this_month :: "datetime \<Rightarrow> nat" where
  "days_this_month now = days_in_month (year_of now) (month_of now)"

definition run_rate :: "decimal \<Rightarrow> datetime \<Rightarrow> decimal" where
  "run_rate v now =
     (if v \<le> 0 then 0 else v / of_nat (day_of_month now + 1) * of_nat (days_this_month now))"

definition target_name :: "string \<Rightarrow> string option \<Rightarrow> string" where
  "target_name request_type feature =
     (case or_str feature None of
        None \<Rightarrow> if request_type = [] then ''unknown workload'' else request_type
      | Some f \<Rightarrow> if request_type = [] then f else f @ '' / '' @ request_type)"

definition target_route_key :: "string \<Rightarrow> string option \<Rightarrow> string" where
  "target_route_key request_type feature =
     or_unknown feature @ '':'' @ or_unknown (Some request_type)"

definition latest_price :: "price_row list \<Rightarrow> string \<Rightarrow> string \<Rightarrow> price_row option" where
  "latest_price prices model_key provider =
     (let base = filter (\<lambda>p. pr_model_key p = model_key) prices
      in case latest_by pr_effective_at (filter (\<lambda>p. pr_provider p = provider) base) of
           Some p \<Rightarrow> Some p
         | None \<Rightarrow> latest_by pr_effective_at base)"

definition model_catalog :: "catalog_row list \<Rightarrow> string \<Rightarrow> string \<Rightarrow> catalog_row option" where
  "model_catalog rows model_key provider =
     (let base = filter (\<lambda>c. mc_model_key c = model_key) rows
      in case find (\<lambda>c. mc_provider c = provider) base of
           Some c \<Rightarrow> Some c
         | None \<Rightarrow> find (\<lambda>_. True) base)"

definition priced_cost :: "price_row \<Rightarrow> int \<Rightarrow> int \<Rightarrow> bool \<Rightarrow> decimal" where
  "priced_cost p input_tokens output_tokens use_batch =
     (let input_rate = (case pr_input_batch p of Some r \<Rightarrow> if use_batch then r else pr_input p | None \<Rightarrow> pr_input p);
          output_rate = (case pr_output_batch p of Some r \<Rightarrow> if use_batch then r else pr_output p | None \<Rightarrow> pr_output p)
      in of_int input_tokens * input_rate + of_int output_tokens * output_rate)"

definition rows_cost :: "usage_event list \<Rightarrow> decimal" where
  "rows_cost rows = coalesce_sum ue_cost_usd (\<lambda>_. True) rows"

definition rows_sum :: "(usage_event \<Rightarrow> int) \<Rightarrow> usage_event list \<Rightarrow> int" where
  "rows_sum f rows = sum_list (map f rows)"

text \<open>\<open>ORDER BY key DESC LIMIT n\<close> over groups.\<close>

definition top_groups :: "nat \<Rightarrow> ('a list \<Rightarrow> decimal) \<Rightarrow> ('k \<times> 'a list) list \<Rightarrow> ('k \<times> 'a list) list" where
  "top_groups n key groups = take n (sort_key (\<lambda>g. - key (snd g)) groups)"

text \<open>A loop that returns at the first hit.\<close>

fun first_some :: "('a \<Rightarrow> 'b option) \<Rightarrow> 'a list \<Rightarrow> 'b option" where
  "first_some f [] = None"
| "first_some f (x # xs) = (case f x of Some y \<Rightarrow> Some y | None \<Rightarrow> first_some f xs)"

definition month_usage :: "refresh_env \<Rightarrow> usage_event list" where
  "month_usage env =
     filter (\<lambda>e. ue_project_id e = pj_id (rf_project env) \<and> month_start (rf_now env) \<le> ue_received_at e) (rf_usage env)"


section \<open>The generators\<close>

text \<open>What all seeds have in common; each generator overwrites the rest.\<close>

definition base_seed :: "string \<Rightarrow> string \<Rightarrow> string \<Rightarrow> recommendation_seed" where
  "base_seed key type title =
     \<lparr>sd_dedupe_key = key, sd_type = type, sd_title = title, sd_estimated_monthly_savings_usd = None,
      sd_risk_level = ''low'', sd_confidence = ''medium'', sd_lever = None, sd_target_type = None, sd_target_key = None,
      sd_monthly_request_volume = None, sd_measurement_method = ''estimated'', sd_related_provider = None,
      sd_related_model = None, sd_related_feature = None, sd_related_environment = None\<rparr>"

definition trim_target_model :: "usage_event list \<Rightarrow> (string \<times> string) option" where
  "trim_target_model rows =
     (case top_groups 1 (\<lambda>es. of_int (rows_sum ue_input_tokens es)) (group_rows (\<lambda>e. (ue_provider e, ue_model e)) rows) of
        [] \<Rightarrow> None | (k, _) # _ \<Rightarrow> Some k)"

definition token_trim_row :: "datetime \<Rightarrow> (string \<times> string option) \<times> usage_event list \<Rightarrow> recommendation_seed option" where
  "token_trim_row now g =
     (case g of ((request_type, feature), rows) \<Rightarrow>
       (let output_tokens = rows_sum ue_output_tokens rows; input_tokens = rows_sum ue_input_tokens rows;
            spend = rows_cost rows; target = trim_target_model rows
        in if output_tokens \<le> 0 \<or> of_int input_tokens / of_int output_tokens < (8 :: rat) \<or> spend \<le> 0 then None
           else Some ((base_seed (''token_trim:'' @ target_route_key request_type feature @ '':'' @ month_tag now)
                        ''token_trim'' (''Trim context for '' @ target_name request_type feature))
                  \<lparr>sd_lever := Some lever_token_trim,
                   sd_estimated_monthly_savings_usd := Some (run_rate (spend * (15 / 100)) now),
                   sd_monthly_request_volume := Some (int (length rows)), sd_risk_level := ''medium'',
                   sd_target_type := Some ''route'', sd_target_key := Some (target_route_key request_type feature),
                   sd_related_provider := map_option fst target, sd_related_model := map_option snd target,
                   sd_related_feature := feature\<rparr>)))"

definition token_trim_seed :: "refresh_env \<Rightarrow> decimal \<Rightarrow> recommendation_seed option" where
  "token_trim_seed env total_spend =
     (if total_spend \<le> 0 then None
      else first_some (token_trim_row (rf_now env))
             (top_groups 5 rows_cost (group_rows (\<lambda>e. (ue_request_type e, ue_feature e)) (month_usage env))))"

definition prompt_cache_row ::
  "refresh_env \<Rightarrow> (string \<times> string \<times> string \<times> string option) \<times> usage_event list \<Rightarrow> recommendation_seed option" where
  "prompt_cache_row env g =
     (case g of ((provider, model, request_type, feature), rows) \<Rightarrow>
       (let requests = int (length rows); input_tokens = rows_sum ue_input_tokens rows;
            cached = rows_sum ue_cached_input_tokens rows; now = rf_now env
        in if requests < 20 \<or> input_tokens \<le> 0 then None
           else if of_int input_tokens / of_int requests < (1500 :: rat) \<or>
                   (1 / 2 :: rat) \<le> of_int cached / of_int input_tokens then None
           else (case latest_price (rf_prices env) model provider of
             None \<Rightarrow> None
           | Some price \<Rightarrow>
               (case pr_cache_read price of
                  None \<Rightarrow> None
                | Some cache_read \<Rightarrow>
                    (let rate_delta = pr_input price - cache_read;
                         canonical = canonical_route_key feature None (Some request_type) None;
                         (samples, dominant_share) =
                           (case prefix_stability (rf_decisions_ok env) (pj_id (rf_project env)) (month_start now)
                                   (rf_decisions env) canonical of Some x \<Rightarrow> x | None \<Rightarrow> (0, 0));
                         measured = 20 \<le> samples;
                         unstable = measured \<and> dominant_share \<le> 4 / 10;
                         stable = measured \<and> 7 / 10 \<le> dominant_share;
                         cacheable_share = (if \<not> unstable \<and> stable then quantize_half_even 4 dominant_share else 1 / 2);
                         savings = run_rate (of_int (input_tokens - cached) * cacheable_share * rate_delta) now;
                         kind = (if unstable then ''prompt_prefix_restructure'' else ''prompt_cache'');
                         title = (if unstable then ''Stabilize the prompt prefix for '' else ''Enable prompt caching for '')
                     in if rate_delta \<le> 0 \<or> savings \<le> 0 then None
                        else Some ((base_seed (kind @ '':'' @ target_route_key request_type feature @ '':'' @ model @ '':'' @
                                      month_tag now) kind (title @ target_name request_type feature))
                          \<lparr>sd_lever := Some lever_semantic_cache, sd_estimated_monthly_savings_usd := Some savings,
                           sd_monthly_request_volume := Some requests,
                           sd_confidence := (if \<not> unstable \<and> stable then ''high'' else ''medium''),
                           sd_target_type := Some ''route'', sd_target_key := Some (target_route_key request_type feature),
                           sd_related_provider := Some provider, sd_related_model := Some model,
                           sd_related_feature := feature\<rparr>))))))"

definition prompt_cache_seed :: "refresh_env \<Rightarrow> recommendation_seed option" where
  "prompt_cache_seed env =
     first_some (prompt_cache_row env)
       (top_groups 20 (\<lambda>es. of_int (rows_sum ue_input_tokens es))
         (group_rows (\<lambda>e. (ue_provider e, ue_model e, ue_request_type e, ue_feature e)) (month_usage env)))"

definition agent_loop_seed :: "refresh_env \<Rightarrow> recommendation_seed option" where
  "agent_loop_seed env =
     (case detect_agent_loops (rf_decisions_ok env) (pj_id (rf_project env)) (month_start (rf_now env)) 2 3 (rf_decisions env) of
        [] \<Rightarrow> None
      | worst # _ \<Rightarrow>
          (let waste = run_rate (lf_wasted_cost worst) (rf_now env)
           in if waste \<le> 0 then None
              else Some ((base_seed (''agent_loop:'' @ lf_route_key worst @ '':'' @ month_tag (rf_now env)) ''agent_loop''
                            (''Remove redundant LLM calls in '' @ lf_route_key worst))
                  \<lparr>sd_estimated_monthly_savings_usd := Some waste, sd_confidence := ''high'',
                   sd_monthly_request_volume := Some (int (lf_total_calls worst)),
                   sd_target_type := Some ''route'', sd_target_key := Some (lf_route_key worst),
                   sd_related_model := (if lf_model worst = [] then None else Some (lf_model worst))\<rparr>)))"

definition semantic_cache_seed :: "refresh_env \<Rightarrow> recommendation_seed option" where
  "semantic_cache_seed env =
     (let keyed = filter (\<lambda>e. meta_text e ''semantic_cache_key'' \<noteq> None) (month_usage env);
          key = (\<lambda>e. (the (meta_text e ''semantic_cache_key''), ue_request_type e, ue_feature e))
      in case top_groups 1 (\<lambda>es. of_nat (length es)) (group_rows key keyed) of
           [] \<Rightarrow> None
         | ((cache_key, request_type, feature), rows) # _ \<Rightarrow>
             if length rows < 3 \<or> rows_cost rows \<le> 0 then None
             else Some ((base_seed (''semantic_cache:'' @ cache_key @ '':'' @ month_tag (rf_now env)) ''semantic_cache''
                           (''Cache repeated requests for '' @ target_name request_type feature))
                 \<lparr>sd_lever := Some lever_semantic_cache,
                  sd_estimated_monthly_savings_usd := Some (run_rate (rows_cost rows * (1 / 2)) (rf_now env)),
                  sd_monthly_request_volume := Some (int (length rows)),
                  sd_target_type := Some ''route'', sd_target_key := Some (target_route_key request_type feature),
                  sd_related_feature := feature\<rparr>))"


definition ilike_any :: "string list \<Rightarrow> string \<Rightarrow> bool" where
  "ilike_any needles s \<longleftrightarrow> list_ex (\<lambda>n. py_contains n (py_lower s)) needles"

definition is_batchable :: "usage_event \<Rightarrow> bool" where
  "is_batchable e \<longleftrightarrow>
     (case dict_get (ue_metadata e) ''batchable'' of
        JStr s \<Rightarrow> s \<in> {''true'', ''1'', ''yes''} | JBool b \<Rightarrow> b | JInt i \<Rightarrow> i = 1 | _ \<Rightarrow> False) \<or>
     ilike_any [''batch'', ''background'', ''export'', ''sync''] (ue_request_type e)"

definition batching_row ::
  "refresh_env \<Rightarrow> (string \<times> string \<times> string \<times> string option) \<times> usage_event list \<Rightarrow> recommendation_seed option" where
  "batching_row env g =
     (case g of ((provider, model, request_type, feature), rows) \<Rightarrow>
       (case latest_price (rf_prices env) model provider of
          None \<Rightarrow> None
        | Some price \<Rightarrow>
            (let inp = rows_sum ue_input_tokens rows; outp = rows_sum ue_output_tokens rows;
                 savings = priced_cost price inp outp False - priced_cost price inp outp True
             in if pr_input_batch price = None \<or> pr_output_batch price = None \<or> savings \<le> 0 then None
                else Some ((base_seed (''batching:'' @ target_route_key request_type feature @ '':'' @ model @ '':'' @
                              month_tag (rf_now env)) ''batching''
                              (''Batch non-urgent '' @ target_name request_type feature @ '' calls''))
                    \<lparr>sd_lever := Some lever_batching, sd_confidence := ''high'',
                     sd_estimated_monthly_savings_usd := Some (run_rate savings (rf_now env)),
                     sd_monthly_request_volume := Some (int (length rows)),
                     sd_target_type := Some ''route'', sd_target_key := Some (target_route_key request_type feature),
                     sd_related_provider := Some provider, sd_related_model := Some model,
                     sd_related_feature := feature\<rparr>))))"

definition batching_seed :: "refresh_env \<Rightarrow> recommendation_seed option" where
  "batching_seed env =
     first_some (batching_row env)
       (top_groups 10 rows_cost (group_rows (\<lambda>e. (ue_provider e, ue_model e, ue_request_type e, ue_feature e))
         (filter is_batchable (month_usage env))))"

definition eligible_share :: decimal where
  "eligible_share = 70 / 100"

definition is_prod :: "string option \<Rightarrow> bool" where
  "is_prod environment \<longleftrightarrow> environment \<in> {Some ''production'', Some ''prod''}"

definition model_downshift_row ::
  "refresh_env \<Rightarrow> (string \<times> string \<times> string option \<times> string option) \<times> usage_event list \<Rightarrow> recommendation_seed option" where
  "model_downshift_row env g =
     (case g of ((provider, model, feature, environment), rows) \<Rightarrow>
       (case Option.bind (model_catalog (rf_catalog env) model provider) (\<lambda>c. or_str (mc_cheaper_substitute_key c) None) of
          None \<Rightarrow> None
        | Some cheaper_key \<Rightarrow>
            (case (latest_price (rf_prices env) model provider, latest_price (rf_prices env) cheaper_key provider) of
               (Some current_price, Some cheaper_price) \<Rightarrow>
                 (let inp = rows_sum ue_input_tokens rows; outp = rows_sum ue_output_tokens rows;
                      savings = (priced_cost current_price inp outp False - priced_cost cheaper_price inp outp False) *
                        eligible_share;
                      name = (case or_str feature None of Some f \<Rightarrow> f | None \<Rightarrow> model)
                  in if savings \<le> 0 then None
                     else Some ((base_seed (lever_model_downshift @ '':'' @ name @ '':'' @ model @ '':'' @ cheaper_key @ '':'' @
                                   month_tag (rf_now env)) lever_model_downshift
                                   (''Evaluate '' @ cheaper_key @ '' for '' @ name))
                         \<lparr>sd_lever := Some lever_model_downshift,
                          sd_estimated_monthly_savings_usd := Some (run_rate savings (rf_now env)),
                          sd_monthly_request_volume := Some (int (length rows)),
                          sd_risk_level := (if is_prod environment then ''medium'' else ''low''),
                          sd_target_type := Some ''feature'', sd_target_key := Some name,
                          sd_related_provider := Some provider, sd_related_model := Some model,
                          sd_related_feature := feature, sd_related_environment := environment\<rparr>))
             | _ \<Rightarrow> None)))"

definition model_downshift_seed :: "refresh_env \<Rightarrow> recommendation_seed option" where
  "model_downshift_seed env =
     first_some (model_downshift_row env)
       (top_groups 20 rows_cost (group_rows (\<lambda>e. (ue_provider e, ue_model e, ue_feature e, ue_environment e))
         (month_usage env)))"

text \<open>The first smallest and the first largest by a key, of a list that is not empty.\<close>

fun min_by :: "('a \<Rightarrow> decimal) \<Rightarrow> 'a \<Rightarrow> 'a list \<Rightarrow> 'a" where
  "min_by key b [] = b"
| "min_by key b (x # xs) = min_by key (if key x < key b then x else b) xs"

definition average_cost :: "'k \<times> usage_event list \<Rightarrow> decimal" where
  "average_cost g = rows_cost (snd g) / of_nat (length (snd g))"

type_synonym usage_group = "(string \<times> string option \<times> string \<times> string) \<times> usage_event list"

definition routing_seed :: "datetime \<Rightarrow> string \<Rightarrow> usage_group \<Rightarrow> usage_group \<Rightarrow> decimal \<Rightarrow> recommendation_seed" where
  "routing_seed now route expensive cheapest savings =
     (case (fst expensive, fst cheapest) of ((request_type, feature, provider, model), (_, _, _, cheap_model)) \<Rightarrow>
        (base_seed (''smart_routing:'' @ route @ '':'' @ model @ '':'' @ cheap_model @ '':'' @ month_tag now) ''smart_routing''
           (''Route some '' @ target_name request_type feature @ '' traffic to '' @ cheap_model))
        \<lparr>sd_lever := Some lever_smart_routing, sd_estimated_monthly_savings_usd := Some (run_rate savings now),
         sd_monthly_request_volume := Some (int (length (snd expensive))), sd_risk_level := ''medium'',
         sd_target_type := Some ''route'', sd_target_key := Some route, sd_related_provider := Some provider,
         sd_related_model := Some model, sd_related_feature := feature\<rparr>)"

text \<open>One route: the seed so far and its savings are replaced by a strictly better one.\<close>

definition routing_step ::
  "datetime \<Rightarrow> string \<times> usage_group list \<Rightarrow> recommendation_seed option \<times> decimal \<Rightarrow> recommendation_seed option \<times> decimal" where
  "routing_step now g best =
     (case filter (\<lambda>r. 0 < rows_cost (snd r) \<and> snd r \<noteq> []) (snd g) of
        x # y # zs \<Rightarrow>
          (let cheapest = min_by average_cost x (y # zs); expensive = min_by (\<lambda>r. - average_cost r) x (y # zs);
               savings = (average_cost expensive - average_cost cheapest) * of_nat (length (snd expensive)) * eligible_share
           in if average_cost expensive \<le> average_cost cheapest \<or> savings \<le> snd best then best
              else (Some (routing_seed now (fst g) expensive cheapest savings), savings))
      | _ \<Rightarrow> best)"

definition smart_routing_seed :: "refresh_env \<Rightarrow> recommendation_seed option" where
  "smart_routing_seed env =
     (let groups = group_rows (\<lambda>e. (ue_request_type e, ue_feature e, ue_provider e, ue_model e)) (month_usage env);
          by_route = group_rows (\<lambda>((request_type, feature, provider, model), rows). target_route_key request_type feature) groups
      in fst (fold (routing_step (rf_now env)) by_route (None, 0)))"


section \<open>The refresh\<close>

definition monthly_forecast :: "refresh_env \<Rightarrow> decimal" where
  "monthly_forecast env =
     rows_cost (month_usage env) / of_nat (day_of_month (rf_now env) + 1) * of_nat (days_this_month (rf_now env))"

definition unpriced_seed :: "refresh_env \<Rightarrow> recommendation_seed option" where
  "unpriced_seed env =
     (if \<not> list_ex (\<lambda>e. ue_pricing_status e \<noteq> Priced) (month_usage env) then None
      else Some ((base_seed (''unpriced:'' @ month_tag (rf_now env)) ''unpriced_usage'' ''Review unpriced usage'')
        \<lparr>sd_confidence := ''high'', sd_target_type := Some ''pricing_catalog'', sd_target_key := Some ''unpriced_usage''\<rparr>))"

definition budget_seed :: "refresh_env \<Rightarrow> recommendation_seed option" where
  "budget_seed env =
     (case rf_budget env of
        None \<Rightarrow> None
      | Some budget \<Rightarrow>
          if monthly_forecast env \<le> budget then None
          else Some ((base_seed (''budget_overrun:'' @ month_tag (rf_now env)) ''budget_overrun'' ''Forecast is over budget'')
            \<lparr>sd_estimated_monthly_savings_usd := Some (monthly_forecast env - budget), sd_risk_level := ''medium'',
             sd_target_type := Some ''budget'', sd_target_key := Some ''monthly_spend_budget''\<rparr>))"

definition environment_row :: "datetime \<Rightarrow> string option \<times> usage_event list \<Rightarrow> recommendation_seed option" where
  "environment_row now g =
     (let env = or_unknown (fst g); spend = rows_cost (snd g)
      in if is_prod (Some env) \<or> spend \<le> 0 then None
         else Some ((base_seed (''nonprod:'' @ env @ '':'' @ month_tag now) ''non_production_spend''
                      (''Review '' @ env @ '' AI spend''))
           \<lparr>sd_estimated_monthly_savings_usd := Some spend, sd_target_type := Some ''environment'',
            sd_target_key := Some env, sd_related_environment := Some env\<rparr>))"

definition failed_seed :: "refresh_env \<Rightarrow> recommendation_seed option" where
  "failed_seed env =
     (let failed = filter (\<lambda>e. \<not> ue_success e) (month_usage env)
      in if failed = [] \<or> rows_cost failed \<le> 0 then None
         else Some ((base_seed (''failed_spend:'' @ month_tag (rf_now env)) ''failed_request_spend''
                      ''Investigate failed request spend'')
           \<lparr>sd_estimated_monthly_savings_usd := Some (rows_cost failed), sd_target_type := Some ''request_health'',
            sd_target_key := Some ''failed_requests''\<rparr>))"

definition opt_list :: "'a option \<Rightarrow> 'a list" where
  "opt_list x = (case x of None \<Rightarrow> [] | Some y \<Rightarrow> [y])"

text \<open>No generator looks at the recommendations, so the seeds of a refresh are a function of the ledger.\<close>

definition refresh_seeds :: "refresh_env \<Rightarrow> recommendation_seed list" where
  "refresh_seeds env =
     opt_list (unpriced_seed env) @ opt_list (budget_seed env) @
     List.map_filter (environment_row (rf_now env)) (group_rows ue_environment (month_usage env)) @
     opt_list (failed_seed env) @ opt_list (token_trim_seed env (rows_cost (month_usage env))) @
     opt_list (prompt_cache_seed env) @ opt_list (agent_loop_seed env) @ opt_list (semantic_cache_seed env) @
     opt_list (batching_seed env) @ opt_list (model_downshift_seed env) @ opt_list (smart_routing_seed env)"

definition refresh_recommendations :: "refresh_env \<Rightarrow> (nat \<Rightarrow> uuid) \<Rightarrow> rec_table \<Rightarrow> rec_table" where
  "refresh_recommendations env new_id = fold (upsert (rf_project env) new_id (rf_now env)) (refresh_seeds env)"

text \<open>
  \<open>None\<close> is an error of the commit. Otherwise: whether a recompute happened, the time of the last one and the
  rows.
\<close>

definition ensure_recommendations_fresh ::
  "settings \<Rightarrow> refresh_env \<Rightarrow> (nat \<Rightarrow> uuid) \<Rightarrow> datetime option \<Rightarrow> recommendation list
    \<Rightarrow> (bool \<times> datetime option \<times> recommendation list) option" where
  "ensure_recommendations_fresh st env new_id refreshed_at rows =
     (if (case refreshed_at of None \<Rightarrow> False | Some t \<Rightarrow> rf_now env - t < recommendations_max_age_seconds st * 1000000)
      then Some (False, refreshed_at, rows)
      else map_option (\<lambda>rows'. (True, Some (rf_now env), rows'))
             (commit (refresh_recommendations env new_id \<lparr>rt_rows = rows, rt_pending = []\<rparr>)))"

section \<open>Upserts in closed form\<close>

definition last_seed :: "project \<Rightarrow> recommendation_seed list \<Rightarrow> recommendation \<Rightarrow> recommendation_seed option" where
  "last_seed project seeds r = find (\<lambda>sd. same_slot project sd r) (rev seeds)"

definition upserted_row :: "project \<Rightarrow> datetime \<Rightarrow> recommendation_seed list \<Rightarrow> recommendation \<Rightarrow> recommendation" where
  "upserted_row project now seeds r =
     (if rec_status r \<noteq> Open then r
      else (case last_seed project seeds r of None \<Rightarrow> r | Some sd \<Rightarrow> refreshed_rec now sd r))"

definition unseen :: "project \<Rightarrow> recommendation list \<Rightarrow> recommendation_seed \<Rightarrow> bool" where
  "unseen project rows sd \<longleftrightarrow> \<not> list_ex (same_slot project sd) rows"

lemma refreshed_rec_simps [simp]:
  "same_slot project sd (refreshed_rec now sd' r) = same_slot project sd r"
  "rec_status (refreshed_rec now sd r) = rec_status r"
  "rec_id (refreshed_rec now sd r) = rec_id r"
  "slot_of (refreshed_rec now sd r) = slot_of r"
  "refreshed_rec now sd (refreshed_rec now sd' r) = refreshed_rec now sd r"
  by (simp_all add: refreshed_rec_def same_slot_def slot_of_def)

lemma upserted_row_simps [simp]:
  "same_slot project sd (upserted_row project now seeds r) = same_slot project sd r"
  "rec_status (upserted_row project now seeds r) = rec_status r"
  "slot_of (upserted_row project now seeds r) = slot_of r"
  by (simp_all add: upserted_row_def split: option.split)

lemma same_slot_unique:
  "distinct (map slot_of rows) \<Longrightarrow> r \<in> set rows \<Longrightarrow> r' \<in> set rows \<Longrightarrow> same_slot project sd r \<Longrightarrow>
     same_slot project sd r' \<Longrightarrow> r = r'"
  using inj_onD [of slot_of "set rows" r r'] by (simp add: distinct_map same_slot_def slot_of_def)

lemma last_seed_snoc:
  "last_seed project (seeds @ [sd]) r = (if same_slot project sd r then Some sd else last_seed project seeds r)"
  by (simp add: last_seed_def)

lemma upsert_closed_form:
  assumes "distinct (map slot_of rows)"
  shows "fold (upsert project new_id now) seeds \<lparr>rt_rows = rows, rt_pending = []\<rparr> =
    \<lparr>rt_rows = map (upserted_row project now seeds) rows,
     rt_pending = map (\<lambda>(i, sd). new_rec (new_id i) project now sd)
       (enumerate 0 (filter (unseen project rows) seeds))\<rparr>"
proof (induction seeds rule: rev_induct)
  case Nil
  then show ?case by (simp add: upserted_row_def last_seed_def map_idI)
next
  case (snoc sd seeds)
  let ?rows = "map (upserted_row project now seeds) rows"
  show ?case
  proof (cases "find (same_slot project sd) ?rows")
    case None
    then have new: "\<forall>r \<in> set rows. \<not> same_slot project sd r" by (auto simp: find_None_iff)
    then have "\<forall>r \<in> set rows. upserted_row project now (seeds @ [sd]) r = upserted_row project now seeds r"
      by (simp add: upserted_row_def last_seed_snoc)
    moreover have "unseen project rows sd" using new by (simp add: unseen_def list_ex_iff)
    ultimately show ?thesis using snoc None by (simp add: upsert_def enumerate_append_eq)
  next
    case (Some x)
    then obtain r where r: "r \<in> set rows" "x = upserted_row project now seeds r" "same_slot project sd r"
      by (auto dest!: find_Some_prop)
    then have old: "\<not> unseen project rows sd" by (auto simp: unseen_def list_ex_iff)
    have other: "upserted_row project now (seeds @ [sd]) r' = upserted_row project now seeds r'"
      if "r' \<in> set rows" "r' \<noteq> r" for r'
      using same_slot_unique [OF assms r(1) that(1) r(3)] that(2) by (auto simp: upserted_row_def last_seed_snoc)
    have this_row: "upserted_row project now (seeds @ [sd]) r =
        (if rec_status r \<noteq> Open then r else refreshed_rec now sd (upserted_row project now seeds r))"
      using r(3) by (auto simp: upserted_row_def last_seed_snoc split: option.split)
    have "(if rec_status r \<noteq> Open then ?rows
        else map (\<lambda>q. if same_slot project sd q then refreshed_rec now sd q else q) ?rows) =
        map (upserted_row project now (seeds @ [sd])) rows"
    proof (cases "rec_status r = Open")
      case True
      have "(if same_slot project sd (upserted_row project now seeds q) then refreshed_rec now sd (upserted_row project now seeds q)
          else upserted_row project now seeds q) = upserted_row project now (seeds @ [sd]) q" if "q \<in> set rows" for q
      proof (cases "q = r")
        case True
        then show ?thesis using this_row \<open>rec_status r = Open\<close> r(3) by simp
      next
        case False
        then have "\<not> same_slot project sd q" using same_slot_unique [OF assms r(1) that r(3)] by blast
        then show ?thesis using other [OF that False] by simp
      qed
      then show ?thesis using True by (auto simp: comp_def)
    next
      case False
      then have "upserted_row project now (seeds @ [sd]) q = upserted_row project now seeds q" if "q \<in> set rows" for q
      proof (cases "q = r")
        case True
        then show ?thesis using this_row \<open>rec_status r \<noteq> Open\<close> by (simp add: upserted_row_def)
      next
        case False
        then show ?thesis by (rule other [OF that])
      qed
      then show ?thesis using False by simp
    qed
    then show ?thesis using snoc Some r(2) old by (auto simp: upsert_def split: if_splits)
  qed
qed


lemma new_rec_simps [simp]:
  "same_slot project sd (new_rec i project now sd') \<longleftrightarrow> sd_dedupe_key sd' = sd_dedupe_key sd"
  "slot_of (new_rec i project now sd) = (pj_id project, sd_dedupe_key sd)"
  "rec_status (new_rec i project now sd) = Open"
  "rec_created_at (new_rec i project now sd) = now"
  "refreshed_rec now sd (new_rec i project now sd) = new_rec i project now sd"
  by (auto simp: same_slot_def new_rec_def slot_of_def refreshed_rec_def)

definition inserted :: "project \<Rightarrow> (nat \<Rightarrow> uuid) \<Rightarrow> datetime \<Rightarrow> recommendation_seed list \<Rightarrow> recommendation list \<Rightarrow> recommendation list" where
  "inserted project new_id now seeds rows =
     map (\<lambda>(i, sd). new_rec (new_id i) project now sd) (enumerate 0 (filter (unseen project rows) seeds))"

lemma inserted_slots:
  "map slot_of (inserted project new_id now seeds rows) =
     map (\<lambda>sd. (pj_id project, sd_dedupe_key sd)) (filter (unseen project rows) seeds)"
proof -
  have "map (slot_of \<circ> (\<lambda>(i, sd). new_rec (new_id i) project now sd)) (enumerate n xs) =
      map (\<lambda>sd. (pj_id project, sd_dedupe_key sd)) xs" for n and xs :: "recommendation_seed list"
    by (induction xs arbitrary: n) simp_all
  then show ?thesis by (simp add: inserted_def)
qed

lemma commit_refresh:
  assumes "distinct (map slot_of rows)"
  shows "commit (refresh_recommendations env new_id \<lparr>rt_rows = rows, rt_pending = []\<rparr>) = Some rows' \<longleftrightarrow>
    rows' = map (upserted_row (rf_project env) (rf_now env) (refresh_seeds env)) rows @
      inserted (rf_project env) new_id (rf_now env) (refresh_seeds env) rows \<and>
    distinct (map slot_of rows') \<and> list_all fits_columns rows'"
proof -
  have "(if P xs then Some xs else None) = Some ys \<longleftrightarrow> ys = xs \<and> P ys" for P and xs ys :: "recommendation list"
    by auto
  then show ?thesis
    unfolding refresh_recommendations_def upsert_closed_form [OF assms] inserted_def [symmetric] commit_def Let_def
      rec_table.simps .
qed

lemma inserted_members:
  "r \<in> set (inserted project new_id now seeds rows) \<Longrightarrow>
     \<exists>i sd. sd \<in> set seeds \<and> unseen project rows sd \<and> r = new_rec (new_id i) project now sd"
proof -
  assume "r \<in> set (inserted project new_id now seeds rows)"
  then obtain i sd where "(i, sd) \<in> set (enumerate 0 (filter (unseen project rows) seeds))"
      "r = new_rec (new_id i) project now sd"
    by (auto simp: inserted_def)
  moreover have "snd (i, sd) \<in> set (map snd (enumerate 0 (filter (unseen project rows) seeds)))"
    unfolding set_map by (rule imageI) fact
  then have "sd \<in> set (filter (unseen project rows) seeds)" by (simp only: map_snd_enumerate snd_conv)
  ultimately show ?thesis by auto
qed

section \<open>Properties\<close>

text \<open>
  C24. A refresh never touches a decision: a recommendation that is applied, dismissed or rolled back
  stays in the table as it is, an open one keeps its identity, key, type, status and creation time, a new row
  is open and comes from a seed whose key the table did not have, and keys stay unique.
\<close>

theorem refresh_preserves_decisions:
  assumes "distinct (map slot_of rows)"
    and "ensure_recommendations_fresh st env new_id refreshed_at rows = Some (recomputed, at', rows')"
  shows "distinct (map slot_of rows') \<and>
    (\<forall>r \<in> set rows. rec_status r \<noteq> Open \<longrightarrow> r \<in> set rows') \<and>
    (\<forall>r' \<in> set rows'.
       (\<exists>r \<in> set rows. rec_id r' = rec_id r \<and> slot_of r' = slot_of r \<and> rec_type r' = rec_type r \<and>
          rec_status r' = rec_status r \<and> rec_created_at r' = rec_created_at r) \<or>
       (rec_status r' = Open \<and> (\<exists>sd \<in> set (refresh_seeds env). unseen (rf_project env) rows sd \<and>
          same_slot (rf_project env) sd r' \<and> rec_type r' = sd_type sd)))"
proof (cases "recomputed")
  case False
  then have "rows' = rows" using assms(2) by (auto simp: ensure_recommendations_fresh_def split: if_splits)
  then show ?thesis using assms(1) by blast
next
  case True
  let ?up = "upserted_row (rf_project env) (rf_now env) (refresh_seeds env)"
  let ?new = "inserted (rf_project env) new_id (rf_now env) (refresh_seeds env) rows"
  have rows': "rows' = map ?up rows @ ?new" "distinct (map slot_of rows')"
    using assms(2) True by (auto simp: ensure_recommendations_fresh_def commit_refresh [OF assms(1)] split: if_splits)
  have "?up r \<in> set rows'" if "r \<in> set rows" for r using that by (simp add: rows'(1))
  moreover have "?up r = r" if "rec_status r \<noteq> Open" for r using that by (simp add: upserted_row_def)
  ultimately have kept: "\<forall>r \<in> set rows. rec_status r \<noteq> Open \<longrightarrow> r \<in> set rows'" by metis
  have old: "rec_id (?up r) = rec_id r \<and> rec_type (?up r) = rec_type r \<and> rec_created_at (?up r) = rec_created_at r" for r
    by (simp add: upserted_row_def refreshed_rec_def split: option.split)
  have "rec_status r' = Open \<and> (\<exists>sd \<in> set (refresh_seeds env). unseen (rf_project env) rows sd \<and>
      same_slot (rf_project env) sd r' \<and> rec_type r' = sd_type sd)" if "r' \<in> set ?new" for r'
    using inserted_members [OF that] by (auto simp: new_rec_def same_slot_def)
  note new = this
  have "(\<exists>r \<in> set rows. rec_id r' = rec_id r \<and> slot_of r' = slot_of r \<and> rec_type r' = rec_type r \<and>
          rec_status r' = rec_status r \<and> rec_created_at r' = rec_created_at r) \<or>
       (rec_status r' = Open \<and> (\<exists>sd \<in> set (refresh_seeds env). unseen (rf_project env) rows sd \<and>
          same_slot (rf_project env) sd r' \<and> rec_type r' = sd_type sd))" if r': "r' \<in> set rows'" for r'
  proof (cases "r' \<in> set ?new")
    case True
    then show ?thesis using new by blast
  next
    case False
    then obtain r where "r \<in> set rows" "r' = ?up r" using r' by (auto simp: rows'(1))
    then show ?thesis using old by (intro disjI1 bexI [of _ r]) simp_all
  qed
  then show ?thesis using rows'(2) kept by blast
qed

lemma distinct_pair_key: "distinct (map (\<lambda>x. (c, f x)) xs) \<longleftrightarrow> distinct (map f xs)"
  by (induction xs) auto

lemma find_unique:
  assumes "x \<in> set xs" "P x" "\<forall>y \<in> set xs. P y \<longrightarrow> y = x"
  shows "find P xs = Some x"
proof (cases "find P xs")
  case None
  then show ?thesis using assms(1,2) by (auto simp: find_None_iff)
next
  case (Some y)
  then show ?thesis using assms(3) by (blast dest: find_Some_prop)
qed

lemma unseen_same_key:
  "sd_dedupe_key sd = sd_dedupe_key sd' \<Longrightarrow> unseen project rows sd = unseen project rows sd'"
  by (simp add: unseen_def same_slot_def [abs_def])

lemma inserted_row_fixed:
  assumes "distinct (map sd_dedupe_key (filter (unseen project rows) seeds))" "sd \<in> set seeds" "unseen project rows sd"
  shows "upserted_row project now seeds (new_rec i project now sd) = new_rec i project now sd"
proof -
  have "sd' = sd" if "sd' \<in> set seeds" "sd_dedupe_key sd' = sd_dedupe_key sd" for sd'
    using inj_onD [of sd_dedupe_key "set (filter (unseen project rows) seeds)" sd' sd] assms that
      unseen_same_key [OF that(2), of project rows]
    by (simp add: distinct_map)
  then have "last_seed project seeds (new_rec i project now sd) = Some sd"
    unfolding last_seed_def using assms(2) by (intro find_unique) auto
  then show ?thesis by (simp add: upserted_row_def)
qed

text \<open>
  A refresh is idempotent: once a recompute has been committed, computing again from the same ledger at
  the same time changes nothing, whatever keys the database would hand out.
\<close>

theorem refresh_idempotent:
  assumes "distinct (map slot_of rows)"
    and "ensure_recommendations_fresh st env new_id None rows = Some (True, at', rows')"
  shows "ensure_recommendations_fresh st env new_id' None rows' = Some (True, at', rows')"
proof -
  let ?p = "rf_project env" and ?now = "rf_now env" and ?sds = "refresh_seeds env"
  let ?up = "upserted_row ?p ?now ?sds" and ?new = "inserted ?p new_id ?now ?sds rows"
  have rows': "rows' = map ?up rows @ ?new" "distinct (map slot_of rows')" "list_all fits_columns rows'" "at' = Some ?now"
    using assms(2) by (auto simp: ensure_recommendations_fresh_def commit_refresh [OF assms(1)])
  have "distinct (map (\<lambda>sd. (pj_id ?p, sd_dedupe_key sd)) (filter (unseen ?p rows) ?sds))"
    using rows'(2) unfolding rows'(1) inserted_slots [of ?p new_id ?now, symmetric] by simp
  then have keys: "distinct (map sd_dedupe_key (filter (unseen ?p rows) ?sds))"
    by (simp only: distinct_pair_key)
  have "?up r' = r'" if new: "r' \<in> set ?new" for r'
    using inserted_members [OF new] inserted_row_fixed [OF keys] by metis
  moreover have "?up (?up r) = ?up r" for r
    by (auto simp: upserted_row_def last_seed_def split: option.split)
  ultimately have "map ?up rows' = rows'" by (auto simp: rows'(1) intro!: map_idI)
  moreover have "\<not> unseen ?p rows' sd" if sd: "sd \<in> set ?sds" for sd
  proof (cases "unseen ?p rows sd")
    case False
    then obtain r where "r \<in> set rows" "same_slot ?p sd r" by (auto simp: unseen_def list_ex_iff)
    then have "?up r \<in> set rows'" "same_slot ?p sd (?up r)" by (simp_all add: rows'(1))
    then show ?thesis unfolding unseen_def list_ex_iff by blast
  next
    case True
    then have "(pj_id ?p, sd_dedupe_key sd) \<in> set (map slot_of ?new)" using sd unfolding inserted_slots by auto
    then obtain r' where "r' \<in> set ?new" "slot_of r' = (pj_id ?p, sd_dedupe_key sd)" by auto
    then show ?thesis by (auto simp: unseen_def list_ex_iff rows'(1) same_slot_def slot_of_def)
  qed
  then have "inserted ?p new_id' ?now ?sds rows' = []" by (simp add: inserted_def filter_empty_conv)
  ultimately have "commit (refresh_recommendations env new_id' \<lparr>rt_rows = rows', rt_pending = []\<rparr>) = Some rows'"
    using rows'(2,3) by (simp add: commit_refresh)
  then show ?thesis by (simp add: ensure_recommendations_fresh_def rows'(4))
qed

lemma map_filter_collision:
  assumes "x \<in> set xs" "y \<in> set xs" "x \<noteq> y" "f x = Some a" "f y = Some b" "key a = key b"
  shows "\<not> distinct (map key (List.map_filter f xs))"
  using assms
proof (induction xs)
  case (Cons z xs)
  have mem: "f u = Some c \<Longrightarrow> u \<in> set xs \<Longrightarrow> c \<in> set (List.map_filter f xs)" for u c
    by (force simp: List.map_filter_def)
  consider "z = x" "y \<in> set xs" | "z = y" "x \<in> set xs" | "x \<in> set xs" "y \<in> set xs"
    using Cons.prems(1-3) by auto
  then show ?case
  proof cases
    case 1
    then show ?thesis using imageI [OF mem [OF Cons.prems(5)], of key] Cons.prems(4,6) by (auto simp: List.map_filter_simps)
  next
    case 2
    then show ?thesis using imageI [OF mem [OF Cons.prems(4)], of key] Cons.prems(5,6) by (auto simp: List.map_filter_simps)
  next
    case 3
    then have "\<not> distinct (map key (List.map_filter f xs))" using Cons by blast
    then show ?thesis by (auto simp: List.map_filter_simps split: option.split)
  qed
qed simp

lemma environment_row_Some:
  "\<not> is_prod (Some (or_unknown (fst g))) \<Longrightarrow> 0 < rows_cost (snd g) \<Longrightarrow>
     \<exists>sd. environment_row now g = Some sd \<and> sd_dedupe_key sd = ''nonprod:'' @ or_unknown (fst g) @ '':'' @ month_tag now"
  by (simp add: environment_row_def base_seed_def Let_def)

lemma group_rows_in: "x \<in> set xs \<Longrightarrow> (key x, filter (\<lambda>y. key y = key x) xs) \<in> set (group_rows key xs)"
  by (auto simp: group_rows_def)

text \<open>
  A project with spend both under no environment and under the environment named \<open>unknown\<close> gets two
  proposals with the same key in one session; as long as the table has no row under that key, the commit
  fails and so does every recompute of the month.
\<close>

theorem unknown_environment_breaks_refresh:
  assumes "e \<in> set (month_usage env)" "ue_environment e = None" "e' \<in> set (month_usage env)" "ue_environment e' = Some ''unknown''"
    and "0 < rows_cost (filter (\<lambda>x. ue_environment x = None) (month_usage env))"
    and "0 < rows_cost (filter (\<lambda>x. ue_environment x = Some ''unknown'') (month_usage env))"
    and "distinct (map slot_of rows)"
    and "(pj_id (rf_project env), ''nonprod:unknown:'' @ month_tag (rf_now env)) \<notin> slot_of ` set rows"
  shows "ensure_recommendations_fresh st env new_id None rows = None"
proof -
  let ?p = "rf_project env" and ?now = "rf_now env"
  let ?g = "\<lambda>x. (x, filter (\<lambda>y. ue_environment y = x) (month_usage env))"
  let ?envs = "List.map_filter (environment_row ?now) (group_rows ue_environment (month_usage env))"
  let ?un = "filter (unseen ?p rows)"
  have in_groups: "?g None \<in> set (group_rows ue_environment (month_usage env))"
      "?g (Some ''unknown'') \<in> set (group_rows ue_environment (month_usage env))"
    using group_rows_in [of e "month_usage env" ue_environment] group_rows_in [of e' "month_usage env" ue_environment]
      assms(1-4) by simp_all
  have un: "or_unknown None = ''unknown''" "or_unknown (Some ''unknown'') = ''unknown''" "\<not> is_prod (Some ''unknown'')"
    by (simp_all add: or_unknown_def or_str_def is_prod_def)
  obtain a where a: "environment_row ?now (?g None) = Some a" "sd_dedupe_key a = ''nonprod:'' @ ''unknown'' @ '':'' @ month_tag ?now"
    using environment_row_Some [of "?g None" ?now] assms(5) un by (simp only: fst_conv snd_conv) blast
  obtain b where b: "environment_row ?now (?g (Some ''unknown'')) = Some b"
      "sd_dedupe_key b = ''nonprod:'' @ ''unknown'' @ '':'' @ month_tag ?now"
    using environment_row_Some [of "?g (Some ''unknown'')" ?now] assms(6) un by (simp only: fst_conv snd_conv) blast
  have ab: "environment_row ?now (?g None) = Some a" "environment_row ?now (?g (Some ''unknown'')) = Some b"
      "sd_dedupe_key a = ''nonprod:unknown:'' @ month_tag ?now" "sd_dedupe_key b = sd_dedupe_key a"
    using a b by simp_all
  have "unseen ?p rows a"
  proof (rule ccontr)
    assume "\<not> ?thesis"
    then obtain r where "r \<in> set rows" "slot_of r = (pj_id ?p, sd_dedupe_key a)"
      by (auto simp: unseen_def list_ex_iff same_slot_def slot_of_def)
    then show False using assms(8) unfolding ab(3) by (metis imageI)
  qed
  define F where "F = (\<lambda>g. case environment_row ?now g of Some sd \<Rightarrow> if unseen ?p rows sd then Some sd else None | None \<Rightarrow> None)"
  have ab': "F (?g None) = Some a" "F (?g (Some ''unknown'')) = Some b"
    unfolding F_def ab(1,2) using \<open>unseen ?p rows a\<close> unseen_same_key [OF ab(4)] by simp_all
  have "?un (List.map_filter (environment_row ?now) gs) = List.map_filter F gs" for gs
    by (induction gs) (simp_all add: F_def List.map_filter_simps split: option.split)
  moreover have "?g None \<noteq> ?g (Some ''unknown'')" by simp
  ultimately have "\<not> distinct (map sd_dedupe_key (?un ?envs))"
    using map_filter_collision [where f = F and key = sd_dedupe_key, OF in_groups _ ab' ab(4) [symmetric]] by simp
  then have "\<not> distinct (map (\<lambda>sd. (pj_id ?p, sd_dedupe_key sd)) (?un ?envs))"
    by (simp only: distinct_pair_key not_False_eq_True)
  then have "\<not> distinct (map (\<lambda>sd. (pj_id ?p, sd_dedupe_key sd)) (?un (refresh_seeds env)))"
    unfolding refresh_seeds_def filter_append map_append distinct_append by (simp only: de_Morgan_conj simp_thms)
  then have "commit (refresh_recommendations env new_id \<lparr>rt_rows = rows, rt_pending = []\<rparr>) \<noteq> Some rows'" for rows'
    unfolding commit_refresh [OF assms(7)] inserted_slots [of ?p new_id ?now, symmetric] by auto
  then have "commit (refresh_recommendations env new_id \<lparr>rt_rows = rows, rt_pending = []\<rparr>) = None" by (metis not_Some_eq)
  then show ?thesis by (simp add: ensure_recommendations_fresh_def)
qed


lemma normalize_key_prefix:
  assumes "\<forall>c \<in> set u. \<not> py_isspace c \<and> py_lower_char c = c" "u \<noteq> []" "length u \<le> max_route_key_len"
  shows "prefix u (normalize_key (u @ v))"
proof -
  have u: "\<forall>c \<in> set u. \<not> py_isspace c" "py_lower u = u" using assms(1) by (simp_all add: py_lower_def map_idI)
  have hd: "\<not> py_isspace (hd u)" "\<not> py_isspace (last u)" using u(1) assms(2) by auto
  have "py_lstrip (u @ v) = u @ v" using hd(1) assms(2) by (cases u) (simp_all add: py_lstrip_def)
  moreover have "dropWhile py_isspace (rev v @ rev u) = dropWhile py_isspace (rev v) @ rev u"
  proof (cases "\<forall>c \<in> set v. py_isspace c")
    case True
    then have "dropWhile py_isspace (rev v) = []" by simp
    moreover have "dropWhile py_isspace (rev u) = rev u"
      using hd(2) by (simp add: dropWhile_eq_self_iff hd_rev)
    moreover have "dropWhile py_isspace (rev v @ rev u) = dropWhile py_isspace (rev u)"
      using True by (intro dropWhile_append2) simp
    ultimately show ?thesis by simp
  next
    case False
    then show ?thesis by (auto simp: dropWhile_append1)
  qed
  ultimately have strip: "py_strip (u @ v) = u @ rev (dropWhile py_isspace (rev v))"
    by (simp add: py_strip_def) (simp add: py_lstrip_def)
  have collapse: "collapse_spaces b rep (u @ x) = u @ collapse_spaces False rep x" if "u \<noteq> []" "\<forall>c \<in> set u. \<not> py_isspace c" for b rep u x
    using that by (induction u arbitrary: b rule: list_nonempty_induct) auto
  show ?thesis
    using assms(3) u collapse [OF assms(2) u(1)]
    by (simp add: normalize_key_def strip py_lower_def re_sub_spaces_def)
qed

lemma first_some_Some: "first_some f xs = Some y \<Longrightarrow> \<exists>x \<in> set xs. f x = Some y"
  by (induction xs) (auto split: option.splits)

lemma token_trim_seed_target:
  assumes "token_trim_seed env spend = Some sd"
  shows "\<exists>request_type. sd_target_type sd = Some ''route'' \<and>
    sd_target_key sd = Some (target_route_key request_type (sd_related_feature sd))"
proof -
  obtain g where "token_trim_row (rf_now env) g = Some sd"
    using assms by (auto simp: token_trim_seed_def dest!: first_some_Some split: if_splits)
  then show ?thesis by (auto simp: token_trim_row_def Let_def base_seed_def split: prod.splits if_splits)
qed

lemma featureless_route_key:
  assumes "token_trim_seed env spend = Some sd" "or_str (sd_related_feature sd) None = None"
  shows "prefix ''unknown:'' (rec_route_key (new_rec i project now sd))"
proof -
  obtain rt where t: "sd_target_type sd = Some ''route''" "sd_target_key sd = Some (target_route_key rt (sd_related_feature sd))"
    using token_trim_seed_target [OF assms(1)] by blast
  have "rec_route_key (new_rec i project now sd) = canonical_route_key (sd_related_feature sd) None (sd_target_key sd) None"
    by (simp add: rec_route_key_def new_rec_def route_key_from_recommendation_def t(1))
  also have "\<dots> = first_key [Some (''unknown:'' @ or_unknown (Some rt)), None]"
    using assms(2) by (cases "sd_related_feature sd")
      (simp_all add: canonical_route_key_def t(2) target_route_key_def or_unknown_def or_str_def split: if_splits)
  finally have key: "rec_route_key (new_rec i project now sd) = first_key [Some (''unknown:'' @ or_unknown (Some rt)), None]" .
  have u: "\<forall>c \<in> set ''unknown:''. \<not> py_isspace c \<and> py_lower_char c = c"
    by (simp add: py_isspace_def py_lower_char_def)
  have p: "prefix ''unknown:'' (normalize_key (''unknown:'' @ or_unknown (Some rt)))"
    by (rule normalize_key_prefix [OF u]) (simp_all add: max_route_key_len_def)
  have "normalize_key [] = []" by (simp add: normalize_key_def py_strip_def py_lstrip_def py_lower_def re_sub_spaces_def)
  then have "py_strip (''unknown:'' @ or_unknown (Some rt)) \<noteq> []"
    using p by (auto simp: normalize_key_def py_lower_def re_sub_spaces_def)
  then show ?thesis using p unfolding key by simp
qed


text \<open>
  A trim proposed for traffic without a feature is dead on arrival. Its target key starts with
  \<open>unknown:\<close>, and the route key that the activation derives from it does too, so applying the
  recommendation activates a policy that no request finds: for whatever model and for every route key that
  does not itself start with \<open>unknown:\<close> the resolver returns no decision sourced from the recommendation.
\<close>

theorem featureless_trim_is_never_served:
  assumes "token_trim_seed env spend = Some sd" "or_str (sd_related_feature sd) None = None"
    and "sd_related_model sd = Some m" "m \<noteq> []"
    and "\<forall>p \<in> set (ex_policies s). pp_source_recommendation_id p \<noteq> Some i"
    and "\<not> prefix ''unknown:'' rk" "rk \<noteq> []"
    and rec: "rec = new_rec i (rf_project env) now sd"
    and act: "s' = activate_trim_policy st j at_time rec s"
  shows "(\<exists>p \<in> set (ex_policies s'). pp_enabled p \<and> pp_source_recommendation_id p = Some i) \<and>
    (\<forall>d. fst (resolve_trim st db_ok configs (ex_policies s') draw (rec_project_id rec) model (Some rk) (ex_trim_cache s')) = Some d \<longrightarrow>
       td_source_recommendation_id d \<noteq> Some i)"
proof -
  let ?up = "upsert_policy st j at_time rec lever_token_trim m (rec_route_key rec) id (ex_policies s)"
  have rid: "rec_id rec = i" and model: "or_str (rec_related_model rec) None = Some m"
    using assms(3,4) by (simp_all add: rec new_rec_def or_str_def)
  have s': "ex_policies s' = ?up" "ex_trim_cache s' (rec_project_id rec, model, Some rk) = None" for model
    by (simp_all add: act activate_trim_policy_def model)
  have route: "prefix ''unknown:'' (rec_route_key rec)"
    unfolding rec by (rule featureless_route_key [OF assms(1,2)])
  obtain t where t: "t \<in> set ?up" "policy_slot (rec_project_id rec) lever_token_trim m (rec_route_key rec) t"
    by (rule upsert_policy_slot)
  have "pp_enabled t \<and> pp_source_recommendation_id t = Some i"
    using upsert_policy_rows [OF t(1)] t(2) by (auto simp: refreshed_policy_def rid)
  moreover have "td_source_recommendation_id d \<noteq> Some i"
    if d: "fst (resolve_trim st db_ok configs (ex_policies s') draw (rec_project_id rec) model (Some rk) (ex_trim_cache s')) = Some d" for d
  proof
    assume "td_source_recommendation_id d = Some i"
    moreover obtain cache' where "resolve_trim st db_ok configs (ex_policies s') draw (rec_project_id rec) model (Some rk)
        (ex_trim_cache s') = (Some d, cache')" using d by (metis prod.collapse)
    ultimately obtain p where p: "select_policy [lever_token_trim] ?up (rec_project_id rec) model (Some rk) = Some p"
        "pp_source_recommendation_id p = Some i"
      by (elim resolve_trim_source) (simp add: lookup_policy_uncached s')
    have "p \<in> set ?up" using select_policy_sound [OF p(1)] by blast
    from upsert_policy_rows [OF this] assms(5) p(2) have "policy_slot (rec_project_id rec) lever_token_trim m (rec_route_key rec) p"
      by (auto simp: refreshed_policy_def policy_slot_def)
    then have "pp_route_key p = rec_route_key rec" by (simp add: policy_slot_def)
    with select_policy_route [OF p(1) assms(7)] have "rec_route_key rec = rk \<or> rec_route_key rec = default_route" by metis
    moreover have "\<not> prefix ''unknown:'' default_route" by (simp add: default_route_def)
    ultimately show False using route assms(6) by metis
  qed
  ultimately show ?thesis using t(1) unfolding s'(1) by blast
qed


section \<open>Concrete refreshes\<close>

definition sample_usage :: "string option \<Rightarrow> usage_event" where
  "sample_usage environment = blank_event\<lparr>ue_input_tokens := 1000, ue_output_tokens := 10, ue_cost_usd := Some 5,
     ue_environment := environment\<rparr>"

definition sample_refresh_env :: "usage_event list \<Rightarrow> refresh_env" where
  "sample_refresh_env usage =
     \<lparr>rf_project = \<lparr>pj_id = ''project'', pj_organization_id = ''org''\<rparr>, rf_now = 0, rf_usage = usage, rf_decisions = [],
      rf_decisions_ok = True, rf_catalog = [], rf_prices = [], rf_budget = None\<rparr>"

definition sample_seed_env :: refresh_env where
  "sample_seed_env = sample_refresh_env [sample_usage None]"

definition sample_ids :: "nat \<Rightarrow> uuid" where
  "sample_ids n = replicate (n + 1) CHR ''i''"

lemma length_show_digits [simp]: "length (show_digits n i) = n"
  by (induction n arbitrary: i) simp_all

lemma length_month_tag [simp]: "length (month_tag now) = 7"
  by (simp add: month_tag_def)

lemma sample_month: "month_usage sample_seed_env = [sample_usage None]" "month_start 0 = 0"
  by (simp_all add: month_usage_def sample_seed_env_def sample_refresh_env_def sample_usage_def blank_event_def
      month_start_def midnight_of_day_def day_number_def)

lemma sample_cost: "rows_cost [sample_usage e] = 5"
  by (simp add: rows_cost_def sample_usage_def coalesce_sum_def)

lemma one_group: "group_rows f [x] = [(f x, [x])]" by (simp add: group_rows_def)

lemma one_top: "top_groups (Suc n) k [g] = [g]" "top_groups (numeral m) k [g] = [g]" by (simp_all add: top_groups_def)

lemma sample_trim:
  "token_trim_seed sample_seed_env 5 = Some ((base_seed (''token_trim:unknown:chat_completion:'' @ month_tag 0) ''token_trim''
      ''Trim context for chat_completion'')
    \<lparr>sd_lever := Some lever_token_trim, sd_estimated_monthly_savings_usd := Some (run_rate (3 / 4) 0),
     sd_monthly_request_volume := Some 1, sd_risk_level := ''medium'', sd_target_type := Some ''route'',
     sd_target_key := Some ''unknown:chat_completion'', sd_related_provider := Some ''openai'',
     sd_related_model := Some ''model'', sd_related_feature := None\<rparr>)"
  by (simp add: token_trim_seed_def sample_month one_group one_top token_trim_row_def Let_def sample_cost trim_target_model_def)
    (simp add: sample_usage_def rows_sum_def blank_event_def target_route_key_def or_unknown_def or_str_def target_name_def sample_seed_env_def sample_refresh_env_def)

lemma sample_seeds: "map sd_dedupe_key (refresh_seeds sample_seed_env) =
    [''unpriced:'' @ month_tag 0, ''nonprod:unknown:'' @ month_tag 0, ''token_trim:unknown:chat_completion:'' @ month_tag 0]"
    "list_all (\<lambda>sd. length (sd_title sd) \<le> 255 \<and> (case sd_target_key sd of None \<Rightarrow> True | Some k \<Rightarrow> length k \<le> 255)) (refresh_seeds sample_seed_env)"
proof -
  have parts: "rf_now sample_seed_env = 0" "rf_budget sample_seed_env = None" "rf_prices sample_seed_env = []"
     "rf_catalog sample_seed_env = []" "rf_decisions sample_seed_env = []" "rf_decisions_ok sample_seed_env"
    by (simp_all add: sample_seed_env_def sample_refresh_env_def)
  have row: "ue_pricing_status (sample_usage None) \<noteq> Priced" "ue_success (sample_usage None)" "ue_environment (sample_usage None) = None"
      "meta_text (sample_usage None) k = None" "\<not> is_batchable (sample_usage None)" for k
    by (simp_all add: sample_usage_def blank_event_def meta_text_def is_batchable_def ilike_any_def dict_get_def
        py_lower_def py_lower_char_def)
  have s: "prompt_cache_seed sample_seed_env = None" "agent_loop_seed sample_seed_env = None" "semantic_cache_seed sample_seed_env = None"
    "batching_seed sample_seed_env = None" "model_downshift_seed sample_seed_env = None" "smart_routing_seed sample_seed_env = None"
    "failed_seed sample_seed_env = None" "budget_seed sample_seed_env = None"
    by (simp_all add: prompt_cache_seed_def agent_loop_seed_def semantic_cache_seed_def batching_seed_def model_downshift_seed_def
       smart_routing_seed_def failed_seed_def budget_seed_def sample_month one_group one_top parts row prompt_cache_row_def
       detect_agent_loops_def loop_groups_def group_rows_def top_groups_def model_downshift_row_def model_catalog_def routing_step_def Let_def
       split: prod.split)
  have e: "environment_row 0 (None, [sample_usage None]) = Some ((base_seed (''nonprod:unknown:'' @ month_tag 0) ''non_production_spend'' ''Review unknown AI spend'')
     \<lparr>sd_estimated_monthly_savings_usd := Some 5, sd_target_type := Some ''environment'',
            sd_target_key := Some ''unknown'', sd_related_environment := Some ''unknown''\<rparr>)"
    by (simp add: environment_row_def or_unknown_def or_str_def Let_def sample_cost is_prod_def)
  show "map sd_dedupe_key (refresh_seeds sample_seed_env) =
    [''unpriced:'' @ month_tag 0, ''nonprod:unknown:'' @ month_tag 0, ''token_trim:unknown:chat_completion:'' @ month_tag 0]"
    "list_all (\<lambda>sd. length (sd_title sd) \<le> 255 \<and> (case sd_target_key sd of None \<Rightarrow> True | Some k \<Rightarrow> length k \<le> 255)) (refresh_seeds sample_seed_env)"
    by (simp_all add: refresh_seeds_def s unpriced_seed_def sample_month one_group row sample_cost sample_trim e opt_list_def
       List.map_filter_simps parts base_seed_def)
qed

definition sample_dismissed :: recommendation where
  "sample_dismissed =
     (new_rec ''r'' (rf_project sample_seed_env) 0
        (base_seed (''token_trim:unknown:chat_completion:'' @ month_tag 0) ''token_trim'' ''Old''))\<lparr>rec_status := Dismissed\<rparr>"

lemma fits_new_rec: "fits_columns (new_rec i p now sd) \<longleftrightarrow> length (sd_dedupe_key sd) \<le> 255 \<and>
   (length (sd_title sd) \<le> 255 \<and> (case sd_target_key sd of None \<Rightarrow> True | Some k \<Rightarrow> length k \<le> 255))"
  by (auto simp: fits_columns_def new_rec_def)

lemma sample_refresh:
  obtains rows' where "ensure_recommendations_fresh default_settings sample_seed_env sample_ids None [sample_dismissed] =
      Some (True, Some 0, rows')" "length rows' = 3"
proof -
  let ?p = "rf_project sample_seed_env" and ?sds = "refresh_seeds sample_seed_env"
  obtain a b c where sds: "?sds = [a, b, c]"  using sample_seeds(1) by (auto simp: map_eq_Cons_conv)
  have keys: "sd_dedupe_key a = ''unpriced:'' @ month_tag 0" "sd_dedupe_key b = ''nonprod:unknown:'' @ month_tag 0"
     "sd_dedupe_key c = ''token_trim:unknown:chat_completion:'' @ month_tag 0" using sample_seeds(1) sds by simp_all
  have dk: "rec_project_id sample_dismissed = pj_id ?p" "rec_dedupe_key sample_dismissed = ''token_trim:unknown:chat_completion:'' @ month_tag 0"
     "rec_status sample_dismissed = Dismissed" "fits_columns sample_dismissed"
    by (simp_all add: sample_dismissed_def new_rec_def base_seed_def fits_columns_def)
  have ne: "''unpriced:'' @ month_tag 0 \<noteq> ''nonprod:unknown:'' @ month_tag 0" 
      "''token_trim:unknown:chat_completion:'' @ month_tag 0 \<noteq> ''unpriced:'' @ month_tag 0"
      "''token_trim:unknown:chat_completion:'' @ month_tag 0 \<noteq> ''nonprod:unknown:'' @ month_tag 0" by simp_all
  have un: "filter (unseen ?p [sample_dismissed]) ?sds = [a, b]"
    using ne by (simp only: sds) (simp add: unseen_def same_slot_def dk keys)
  let ?rows' = "[sample_dismissed, new_rec (sample_ids 0) ?p 0 a, new_rec (sample_ids 1) ?p 0 b]"
  have now: "rf_now sample_seed_env = 0" by (simp add: sample_seed_env_def sample_refresh_env_def)
  have "commit (refresh_recommendations sample_seed_env sample_ids \<lparr>rt_rows = [sample_dismissed], rt_pending = []\<rparr>) = Some ?rows'"
  proof (subst commit_refresh)
    show "distinct (map slot_of [sample_dismissed])" by simp
    have "fits_columns (new_rec (sample_ids 0) ?p 0 a)" "fits_columns (new_rec (sample_ids 1) ?p 0 b)"
      using sample_seeds(2) unfolding fits_new_rec sds keys by simp_all
    then show "?rows' = map (upserted_row ?p (rf_now sample_seed_env) ?sds) [sample_dismissed] @
        inserted ?p sample_ids (rf_now sample_seed_env) ?sds [sample_dismissed] \<and>
      distinct (map slot_of ?rows') \<and> list_all fits_columns ?rows'"
      using ne by (simp add: inserted_def un now upserted_row_def dk slot_of_def [of sample_dismissed] keys)
  qed
  then have "ensure_recommendations_fresh default_settings sample_seed_env sample_ids None [sample_dismissed] = Some (True, Some 0, ?rows')"
    by (simp add: ensure_recommendations_fresh_def now)
  then show ?thesis using that by simp
qed

theorem refresh_preserves_decisions_witness:
  "\<exists>rows'. ensure_recommendations_fresh default_settings sample_seed_env sample_ids None [sample_dismissed] =
     Some (True, Some 0, rows') \<and> length rows' = 3 \<and> sample_dismissed \<in> set rows' \<and> distinct (map slot_of rows')"
proof -
  obtain rows' where r: "ensure_recommendations_fresh default_settings sample_seed_env sample_ids None [sample_dismissed] =
      Some (True, Some 0, rows')" "length rows' = 3" by (rule sample_refresh)
  have "rec_status sample_dismissed \<noteq> Open" by (simp add: sample_dismissed_def)
  with refresh_preserves_decisions [OF _ r(1)] r show ?thesis by simp
qed

theorem refresh_idempotent_witness:
  "\<exists>rows'. length rows' = 3 \<and>
     ensure_recommendations_fresh default_settings sample_seed_env (\<lambda>n. sample_ids (n + 7)) None rows' = Some (True, Some 0, rows')"
proof -
  obtain rows' where r: "ensure_recommendations_fresh default_settings sample_seed_env sample_ids None [sample_dismissed] =
      Some (True, Some 0, rows')" "length rows' = 3" by (rule sample_refresh)
  from refresh_idempotent [OF _ r(1)] r(2) show ?thesis by auto
qed

theorem unknown_environment_breaks_refresh_witness:
  "ensure_recommendations_fresh default_settings (sample_refresh_env [sample_usage None, sample_usage (Some ''unknown'')])
     sample_ids None [] = None"
  by (rule unknown_environment_breaks_refresh [of "sample_usage None" _ "sample_usage (Some ''unknown'')"])
    (simp_all add: sample_refresh_env_def sample_usage_def month_usage_def blank_event_def rows_cost_def coalesce_sum_def
      month_start_def midnight_of_day_def day_number_def)

theorem featureless_trim_is_never_served_witness:
  "\<exists>sd. token_trim_seed sample_seed_env 5 = Some sd \<and>
     (let s' = activate_trim_policy default_settings ''j'' 1 (new_rec ''i'' (rf_project sample_seed_env) 0 sd) sample_exec
      in (\<exists>p \<in> set (ex_policies s'). pp_enabled p \<and> pp_source_recommendation_id p = Some ''i'') \<and>
         (\<forall>d. fst (resolve_trim default_settings True [] (ex_policies s') 0 ''project'' ''model'' (Some ''chat_completion'')
           (ex_trim_cache s')) = Some d \<longrightarrow> td_source_recommendation_id d \<noteq> Some ''i''))"
proof -
  define sd where "sd = the (token_trim_seed sample_seed_env 5)"
  have sd: "token_trim_seed sample_seed_env 5 = Some sd" "or_str (sd_related_feature sd) None = None"
     "sd_related_model sd = Some ''model''" by (simp_all add: sd_def sample_trim or_str_def)
  have project: "rec_project_id (new_rec ''i'' (rf_project sample_seed_env) 0 sd) = ''project''"
    by (simp add: new_rec_def sample_seed_env_def sample_refresh_env_def)
  have "''model'' \<noteq> ''''" "\<forall>p \<in> set (ex_policies sample_exec). pp_source_recommendation_id p \<noteq> Some ''i''"
    "\<not> prefix ''unknown:'' ''chat_completion''" "''chat_completion'' \<noteq> ''''" by (simp_all add: sample_exec_def)
  note served = featureless_trim_is_never_served [OF sd this refl refl, where st = default_settings and j = "''j''" and now = 0 and at_time = 1
    and db_ok = True and configs = "[]" and draw = 0 and model = "''model''", unfolded project]
  from sd(1) served show ?thesis unfolding Let_def by blast
qed

end
