(* ===== verification/Promotion.thy ===== *)
theory Promotion
  imports Priors Recommendations
begin

text \<open>
  \<open>engine/promotion.py\<close>: the sweep that turns learned evidence into recommendations, tunes the holdback of
  the live policies and applies what a lever in auto mode may apply. Descriptions and rationales are left
  out, the digest of a segment and the printing of amounts are parameters. An application is taken to be
  flushed before the next one looks at the policies, as it is for every recommendation with savings.
\<close>

definition lever_label :: "string \<Rightarrow> string" where
  "lever_label lever =
     (case map_of [(lever_smart_routing, ''Smart routing''), (lever_semantic_cache, ''Semantic cache''),
                   (lever_token_trim, ''Token trim''), (lever_model_downshift, ''Model downshift''),
                   (lever_batching, ''Batching''), (lever_prompt_compression, ''Prompt compression'')] lever of
        None \<Rightarrow> lever | Some l \<Rightarrow> l)"

definition promotable_readiness :: "readiness_status list" where
  "promotable_readiness = [Is_Recommendable, Auto_Apply_Candidate]"

definition promotable_levers :: "string list" where
  "promotable_levers = routing_levers @ [lever_token_trim]"

definition holdback_levers :: "string list" where
  "holdback_levers = routing_levers @ [lever_token_trim]"

definition automatable_levers :: "string list" where
  "automatable_levers = routing_levers @ [lever_token_trim, lever_prompt_compression]"

definition promotion_dedupe_key :: "(segment_key \<Rightarrow> string) \<Rightarrow> segment_key \<Rightarrow> datetime \<Rightarrow> string" where
  "promotion_dedupe_key digest k now = ''engine_learning:'' @ sk_lever k @ '':'' @ digest k @ '':'' @ month_tag now"

definition automation_dedupe_key :: "(segment_key \<Rightarrow> string) \<Rightarrow> segment_key \<Rightarrow> datetime \<Rightarrow> string" where
  "automation_dedupe_key digest k now =
     ''engine_learning:automation:'' @ sk_lever k @ '':'' @ digest k @ '':'' @ month_tag now"

definition monthly_run_rate :: "decimal option \<Rightarrow> int \<Rightarrow> decimal option" where
  "monthly_run_rate total_savings days =
     (case total_savings of
        None \<Rightarrow> None
      | Some t \<Rightarrow> if t \<le> 0 \<or> days \<le> 0 then None else Some (quantize_half_even 2 (t / of_int days * 30)))"

text \<open>\<open>int(...)\<close> cuts toward zero.\<close>

definition int_of_decimal :: "decimal \<Rightarrow> int" where
  "int_of_decimal v = (if 0 \<le> v then \<lfloor>v\<rfloor> else \<lceil>v\<rceil>)"

definition monthly_volume :: "int \<Rightarrow> int \<Rightarrow> int option" where
  "monthly_volume samples days =
     (let v = int_of_decimal (of_int samples / of_int days * 30) in if v = 0 then None else Some v)"

definition has_enabled_policy :: "proxy_policy list \<Rightarrow> uuid \<Rightarrow> string \<Rightarrow> string \<Rightarrow> string option \<Rightarrow> bool" where
  "has_enabled_policy policies project lever incumbent route_key =
     (let live = filter (\<lambda>p. pp_project_id p = project \<and> pp_lever p = lever \<and> pp_target_key p = incumbent \<and> pp_enabled p)
            policies
      in case or_str route_key None of
           None \<Rightarrow> live \<noteq> []
         | Some k \<Rightarrow> list_ex (\<lambda>p. pp_route_key p = k) live \<or> list_ex (\<lambda>p. pp_route_key p = default_route) live)"

definition mode_config :: "string \<Rightarrow> lever_config list \<Rightarrow> uuid \<Rightarrow> string \<Rightarrow> lever_config option" where
  "mode_config mode configs project lever =
     find (\<lambda>c. lc_project_id c = project \<and> lc_lever c = lever \<and> lc_enabled c \<and> lc_automation_mode c = mode) configs"

definition automation_config :: "lever_config list \<Rightarrow> uuid \<Rightarrow> string \<Rightarrow> lever_config option" where
  "automation_config = mode_config ''approve''"

definition auto_apply_config :: "lever_config list \<Rightarrow> uuid \<Rightarrow> string \<Rightarrow> lever_config option" where
  "auto_apply_config = mode_config ''auto''"

definition risk_level_of :: "string \<Rightarrow> string" where
  "risk_level_of r = (if r \<in> {''low'', ''medium'', ''high''} then r else ''medium'')"

definition promotion_title :: "(decimal \<Rightarrow> string) \<Rightarrow> segment_key \<Rightarrow> decimal option \<Rightarrow> string" where
  "promotion_title show k savings =
     (let target = (if sk_lever k \<in> set routing_levers \<and> sk_model_chosen k \<noteq> ''unknown'' \<and>
                       sk_model_chosen k \<noteq> sk_model_requested k
                    then sk_model_requested k @ '' -> '' @ sk_model_chosen k else sk_model_requested k);
          money = (case savings of
                     None \<Rightarrow> []
                   | Some s \<Rightarrow> if s = 0 then [] else '' (~$'' @ show s @ ''/mo measured)'')
      in take 255 (''Learned: '' @ lever_label (sk_lever k) @ '' on '' @ target @ money))"

definition automation_title :: "segment_key \<Rightarrow> string" where
  "automation_title k =
     take 255 (''Learned: enable auto mode for '' @ lever_label (sk_lever k) @ '' on '' @ sk_model_requested k)"

section \<open>Promotion\<close>

definition related_provider_of :: "segment_key \<Rightarrow> string option" where
  "related_provider_of k = (if sk_provider_requested k = ''unknown'' then None else Some (sk_provider_requested k))"

record promotion_env =
  pm_digest :: "segment_key \<Rightarrow> string"
  pm_show :: "decimal \<Rightarrow> string"
  pm_project :: project
  pm_now :: datetime
  pm_days :: int

text \<open>The seed of a candidate that has earned a recommendation and is not running yet.\<close>

definition promotion_seed :: "promotion_env \<Rightarrow> proxy_policy list \<Rightarrow> learning_candidate \<Rightarrow> recommendation_seed option" where
  "promotion_seed env policies c =
     (let k = lc_segment c; lever = sk_lever k; incumbent = sk_model_requested k;
          route_key = route_or_default (sk_route_key k);
          savings = monthly_run_rate (lc_total_gross_savings_usd c) (pm_days env)
      in if lc_readiness c \<notin> set promotable_readiness then None
         else if lever \<notin> set promotable_levers then None
         else if incumbent = ''unknown'' \<or>
                 has_enabled_policy policies (pj_id (pm_project env)) lever incumbent (Some route_key) then None
         else Some ((base_seed (promotion_dedupe_key (pm_digest env) k (pm_now env)) lever
                       (promotion_title (pm_show env) k savings))
                \<lparr>sd_estimated_monthly_savings_usd := savings, sd_risk_level := risk_level_of (sk_risk_level k),
                 sd_confidence := (if lc_readiness c = Auto_Apply_Candidate then ''high'' else ''medium''),
                 sd_lever := Some lever, sd_target_type := Some ''route'', sd_target_key := Some (take 255 route_key),
                 sd_monthly_request_volume := monthly_volume (lc_sample_count c) (pm_days env),
                 sd_related_provider := related_provider_of k, sd_related_model := Some incumbent\<rparr>))"

text \<open>The seed that proposes auto mode for a lever whose policy runs under approve mode.\<close>

definition automation_seed ::
  "promotion_env \<Rightarrow> lever_config list \<Rightarrow> proxy_policy list \<Rightarrow> learning_candidate \<Rightarrow> recommendation_seed option" where
  "automation_seed env configs policies c =
     (let k = lc_segment c; lever = sk_lever k; incumbent = sk_model_requested k;
          route_key = route_or_default (sk_route_key k)
      in if lc_readiness c \<noteq> Auto_Apply_Candidate then None
         else if lever \<notin> set promotable_levers then None
         else if incumbent = ''unknown'' then None
         else if \<not> has_enabled_policy policies (pj_id (pm_project env)) lever incumbent (Some route_key) then None
         else if automation_config configs (pj_id (pm_project env)) lever = None then None
         else Some ((base_seed (automation_dedupe_key (pm_digest env) k (pm_now env)) ''automation_upgrade''
                       (automation_title k))
                \<lparr>sd_estimated_monthly_savings_usd := monthly_run_rate (lc_total_gross_savings_usd c) (pm_days env),
                 sd_risk_level := risk_level_of (sk_risk_level k), sd_confidence := ''high'',
                 sd_lever := Some lever, sd_target_type := Some ''automation_mode'', sd_target_key := Some lever,
                 sd_monthly_request_volume := monthly_volume (lc_sample_count c) (pm_days env),
                 sd_related_provider := related_provider_of k, sd_related_model := Some incumbent\<rparr>))"

definition upsert_seeds ::
  "promotion_env \<Rightarrow> (nat \<Rightarrow> uuid) \<Rightarrow> recommendation_seed list \<Rightarrow> rec_table \<Rightarrow> string list \<times> rec_table" where
  "upsert_seeds env new_id seeds t =
     (map sd_dedupe_key seeds, fold (upsert (pm_project env) new_id (pm_now env)) seeds t)"

definition propose_automation_upgrade_candidates ::
  "promotion_env \<Rightarrow> (nat \<Rightarrow> uuid) \<Rightarrow> lever_config list \<Rightarrow> proxy_policy list \<Rightarrow> learning_candidate list \<Rightarrow> rec_table
    \<Rightarrow> string list \<times> rec_table" where
  "propose_automation_upgrade_candidates env new_id configs policies candidates t =
     upsert_seeds env new_id (List.map_filter (automation_seed env configs policies) candidates) t"

definition promote_learning_candidates ::
  "promotion_env \<Rightarrow> (nat \<Rightarrow> uuid) \<Rightarrow> lever_config list \<Rightarrow> proxy_policy list \<Rightarrow> learning_candidate list \<Rightarrow> rec_table
    \<Rightarrow> string list \<times> rec_table" where
  "promote_learning_candidates env new_id configs policies candidates t =
     (if candidates = [] then ([], t)
      else (let (promoted, t1) = upsert_seeds env new_id (List.map_filter (promotion_seed env policies) candidates) t;
                (upgrades, t2) = propose_automation_upgrade_candidates env new_id configs policies candidates t1
            in (promoted @ upgrades, t2)))"

definition score_project_learning_candidates ::
  "settings \<Rightarrow> (rat \<Rightarrow> rat) \<Rightarrow> uuid \<Rightarrow> datetime \<Rightarrow> int \<Rightarrow> decision_row list \<Rightarrow> feedback_row list \<Rightarrow> learning_candidate list" where
  "score_project_learning_candidates st half_pow project now days decisions feedback =
     (let start = now - timedelta_days days;
          rows = filter (\<lambda>r. de_project_id (dr_event r) = project \<and> start \<le> de_created_at (dr_event r) \<and>
                   de_created_at (dr_event r) \<le> now) decisions;
          fbs = filter (\<lambda>f. fb_project_id f = project \<and> start \<le> fb_created_at f \<and> fb_created_at f \<le> now) feedback
      in if rows = [] then []
         else score_optimization_outcomes half_pow rows fbs 10 (Some now) (Some (learning_prior_half_life_days st)))"

section \<open>Adaptive holdback\<close>

datatype holdback_reason =
  Insufficient_Signal | Reduce_To_Standard | Reduce_Holdback | At_Floor | Reincluded_Zero | No_Change

definition holdback_candidate :: "proxy_policy \<Rightarrow> string option" where
  "holdback_candidate p =
     (if pp_lever p \<in> set routing_levers then candidate_model p
      else if pp_lever p = lever_token_trim then Some (pp_target_key p) else None)"

definition next_holdback :: "decimal \<Rightarrow> ab_experiment \<Rightarrow> decimal option \<times> holdback_reason" where
  "next_holdback current ex =
     (case (savings_per_request_ci_low_usd ex, savings_per_request_ci_high_usd ex) of
        (Some low, Some high) \<Rightarrow>
          if \<not> ex_has_signal ex then (None, Insufficient_Signal)
          else if 0 < low then
            (if 5 / 100 < current then (Some (5 / 100), Reduce_To_Standard)
             else if 2 / 100 < current then (Some (2 / 100), Reduce_Holdback)
             else if 1 / 100 < current then (Some (1 / 100), Reduce_Holdback)
             else (None, At_Floor))
          else if current < 5 / 100 \<and> low \<le> 0 \<and> 0 \<le> high then (Some (5 / 100), Reincluded_Zero)
          else (None, No_Change)
      | _ \<Rightarrow> (None, Insufficient_Signal))"

record holdback_action =
  ha_policy_id :: uuid
  ha_recommendation_id :: "uuid option"
  ha_lever :: string
  ha_old :: decimal
  ha_new :: decimal
  ha_reason :: holdback_reason
  ha_occurred_at :: datetime

text \<open>
  One policy: \<open>experiment\<close> is its A/B comparison, \<open>None\<close> when the query raises. The answer is the policy and the
  action row of a change.
\<close>

definition adjust_policy ::
  "uuid \<Rightarrow> datetime \<Rightarrow> (string \<Rightarrow> string \<Rightarrow> ab_experiment option) \<Rightarrow> proxy_policy \<Rightarrow> proxy_policy \<times> holdback_action option" where
  "adjust_policy project now experiment p =
     (if pp_project_id p \<noteq> project \<or> pp_lever p \<notin> set holdback_levers \<or> \<not> pp_enabled p then (p, None)
      else (case or_str (holdback_candidate p) None of
              None \<Rightarrow> (p, None)
            | Some candidate \<Rightarrow>
                (case experiment (pp_target_key p) candidate of
                   None \<Rightarrow> (p, None)
                 | Some ex \<Rightarrow>
                     (case next_holdback (pp_holdback_percent p) ex of
                        (None, _) \<Rightarrow> (p, None)
                      | (Some new, reason) \<Rightarrow>
                          if new = pp_holdback_percent p then (p, None)
                          else (p\<lparr>pp_holdback_percent := new\<rparr>,
                                Some \<lparr>ha_policy_id = pp_id p, ha_recommendation_id = pp_source_recommendation_id p,
                                      ha_lever = pp_lever p, ha_old = pp_holdback_percent p, ha_new = new,
                                      ha_reason = reason, ha_occurred_at = now\<rparr>)))))"

definition adjust_adaptive_holdbacks ::
  "uuid \<Rightarrow> datetime \<Rightarrow> (string \<Rightarrow> string \<Rightarrow> ab_experiment option) \<Rightarrow> proxy_policy list
    \<Rightarrow> proxy_policy list \<times> holdback_action list" where
  "adjust_adaptive_holdbacks project now experiment policies =
     (let rs = map (adjust_policy project now experiment) policies
      in (map fst rs, List.map_filter snd rs))"

definition window_experiment ::
  "cs_fun \<Rightarrow> usage_event list \<Rightarrow> uuid \<Rightarrow> datetime \<Rightarrow> int \<Rightarrow> string \<Rightarrow> string \<Rightarrow> ab_experiment" where
  "window_experiment dcs ledger project now days incumbent candidate =
     compute_experiment dcs ledger project incumbent candidate (now - timedelta_days days) None"

section \<open>Automatic application\<close>

definition auto_levers :: "lever_config list \<Rightarrow> uuid \<Rightarrow> string list" where
  "auto_levers configs project =
     map lc_lever (filter (\<lambda>c. lc_project_id c = project \<and> lc_lever c \<in> set automatable_levers \<and> lc_enabled c \<and>
       lc_automation_mode c = ''auto'') configs)"

definition auto_selected :: "lever_config list \<Rightarrow> uuid \<Rightarrow> recommendation \<Rightarrow> bool" where
  "auto_selected configs project r \<longleftrightarrow>
     rec_project_id r = project \<and> rec_status r = Open \<and>
     (\<exists>l \<in> set (auto_levers configs project). rec_lever r = Some l) \<and> rec_type r \<noteq> ''automation_upgrade''"

text \<open>
  The row of an application that failed: when the refusal came after the gates the measured savings have
  already been written on the row, and the sweep commits them.
\<close>

definition refused_rec :: "plane_env \<Rightarrow> recommendation \<Rightarrow> plane \<Rightarrow> recommendation" where
  "refused_rec env r pl =
     (if own_recommendation env r \<and> cleared env r True pl \<and> transform_conflict env r pl
      then (case assert_appliable (pe_runs env) r True of Inr g \<Rightarrow> apply_measured_savings r g | Inl _ \<Rightarrow> r)
      else r)"

record auto_state =
  au_rows :: "recommendation list"
  au_plane :: plane
  au_applied :: "uuid list"

definition auto_apply_one :: "plane_env \<Rightarrow> (uuid \<Rightarrow> uuid) \<Rightarrow> datetime \<Rightarrow> uuid \<Rightarrow> auto_state \<Rightarrow> auto_state" where
  "auto_apply_one env policy_id now rid s =
     (case find (\<lambda>r. rec_id r = rid) (au_rows s) of
        None \<Rightarrow> s
      | Some r \<Rightarrow>
          if auto_apply_config (ac_lever_configs (pl_accounts (au_plane s))) (pj_id (pe_project env))
               (case rec_lever r of None \<Rightarrow> [] | Some l \<Rightarrow> l) = None then s
          else (let put = (\<lambda>r'. map (\<lambda>q. if rec_id q = rid then r' else q) (au_rows s));
                    env' = env\<lparr>pe_new_id := policy_id rid\<rparr>
                in case apply_recommendation_automated env' r now (au_plane s) of
                     Inl _ \<Rightarrow> s\<lparr>au_rows := put (refused_rec env' r (au_plane s))\<rparr>
                   | Inr (r', pl') \<Rightarrow>
                       s\<lparr>au_rows := put r', au_plane := pl', au_applied := au_applied s @ [rid]\<rparr>))"

definition auto_apply_ready_recommendations ::
  "plane_env \<Rightarrow> (uuid \<Rightarrow> uuid) \<Rightarrow> datetime \<Rightarrow> nat \<Rightarrow> recommendation list \<Rightarrow> plane \<Rightarrow> auto_state" where
  "auto_apply_ready_recommendations env policy_id now limit rows pl =
     (let selected = take limit (sort_key rec_created_at
            (filter (auto_selected (ac_lever_configs (pl_accounts pl)) (pj_id (pe_project env))) rows))
      in fold (auto_apply_one env policy_id now) (map rec_id selected) \<lparr>au_rows = rows, au_plane = pl, au_applied = []\<rparr>)"

section \<open>The sweep\<close>

text \<open>
  What a sweep reads and does not change. \<open>sw_experiment_ok\<close> is false where the query of an experiment raises,
  \<open>sw_env\<close> is \<open>None\<close> for a project whose row is gone.
\<close>

record sweep_inputs =
  sw_settings :: settings
  sw_half_pow :: "rat \<Rightarrow> rat"
  sw_digest :: "segment_key \<Rightarrow> string"
  sw_show :: "decimal \<Rightarrow> string"
  sw_dcs :: cs_fun
  sw_experiment_ok :: "uuid \<Rightarrow> string \<Rightarrow> string \<Rightarrow> bool"
  sw_now :: datetime
  sw_decisions :: "decision_row list"
  sw_feedback :: "feedback_row list"
  sw_ledger :: "usage_event list"
  sw_env :: "uuid \<Rightarrow> plane_env option"
  sw_rec_id :: "uuid \<Rightarrow> nat \<Rightarrow> uuid"
  sw_policy_id :: "uuid \<Rightarrow> uuid"

record sweep_state =
  sv_priors :: prior_store
  sv_recs :: rec_table
  sv_plane :: plane
  sv_actions :: "holdback_action list"

record sweep_result =
  sr_project_id :: uuid
  sr_promoted :: "string list"
  sr_adjusted :: "holdback_action list"
  sr_auto_applied :: "uuid list"

definition flush :: "rec_table \<Rightarrow> rec_table option" where
  "flush t = map_option (\<lambda>rows. \<lparr>rt_rows = rows, rt_pending = []\<rparr>) (commit t)"

text \<open>One project; the pending rows are flushed only when a holdback changed. \<open>None\<close> is the database error.\<close>

definition sweep_project :: "sweep_inputs \<Rightarrow> plane_env \<Rightarrow> sweep_state \<Rightarrow> (sweep_result \<times> sweep_state) option" where
  "sweep_project w env s =
     (let st = sw_settings w; now = sw_now w; days = learning_promotion_window_days st; pid = pj_id (pe_project env);
          policies = ex_policies (pl_exec (sv_plane s)); configs = ac_lever_configs (pl_accounts (sv_plane s));
          candidates = score_project_learning_candidates st (sw_half_pow w) pid now days (sw_decisions w) (sw_feedback w);
          priors = snd (refresh_project_outcome_priors pid candidates days now (sv_priors s));
          pm = \<lparr>pm_digest = sw_digest w, pm_show = sw_show w, pm_project = pe_project env, pm_now = now, pm_days = days\<rparr>;
          (promoted, t1) = promote_learning_candidates pm (sw_rec_id w pid) configs policies candidates (sv_recs s);
          experiment = (\<lambda>i c. if sw_experiment_ok w pid i c
                              then Some (window_experiment (sw_dcs w) (sw_ledger w) pid now days i c) else None);
          (policies', adjusted) = adjust_adaptive_holdbacks pid now experiment policies;
          plane' = (sv_plane s)\<lparr>pl_exec := (pl_exec (sv_plane s))\<lparr>ex_policies := policies'\<rparr>\<rparr>
      in case (if adjusted = [] then Some t1 else flush t1) of
           None \<Rightarrow> None
         | Some t2 \<Rightarrow>
             (let au = auto_apply_ready_recommendations env (sw_policy_id w) now 25 (rt_rows t2) plane'
              in Some (\<lparr>sr_project_id = pid, sr_promoted = promoted, sr_adjusted = adjusted, sr_auto_applied = au_applied au\<rparr>,
                       \<lparr>sv_priors = priors, sv_recs = t2\<lparr>rt_rows := au_rows au\<rparr>, sv_plane = au_plane au,
                        sv_actions = sv_actions s @ adjusted\<rparr>)))"

definition sweep_projects_of :: "sweep_inputs \<Rightarrow> sweep_state \<Rightarrow> uuid list" where
  "sweep_projects_of w s =
     (let start = sw_now w - timedelta_days (learning_promotion_window_days (sw_settings w))
      in dict_fromkeys
           (map (\<lambda>r. de_project_id (dr_event r)) (filter (\<lambda>r. start \<le> de_created_at (dr_event r)) (sw_decisions w)) @
            map pp_project_id (filter (\<lambda>p. pp_lever p \<in> set holdback_levers \<and> pp_enabled p) (ex_policies (pl_exec (sv_plane s)))) @
            map rec_project_id (filter (\<lambda>r. rec_status r = Open \<and> (\<exists>l \<in> set automatable_levers. rec_lever r = Some l))
              (rt_rows (sv_recs s)))))"

fun sweep_each :: "sweep_inputs \<Rightarrow> uuid list \<Rightarrow> sweep_state \<Rightarrow> (sweep_result list \<times> sweep_state) option" where
  "sweep_each w [] s = Some ([], s)"
| "sweep_each w (pid # pids) s =
     (case sw_env w pid of
        None \<Rightarrow> sweep_each w pids s
      | Some env \<Rightarrow>
          (case sweep_project w env s of
             None \<Rightarrow> None
           | Some (r, s1) \<Rightarrow> map_option (\<lambda>(rs, s2). (r # rs, s2)) (sweep_each w pids s1)))"

text \<open>\<open>None\<close> when the database refuses a flush or the commit: then nothing of the sweep stays.\<close>

definition sweep_all_projects :: "sweep_inputs \<Rightarrow> sweep_state \<Rightarrow> (sweep_result list \<times> sweep_state) option" where
  "sweep_all_projects w s =
     (case sweep_each w (sweep_projects_of w s) s of
        None \<Rightarrow> None
      | Some (rs, s') \<Rightarrow>
          (case flush (sv_recs s') of
             None \<Rightarrow> None
           | Some t \<Rightarrow>
               Some (filter (\<lambda>r. sr_promoted r \<noteq> [] \<or> sr_adjusted r \<noteq> [] \<or> sr_auto_applied r \<noteq> []) rs, s'\<lparr>sv_recs := t\<rparr>)))"

section \<open>Lemmas on the holdback\<close>

definition holdback_after :: "ab_experiment \<Rightarrow> decimal \<Rightarrow> decimal" where
  "holdback_after ex h = (case fst (next_holdback h ex) of None \<Rightarrow> h | Some n \<Rightarrow> n)"

definition confidently_positive :: "ab_experiment \<Rightarrow> bool" where
  "confidently_positive ex \<longleftrightarrow> ex_has_signal ex \<and> savings_per_request_ci_high_usd ex \<noteq> None \<and>
     (case savings_per_request_ci_low_usd ex of None \<Rightarrow> False | Some low \<Rightarrow> 0 < low)"

definition includes_zero :: "ab_experiment \<Rightarrow> bool" where
  "includes_zero ex \<longleftrightarrow> ex_has_signal ex \<and>
     (case (savings_per_request_ci_low_usd ex, savings_per_request_ci_high_usd ex) of
        (Some low, Some high) \<Rightarrow> low \<le> 0 \<and> 0 \<le> high | _ \<Rightarrow> False)"

lemma holdback_after_eq:
  "holdback_after ex h =
     (if confidently_positive ex
      then (if 5 / 100 < h then 5 / 100 else if 2 / 100 < h then 2 / 100 else if 1 / 100 < h then 1 / 100 else h)
      else if includes_zero ex then max h (5 / 100) else h)"
  by (auto simp: holdback_after_def next_holdback_def confidently_positive_def includes_zero_def split: option.splits)

definition tuned :: "uuid \<Rightarrow> (string \<Rightarrow> string \<Rightarrow> ab_experiment option) \<Rightarrow> proxy_policy \<Rightarrow> ab_experiment \<Rightarrow> bool" where
  "tuned project experiment p ex \<longleftrightarrow>
     pp_project_id p = project \<and> pp_lever p \<in> set holdback_levers \<and> pp_enabled p \<and>
     (\<exists>c. or_str (holdback_candidate p) None = Some c \<and> experiment (pp_target_key p) c = Some ex)"

lemma adjust_policy_cases:
  obtains (changed) ex reason where "tuned project experiment p ex"
      "holdback_after ex (pp_holdback_percent p) \<noteq> pp_holdback_percent p"
      "adjust_policy project now experiment p =
        (p\<lparr>pp_holdback_percent := holdback_after ex (pp_holdback_percent p)\<rparr>,
         Some \<lparr>ha_policy_id = pp_id p, ha_recommendation_id = pp_source_recommendation_id p, ha_lever = pp_lever p,
           ha_old = pp_holdback_percent p, ha_new = holdback_after ex (pp_holdback_percent p), ha_reason = reason,
           ha_occurred_at = now\<rparr>)"
  | (same) "adjust_policy project now experiment p = (p, None)"
      "\<forall>ex. tuned project experiment p ex \<longrightarrow> holdback_after ex (pp_holdback_percent p) = pp_holdback_percent p"
proof (cases "\<exists>ex. tuned project experiment p ex")
  case False
  then have "adjust_policy project now experiment p = (p, None)"
    by (auto simp: adjust_policy_def tuned_def split: option.split)
  then show ?thesis using same False by blast
next
  case True
  then obtain ex c where ex: "tuned project experiment p ex" "or_str (holdback_candidate p) None = Some c"
    "experiment (pp_target_key p) c = Some ex" by (auto simp: tuned_def)
  have unique: "tuned project experiment p ex' \<Longrightarrow> ex' = ex" for ex' using ex(2,3) by (auto simp: tuned_def)
  obtain n reason where n: "next_holdback (pp_holdback_percent p) ex = (n, reason)" by fastforce
  have own: "pp_project_id p = project" "pp_lever p \<in> set holdback_levers" "pp_enabled p" using ex(1) by (simp_all add: tuned_def)
  show ?thesis
  proof (cases "holdback_after ex (pp_holdback_percent p) = pp_holdback_percent p")
    case True
    then have "adjust_policy project now experiment p = (p, None)"
      using n by (auto simp: adjust_policy_def ex(2,3) holdback_after_def split: option.splits)
    then show ?thesis using same True unique by blast
  next
    case False
    then obtain m where "n = Some m" "m \<noteq> pp_holdback_percent p" "m = holdback_after ex (pp_holdback_percent p)"
      using n by (auto simp: holdback_after_def split: option.splits)
    then show ?thesis using changed [OF ex(1) False, of reason] n own by (simp add: adjust_policy_def ex(2,3))
  qed
qed

section \<open>Properties\<close>

text \<open>
  Adaptive holdback never stops the measurement. A sweep touches nothing of a policy but its holdback,
  and only of the enabled policies of the project's measured levers; it goes down only on a confidently
  positive saving and stays at least 1 percent, it goes up only to the standard 5 percent and only when
  the interval includes zero, and every change leaves exactly one action row with the old and new value.
\<close>

theorem adaptive_holdback_is_bounded:
  "let (policies', actions) = adjust_adaptive_holdbacks project now experiment policies
   in list_all2 (\<lambda>p p'. \<exists>h. p' = p\<lparr>pp_holdback_percent := h\<rparr> \<and>
         (h = pp_holdback_percent p \<or>
          (\<exists>ex. tuned project experiment p ex \<and>
             (h < pp_holdback_percent p \<and> confidently_positive ex \<and> h \<in> {1 / 100, 2 / 100, 5 / 100} \<or>
              pp_holdback_percent p < h \<and> includes_zero ex \<and> h = 5 / 100)))) policies policies' \<and>
      map (\<lambda>a. (ha_policy_id a, ha_old a, ha_new a)) actions =
        map (\<lambda>(p, p'). (pp_id p, pp_holdback_percent p, pp_holdback_percent p'))
          (filter (\<lambda>(p, p'). pp_holdback_percent p \<noteq> pp_holdback_percent p') (zip policies policies'))"
proof -
  let ?f = "adjust_policy project now experiment"
  have one: "\<exists>h. fst (?f p) = p\<lparr>pp_holdback_percent := h\<rparr> \<and>
      (h = pp_holdback_percent p \<or>
       (\<exists>ex. tuned project experiment p ex \<and>
          (h < pp_holdback_percent p \<and> confidently_positive ex \<and> h \<in> {1 / 100, 2 / 100, 5 / 100} \<or>
           pp_holdback_percent p < h \<and> includes_zero ex \<and> h = 5 / 100)))" for p
  proof (cases rule: adjust_policy_cases [of project "experiment" p now])
    case (changed ex reason)
    let ?h = "holdback_after ex (pp_holdback_percent p)"
    have "?h < pp_holdback_percent p \<and> confidently_positive ex \<and> ?h \<in> {1 / 100, 2 / 100, 5 / 100} \<or>
        pp_holdback_percent p < ?h \<and> includes_zero ex \<and> ?h = 5 / 100"
      using changed(2) by (auto simp: holdback_after_eq max_def split: if_splits)
    then show ?thesis using changed(1,3) by auto
  qed (intro exI [of _ "pp_holdback_percent p"], simp)
  have act: "map_option (\<lambda>a. (ha_policy_id a, ha_old a, ha_new a)) (snd (?f p)) =
      (if pp_holdback_percent p \<noteq> pp_holdback_percent (fst (?f p))
       then Some (pp_id p, pp_holdback_percent p, pp_holdback_percent (fst (?f p))) else None)" for p
    by (cases rule: adjust_policy_cases [of project "experiment" p now]) auto
  have "map (\<lambda>a. (ha_policy_id a, ha_old a, ha_new a)) (List.map_filter snd (map ?f policies)) =
      map (\<lambda>(p, p'). (pp_id p, pp_holdback_percent p, pp_holdback_percent p'))
        (filter (\<lambda>(p, p'). pp_holdback_percent p \<noteq> pp_holdback_percent p') (zip policies (map fst (map ?f policies))))"
  proof (induction policies)
    case (Cons p ps)
    then show ?case using act [of p] by (cases "snd (?f p)") (auto simp: List.map_filter_simps split: if_splits)
  qed (simp add: List.map_filter_simps)
  moreover have "list_all2 (\<lambda>p p'. \<exists>h. p' = p\<lparr>pp_holdback_percent := h\<rparr> \<and>
      (h = pp_holdback_percent p \<or>
       (\<exists>ex. tuned project experiment p ex \<and>
          (h < pp_holdback_percent p \<and> confidently_positive ex \<and> h \<in> {1 / 100, 2 / 100, 5 / 100} \<or>
           pp_holdback_percent p < h \<and> includes_zero ex \<and> h = 5 / 100)))) policies (map fst (map ?f policies))"
    using one by (simp add: list_all2_map2 list_all2_same)
  ultimately show ?thesis by (simp add: adjust_adaptive_holdbacks_def Let_def)
qed

text \<open>
  The holdback settles: while the savings stay confidently positive three sweeps bring any holdback above
  the floor down to 1 percent and later ones leave it there; a single sweep whose interval includes zero
  brings it back to at least the standard 5 percent.
\<close>

theorem holdback_settles:
  "(confidently_positive ex \<longrightarrow> (holdback_after ex ^^ (3 + n)) h = min h (1 / 100)) \<and>
   (includes_zero ex \<and> \<not> confidently_positive ex \<longrightarrow> holdback_after ex h = max h (5 / 100))"
proof -
  have "(holdback_after ex ^^ (3 + n)) h = min h (1 / 100)" if pos: "confidently_positive ex"
  proof -
    have three: "(holdback_after ex ^^ 3) h = min h (1 / 100)"
      using pos by (simp add: numeral_3_eq_3 holdback_after_eq)
    have fixed: "holdback_after ex (min h (1 / 100)) = min h (1 / 100)" using pos by (simp add: holdback_after_eq)
    have "(holdback_after ex ^^ n) (min h (1 / 100)) = min h (1 / 100)" by (induction n) (simp_all add: fixed)
    moreover have "(holdback_after ex ^^ (3 + n)) h = (holdback_after ex ^^ n) ((holdback_after ex ^^ 3) h)"
      by (metis add.commute comp_apply funpow_add)
    ultimately show ?thesis by (simp only: three)
  qed
  then show ?thesis by (simp add: holdback_after_eq)
qed

section \<open>Lemmas on the automatic application\<close>

definition safe_run :: "plane_env \<Rightarrow> recommendation \<Rightarrow> bool" where
  "safe_run env r \<longleftrightarrow>
     (\<exists>run. latest_run (pe_runs env) (rec_id r) = Some run \<and> er_status run = Run_Completed \<and> er_verdict run = Some Safe)"

definition same_identity :: "recommendation \<Rightarrow> recommendation \<Rightarrow> bool" where
  "same_identity r r' \<longleftrightarrow>
     rec_id r' = rec_id r \<and> rec_organization_id r' = rec_organization_id r \<and> rec_project_id r' = rec_project_id r \<and>
     rec_lever r' = rec_lever r \<and> rec_type r' = rec_type r"

text \<open>What may happen to a row: nothing, an application through the gates, a refusal after the gates.\<close>

definition auto_outcome :: "plane_env \<Rightarrow> recommendation \<Rightarrow> recommendation \<Rightarrow> bool" where
  "auto_outcome env r r' \<longleftrightarrow>
     same_identity r r' \<and>
     (r' = r \<or>
      own_recommendation env r \<and> rec_status r = Open \<and> is_performance_state (pe_entitlement env) \<and>
      (is_gated r \<longrightarrow> safe_run env r) \<and>
      (rec_status r' = Applied \<or> rec_status r' = Open \<and> rec_lever r = Some lever_prompt_compression))"

lemma same_identity_measured [simp]: "same_identity r (apply_measured_savings r g)"
  by (simp add: same_identity_def apply_measured_savings_def split: option.split)

lemma same_identity_refl [simp]: "same_identity r r"
  by (simp add: same_identity_def)

lemma same_identity_trans: "same_identity r r1 \<Longrightarrow> same_identity r1 r2 \<Longrightarrow> same_identity r r2"
  by (simp add: same_identity_def)

lemma identity_gates:
  assumes "same_identity r r'"
  shows "is_gated r' = is_gated r" "safe_run env r' = safe_run env r" "own_recommendation env r' = own_recommendation env r"
    "rec_lever r' = rec_lever r"
  using assms by (simp_all add: same_identity_def is_gated_def safe_run_def own_recommendation_def)

lemma cleared_gates:
  "cleared env r True pl \<Longrightarrow> is_performance_state (pe_entitlement env) \<and> (is_gated r \<longrightarrow> safe_run env r)"
  by (auto simp: cleared_def is_gated_def safe_run_def run_clears_def split: option.splits)

lemma measured_status [simp]: "rec_status (apply_measured_savings r g) = rec_status r"
  by (simp add: apply_measured_savings_def split: option.split)

lemma automated_application:
  assumes "apply_recommendation_automated env r now pl = Inr (r', pl')"
  shows "auto_outcome env r r'"
proof (cases "rec_status r = Open")
  case True
  with assms obtain r1 pl1 where core: "apply_recommendation_core env r now True pl = Inr (r1, pl1)"
    and r': "r' = r1\<lparr>rec_status := Applied, rec_updated_at := now, rec_resolved_at := Some now\<rparr>"
    and own: "own_recommendation env r"
    by (auto simp: apply_recommendation_automated_def own_recommendation_def Let_def split: if_splits sum.splits)
  from core obtain g where "r1 = apply_measured_savings r g" by (rule apply_core_Inr)
  then have "same_identity r r'" using same_identity_measured [of r g] by (simp add: r' same_identity_def)
  moreover have "cleared env r True pl" using apply_core_succeeds [of env r now True pl] core by blast
  ultimately show ?thesis using True own cleared_gates by (auto simp: auto_outcome_def r')
next
  case False
  then show ?thesis using assms by (auto simp: apply_recommendation_automated_def auto_outcome_def split: if_splits)
qed

lemma refused_application:
  assumes "apply_recommendation_automated env r now pl = Inl e"
  shows "auto_outcome env r (refused_rec env r pl)"
proof (cases "own_recommendation env r \<and> cleared env r True pl \<and> transform_conflict env r pl")
  case True
  then obtain g where "refused_rec env r pl = apply_measured_savings r g \<or> refused_rec env r pl = r"
    by (cases "assert_appliable (pe_runs env) r True") (auto simp: refused_rec_def)
  moreover have "rec_status r = Open"
    using assms True by (auto simp: apply_recommendation_automated_def own_recommendation_def split: if_splits)
  moreover have "rec_lever r = Some lever_prompt_compression" using True by (simp add: transform_conflict_def)
  ultimately show ?thesis using True cleared_gates [of env r pl] by (auto simp: auto_outcome_def)
qed (auto simp: refused_rec_def auto_outcome_def)

lemma auto_outcome_trans:
  "auto_outcome env r r1 \<Longrightarrow> auto_outcome env r1 r2 \<Longrightarrow> auto_outcome env r r2"
  unfolding auto_outcome_def using identity_gates [of r r1] same_identity_trans [of r r1 r2] by auto

lemma auto_outcome_env [simp]: "auto_outcome (env\<lparr>pe_new_id := i\<rparr>) = auto_outcome env"
  by (intro ext) (simp add: auto_outcome_def safe_run_def own_recommendation_def)

lemma put_row:
  assumes "list_all2 R rows rs" "\<And>r. R r x \<Longrightarrow> R r x'" "\<forall>q \<in> set rs. P q \<longrightarrow> q = x"
  shows "list_all2 R rows (map (\<lambda>q. if P q then x' else q) rs)"
  using assms by (auto simp: list_all2_conv_all_nth)

lemma auto_apply_one_outcome:
  assumes "list_all2 (auto_outcome env) rows (au_rows s)" "distinct (map rec_id (au_rows s))"
  shows "list_all2 (auto_outcome env) rows (au_rows (auto_apply_one env policy_id now rid s)) \<and>
    map rec_id (au_rows (auto_apply_one env policy_id now rid s)) = map rec_id (au_rows s) \<and>
    length (au_applied (auto_apply_one env policy_id now rid s)) \<le> Suc (length (au_applied s))"
proof (cases "find (\<lambda>r. rec_id r = rid) (au_rows s)")
  case (Some r)
  then have r: "r \<in> set (au_rows s)" "rec_id r = rid" by (auto dest: find_Some_prop)
  then have only: "\<forall>q \<in> set (au_rows s). rec_id q = rid \<longrightarrow> q = r"
    using assms(2) by (auto simp: distinct_map inj_on_def)
  have put: "list_all2 (auto_outcome env) rows (map (\<lambda>q. if rec_id q = rid then r' else q) (au_rows s)) \<and>
      map rec_id (map (\<lambda>q. if rec_id q = rid then r' else q) (au_rows s)) = map rec_id (au_rows s)"
    if "auto_outcome env r r'" for r'
  proof
    show "list_all2 (auto_outcome env) rows (map (\<lambda>q. if rec_id q = rid then r' else q) (au_rows s))"
      by (rule put_row [OF assms(1) auto_outcome_trans [OF _ that] only])
    show "map rec_id (map (\<lambda>q. if rec_id q = rid then r' else q) (au_rows s)) = map rec_id (au_rows s)"
      using that r(2) by (simp add: auto_outcome_def same_identity_def)
  qed
  let ?env = "env\<lparr>pe_new_id := policy_id rid\<rparr>"
  show ?thesis
  proof (cases "apply_recommendation_automated ?env r now (au_plane s)")
    case (Inl e)
    have "auto_outcome env r (refused_rec ?env r (au_plane s))" using refused_application [OF Inl] by simp
    then show ?thesis using put assms(1) by (auto simp: auto_apply_one_def Some Inl Let_def)
  next
    case (Inr x)
    obtain r' pl' where x: "x = (r', pl')" by fastforce
    have "auto_outcome env r r'" using automated_application [OF Inr [unfolded x]] by simp
    then show ?thesis using put assms(1) by (auto simp: auto_apply_one_def Some Inr x Let_def)
  qed
qed (use assms in \<open>simp add: auto_apply_one_def\<close>)

lemma auto_apply_fold:
  assumes "list_all2 (auto_outcome env) rows (au_rows s)" "distinct (map rec_id (au_rows s))"
  shows "list_all2 (auto_outcome env) rows (au_rows (fold (auto_apply_one env policy_id now) ids s)) \<and>
    map rec_id (au_rows (fold (auto_apply_one env policy_id now) ids s)) = map rec_id (au_rows s) \<and>
    length (au_applied (fold (auto_apply_one env policy_id now) ids s)) \<le> length ids + length (au_applied s)"
  using assms
proof (induction ids arbitrary: s)
  case (Cons rid ids)
  note step = auto_apply_one_outcome [OF Cons.prems, of policy_id now rid]
  then have "distinct (map rec_id (au_rows (auto_apply_one env policy_id now rid s)))" using Cons.prems(2) by simp
  from Cons.IH [OF conjunct1 [OF step] this] step show ?case by simp
qed simp

text \<open>Rows that are not selected are not looked at.\<close>

lemma auto_apply_one_other:
  "r \<in> set (au_rows s) \<Longrightarrow> rec_id r \<noteq> rid \<Longrightarrow> r \<in> set (au_rows (auto_apply_one env policy_id now rid s))"
  by (force simp: auto_apply_one_def Let_def split: option.split sum.split)

lemma auto_apply_fold_other:
  "r \<in> set (au_rows s) \<Longrightarrow> rec_id r \<notin> set ids \<Longrightarrow> r \<in> set (au_rows (fold (auto_apply_one env policy_id now) ids s))"
  by (induction ids arbitrary: s) (simp_all add: auto_apply_one_other)

text \<open>
  C20. The autopilot stays inside the gates. A sweep keeps the recommendations and their order, touches
  only open ones of the project whose lever is enabled in auto mode and which are no proposal of auto mode
  itself, at most \<open>limit\<close> of them, and marks one applied only when the plan allows it and, for a lever under
  evaluation, the latest evaluation of that very recommendation is completed and safe.
\<close>

theorem autopilot_stays_inside_the_gates:
  assumes "distinct (map rec_id rows)"
  shows "let au = auto_apply_ready_recommendations env policy_id now limit rows pl
    in list_all2 (auto_outcome env) rows (au_rows au) \<and> length (au_applied au) \<le> limit \<and>
       (\<forall>r \<in> set rows. r \<in> set (au_rows au) \<or>
          (auto_selected (ac_lever_configs (pl_accounts pl)) (pj_id (pe_project env)) r))"
proof -
  let ?P = "auto_selected (ac_lever_configs (pl_accounts pl)) (pj_id (pe_project env))"
  define ids where "ids = map rec_id (take limit (sort_key rec_created_at (filter ?P rows)))"
  let ?s = "\<lparr>au_rows = rows, au_plane = pl, au_applied = []\<rparr>"
  have au: "auto_apply_ready_recommendations env policy_id now limit rows pl = fold (auto_apply_one env policy_id now) ids ?s"
    by (simp add: auto_apply_ready_recommendations_def ids_def)
  have "list_all2 (auto_outcome env) rows rows" by (simp add: list_all2_same auto_outcome_def)
  then have out: "list_all2 (auto_outcome env) rows (au_rows (fold (auto_apply_one env policy_id now) ids ?s))"
    "length (au_applied (fold (auto_apply_one env policy_id now) ids ?s)) \<le> length ids"
    using auto_apply_fold [of env rows ?s policy_id now ids] assms by simp_all
  have kept: "r \<in> set (au_rows (fold (auto_apply_one env policy_id now) ids ?s))" if r: "r \<in> set rows" "\<not> ?P r" for r
  proof (rule auto_apply_fold_other)
    show "rec_id r \<notin> set ids"
    proof
      assume "rec_id r \<in> set ids"
      then obtain q where q: "rec_id q = rec_id r" "q \<in> set (take limit (sort_key rec_created_at (filter ?P rows)))"
        by (force simp only: ids_def set_map)
      from in_set_takeD [OF q(2)] have "q \<in> set rows" "?P q" by simp_all
      moreover have "inj_on rec_id (set rows)" using assms by (simp add: distinct_map)
      ultimately show False using inj_onD [of rec_id "set rows" q r] q(1) r by blast
    qed
  qed (simp add: r)
  have "length ids \<le> limit" by (simp add: ids_def)
  with out(2) have len: "length (au_applied (fold (auto_apply_one env policy_id now) ids ?s)) \<le> limit" by (rule order_trans)
  have "\<forall>r \<in> set rows. r \<in> set (au_rows (fold (auto_apply_one env policy_id now) ids ?s)) \<or> ?P r"
    by (rule ballI, rule disjCI) (rule kept)
  with out(1) len show ?thesis unfolding Let_def au by (intro conjI)
qed

section \<open>Promotion and application together\<close>

lemma promotion_seed_Some:
  assumes "promotion_seed pm policies c = Some sd"
  shows "sd_lever sd = Some (sk_lever (lc_segment c)) \<and> sk_lever (lc_segment c) \<in> set promotable_levers \<and>
    sd_target_type sd = Some ''route'' \<and> sd_target_key sd = Some (take 255 (route_or_default (sk_route_key (lc_segment c)))) \<and>
    sd_related_model sd = Some (sk_model_requested (lc_segment c)) \<and> sd_related_feature sd = None"
  using assms by (auto simp: promotion_seed_def Let_def base_seed_def split: if_splits)

lemma promoted_route_key:
  assumes "promotion_seed pm policies c = Some sd" "route_key_normal (sk_route_key (lc_segment c))"
  shows "rec_route_key (new_rec i project now sd) = sk_route_key (lc_segment c)"
proof -
  let ?k = "sk_route_key (lc_segment c)"
  have k: "?k \<noteq> []" "length ?k \<le> 255" "py_strip ?k = ?k"
    using assms(2) by (simp_all add: route_key_normal_def max_route_key_len_def py_strip_id)
  have t: "sd_target_type sd = Some ''route''" "sd_target_key sd = Some ?k" "sd_related_feature sd = None"
    using promotion_seed_Some [OF assms(1)] k(1,2) by (simp_all only: route_or_default_def if_False take_all)
  have "rec_route_key (new_rec i project now sd) = canonical_route_key None None (Some ?k) None"
    by (simp add: rec_route_key_def new_rec_def route_key_from_recommendation_def t)
  also have "\<dots> = normalize_key ?k" using k by (simp add: canonical_route_key_def)
  finally show ?thesis by (simp add: normalize_key_id assms(2))
qed

lemma upserted_policy_enabled:
  "\<exists>p \<in> set (upsert_policy st i now rec lever m rk params ps). pp_project_id p = rec_project_id rec \<and> pp_enabled p \<and>
     pp_lever p = lever \<and> pp_target_key p = m \<and> pp_route_key p = rk \<and> pp_source_recommendation_id p = Some (rec_id rec)"
proof -
  obtain p where p: "p \<in> set (upsert_policy st i now rec lever m rk params ps)" "policy_slot (rec_project_id rec) lever m rk p"
    by (rule upsert_policy_slot)
  from upsert_policy_rows [OF p(1)] p(2) obtain q fresh where q: "p = refreshed_policy st now rec params fresh q" by blast
  have "pp_enabled p" "pp_source_recommendation_id p = Some (rec_id rec)" by (simp_all add: q refreshed_policy_def)
  then show ?thesis using p by (intro bexI [OF _ p(1)]) (simp add: policy_slot_def)
qed

lemma activated_trim:
  assumes "rec_lever rec = Some lever_token_trim" "rec_related_model rec = Some m" "m \<noteq> []"
    and "activate_execution st arts i now rec g s = Inr s'"
  shows "\<exists>p \<in> set (ex_policies s'). pp_project_id p = rec_project_id rec \<and> pp_enabled p \<and> pp_lever p = lever_token_trim \<and>
    pp_target_key p = m \<and> pp_route_key p = rec_route_key rec \<and> pp_source_recommendation_id p = Some (rec_id rec)"
  using upserted_policy_enabled assms by (auto simp: activate_execution_def activate_trim_policy_def or_str_def)

lemma activated_routing:
  assumes "rec_lever rec = Some l" "l \<in> set routing_levers" "rec_related_model rec = Some m" "m \<noteq> []"
    and "g = Some run" "er_candidate_model run = Some cand" "cand \<noteq> []" "cand \<noteq> m"
    and "activate_execution st arts i now rec g s = Inr s'"
  shows "\<exists>p \<in> set (ex_policies s'). pp_project_id p = rec_project_id rec \<and> pp_enabled p \<and> pp_lever p = l \<and>
    pp_target_key p = m \<and> pp_route_key p = rec_route_key rec \<and> pp_source_recommendation_id p = Some (rec_id rec)"
  using upserted_policy_enabled assms by (auto simp: activate_execution_def activate_rule_def or_str_def)

lemma running_policy_blocks_promotion:
  assumes "p \<in> set policies" "pp_project_id p = pj_id (pm_project pm)" "pp_enabled p" "pp_lever p = sk_lever (lc_segment c)"
    "pp_target_key p = sk_model_requested (lc_segment c)" "pp_route_key p = sk_route_key (lc_segment c)"
    "sk_route_key (lc_segment c) \<noteq> []"
  shows "promotion_seed pm policies c = None"
proof -
  have "has_enabled_policy policies (pj_id (pm_project pm)) (sk_lever (lc_segment c)) (sk_model_requested (lc_segment c))
      (Some (route_or_default (sk_route_key (lc_segment c))))"
    using assms by (auto simp: has_enabled_policy_def or_str_def route_or_default_def list_ex_iff)
  then show ?thesis by (simp add: promotion_seed_def Let_def)
qed

text \<open>
  The learning loop closes. Applying the recommendation that a candidate was promoted to puts an enabled
  policy for the candidate's lever and model on exactly the route the evidence came from, with the
  recommendation as its source, and the same evidence then proposes nothing any more. For a routing lever this
  asks that the evaluation that cleared it names a model other than the incumbent.
\<close>

theorem applied_promotion_closes_the_loop:
  assumes "promotion_seed pm policies c = Some sd" "rec = new_rec i (pm_project pm) created sd"
    and "apply_recommendation_core env rec now automated pl = Inr (rec', pl')"
    and "route_key_normal (sk_route_key (lc_segment c))" "sk_model_requested (lc_segment c) \<noteq> []"
    and "sk_lever (lc_segment c) = lever_token_trim \<or>
      (\<exists>run cand. latest_run (pe_runs env) i = Some run \<and> er_candidate_model run = Some cand \<and> cand \<noteq> [] \<and>
         cand \<noteq> sk_model_requested (lc_segment c))"
  shows "(\<exists>p \<in> set (ex_policies (pl_exec pl')). pp_enabled p \<and> pp_lever p = sk_lever (lc_segment c) \<and>
      pp_target_key p = sk_model_requested (lc_segment c) \<and> pp_route_key p = sk_route_key (lc_segment c) \<and>
      pp_source_recommendation_id p = Some i) \<and>
    promotion_seed pm (ex_policies (pl_exec pl')) c = None"
proof -
  let ?k = "lc_segment c"
  note seed = promotion_seed_Some [OF assms(1)]
  have rk: "rec_route_key rec = sk_route_key ?k" using promoted_route_key [OF assms(1,4)] by (simp add: assms(2))
  have fields: "rec_lever rec = Some (sk_lever ?k)" "rec_related_model rec = Some (sk_model_requested ?k)" "rec_id rec = i"
    "rec_project_id rec = pj_id (pm_project pm)" using seed by (simp_all add: assms(2) new_rec_def)
  from assms(3) obtain g exec where g: "assert_appliable (pe_runs env) rec automated = Inr g"
    and act: "activate_execution (pe_settings env) (pe_artifacts env) (pe_new_id env) now (apply_measured_savings rec g) g
        (pl_exec pl) = Inr exec" and pl': "pl_exec pl' = exec"
    by (rule apply_core_Inr) simp
  have "\<exists>p \<in> set (ex_policies exec). pp_project_id p = pj_id (pm_project pm) \<and> pp_enabled p \<and> pp_lever p = sk_lever ?k \<and>
      pp_target_key p = sk_model_requested ?k \<and> pp_route_key p = sk_route_key ?k \<and> pp_source_recommendation_id p = Some i"
  proof (cases "sk_lever ?k = lever_token_trim")
    case True
    then show ?thesis using activated_trim [OF _ _ assms(5) act] fields rk by simp
  next
    case False
    then have routing: "sk_lever ?k \<in> set routing_levers" using seed by (simp add: promotable_levers_def)
    then have "is_gated rec" by (simp add: is_gated_def fields gated_levers_def)
    with g False assms(6) obtain run cand where "g = Some run" "er_candidate_model run = Some cand" "cand \<noteq> []"
      "cand \<noteq> sk_model_requested ?k" by (auto simp: assert_appliable_Inr fields)
    then show ?thesis using activated_routing [OF _ routing _ assms(5) _ _ _ _ act] fields rk by simp
  qed
  then show ?thesis using running_policy_blocks_promotion assms(4) pl' by (fastforce simp: route_key_normal_def)
qed

lemma auto_levers_map:
  "\<forall>c. lc_project_id (f c) = lc_project_id c \<and> lc_lever (f c) = lc_lever c \<and> lc_enabled (f c) = lc_enabled c \<and>
     lc_automation_mode (f c) = lc_automation_mode c \<Longrightarrow> auto_levers (map f cs) p = auto_levers cs p"
  unfolding auto_levers_def by (induction cs) simp_all

lemma record_applied_savings_modes:
  "auto_levers (ac_lever_configs (snd (record_applied_savings project org rec actor source now ac))) p =
     auto_levers (ac_lever_configs ac) p"
  by (simp add: record_applied_savings_def Let_def refresh_lever_savings_def auto_levers_map split: option.split)

lemma automation_seed_Some:
  assumes "automation_seed pm configs policies c = Some sd"
  shows "sd_lever sd = Some (sk_lever (lc_segment c)) \<and> sd_target_type sd = Some ''automation_mode'' \<and>
    sd_related_model sd = Some (sk_model_requested (lc_segment c)) \<and> sd_related_feature sd = None"
  using assms by (auto simp: automation_seed_def Let_def base_seed_def split: if_splits)

lemma automation_route_key:
  assumes "automation_seed pm configs policies c = Some sd"
  shows "rec_route_key (new_rec i project now sd) = default_route"
proof -
  have t: "sd_target_type sd = Some ''automation_mode''" "sd_related_feature sd = None"
    using automation_seed_Some [OF assms] by simp_all
  show ?thesis
    by (simp add: rec_route_key_def new_rec_def route_key_from_recommendation_def t canonical_route_key_def)
qed

text \<open>
  Approving the proposal of auto mode does not do what it says. The proposal promises that future
  changes of the lever run automatically; applying it leaves the set of levers in auto mode as it was,
  and for the trim lever it switches on a policy for the model on the default route instead, that is for
  every route of the model without a policy of its own.
\<close>

theorem approved_automation_upgrade_changes_no_mode:
  assumes "automation_seed pm configs policies c = Some sd" "rec = new_rec i (pm_project pm) created sd"
    and "transition_recommendation env rec actor Applied now pl = Inr (rec', pl')"
    and "sk_lever (lc_segment c) = lever_token_trim" "sk_model_requested (lc_segment c) \<noteq> []"
  shows "rec_status rec' = Applied \<and>
    auto_levers (ac_lever_configs (pl_accounts pl')) project = auto_levers (ac_lever_configs (pl_accounts pl)) project \<and>
    (\<exists>p \<in> set (ex_policies (pl_exec pl')). pp_enabled p \<and> pp_lever p = lever_token_trim \<and>
       pp_target_key p = sk_model_requested (lc_segment c) \<and> pp_route_key p = default_route \<and>
       pp_source_recommendation_id p = Some i)"
proof -
  have fields: "rec_lever rec = Some lever_token_trim" "rec_related_model rec = Some (sk_model_requested (lc_segment c))"
    "rec_id rec = i" "rec_route_key rec = default_route"
    using automation_seed_Some [OF assms(1)] automation_route_key [OF assms(1)] assms(4) by (simp_all add: assms(2) new_rec_def)
  from assms(3) obtain r1 pl1 where core: "apply_recommendation_core env rec now False pl = Inr (r1, pl1)"
    and rec': "rec' = r1\<lparr>rec_status := Applied, rec_updated_at := now, rec_resolved_at := Some now\<rparr>"
    and pl': "pl' = pl1\<lparr>pl_accounts := snd (record_applied_savings (pj_id (pe_project env)) (pe_org env)
        (r1\<lparr>rec_status := Applied, rec_updated_at := now, rec_resolved_at := Some now\<rparr>) (Some actor) ''user'' now
        (pl_accounts pl1))\<rparr>"
    by (auto simp: transition_recommendation_def Let_def split: if_splits sum.splits)
  from core obtain g exec where act: "activate_execution (pe_settings env) (pe_artifacts env) (pe_new_id env) now
      (apply_measured_savings rec g) g (pl_exec pl) = Inr exec"
    and pl1: "pl_exec pl1 = exec" "pl_accounts pl1 = pl_accounts pl"
    by (rule apply_core_Inr) simp
  have "\<exists>p \<in> set (ex_policies exec). pp_project_id p = rec_project_id rec \<and> pp_enabled p \<and> pp_lever p = lever_token_trim \<and>
      pp_target_key p = sk_model_requested (lc_segment c) \<and> pp_route_key p = default_route \<and> pp_source_recommendation_id p = Some i"
    using activated_trim [OF _ _ assms(5) act] fields by simp
  then show ?thesis by (auto simp: rec' pl' pl1 record_applied_savings_modes)
qed

section \<open>Concrete sweeps\<close>

definition sample_learned :: learning_candidate where
  "sample_learned =
     (stats_as_dict \<lparr>sk_route_key = ''chat'', sk_task_type = ''unknown'', sk_risk_level = ''low'',
        sk_provider_requested = ''openai'', sk_model_requested = ''a'', sk_provider_chosen = ''openai'',
        sk_model_chosen = ''a'', sk_lever = lever_token_trim\<rparr> empty_stats)
     \<lparr>lc_sample_count := 40, lc_total_gross_savings_usd := Some 30, lc_readiness := Auto_Apply_Candidate\<rparr>"

definition sample_promotion :: promotion_env where
  "sample_promotion = \<lparr>pm_digest = (\<lambda>_. ''d''), pm_show = (\<lambda>_. ''30.00''), pm_project = pe_project sample_env,
     pm_now = 0, pm_days = 30\<rparr>"

definition paying_env :: plane_env where
  "paying_env = sample_env\<lparr>pe_entitlement := (lookup_failed_state default_settings)
     \<lparr>en_plan_tier := Plan_Performance, en_observe_only := False\<rparr>\<rparr>"

definition approve_config :: lever_config where
  "approve_config = \<lparr>lc_project_id = ''p'', lc_lever = lever_token_trim, lc_enabled = True, lc_savings_to_date_usd = 0,
     lc_automation_mode = ''approve''\<rparr>"

definition sample_experiment :: ab_experiment where
  "sample_experiment = (compute_experiment (\<lambda>_ _ _ _ _ _. None) [] ''p'' ''a'' ''b'' 0 None)
     \<lparr>savings_per_request_ci_low_usd := Some 1, savings_per_request_ci_high_usd := Some 2, ex_has_signal := True\<rparr>"

lemma sample_learned_simps [simp]:
  "sk_lever (lc_segment sample_learned) = lever_token_trim" "sk_model_requested (lc_segment sample_learned) = ''a''"
  "sk_route_key (lc_segment sample_learned) = ''chat''" "lc_readiness sample_learned = Auto_Apply_Candidate"
  by (simp_all add: sample_learned_def stats_as_dict_def)

lemma sample_promotion_seed:
  obtains sd where "promotion_seed sample_promotion [] sample_learned = Some sd"
  by (rule that [of "the (promotion_seed sample_promotion [] sample_learned)"])
    (simp add: promotion_seed_def Let_def promotable_readiness_def promotable_levers_def has_enabled_policy_def or_str_def
      route_or_default_def)

lemma paying_env_clears:
  assumes "rec_lever r = Some lever_token_trim" "lever_enabled (ac_lever_configs (pl_accounts pl)) ''p'' (Some lever_token_trim)"
  shows "cleared paying_env r automated pl \<and> \<not> transform_conflict paying_env r pl"
  using assms
  by (simp add: cleared_def transform_conflict_def paying_env_def is_performance_state_def sample_env_def gated_levers_def
      governed_levers_def)

theorem applied_promotion_closes_the_loop_witness:
  "\<exists>sd rec' pl'. promotion_seed sample_promotion [] sample_learned = Some sd \<and>
     apply_recommendation_core paying_env (new_rec ''i'' (pm_project sample_promotion) 0 sd) 1 True sample_plane = Inr (rec', pl') \<and>
     promotion_seed sample_promotion (ex_policies (pl_exec pl')) sample_learned = None"
proof -
  obtain sd where sd: "promotion_seed sample_promotion [] sample_learned = Some sd" by (rule sample_promotion_seed)
  let ?r = "new_rec ''i'' (pm_project sample_promotion) 0 sd"
  have "rec_lever ?r = Some lever_token_trim" using promotion_seed_Some [OF sd] by (simp add: new_rec_def)
  then have "cleared paying_env ?r True sample_plane \<and> \<not> transform_conflict paying_env ?r sample_plane"
    by (rule paying_env_clears) (simp add: lever_enabled_def sample_plane_def no_accounts_def)
  then obtain rec' pl' where ok: "apply_recommendation_core paying_env ?r 1 True sample_plane = Inr (rec', pl')"
    using apply_core_succeeds [of paying_env ?r 1 True sample_plane] by auto
  have "route_key_normal ''chat''" by (simp add: route_key_normal_def max_route_key_len_def py_isspace_def py_lower_char_def)
  then show ?thesis using applied_promotion_closes_the_loop [OF sd refl ok] sd ok by auto
qed

theorem approved_automation_upgrade_changes_no_mode_witness:
  "\<exists>sd rec' pl'. automation_seed sample_promotion [approve_config] [new_policy ''n'' ''o'' ''p'' lever_token_trim ''a'' ''chat'']
      sample_learned = Some sd \<and>
     transition_recommendation paying_env (new_rec ''i'' (pm_project sample_promotion) 0 sd) ''u'' Applied 1
       (sample_plane\<lparr>pl_accounts := no_accounts\<lparr>ac_lever_configs := [approve_config]\<rparr>\<rparr>) = Inr (rec', pl') \<and>
     auto_levers (ac_lever_configs (pl_accounts pl')) ''p'' = []"
proof -
  let ?pol = "[new_policy ''n'' ''o'' ''p'' lever_token_trim ''a'' ''chat'']"
  let ?pl = "sample_plane\<lparr>pl_accounts := no_accounts\<lparr>ac_lever_configs := [approve_config]\<rparr>\<rparr>"
  define sd where "sd = the (automation_seed sample_promotion [approve_config] ?pol sample_learned)"
  have sd: "automation_seed sample_promotion [approve_config] ?pol sample_learned = Some sd"
    by (simp add: sd_def automation_seed_def Let_def promotable_levers_def has_enabled_policy_def or_str_def
        route_or_default_def new_policy_def automation_config_def mode_config_def approve_config_def sample_promotion_def
        sample_env_def)
  let ?r = "new_rec ''i'' (pm_project sample_promotion) 0 sd"
  have "rec_lever ?r = Some lever_token_trim" using automation_seed_Some [OF sd] by (simp add: new_rec_def)
  then have "cleared paying_env ?r False ?pl \<and> \<not> transform_conflict paying_env ?r ?pl"
    by (rule paying_env_clears) (simp add: lever_enabled_def approve_config_def)
  moreover have "own_recommendation paying_env ?r"
    by (simp add: own_recommendation_def paying_env_def new_rec_def sample_promotion_def)
  ultimately obtain rec' pl' where ok: "transition_recommendation paying_env ?r ''u'' Applied 1 ?pl = Inr (rec', pl')"
    using apply_core_succeeds [of paying_env ?r 1 False ?pl]
    by (auto simp: transition_recommendation_def own_recommendation_def Let_def)
  have "auto_levers (ac_lever_configs (pl_accounts ?pl)) ''p'' = []" by (simp add: auto_levers_def approve_config_def)
  then show ?thesis using approved_automation_upgrade_changes_no_mode [OF sd refl ok] sd ok by auto
qed

theorem holdback_settles_witness:
  "confidently_positive sample_experiment \<and> (holdback_after sample_experiment ^^ 3) (5 / 100) = 1 / 100"
proof -
  have "confidently_positive sample_experiment" by (simp add: confidently_positive_def sample_experiment_def)
  then show ?thesis using holdback_settles [of sample_experiment 0 "5 / 100"] by simp
qed

theorem autopilot_stays_inside_the_gates_witness:
  "length (au_applied (auto_apply_ready_recommendations paying_env id 1 25 [sample_rec] sample_plane)) \<le> 25"
  using autopilot_stays_inside_the_gates [of "[sample_rec]" paying_env id 1 25 sample_plane] by (simp add: Let_def)

end
