(* ===== verification/Evaluation.thy ===== *)
theory Evaluation
  imports EvalCapture Governance LedgerWrite RoutePredicate Evidence Billing
begin

text \<open>
  The shadow evaluation: the scores of \<open>eval/scoring.py\<close>, the pairwise judge of \<open>eval/openai_ops.py\<close> and the
  runner of \<open>eval/runner.py\<close> with the registry of losses (\<open>eval/failure_registry.py\<close>). Parameters: the JSON
  decoder, the replay call, one round of the judge, the square root, \<open>str\<close> on JSON values, the printed notes. Float means are exact
  rationals rounded to four decimals. \<open>None\<close> is an exception.
\<close>

record eval_settings =
  es_min_samples :: int
  es_replay_max_samples :: nat
  es_objective_pass_threshold :: rat

definition default_eval_settings :: eval_settings where
  "default_eval_settings = \<lparr>es_min_samples = 20, es_replay_max_samples = 200, es_objective_pass_threshold = 95 / 100\<rparr>"

section \<open>Scoring\<close>

datatype scorer = Scorer_Golden | Scorer_Objective | Scorer_Judge

definition source_golden :: string where
  "source_golden = ''golden''"

text \<open>\<open>content or ""\<close>, where a list of blocks is joined and a block without a text yields the empty answer.\<close>

definition answer_content :: "json \<Rightarrow> json" where
  "answer_content content =
     (case content of
        JList blocks \<Rightarrow> JStr (case join_texts blocks of None \<Rightarrow> [] | Some s \<Rightarrow> s)
      | _ \<Rightarrow> if truthy content then content else JStr [])"

text \<open>A choice or a message that is no dictionary has no \<open>get\<close>: that is an exception nobody catches.\<close>

fun choice_text :: "json \<Rightarrow> json option" where
  "choice_text (JObj c) =
     (case dict_get_default c ''message'' (JObj []) of
        JObj m \<Rightarrow> Some (answer_content (dict_get m ''content''))
      | _ \<Rightarrow> None)"
| "choice_text _ = None"

definition assistant_text :: "(string \<times> json) list option \<Rightarrow> json option" where
  "assistant_text payload =
     (case payload of
        None \<Rightarrow> Some (JStr [])
      | Some kvs \<Rightarrow>
          if kvs = [] then Some (JStr [])
          else (case map_of kvs ''choices'' of
                  Some (JList (c # cs)) \<Rightarrow> choice_text c
                | Some (JStr (ch # s)) \<Rightarrow> None
                | _ \<Rightarrow> Some (JStr [])))"

fun normalize_text :: "json \<Rightarrow> string option" where
  "normalize_text (JStr s) = Some (re_sub_spaces '' '' (py_lower (py_strip s)))"
| "normalize_text _ = None"

text \<open>\<open>loads\<close> answers \<open>None\<close> on a decode error; a decoded \<open>null\<close> is \<open>None\<close> as well.\<close>

fun as_json :: "(string \<Rightarrow> json option) \<Rightarrow> json \<Rightarrow> json option" where
  "as_json loads (JStr s) = (case loads s of Some JNull \<Rightarrow> None | v \<Rightarrow> v)"
| "as_json loads _ = None"

text \<open>Python's \<open>==\<close> on decoded JSON: numbers by value, dictionaries without order, NaN unlike everything.\<close>

fun json_number :: "json \<Rightarrow> py_float option" where
  "json_number (JBool b) = Some (Fin (if b then 1 else 0))"
| "json_number (JInt n) = Some (Fin (of_int n))"
| "json_number (JFloat x) = Some x"
| "json_number _ = None"

fun json_eq :: "json \<Rightarrow> json \<Rightarrow> bool"
  and json_eq_list :: "json list \<Rightarrow> json list \<Rightarrow> bool"
  and json_eq_members :: "(string \<times> json) list \<Rightarrow> (string \<times> json) list \<Rightarrow> bool" where
  "json_eq JNull y = (y = JNull)"
| "json_eq (JStr s) y = (y = JStr s)"
| "json_eq (JList xs) y = (case y of JList ys \<Rightarrow> json_eq_list xs ys | _ \<Rightarrow> False)"
| "json_eq (JObj xs) y = (case y of JObj ys \<Rightarrow> length xs = length ys \<and> json_eq_members xs ys | _ \<Rightarrow> False)"
| "json_eq x y = (case (json_number x, json_number y) of (Some a, Some b) \<Rightarrow> a = b \<and> a \<noteq> NaN | _ \<Rightarrow> False)"
| "json_eq_list [] ys = (ys = [])"
| "json_eq_list (x # xs) ys = (case ys of [] \<Rightarrow> False | y # ys' \<Rightarrow> json_eq x y \<and> json_eq_list xs ys')"
| "json_eq_members [] ys = True"
| "json_eq_members ((k, v) # xs) ys = ((case map_of ys k of None \<Rightarrow> False | Some w \<Rightarrow> json_eq v w) \<and> json_eq_members xs ys)"

text \<open>The type is looked up in a set, so a list or a dictionary there raises.\<close>

definition sample_wants_json :: "replay_sample \<Rightarrow> bool option" where
  "sample_wants_json s =
     (case dict_get (rs_request_params s) ''response_format'' of
        JObj fmt \<Rightarrow>
          (case dict_get fmt ''type'' of
             JList _ \<Rightarrow> None | JObj _ \<Rightarrow> None
           | t \<Rightarrow> Some (t = JStr ''json_object'' \<or> t = JStr ''json_schema''))
      | _ \<Rightarrow> Some False)"

definition pass_fail :: "scorer \<Rightarrow> bool \<Rightarrow> scorer \<times> rat \<times> bool option" where
  "pass_fail sc ok = (sc, if ok then 0 else -1, Some ok)"

definition same_text :: "json \<Rightarrow> json \<Rightarrow> bool option" where
  "same_text a b =
     (case (normalize_text a, normalize_text b) of (Some x, Some y) \<Rightarrow> Some (x = y) | _ \<Rightarrow> None)"

definition score_sample ::
  "(string \<Rightarrow> json option) \<Rightarrow> replay_sample \<Rightarrow> json \<Rightarrow> json \<Rightarrow> (scorer \<times> rat \<times> bool option) option" where
  "score_sample loads s incumbent candidate =
     (case (if rs_source s = source_golden then or_str (rs_expected_output s) None else None) of
        Some expected \<Rightarrow> map_option (pass_fail Scorer_Golden) (same_text candidate (JStr expected))
      | None \<Rightarrow>
          (case sample_wants_json s of
             None \<Rightarrow> None
           | Some True \<Rightarrow>
               Some (pass_fail Scorer_Objective
                 (case as_json loads candidate of
                    None \<Rightarrow> False
                  | Some c \<Rightarrow> (case as_json loads incumbent of None \<Rightarrow> True | Some i \<Rightarrow> json_eq c i)))
           | Some False \<Rightarrow>
               (case as_json loads incumbent of
                  Some i \<Rightarrow>
                    Some (pass_fail Scorer_Objective
                      (case as_json loads candidate of None \<Rightarrow> False | Some c \<Rightarrow> json_eq c i))
                | None \<Rightarrow>
                    (case normalize_text incumbent of
                       None \<Rightarrow> None
                     | Some t \<Rightarrow>
                         if length t \<le> 40 then map_option (pass_fail Scorer_Objective) (same_text candidate incumbent)
                         else Some (Scorer_Objective, 0, None)))))"

definition judge_score :: "string \<Rightarrow> rat" where
  "judge_score winner = (if winner = ''candidate'' then 1 else if winner = ''incumbent'' then -1 else 0)"

definition pvariance :: "rat list \<Rightarrow> rat" where
  "pvariance xs = (let m = sum_list xs / of_nat (length xs) in sum_list (map (\<lambda>x. (x - m) ^ 2) xs) / of_nat (length xs))"

definition mean_ci :: "(rat \<Rightarrow> rat) \<Rightarrow> rat list \<Rightarrow> rat \<times> rat \<times> rat" where
  "mean_ci sq scores =
     (if scores = [] then (0, 0, 0)
      else (let mean = sum_list scores / of_nat (length scores)
            in if length scores < 2 then (quantize_half_even 4 mean, quantize_half_even 4 mean, quantize_half_even 4 mean)
               else (let half = 196 / 100 * sq (pvariance scores) / sq (of_nat (length scores))
                     in (quantize_half_even 4 mean, quantize_half_even 4 (mean - half), quantize_half_even 4 (mean + half)))))"

section \<open>The judge\<close>

text \<open>\<open>once prompt first second\<close> is one round: the named winner and the reasoning, \<open>None\<close> when it raises.\<close>

definition winner_of :: "string \<Rightarrow> string \<Rightarrow> string \<Rightarrow> string" where
  "winner_of first second r = (if r = ''first'' then first else if r = ''second'' then second else ''tie'')"

definition judge_pairwise ::
  "('p \<Rightarrow> json \<Rightarrow> json \<Rightarrow> (string \<times> string) option) \<Rightarrow> 'p \<Rightarrow> json \<Rightarrow> json \<Rightarrow> string \<times> string" where
  "judge_pairwise once prompt incumbent candidate =
     (case (once prompt incumbent candidate, once prompt candidate incumbent) of
        (Some (r1, reason1), Some (r2, _)) \<Rightarrow>
          (let win1 = winner_of ''incumbent'' ''candidate'' r1; win2 = winner_of ''candidate'' ''incumbent'' r2
           in if win1 = win2 then (win1, reason1) else (''tie'', []))
      | _ \<Rightarrow> (''tie'', []))"

section \<open>The runner\<close>

record run_row = eval_run +
  rr_organization_id :: uuid
  rr_lever :: string
  rr_route_key :: string
  rr_objective_pass_count :: "int option"
  rr_failed_with :: "string option"
  rr_completed_at :: "datetime option"

record sample_result =
  sr_sample_id :: uuid
  sr_candidate_response :: json
  sr_scorer :: scorer
  sr_objective_pass :: "bool option"
  sr_judge_winner :: "string option"
  sr_score :: rat
  sr_candidate_cost_usd :: "decimal option"
  sr_incumbent_cost_usd :: "decimal option"

record failure_entry =
  fe_incumbent_model :: string
  fe_candidate_model :: string
  fe_messages :: json
  fe_incumbent_response :: "(string \<times> json) list option"
  fe_candidate_response :: json
  fe_reasoning :: string
  fe_candidate_score :: rat
  fe_input_tokens :: int
  fe_output_tokens :: int
  fe_conversation_turns :: nat
  fe_last_turn_char_count :: nat

text \<open>What a run reads: settings, the corpus, the price tables, the calls to the models.\<close>

record eval_env =
  ee_settings :: eval_settings
  ee_loads :: "string \<Rightarrow> json option"
  ee_sqrt :: "rat \<Rightarrow> rat"
  ee_replay :: "json \<Rightarrow> (string \<times> json) list \<Rightarrow> string \<Rightarrow> json option"
  ee_py_str :: "json \<Rightarrow> string"
  ee_registry_writable :: bool
  ee_judge_once :: "string \<Rightarrow> json \<Rightarrow> json \<Rightarrow> (string \<times> string) option"
  ee_prices :: price_tables
  ee_recommendations :: "recommendation list"
  ee_note :: "verdict \<Rightarrow> nat \<Rightarrow> decimal option \<Rightarrow> string"
  ee_now :: datetime
  ee_new_id :: uuid

text \<open>\<open>messages or []\<close>, read as a list of dictionaries; a format string prints a string as it is.\<close>

definition message_dicts :: "json \<Rightarrow> (string \<times> json) list list option" where
  "message_dicts v =
     (case v of
        JList ms \<Rightarrow> those (map (\<lambda>m. case m of JObj kvs \<Rightarrow> Some kvs | _ \<Rightarrow> None) ms)
      | _ \<Rightarrow> if truthy v then None else Some [])"

definition py_format :: "(json \<Rightarrow> string) \<Rightarrow> json \<Rightarrow> string" where
  "py_format py_str v = (case v of JStr s \<Rightarrow> s | _ \<Rightarrow> py_str v)"

definition prompt_line :: "(json \<Rightarrow> string) \<Rightarrow> (string \<times> json) list \<Rightarrow> string option" where
  "prompt_line py_str m =
     map_option (\<lambda>c. py_format py_str (dict_get_default m ''role'' (JStr [])) @ '': '' @ c)
       (case dict_get_default m ''content'' (JStr []) of JList blocks \<Rightarrow> join_texts blocks | c \<Rightarrow> Some (py_format py_str c))"

fun join_lines :: "string list \<Rightarrow> string" where
  "join_lines [] = []"
| "join_lines [x] = x"
| "join_lines (x # xs) = x @ [CHR 0x0A] @ join_lines xs"

definition prompt_text :: "(json \<Rightarrow> string) \<Rightarrow> json \<Rightarrow> string option" where
  "prompt_text py_str messages =
     Option.bind (message_dicts messages) (\<lambda>ms.
       map_option (\<lambda>ls. py_strip (join_lines ls)) (those (map (prompt_line py_str) ms)))"

text \<open>\<open>usage = payload.get("usage") or {}\<close>, then both counts.\<close>

definition count_of :: "json \<Rightarrow> int option" where
  "count_of v = (if truthy v then (case py_int v of Inr n \<Rightarrow> Some n | Inl _ \<Rightarrow> None) else Some 0)"

definition usage_tokens :: "json \<Rightarrow> (int \<times> int) option" where
  "usage_tokens payload =
     (case payload of
        JObj p \<Rightarrow>
          (let usage = dict_get p ''usage''
           in if \<not> truthy usage then Some (0, 0)
              else (case usage of
                      JObj u \<Rightarrow>
                        (case (count_of (dict_get u ''prompt_tokens''), count_of (dict_get u ''completion_tokens'')) of
                           (Some i, Some j) \<Rightarrow> Some (i, j) | _ \<Rightarrow> None)
                    | _ \<Rightarrow> None))
      | _ \<Rightarrow> None)"

definition eligible_for_smart_routing :: "replay_sample \<Rightarrow> bool option" where
  "eligible_for_smart_routing s =
     is_eligible (fold (\<lambda>(k, v) b. dict_put b k v) (rs_request_params s) [(''messages'', rs_request_messages s)])
       (JObj default_predicate)"

definition select_samples :: "eval_settings \<Rightarrow> run_row \<Rightarrow> replay_sample list \<Rightarrow> replay_sample list" where
  "select_samples es run samples_table =
     take (es_replay_max_samples es)
       (sort_key (\<lambda>s. if rs_expected_output s = None then 1 else 0 :: int)
         (sort_key (\<lambda>s. - rs_created_at s)
           (filter (\<lambda>s. rs_project_id s = er_project_id run \<and> rs_route_key s = rr_route_key run \<and>
              (rs_source s = source_golden \<or> rs_incumbent_response s \<noteq> None)) samples_table)))"

definition model_of :: "string option \<Rightarrow> string" where
  "model_of m = (case m of None \<Rightarrow> [] | Some s \<Rightarrow> s)"

definition price_of :: "eval_env \<Rightarrow> uuid \<Rightarrow> string \<Rightarrow> int \<Rightarrow> int \<Rightarrow> price_cache \<Rightarrow> decimal option \<times> price_cache" where
  "price_of env org model input_tokens output_tokens cache =
     (case price_usage_event (pt_overrides (ee_prices env)) (pt_prices (ee_prices env)) (ee_now env) org model ''openai''
        input_tokens output_tokens 0 None (ee_now env) cache of ((cost, _, _, _), cache') \<Rightarrow> (cost, cache'))"

definition record_eval_replay_overhead ::
  "eval_env \<Rightarrow> run_row \<Rightarrow> int \<Rightarrow> int \<Rightarrow> price_cache \<times> usage_event list \<Rightarrow> price_cache \<times> usage_event list" where
  "record_eval_replay_overhead env run input_tokens output_tokens s =
     (case record_overhead_usage (ee_prices env) True (ee_now env) (ee_now env) (rr_organization_id run) (er_project_id run)
             ''openai'' (model_of (er_candidate_model run)) ''eval_replay'' input_tokens output_tokens ''eval_replay'' s of
        (Some _, cache, event # ledger) \<Rightarrow>
          (cache, event\<lparr>ue_metadata := ue_metadata event @ [(''eval_run_id'', JStr (er_id run))]\<rparr> # ledger)
      | (_, cache, ledger) \<Rightarrow> (cache, ledger))"

record eval_totals =
  et_scores :: "rat list"
  et_scorers :: "scorer list"
  et_obj_total :: nat
  et_obj_pass :: nat
  et_cost_deltas :: "decimal list"
  et_results :: "sample_result list"
  et_books :: "price_cache \<times> usage_event list"
  et_failures :: "failure_entry list"

definition scorer_text :: "scorer \<Rightarrow> string" where
  "scorer_text s = (case s of Scorer_Golden \<Rightarrow> ''golden'' | Scorer_Objective \<Rightarrow> ''objective'' | Scorer_Judge \<Rightarrow> ''judge'')"

text \<open>
  One sample. A replay that answers nothing is skipped. \<open>Inl\<close> is an exception, with the registry as it is by then:
  its file is not part of the transaction.
\<close>

definition judged ::
  "eval_env \<Rightarrow> replay_sample \<Rightarrow> json \<Rightarrow> json \<Rightarrow> scorer \<times> rat \<times> bool option
    \<Rightarrow> (scorer \<times> rat \<times> bool option \<times> string option \<times> string) option" where
  "judged env s incumbent candidate scored =
     (case scored of
        (sc, score, Some ok) \<Rightarrow> Some (sc, score, Some ok, None, [])
      | (sc, score, None) \<Rightarrow>
          map_option (\<lambda>prompt. case judge_pairwise (ee_judge_once env) prompt incumbent candidate of
              (winner, reasoning) \<Rightarrow> (Scorer_Judge, judge_score winner, None, Some winner, reasoning))
            (prompt_text (ee_py_str env) (rs_request_messages s)))"

text \<open>The registry never raises: an entry it cannot build or write is skipped.\<close>

definition registry_failure :: "eval_env \<Rightarrow> failure_entry \<Rightarrow> failure_entry list" where
  "registry_failure env e =
     (case message_dicts (fe_messages e) of
        None \<Rightarrow> []
      | Some ms \<Rightarrow>
          (let turns = map (\<lambda>m. py_format (ee_py_str env) (dict_get_default m ''content'' (JStr [])))
                         (filter (\<lambda>m. dict_get m ''role'' = JStr ''user'') ms)
           in if ee_registry_writable env
              then [e\<lparr>fe_conversation_turns := length turns,
                      fe_last_turn_char_count := (if turns = [] then 0 else length (last turns))\<rparr>]
              else []))"

definition add_scored ::
  "eval_env \<Rightarrow> run_row \<Rightarrow> replay_sample \<Rightarrow> json \<Rightarrow> int \<times> int \<Rightarrow> scorer \<times> rat \<times> bool option \<times> string option \<times> string \<Rightarrow> eval_totals
    \<Rightarrow> eval_totals" where
  "add_scored env run s payload tokens outcome t =
     (case outcome of (sc, score, obj, winner, reasoning) \<Rightarrow>
       (let cand_model = model_of (er_candidate_model run); inc_model = model_of (er_incumbent_model run);
            books = record_eval_replay_overhead env run (fst tokens) (snd tokens) (et_books t);
            inc = price_of env (rr_organization_id run) inc_model (rs_input_tokens s) (rs_output_tokens s) (fst books);
            cand = price_of env (rr_organization_id run) cand_model
                     (if fst tokens \<noteq> 0 then fst tokens else rs_input_tokens s) (snd tokens) (snd inc);
            failure = \<lparr>fe_incumbent_model = inc_model, fe_candidate_model = cand_model,
              fe_messages = rs_request_messages s, fe_incumbent_response = rs_incumbent_response s,
              fe_candidate_response = payload,
              fe_reasoning = (if reasoning \<noteq> [] then reasoning
                else if obj = Some False then ''objective_fail:'' @ scorer_text sc else []),
              fe_candidate_score = score, fe_input_tokens = rs_input_tokens s, fe_output_tokens = rs_output_tokens s,
              fe_conversation_turns = 0, fe_last_turn_char_count = 0\<rparr>
        in \<lparr>et_scores = et_scores t @ [score], et_scorers = et_scorers t @ [sc],
            et_obj_total = et_obj_total t + (if obj = None then 0 else 1),
            et_obj_pass = et_obj_pass t + (if obj = Some True then 1 else 0),
            et_cost_deltas = et_cost_deltas t @ (case (fst inc, fst cand) of (Some a, Some b) \<Rightarrow> [a - b] | _ \<Rightarrow> []),
            et_results = et_results t @ [\<lparr>sr_sample_id = rs_id s, sr_candidate_response = payload, sr_scorer = sc,
              sr_objective_pass = obj, sr_judge_winner = winner, sr_score = score, sr_candidate_cost_usd = fst cand,
              sr_incumbent_cost_usd = fst inc\<rparr>],
            et_books = (snd cand, snd books),
            et_failures = et_failures t @ (if score < 0 then registry_failure env failure else [])\<rparr>))"

definition eval_sample :: "eval_env \<Rightarrow> run_row \<Rightarrow> replay_sample \<Rightarrow> eval_totals \<Rightarrow> failure_entry list + eval_totals" where
  "eval_sample env run s t =
     (case ee_replay env (rs_request_messages s) (rs_request_params s) (model_of (er_candidate_model run)) of
        None \<Rightarrow> Inr t
      | Some payload \<Rightarrow>
          if payload = JNull then Inr t
          else (case (usage_tokens payload, payload) of
                  (Some tokens, JObj p) \<Rightarrow>
                    (case (assistant_text (Some p), assistant_text (rs_incumbent_response s)) of
                       (Some cand_text, Some inc_text) \<Rightarrow>
                         (case score_sample (ee_loads env) s inc_text cand_text of
                            None \<Rightarrow> Inl (et_failures t)
                          | Some scored \<Rightarrow>
                              (case judged env s inc_text cand_text scored of
                                 None \<Rightarrow> Inl (et_failures t)
                               | Some outcome \<Rightarrow> Inr (add_scored env run s payload tokens outcome t)))
                     | _ \<Rightarrow> Inl (et_failures t))
                | _ \<Rightarrow> Inl (et_failures t)))"

fun eval_samples :: "eval_env \<Rightarrow> run_row \<Rightarrow> replay_sample list \<Rightarrow> eval_totals \<Rightarrow> failure_entry list + eval_totals" where
  "eval_samples env run [] t = Inr t"
| "eval_samples env run (s # ss) t =
     (case eval_sample env run s t of Inl fs \<Rightarrow> Inl fs | Inr t' \<Rightarrow> eval_samples env run ss t')"

definition measured_cost_delta :: "recommendation list \<Rightarrow> run_row \<Rightarrow> decimal list \<Rightarrow> decimal option" where
  "measured_cost_delta recs run deltas =
     (if deltas = [] then None
      else (let per_request = sum_list deltas / of_nat (length deltas);
                volume = Option.bind (er_recommendation_id run) (\<lambda>rid.
                  Option.bind (find (\<lambda>r. rec_id r = rid) recs) rec_monthly_request_volume);
                multiplier = (case volume of Some v \<Rightarrow> if v \<noteq> 0 then of_int v else of_nat (length deltas)
                              | None \<Rightarrow> of_nat (length deltas))
            in Some (quantize_half_even 8 (per_request * multiplier))))"

definition scorer_type_of :: "scorer list \<Rightarrow> string option \<Rightarrow> string option" where
  "scorer_type_of scorers old =
     (if set scorers = {Scorer_Golden} then Some ''golden''
      else if set scorers = {Scorer_Objective} then Some ''objective''
      else if set scorers = {Scorer_Judge} then Some ''judge''
      else if scorers \<noteq> [] then Some ''mixed'' else old)"

definition objective_rate :: "eval_totals \<Rightarrow> decimal option" where
  "objective_rate t =
     (if et_obj_total t = 0 then None else Some (quantize_half_even 4 (of_nat (et_obj_pass t) / of_nat (et_obj_total t))))"

definition verdict_of :: "eval_settings \<Rightarrow> rat \<Rightarrow> eval_totals \<Rightarrow> verdict" where
  "verdict_of es lo t =
     (if int (length (et_scores t)) < es_min_samples es then Insufficient
      else if Scorer_Judge \<in> set (et_scorers t) then (if 0 \<le> lo then Needs_Human else Unsafe)
      else (case objective_rate t of
              None \<Rightarrow> Unsafe
            | Some rate \<Rightarrow> if es_objective_pass_threshold es \<le> rate \<and> - 5 / 100 \<le> lo then Safe else Unsafe))"

definition finalize_run :: "eval_env \<Rightarrow> run_row \<Rightarrow> eval_totals \<Rightarrow> run_row" where
  "finalize_run env run t =
     (case mean_ci (ee_sqrt env) (et_scores t) of (mean, lo, hi) \<Rightarrow>
       (let v = verdict_of (ee_settings env) lo t
        in run\<lparr>er_sample_count := int (length (et_scores t)),
               er_win_count := int (length (filter (\<lambda>s. 0 < s) (et_scores t))),
               er_tie_count := int (length (filter (\<lambda>s. s = 0) (et_scores t))),
               er_loss_count := int (length (filter (\<lambda>s. s < 0) (et_scores t))),
               er_score_delta := Some mean, er_score_delta_ci_low := Some lo, er_score_delta_ci_high := Some hi,
               er_objective_pass_rate := objective_rate t,
               er_scorer_type := scorer_type_of (et_scorers t) (er_scorer_type run),
               er_cost_delta_usd := measured_cost_delta (ee_recommendations env) run (et_cost_deltas t),
               er_verdict := Some v, er_notes := Some (ee_note env v (length (et_scores t)) (objective_rate t)),
               er_status := Run_Completed,
               rr_objective_pass_count := (if et_obj_total t = 0 then None else Some (int (et_obj_pass t))),
               rr_completed_at := Some (ee_now env)\<rparr>))"

record eval_state =
  ev_books :: "price_cache \<times> usage_event list"
  ev_results :: "(uuid \<times> sample_result) list"
  ev_change_requests :: "change_request list"
  ev_registry :: "failure_entry list"

fun keep_eligible :: "replay_sample list \<Rightarrow> replay_sample list option" where
  "keep_eligible [] = Some []"
| "keep_eligible (s # ss) =
     (case (eligible_for_smart_routing s, keep_eligible ss) of
        (Some b, Some rest) \<Rightarrow> Some (if b then s # rest else rest)
      | _ \<Rightarrow> None)"

definition routable_samples :: "run_row \<Rightarrow> replay_sample list \<Rightarrow> replay_sample list option" where
  "routable_samples run chosen = (if rr_lever run = ''smart_routing'' then keep_eligible chosen else Some chosen)"

definition no_totals :: "price_cache \<times> usage_event list \<Rightarrow> eval_totals" where
  "no_totals books = \<lparr>et_scores = [], et_scorers = [], et_obj_total = 0, et_obj_pass = 0, et_cost_deltas = [],
     et_results = [], et_books = books, et_failures = []\<rparr>"

text \<open>An exception rolls the transaction back: the run is failed, and only the registry keeps its lines.\<close>

definition failed_run :: "eval_env \<Rightarrow> run_row \<Rightarrow> eval_state \<Rightarrow> failure_entry list \<Rightarrow> run_row \<times> eval_state" where
  "failed_run env run s fs =
     (run\<lparr>er_status := Run_Failed, rr_failed_with := Some ''exception'', rr_completed_at := Some (ee_now env)\<rparr>,
      s\<lparr>ev_registry := ev_registry s @ fs\<rparr>)"

definition completed_run :: "eval_env \<Rightarrow> run_row \<Rightarrow> eval_state \<Rightarrow> eval_totals \<Rightarrow> run_row \<times> eval_state" where
  "completed_run env run s t =
     (let run' = finalize_run env run t
      in (run', \<lparr>ev_books = et_books t, ev_results = ev_results s @ map (Pair (er_id run)) (et_results t),
            ev_change_requests = snd (ensure_change_request (ee_recommendations env) (ee_new_id env) (ee_now env)
              (eval_run.truncate run') (ev_change_requests s)),
            ev_registry = ev_registry s @ et_failures t\<rparr>))"

definition run_eval :: "eval_env \<Rightarrow> replay_sample list \<Rightarrow> run_row \<Rightarrow> eval_state \<Rightarrow> run_row \<times> eval_state" where
  "run_eval env samples_table run s =
     (case routable_samples run (select_samples (ee_settings env) run samples_table) of
        None \<Rightarrow> failed_run env run s []
      | Some samples \<Rightarrow>
          (case eval_samples env run samples (no_totals (ev_books s)) of
             Inl fs \<Rightarrow> failed_run env run s fs
           | Inr t \<Rightarrow> completed_run env run s t))"

definition create_run_for_recommendation ::
  "uuid \<Rightarrow> datetime \<Rightarrow> project \<Rightarrow> recommendation \<Rightarrow> string \<Rightarrow> run_row" where
  "create_run_for_recommendation new_id now project rec candidate =
     \<lparr>er_id = new_id, er_project_id = pj_id project, er_recommendation_id = Some (rec_id rec), er_created_at = now,
      er_status = Run_Pending, er_verdict = None,
      er_incumbent_model = Some (case or_str (rec_related_model rec) None of None \<Rightarrow> [] | Some m \<Rightarrow> m),
      er_candidate_model = Some candidate, er_cost_delta_usd = None, er_scorer_type = None, er_sample_count = 0,
      er_win_count = 0, er_tie_count = 0, er_loss_count = 0, er_score_delta = None, er_score_delta_ci_low = None,
      er_score_delta_ci_high = None, er_objective_pass_rate = None, er_notes = None,
      rr_organization_id = pj_organization_id project,
      rr_lever = (case or_str (rec_lever rec) None of None \<Rightarrow> ''model_downshift'' | Some l \<Rightarrow> l),
      rr_route_key = (case or_str (rec_related_model rec) (or_str (rec_target_key rec) None) of None \<Rightarrow> [] | Some k \<Rightarrow> k),
      rr_objective_pass_count = None, rr_failed_with = None, rr_completed_at = None\<rparr>"

section \<open>Lemmas\<close>

lemma quantize_half_even_error: "\<bar>quantize_half_even p x - x\<bar> \<le> 1 / (2 * 10 ^ p)"
proof -
  define y m where "y = \<bar>x\<bar> * 10 ^ p" and
    "m = (let f = \<lfloor>y\<rfloor>; r = y - of_int f in if r < 1 / 2 then f else if 1 / 2 < r then f + 1 else if even f then f else f + 1)"
  have q: "quantize_half_even p x = (if x < 0 then - of_int m else of_int m) / 10 ^ p"
    by (simp add: quantize_half_even_def y_def m_def Let_def)
  have "of_int \<lfloor>y\<rfloor> \<le> y \<and> y < of_int \<lfloor>y\<rfloor> + 1" by linarith
  then have m: "\<bar>of_int m - y\<bar> \<le> 1 / 2" by (auto simp: m_def Let_def)
  have x: "x = (if x < 0 then - y else y) / 10 ^ p" by (simp add: y_def)
  have "\<bar>quantize_half_even p x - x\<bar> = \<bar>of_int m - y\<bar> / 10 ^ p"
  proof (cases "x < 0")
    case True
    then have "quantize_half_even p x - x = (y - of_int m) / 10 ^ p" using q x by (simp add: diff_divide_distrib)
    then show ?thesis by (simp add: abs_minus_commute)
  next
    case False
    then have "quantize_half_even p x - x = (of_int m - y) / 10 ^ p" using q x by (simp add: diff_divide_distrib)
    then show ?thesis by simp
  qed
  also have "\<dots> \<le> (1 / 2) / 10 ^ p" by (rule divide_right_mono [OF m]) simp
  finally show ?thesis by simp
qed

lemma mean_ci_low:
  assumes "scores \<noteq> []" "\<forall>x. 0 \<le> sq x" "mean_ci sq scores = (mean, lo, hi)"
  shows "lo \<le> sum_list scores / of_nat (length scores) + 1 / 20000"
proof -
  have err: "quantize_half_even 4 v \<le> v + 1 / 20000" for v using quantize_half_even_error [of 4 v] by (auto simp: abs_if field_simps split: if_splits)
  let ?m = "sum_list scores / of_nat (length scores)"
  have "0 \<le> 196 / 100 * sq (pvariance scores) / sq (of_nat (length scores))" using assms(2) by simp
  then show ?thesis
    using assms(1,3) err [of ?m] err [of "?m - 196 / 100 * sq (pvariance scores) / sq (of_nat (length scores))"]
    by (auto simp: mean_ci_def Let_def split: if_splits)
qed

text \<open>The books of a run agree with its result rows.\<close>

definition result_ok :: "sample_result \<Rightarrow> bool" where
  "result_ok r \<longleftrightarrow>
     (case sr_objective_pass r of
        Some ok \<Rightarrow> sr_scorer r \<noteq> Scorer_Judge \<and> sr_score r = (if ok then 0 else -1)
      | None \<Rightarrow> sr_scorer r = Scorer_Judge)"

definition totals_ok :: "eval_totals \<Rightarrow> bool" where
  "totals_ok t \<longleftrightarrow>
     et_scores t = map sr_score (et_results t) \<and> et_scorers t = map sr_scorer (et_results t) \<and>
     et_obj_total t = length (filter (\<lambda>r. sr_objective_pass r \<noteq> None) (et_results t)) \<and>
     et_obj_pass t = length (filter (\<lambda>r. sr_objective_pass r = Some True) (et_results t)) \<and>
     list_all result_ok (et_results t)"

lemma score_sample_objective:
  assumes "score_sample loads s i c = Some (sc, score, Some ok)"
  shows "sc \<noteq> Scorer_Judge \<and> score = (if ok then 0 else -1)"
  using assms by (auto simp: score_sample_def pass_fail_def split: option.splits bool.splits if_splits)

lemma judged_subjective:
  assumes "judged env s i c (sc', score', None) = Some (sc, score, obj, winner, reasoning)"
  shows "obj = None" "sc = Scorer_Judge" "\<exists>p. score = judge_score (fst (judge_pairwise (ee_judge_once env) p i c))"
  using assms by (auto simp: judged_def case_prod_beta)

lemma judged_ok:
  assumes "score_sample loads s i c = Some scored" "judged env s i c scored = Some (sc, score, obj, winner, reasoning)"
  shows "case obj of Some ok \<Rightarrow> sc \<noteq> Scorer_Judge \<and> score = (if ok then 0 else -1) | None \<Rightarrow> sc = Scorer_Judge"
proof -
  obtain sc' score' obj' where scored: "scored = (sc', score', obj')" by (metis prod_cases3)
  show ?thesis
  proof (cases obj')
    case None
    then show ?thesis using judged_subjective(1,2) [of env s i c sc' score'] assms(2) by (simp add: scored)
  next
    case (Some ok)
    then have "score_sample loads s i c = Some (sc, score, Some ok)" "obj = Some ok"
      using assms by (simp_all add: judged_def scored)
    then show ?thesis using score_sample_objective [of loads s i c sc score ok] by simp
  qed
qed

lemma eval_sample_cases:
  assumes "eval_sample env run s t = Inr t'"
  obtains "t' = t" | payload tokens inc cand scored sc score obj winner reasoning
    where "score_sample (ee_loads env) s inc cand = Some scored"
      "judged env s inc cand scored = Some (sc, score, obj, winner, reasoning)"
      "t' = add_scored env run s payload tokens (sc, score, obj, winner, reasoning) t"
  using assms by (auto simp: eval_sample_def split: option.splits json.splits if_splits)

lemma eval_sample_ok:
  assumes "totals_ok t" "eval_sample env run s t = Inr t'"
  shows "totals_ok t'"
  using assms(2)
proof (cases rule: eval_sample_cases)
  case (2 payload tokens inc cand scored sc score obj winner reasoning)
  show ?thesis
    using assms(1) judged_ok [OF 2(1,2)] by (auto simp: 2(3) add_scored_def totals_ok_def result_ok_def Let_def)
qed (use assms(1) in simp)

lemma eval_samples_ok:
  "eval_samples env run ss t = Inr t' \<Longrightarrow> totals_ok t \<Longrightarrow> totals_ok t'"
  by (induction ss arbitrary: t) (auto split: sum.splits dest: eval_sample_ok)

section \<open>Properties\<close>

lemma routable_samples_subset:
  assumes "routable_samples run (select_samples es run rows) = Some samples"
  shows "set samples \<subseteq> set rows"
proof -
  have kept: "keep_eligible xs = Some ys \<Longrightarrow> set ys \<subseteq> set xs" for xs ys
    by (induction xs arbitrary: ys) (auto split: option.splits if_splits)
  have "set samples \<subseteq> set (select_samples es run rows)"
    using assms kept unfolding routable_samples_def by (metis option.inject subset_refl)
  then show ?thesis by (auto simp: select_samples_def dest!: in_set_takeD)
qed

lemma failed_run_fields:
  assumes "failed_run env run s fs = (run', s')"
  shows "er_status run' = Run_Failed" "er_verdict run' = er_verdict run" "s' = s\<lparr>ev_registry := ev_registry s @ fs\<rparr>"
  using assms by (auto simp: failed_run_def)

lemma completed_run_fields:
  assumes "completed_run env run s t = (run', s')"
  shows "run' = finalize_run env run t" "ev_results s' = ev_results s @ map (Pair (er_id run)) (et_results t)"
  using assms by (auto simp: completed_run_def Let_def)

lemma run_eval_cases:
  assumes "run_eval env rows run s = (run', s')"
  obtains (failed) fs where "er_status run' = Run_Failed" "er_verdict run' = er_verdict run"
      "s' = s\<lparr>ev_registry := ev_registry s @ fs\<rparr>"
  | (completed) samples t where "set samples \<subseteq> set rows" "eval_samples env run samples (no_totals (ev_books s)) = Inr t"
      "run' = finalize_run env run t" "ev_results s' = ev_results s @ map (Pair (er_id run)) (et_results t)"
proof (cases "routable_samples run (select_samples (ee_settings env) run rows)")
  case None
  then have "failed_run env run s [] = (run', s')" using assms by (simp add: run_eval_def)
  note fields = failed_run_fields [OF this]
  show ?thesis by (rule failed [OF fields])
next
  case (Some samples)
  show ?thesis
  proof (cases "eval_samples env run samples (no_totals (ev_books s))")
    case (Inl fs)
    then have "failed_run env run s fs = (run', s')" using assms Some by (simp add: run_eval_def)
    note fields = failed_run_fields [OF this]
    show ?thesis by (rule failed [OF fields])
  next
    case (Inr t)
    then have "completed_run env run s t = (run', s')" using assms Some by (simp add: run_eval_def)
    note fields = completed_run_fields [OF this]
    show ?thesis by (rule completed [OF routable_samples_subset [OF Some] Inr fields])
  qed
qed

lemma finalize_run_fields:
  "er_verdict (finalize_run env run t) = Some (verdict_of (ee_settings env) (fst (snd (mean_ci (ee_sqrt env) (et_scores t)))) t)"
  "er_status (finalize_run env run t) = Run_Completed"
  by (simp_all add: finalize_run_def Let_def split: prod.split)

lemma safe_totals:
  assumes ok: "totals_ok t" and safe: "verdict_of es lo t = Safe"
  shows "es_min_samples es \<le> int (length (et_results t))"
    and "\<forall>r \<in> set (et_results t). sr_scorer r \<noteq> Scorer_Judge \<and> sr_objective_pass r \<noteq> None"
    and "et_obj_total t = length (et_results t)" "et_results t \<noteq> []"
    and "es_objective_pass_threshold es \<le> of_nat (et_obj_pass t) / of_nat (length (et_results t)) + 1 / 20000"
    and "- 5 / 100 \<le> lo"
    and "sum_list (et_scores t) = - of_nat (length (et_results t) - et_obj_pass t)"
proof -
  have scorers: "Scorer_Judge \<notin> set (et_scorers t)" and len: "es_min_samples es \<le> int (length (et_results t))"
    and lo: "- 5 / 100 \<le> lo"
    using safe ok by (auto simp: verdict_of_def totals_ok_def not_less split: if_splits option.splits)
  obtain rate where rate: "objective_rate t = Some rate" "es_objective_pass_threshold es \<le> rate"
    using safe by (auto simp: verdict_of_def split: if_splits option.splits)
  have objective: "\<forall>r \<in> set (et_results t). sr_scorer r \<noteq> Scorer_Judge \<and> sr_objective_pass r \<noteq> None"
  proof
    fix r assume r: "r \<in> set (et_results t)"
    then have "result_ok r" "sr_scorer r \<in> set (et_scorers t)" using ok by (simp_all add: totals_ok_def list_all_iff)
    then show "sr_scorer r \<noteq> Scorer_Judge \<and> sr_objective_pass r \<noteq> None"
      using scorers by (cases "sr_objective_pass r") (auto simp: result_ok_def)
  qed
  then have tot: "et_obj_total t = length (et_results t)" using ok by (simp add: totals_ok_def)
  have pos: "et_obj_total t \<noteq> 0" using rate(1) by (auto simp: objective_rate_def split: if_splits)
  have "rate \<le> of_nat (et_obj_pass t) / of_nat (length (et_results t)) + 1 / 20000"
    using rate(1) pos quantize_half_even_error [of 4 "of_nat (et_obj_pass t) / of_nat (et_obj_total t)"]
    by (auto simp: objective_rate_def tot abs_if field_simps split: if_splits)
  with rate(2) show "es_objective_pass_threshold es \<le> of_nat (et_obj_pass t) / of_nat (length (et_results t)) + 1 / 20000"
    by linarith
  have sums: "sum_list (map sr_score rs) = - of_nat (length (filter (\<lambda>r. sr_objective_pass r \<noteq> Some True) rs))"
    if "\<forall>r \<in> set rs. result_ok r \<and> sr_objective_pass r \<noteq> None" for rs
    using that by (induction rs) (auto simp: result_ok_def split: option.splits)
  have "length (filter (\<lambda>r. sr_objective_pass r \<noteq> Some True) (et_results t)) = length (et_results t) - et_obj_pass t"
    using ok sum_length_filter_compl [of "\<lambda>r. sr_objective_pass r = Some True" "et_results t"] by (simp add: totals_ok_def)
  then show "sum_list (et_scores t) = - of_nat (length (et_results t) - et_obj_pass t)"
    using sums [of "et_results t"] objective ok by (simp add: totals_ok_def list_all_iff)
  show "es_min_samples es \<le> int (length (et_results t))" by (rule len)
  show "\<forall>r \<in> set (et_results t). sr_scorer r \<noteq> Scorer_Judge \<and> sr_objective_pass r \<noteq> None" by (rule objective)
  show "et_obj_total t = length (et_results t)" by (rule tot)
  show "et_results t \<noteq> []" using tot pos by auto
  show "- 5 / 100 \<le> lo" by (rule lo)
qed

text \<open>
  C21. A safe verdict, the only one automation acts on, is objective evidence. A run that becomes safe has
  scored at least the minimum of samples, each of them by an objective or a golden check and none by the
  judge; the share that passed reaches the threshold and the share that failed is at most 5 percent, both up to
  the rounding in the fourth decimal; and its result rows are exactly what the verdict was computed from.
\<close>

theorem safe_verdict_is_objective:
  assumes "run_eval env rows run s = (run', s')" "er_verdict run' = Some Safe" "er_verdict run \<noteq> Some Safe"
    and "\<forall>x. 0 \<le> ee_sqrt env x"
  shows "\<exists>rs. ev_results s' = ev_results s @ map (Pair (er_id run)) rs \<and> er_status run' = Run_Completed \<and>
    es_min_samples (ee_settings env) \<le> int (length rs) \<and> rs \<noteq> [] \<and>
    (\<forall>r \<in> set rs. sr_scorer r \<noteq> Scorer_Judge \<and> sr_objective_pass r \<noteq> None) \<and>
    (let passed = length (filter (\<lambda>r. sr_objective_pass r = Some True) rs); n = length rs
     in (es_objective_pass_threshold (ee_settings env) - 1 / 20000) * of_nat n \<le> of_nat passed \<and>
        of_nat (n - passed) \<le> (5 / 100 + 1 / 20000) * (of_nat n :: rat))"
  using assms(1)
proof (cases rule: run_eval_cases)
  case (failed fs)
  then show ?thesis using assms(2,3) by simp
next
  case (completed samples t)
  let ?rs = "et_results t" and ?n = "of_nat (length (et_results t)) :: rat"
  obtain mean lo hi where ci: "mean_ci (ee_sqrt env) (et_scores t) = (mean, lo, hi)" by (metis prod_cases3)
  have "totals_ok t" by (rule eval_samples_ok [OF completed(2)]) (simp add: totals_ok_def no_totals_def)
  note ok = this
  have safe: "verdict_of (ee_settings env) lo t = Safe" using assms(2) completed(3) by (simp add: finalize_run_fields ci)
  note facts = safe_totals [OF ok safe]
  have scores: "et_scores t \<noteq> []" "length (et_scores t) = length ?rs" using ok facts(4) by (auto simp: totals_ok_def)
  have n: "0 < ?n" using facts(4) by simp
  have "- 5 / 100 \<le> - of_nat (length ?rs - et_obj_pass t) / ?n + 1 / 20000"
    using mean_ci_low [OF scores(1) assms(4) ci] facts(6,7) scores(2) by simp
  then have "of_nat (length ?rs - et_obj_pass t) \<le> (5 / 100 + 1 / 20000) * ?n" using n by (simp add: field_simps)
  moreover have "(es_objective_pass_threshold (ee_settings env) - 1 / 20000) * ?n \<le> of_nat (et_obj_pass t)"
    using facts(5) n by (simp add: field_simps)
  moreover have "et_obj_pass t = length (filter (\<lambda>r. sr_objective_pass r = Some True) ?rs)" using ok by (simp add: totals_ok_def)
  ultimately show ?thesis
    using facts(1,2,4) completed(3,4) by (intro exI [of _ ?rs]) (simp add: finalize_run_fields Let_def)
qed

text \<open>
  The judge has to say it twice. The candidate wins a comparison exactly when the judge prefers it both
  as the second and as the first answer, the incumbent likewise; a judge that follows the position, that
  disagrees with itself, or that fails, makes a tie.
\<close>

theorem judge_needs_both_orders:
  "fst (judge_pairwise once p i c) =
     (if (\<exists>a b. once p i c = Some (''second'', a) \<and> once p c i = Some (''first'', b)) then ''candidate''
      else if (\<exists>a b. once p i c = Some (''first'', a) \<and> once p c i = Some (''second'', b)) then ''incumbent''
      else ''tie'')"
  by (cases "once p i c"; cases "once p c i") (simp_all add: judge_pairwise_def winner_of_def Let_def split: prod.split)


text \<open>A judge that never answers.\<close>

lemma silent_judge_scores:
  assumes "\<forall>p a b. ee_judge_once env p a b = None"
  shows "eval_samples env run ss t = Inr t' \<Longrightarrow> \<forall>r \<in> set (et_results t). sr_objective_pass r = None \<longrightarrow> sr_score r = 0 \<Longrightarrow>
    \<forall>r \<in> set (et_results t'). sr_objective_pass r = None \<longrightarrow> sr_score r = 0"
proof (induction ss arbitrary: t)
  case (Cons s ss)
  then obtain t1 where t1: "eval_sample env run s t = Inr t1" "eval_samples env run ss t1 = Inr t'"
    by (auto split: sum.splits)
  have "\<forall>r \<in> set (et_results t1). sr_objective_pass r = None \<longrightarrow> sr_score r = 0"
    using t1(1)
  proof (cases rule: eval_sample_cases)
    case (2 payload tokens inc cand scored sc score obj winner reasoning)
    obtain sc' score' obj' where scored: "scored = (sc', score', obj')" by (metis prod_cases3)
    have "obj = None \<Longrightarrow> score = 0"
    proof (cases obj')
      case None
      then show ?thesis
        using judged_subjective(3) [of env s inc cand sc' score'] 2(2) assms by (auto simp: scored judge_pairwise_def judge_score_def)
    qed (use 2(2) in \<open>simp add: scored judged_def\<close>)
    then show ?thesis using Cons.prems(2) by (auto simp: 2(3) add_scored_def Let_def)
  qed (use Cons.prems(2) in simp)
  then show ?case by (rule Cons.IH [OF t1(2)])
qed simp

text \<open>
  An outage of the judge looks like parity. When the judge never answers, a completed run on a subjective
  route ends, from the minimum of samples on, with the verdict that sends the candidate to a human as not
  degraded, whatever the candidate answered.
\<close>

theorem silent_judge_reads_as_parity:
  assumes "run_eval env rows run s = (run', s')" "er_status run' = Run_Completed" "er_status run \<noteq> Run_Completed"
    and "\<forall>p a b. ee_judge_once env p a b = None" "ee_sqrt env 0 = 0"
    and "ev_results s' = ev_results s @ map (Pair (er_id run)) rs" "\<forall>r \<in> set rs. sr_objective_pass r = None"
    and "es_min_samples (ee_settings env) \<le> int (length rs)" "rs \<noteq> []"
  shows "er_verdict run' = Some Needs_Human"
  using assms(1)
proof (cases rule: run_eval_cases)
  case (failed fs)
  then show ?thesis using assms(2) by simp
next
  case (completed samples t)
  have "map (Pair (er_id run)) (et_results t) = map (Pair (er_id run)) rs" using completed(4) assms(6) by simp
  then have "map snd (map (Pair (er_id run)) (et_results t)) = map snd (map (Pair (er_id run)) rs)" by (rule arg_cong)
  then have rs: "et_results t = rs" by (simp add: comp_def)
  have ok: "totals_ok t" by (rule eval_samples_ok [OF completed(2)]) (simp add: totals_ok_def no_totals_def)
  have zero: "\<forall>r \<in> set rs. sr_score r = 0"
    using silent_judge_scores [OF assms(4) completed(2)] assms(7) rs by (simp add: no_totals_def)
  then have scores: "et_scores t = replicate (length rs) 0"
    using ok by (simp add: totals_ok_def rs map_replicate_const [symmetric] cong: map_cong)
  have "Scorer_Judge \<in> set (et_scorers t)"
    using ok assms(7,9) by (cases rs) (auto simp: totals_ok_def rs result_ok_def)
  moreover have "fst (snd (mean_ci (ee_sqrt env) (et_scores t))) = 0"
    by (simp add: scores mean_ci_def pvariance_def Let_def sum_list_replicate assms(5))
  moreover have "length (et_scores t) = length rs" by (simp add: scores)
  ultimately show ?thesis using completed(3) assms(8) by (simp add: finalize_run_fields verdict_of_def)
qed

definition demo_env :: "json \<Rightarrow> eval_env" where
  "demo_env answer =
     \<lparr>ee_settings = default_eval_settings\<lparr>es_min_samples := 1\<rparr>, ee_loads = (\<lambda>s. None), ee_sqrt = (\<lambda>x. 0),
      ee_replay = (\<lambda>ms ps m. Some answer), ee_py_str = (\<lambda>v. []),
      ee_registry_writable = True, ee_judge_once = (\<lambda>p a b. None),
      ee_prices = \<lparr>pt_overrides = [], pt_prices = []\<rparr>, ee_recommendations = [], ee_note = (\<lambda>v n r. ''n''),
      ee_now = 10, ee_new_id = ''cr''\<rparr>"

definition demo_run :: run_row where
  "demo_run =
     \<lparr>er_id = ''run'', er_project_id = ''p'', er_recommendation_id = None, er_created_at = 1, er_status = Run_Pending,
      er_verdict = None, er_incumbent_model = Some ''gpt-4o'', er_candidate_model = Some ''gpt-4o-mini'',
      er_cost_delta_usd = None, er_scorer_type = None, er_sample_count = 0, er_win_count = 0, er_tie_count = 0,
      er_loss_count = 0, er_score_delta = None, er_score_delta_ci_low = None, er_score_delta_ci_high = None,
      er_objective_pass_rate = None, er_notes = None, rr_organization_id = ''o'', rr_lever = ''model_downshift'',
      rr_route_key = ''r'', rr_objective_pass_count = None, rr_failed_with = None, rr_completed_at = None\<rparr>"

definition demo_sample :: "string option \<Rightarrow> (string \<times> json) list option \<Rightarrow> replay_sample" where
  "demo_sample expected incumbent =
     \<lparr>rs_id = ''s'', rs_organization_id = ''o'', rs_project_id = ''p'', rs_route_key = ''r'', rs_source = source_golden,
      rs_incumbent_model = ''gpt-4o'', rs_request_messages = JList [], rs_request_params = [],
      rs_incumbent_response = incumbent, rs_expected_output = expected, rs_input_tokens = 0, rs_output_tokens = 0,
      rs_expires_at = None, rs_created_at = 1\<rparr>"

definition no_books :: eval_state where
  "no_books = \<lparr>ev_books = (Map.empty, []), ev_results = [], ev_change_requests = [], ev_registry = []\<rparr>"

definition demo_answer :: "string \<Rightarrow> json" where
  "demo_answer t = JObj [(''choices'', JList [JObj [(''message'', JObj [(''content'', JStr t)])]])]"

lemmas demo_defs = demo_env_def demo_run_def demo_sample_def no_books_def demo_answer_def default_eval_settings_def

lemma select_demo [simp]:
  "select_samples (ee_settings (demo_env a)) demo_run [demo_sample e i] = [demo_sample e i]"
  by (simp add: select_samples_def demo_defs)

lemma routable_demo [simp]: "routable_samples demo_run ss = Some ss"
  by (simp add: routable_samples_def demo_run_def)

lemma demo_texts [simp]:
  "ee_replay (demo_env a) ms ps m = Some a" "usage_tokens (demo_answer t) = Some (0, 0)"
  "normalize_text (JStr '' Yes'') = Some ''yes''" "normalize_text (JStr ''yes'') = Some ''yes''"
  "ee_sqrt (demo_env a) = (\<lambda>x. 0)" "es_min_samples (ee_settings (demo_env a)) = 1"
  "es_objective_pass_threshold (ee_settings (demo_env a)) = 95 / 100"
  by (simp add: demo_env_def, simp add: usage_tokens_def demo_answer_def dict_get_def, code_simp, code_simp,
      simp_all add: demo_env_def default_eval_settings_def)

lemma add_scored_fields [simp]:
  "et_scores (add_scored env run s p tk (sc, score, obj, w, r) t) = et_scores t @ [score]"
  "et_scorers (add_scored env run s p tk (sc, score, obj, w, r) t) = et_scorers t @ [sc]"
  "et_obj_total (add_scored env run s p tk (sc, score, obj, w, r) t) = et_obj_total t + (if obj = None then 0 else 1)"
  "et_obj_pass (add_scored env run s p tk (sc, score, obj, w, r) t) = et_obj_pass t + (if obj = Some True then 1 else 0)"
  by (simp_all add: add_scored_def Let_def)

lemma no_totals_fields [simp]:
  "et_scores (no_totals b) = []" "et_scorers (no_totals b) = []" "et_obj_total (no_totals b) = 0" "et_obj_pass (no_totals b) = 0"
  by (simp_all add: no_totals_def)

lemma demo_scored:
  "eval_sample (demo_env (demo_answer '' Yes'')) demo_run (demo_sample (Some ''yes'') None) (no_totals b) =
     Inr (add_scored (demo_env (demo_answer '' Yes'')) demo_run (demo_sample (Some ''yes'') None) (demo_answer '' Yes'') (0, 0)
       (Scorer_Golden, 0, Some True, None, []) (no_totals b))"
proof -
  have "\<exists>p. demo_answer '' Yes'' = JObj p \<and> assistant_text (Some p) = Some (JStr '' Yes'')"
    by (simp add: demo_answer_def assistant_text_def answer_content_def dict_get_default_def dict_get_def)
  then obtain p where p: "demo_answer '' Yes'' = JObj p" "assistant_text (Some p) = Some (JStr '' Yes'')" by blast
  have u: "usage_tokens (JObj p) = Some (0, 0)" using demo_texts(2) [of "'' Yes''"] p(1) by simp
  have inc: "assistant_text (rs_incumbent_response (demo_sample e None)) = Some (JStr [])" for e
    by (simp add: assistant_text_def demo_sample_def)
  have "score_sample loads (demo_sample (Some ''yes'') None) (JStr []) (JStr '' Yes'') = Some (Scorer_Golden, 0, Some True)" for loads
    by (simp add: score_sample_def demo_sample_def or_str_def same_text_def pass_fail_def del: normalize_text.simps)
  then show ?thesis by (simp add: eval_sample_def judged_def p u inc)
qed

text \<open>A golden sample answered correctly makes the run safe; a replay that answers with a list fails it.\<close>

lemma demo_run_is_safe:
  "er_verdict (fst (run_eval (demo_env (demo_answer '' Yes'')) [demo_sample (Some ''yes'') None] demo_run no_books)) = Some Safe"
proof -
  have "quantize_half_even 4 0 = 0" "quantize_half_even 4 1 = 1" by (simp_all add: quantize_half_even_def)
  then show ?thesis
    by (simp add: run_eval_def demo_scored completed_run_def Let_def finalize_run_fields verdict_of_def
        mean_ci_def objective_rate_def)
qed

lemma demo_run_fails:
  "run_eval (demo_env (JList [])) [demo_sample None None] demo_run no_books = failed_run (demo_env (JList [])) demo_run no_books []"
  by (simp add: run_eval_def eval_sample_def usage_tokens_def no_totals_def)

theorem safe_verdict_is_objective_witness:
  "\<exists>rs. ev_results (snd (run_eval (demo_env (demo_answer '' Yes'')) [demo_sample (Some ''yes'') None] demo_run no_books)) =
       map (Pair ''run'') rs \<and> rs \<noteq> []"
proof -
  obtain run' s' where e: "run_eval (demo_env (demo_answer '' Yes'')) [demo_sample (Some ''yes'') None] demo_run no_books = (run', s')"
    by (metis prod.exhaust)
  have "er_verdict run' = Some Safe" using demo_run_is_safe by (simp add: e)
  from safe_verdict_is_objective [OF e this] show ?thesis by (auto simp: e) (simp_all add: demo_run_def no_books_def, blast?)
qed


end
