(* ===== verification/Spec2Isabelle.thy ===== *)
theory Spec2Isabelle
  imports Streams Batch Drift Periods Promotion Evaluation
begin

text \<open>
  Varsten is a proxy in front of LLM providers (\<open>src/backend/app\<close>). It records every request in a
  ledger, proposes optimizations (cheaper model, smart routing, trimming, compression, caching,
  batching), evaluates them off the path, lets a human or the autopilot apply them, measures what they
  save and bills a share of it. This library models the parts that decide: who may change traffic,
  which change goes live, what happens to a request, what counts as saved, and what is billed.

  \<^bold>\<open>Parts, theories and sources\<close>

  \<^item> \<open>Prelude\<close>, \<open>Json\<close>, \<open>Settings\<close>, \<open>Calendar\<close>: shared vocabulary. Python string functions, decimal
    quantization, JSON values and dictionaries, the settings of \<open>core/config.py\<close> that the modelled
    code reads, the proleptic Gregorian calendar in microseconds.
  \<^item> \<open>SharedState\<close> (\<open>proxy/shared_state.py\<close>): the key-value store shared between instances, in process
    or in Redis. Its contract is the locale \<open>keyed_store\<close>, interpreted on the in-process store.
  \<^item> \<open>Circuit\<close> (\<open>proxy/circuit.py\<close>), \<open>Resilience\<close> (\<open>proxy/resilience.py\<close>), \<open>RateLimit\<close>
    (\<open>core/ratelimit.py\<close>): the protections around an upstream call.
  \<^item> \<open>RequestContext\<close> (\<open>proxy/request_context.py\<close>), \<open>RouteIdentity\<close> (\<open>engine/route_identity.py\<close>): what a
    request says about itself.
  \<^item> \<open>Trim\<close> (\<open>proxy/trim.py\<close>), \<open>RoutePredicate\<close> (\<open>proxy/predicate.py\<close>), \<open>Canary\<close> (\<open>proxy/canary.py\<close>),
    \<open>Bandit\<close> (\<open>engine/bandit.py\<close>), \<open>Policies\<close> (\<open>proxy/routing.py\<close> and the resolvers of \<open>proxy/trim.py\<close>
    and \<open>proxy/compression.py\<close>): what happens to a request on the hot path. The lookup contract of the
    three policy resolvers is the locale \<open>policy_source\<close>, interpreted three times.
  \<^item> \<open>Levers\<close> (\<open>levers.py\<close>, \<open>lever_controls.py\<close>, \<open>models/proxy_policy.py\<close>), \<open>Governance\<close> (\<open>eval/gate.py\<close>,
    \<open>engine/governance.py\<close>), \<open>Execution\<close> (\<open>proxy/execution.py\<close>, \<open>recommendation_transitions.py\<close>, the
    activations of \<open>proxy/routing.py\<close>, \<open>proxy/trim.py\<close>, \<open>proxy/compression.py\<close>): the control plane, from
    a recommendation through the gates to a live policy and back.
  \<^item> \<open>RequestFacts\<close> (\<open>engine/request_facts.py\<close>, \<open>classification.py\<close>, \<open>cache_policy.py\<close>, \<open>runtime_trace.py\<close>),
    \<open>Planner\<close> (\<open>engine/planner.py\<close>): the class of a request and what the planner authorizes for it.
  \<^item> \<open>Dialects\<close> (\<open>proxy/client_dialects.py\<close>, \<open>proxy/routing_eligibility.py\<close>), \<open>Providers\<close>
    (\<open>proxy/providers\<close>), \<open>Compression\<close> (\<open>proxy/compression.py\<close>), \<open>ResponseCache\<close> (\<open>proxy/cache.py\<close>),
    \<open>Evidence\<close> (\<open>proxy/evidence.py\<close>, \<open>quality.py\<close>, \<open>prompt_prefix.py\<close>), \<open>EvalCapture\<close> (\<open>eval/capture.py\<close>):
    the parts the request pipeline calls. The contract of an exact cache lookup is the locale
    \<open>exact_lookup\<close>, interpreted on the table and on the snapshot cache.
  \<^item> \<open>Router\<close>, \<open>Pipeline\<close>, \<open>Forward\<close> (\<open>proxy/router.py\<close> with \<open>origin.py\<close>, \<open>embedding.py\<close>,
    \<open>optimization_decisions.py\<close>): the OpenAI-shaped endpoint from the rate limiter to the reply and the
    bookkeeping after it. \<open>Router\<close> holds the environment and the world, the set-up and the cache probe;
    \<open>Pipeline\<close> the budget block and the choice of at most one optimization; \<open>Forward\<close> the upstream call with
    breaker, retries and fallback, the metering jobs and the endpoint \<open>openai_dialect_completions\<close>.
  \<^item> \<open>Transforms\<close> (\<open>proxy/client_transforms.py\<close>), \<open>StreamTranslators\<close> (the stream translators of
    \<open>proxy/providers\<close>), \<open>Streams\<close> (\<open>_stream_through\<close> of \<open>proxy/router.py\<close>): the translation between dialects and
    the streamed reply. A Python generator is the list of what it yields with the state it leaves, \<open>None\<close> when it
    raised; an upstream stream is, per attempt, a refusal, a lost connection, or chunks and the exception that ended
    them. A chunk sent to the client is a structure, its wire form a separate function.
  \<^item> \<open>Batch\<close> (\<open>proxy/batch.py\<close>), \<open>Sequential\<close> (\<open>proxy/sequential.py\<close>), \<open>Drift\<close> (\<open>proxy/drift.py\<close>): the
    asynchronous lane, the confidence sequences and the live quality guard with the canary ramp.
  \<^item> \<open>Pricing\<close> (\<open>pricing/service.py\<close>), \<open>Ledger\<close> (\<open>models/usage_event.py\<close>), \<open>LedgerWrite\<close>
    (\<open>proxy/ledger.py\<close>, \<open>api/v1/usage_events.py\<close>): the ledger and its writers.
  \<^item> \<open>SavingsMeasurement\<close> (\<open>savings_measurement.py\<close>, \<open>proxy/experiment.py\<close>), \<open>Billing\<close> (\<open>billing.py\<close>),
    \<open>Savings\<close> (\<open>savings.py\<close>), \<open>Periods\<close> (\<open>periods.py\<close>), \<open>Budgets\<close> (\<open>budgets.py\<close>,
    \<open>proxy/budget_enforcement.py\<close>): what was saved, what is billed, what is capped.
  \<^item> \<open>BillingLifecycle\<close> (\<open>billing_lifecycle.py\<close>), \<open>Entitlements\<close> (\<open>auth/entitlements.py\<close>): the
    subscription of an organization and the plan gate it gives.
  \<^item> \<open>Workloads\<close> (\<open>engine/agent_loops.py\<close>, \<open>engine/prefix_analysis.py\<close>), \<open>Recommendations\<close>
    (\<open>recommendations.py\<close>): the recommendation engine. A generator is a function from the month of the ledger
    to a list of seeds, the refresh an upsert of all seeds, the freshness gate and the commit a case on the
    unique constraint.
  \<^item> \<open>Outcomes\<close> (\<open>engine/outcomes.py\<close>), \<open>Priors\<close> (\<open>engine/priors.py\<close>), \<open>Promotion\<close> (\<open>engine/promotion.py\<close>):
    the learning loop. Decisions and feedback are summed per segment with decay, the scored segments become
    the table of priors that planner and bandit read, and the sweep promotes ready segments to
    recommendations, moves the holdbacks and applies what the autopilot may apply.
  \<^item> \<open>Evaluation\<close> (\<open>eval/runner.py\<close>, \<open>eval/scoring.py\<close>, the judge of \<open>eval/openai_ops.py\<close>,
    \<open>eval/failure_registry.py\<close>): the shadow run that replays stored samples and writes the verdict the gate
    reads. A run is a fold over its samples; an exception on the way is the failed run.

  \<^bold>\<open>Conventions\<close>

  Definitions carry the source's names and the source's branch order; one definition models one
  function or method. A database table is a list of rows, a query a filter over it, \<open>ORDER BY ... LIMIT 1\<close>
  a function that returns a latest row. A function that writes returns the new tables. A raised
  exception is the \<open>Inl\<close> of a sum, and a fail-open handler is a case on a flag or an option that says
  whether the guarded call raised. \<open>Decimal\<close> and \<open>float\<close> amounts are rationals (\<open>quantize\<close> is written
  out; NaN, infinities and overflow are explicit where the source can meet them), a \<open>datetime\<close> is an
  integer number of microseconds since the epoch, a UUID is a string, characters are those of Latin-1.
  A time-to-live cache is a partial map that may have lost any entry, except where a property is about
  the lifetime itself (\<open>SharedState\<close>). Each operation reads its clock once, as an argument; random draws
  and new row keys are arguments. Code outside the repository is a parameter: the JSON decoder and
  encoder, the printing of floats, digests and the cosine distance, the Redis client, square root and
  logarithm, the answers of providers and of the embedding service (\<open>e_post\<close>, \<open>e_embed\<close>). In the request
  pipeline all that a request reads is one record \<open>env\<close> (settings, rows, clocks, draws, third parties) and all
  that it writes is one record \<open>world\<close>; a step returns an option or a sum where the code can raise, and the
  code's \<open>except Exception\<close> seams are cases on it. What runs after the response is a list of jobs. There is no
  fuel: every recursion of the model terminates by its data (the retry loop by its list of delays, the
  canary ramp by the distance to the last stage).

  \<^bold>\<open>What the lemmas show\<close>

  \<^item> Control plane: an application succeeds exactly when all gates agree; what is activated is what the
    hot path serves; a rollback always succeeds and stops serving at once; decided change requests are
    frozen and a rolled-back one cannot be applied again.
  \<^item> Hot path: the breaker opens at its threshold, cools down, and protects the fleet through the shared
    store; retries are bounded and relay the last outcome; the limiter admits exactly the limit; trimming
    changes only messages and keeps to its contract; bandit and predicate choose only what their rules
    allow; the canary ramp ends fully live.
  \<^item> Request pipeline: whatever the policies and failures, the forwarded request is one the specification
    \<open>admissible\<close> allows, changed in one respect at most and only with clearance; a bypassed or observe-only
    request is relayed untouched; the cache serves only live entries of the caller's project that its gates
    allow; a 200 is always an upstream's 200; a reply is metered once; the evaluation corpus holds consented
    samples within its caps.
  \<^item> Streams: a native Anthropic client gets a well-formed message stream with the whole text, however the network cuts
    the upstream's; the client gets the bytes of at most one attempt; what is metered and cached is what was sent;
    one streamed reply is one ledger row at most.
  \<^item> Planner, drift and batches: the planner enforces the first authorized lever; the sweep does exactly
    what its confident verdicts say; a finalized batch reconciles with its ledger rows.
  \<^item> Money: price precedence and stability of historical prices; a ledger row counts once; the two
    buckets of verified savings are disjoint; the fee is capped; invoices are idempotent and final;
    dashboards reconcile; enforcement and dashboard agree on exhausted budgets.
  \<^item> Recommendations and learning: a refresh keeps the decisions of humans and, repeated, changes nothing; the
    readiness of a segment is a function of its own rows; what a refresh of the priors stores is what the next
    request reads, and only for its own project; the autopilot applies only what every gate a human passes
    allows; an applied promotion switches its own generator off; holdbacks stay within their bounds and
    reach a fixed point.
  \<^item> Evaluation: a verdict that automation may act on rests on enough samples, every one scored
    objectively; the judge counts only when both orders agree; a failed run leaves no row behind.
  \<^item> Subscription: tier and status agree in every reachable state, the sweep equals the lazy expiry, the
    gate opens exactly for paying or validly trialing workspaces, a downgrade takes effect at once.

  A few theorems state where the code departs from its own comments (repeated turns dropped by the
  trim, the one-sided exclusion of transforms, reopening, rounding above the fee cap, the last second of a
  month, ingested metadata, the NaN back-off, cache hits metered at the wrong provider, idempotency keys reused
  by the fallback, instructions lost in translation, expired entries that block a store, a refresh broken by an environment
  named unknown, an approved automation upgrade without effect, a silent judge that reads as parity, images lost
  on the way to another provider, streams that break and are neither metered nor counted by the breaker, refusals
  sent as event streams).

  \<^bold>\<open>Not modelled\<close>

  A client that disconnects during a stream, the native Anthropic and Gemini endpoints of \<open>proxy/router.py\<close>, the dashboard queries of \<open>api/v1/product_sections.py\<close> and
  \<open>engine/reporting.py\<close> (aggregation for display), the generation of compressed prompts and its evaluation
  (\<open>engine/compression.py\<close>), the HTTP clients of providers, batches, Stripe and the identity provider, key
  storage, authentication, schemas, timers, scripts and deployment: they are calls to third parties, queries for
  display or glue around the operations above.
\<close>

end
